(* ===== verification/Prelude.thy ===== *)
theory Prelude
  imports Complex_Main "HOL-Library.AList" "HOL-Library.Sublist"
begin

text \<open>
  Shared vocabulary of the development: the simplification collections the component
  theories fill, the few JavaScript string operations the sources use, insertion-ordered
  maps (a JavaScript \<open>Map\<close> is an association list updated in place and extended
  at the end), fallible results, and the list facts several components need.

  Strings are lists of 8-bit characters: a JavaScript code unit below 256 is one character.
  Numbers that the sources use as counts and millisecond timestamps are \<open>int\<close>.
\<close>

named_theorems js_simps \<open>characteristic equations of the JavaScript helpers\<close>
named_theorems store_simps \<open>lookup-after-update equations of the stores\<close>
named_theorems keeps_intros \<open>an operation keeps the invariant of its component\<close>

section \<open>Fallible results\<close>

text \<open>A function that may throw returns \<open>Inl\<close> the error or \<open>Inr\<close> the value.\<close>

type_synonym ('e, 'a) result = "'e + 'a"

fun bind_result :: "('e, 'a) result \<Rightarrow> ('a \<Rightarrow> ('e, 'b) result) \<Rightarrow> ('e, 'b) result" where
  "bind_result (Inl e) f = Inl e"
| "bind_result (Inr x) f = f x"

definition throw_when :: "bool \<Rightarrow> 'e \<Rightarrow> ('e, 'a) result \<Rightarrow> ('e, 'a) result" where
  "throw_when b e k = (if b then Inl e else k)"

lemma bind_result_eq_Inr_iff [simp]:
  "bind_result r f = Inr y \<longleftrightarrow> (\<exists>x. r = Inr x \<and> f x = Inr y)"
  by (cases r) auto

lemma throw_when_eq_Inr_iff [simp]: "throw_when b e k = Inr y \<longleftrightarrow> \<not> b \<and> k = Inr y"
  by (auto simp: throw_when_def)

lemma throw_when_eq_Inl_iff [simp]:
  "throw_when b e k = Inl e' \<longleftrightarrow> (b \<and> e = e') \<or> (\<not> b \<and> k = Inl e')"
  by (auto simp: throw_when_def)

section \<open>Strings\<close>

text \<open>The numeric code unit of a character, and the character classes of the regexps.\<close>

definition code_unit :: "char \<Rightarrow> nat" where
  "code_unit c = of_char c"

definition is_lower_alnum :: "char \<Rightarrow> bool" where
  "is_lower_alnum c =
     ((97 \<le> code_unit c \<and> code_unit c \<le> 122) \<or> (48 \<le> code_unit c \<and> code_unit c \<le> 57))"

text \<open>\<open>String.prototype.startsWith\<close>, \<open>endsWith\<close>, \<open>includes\<close> and \<open>indexOf\<close> (of one character).\<close>

definition starts_with :: "string \<Rightarrow> string \<Rightarrow> bool" where
  "starts_with s p = (take (length p) s = p)"

definition ends_with :: "string \<Rightarrow> string \<Rightarrow> bool" where
  "ends_with s p = starts_with (rev s) (rev p)"

fun str_includes :: "string \<Rightarrow> string \<Rightarrow> bool" where
  "str_includes [] p = (p = [])"
| "str_includes (c # s) p = (starts_with (c # s) p \<or> str_includes s p)"

fun index_of :: "'a \<Rightarrow> 'a list \<Rightarrow> nat option" where
  "index_of c [] = None"
| "index_of c (d # s) = (if d = c then Some 0 else map_option Suc (index_of c s))"

text \<open>\<open>String.prototype.trim\<close>: the white space and line terminators below code unit 256.\<close>

definition is_js_space :: "char \<Rightarrow> bool" where
  "is_js_space c = (code_unit c \<in> {9, 10, 11, 12, 13, 32, 160})"

definition js_trim :: "string \<Rightarrow> string" where
  "js_trim s = rev (dropWhile is_js_space (rev (dropWhile is_js_space s)))"

text \<open>Decimal text of a whole number, and \<open>Number.parseInt (s, 10)\<close> (\<open>None\<close> is \<open>NaN\<close>).\<close>

fun dec_digits :: "nat \<Rightarrow> string" where
  "dec_digits n =
     (if n < 10 then [char_of (48 + n)] else dec_digits (n div 10) @ [char_of (48 + n mod 10)])"

declare dec_digits.simps [simp del]

definition dec_string :: "int \<Rightarrow> string" where
  "dec_string z = (if z < 0 then CHR ''-'' # dec_digits (nat (- z)) else dec_digits (nat z))"

definition is_digit :: "char \<Rightarrow> bool" where
  "is_digit c = (48 \<le> code_unit c \<and> code_unit c \<le> 57)"

definition digits_int :: "string \<Rightarrow> int" where
  "digits_int ds = fold (\<lambda>c acc. 10 * acc + (int (code_unit c) - 48)) ds 0"

definition js_parseInt :: "string \<Rightarrow> int option" where
  "js_parseInt s =
     (let t = dropWhile is_js_space s;
          neg = (t \<noteq> [] \<and> hd t = CHR ''-'');
          u = (if t \<noteq> [] \<and> (hd t = CHR ''-'' \<or> hd t = CHR ''+'') then tl t else t);
          ds = takeWhile is_digit u
      in if ds = [] then None else Some (if neg then - digits_int ds else digits_int ds))"

lemma starts_with_prefix: "starts_with s p \<longleftrightarrow> prefix p s"
  by (auto simp: starts_with_def prefix_def)
     (metis append_take_drop_id)

lemma starts_with_append [simp, js_simps]: "starts_with (p @ s) p"
  by (simp add: starts_with_def)

lemma str_includes_iff: "str_includes s p \<longleftrightarrow> sublist p s"
  by (induction s p rule: str_includes.induct)
     (auto simp: starts_with_prefix sublist_Cons_right)

lemma index_of_None_iff [simp]: "index_of c s = None \<longleftrightarrow> c \<notin> set s"
  by (induction s) auto

lemma index_of_Some_iff:
  "index_of c s = Some i \<longleftrightarrow> i < length s \<and> s ! i = c \<and> c \<notin> set (take i s)"
proof (induction s arbitrary: i)
  case (Cons d s)
  then show ?case by (cases i) auto
qed simp

lemma index_of_append [simp, js_simps]: "c \<notin> set v \<Longrightarrow> index_of c (v @ c # a) = Some (length v)"
  by (induction v) auto

lemma str_includes_singleton [simp, js_simps]: "str_includes s [c] \<longleftrightarrow> c \<in> set s"
  by (induction s) (auto simp: starts_with_def)

section \<open>Insertion-ordered maps\<close>

text \<open>\<open>Map.set\<close>, \<open>Map.delete\<close>, \<open>Map.get\<close> and \<open>Map.has\<close>.\<close>

abbreviation map_set :: "'k \<Rightarrow> 'v \<Rightarrow> ('k \<times> 'v) list \<Rightarrow> ('k \<times> 'v) list" where
  "map_set k v m \<equiv> AList.update k v m"

abbreviation map_remove :: "'k \<Rightarrow> ('k \<times> 'v) list \<Rightarrow> ('k \<times> 'v) list" where
  "map_remove k m \<equiv> AList.delete k m"

abbreviation map_has :: "('k \<times> 'v) list \<Rightarrow> 'k \<Rightarrow> bool" where
  "map_has m k \<equiv> map_of m k \<noteq> None"

lemma map_of_set [simp, store_simps]:
  "map_of (map_set k v m) j = (if j = k then Some v else map_of m j)"
  by (simp add: update_conv)

lemma map_of_remove [simp, store_simps]:
  "map_of (map_remove k m) j = (if j = k then None else map_of m j)"
  by (simp add: delete_conv)

section \<open>Lists\<close>

lemma find_Some_D: "find P xs = Some x \<Longrightarrow> x \<in> set xs \<and> P x"
  by (induction xs) (auto split: if_splits)

lemma find_None_D: "find P xs = None \<Longrightarrow> x \<in> set xs \<Longrightarrow> \<not> P x"
  by (induction xs) (auto split: if_splits)

lemma find_Some_iff_ex: "(\<exists>x. find P xs = Some x) \<longleftrightarrow> (\<exists>x \<in> set xs. P x)"
  by (induction xs) auto

lemma map_update_by_key:
  "map key (map (\<lambda>r. if key r = k then f r else r) rows) = map key rows"
  if "\<And>r. key (f r) = key r"
  using that by (induction rows) auto

end
