(* ===== verification/Capabilities.thy ===== *)
theory Capabilities
  imports Prelude
begin

text \<open>
  Capability names (\<open>packages/policy/src/types.ts\<close>): the built-in names, the grammar of the
  admin-defined \<open>vendor:action\<close> names, the reserved vendors, the validator with one error per
  message it throws, the splitter, and the filter that drops a name the registry no longer lists.
  The locale \<open>name_registry\<close> states what the filter's clients rely on of a registry.
\<close>

section \<open>Types of the policy engine\<close>

text \<open>
  \<open>ResourceLimits\<close>: an absent field is \<open>None\<close>; the sandbox block is opaque text.
  \<open>CertScope\<close>: an absent field is \<open>None\<close>.
\<close>

record resource_limits =
  maxTokensPerDay :: "int option"
  maxRequestsPerHour :: "int option"
  allowedDomains :: "string list option"
  srt :: "string option"

record cert_scope =
  resource :: "string option"
  resourcePattern :: "string option"
  maxUses :: "int option"
  purpose :: "string option"

section \<open>Names\<close>

definition BUILTIN_CAPABILITIES :: "string list" where
  "BUILTIN_CAPABILITIES =
     [''file_read'', ''file_write'', ''file_access'', ''internet_access'', ''browser_control'',
      ''api_call'', ''mail_send'', ''code_execution'', ''system_command'', ''agent_communication'',
      ''knowledge_search'', ''admin_console_access'', ''portal_access'', ''process_read'',
      ''non_delegatable'', ''delegation'']"

definition RESERVED_VENDORS :: "string list" where
  "RESERVED_VENDORS = [''core'', ''vaultys'']"

text \<open>
  The regexp \<open>CUSTOM_CAPABILITY_RE\<close>. Neither class contains the colon, so the colon the regexp
  matches is the first one of the string; \<open>custom_re_iff\<close> gives the reading as a concatenation.
\<close>

definition vendor_char :: "char \<Rightarrow> bool" where
  "vendor_char c = (is_lower_alnum c \<or> c = CHR ''-'')"

definition action_char :: "char \<Rightarrow> bool" where
  "action_char c = (is_lower_alnum c \<or> c = CHR ''.'' \<or> c = CHR ''_'' \<or> c = CHR ''-'')"

fun re_segment :: "(char \<Rightarrow> bool) \<Rightarrow> nat \<Rightarrow> string \<Rightarrow> bool" where
  "re_segment cls bound [] = False"
| "re_segment cls bound (c # s) =
     (is_lower_alnum c \<and> 1 \<le> length s \<and> length s \<le> bound \<and> list_all cls s)"

definition CUSTOM_CAPABILITY_RE :: "string \<Rightarrow> bool" where
  "CUSTOM_CAPABILITY_RE s =
     (case index_of CHR '':'' s of
        None \<Rightarrow> False
      | Some i \<Rightarrow> re_segment vendor_char 31 (take i s) \<and> re_segment action_char 63 (drop (Suc i) s))"

definition vendorOf :: "string \<Rightarrow> string option" where
  "vendorOf capability =
     (case index_of CHR '':'' capability of None \<Rightarrow> None | Some colon \<Rightarrow> Some (take colon capability))"

definition isBuiltinCapability :: "string \<Rightarrow> bool" where
  "isBuiltinCapability capability = (capability \<in> set BUILTIN_CAPABILITIES)"

definition isCustomCapability :: "string \<Rightarrow> bool" where
  "isCustomCapability capability =
     (if \<not> CUSTOM_CAPABILITY_RE capability then False
      else case vendorOf capability of
             None \<Rightarrow> True
           | Some vendor \<Rightarrow> vendor \<notin> set RESERVED_VENDORS)"

datatype capability_error =
    NotNamespaced string
  | BadGrammar string
  | ReservedVendor string string
  | NotCustom string

definition assertValidCapabilityName :: "string \<Rightarrow> (capability_error, unit) result" where
  "assertValidCapabilityName capability =
     (if isBuiltinCapability capability then Inr ()
      else if \<not> str_includes capability '':'' then Inl (NotNamespaced capability)
      else if \<not> CUSTOM_CAPABILITY_RE capability then Inl (BadGrammar capability)
      else case vendorOf capability of
             None \<Rightarrow> Inr ()
           | Some vendor \<Rightarrow>
               if vendor \<in> set RESERVED_VENDORS then Inl (ReservedVendor capability vendor)
               else Inr ())"

definition parseCustomCapability :: "string \<Rightarrow> (capability_error, string \<times> string) result" where
  "parseCustomCapability capability =
     bind_result (assertValidCapabilityName capability) (\<lambda>_.
       if \<not> isCustomCapability capability then Inl (NotCustom capability)
       else case index_of CHR '':'' capability of
              None \<Rightarrow> Inr (butlast capability, capability)
            | Some colon \<Rightarrow> Inr (take colon capability, drop (Suc colon) capability))"

definition filterAgainstRegistry :: "string list \<Rightarrow> string list \<Rightarrow> string list" where
  "filterAgainstRegistry capabilities registryNames =
     filter (\<lambda>c. isBuiltinCapability c \<or> (isCustomCapability c \<and> c \<in> set registryNames)) capabilities"

section \<open>Facts\<close>

lemma colon_not_lower_alnum [simp]: "\<not> is_lower_alnum CHR '':''"
  by (simp add: is_lower_alnum_def code_unit_def)

lemma vendor_char_not_colon: "vendor_char c \<Longrightarrow> c \<noteq> CHR '':''"
  by (auto simp: vendor_char_def)

lemma action_char_not_colon: "action_char c \<Longrightarrow> c \<noteq> CHR '':''"
  by (auto simp: action_char_def)

lemma re_segment_no_colon:
  "re_segment cls n s \<Longrightarrow> (\<And>c. cls c \<Longrightarrow> c \<noteq> CHR '':'') \<Longrightarrow> CHR '':'' \<notin> set s"
  by (cases s) (auto simp: list_all_iff)

lemma re_segment_length: "re_segment cls n s \<Longrightarrow> 2 \<le> length s \<and> length s \<le> Suc n"
  by (cases s) auto

lemma custom_re_iff:
  "CUSTOM_CAPABILITY_RE s \<longleftrightarrow>
     (\<exists>v a. s = v @ CHR '':'' # a \<and> re_segment vendor_char 31 v \<and> re_segment action_char 63 a)"
proof
  assume "CUSTOM_CAPABILITY_RE s"
  then obtain i where i: "index_of CHR '':'' s = Some i"
    and v: "re_segment vendor_char 31 (take i s)" and a: "re_segment action_char 63 (drop (Suc i) s)"
    by (auto simp: CUSTOM_CAPABILITY_RE_def split: option.splits)
  from i have "s = take i s @ CHR '':'' # drop (Suc i) s"
    by (metis index_of_Some_iff id_take_nth_drop)
  with v a show "\<exists>v a. s = v @ CHR '':'' # a \<and> re_segment vendor_char 31 v \<and> re_segment action_char 63 a"
    by blast
next
  assume "\<exists>v a. s = v @ CHR '':'' # a \<and> re_segment vendor_char 31 v \<and> re_segment action_char 63 a"
  then obtain v a where s: "s = v @ CHR '':'' # a"
    and v: "re_segment vendor_char 31 v" and a: "re_segment action_char 63 a" by blast
  from v have "CHR '':'' \<notin> set v" by (rule re_segment_no_colon) (rule vendor_char_not_colon)
  with s v a show "CUSTOM_CAPABILITY_RE s" by (simp add: CUSTOM_CAPABILITY_RE_def)
qed

lemma custom_has_colon: "isCustomCapability c \<Longrightarrow> CHR '':'' \<in> set c"
  by (auto simp: isCustomCapability_def custom_re_iff split: if_splits)

lemma builtin_no_colon: "isBuiltinCapability c \<Longrightarrow> CHR '':'' \<notin> set c"
  by (auto simp: isBuiltinCapability_def BUILTIN_CAPABILITIES_def)

lemma vendorOf_append: "CHR '':'' \<notin> set v \<Longrightarrow> vendorOf (v @ CHR '':'' # a) = Some v"
  by (simp add: vendorOf_def)

lemma custom_obtain:
  assumes "isCustomCapability c"
  obtains v a where "c = v @ CHR '':'' # a" "re_segment vendor_char 31 v" "re_segment action_char 63 a"
    "CHR '':'' \<notin> set v" "CHR '':'' \<notin> set a" "v \<notin> set RESERVED_VENDORS"
proof -
  from assms have "CUSTOM_CAPABILITY_RE c" by (auto simp: isCustomCapability_def split: if_splits)
  then obtain v a where c: "c = v @ CHR '':'' # a"
    and v: "re_segment vendor_char 31 v" and a: "re_segment action_char 63 a"
    by (auto simp: custom_re_iff)
  from v have nv: "CHR '':'' \<notin> set v" by (rule re_segment_no_colon) (rule vendor_char_not_colon)
  from a have na: "CHR '':'' \<notin> set a" by (rule re_segment_no_colon) (rule action_char_not_colon)
  from assms c nv have "v \<notin> set RESERVED_VENDORS"
    by (auto simp: isCustomCapability_def vendorOf_append split: if_splits)
  with c v a nv na show thesis by (rule that)
qed

lemma custom_not_builtin: "isCustomCapability c \<Longrightarrow> \<not> isBuiltinCapability c"
  using custom_has_colon builtin_no_colon by blast

lemma assertValid_Inr_iff:
  "assertValidCapabilityName c = Inr () \<longleftrightarrow> isBuiltinCapability c \<or> isCustomCapability c"
  by (auto simp: assertValidCapabilityName_def isCustomCapability_def custom_re_iff vendorOf_def
           split: option.splits)

lemma in_filterAgainstRegistry [simp]:
  "c \<in> set (filterAgainstRegistry cs names) \<longleftrightarrow>
     c \<in> set cs \<and> (isBuiltinCapability c \<or> (isCustomCapability c \<and> c \<in> set names))"
  by (auto simp: filterAgainstRegistry_def)

lemma filterAgainstRegistry_cong:
  "set names = set names' \<Longrightarrow> filterAgainstRegistry cs names = filterAgainstRegistry cs names'"
  by (simp add: filterAgainstRegistry_def)

section \<open>The registry contract\<close>

text \<open>
  What the filter's clients rely on of a registry of custom names, whatever stores it: creating a
  name adds exactly it, deleting a name removes exactly it.
\<close>

locale name_registry =
  fixes names :: "'s \<Rightarrow> string list" and create :: "string \<Rightarrow> 's \<Rightarrow> 's \<Rightarrow> bool"
    and remove :: "string \<Rightarrow> 's \<Rightarrow> 's \<Rightarrow> bool"
  assumes create_names: "create n s s' \<Longrightarrow> set (names s') = insert n (set (names s))"
    and create_custom: "create n s s' \<Longrightarrow> isCustomCapability n"
    and remove_names: "remove n s s' \<Longrightarrow> set (names s') = set (names s) - {n}"
    and remove_custom: "remove n s s' \<Longrightarrow> isCustomCapability n"
begin

lemma removed_is_dropped: "remove n s s' \<Longrightarrow> n \<notin> set (filterAgainstRegistry cs (names s'))"
  using remove_names remove_custom custom_not_builtin by fastforce

lemma removal_keeps_others:
  "remove n s s' \<Longrightarrow> filterAgainstRegistry cs (names s') = filter (\<lambda>c. c \<noteq> n) (filterAgainstRegistry cs (names s))"
  using remove_names [of n s s'] remove_custom [of n s s'] custom_not_builtin [of n]
  unfolding filterAgainstRegistry_def filter_filter by (intro filter_cong) auto

lemma created_passes: "create n s s' \<Longrightarrow> n \<in> set cs \<Longrightarrow> n \<in> set (filterAgainstRegistry cs (names s'))"
  by (simp add: create_names create_custom)

lemma recreate_restores:
  "remove n s s1 \<Longrightarrow> create n s1 s2 \<Longrightarrow> n \<in> set (names s) \<Longrightarrow>
     filterAgainstRegistry cs (names s2) = filterAgainstRegistry cs (names s)"
  by (rule filterAgainstRegistry_cong) (auto simp: create_names remove_names)

end

section \<open>Properties\<close>

text \<open>
  \<open>parseCustomCapability\<close> splits exactly the legal custom names, and splits each at
  its only colon: it returns vendor and action precisely when the name is their concatenation around
  a colon, both halves match their part of the grammar and the vendor is not reserved.
\<close>

theorem parse_custom_iff:
  "parseCustomCapability c = Inr (v, a) \<longleftrightarrow>
     c = v @ CHR '':'' # a \<and> re_segment vendor_char 31 v \<and> re_segment action_char 63 a
       \<and> v \<notin> set RESERVED_VENDORS"
proof
  assume "parseCustomCapability c = Inr (v, a)"
  then have p: "parseCustomCapability c = Inr (v, a)" .
  then have cust: "isCustomCapability c"
    by (auto simp: parseCustomCapability_def split: if_splits)
  then obtain v' a' where c: "c = v' @ CHR '':'' # a'" and seg: "re_segment vendor_char 31 v'"
    "re_segment action_char 63 a'" and nv: "CHR '':'' \<notin> set v'" and res: "v' \<notin> set RESERVED_VENDORS"
    by (rule custom_obtain)
  from p cust nv have "v = v' \<and> a = a'"
    unfolding parseCustomCapability_def by (auto simp: c)
  with c seg res show "c = v @ CHR '':'' # a \<and> re_segment vendor_char 31 v \<and> re_segment action_char 63 a
       \<and> v \<notin> set RESERVED_VENDORS" by simp
next
  assume r: "c = v @ CHR '':'' # a \<and> re_segment vendor_char 31 v \<and> re_segment action_char 63 a
       \<and> v \<notin> set RESERVED_VENDORS"
  then have nv: "CHR '':'' \<notin> set v" using re_segment_no_colon vendor_char_not_colon by blast
  have "CUSTOM_CAPABILITY_RE c" using r unfolding custom_re_iff by blast
  with r nv have "isCustomCapability c" by (simp add: isCustomCapability_def vendorOf_append)
  then have "assertValidCapabilityName c = Inr ()" by (simp add: assertValid_Inr_iff)
  with \<open>isCustomCapability c\<close> nv r show "parseCustomCapability c = Inr (v, a)"
    by (simp add: parseCustomCapability_def)
qed

text \<open>
  The validator accepts a name exactly when it is a built-in or a custom name, never both,
  and its three errors partition the rest: no colon, a colon but not the grammar, the grammar with a
  reserved vendor.
\<close>

theorem assertValid_cases:
  "assertValidCapabilityName c =
     (if isBuiltinCapability c \<noteq> isCustomCapability c then Inr ()
      else if CHR '':'' \<notin> set c then Inl (NotNamespaced c)
      else if \<not> CUSTOM_CAPABILITY_RE c then Inl (BadGrammar c)
      else Inl (ReservedVendor c (the (vendorOf c))))"
  using custom_not_builtin [of c] custom_has_colon [of c]
  by (auto simp: assertValidCapabilityName_def isCustomCapability_def vendorOf_def split: option.splits)

end
