(* ===== verification/JsDate.thy ===== *)
theory JsDate
  imports Prelude
begin

text \<open>
  \<open>new Date(text).getTime()\<close> for the date-time text the sources exchange
  (\<open>Date.prototype.toISOString\<close> and the date-only form). ECMA-262 leaves every other text to the
  implementation, so the host's reading of those is the argument \<open>host\<close>; \<open>None\<close> is \<open>NaN\<close>.
\<close>

definition digit_value :: "char \<Rightarrow> int option" where
  "digit_value c =
     (if 48 \<le> code_unit c \<and> code_unit c \<le> 57 then Some (int (code_unit c) - 48) else None)"

fun digits_value :: "int \<Rightarrow> string \<Rightarrow> int option" where
  "digits_value acc [] = Some acc"
| "digits_value acc (c # s) =
     (case digit_value c of None \<Rightarrow> None | Some d \<Rightarrow> digits_value (10 * acc + d) s)"

definition leap_year :: "int \<Rightarrow> bool" where
  "leap_year y = (y mod 4 = 0 \<and> (y mod 100 \<noteq> 0 \<or> y mod 400 = 0))"

definition days_in_month :: "int \<Rightarrow> int \<Rightarrow> int" where
  "days_in_month y m =
     (if m = 2 then (if leap_year y then 29 else 28)
      else if m \<in> {4, 6, 9, 11} then 30 else 31)"

text \<open>Days from 1970-01-01 to a civil date of the proleptic Gregorian calendar.\<close>

definition days_from_civil :: "int \<Rightarrow> int \<Rightarrow> int \<Rightarrow> int" where
  "days_from_civil y m d =
     (let y' = (if m \<le> 2 then y - 1 else y);
          era = y' div 400;
          yoe = y' - era * 400;
          mp = (m + 9) mod 12;
          doy = (153 * mp + 2) div 5 + d - 1;
          doe = yoe * 365 + yoe div 4 - yoe div 100 + doy
      in era * 146097 + doe - 719468)"

definition iso_date :: "string \<Rightarrow> int option" where
  "iso_date s =
     (if length s = 10 \<and> s ! 4 = CHR ''-'' \<and> s ! 7 = CHR ''-'' then
        (case (digits_value 0 (take 4 s), digits_value 0 (take 2 (drop 5 s)), digits_value 0 (drop 8 s)) of
           (Some y, Some m, Some d) \<Rightarrow>
             if 1 \<le> m \<and> m \<le> 12 \<and> 1 \<le> d \<and> d \<le> days_in_month y m
             then Some (86400000 * days_from_civil y m d) else None
         | _ \<Rightarrow> None)
      else None)"

definition iso_time :: "string \<Rightarrow> int option" where
  "iso_time s =
     (if length s = 13 \<and> s ! 2 = CHR '':'' \<and> s ! 5 = CHR '':'' \<and> s ! 8 = CHR ''.'' \<and> s ! 12 = CHR ''Z'' then
        (case (digits_value 0 (take 2 s), digits_value 0 (take 2 (drop 3 s)),
               digits_value 0 (take 2 (drop 6 s)), digits_value 0 (take 3 (drop 9 s))) of
           (Some h, Some mi, Some sec, Some ms) \<Rightarrow>
             if h < 24 \<and> mi < 60 \<and> sec < 60
             then Some (ms + 1000 * (sec + 60 * (mi + 60 * h))) else None
         | _ \<Rightarrow> None)
      else None)"

definition date_getTime :: "(string \<Rightarrow> int option) \<Rightarrow> string \<Rightarrow> int option" where
  "date_getTime host s =
     (case iso_date (take 10 s) of
        None \<Rightarrow> host s
      | Some day \<Rightarrow>
          if length s = 10 then Some day
          else if s ! 10 \<noteq> CHR ''T'' then host s
          else case iso_time (drop 11 s) of None \<Rightarrow> host s | Some ms \<Rightarrow> Some (day + ms))"

lemma date_getTime_epoch: "date_getTime host ''1970-01-01T00:00:00.000Z'' = Some 0"
  by code_simp

lemma date_getTime_leap_day: "date_getTime host ''2024-02-29T12:30:45.678Z'' = Some 1709209845678"
  by code_simp

end
