(* ===== verification/Enforcer.thy ===== *)
theory Enforcer
  imports Capabilities JsDate
begin

text \<open>
  The runtime policy enforcer (\<open>packages/policy/src/enforcement/enforcer.ts\<close>): four gates in order,
  capability, policy expiry, daily token budget, hourly request rate. The class owns the rolling
  hourly counter \<open>requestsThisHour\<close>; its clock and token-usage source are arguments. Each gate
  returns the thrown error or nothing, and the last one also the counter it leaves.
\<close>

record daily_token_usage =
  promptTokens :: "int option"
  completionTokens :: "int option"

record policy_context =
  pc_capabilities :: "string list"
  pc_resourceLimits :: "resource_limits option"
  pc_policyId :: "string option"
  pc_policyExpiresAt :: "string option"

record request_window =
  rw_count :: int
  rw_hourStart :: int

datatype enforce_error =
    CapabilityNotGranted string
  | PolicyHasExpired string
  | TokenBudgetExhausted int int
  | HourlyLimitReached int int

definition HOUR_MS :: int where
  "HOUR_MS = 60 * 60 * 1000"

definition resolveEffectiveAction :: "string \<Rightarrow> string" where
  "resolveEffectiveAction action = (if action = ''agent'' then ''agent_communication'' else action)"

definition initial_window :: request_window where
  "initial_window = \<lparr>rw_count = 0, rw_hourStart = 0\<rparr>"

definition checkCapability :: "string \<Rightarrow> string list \<Rightarrow> (enforce_error, unit) result" where
  "checkCapability action capabilities =
     (if resolveEffectiveAction action \<notin> set capabilities then Inl (CapabilityNotGranted action)
      else Inr ())"

definition checkPolicyExpiry ::
  "(string \<Rightarrow> int option) \<Rightarrow> int \<Rightarrow> string option \<Rightarrow> string option \<Rightarrow> (enforce_error, unit) result" where
  "checkPolicyExpiry host now policyId policyExpiresAt =
     (case policyExpiresAt of
        None \<Rightarrow> Inr ()
      | Some text \<Rightarrow>
          if text = [] then Inr ()
          else (case date_getTime host text of
                  None \<Rightarrow> Inr ()
                | Some expiry \<Rightarrow>
                    if now > expiry
                    then Inl (PolicyHasExpired (case policyId of None \<Rightarrow> ''unknown'' | Some p \<Rightarrow> p))
                    else Inr ()))"

text \<open>\<open>(daily?.promptTokens ?? 0) + (daily?.completionTokens ?? 0)\<close>.\<close>

definition used_today :: "daily_token_usage option \<Rightarrow> int" where
  "used_today daily =
     (case daily of
        None \<Rightarrow> 0
      | Some d \<Rightarrow> (case promptTokens d of None \<Rightarrow> 0 | Some p \<Rightarrow> p)
                  + (case completionTokens d of None \<Rightarrow> 0 | Some c \<Rightarrow> c))"

definition checkDailyTokenBudget ::
  "daily_token_usage option \<Rightarrow> resource_limits option \<Rightarrow> (enforce_error, unit) result" where
  "checkDailyTokenBudget daily resourceLimits =
     (case Option.bind resourceLimits maxTokensPerDay of
        None \<Rightarrow> Inr ()
      | Some limit \<Rightarrow>
          if used_today daily \<ge> limit then Inl (TokenBudgetExhausted (used_today daily) limit)
          else Inr ())"

text \<open>\<open>Math.ceil (x / 1000)\<close> of a whole number.\<close>

definition ceil_seconds :: "int \<Rightarrow> int" where
  "ceil_seconds x = - ((- x) div 1000)"

definition checkHourlyRequestRate ::
  "int \<Rightarrow> resource_limits option \<Rightarrow> request_window \<Rightarrow> (enforce_error, unit) result \<times> request_window" where
  "checkHourlyRequestRate now resourceLimits w =
     (case Option.bind resourceLimits maxRequestsPerHour of
        None \<Rightarrow> (Inr (), w)
      | Some limit \<Rightarrow>
          let w' = (if now - rw_hourStart w > HOUR_MS then \<lparr>rw_count = 0, rw_hourStart = now\<rparr> else w) in
          if rw_count w' \<ge> limit
          then (Inl (HourlyLimitReached limit (ceil_seconds (rw_hourStart w' + HOUR_MS - now))), w')
          else (Inr (), w'\<lparr>rw_count := rw_count w' + 1\<rparr>))"

text \<open>
  \<open>enforce\<close>: the first failing gate throws, and a throw before the last gate leaves the counter.
  The three reads of the injected clock and usage source are the call's \<open>now\<close> and \<open>daily\<close>.
\<close>

definition enforce ::
  "(string \<Rightarrow> int option) \<Rightarrow> daily_token_usage option \<Rightarrow> int \<Rightarrow> string \<Rightarrow> policy_context \<Rightarrow> request_window
     \<Rightarrow> (enforce_error, unit) result \<times> request_window" where
  "enforce host daily now action ctx w =
     (case checkCapability action (pc_capabilities ctx) of
        Inl e \<Rightarrow> (Inl e, w)
      | Inr _ \<Rightarrow>
        (case checkPolicyExpiry host now (pc_policyId ctx) (pc_policyExpiresAt ctx) of
           Inl e \<Rightarrow> (Inl e, w)
         | Inr _ \<Rightarrow>
           (case checkDailyTokenBudget daily (pc_resourceLimits ctx) of
              Inl e \<Rightarrow> (Inl e, w)
            | Inr _ \<Rightarrow> checkHourlyRequestRate now (pc_resourceLimits ctx) w)))"

text \<open>A run of calls on one enforcer: the calls it let through, in order.\<close>

record enforce_call =
  ec_daily :: "daily_token_usage option"
  ec_now :: int
  ec_action :: string
  ec_ctx :: policy_context

fun accepted_calls ::
  "(string \<Rightarrow> int option) \<Rightarrow> request_window \<Rightarrow> enforce_call list \<Rightarrow> enforce_call list" where
  "accepted_calls host w [] = []"
| "accepted_calls host w (c # cs) =
     (case enforce host (ec_daily c) (ec_now c) (ec_action c) (ec_ctx c) w of
        (Inl _, w') \<Rightarrow> accepted_calls host w' cs
      | (Inr _, w') \<Rightarrow> c # accepted_calls host w' cs)"

section \<open>Facts\<close>

text \<open>The three possible effects of one call on the counter.\<close>

lemma enforce_rate_cases:
  assumes "enforce host daily now action ctx w = (r, w')"
    and "Option.bind (pc_resourceLimits ctx) maxRequestsPerHour = Some n"
  obtains (early) e where "r = Inl e" "w' = w"
    | (limited) e where "r = Inl e" "w' = (if now - rw_hourStart w > HOUR_MS then \<lparr>rw_count = 0, rw_hourStart = now\<rparr> else w)"
    | (passed_open) "r = Inr ()" "now - rw_hourStart w \<le> HOUR_MS" "rw_count w < n" "w' = w\<lparr>rw_count := rw_count w + 1\<rparr>"
    | (passed_fresh) "r = Inr ()" "now - rw_hourStart w > HOUR_MS" "0 < n" "w' = \<lparr>rw_count = 1, rw_hourStart = now\<rparr>"
proof -
  have "(\<exists>e. r = Inl e \<and> w' = w) \<or> checkHourlyRequestRate now (pc_resourceLimits ctx) w = (r, w')"
    using assms(1) unfolding enforce_def by (auto split: sum.splits) metis+
  moreover have "checkHourlyRequestRate now (pc_resourceLimits ctx) w = (r, w') \<Longrightarrow> thesis"
    unfolding checkHourlyRequestRate_def assms(2) Let_def
    by (cases "now - rw_hourStart w > HOUR_MS"; cases "rw_count w \<ge> n"; cases "0 \<ge> n")
       (simp_all, use limited passed_open passed_fresh in \<open>force+\<close>)
  ultimately show thesis using early by blast
qed

definition rate_limited :: "int \<Rightarrow> enforce_call \<Rightarrow> bool" where
  "rate_limited n c = (Option.bind (pc_resourceLimits (ec_ctx c)) maxRequestsPerHour = Some n)"

text \<open>Once a window has been opened at or after \<open>t\<close>, the calls up to \<open>t\<close> plus an hour share it.\<close>

lemma accepted_one_window:
  assumes "0 \<le> rw_count w" and "rw_count w \<le> n" and "t \<le> rw_hourStart w"
    and "list_all (\<lambda>c. rate_limited n c \<and> t \<le> ec_now c \<and> ec_now c \<le> t + HOUR_MS) cs"
  shows "int (length (accepted_calls host w cs)) \<le> n - rw_count w"
  using assms
proof (induction cs arbitrary: w)
  case (Cons c cs)
  obtain r w' where e: "enforce host (ec_daily c) (ec_now c) (ec_action c) (ec_ctx c) w = (r, w')"
    by (cases "enforce host (ec_daily c) (ec_now c) (ec_action c) (ec_ctx c) w")
  have lim: "Option.bind (pc_resourceLimits (ec_ctx c)) maxRequestsPerHour = Some n"
    using Cons.prems by (simp add: rate_limited_def)
  have inside: "\<not> ec_now c - rw_hourStart w > HOUR_MS" using Cons.prems by simp
  from e lim show ?case
  proof (cases rule: enforce_rate_cases)
    case (early x)
    with e Cons.prems Cons.IH [of w] show ?thesis by simp
  next
    case (limited x)
    with e inside Cons.prems Cons.IH [of w] show ?thesis by simp
  next
    case passed_open
    with e Cons.prems Cons.IH [of w'] show ?thesis by simp
  next
    case passed_fresh
    with inside show ?thesis by simp
  qed
qed simp

lemma accepted_two_windows:
  assumes "0 \<le> rw_count w" and "rw_count w \<le> n"
    and "list_all (\<lambda>c. rate_limited n c \<and> t \<le> ec_now c \<and> ec_now c \<le> t + HOUR_MS) cs"
  shows "int (length (accepted_calls host w cs)) \<le> 2 * n - rw_count w"
  using assms
proof (induction cs arbitrary: w)
  case (Cons c cs)
  obtain r w' where e: "enforce host (ec_daily c) (ec_now c) (ec_action c) (ec_ctx c) w = (r, w')"
    by (cases "enforce host (ec_daily c) (ec_now c) (ec_action c) (ec_ctx c) w")
  have lim: "Option.bind (pc_resourceLimits (ec_ctx c)) maxRequestsPerHour = Some n"
    using Cons.prems by (simp add: rate_limited_def)
  have t: "t \<le> ec_now c" and rest: "list_all (\<lambda>c. rate_limited n c \<and> t \<le> ec_now c \<and> ec_now c \<le> t + HOUR_MS) cs"
    using Cons.prems by simp_all
  from e lim show ?case
  proof (cases rule: enforce_rate_cases)
    case (early x)
    with e Cons.prems Cons.IH [of w] show ?thesis by simp
  next
    case (limited x)
    show ?thesis
    proof (cases "ec_now c - rw_hourStart w > HOUR_MS")
      case True
      with limited have w': "w' = \<lparr>rw_count = 0, rw_hourStart = ec_now c\<rparr>" by simp
      have "int (length (accepted_calls host w' cs)) \<le> n - rw_count w'"
        by (rule accepted_one_window [where t = t]) (use w' t rest Cons.prems in auto)
      with e limited w' Cons.prems show ?thesis by simp
    next
      case False
      with limited e Cons.prems Cons.IH [of w] show ?thesis by simp
    qed
  next
    case passed_open
    with e Cons.prems Cons.IH [of w'] show ?thesis by simp
  next
    case passed_fresh
    have "int (length (accepted_calls host w' cs)) \<le> n - rw_count w'"
      by (rule accepted_one_window [where t = t]) (use passed_fresh t rest Cons.prems in auto)
    with e passed_fresh Cons.prems show ?thesis by simp
  qed
qed simp

lemma enforce_Inr_iff:
  "fst (enforce host daily now action ctx w) = Inr () \<longleftrightarrow>
     resolveEffectiveAction action \<in> set (pc_capabilities ctx) \<and>
     checkPolicyExpiry host now (pc_policyId ctx) (pc_policyExpiresAt ctx) = Inr () \<and>
     checkDailyTokenBudget daily (pc_resourceLimits ctx) = Inr () \<and>
     fst (checkHourlyRequestRate now (pc_resourceLimits ctx) w) = Inr ()"
  by (auto simp: enforce_def checkCapability_def split: sum.splits if_splits)

section \<open>Properties\<close>

text \<open>
  C12 (bounds). Whatever the order of actions, policies and earlier failures, an enforcer with an
  hourly limit lets through at most twice the limit in any hour: the counter window is fixed, not
  sliding, so one window can end and the next begin inside that hour, but no third one can.
\<close>

theorem hourly_rate_bounded:
  assumes "0 \<le> rw_count w" and "rw_count w \<le> n"
    and "list_all (\<lambda>c. rate_limited n c \<and> t \<le> ec_now c \<and> ec_now c \<le> t + HOUR_MS) cs"
  shows "int (length (accepted_calls host w cs)) \<le> 2 * n"
  using accepted_two_windows [OF assms, of host] assms(1) by linarith

definition sample_ctx :: policy_context where
  "sample_ctx = \<lparr>pc_capabilities = [''api_call''],
     pc_resourceLimits = Some \<lparr>maxTokensPerDay = None, maxRequestsPerHour = Some 1,
       allowedDomains = None, srt = None\<rparr>, pc_policyId = None, pc_policyExpiresAt = None\<rparr>"

definition sample_calls :: "enforce_call list" where
  "sample_calls = map (\<lambda>t. \<lparr>ec_daily = None, ec_now = t, ec_action = ''api_call'', ec_ctx = sample_ctx\<rparr>)
     [3600000, 3600001, 3600002, 7200000]"

theorem hourly_rate_bounded_witness:
  "int (length (accepted_calls (\<lambda>_. None) initial_window sample_calls)) \<le> 2 * 1
   \<and> length (accepted_calls (\<lambda>_. None) initial_window sample_calls) = 2"
proof -
  have "int (length (accepted_calls (\<lambda>_. None) initial_window sample_calls)) \<le> 2 * 1"
    by (rule hourly_rate_bounded [where t = 3600000])
       (simp_all add: initial_window_def sample_calls_def sample_ctx_def rate_limited_def HOUR_MS_def)
  moreover have "length (accepted_calls (\<lambda>_. None) initial_window sample_calls) = 2"
    by code_simp
  ultimately show ?thesis by simp
qed

text \<open>
  \<open>enforce\<close> lets a call through exactly when the four gates all do, and a call stopped
  by any of the first three leaves the hourly counter as it was.
\<close>

theorem enforce_gates:
  "(fst (enforce host daily now action ctx w) = Inr () \<longleftrightarrow>
      resolveEffectiveAction action \<in> set (pc_capabilities ctx) \<and>
      checkPolicyExpiry host now (pc_policyId ctx) (pc_policyExpiresAt ctx) = Inr () \<and>
      checkDailyTokenBudget daily (pc_resourceLimits ctx) = Inr () \<and>
      fst (checkHourlyRequestRate now (pc_resourceLimits ctx) w) = Inr ()) \<and>
   (snd (enforce host daily now action ctx w) =
      (if checkCapability action (pc_capabilities ctx) = Inr () \<and>
          checkPolicyExpiry host now (pc_policyId ctx) (pc_policyExpiresAt ctx) = Inr () \<and>
          checkDailyTokenBudget daily (pc_resourceLimits ctx) = Inr ()
       then snd (checkHourlyRequestRate now (pc_resourceLimits ctx) w) else w))"
  unfolding enforce_Inr_iff by (auto simp: enforce_def split: sum.split)

end
