(* ===== verification/Table.thy ===== *)
theory Table
  imports Prelude
begin

text \<open>
  The database engine as the DAOs use it through Prisma: a table is the list of its rows, with a
  key column. \<open>create\<close> refuses a duplicate key, \<open>update\<close> and \<open>delete\<close> throw when no row has the
  key, \<open>updateMany\<close> touches the matching rows and never throws. Also the JSON values some columns
  hold, with JavaScript's property access, truthiness and object spread.
\<close>

datatype db_error = UniqueViolation | RecordNotFound | ForeignKeyViolation

section \<open>Rows\<close>

definition row_find :: "('r \<Rightarrow> 'k) \<Rightarrow> 'k \<Rightarrow> 'r list \<Rightarrow> 'r option" where
  "row_find key k rows = find (\<lambda>r. key r = k) rows"

definition row_insert :: "('r \<Rightarrow> 'k) \<Rightarrow> 'r \<Rightarrow> 'r list \<Rightarrow> (db_error, 'r list) result" where
  "row_insert key r rows =
     (if row_find key (key r) rows \<noteq> None then Inl UniqueViolation else Inr (rows @ [r]))"

definition row_map :: "('r \<Rightarrow> bool) \<Rightarrow> ('r \<Rightarrow> 'r) \<Rightarrow> 'r list \<Rightarrow> 'r list" where
  "row_map P f rows = map (\<lambda>r. if P r then f r else r) rows"

definition row_update ::
  "('r \<Rightarrow> 'k) \<Rightarrow> 'k \<Rightarrow> ('r \<Rightarrow> 'r) \<Rightarrow> 'r list \<Rightarrow> (db_error, 'r \<times> 'r list) result" where
  "row_update key k f rows =
     (case row_find key k rows of
        None \<Rightarrow> Inl RecordNotFound
      | Some r \<Rightarrow> Inr (f r, row_map (\<lambda>r. key r = k) f rows))"

definition row_delete :: "('r \<Rightarrow> 'k) \<Rightarrow> 'k \<Rightarrow> 'r list \<Rightarrow> (db_error, 'r list) result" where
  "row_delete key k rows =
     (if row_find key k rows = None then Inl RecordNotFound
      else Inr (filter (\<lambda>r. key r \<noteq> k) rows))"

definition unique_keys :: "('r \<Rightarrow> 'k) \<Rightarrow> 'r list \<Rightarrow> bool" where
  "unique_keys key rows = distinct (map key rows)"

lemma row_find_Some_D: "row_find key k rows = Some r \<Longrightarrow> r \<in> set rows \<and> key r = k"
  unfolding row_find_def by (rule find_Some_D)

lemma row_find_None_iff: "row_find key k rows = None \<longleftrightarrow> (\<forall>r \<in> set rows. key r \<noteq> k)"
  by (auto simp: row_find_def find_None_iff)

lemma row_find_append [store_simps]:
  "row_find key k (rows @ [r]) =
     (case row_find key k rows of Some x \<Rightarrow> Some x | None \<Rightarrow> if key r = k then Some r else None)"
  by (induction rows) (auto simp: row_find_def)

lemma row_find_map [store_simps]:
  assumes "\<And>r. key (f r) = key r"
  shows "row_find key k (row_map P f rows) = map_option (\<lambda>r. if P r then f r else r) (row_find key k rows)"
  using assms by (induction rows) (auto simp: row_find_def row_map_def)

lemma row_find_filter [store_simps]:
  "row_find key k (filter (\<lambda>r. key r \<noteq> j) rows) = (if k = j then None else row_find key k rows)"
  by (induction rows) (auto simp: row_find_def)

lemma row_find_unique:
  "unique_keys key rows \<Longrightarrow> r \<in> set rows \<Longrightarrow> row_find key (key r) rows = Some r"
  by (induction rows) (auto simp: row_find_def unique_keys_def image_iff)

lemma row_find_fresh: "k \<notin> key ` set rows \<Longrightarrow> row_find key k rows = None"
  by (auto simp: row_find_None_iff)

lemma row_find_filter_unique:
  "unique_keys key rows \<Longrightarrow> row_find key k (filter P rows) =
     (case row_find key k rows of Some r \<Rightarrow> if P r then Some r else None | None \<Rightarrow> None)"
proof (induction rows)
  case (Cons r rows)
  then have "row_find key (key r) rows = None" and "unique_keys key rows"
    by (auto simp: unique_keys_def intro!: row_find_fresh)
  with Cons show ?case by (auto simp: row_find_def split: option.splits)
qed (simp add: row_find_def)

lemma set_row_map: "set (row_map P f rows) = (\<lambda>r. if P r then f r else r) ` set rows"
  by (simp add: row_map_def)

lemma unique_row_map [keeps_intros]:
  assumes "\<And>r. key (f r) = key r"
  shows "unique_keys key rows \<Longrightarrow> unique_keys key (row_map P f rows)"
proof -
  have "map key (row_map P f rows) = map key rows"
    using assms by (induction rows) (auto simp: row_map_def)
  then show "unique_keys key rows \<Longrightarrow> ?thesis" by (simp add: unique_keys_def)
qed

lemma unique_filter [keeps_intros]: "unique_keys key rows \<Longrightarrow> unique_keys key (filter P rows)"
  by (simp add: unique_keys_def distinct_map_filter)

lemma row_insert_Inr:
  "row_insert key r rows = Inr rows' \<longleftrightarrow> row_find key (key r) rows = None \<and> rows' = rows @ [r]"
  by (auto simp: row_insert_def)

lemma unique_row_insert:
  "unique_keys key rows \<Longrightarrow> row_insert key r rows = Inr rows' \<Longrightarrow> unique_keys key rows'"
  by (auto simp: unique_keys_def row_insert_Inr row_find_None_iff)

lemma row_update_Inr:
  "row_update key k f rows = Inr (r', rows') \<longleftrightarrow>
     (\<exists>r. row_find key k rows = Some r \<and> r' = f r \<and> rows' = row_map (\<lambda>r. key r = k) f rows)"
  by (auto simp: row_update_def split: option.splits)

lemma row_delete_Inr:
  "row_delete key k rows = Inr rows' \<longleftrightarrow>
     row_find key k rows \<noteq> None \<and> rows' = filter (\<lambda>r. key r \<noteq> k) rows"
  by (auto simp: row_delete_def)

section \<open>JSON columns\<close>

datatype json =
    JNull
  | JBool bool
  | JNum int
  | JStr string
  | JArr "json list"
  | JObj "(string \<times> json) list"

text \<open>Property access \<open>v?.name\<close> of own properties; absent is \<open>None\<close> (undefined).\<close>

fun js_field :: "string \<Rightarrow> json \<Rightarrow> json option" where
  "js_field name (JObj fields) = map_of fields name"
| "js_field name _ = None"

fun js_truthy :: "json \<Rightarrow> bool" where
  "js_truthy JNull = False"
| "js_truthy (JBool b) = b"
| "js_truthy (JNum n) = (n \<noteq> 0)"
| "js_truthy (JStr s) = (s \<noteq> [])"
| "js_truthy (JArr _) = True"
| "js_truthy (JObj _) = True"

fun js_object_fields :: "json \<Rightarrow> (string \<times> json) list" where
  "js_object_fields (JObj fields) = fields"
| "js_object_fields _ = []"

text \<open>\<open>{ ...current, ...patch }\<close>: later fields win in place, new ones are appended.\<close>

definition js_spread :: "(string \<times> json) list \<Rightarrow> (string \<times> json) list \<Rightarrow> (string \<times> json) list" where
  "js_spread current patch = fold (\<lambda>(k, v) m. map_set k v m) patch current"

lemma map_of_js_spread:
  "distinct (map fst patch) \<Longrightarrow>
     map_of (js_spread current patch) k =
       (case map_of patch k of Some v \<Rightarrow> Some v | None \<Rightarrow> map_of current k)"
proof (induction patch arbitrary: current)
  case (Cons e patch)
  obtain j v where e: "e = (j, v)" by (cases e)
  from Cons.prems e have j: "map_of patch j = None" by (auto simp: map_of_eq_None_iff)
  from Cons.IH [of "map_set j v current"] Cons.prems e j show ?case
    by (auto simp: js_spread_def split: option.splits)
qed (simp add: js_spread_def)

end
