(* ===== verification/Codec.thy ===== *)
theory Codec
  imports Prelude "HOL-Library.Word"
begin

unbundle bit_operations_syntax

text \<open>
  The signed-certificate envelope (\<open>packages/policy/src/certs/codec.ts\<close>):
  \<open>base64 (4-byte little-endian body length | body | signature)\<close>.

  Node's \<open>Buffer\<close> is modelled as a list of bytes. Its base64 decoder reads up to the first
  padding character, accepts the standard and the URL alphabet, skips every other character and
  drops a last incomplete group of one character; its \<open>writeUInt32LE\<close> throws on a value that does
  not fit in 32 bits.
\<close>

type_synonym byte = "8 word"

section \<open>Base64\<close>

definition b64_alphabet :: string where
  "b64_alphabet = ''ABCDEFGHIJKLMNOPQRSTUVWXYZabcdefghijklmnopqrstuvwxyz0123456789+/''"

definition b64_char :: "byte \<Rightarrow> char" where
  "b64_char x = b64_alphabet ! unat x"

definition b64_sextet :: "char \<Rightarrow> byte option" where
  "b64_sextet c =
     (if c = CHR ''-'' then Some 62
      else if c = CHR ''_'' then Some 63
      else map_option of_nat (index_of c b64_alphabet))"

fun sextets :: "byte list \<Rightarrow> byte list" where
  "sextets (a # b # c # r) =
     drop_bit 2 a # (push_bit 4 (take_bit 2 a) OR drop_bit 4 b)
       # (push_bit 2 (take_bit 4 b) OR drop_bit 6 c) # (take_bit 6 c) # sextets r"
| "sextets [a, b] = [drop_bit 2 a, push_bit 4 (take_bit 2 a) OR drop_bit 4 b, push_bit 2 (take_bit 4 b)]"
| "sextets [a] = [drop_bit 2 a, push_bit 4 (take_bit 2 a)]"
| "sextets [] = []"

definition b64_padding :: "nat \<Rightarrow> string" where
  "b64_padding n = (if n mod 3 = 1 then ''=='' else if n mod 3 = 2 then ''='' else [])"

definition toBase64 :: "byte list \<Rightarrow> string" where
  "toBase64 bs = map b64_char (sextets bs) @ b64_padding (length bs)"

fun unsextets :: "byte list \<Rightarrow> byte list" where
  "unsextets (p # q # r # s # xs) =
     (push_bit 2 p OR drop_bit 4 q) # (push_bit 4 q OR drop_bit 2 r) # (push_bit 6 r OR s)
       # unsextets xs"
| "unsextets [p, q, r] = [push_bit 2 p OR drop_bit 4 q, push_bit 4 q OR drop_bit 2 r]"
| "unsextets [p, q] = [push_bit 2 p OR drop_bit 4 q]"
| "unsextets [p] = []"
| "unsextets [] = []"

definition fromBase64 :: "string \<Rightarrow> byte list" where
  "fromBase64 token = unsextets (List.map_filter b64_sextet (takeWhile (\<lambda>c. c \<noteq> CHR ''='') token))"

section \<open>The envelope\<close>

definition writeUInt32LE :: "nat \<Rightarrow> byte list option" where
  "writeUInt32LE n =
     (if n < 4294967296
      then Some [of_nat (n mod 256), of_nat (n div 256 mod 256), of_nat (n div 65536 mod 256),
                 of_nat (n div 16777216)]
      else None)"

fun readUInt32LE :: "byte list \<Rightarrow> nat" where
  "readUInt32LE (a # b # c # d # r) = unat a + 256 * unat b + 65536 * unat c + 16777216 * unat d"
| "readUInt32LE _ = 0"

definition packCert :: "byte list \<Rightarrow> byte list \<Rightarrow> string option" where
  "packCert body signature =
     (case writeUInt32LE (length body) of
        None \<Rightarrow> None
      | Some lenBuf \<Rightarrow> Some (toBase64 (lenBuf @ body @ signature)))"

definition unpackCert :: "string \<Rightarrow> (byte list \<times> byte list) option" where
  "unpackCert token =
     (let combined = fromBase64 token in
      if length combined < 5 then None
      else let bodyLen = readUInt32LE combined in
        if length combined < 4 + bodyLen then None
        else Some (take bodyLen (drop 4 combined), drop (4 + bodyLen) combined))"

section \<open>Round trips\<close>

lemma b64_char_sextet_all:
  "list_all (\<lambda>n. b64_sextet (b64_alphabet ! n) = Some (of_nat n) \<and> b64_alphabet ! n \<noteq> CHR ''='') [0..<64]"
  by code_simp

lemma b64_char_sextet:
  assumes "x < 64"
  shows "b64_sextet (b64_char x) = Some x" and "b64_char x \<noteq> CHR ''=''"
proof -
  from assms have "unat x < 64" by (simp add: word_less_nat_alt)
  then have "unat x \<in> set [0..<64]" by simp
  with b64_char_sextet_all
  have "b64_sextet (b64_alphabet ! unat x) = Some (of_nat (unat x)) \<and> b64_alphabet ! unat x \<noteq> CHR ''=''"
    unfolding list_all_iff by blast
  then show "b64_sextet (b64_char x) = Some x" and "b64_char x \<noteq> CHR ''=''"
    by (simp_all add: b64_char_def)
qed

lemma byte_bit_high: "bit (x :: byte) n \<Longrightarrow> n < 8"
  using bit_imp_le_length [of x n] by simp

lemma byte_cases_less_64: "(x :: byte) < 64 \<longleftrightarrow> (\<forall>n. bit x n \<longrightarrow> n < 6)"
proof -
  have "x < 64 \<longleftrightarrow> take_bit 6 x = x"
    by (simp add: take_bit_eq_mod word_less_nat_alt word_unat_eq_iff unat_mod)
       (metis mod_less mod_less_divisor zero_less_numeral)
  also have "\<dots> \<longleftrightarrow> (\<forall>n. bit x n \<longrightarrow> n < 6)"
    by (auto simp: bit_eq_iff bit_simps dest: byte_bit_high)
  finally show ?thesis .
qed

lemma byte_eqI:
  fixes a b :: byte
  assumes "\<And>n. n \<in> {0, 1, 2, 3, 4, 5, 6, 7} \<Longrightarrow> bit a n = bit b n"
  shows "a = b"
proof (rule bit_word_eqI)
  fix n assume "n < LENGTH(8)"
  then have "n \<in> {0, 1, 2, 3, 4, 5, 6, 7}" by auto
  then show "bit a n = bit b n" by (rule assms)
qed

lemma sextet_parts_less_64:
  fixes a b c :: byte
  shows "drop_bit 2 a < 64" and "push_bit 4 (take_bit 2 a) OR drop_bit 4 b < 64"
    and "push_bit 2 (take_bit 4 b) OR drop_bit 6 c < 64" and "take_bit 6 c < 64"
    and "push_bit 4 (take_bit 2 a) < 64" and "push_bit 2 (take_bit 4 b) < 64"
  unfolding byte_cases_less_64 by (auto simp: bit_simps dest: byte_bit_high)

lemma sextets_less_64: "x \<in> set (sextets bs) \<Longrightarrow> x < 64"
  by (induction bs rule: sextets.induct) (auto simp only: sextets.simps list.set insert_iff sextet_parts_less_64 empty_iff)

lemma unsextets_triple:
  fixes a b c :: byte
  shows "push_bit 2 (drop_bit 2 a) OR drop_bit 4 (push_bit 4 (take_bit 2 a) OR drop_bit 4 b) = a"
    and "push_bit 4 (push_bit 4 (take_bit 2 a) OR drop_bit 4 b) OR drop_bit 2 (push_bit 2 (take_bit 4 b) OR drop_bit 6 c) = b"
    and "push_bit 6 (push_bit 2 (take_bit 4 b) OR drop_bit 6 c) OR (take_bit 6 c) = c"
    and "push_bit 2 (drop_bit 2 a) OR drop_bit 4 (push_bit 4 (take_bit 2 a)) = a"
    and "push_bit 4 (push_bit 4 (take_bit 2 a) OR drop_bit 4 b) OR drop_bit 2 (push_bit 2 (take_bit 4 b)) = b"
  by (rule byte_eqI; elim insertE; simp add: bit_simps)+

lemma unsextets_sextets: "unsextets (sextets bs) = bs"
  by (induction bs rule: sextets.induct) (simp_all only: sextets.simps unsextets.simps unsextets_triple)

lemma fromBase64_toBase64: "fromBase64 (toBase64 bs) = bs"
proof -
  have pad: "takeWhile (\<lambda>c. c \<noteq> CHR ''='') (b64_padding n) = []" for n
    by (simp add: b64_padding_def)
  have "takeWhile (\<lambda>c. c \<noteq> CHR ''='') (toBase64 bs) = map b64_char (sextets bs)"
    unfolding toBase64_def by (subst takeWhile_append2) (auto simp: pad b64_char_sextet sextets_less_64)
  moreover have "List.map_filter b64_sextet (map b64_char xs) = xs" if "\<forall>x \<in> set xs. x < 64" for xs
    using that by (induction xs) (simp_all add: b64_char_sextet)
  ultimately show ?thesis
    by (simp add: fromBase64_def unsextets_sextets sextets_less_64)
qed

lemma readUInt32LE_write:
  assumes "writeUInt32LE n = Some bs"
  shows "readUInt32LE (bs @ r) = n" and "length bs = 4"
proof -
  from assms have n: "n < 4294967296"
    and bs: "bs = [of_nat (n mod 256), of_nat (n div 256 mod 256), of_nat (n div 65536 mod 256), of_nat (n div 16777216)]"
    by (auto simp: writeUInt32LE_def split: if_splits)
  have top: "n div 16777216 < 256" using n by simp
  have q: "n div 65536 = n div 256 div 256" "n div 16777216 = n div 256 div 256 div 256"
    by (simp_all flip: div_mult2_eq)
  have "m mod 256 + 256 * (m div 256) = m" for m :: nat by simp
  from this [of n] this [of "n div 256"] this [of "n div 256 div 256"]
  have "n mod 256 + 256 * (n div 256 mod 256) + 65536 * (n div 65536 mod 256) + 16777216 * (n div 16777216) = n"
    unfolding q by linarith
  with top show "readUInt32LE (bs @ r) = n" by (simp add: bs unat_of_nat)
  show "length bs = 4" by (simp add: bs)
qed

lemma unpackCert_packCert:
  assumes "packCert body signature = Some token"
  shows "unpackCert token = (if body = [] \<and> signature = [] then None else Some (body, signature))"
proof -
  from assms obtain lenBuf where w: "writeUInt32LE (length body) = Some lenBuf"
    and t: "token = toBase64 (lenBuf @ body @ signature)"
    by (auto simp: packCert_def split: option.splits)
  note r = readUInt32LE_write [OF w]
  show ?thesis
    by (auto simp: unpackCert_def t fromBase64_toBase64 r Let_def)
qed

lemma unpackCert_length:
  "unpackCert token = Some (body, signature) \<Longrightarrow>
     length (fromBase64 token) = 4 + length body + length signature"
  by (auto simp: unpackCert_def Let_def split: if_splits)

section \<open>Property\<close>

text \<open>
  Unpacking a packed certificate gives back exactly its body and signature, through
  the base64 text and the length prefix; the one exception is the empty certificate, which the
  five-byte minimum refuses. Packing fails only for a body that does not fit a 32-bit length.
\<close>

theorem packCert_roundtrip:
  "(length body < 2 ^ 32 \<longleftrightarrow> (\<exists>token. packCert body signature = Some token)) \<and>
   Option.bind (packCert body signature) unpackCert =
     (if length body < 2 ^ 32 \<and> \<not> (body = [] \<and> signature = []) then Some (body, signature) else None)"
proof (cases "packCert body signature")
  case None
  then show ?thesis by (auto simp: packCert_def writeUInt32LE_def split: option.splits if_splits)
next
  case (Some token)
  then have "length body < 2 ^ 32"
    by (auto simp: packCert_def writeUInt32LE_def split: option.splits if_splits)
  with Some unpackCert_packCert [OF Some] show ?thesis by simp
qed

end
