(* ===== verification/Certs.thy ===== *)
theory Certs
  imports Capabilities Codec
begin

text \<open>
  Signed certificates (\<open>packages/policy/src/certs/\<close>): the generic sign, open and unverified
  decode of \<open>sign.ts\<close>, and the typed wrappers of \<open>capability-grant.ts\<close>, \<open>cert-status.ts\<close>,
  \<open>delegation.ts\<close>, \<open>intent.ts\<close> and \<open>peer-grant.ts\<close>.

  The signature scheme (\<open>@vaultys/id\<close>) and the msgpack codec are third-party packages: they are the
  four functions of the record \<open>certlib\<close>, \<open>None\<close> standing for a throw. What the code relies on is
  \<open>lawful_certlib\<close>: a signature made by an identity verifies under it, and decoding inverts
  encoding. A decoded payload of any other shape is \<open>OtherPayload\<close>. The clock is the argument
  \<open>now\<close>, in milliseconds.
\<close>

section \<open>Payloads\<close>

record capability_request_body =
  cr_agentDid :: string
  cr_requestedCapabilities :: "string list"
  cr_requestedResourceLimits :: "resource_limits option"
  cr_requestedScope :: "cert_scope option"
  cr_nonce :: string
  cr_issuedAt :: int

record capability_request_input =
  cri_agentDid :: string
  cri_requestedCapabilities :: "string list"
  cri_requestedResourceLimits :: "resource_limits option"
  cri_requestedScope :: "cert_scope option"
  cri_nonce :: string

record capability_grant_body =
  cg_certId :: string
  cg_agentDid :: string
  cg_workspaceId :: "string option"
  cg_grantedCapabilities :: "string list"
  cg_resourceLimits :: "resource_limits option"
  cg_scope :: "cert_scope option"
  cg_requestCert :: string
  cg_issuedAt :: int
  cg_expiresAt :: "int option"

record capability_grant_input =
  cgi_certId :: string
  cgi_agentDid :: string
  cgi_workspaceId :: "string option"
  cgi_grantedCapabilities :: "string list"
  cgi_resourceLimits :: "resource_limits option"
  cgi_scope :: "cert_scope option"
  cgi_requestCert :: string
  cgi_expiresAt :: "int option"

text \<open>\<open>CertificateStatus\<close>.\<close>

datatype certificate_status = Active | Revoked | Superseded | Expired

record cert_status_request_body =
  sr_certId :: string
  sr_requesterDid :: string
  sr_nonce :: string
  sr_issuedAt :: int

record cert_status_request_input =
  sri_certId :: string
  sri_requesterDid :: string
  sri_nonce :: string

record cert_status_response_body =
  sp_certId :: string
  sp_agentDid :: string
  sp_status :: certificate_status
  sp_capabilities :: "string list"
  sp_resourceLimits :: "resource_limits option"
  sp_scope :: "cert_scope option"
  sp_checkedAt :: int
  sp_expiresAt :: "int option"

record cert_status_response_input =
  spi_certId :: string
  spi_agentDid :: string
  spi_status :: certificate_status
  spi_capabilities :: "string list"
  spi_resourceLimits :: "resource_limits option"
  spi_scope :: "cert_scope option"
  spi_expiresAt :: "int option"

record delegation_cert_body =
  dl_userDid :: string
  dl_agentDid :: string
  dl_capabilities :: "string list"
  dl_issuedAt :: int
  dl_expiresAt :: "int option"

record delegation_cert_input =
  dli_userDid :: string
  dli_agentDid :: string
  dli_capabilities :: "string list"
  dli_expiresAt :: "int option"

record intent_cert_body =
  in_id :: string
  in_action :: string
  in_agentId :: string
  in_timestamp :: int

record intent_cert_input =
  ini_id :: string
  ini_action :: string
  ini_agentId :: string

record intent_cert_expectation =
  ex_intentId :: "string option"
  ex_action :: "string option"
  ex_agentId :: "string option"

record peer_grant_cert_body =
  pg_sourceDid :: string
  pg_targetDid :: string
  pg_targetName :: string
  pg_skillDescription :: string
  pg_capabilities :: "string list"
  pg_issuedAt :: int
  pg_expiresAt :: "int option"

record peer_grant_cert_input =
  pgi_sourceDid :: string
  pgi_targetDid :: string
  pgi_targetName :: string
  pgi_skillDescription :: string
  pgi_capabilities :: "string list"
  pgi_expiresAt :: "int option"

datatype cert_payload =
    CapabilityRequest capability_request_body
  | CapabilityGrant capability_grant_body
  | CertStatusRequest cert_status_request_body
  | CertStatusResponse cert_status_response_body
  | DelegationCert delegation_cert_body
  | IntentCert intent_cert_body
  | PeerGrantCert peer_grant_cert_body
  | OtherPayload string

section \<open>The generic envelope (sign.ts)\<close>

record 'vid certlib =
  signChallenge :: "'vid \<Rightarrow> byte list \<Rightarrow> byte list option"
  verifyChallenge :: "'vid \<Rightarrow> byte list \<Rightarrow> byte list \<Rightarrow> bool option"
  msgpackEncode :: "cert_payload \<Rightarrow> byte list option"
  msgpackDecode :: "byte list \<Rightarrow> cert_payload option"

definition lawful_certlib :: "'vid certlib \<Rightarrow> bool" where
  "lawful_certlib L \<longleftrightarrow>
     (\<forall>vid b s. signChallenge L vid b = Some s \<longrightarrow> verifyChallenge L vid b s = Some True) \<and>
     (\<forall>p b. msgpackEncode L p = Some b \<longrightarrow> b \<noteq> [] \<and> msgpackDecode L b = Some p)"

definition signCert :: "'vid certlib \<Rightarrow> 'vid \<Rightarrow> cert_payload \<Rightarrow> string option" where
  "signCert L vid payload =
     Option.bind (msgpackEncode L payload) (\<lambda>body.
       Option.bind (signChallenge L vid body) (\<lambda>signature. packCert body signature))"

definition openCert :: "'vid certlib \<Rightarrow> 'vid \<Rightarrow> string \<Rightarrow> cert_payload option" where
  "openCert L vid token =
     (case unpackCert token of
        None \<Rightarrow> None
      | Some (body, signature) \<Rightarrow>
          (case verifyChallenge L vid body signature of
             None \<Rightarrow> None
           | Some valid \<Rightarrow> if \<not> valid then None else msgpackDecode L body))"

definition decodeCertUnsafe :: "'vid certlib \<Rightarrow> string \<Rightarrow> cert_payload option" where
  "decodeCertUnsafe L token =
     (case unpackCert token of
        None \<Rightarrow> None
      | Some (body, signature) \<Rightarrow> msgpackDecode L body)"

section \<open>The typed wrappers\<close>

definition signCapabilityRequestCert ::
  "'vid certlib \<Rightarrow> int \<Rightarrow> 'vid \<Rightarrow> capability_request_input \<Rightarrow> string option" where
  "signCapabilityRequestCert L now vid inp =
     signCert L vid (CapabilityRequest
       \<lparr>cr_agentDid = cri_agentDid inp,
        cr_requestedCapabilities = cri_requestedCapabilities inp,
        cr_requestedResourceLimits = cri_requestedResourceLimits inp,
        cr_requestedScope = cri_requestedScope inp,
        cr_nonce = cri_nonce inp,
        cr_issuedAt = now\<rparr>)"

definition verifyCapabilityRequestCert ::
  "'vid certlib \<Rightarrow> 'vid \<Rightarrow> string \<Rightarrow> capability_request_body option" where
  "verifyCapabilityRequestCert L vid token =
     (case openCert L vid token of Some (CapabilityRequest payload) \<Rightarrow> Some payload | _ \<Rightarrow> None)"

definition signCapabilityGrantCert ::
  "'vid certlib \<Rightarrow> int \<Rightarrow> 'vid \<Rightarrow> capability_grant_input \<Rightarrow> string option" where
  "signCapabilityGrantCert L now vid inp =
     signCert L vid (CapabilityGrant
       \<lparr>cg_certId = cgi_certId inp, cg_agentDid = cgi_agentDid inp,
        cg_workspaceId = cgi_workspaceId inp,
        cg_grantedCapabilities = cgi_grantedCapabilities inp,
        cg_resourceLimits = cgi_resourceLimits inp, cg_scope = cgi_scope inp,
        cg_requestCert = cgi_requestCert inp, cg_issuedAt = now, cg_expiresAt = cgi_expiresAt inp\<rparr>)"

definition verifyCapabilityGrantCert ::
  "'vid certlib \<Rightarrow> int \<Rightarrow> 'vid \<Rightarrow> string \<Rightarrow> capability_grant_body option" where
  "verifyCapabilityGrantCert L now vid token =
     (case openCert L vid token of
        Some (CapabilityGrant payload) \<Rightarrow>
          (case cg_expiresAt payload of
             None \<Rightarrow> Some payload
           | Some e \<Rightarrow> if e < now then None else Some payload)
      | _ \<Rightarrow> None)"

definition signCertStatusRequestCert ::
  "'vid certlib \<Rightarrow> int \<Rightarrow> 'vid \<Rightarrow> cert_status_request_input \<Rightarrow> string option" where
  "signCertStatusRequestCert L now vid inp =
     signCert L vid (CertStatusRequest
       \<lparr>sr_certId = sri_certId inp, sr_requesterDid = sri_requesterDid inp,
        sr_nonce = sri_nonce inp, sr_issuedAt = now\<rparr>)"

definition verifyCertStatusRequestCert ::
  "'vid certlib \<Rightarrow> 'vid \<Rightarrow> string \<Rightarrow> cert_status_request_body option" where
  "verifyCertStatusRequestCert L vid token =
     (case openCert L vid token of Some (CertStatusRequest payload) \<Rightarrow> Some payload | _ \<Rightarrow> None)"

definition signCertStatusResponseCert ::
  "'vid certlib \<Rightarrow> int \<Rightarrow> 'vid \<Rightarrow> cert_status_response_input \<Rightarrow> string option" where
  "signCertStatusResponseCert L now vid inp =
     signCert L vid (CertStatusResponse
       \<lparr>sp_certId = spi_certId inp, sp_agentDid = spi_agentDid inp, sp_status = spi_status inp,
        sp_capabilities = spi_capabilities inp, sp_resourceLimits = spi_resourceLimits inp,
        sp_scope = spi_scope inp, sp_checkedAt = now, sp_expiresAt = spi_expiresAt inp\<rparr>)"

definition verifyCertStatusResponseCert ::
  "'vid certlib \<Rightarrow> int \<Rightarrow> 'vid \<Rightarrow> string \<Rightarrow> int option \<Rightarrow> cert_status_response_body option" where
  "verifyCertStatusResponseCert L now vid token maxAgeMs =
     (case openCert L vid token of
        Some (CertStatusResponse payload) \<Rightarrow>
          (case maxAgeMs of
             None \<Rightarrow> Some payload
           | Some m \<Rightarrow> if now - sp_checkedAt payload > m then None else Some payload)
      | _ \<Rightarrow> None)"

text \<open>
  \<open>payload.expiresAt && payload.expiresAt < Date.now()\<close>: an absent expiry and the expiry 0 are both
  falsy, so neither is an expiry.
\<close>

definition passed_truthy :: "int option \<Rightarrow> int \<Rightarrow> bool" where
  "passed_truthy expiresAt now =
     (case expiresAt of None \<Rightarrow> False | Some e \<Rightarrow> e \<noteq> 0 \<and> e < now)"

definition signDelegationCert ::
  "'vid certlib \<Rightarrow> int \<Rightarrow> 'vid \<Rightarrow> delegation_cert_input \<Rightarrow> string option" where
  "signDelegationCert L now vid inp =
     signCert L vid (DelegationCert
       \<lparr>dl_userDid = dli_userDid inp, dl_agentDid = dli_agentDid inp,
        dl_capabilities = dli_capabilities inp, dl_issuedAt = now, dl_expiresAt = dli_expiresAt inp\<rparr>)"

definition verifyDelegationCert ::
  "'vid certlib \<Rightarrow> int \<Rightarrow> 'vid \<Rightarrow> string \<Rightarrow> delegation_cert_body option" where
  "verifyDelegationCert L now vid token =
     (case openCert L vid token of
        Some (DelegationCert payload) \<Rightarrow>
          if passed_truthy (dl_expiresAt payload) now then None else Some payload
      | _ \<Rightarrow> None)"

definition signIntentCert ::
  "'vid certlib \<Rightarrow> int \<Rightarrow> 'vid \<Rightarrow> intent_cert_input \<Rightarrow> string option" where
  "signIntentCert L now vid inp =
     signCert L vid (IntentCert
       \<lparr>in_id = ini_id inp, in_action = ini_action inp, in_agentId = ini_agentId inp,
        in_timestamp = now\<rparr>)"

text \<open>A cross-check that applies only to a non-empty expectation (\<open>expected?.x && ...\<close>).\<close>

definition mismatch_truthy :: "string option \<Rightarrow> string \<Rightarrow> bool" where
  "mismatch_truthy expected actual =
     (case expected of None \<Rightarrow> False | Some x \<Rightarrow> x \<noteq> [] \<and> actual \<noteq> x)"

definition verifyIntentCert ::
  "'vid certlib \<Rightarrow> 'vid \<Rightarrow> string \<Rightarrow> intent_cert_expectation option \<Rightarrow> intent_cert_body option" where
  "verifyIntentCert L vid token expected =
     (case openCert L vid token of
        Some (IntentCert payload) \<Rightarrow>
          (case expected of
             None \<Rightarrow> Some payload
           | Some e \<Rightarrow>
               if mismatch_truthy (ex_intentId e) (in_id payload) then None
               else if mismatch_truthy (ex_action e) (in_action payload) then None
               else if ex_agentId e \<noteq> None \<and> ex_agentId e \<noteq> Some (in_agentId payload) then None
               else Some payload)
      | _ \<Rightarrow> None)"

definition signPeerGrantCert ::
  "'vid certlib \<Rightarrow> int \<Rightarrow> 'vid \<Rightarrow> peer_grant_cert_input \<Rightarrow> string option" where
  "signPeerGrantCert L now vid inp =
     signCert L vid (PeerGrantCert
       \<lparr>pg_sourceDid = pgi_sourceDid inp, pg_targetDid = pgi_targetDid inp,
        pg_targetName = pgi_targetName inp, pg_skillDescription = pgi_skillDescription inp,
        pg_capabilities = pgi_capabilities inp, pg_issuedAt = now, pg_expiresAt = pgi_expiresAt inp\<rparr>)"

definition verifyPeerGrantCert ::
  "'vid certlib \<Rightarrow> int \<Rightarrow> 'vid \<Rightarrow> string \<Rightarrow> peer_grant_cert_body option" where
  "verifyPeerGrantCert L now vid token =
     (case openCert L vid token of
        Some (PeerGrantCert payload) \<Rightarrow>
          if passed_truthy (pg_expiresAt payload) now then None else Some payload
      | _ \<Rightarrow> None)"

section \<open>Facts\<close>

lemma openCert_signCert:
  assumes "lawful_certlib L" and "signCert L vid p = Some token"
  shows "openCert L vid token = Some p"
proof -
  from assms(2) obtain body signature where
    e: "msgpackEncode L p = Some body" and s: "signChallenge L vid body = Some signature"
    and t: "packCert body signature = Some token"
    by (auto simp: signCert_def bind_eq_Some_conv)
  from assms(1) e have "body \<noteq> []" "msgpackDecode L body = Some p"
    by (auto simp: lawful_certlib_def)
  moreover from assms(1) s have "verifyChallenge L vid body signature = Some True"
    by (auto simp: lawful_certlib_def)
  ultimately show ?thesis
    by (simp add: openCert_def unpackCert_packCert [OF t])
qed

text \<open>What a successful opening guarantees, whatever the library does.\<close>

lemma openCert_Some_iff:
  "openCert L vid token = Some p \<longleftrightarrow>
     (\<exists>body signature. unpackCert token = Some (body, signature) \<and>
        verifyChallenge L vid body signature = Some True \<and> msgpackDecode L body = Some p)"
  by (auto simp: openCert_def split: option.splits if_splits prod.splits)

lemma openCert_decodeCertUnsafe: "openCert L vid token = Some p \<Longrightarrow> decodeCertUnsafe L token = Some p"
  by (auto simp: openCert_Some_iff decodeCertUnsafe_def)

lemmas sign_defs =
  signCapabilityRequestCert_def signCapabilityGrantCert_def signCertStatusRequestCert_def
  signCertStatusResponseCert_def signDelegationCert_def signIntentCert_def signPeerGrantCert_def

lemmas verify_defs =
  verifyCapabilityRequestCert_def verifyCapabilityGrantCert_def verifyCertStatusRequestCert_def
  verifyCertStatusResponseCert_def verifyDelegationCert_def verifyIntentCert_def
  verifyPeerGrantCert_def

lemma verifyCapabilityGrantCert_Some_iff:
  "verifyCapabilityGrantCert L now vid token = Some g \<longleftrightarrow>
     openCert L vid token = Some (CapabilityGrant g) \<and> (\<forall>e. cg_expiresAt g = Some e \<longrightarrow> now \<le> e)"
  by (auto simp: verifyCapabilityGrantCert_def split: option.splits cert_payload.splits if_splits)

lemma verifyCertStatusResponseCert_Some_iff:
  "verifyCertStatusResponseCert L now vid token m = Some r \<longleftrightarrow>
     openCert L vid token = Some (CertStatusResponse r) \<and>
     (\<forall>age. m = Some age \<longrightarrow> now - sp_checkedAt r \<le> age)"
  by (auto simp: verifyCertStatusResponseCert_def split: option.splits cert_payload.splits if_splits)

lemma verifyIntentCert_Some_iff:
  "verifyIntentCert L vid token expected = Some i \<longleftrightarrow>
     openCert L vid token = Some (IntentCert i) \<and>
     (\<forall>e. expected = Some e \<longrightarrow>
        \<not> mismatch_truthy (ex_intentId e) (in_id i) \<and> \<not> mismatch_truthy (ex_action e) (in_action i) \<and>
        (ex_agentId e = None \<or> ex_agentId e = Some (in_agentId i)))"
  by (auto simp: verifyIntentCert_def split: option.splits cert_payload.splits if_splits)

section \<open>A concrete library\<close>

text \<open>
  An instance of \<open>certlib\<close> that meets \<open>lawful_certlib\<close>, for evaluation: a table of payloads is
  encoded by index, and a signature is the identity's byte before the signed bytes.
\<close>

definition table_certlib :: "cert_payload list \<Rightarrow> byte certlib" where
  "table_certlib ps =
     \<lparr>signChallenge = (\<lambda>vid b. Some (vid # b)),
      verifyChallenge = (\<lambda>vid b s. Some (s = vid # b)),
      msgpackEncode = (\<lambda>p. case index_of p ps of None \<Rightarrow> None | Some i \<Rightarrow> if i < 256 then Some [of_nat i] else None),
      msgpackDecode = (\<lambda>b. case b of [x] \<Rightarrow> if unat x < length ps then Some (ps ! unat x) else None | _ \<Rightarrow> None)\<rparr>"

lemma table_certlib_lawful: "lawful_certlib (table_certlib ps)"
  by (auto simp: lawful_certlib_def table_certlib_def index_of_Some_iff unat_of_nat
      split: option.splits if_splits)

section \<open>Properties\<close>

text \<open>
  C10 (roundtrip). A grant the control plane signed verifies under its identity to exactly the body
  it signed until the grant's expiry instant and to nothing after it, and the same token is never
  accepted as any other kind of certificate.
\<close>

theorem signed_grant_verifies:
  assumes "lawful_certlib L" and "signCapabilityGrantCert L issued vid inp = Some token"
  shows "verifyCapabilityGrantCert L now vid token =
           (if (case cgi_expiresAt inp of None \<Rightarrow> False | Some e \<Rightarrow> e < now) then None
            else Some \<lparr>cg_certId = cgi_certId inp, cg_agentDid = cgi_agentDid inp,
                       cg_workspaceId = cgi_workspaceId inp,
                       cg_grantedCapabilities = cgi_grantedCapabilities inp,
                       cg_resourceLimits = cgi_resourceLimits inp, cg_scope = cgi_scope inp,
                       cg_requestCert = cgi_requestCert inp, cg_issuedAt = issued,
                       cg_expiresAt = cgi_expiresAt inp\<rparr>)
         \<and> verifyCapabilityRequestCert L vid token = None
         \<and> verifyCertStatusRequestCert L vid token = None
         \<and> verifyCertStatusResponseCert L now vid token m = None
         \<and> verifyDelegationCert L now vid token = None
         \<and> verifyIntentCert L vid token x = None
         \<and> verifyPeerGrantCert L now vid token = None"
  using openCert_signCert [OF assms [unfolded signCapabilityGrantCert_def]]
  by (simp add: verify_defs split: option.split)

definition sample_grant :: capability_grant_input where
  "sample_grant = \<lparr>cgi_certId = ''c1'', cgi_agentDid = ''did:a'', cgi_workspaceId = None,
     cgi_grantedCapabilities = [''file_read''], cgi_resourceLimits = None, cgi_scope = None,
     cgi_requestCert = ''req'', cgi_expiresAt = Some 900\<rparr>"

definition sample_grant_body :: capability_grant_body where
  "sample_grant_body = \<lparr>cg_certId = ''c1'', cg_agentDid = ''did:a'', cg_workspaceId = None,
     cg_grantedCapabilities = [''file_read''], cg_resourceLimits = None, cg_scope = None,
     cg_requestCert = ''req'', cg_issuedAt = 500, cg_expiresAt = Some 900\<rparr>"

definition sample_lib :: "byte certlib" where
  "sample_lib = table_certlib [CapabilityGrant sample_grant_body]"

lemma sample_pack: "packCert [0] [7, 0] = Some ''AQAAAAAHAA==''"
  by (simp add: packCert_def writeUInt32LE_def toBase64_def b64_char_def b64_alphabet_def b64_padding_def)

lemma sample_grant_signs:
  "signCapabilityGrantCert sample_lib 500 7 sample_grant = packCert [0] [7, 0]"
  by (simp add: signCapabilityGrantCert_def signCert_def sample_lib_def table_certlib_def
      sample_grant_def sample_grant_body_def)

theorem signed_grant_verifies_witness:
  "verifyCapabilityGrantCert sample_lib 800 7 ''AQAAAAAHAA=='' = Some sample_grant_body
   \<and> verifyCapabilityGrantCert sample_lib 901 7 ''AQAAAAAHAA=='' = None"
proof -
  have s: "signCapabilityGrantCert sample_lib 500 7 sample_grant = Some ''AQAAAAAHAA==''"
    by (simp add: sample_grant_signs sample_pack)
  have l: "lawful_certlib sample_lib" by (simp add: sample_lib_def table_certlib_lawful)
  show ?thesis
    using signed_grant_verifies [OF l s, of 800] signed_grant_verifies [OF l s, of 901]
    by (simp add: sample_grant_def sample_grant_body_def)
qed

text \<open>
  C11 (safety). An intent signature is accepted against an expectation exactly when it is the
  signature of that intent: the id and the action of a non-empty expectation and any expected agent
  have to be the signed ones, so a signature lifted from another record does not verify.
\<close>

theorem intent_signature_not_replayable:
  assumes "lawful_certlib L" and "signIntentCert L issued vid inp = Some token"
  shows "verifyIntentCert L vid token (Some e) \<noteq> None \<longleftrightarrow>
           (ex_intentId e = None \<or> ex_intentId e = Some [] \<or> ex_intentId e = Some (ini_id inp)) \<and>
           (ex_action e = None \<or> ex_action e = Some [] \<or> ex_action e = Some (ini_action inp)) \<and>
           (ex_agentId e = None \<or> ex_agentId e = Some (ini_agentId inp))"
  using openCert_signCert [OF assms [unfolded signIntentCert_def]]
  by (auto simp: verifyIntentCert_def mismatch_truthy_def split: option.splits)

definition sample_intent_lib :: "byte certlib" where
  "sample_intent_lib = table_certlib [IntentCert
     \<lparr>in_id = ''i1'', in_action = ''mail_send'', in_agentId = ''did:a'', in_timestamp = 5\<rparr>]"

theorem intent_signature_not_replayable_witness:
  "verifyIntentCert sample_intent_lib 7 ''AQAAAAAHAA==''
     (Some \<lparr>ex_intentId = Some ''i2'', ex_action = None, ex_agentId = None\<rparr>) = None
   \<and> verifyIntentCert sample_intent_lib 7 ''AQAAAAAHAA==''
     (Some \<lparr>ex_intentId = Some ''i1'', ex_action = None, ex_agentId = Some ''did:a''\<rparr>) \<noteq> None"
proof -
  let ?inp = "\<lparr>ini_id = ''i1'', ini_action = ''mail_send'', ini_agentId = ''did:a''\<rparr>"
  have s: "signIntentCert sample_intent_lib 5 7 ?inp = Some ''AQAAAAAHAA==''"
    by (simp add: signIntentCert_def signCert_def sample_intent_lib_def table_certlib_def sample_pack)
  have l: "lawful_certlib sample_intent_lib" by (simp add: sample_intent_lib_def table_certlib_lawful)
  show ?thesis
    using intent_signature_not_replayable [OF l s, of "\<lparr>ex_intentId = Some ''i2'', ex_action = None, ex_agentId = None\<rparr>"]
      intent_signature_not_replayable [OF l s, of "\<lparr>ex_intentId = Some ''i1'', ex_action = None, ex_agentId = Some ''did:a''\<rparr>"]
    by simp
qed

end
