(* ===== verification/Trust.thy ===== *)
theory Trust
  imports Certs
begin

text \<open>
  The decision function over a holder's certificates (\<open>packages/trust/src/resolve-permission.ts\<close>)
  and the renewal test (\<open>renewal.ts\<close>), on the certificate view of \<open>types.ts\<close>. Both are pure; the
  clock is the argument \<open>now\<close>.
\<close>

section \<open>Types\<close>

record capability_certificate_lite =
  cl_id :: string
  cl_agentDid :: string
  cl_capabilities :: "string list"
  cl_resourceLimits :: "resource_limits option"
  cl_scope :: "cert_scope option"
  cl_status :: certificate_status
  cl_issuedAt :: int
  cl_expiresAt :: "int option"
  cl_usedCount :: "int option"

record requested_action =
  ra_capability :: string
  ra_resource :: "string option"

record permission_decision =
  allowed :: bool
  grantingCertId :: "string option"
  reason :: "string option"

section \<open>Decision\<close>

text \<open>
  \<open>matchesPattern\<close>: without a star an equality; otherwise the regexp \<open>^p1.*p2 ... $\<close> over the escaped
  parts. \<open>glob\<close> is its matcher: a star stands for any run of characters none of which ends a line
  (the dot of a regexp without the \<open>s\<close> flag).
\<close>

definition is_line_terminator :: "char \<Rightarrow> bool" where
  "is_line_terminator c = (code_unit c = 10 \<or> code_unit c = 13)"

fun glob :: "string \<Rightarrow> string \<Rightarrow> bool" where
  "glob [] v = (v = [])"
| "glob (p # ps) [] = (p = CHR ''*'' \<and> glob ps [])"
| "glob (p # ps) (c # v) =
     (if p = CHR ''*'' then glob ps (c # v) \<or> (\<not> is_line_terminator c \<and> glob (p # ps) v)
      else c = p \<and> glob ps v)"

definition matchesPattern :: "string \<Rightarrow> string \<Rightarrow> bool" where
  "matchesPattern pattern v =
     (if \<not> str_includes pattern ''*'' then pattern = v else glob pattern v)"

text \<open>A present, non-empty string (\<open>resource && ...\<close>).\<close>

definition truthy :: "string option \<Rightarrow> bool" where
  "truthy x = (case x of None \<Rightarrow> False | Some s \<Rightarrow> s \<noteq> [])"

definition scopeMatches :: "cert_scope option \<Rightarrow> string option \<Rightarrow> bool" where
  "scopeMatches scope requestedResource =
     (let res = Option.bind scope resource; pat = Option.bind scope resourcePattern in
      if \<not> truthy res \<and> \<not> truthy pat then True
      else case requestedResource of
             None \<Rightarrow> False
           | Some req \<Rightarrow>
               if truthy res \<and> res = Some req then True
               else if truthy pat \<and> matchesPattern (the pat) req then True
               else False)"

definition isUsable :: "capability_certificate_lite \<Rightarrow> int \<Rightarrow> bool" where
  "isUsable cert now =
     (if cl_status cert \<noteq> Active then False
      else if (case cl_expiresAt cert of None \<Rightarrow> False | Some e \<Rightarrow> e \<le> now) then False
      else case Option.bind (cl_scope cert) maxUses of
             None \<Rightarrow> True
           | Some m \<Rightarrow> \<not> ((case cl_usedCount cert of None \<Rightarrow> 0 | Some u \<Rightarrow> u) \<ge> m))"

definition quoted :: "string \<Rightarrow> string" where
  "quoted s = [CHR 39] @ s @ [CHR 39]"

fun resolvePermission ::
  "requested_action \<Rightarrow> capability_certificate_lite list \<Rightarrow> int \<Rightarrow> permission_decision" where
  "resolvePermission action [] now =
     \<lparr>allowed = False, grantingCertId = None,
      reason = Some (if truthy (ra_resource action)
        then ''No active certificate grants '' @ quoted (ra_capability action) @ '' for resource ''
             @ quoted (the (ra_resource action))
        else ''No active certificate grants '' @ quoted (ra_capability action))\<rparr>"
| "resolvePermission action (cert # certs) now =
     (if \<not> isUsable cert now then resolvePermission action certs now
      else if ra_capability action \<notin> set (cl_capabilities cert) then resolvePermission action certs now
      else if \<not> scopeMatches (cl_scope cert) (ra_resource action) then resolvePermission action certs now
      else \<lparr>allowed = True, grantingCertId = Some (cl_id cert), reason = None\<rparr>)"

section \<open>Renewal (renewal.ts)\<close>

definition DEFAULT_STANDING_TTL_THRESHOLD_MS :: int where
  "DEFAULT_STANDING_TTL_THRESHOLD_MS = 5 * 60 * 1000"

definition isEligibleForProactiveRenewal :: "capability_certificate_lite \<Rightarrow> int \<Rightarrow> bool" where
  "isEligibleForProactiveRenewal cert thresholdMs =
     (if cl_scope cert \<noteq> None then False
      else case cl_expiresAt cert of
             None \<Rightarrow> False
           | Some e \<Rightarrow> e - cl_issuedAt cert > thresholdMs)"

section \<open>Facts\<close>

text \<open>One certificate grants one action.\<close>

definition grants :: "requested_action \<Rightarrow> int \<Rightarrow> capability_certificate_lite \<Rightarrow> bool" where
  "grants action now cert =
     (isUsable cert now \<and> ra_capability action \<in> set (cl_capabilities cert)
        \<and> scopeMatches (cl_scope cert) (ra_resource action))"

lemma resolvePermission_find:
  "allowed (resolvePermission action certs now) = (find (grants action now) certs \<noteq> None)"
  "grantingCertId (resolvePermission action certs now) = map_option cl_id (find (grants action now) certs)"
  by (induction certs) (auto simp: grants_def)

lemma allowed_iff:
  "allowed (resolvePermission action certs now) \<longleftrightarrow> (\<exists>cert \<in> set certs. grants action now cert)"
  by (induction certs) (auto simp: grants_def)

lemma grants_active: "grants action now cert \<Longrightarrow> cl_status cert = Active"
  by (auto simp: grants_def isUsable_def split: if_splits)

lemma isUsable_antimono: "isUsable cert later \<Longrightarrow> now \<le> later \<Longrightarrow> isUsable cert now"
  by (auto simp: isUsable_def split: if_splits option.splits)

lemma glob_no_star: "CHR ''*'' \<notin> set p \<Longrightarrow> glob p v \<longleftrightarrow> p = v"
proof (induction p arbitrary: v)
  case (Cons c p)
  then show ?case by (cases v) auto
qed auto

lemma glob_star_only: "glob ''*'' v \<longleftrightarrow> (\<forall>c \<in> set v. \<not> is_line_terminator c)"
  by (induction v) auto

lemma glob_trailing_star:
  "CHR ''*'' \<notin> set p \<Longrightarrow> glob (p @ ''*'') v \<longleftrightarrow>
     (\<exists>r. v = p @ r \<and> (\<forall>c \<in> set r. \<not> is_line_terminator c))"
proof (induction p arbitrary: v)
  case Nil
  show ?case by (simp add: glob_star_only)
next
  case (Cons c p)
  then show ?case by (cases v) auto
qed

text \<open>The pattern as text split at its stars (\<open>pattern.split("*")\<close>): each part in order.\<close>

lemma glob_star_iff:
  "glob (CHR ''*'' # ps) v \<longleftrightarrow>
     (\<exists>x y. v = x @ y \<and> (\<forall>c \<in> set x. \<not> is_line_terminator c) \<and> glob ps y)"
proof (induction v)
  case (Cons c v)
  show ?case (is "?l = ?r")
  proof
    assume ?l
    then consider "glob ps (c # v)" | "\<not> is_line_terminator c" "glob (CHR ''*'' # ps) v" by auto
    then show ?r
    proof cases
      case 1
      then show ?thesis by (intro exI [of _ "[]"] exI [of _ "c # v"]) simp
    next
      case 2
      with Cons.IH obtain x y where "v = x @ y" "\<forall>c \<in> set x. \<not> is_line_terminator c" "glob ps y"
        by blast
      with 2 show ?thesis by (intro exI [of _ "c # x"] exI [of _ y]) simp
    qed
  next
    assume ?r
    then obtain x y where xy: "c # v = x @ y" "\<forall>c \<in> set x. \<not> is_line_terminator c" "glob ps y"
      by blast
    with Cons.IH show ?l by (cases x) auto
  qed
qed auto

lemma scopeMatches_None [simp]: "scopeMatches None r"
  by (simp add: scopeMatches_def truthy_def)

section \<open>Properties\<close>



text \<open>
  Adding certificates never takes a permission away, and time alone never gives one:
  what a set of certificates allows now, every larger set allowed at every earlier instant.
\<close>

theorem permission_monotone:
  assumes "set certs \<subseteq> set certs'" and "now' \<le> now"
    and "allowed (resolvePermission action certs now)"
  shows "allowed (resolvePermission action certs' now')"
proof -
  from assms(3) obtain cert where "cert \<in> set certs" and "grants action now cert"
    by (auto simp: allowed_iff)
  with assms(1,2) have "cert \<in> set certs'" and "grants action now' cert"
    by (auto simp: grants_def intro: isUsable_antimono)
  then show ?thesis by (auto simp: allowed_iff)
qed

theorem permission_monotone_witness:
  "allowed (resolvePermission \<lparr>ra_capability = ''api_call'', ra_resource = None\<rparr>
     [\<lparr>cl_id = ''r'', cl_agentDid = ''d'', cl_capabilities = [''api_call''], cl_resourceLimits = None,
       cl_scope = None, cl_status = Revoked, cl_issuedAt = 0, cl_expiresAt = None, cl_usedCount = None\<rparr>,
      \<lparr>cl_id = ''c'', cl_agentDid = ''d'', cl_capabilities = [''api_call''], cl_resourceLimits = None,
       cl_scope = None, cl_status = Active, cl_issuedAt = 0, cl_expiresAt = Some 9, cl_usedCount = None\<rparr>] 5)"
proof (rule permission_monotone [where now = 8])
  show "set [\<lparr>cl_id = ''c'', cl_agentDid = ''d'', cl_capabilities = [''api_call''], cl_resourceLimits = None,
       cl_scope = None, cl_status = Active, cl_issuedAt = 0, cl_expiresAt = Some 9, cl_usedCount = None\<rparr>]
     \<subseteq> set [\<lparr>cl_id = ''r'', cl_agentDid = ''d'', cl_capabilities = [''api_call''], cl_resourceLimits = None,
       cl_scope = None, cl_status = Revoked, cl_issuedAt = 0, cl_expiresAt = None, cl_usedCount = None\<rparr>,
      \<lparr>cl_id = ''c'', cl_agentDid = ''d'', cl_capabilities = [''api_call''], cl_resourceLimits = None,
       cl_scope = None, cl_status = Active, cl_issuedAt = 0, cl_expiresAt = Some 9, cl_usedCount = None\<rparr>]"
    by simp
qed (simp_all add: isUsable_def)

text \<open>
  A resource pattern with one trailing star matches exactly the resources that
  continue its prefix without a line break, and a pattern without a star matches only itself.
\<close>

theorem pattern_semantics:
  assumes "CHR ''*'' \<notin> set p"
  shows "(matchesPattern p v \<longleftrightarrow> v = p) \<and>
         (matchesPattern (p @ ''*'') v \<longleftrightarrow> (\<exists>r. v = p @ r \<and> list_all (\<lambda>c. \<not> is_line_terminator c) r))"
  using assms glob_trailing_star [OF assms, of v] by (auto simp: matchesPattern_def list_all_iff)

theorem pattern_semantics_witness:
  "matchesPattern (''file:///reports/'' @ ''*'') ''file:///reports/q3.pdf''
   \<and> \<not> matchesPattern ''file:///reports/'' ''file:///reports/q3.pdf''"
proof -
  have "CHR ''*'' \<notin> set ''file:///reports/''" by simp
  note p = pattern_semantics [OF this, of "''file:///reports/q3.pdf''"]
  have "\<exists>r. ''file:///reports/q3.pdf'' = ''file:///reports/'' @ r \<and> list_all (\<lambda>c. \<not> is_line_terminator c) r"
    by (rule exI [of _ "''q3.pdf''"]) (simp add: is_line_terminator_def code_unit_def)
  with p show ?thesis by simp
qed

end
