(* ===== verification/Store.thy ===== *)
theory Store
  imports Table Trust
begin

text \<open>
  The control plane's ledger database (\<open>packages/controlplane/db/*.dao.ts\<close> over
  \<open>prisma/schema.prisma\<close>): Actors, capability certificates, status-check audit rows, pending
  registrations, invitations, workspaces, kill switches, custom capabilities, settings, sensor
  workloads and the audit log. One
  definition per DAO method; a generated id and the clock are arguments. Rows come back in
  insertion order where the source gives no order.
\<close>

section \<open>Rows and state\<close>

record declared_capability =
  dc_name :: string
  dc_label :: "string option"
  dc_description :: "string option"

record actor_row =
  a_did :: string
  a_name :: string
  a_kind :: string
  a_publicKey :: "string option"
  a_workspaceId :: "string option"
  a_declaredCapabilities :: "declared_capability list option"
  a_kindConfig :: "(string \<times> json) list"
  a_registeredAt :: int
  a_lastSeen :: int
  a_ownerDid :: "string option"

record certificate_row =
  c_id :: string
  c_agentDid :: string
  c_workspaceId :: "string option"
  c_capabilities :: "string list"
  c_resourceLimits :: "resource_limits option"
  c_scope :: "cert_scope option"
  c_certFormat :: string
  c_certificate :: string
  c_requestCertificate :: "string option"
  c_status :: certificate_status
  c_issuedBy :: "string option"
  c_issuedAt :: int
  c_expiresAt :: "int option"
  c_revokedAt :: "int option"
  c_revokedBy :: "string option"
  c_revokedReason :: "string option"

record status_check_row =
  sc_id :: string
  sc_certId :: string
  sc_requesterDid :: string
  sc_status :: certificate_status
  sc_checkedAt :: int

datatype registration_status = Pending | Approved | Denied

record pending_row =
  p_id :: string
  p_did :: string
  p_publicKey :: "string option"
  p_sessionId :: string
  p_name :: string
  p_kind :: string
  p_status :: registration_status
  p_requestedCapabilities :: "string list"
  p_assignedCapabilities :: "string list"
  p_targetWorkspaceId :: "string option"
  p_createdAt :: int
  p_approvedBy :: "string option"
  p_deliveredAt :: "int option"

record invitation_row =
  i_tokenHash :: string
  i_name :: string
  i_email :: "string option"
  i_capabilities :: "string list"
  i_workspaceId :: "string option"
  i_createdBy :: string
  i_createdAt :: int
  i_expiresAt :: int
  i_redeemedAt :: "int option"
  i_redeemedDid :: "string option"
  i_ssoIdentityId :: "string option"

record workspace_row =
  w_id :: string
  w_name :: string
  w_slug :: string
  w_description :: "string option"
  w_color :: string
  w_isDefault :: bool
  w_createdAt :: int
  w_certFailMode :: "string option"
  w_certStapleTtlSeconds :: "int option"

datatype scope_type = GlobalScope | WorkspaceScope

record kill_switch_row =
  k_id :: string
  k_scopeType :: scope_type
  k_workspaceId :: "string option"
  k_reason :: string
  k_armedBy :: string
  k_armedAt :: int

record custom_capability_row =
  cc_id :: string
  cc_name :: string
  cc_vendor :: string
  cc_action :: string
  cc_label :: string
  cc_description :: "string option"
  cc_group :: "string option"
  cc_createdBy :: string

text \<open>A sensor's classified observation; the two confidences are the values of its JSON numbers.\<close>

record workload_row =
  wl_deviceDid :: string
  wl_fingerprint :: string
  wl_eventType :: string
  wl_processName :: string
  wl_executable :: "string option"
  wl_command :: "string option"
  wl_user :: "string option"
  wl_provider :: "string option"
  wl_model :: "string option"
  wl_aiConfidence :: rat
  wl_agentConfidence :: rat
  wl_reasons :: "string list"
  wl_isMcp :: bool
  wl_mcpServers :: "string list"
  wl_isLocalRuntime :: bool
  wl_identityEvidence :: "string option"
  wl_lastSeen :: int

record audit_row =
  al_eventType :: string
  al_actorDid :: "string option"
  al_actorName :: "string option"
  al_targetType :: "string option"
  al_targetId :: "string option"
  al_details :: "(string \<times> json) list"
  al_createdAt :: int

record db =
  tb_actors :: "actor_row list"
  tb_certs :: "certificate_row list"
  tb_checks :: "status_check_row list"
  tb_pending :: "pending_row list"
  tb_invitations :: "invitation_row list"
  tb_workspaces :: "workspace_row list"
  tb_killSwitches :: "kill_switch_row list"
  tb_customCaps :: "custom_capability_row list"
  tb_settings :: "(string \<times> string) list"
  tb_workloads :: "workload_row list"
  tb_audit :: "audit_row list"

definition empty_db :: db where
  "empty_db = \<lparr>tb_actors = [], tb_certs = [], tb_checks = [], tb_pending = [], tb_invitations = [],
     tb_workspaces = [], tb_killSwitches = [], tb_customCaps = [], tb_settings = [],
     tb_workloads = [], tb_audit = []\<rparr>"

text \<open>A nullable foreign key to the workspaces.\<close>

definition workspace_ok :: "db \<Rightarrow> string option \<Rightarrow> bool" where
  "workspace_ok d ws =
     (case ws of None \<Rightarrow> True | Some w \<Rightarrow> row_find w_id w (tb_workspaces d) \<noteq> None)"

definition owner_ok :: "db \<Rightarrow> string option \<Rightarrow> bool" where
  "owner_ok d own =
     (case own of None \<Rightarrow> True | Some o' \<Rightarrow> row_find a_did o' (tb_actors d) \<noteq> None)"

end
