(* ===== verification/LedgerDao.thy ===== *)
theory LedgerDao
  imports Store
begin

text \<open>
  The certificate ledger and the Actors (\<open>db/certificate.dao.ts\<close>, \<open>db/cert-status-check.dao.ts\<close>,
  \<open>db/actor.dao.ts\<close>). The foreign keys are the schema's: a certificate names an existing Actor and
  falls with it, a status check falls with its certificate, an owner or workspace that goes away
  is cleared. Ordering by text, counting by group and the map columns are not modelled.
\<close>

section \<open>Certificates (certificate.dao.ts)\<close>

definition toLite :: "certificate_row \<Rightarrow> capability_certificate_lite" where
  "toLite row =
     \<lparr>cl_id = c_id row, cl_agentDid = c_agentDid row, cl_capabilities = c_capabilities row,
      cl_resourceLimits = c_resourceLimits row, cl_scope = c_scope row, cl_status = c_status row,
      cl_issuedAt = c_issuedAt row, cl_expiresAt = c_expiresAt row, cl_usedCount = None\<rparr>"

record certificate_create =
  ci_id :: string
  ci_agentDid :: string
  ci_workspaceId :: "string option"
  ci_capabilities :: "string list"
  ci_resourceLimits :: "resource_limits option"
  ci_scope :: "cert_scope option"
  ci_certFormat :: "string option"
  ci_certificate :: string
  ci_requestCertificate :: "string option"
  ci_expiresAt :: "int option"
  ci_issuedBy :: "string option"

definition cert_create :: "int \<Rightarrow> certificate_create \<Rightarrow> db \<Rightarrow> (db_error, certificate_row \<times> db) result" where
  "cert_create now inp d =
     (let row = \<lparr>c_id = ci_id inp, c_agentDid = ci_agentDid inp, c_workspaceId = ci_workspaceId inp,
            c_capabilities = ci_capabilities inp, c_resourceLimits = ci_resourceLimits inp,
            c_scope = ci_scope inp,
            c_certFormat = (case ci_certFormat inp of None \<Rightarrow> ''packcert'' | Some f \<Rightarrow> f),
            c_certificate = ci_certificate inp, c_requestCertificate = ci_requestCertificate inp,
            c_status = Active, c_issuedBy = ci_issuedBy inp, c_issuedAt = now,
            c_expiresAt = ci_expiresAt inp, c_revokedAt = None, c_revokedBy = None,
            c_revokedReason = None\<rparr>
      in throw_when (row_find a_did (ci_agentDid inp) (tb_actors d) = None \<or> \<not> workspace_ok d (ci_workspaceId inp))
           ForeignKeyViolation
           (bind_result (row_insert c_id row (tb_certs d)) (\<lambda>rows. Inr (row, d\<lparr>tb_certs := rows\<rparr>))))"

definition cert_findById :: "string \<Rightarrow> db \<Rightarrow> certificate_row option" where
  "cert_findById cid d = row_find c_id cid (tb_certs d)"

text \<open>The row with its holder, an inner join on the required relation.\<close>

definition cert_findByIdWithActor :: "string \<Rightarrow> db \<Rightarrow> (certificate_row \<times> actor_row) option" where
  "cert_findByIdWithActor cid d =
     Option.bind (row_find c_id cid (tb_certs d)) (\<lambda>row.
       map_option (Pair row) (row_find a_did (c_agentDid row) (tb_actors d)))"

definition cert_findManyByIds :: "string list \<Rightarrow> db \<Rightarrow> certificate_row list" where
  "cert_findManyByIds ids d = filter (\<lambda>r. c_id r \<in> set ids) (tb_certs d)"

definition cert_findAllForActor :: "string \<Rightarrow> db \<Rightarrow> capability_certificate_lite list" where
  "cert_findAllForActor did d = map toLite (filter (\<lambda>r. c_agentDid r = did) (tb_certs d))"

definition cert_existsActiveWithCapability :: "int \<Rightarrow> string \<Rightarrow> db \<Rightarrow> bool" where
  "cert_existsActiveWithCapability now capability d =
     (length (filter (\<lambda>r. c_status r = Active \<and> capability \<in> set (c_capabilities r)
        \<and> (case c_expiresAt r of None \<Rightarrow> True | Some e \<Rightarrow> e > now)) (tb_certs d)) > 0)"

definition cert_revoke ::
  "int \<Rightarrow> string \<Rightarrow> string \<Rightarrow> string \<Rightarrow> db \<Rightarrow> (db_error, certificate_row \<times> db) result" where
  "cert_revoke now cid revokedBy why d =
     bind_result
       (row_update c_id cid
          (\<lambda>r. r\<lparr>c_status := Revoked, c_revokedAt := Some now, c_revokedBy := Some revokedBy,
                 c_revokedReason := Some why\<rparr>) (tb_certs d))
       (\<lambda>(row, rows). Inr (row, d\<lparr>tb_certs := rows\<rparr>))"

definition cert_list :: "string option \<Rightarrow> certificate_status option \<Rightarrow> db \<Rightarrow> certificate_row list" where
  "cert_list agentDid status d =
     sort_key (\<lambda>r. - c_issuedAt r)
       (filter (\<lambda>r. (agentDid = None \<or> agentDid = Some (c_agentDid r))
                  \<and> (status = None \<or> status = Some (c_status r))) (tb_certs d))"

definition cert_countActive :: "db \<Rightarrow> nat" where
  "cert_countActive d = length (filter (\<lambda>r. c_status r = Active) (tb_certs d))"

section \<open>Status checks (cert-status-check.dao.ts)\<close>

record status_check_input =
  si_id :: string
  si_certId :: string
  si_requesterDid :: string
  si_status :: certificate_status
  si_checkedAt :: int

definition check_row :: "status_check_input \<Rightarrow> status_check_row" where
  "check_row r = \<lparr>sc_id = si_id r, sc_certId = si_certId r, sc_requesterDid = si_requesterDid r,
     sc_status = si_status r, sc_checkedAt = si_checkedAt r\<rparr>"

definition check_record :: "status_check_input \<Rightarrow> db \<Rightarrow> (db_error, db) result" where
  "check_record inp d =
     throw_when (row_find c_id (si_certId inp) (tb_certs d) = None) ForeignKeyViolation
       (bind_result (row_insert sc_id (check_row inp) (tb_checks d)) (\<lambda>rows. Inr (d\<lparr>tb_checks := rows\<rparr>)))"

text \<open>
  \<open>createMany\<close> with \<open>skipDuplicates\<close> skips rows whose key is taken, and only those: a row that names a
  missing certificate still fails the whole statement.
\<close>

definition check_recordBatch :: "status_check_input list \<Rightarrow> db \<Rightarrow> (db_error, nat \<times> db) result" where
  "check_recordBatch rows d =
     (if rows = [] then Inr (0, d)
      else if \<exists>r \<in> set rows. row_find c_id (si_certId r) (tb_certs d) = None then Inl ForeignKeyViolation
      else let add = (\<lambda>r t. case row_insert sc_id (check_row r) t of Inl _ \<Rightarrow> t | Inr t' \<Rightarrow> t');
               checks = fold add rows (tb_checks d)
           in Inr (length checks - length (tb_checks d), d\<lparr>tb_checks := checks\<rparr>))"

definition check_listForCert :: "string \<Rightarrow> db \<Rightarrow> status_check_row list" where
  "check_listForCert cid d = sort_key (\<lambda>r. - sc_checkedAt r) (filter (\<lambda>r. sc_certId r = cid) (tb_checks d))"

section \<open>Actors (actor.dao.ts)\<close>

record actor_upsert_input =
  au_did :: string
  au_name :: string
  au_kind :: string
  au_publicKey :: "string option"
  au_workspaceId :: "string option"
  au_kindConfig :: "(string \<times> json) list option"

text \<open>\<open>publicKey ?? undefined\<close> leaves the column alone on update; \<open>workspaceId ?? null\<close> clears it.\<close>

definition actor_upsert_fields :: "int \<Rightarrow> actor_upsert_input \<Rightarrow> actor_row \<Rightarrow> actor_row" where
  "actor_upsert_fields now inp r =
     r\<lparr>a_name := au_name inp, a_kind := au_kind inp,
       a_publicKey := (case au_publicKey inp of None \<Rightarrow> a_publicKey r | Some p \<Rightarrow> Some p),
       a_workspaceId := au_workspaceId inp, a_lastSeen := now,
       a_kindConfig := (case au_kindConfig inp of None \<Rightarrow> a_kindConfig r | Some c \<Rightarrow> c)\<rparr>"

definition actor_upsert :: "int \<Rightarrow> actor_upsert_input \<Rightarrow> db \<Rightarrow> (db_error, actor_row \<times> db) result" where
  "actor_upsert now inp d =
     throw_when (\<not> workspace_ok d (au_workspaceId inp)) ForeignKeyViolation
       (case row_find a_did (au_did inp) (tb_actors d) of
          None \<Rightarrow>
            let row = \<lparr>a_did = au_did inp, a_name = au_name inp, a_kind = au_kind inp,
                       a_publicKey = au_publicKey inp, a_workspaceId = au_workspaceId inp,
                       a_declaredCapabilities = None,
                       a_kindConfig = (case au_kindConfig inp of None \<Rightarrow> [] | Some c \<Rightarrow> c),
                       a_registeredAt = now, a_lastSeen = now, a_ownerDid = None\<rparr>
            in Inr (row, d\<lparr>tb_actors := tb_actors d @ [row]\<rparr>)
        | Some old \<Rightarrow>
            Inr (actor_upsert_fields now inp old,
                 d\<lparr>tb_actors := row_map (\<lambda>r. a_did r = au_did inp) (actor_upsert_fields now inp) (tb_actors d)\<rparr>))"

definition actor_findByDid :: "string \<Rightarrow> db \<Rightarrow> actor_row option" where
  "actor_findByDid did d = row_find a_did did (tb_actors d)"

definition actor_findManyByDid :: "string list \<Rightarrow> db \<Rightarrow> actor_row list" where
  "actor_findManyByDid dids d = filter (\<lambda>r. a_did r \<in> set dids) (tb_actors d)"

text \<open>An edit: the outer option is \<open>undefined\<close> (leave alone), the inner one \<open>null\<close> (clear).\<close>

definition actor_update_fields ::
  "string option \<Rightarrow> string option option \<Rightarrow> string option option \<Rightarrow> actor_row \<Rightarrow> actor_row" where
  "actor_update_fields nm ws owner r =
     r\<lparr>a_name := (case nm of None \<Rightarrow> a_name r | Some n \<Rightarrow> n),
       a_workspaceId := (case ws of None \<Rightarrow> a_workspaceId r | Some w \<Rightarrow> w),
       a_ownerDid := (case owner of None \<Rightarrow> a_ownerDid r | Some o' \<Rightarrow> o')\<rparr>"

definition actor_update ::
  "string \<Rightarrow> string option \<Rightarrow> string option option \<Rightarrow> string option option \<Rightarrow> db
     \<Rightarrow> (db_error, actor_row \<times> db) result" where
  "actor_update did nm ws owner d =
     throw_when (\<not> (case ws of None \<Rightarrow> True | Some w \<Rightarrow> workspace_ok d w)
                 \<or> \<not> (case owner of None \<Rightarrow> True | Some o' \<Rightarrow> owner_ok d o')) ForeignKeyViolation
       (bind_result (row_update a_did did (actor_update_fields nm ws owner) (tb_actors d))
          (\<lambda>(row, rows). Inr (row, d\<lparr>tb_actors := rows\<rparr>)))"

definition actor_touchLastSeen :: "int \<Rightarrow> string \<Rightarrow> db \<Rightarrow> (db_error, db) result" where
  "actor_touchLastSeen now did d =
     bind_result (row_update a_did did (\<lambda>r. r\<lparr>a_lastSeen := now\<rparr>) (tb_actors d))
       (\<lambda>(_, rows). Inr (d\<lparr>tb_actors := rows\<rparr>))"

definition actor_touchLastSeenBatch :: "int \<Rightarrow> string list \<Rightarrow> db \<Rightarrow> nat \<times> db" where
  "actor_touchLastSeenBatch now dids d =
     (length (filter (\<lambda>r. a_did r \<in> set dids) (tb_actors d)),
      d\<lparr>tb_actors := row_map (\<lambda>r. a_did r \<in> set dids) (\<lambda>r. r\<lparr>a_lastSeen := now\<rparr>) (tb_actors d)\<rparr>)"

definition actor_setDeclaredCapabilities ::
  "string \<Rightarrow> declared_capability list \<Rightarrow> db \<Rightarrow> (db_error, db) result" where
  "actor_setDeclaredCapabilities did decl d =
     bind_result (row_update a_did did (\<lambda>r. r\<lparr>a_declaredCapabilities := Some decl\<rparr>) (tb_actors d))
       (\<lambda>(_, rows). Inr (d\<lparr>tb_actors := rows\<rparr>))"

definition actor_mergeKindConfig ::
  "string \<Rightarrow> (string \<times> json) list \<Rightarrow> db \<Rightarrow> (db_error, db) result" where
  "actor_mergeKindConfig did patch d =
     (let current = (case row_find a_did did (tb_actors d) of None \<Rightarrow> [] | Some r \<Rightarrow> a_kindConfig r) in
      bind_result (row_update a_did did (\<lambda>r. r\<lparr>a_kindConfig := js_spread current patch\<rparr>) (tb_actors d))
        (\<lambda>(_, rows). Inr (d\<lparr>tb_actors := rows\<rparr>)))"

text \<open>Deleting an Actor cascades to its certificates, their checks and its workloads, and clears its ownerships.\<close>

definition actor_delete :: "string \<Rightarrow> db \<Rightarrow> (db_error, db) result" where
  "actor_delete did d =
     bind_result (row_delete a_did did (tb_actors d)) (\<lambda>rows.
       let gone = map c_id (filter (\<lambda>c. c_agentDid c = did) (tb_certs d)) in
       Inr (d\<lparr>tb_actors := row_map (\<lambda>r. a_ownerDid r = Some did) (\<lambda>r. r\<lparr>a_ownerDid := None\<rparr>) rows,
              tb_certs := filter (\<lambda>c. c_agentDid c \<noteq> did) (tb_certs d),
              tb_checks := filter (\<lambda>s. sc_certId s \<notin> set gone) (tb_checks d),
              tb_workloads := filter (\<lambda>w. wl_deviceDid w \<noteq> did) (tb_workloads d)\<rparr>))"

definition actor_list :: "string option \<Rightarrow> string option \<Rightarrow> db \<Rightarrow> actor_row list" where
  "actor_list kind ws d =
     sort_key (\<lambda>r. - a_registeredAt r)
       (filter (\<lambda>r. (kind = None \<or> kind = Some (a_kind r)) \<and> (ws = None \<or> ws = a_workspaceId r)) (tb_actors d))"

definition actor_listByOwnerDids :: "string list \<Rightarrow> db \<Rightarrow> actor_row list" where
  "actor_listByOwnerDids dids d =
     filter (\<lambda>r. case a_ownerDid r of None \<Rightarrow> False | Some o' \<Rightarrow> o' \<in> set dids) (tb_actors d)"

definition actor_count :: "string option \<Rightarrow> db \<Rightarrow> nat" where
  "actor_count kind d = length (filter (\<lambda>r. kind = None \<or> kind = Some (a_kind r)) (tb_actors d))"

section \<open>Sensor workloads and the audit log (sensor-workload.dao.ts, audit-log.dao.ts)\<close>

text \<open>The upsert by device and fingerprint; the device is a required foreign key.\<close>

definition workload_upsert :: "workload_row \<Rightarrow> db \<Rightarrow> (db_error, db) result" where
  "workload_upsert row d =
     (let same = (\<lambda>r. wl_deviceDid r = wl_deviceDid row \<and> wl_fingerprint r = wl_fingerprint row) in
      if list_ex same (tb_workloads d)
      then Inr (d\<lparr>tb_workloads := row_map same (\<lambda>_. row) (tb_workloads d)\<rparr>)
      else throw_when (row_find a_did (wl_deviceDid row) (tb_actors d) = None) ForeignKeyViolation
             (Inr (d\<lparr>tb_workloads := tb_workloads d @ [row]\<rparr>)))"

definition audit_create :: "audit_row \<Rightarrow> db \<Rightarrow> db" where
  "audit_create row d = d\<lparr>tb_audit := tb_audit d @ [row]\<rparr>"

text \<open>
  \<open>recordEvent\<close> (\<open>lib/audit.ts\<close>): the audit entry is awaited; the webhook enqueued after it is
  fire-and-forget and leaves the store alone.
\<close>

record performer =
  pb_did :: string
  pb_name :: "string option"

definition recordEvent ::
  "int \<Rightarrow> string \<Rightarrow> (string \<times> json) list \<Rightarrow> performer option \<Rightarrow> string option \<Rightarrow> string option \<Rightarrow> db \<Rightarrow> db" where
  "recordEvent now eventType payload performedBy targetType targetId d =
     audit_create
       \<lparr>al_eventType = eventType, al_actorDid = map_option pb_did performedBy,
        al_actorName = Option.bind performedBy pb_name, al_targetType = targetType,
        al_targetId = targetId, al_details = payload, al_createdAt = now\<rparr> d"

end
