(* ===== verification/AdminDao.thy ===== *)
theory AdminDao
  imports LedgerDao
begin

text \<open>
  The administrative tables: pending registrations (\<open>db/pending-registration.dao.ts\<close>), invitations
  (\<open>db/invitation.dao.ts\<close>), workspaces (\<open>db/workspace.dao.ts\<close>), kill switches
  (\<open>db/kill-switch.dao.ts\<close>), custom capabilities (\<open>db/custom-capability.dao.ts\<close>) and settings
  (\<open>db/settings.dao.ts\<close>). The token hash of an invitation is the argument \<open>hashToken\<close>.
\<close>

section \<open>Pending registrations (pending-registration.dao.ts)\<close>

record pending_create_input =
  pi_id :: string
  pi_did :: string
  pi_publicKey :: "string option"
  pi_sessionId :: string
  pi_name :: string
  pi_kind :: string
  pi_requestedCapabilities :: "string list"

definition pending_create :: "int \<Rightarrow> pending_create_input \<Rightarrow> db \<Rightarrow> (db_error, pending_row \<times> db) result" where
  "pending_create now inp d =
     (let row = \<lparr>p_id = pi_id inp, p_did = pi_did inp, p_publicKey = pi_publicKey inp,
            p_sessionId = pi_sessionId inp, p_name = pi_name inp, p_kind = pi_kind inp,
            p_status = Pending, p_requestedCapabilities = pi_requestedCapabilities inp,
            p_assignedCapabilities = [], p_targetWorkspaceId = None, p_createdAt = now,
            p_approvedBy = None, p_deliveredAt = None\<rparr>
      in bind_result (row_insert p_id row (tb_pending d)) (\<lambda>rows. Inr (row, d\<lparr>tb_pending := rows\<rparr>)))"

definition pending_findById :: "string \<Rightarrow> db \<Rightarrow> pending_row option" where
  "pending_findById pid d = row_find p_id pid (tb_pending d)"

definition pending_findPendingByDid :: "string \<Rightarrow> db \<Rightarrow> pending_row option" where
  "pending_findPendingByDid did d = find (\<lambda>r. p_did r = did \<and> p_status r = Pending) (tb_pending d)"

definition awaits_delivery :: "pending_row \<Rightarrow> bool" where
  "awaits_delivery r = (p_status r = Approved \<and> p_deliveredAt r = None)"

definition pending_findApprovedUndelivered :: "string \<Rightarrow> db \<Rightarrow> pending_row option" where
  "pending_findApprovedUndelivered did d =
     (case sort_key p_createdAt (filter (\<lambda>r. p_did r = did \<and> awaits_delivery r) (tb_pending d)) of
        [] \<Rightarrow> None
      | r # _ \<Rightarrow> Some r)"

definition pending_findApprovedUndeliveredForDids :: "string list \<Rightarrow> db \<Rightarrow> pending_row list" where
  "pending_findApprovedUndeliveredForDids dids d =
     (if dids = [] then []
      else sort_key p_createdAt (filter (\<lambda>r. p_did r \<in> set dids \<and> awaits_delivery r) (tb_pending d)))"

definition pending_listPending :: "db \<Rightarrow> pending_row list" where
  "pending_listPending d = sort_key p_createdAt (filter (\<lambda>r. p_status r = Pending) (tb_pending d))"

definition pending_listApprovedUndelivered :: "db \<Rightarrow> pending_row list" where
  "pending_listApprovedUndelivered d = sort_key p_createdAt (filter awaits_delivery (tb_pending d))"

definition pending_modify :: "string \<Rightarrow> (pending_row \<Rightarrow> pending_row) \<Rightarrow> db \<Rightarrow> (db_error, pending_row \<times> db) result" where
  "pending_modify pid f d =
     bind_result (row_update p_id pid f (tb_pending d)) (\<lambda>(row, rows). Inr (row, d\<lparr>tb_pending := rows\<rparr>))"

definition pending_updateRequestedCapabilities ::
  "string \<Rightarrow> string list \<Rightarrow> db \<Rightarrow> (db_error, pending_row \<times> db) result" where
  "pending_updateRequestedCapabilities pid caps d =
     pending_modify pid (\<lambda>r. r\<lparr>p_requestedCapabilities := caps\<rparr>) d"

definition pending_approve ::
  "string \<Rightarrow> string list \<Rightarrow> string \<Rightarrow> string option \<Rightarrow> db \<Rightarrow> (db_error, pending_row \<times> db) result" where
  "pending_approve pid assigned approvedBy target d =
     pending_modify pid (\<lambda>r. r\<lparr>p_status := Approved, p_assignedCapabilities := assigned,
       p_approvedBy := Some approvedBy, p_targetWorkspaceId := target\<rparr>) d"

definition pending_deny :: "string \<Rightarrow> db \<Rightarrow> (db_error, pending_row \<times> db) result" where
  "pending_deny pid d = pending_modify pid (\<lambda>r. r\<lparr>p_status := Denied\<rparr>) d"

definition pending_markDelivered :: "int \<Rightarrow> string \<Rightarrow> db \<Rightarrow> (db_error, pending_row \<times> db) result" where
  "pending_markDelivered now pid d = pending_modify pid (\<lambda>r. r\<lparr>p_deliveredAt := Some now\<rparr>) d"

section \<open>Invitations (invitation.dao.ts)\<close>

record invitation_input =
  ii_name :: string
  ii_email :: "string option"
  ii_capabilities :: "string list"
  ii_workspaceId :: "string option"
  ii_createdBy :: string
  ii_expiresAt :: int
  ii_ssoIdentityId :: "string option"

definition invitation_create ::
  "(string \<Rightarrow> string) \<Rightarrow> int \<Rightarrow> string \<Rightarrow> invitation_input \<Rightarrow> db
     \<Rightarrow> (db_error, (invitation_row \<times> string) \<times> db) result" where
  "invitation_create hashToken now rawToken inp d =
     (let row = \<lparr>i_tokenHash = hashToken rawToken, i_name = ii_name inp, i_email = ii_email inp,
            i_capabilities = ii_capabilities inp, i_workspaceId = ii_workspaceId inp,
            i_createdBy = ii_createdBy inp, i_createdAt = now, i_expiresAt = ii_expiresAt inp,
            i_redeemedAt = None, i_redeemedDid = None, i_ssoIdentityId = ii_ssoIdentityId inp\<rparr>
      in bind_result (row_insert i_tokenHash row (tb_invitations d))
           (\<lambda>rows. Inr ((row, rawToken), d\<lparr>tb_invitations := rows\<rparr>)))"

definition invitation_deletePendingForSsoIdentity :: "string \<Rightarrow> db \<Rightarrow> nat \<times> db" where
  "invitation_deletePendingForSsoIdentity sid d =
     (let hit = (\<lambda>r. i_ssoIdentityId r = Some sid \<and> i_redeemedAt r = None) in
      (length (filter hit (tb_invitations d)),
       d\<lparr>tb_invitations := filter (\<lambda>r. \<not> hit r) (tb_invitations d)\<rparr>))"

definition invitation_findByToken :: "(string \<Rightarrow> string) \<Rightarrow> string \<Rightarrow> db \<Rightarrow> invitation_row option" where
  "invitation_findByToken hashToken rawToken d = row_find i_tokenHash (hashToken rawToken) (tb_invitations d)"

definition invitation_findValidByToken ::
  "(string \<Rightarrow> string) \<Rightarrow> int \<Rightarrow> string \<Rightarrow> db \<Rightarrow> invitation_row option" where
  "invitation_findValidByToken hashToken now rawToken d =
     (case row_find i_tokenHash (hashToken rawToken) (tb_invitations d) of
        None \<Rightarrow> None
      | Some r \<Rightarrow>
          if i_redeemedAt r \<noteq> None then None
          else if i_expiresAt r \<le> now then None
          else Some r)"

definition invitation_markRedeemed :: "int \<Rightarrow> string \<Rightarrow> string \<Rightarrow> db \<Rightarrow> (db_error, db) result" where
  "invitation_markRedeemed now tokenHash did d =
     bind_result
       (row_update i_tokenHash tokenHash
          (\<lambda>r. r\<lparr>i_redeemedAt := Some now, i_redeemedDid := Some did\<rparr>) (tb_invitations d))
       (\<lambda>(_, rows). Inr (d\<lparr>tb_invitations := rows\<rparr>))"

section \<open>Workspaces (workspace.dao.ts)\<close>

definition workspace_findById :: "string \<Rightarrow> db \<Rightarrow> workspace_row option" where
  "workspace_findById wid d = row_find w_id wid (tb_workspaces d)"

definition workspace_list :: "db \<Rightarrow> workspace_row list" where
  "workspace_list d = sort_key w_createdAt (tb_workspaces d)"

definition workspace_insert :: "workspace_row \<Rightarrow> db \<Rightarrow> (db_error, workspace_row \<times> db) result" where
  "workspace_insert row d =
     throw_when (row_find w_slug (w_slug row) (tb_workspaces d) \<noteq> None) UniqueViolation
       (bind_result (row_insert w_id row (tb_workspaces d)) (\<lambda>rows. Inr (row, d\<lparr>tb_workspaces := rows\<rparr>)))"

definition workspace_create ::
  "int \<Rightarrow> string \<Rightarrow> string \<Rightarrow> string \<Rightarrow> string option \<Rightarrow> string option \<Rightarrow> db
     \<Rightarrow> (db_error, workspace_row \<times> db) result" where
  "workspace_create now wid nm slug desc color d =
     workspace_insert
       \<lparr>w_id = wid, w_name = nm, w_slug = slug, w_description = desc,
        w_color = (case color of None \<Rightarrow> ''#6366f1'' | Some c \<Rightarrow> c), w_isDefault = False,
        w_createdAt = now, w_certFailMode = None, w_certStapleTtlSeconds = None\<rparr> d"

text \<open>An edit: the outer option is \<open>undefined\<close>, the inner one of a nullable column is \<open>null\<close>.\<close>

record workspace_edit =
  we_name :: "string option"
  we_description :: "string option option"
  we_color :: "string option"
  we_certFailMode :: "string option option"
  we_certStapleTtlSeconds :: "int option option"

definition workspace_update :: "string \<Rightarrow> workspace_edit \<Rightarrow> db \<Rightarrow> (db_error, workspace_row \<times> db) result" where
  "workspace_update wid e d =
     bind_result
       (row_update w_id wid
          (\<lambda>r. r\<lparr>w_name := (case we_name e of None \<Rightarrow> w_name r | Some x \<Rightarrow> x),
                 w_description := (case we_description e of None \<Rightarrow> w_description r | Some x \<Rightarrow> x),
                 w_color := (case we_color e of None \<Rightarrow> w_color r | Some x \<Rightarrow> x),
                 w_certFailMode := (case we_certFailMode e of None \<Rightarrow> w_certFailMode r | Some x \<Rightarrow> x),
                 w_certStapleTtlSeconds :=
                   (case we_certStapleTtlSeconds e of None \<Rightarrow> w_certStapleTtlSeconds r | Some x \<Rightarrow> x)\<rparr>)
          (tb_workspaces d))
       (\<lambda>(row, rows). Inr (row, d\<lparr>tb_workspaces := rows\<rparr>))"

definition workspace_listTrustOverrides :: "db \<Rightarrow> (string \<times> string option \<times> int option) list" where
  "workspace_listTrustOverrides d =
     map (\<lambda>r. (w_id r, w_certFailMode r, w_certStapleTtlSeconds r))
       (filter (\<lambda>r. w_certFailMode r \<noteq> None \<or> w_certStapleTtlSeconds r \<noteq> None) (tb_workspaces d))"

definition workspace_countActors :: "string \<Rightarrow> db \<Rightarrow> nat" where
  "workspace_countActors wid d = length (filter (\<lambda>r. a_workspaceId r = Some wid) (tb_actors d))"

definition workspace_listActiveScopedCertificates :: "string \<Rightarrow> db \<Rightarrow> certificate_row list" where
  "workspace_listActiveScopedCertificates wid d =
     filter (\<lambda>r. c_status r = Active \<and>
               (c_workspaceId r = Some wid \<or> Option.bind (c_scope r) resource = Some (''workspace:'' @ wid)))
       (tb_certs d)"

text \<open>
  One transaction: the two plain-string references are cleared, then the row goes; the relations
  clear \<open>workspaceId\<close> of Actors and certificates, and a kill switch of the workspace falls with it.
\<close>

definition workspace_delete :: "string \<Rightarrow> db \<Rightarrow> (db_error, db) result" where
  "workspace_delete wid d =
     bind_result (row_delete w_id wid (tb_workspaces d)) (\<lambda>rows.
       Inr (d\<lparr>tb_pending := row_map (\<lambda>r. p_targetWorkspaceId r = Some wid)
                 (\<lambda>r. r\<lparr>p_targetWorkspaceId := None\<rparr>) (tb_pending d),
              tb_invitations := row_map (\<lambda>r. i_workspaceId r = Some wid)
                 (\<lambda>r. r\<lparr>i_workspaceId := None\<rparr>) (tb_invitations d),
              tb_workspaces := rows,
              tb_actors := row_map (\<lambda>r. a_workspaceId r = Some wid)
                 (\<lambda>r. r\<lparr>a_workspaceId := None\<rparr>) (tb_actors d),
              tb_certs := row_map (\<lambda>r. c_workspaceId r = Some wid)
                 (\<lambda>r. r\<lparr>c_workspaceId := None\<rparr>) (tb_certs d),
              tb_killSwitches := filter (\<lambda>r. k_workspaceId r \<noteq> Some wid) (tb_killSwitches d)\<rparr>))"

definition workspace_ensureDefault :: "int \<Rightarrow> db \<Rightarrow> (db_error, workspace_row \<times> db) result" where
  "workspace_ensureDefault now d =
     (case find w_isDefault (tb_workspaces d) of
        Some r \<Rightarrow> Inr (r, d)
      | None \<Rightarrow>
          workspace_insert
            \<lparr>w_id = ''default'', w_name = ''Default'', w_slug = ''default'', w_description = None,
             w_color = ''#6366f1'', w_isDefault = True, w_createdAt = now, w_certFailMode = None,
             w_certStapleTtlSeconds = None\<rparr> d)"

section \<open>Kill switches (kill-switch.dao.ts)\<close>

definition GLOBAL_KILL_SWITCH_ID :: string where
  "GLOBAL_KILL_SWITCH_ID = ''global''"

definition ks_list :: "db \<Rightarrow> kill_switch_row list" where
  "ks_list d = tb_killSwitches d"

definition ks_findGlobal :: "db \<Rightarrow> kill_switch_row option" where
  "ks_findGlobal d = row_find k_id GLOBAL_KILL_SWITCH_ID (tb_killSwitches d)"

definition ks_findByWorkspace :: "string \<Rightarrow> db \<Rightarrow> kill_switch_row option" where
  "ks_findByWorkspace wid d = row_find k_workspaceId (Some wid) (tb_killSwitches d)"

definition ks_arm ::
  "int \<Rightarrow> string \<Rightarrow> scope_type \<Rightarrow> string option \<Rightarrow> string \<Rightarrow> string \<Rightarrow> db
     \<Rightarrow> (db_error, kill_switch_row \<times> db) result" where
  "ks_arm now kid scopeType wid why armedBy d =
     (case row_find k_id kid (tb_killSwitches d) of
        Some old \<Rightarrow>
          let upd = (\<lambda>r. r\<lparr>k_reason := why, k_armedBy := armedBy, k_armedAt := now\<rparr>) in
          Inr (upd old, d\<lparr>tb_killSwitches := row_map (\<lambda>r. k_id r = kid) upd (tb_killSwitches d)\<rparr>)
      | None \<Rightarrow>
          throw_when (wid \<noteq> None \<and> row_find k_workspaceId wid (tb_killSwitches d) \<noteq> None) UniqueViolation
            (throw_when (\<not> workspace_ok d wid) ForeignKeyViolation
               (let row = \<lparr>k_id = kid, k_scopeType = scopeType, k_workspaceId = wid, k_reason = why,
                           k_armedBy = armedBy, k_armedAt = now\<rparr>
                in Inr (row, d\<lparr>tb_killSwitches := tb_killSwitches d @ [row]\<rparr>))))"

definition ks_disarm :: "string \<Rightarrow> db \<Rightarrow> kill_switch_row option \<times> db" where
  "ks_disarm kid d =
     (case row_find k_id kid (tb_killSwitches d) of
        None \<Rightarrow> (None, d)
      | Some r \<Rightarrow> (Some r, d\<lparr>tb_killSwitches := filter (\<lambda>r. k_id r \<noteq> kid) (tb_killSwitches d)\<rparr>))"

section \<open>Custom capabilities (custom-capability.dao.ts)\<close>

datatype registry_error = RegistryName capability_error | RegistryDb db_error

definition registry_create ::
  "string \<Rightarrow> string \<Rightarrow> string \<Rightarrow> string option \<Rightarrow> string option \<Rightarrow> string \<Rightarrow> db
     \<Rightarrow> (registry_error, custom_capability_row \<times> db) result" where
  "registry_create newId nm label desc grp createdBy d =
     (case parseCustomCapability nm of
        Inl e \<Rightarrow> Inl (RegistryName e)
      | Inr (vendor, action) \<Rightarrow>
          let row = \<lparr>cc_id = newId, cc_name = nm, cc_vendor = vendor, cc_action = action,
                     cc_label = label, cc_description = desc, cc_group = grp, cc_createdBy = createdBy\<rparr>
          in if row_find cc_name nm (tb_customCaps d) \<noteq> None then Inl (RegistryDb UniqueViolation)
             else case row_insert cc_id row (tb_customCaps d) of
                    Inl e \<Rightarrow> Inl (RegistryDb e)
                  | Inr rows \<Rightarrow> Inr (row, d\<lparr>tb_customCaps := rows\<rparr>))"

definition registry_findById :: "string \<Rightarrow> db \<Rightarrow> custom_capability_row option" where
  "registry_findById rid d = row_find cc_id rid (tb_customCaps d)"

definition registry_findByName :: "string \<Rightarrow> db \<Rightarrow> custom_capability_row option" where
  "registry_findByName nm d = row_find cc_name nm (tb_customCaps d)"

text \<open>The query behind \<open>listNames\<close>; its cache is in the theory of the caches.\<close>

definition registry_names :: "db \<Rightarrow> string list" where
  "registry_names d = map cc_name (tb_customCaps d)"

definition registry_update ::
  "string \<Rightarrow> string option \<Rightarrow> string option option \<Rightarrow> string option option \<Rightarrow> db
     \<Rightarrow> (db_error, custom_capability_row \<times> db) result" where
  "registry_update rid label desc grp d =
     bind_result
       (row_update cc_id rid
          (\<lambda>r. r\<lparr>cc_label := (case label of None \<Rightarrow> cc_label r | Some x \<Rightarrow> x),
                 cc_description := (case desc of None \<Rightarrow> cc_description r | Some x \<Rightarrow> x),
                 cc_group := (case grp of None \<Rightarrow> cc_group r | Some x \<Rightarrow> x)\<rparr>) (tb_customCaps d))
       (\<lambda>(row, rows). Inr (row, d\<lparr>tb_customCaps := rows\<rparr>))"

definition registry_findAffectedCertIds :: "string \<Rightarrow> db \<Rightarrow> string list" where
  "registry_findAffectedCertIds nm d =
     map c_id (filter (\<lambda>c. nm \<in> set (c_capabilities c)) (filter (\<lambda>c. c_status c = Active) (tb_certs d)))"

definition registry_countAffectedGrants :: "string \<Rightarrow> db \<Rightarrow> nat" where
  "registry_countAffectedGrants nm d =
     length (filter (\<lambda>c. nm \<in> set (c_capabilities c)) (filter (\<lambda>c. c_status c = Active) (tb_certs d)))"

definition registry_delete :: "string \<Rightarrow> db \<Rightarrow> (db_error, db) result" where
  "registry_delete rid d =
     bind_result (row_delete cc_id rid (tb_customCaps d)) (\<lambda>rows. Inr (d\<lparr>tb_customCaps := rows\<rparr>))"

section \<open>Settings (settings.dao.ts)\<close>

definition setting_get :: "string \<Rightarrow> db \<Rightarrow> string option" where
  "setting_get key d = map_of (tb_settings d) key"

definition setting_set :: "string \<Rightarrow> string \<Rightarrow> db \<Rightarrow> db" where
  "setting_set key v d = d\<lparr>tb_settings := map_set key v (tb_settings d)\<rparr>"

end
