(* ===== verification/Schema.thy ===== *)
theory Schema
  imports AdminDao
begin

text \<open>
  The constraints the Prisma schema declares (primary keys, unique columns, foreign keys) plus the
  derived columns of a custom capability, as one invariant of the store, and the proof that every
  DAO write keeps it. The writes are gathered in the step relation \<open>dao_write\<close>, so that the
  invariant of every reachable store is one rule induction.
\<close>

section \<open>The invariant\<close>

definition keys_unique :: "db \<Rightarrow> bool" where
  "keys_unique d \<longleftrightarrow>
     unique_keys a_did (tb_actors d) \<and> unique_keys c_id (tb_certs d) \<and>
     unique_keys sc_id (tb_checks d) \<and> unique_keys p_id (tb_pending d) \<and>
     unique_keys i_tokenHash (tb_invitations d) \<and> unique_keys w_id (tb_workspaces d) \<and>
     unique_keys w_slug (tb_workspaces d) \<and> unique_keys k_id (tb_killSwitches d) \<and>
     unique_keys cc_id (tb_customCaps d) \<and> unique_keys cc_name (tb_customCaps d)"

text \<open>A required and a nullable foreign key: every child row names a parent row.\<close>

definition points :: "('c \<Rightarrow> 'k) \<Rightarrow> 'c list \<Rightarrow> ('p \<Rightarrow> 'k) \<Rightarrow> 'p list \<Rightarrow> bool" where
  "points f cs g ps \<longleftrightarrow> f ` set cs \<subseteq> g ` set ps"

definition points_opt :: "('c \<Rightarrow> 'k option) \<Rightarrow> 'c list \<Rightarrow> ('p \<Rightarrow> 'k) \<Rightarrow> 'p list \<Rightarrow> bool" where
  "points_opt f cs g ps \<longleftrightarrow> f ` set cs \<subseteq> insert None (Some ` g ` set ps)"

definition refs_resolve :: "db \<Rightarrow> bool" where
  "refs_resolve d \<longleftrightarrow>
     points c_agentDid (tb_certs d) a_did (tb_actors d) \<and>
     points sc_certId (tb_checks d) c_id (tb_certs d) \<and>
     points wl_deviceDid (tb_workloads d) a_did (tb_actors d) \<and>
     points_opt c_workspaceId (tb_certs d) w_id (tb_workspaces d) \<and>
     points_opt a_workspaceId (tb_actors d) w_id (tb_workspaces d) \<and>
     points_opt k_workspaceId (tb_killSwitches d) w_id (tb_workspaces d) \<and>
     points_opt a_ownerDid (tb_actors d) a_did (tb_actors d)"

definition registry_parsed :: "db \<Rightarrow> bool" where
  "registry_parsed d \<longleftrightarrow>
     (\<forall>r \<in> set (tb_customCaps d). parseCustomCapability (cc_name r) = Inr (cc_vendor r, cc_action r))"

definition db_wf :: "db \<Rightarrow> bool" where
  "db_wf d \<longleftrightarrow> keys_unique d \<and> refs_resolve d \<and> registry_parsed d"

inductive dao_write :: "db \<Rightarrow> db \<Rightarrow> bool" where
  Wcert_create: "cert_create now ci d = Inr (c, d') \<Longrightarrow> dao_write d d'"
| Wcert_revoke: "cert_revoke now cid by why d = Inr (c, d') \<Longrightarrow> dao_write d d'"
| Wcheck_record: "check_record si d = Inr d' \<Longrightarrow> dao_write d d'"
| Wcheck_batch: "check_recordBatch sis d = Inr (n, d') \<Longrightarrow> dao_write d d'"
| Wactor_upsert: "actor_upsert now au d = Inr (a, d') \<Longrightarrow> dao_write d d'"
| Wactor_update: "actor_update did nm ws ow d = Inr (a, d') \<Longrightarrow> dao_write d d'"
| Wactor_touch: "actor_touchLastSeen now did d = Inr d' \<Longrightarrow> dao_write d d'"
| Wactor_touchBatch: "actor_touchLastSeenBatch now dids d = (n, d') \<Longrightarrow> dao_write d d'"
| Wactor_declare: "actor_setDeclaredCapabilities did decl d = Inr d' \<Longrightarrow> dao_write d d'"
| Wactor_merge: "actor_mergeKindConfig did patch d = Inr d' \<Longrightarrow> dao_write d d'"
| Wactor_delete: "actor_delete did d = Inr d' \<Longrightarrow> dao_write d d'"
| Wpending_create: "pending_create now pin d = Inr (p, d') \<Longrightarrow> dao_write d d'"
| Wpending_update: "pending_updateRequestedCapabilities pid caps d = Inr (p, d') \<Longrightarrow> dao_write d d'"
| Wpending_approve: "pending_approve pid caps by target d = Inr (p, d') \<Longrightarrow> dao_write d d'"
| Wpending_deny: "pending_deny pid d = Inr (p, d') \<Longrightarrow> dao_write d d'"
| Wpending_delivered: "pending_markDelivered now pid d = Inr (p, d') \<Longrightarrow> dao_write d d'"
| Winvitation_create: "invitation_create h now tok iinp d = Inr (x, d') \<Longrightarrow> dao_write d d'"
| Winvitation_drop: "invitation_deletePendingForSsoIdentity sid d = (n, d') \<Longrightarrow> dao_write d d'"
| Winvitation_redeem: "invitation_markRedeemed now th did d = Inr d' \<Longrightarrow> dao_write d d'"
| Wworkspace_create: "workspace_create now wid nm sl desc col d = Inr (w, d') \<Longrightarrow> dao_write d d'"
| Wworkspace_update: "workspace_update wid e d = Inr (w, d') \<Longrightarrow> dao_write d d'"
| Wworkspace_delete: "workspace_delete wid d = Inr d' \<Longrightarrow> dao_write d d'"
| Wworkspace_default: "workspace_ensureDefault now d = Inr (w, d') \<Longrightarrow> dao_write d d'"
| Wks_arm: "ks_arm now kid st ws why by d = Inr (k, d') \<Longrightarrow> dao_write d d'"
| Wks_disarm: "ks_disarm kid d = (k, d') \<Longrightarrow> dao_write d d'"
| Wregistry_create: "registry_create rid nm l de g by d = Inr (r, d') \<Longrightarrow> dao_write d d'"
| Wregistry_update: "registry_update rid lo deo go d = Inr (r, d') \<Longrightarrow> dao_write d d'"
| Wregistry_delete: "registry_delete rid d = Inr d' \<Longrightarrow> dao_write d d'"
| Wworkload: "workload_upsert wl d = Inr d' \<Longrightarrow> dao_write d d'"
| Waudit: "audit_create al d = d' \<Longrightarrow> dao_write d d'"
| Wsetting_set: "setting_set key v d = d' \<Longrightarrow> dao_write d d'"

section \<open>Preservation\<close>

lemma map_key_row_map:
  "(\<And>r. key (f r) = key r) \<Longrightarrow> map key (row_map P f rows) = map key rows"
  by (induction rows) (simp_all add: row_map_def)

lemma image_row_map:
  "(\<And>r. g (f r) = g r) \<Longrightarrow> g ` set (row_map P f rows) = g ` set rows"
  using map_key_row_map [of g f P rows] by (metis list.set_map)

lemma unique_row_map_iff:
  "(\<And>r. key (f r) = key r) \<Longrightarrow> unique_keys key (row_map P f rows) \<longleftrightarrow> unique_keys key rows"
  by (simp add: unique_keys_def map_key_row_map)

lemma row_find_in_image: "row_find key k rows \<noteq> None \<longleftrightarrow> k \<in> key ` set rows"
  by (auto simp: row_find_None_iff)

lemma unique_append_row:
  "unique_keys key (rows @ [r]) \<longleftrightarrow> unique_keys key rows \<and> key r \<notin> key ` set rows"
  by (auto simp: unique_keys_def)

lemma not_in_key_image: "row_find key k rows = None \<Longrightarrow> k \<notin> key ` set rows"
  by (auto simp: row_find_None_iff)

lemma found_in_image: "row_find key k rows = Some r \<Longrightarrow> k \<in> key ` set rows"
  by (auto dest: row_find_Some_D)

lemma points_map_child:
  "(\<And>r. f (h r) = f r) \<Longrightarrow> points f (row_map P h cs) g ps \<longleftrightarrow> points f cs g ps"
  "(\<And>r. fo (h r) = fo r) \<Longrightarrow> points_opt fo (row_map P h cs) g ps \<longleftrightarrow> points_opt fo cs g ps"
  by (simp_all add: points_def points_opt_def image_row_map)

lemma points_map_parent:
  "(\<And>r. g (h r) = g r) \<Longrightarrow> points f cs g (row_map P h ps) \<longleftrightarrow> points f cs g ps"
  "(\<And>r. g (h r) = g r) \<Longrightarrow> points_opt fo cs g (row_map P h ps) \<longleftrightarrow> points_opt fo cs g ps"
  by (simp_all add: points_def points_opt_def image_row_map)

lemma points_append_child:
  "points f (cs @ [c]) g ps \<longleftrightarrow> points f cs g ps \<and> f c \<in> g ` set ps"
  "points_opt fo (cs @ [c]) g ps \<longleftrightarrow> points_opt fo cs g ps \<and> fo c \<in> insert None (Some ` g ` set ps)"
  by (auto simp: points_def points_opt_def)

lemma points_append_parent:
  "points f cs g ps \<Longrightarrow> points f cs g (ps @ [p])"
  "points_opt fo cs g ps \<Longrightarrow> points_opt fo cs g (ps @ [p])"
  by (auto simp: points_def points_opt_def)

lemma points_filter_child:
  "points f cs g ps \<Longrightarrow> points f (filter P cs) g ps"
  "points_opt fo cs g ps \<Longrightarrow> points_opt fo (filter P cs) g ps"
  by (auto simp: points_def points_opt_def)

lemma points_filter_both:
  "points f cs g ps \<Longrightarrow> (\<And>c p. P c \<Longrightarrow> p \<in> set ps \<Longrightarrow> f c = g p \<Longrightarrow> Q p) \<Longrightarrow>
     points f (filter P cs) g (filter Q ps)"
  by (fastforce simp: points_def)

lemma points_opt_filter_both:
  "points_opt f cs g ps \<Longrightarrow> (\<And>c p. P c \<Longrightarrow> f c = Some (g p) \<Longrightarrow> Q p) \<Longrightarrow>
     points_opt f (filter P cs) g (filter Q ps)"
  by (fastforce simp: points_opt_def)

lemma points_opt_clear:
  "points_opt f cs g ps \<Longrightarrow> (\<And>r. f (h r) = None) \<Longrightarrow>
     points_opt f (row_map (\<lambda>r. f r = Some k) h cs) g (filter (\<lambda>p. g p \<noteq> k) ps)"
  by (fastforce simp: points_opt_def set_row_map)

lemma points_opt_redirect:
  assumes "points_opt f cs g ps" and "\<And>r. f (h r) = f r \<or> f (h r) \<in> insert None (Some ` g ` set ps)"
  shows "points_opt f (row_map P h cs) g ps"
proof (unfold points_opt_def set_row_map, rule subsetI)
  fix x assume "x \<in> f ` (\<lambda>r. if P r then h r else r) ` set cs"
  then obtain r where "r \<in> set cs" and "x = f r \<or> x = f (h r)" by (auto split: if_splits)
  with assms(1) assms(2) [of r] show "x \<in> insert None (Some ` g ` set ps)"
    by (fastforce simp: points_opt_def)
qed

lemma workspace_ok_iff:
  "workspace_ok d ws \<longleftrightarrow> ws \<in> insert None (Some ` w_id ` set (tb_workspaces d))"
  using row_find_in_image [of w_id _ "tb_workspaces d"]
  by (cases ws) (auto simp: workspace_ok_def)

lemma owner_ok_iff:
  "owner_ok d ow \<longleftrightarrow> ow \<in> insert None (Some ` a_did ` set (tb_actors d))"
  using row_find_in_image [of a_did _ "tb_actors d"]
  by (cases ow) (auto simp: owner_ok_def)

lemmas wf_defs = db_wf_def keys_unique_def refs_resolve_def registry_parsed_def

lemmas wf_rows =
  unique_row_map_iff unique_append_row points_map_child points_map_parent points_append_child
  points_append_parent unique_filter points_filter_child

lemma cert_create_wf [keeps_intros]:
  "cert_create now ci d = Inr (c, d') \<Longrightarrow> db_wf d \<Longrightarrow> db_wf d'"
  by (clarsimp simp: cert_create_def Let_def row_insert_Inr workspace_ok_iff
        dest!: not_in_key_image found_in_image split del: option.splits;
      simp add: wf_defs wf_rows; blast)

lemma cert_revoke_wf [keeps_intros]:
  "cert_revoke now cid by why d = Inr (c, d') \<Longrightarrow> db_wf d \<Longrightarrow> db_wf d'"
  by (clarsimp simp: cert_revoke_def row_update_Inr; simp add: wf_defs wf_rows)

lemma check_record_wf [keeps_intros]:
  "check_record si d = Inr d' \<Longrightarrow> db_wf d \<Longrightarrow> db_wf d'"
  by (clarsimp simp: check_record_def row_insert_Inr check_row_def dest!: not_in_key_image found_in_image;
      simp add: wf_defs wf_rows)

lemma check_add_keeps:
  assumes "unique_keys sc_id t" and "sc_certId ` set t \<subseteq> C" and "\<forall>r \<in> set rows. si_certId r \<in> C"
  defines "add \<equiv> \<lambda>r t. case row_insert sc_id (check_row r) t of Inl _ \<Rightarrow> t | Inr t' \<Rightarrow> t'"
  shows "unique_keys sc_id (fold add rows t) \<and> sc_certId ` set (fold add rows t) \<subseteq> C"
  using assms(1-3)
proof (induction rows arbitrary: t)
  case (Cons r rows)
  have "unique_keys sc_id (add r t) \<and> sc_certId ` set (add r t) \<subseteq> C"
    using Cons.prems
    by (auto simp: add_def row_insert_def unique_append_row check_row_def dest: not_in_key_image)
  with Cons show ?case by simp
qed simp

lemma check_recordBatch_wf [keeps_intros]:
  assumes "check_recordBatch sis d = Inr (n, d')" and "db_wf d"
  shows "db_wf d'"
proof (cases "sis = []")
  case False
  with assms(1) have c: "\<forall>r \<in> set sis. si_certId r \<in> c_id ` set (tb_certs d)"
    and d': "d' = d\<lparr>tb_checks := fold (\<lambda>r t. case row_insert sc_id (check_row r) t of Inl _ \<Rightarrow> t | Inr t' \<Rightarrow> t') sis (tb_checks d)\<rparr>"
    by (auto simp: check_recordBatch_def Let_def row_find_in_image [symmetric] split: if_splits)
  from check_add_keeps [OF _ _ c, of "tb_checks d"] assms(2) show ?thesis
    unfolding d' by (simp add: wf_defs points_def)
qed (use assms in \<open>simp add: check_recordBatch_def\<close>)

lemma actor_upsert_wf [keeps_intros]:
  assumes "actor_upsert now au d = Inr (a, d')" and "db_wf d"
  shows "db_wf d'"
proof (cases "row_find a_did (au_did au) (tb_actors d)")
  case None
  with assms show ?thesis
    by (clarsimp simp: actor_upsert_def Let_def workspace_ok_iff dest!: not_in_key_image;
        simp add: wf_defs wf_rows)
next
  case (Some old)
  with assms(1) have ws: "workspace_ok d (au_workspaceId au)"
    and d': "d' = d\<lparr>tb_actors := row_map (\<lambda>r. a_did r = au_did au) (actor_upsert_fields now au) (tb_actors d)\<rparr>"
    by (auto simp: actor_upsert_def)
  from assms(2) ws show ?thesis
    unfolding d'
    by (simp add: wf_defs wf_rows actor_upsert_fields_def points_opt_redirect workspace_ok_iff)
qed

lemma actor_update_fields_refs:
  "(\<forall>w. ws = Some w \<longrightarrow> workspace_ok d w) \<Longrightarrow>
     a_workspaceId (actor_update_fields nm ws ow r) = a_workspaceId r \<or>
     a_workspaceId (actor_update_fields nm ws ow r) \<in> insert None (Some ` w_id ` set (tb_workspaces d))"
  "(\<forall>o'. ow = Some o' \<longrightarrow> owner_ok d o') \<Longrightarrow>
     a_ownerDid (actor_update_fields nm ws ow r) = a_ownerDid r \<or>
     a_ownerDid (actor_update_fields nm ws ow r) \<in> insert None (Some ` a_did ` set (tb_actors d))"
  by (auto simp: actor_update_fields_def workspace_ok_iff owner_ok_iff split: option.splits)

lemma actor_update_wf [keeps_intros]:
  assumes "actor_update did nm ws ow d = Inr (a, d')" and "db_wf d"
  shows "db_wf d'"
proof -
  from assms(1) have ws: "\<forall>w. ws = Some w \<longrightarrow> workspace_ok d w"
    and ow: "\<forall>o'. ow = Some o' \<longrightarrow> owner_ok d o'"
    and d': "d' = d\<lparr>tb_actors := row_map (\<lambda>r. a_did r = did) (actor_update_fields nm ws ow) (tb_actors d)\<rparr>"
    by (auto simp: actor_update_def row_update_Inr)
  have did: "a_did (actor_update_fields nm ws ow r) = a_did r" for r by (simp add: actor_update_fields_def)
  note refs = actor_update_fields_refs(1) [OF ws] actor_update_fields_refs(2) [OF ow]
  have "refs_resolve d" using assms(2) by (simp add: db_wf_def)
  then have "points_opt a_workspaceId (row_map (\<lambda>r. a_did r = did) (actor_update_fields nm ws ow) (tb_actors d)) w_id (tb_workspaces d)"
    and "points_opt a_ownerDid (row_map (\<lambda>r. a_did r = did) (actor_update_fields nm ws ow) (tb_actors d)) a_did (tb_actors d)"
    by (auto intro!: points_opt_redirect refs simp: refs_resolve_def simp del: insert_iff)
  with assms(2) show ?thesis
    unfolding d' by (simp add: wf_defs wf_rows did)
qed

lemma actor_delete_wf [keeps_intros]:
  assumes "actor_delete did d = Inr d'" and "db_wf d"
  shows "db_wf d'"
proof -
  let ?actors = "filter (\<lambda>r. a_did r \<noteq> did) (tb_actors d)"
  let ?certs = "filter (\<lambda>c. c_agentDid c \<noteq> did) (tb_certs d)"
  let ?checks = "filter (\<lambda>s. sc_certId s \<notin> c_id ` set (filter (\<lambda>c. c_agentDid c = did) (tb_certs d))) (tb_checks d)"
  from assms(2) have w: "keys_unique d" "refs_resolve d" "registry_parsed d" by (simp_all add: db_wf_def)
  have "points c_agentDid ?certs a_did ?actors"
    by (rule points_filter_both) (use w in \<open>auto simp: refs_resolve_def\<close>)
  moreover have "points sc_certId ?checks c_id ?certs"
    by (rule points_filter_both) (use w in \<open>auto simp: refs_resolve_def\<close>)
  moreover have "points_opt a_ownerDid (row_map (\<lambda>r. a_ownerDid r = Some did) (\<lambda>r. r\<lparr>a_ownerDid := None\<rparr>) (tb_actors d)) a_did ?actors"
    by (rule points_opt_clear) (use w in \<open>auto simp: refs_resolve_def\<close>)
  then have "points_opt a_ownerDid (row_map (\<lambda>r. a_ownerDid r = Some did) (\<lambda>r. r\<lparr>a_ownerDid := None\<rparr>) ?actors) a_did ?actors"
    by (auto simp: points_opt_def set_row_map)
  moreover from assms(1) have "d' = d\<lparr>tb_actors := row_map (\<lambda>r. a_ownerDid r = Some did) (\<lambda>r. r\<lparr>a_ownerDid := None\<rparr>) ?actors,
      tb_certs := ?certs, tb_checks := ?checks,
      tb_workloads := filter (\<lambda>w. wl_deviceDid w \<noteq> did) (tb_workloads d)\<rparr>"
    by (simp add: actor_delete_def row_delete_Inr Let_def)
  moreover have "points wl_deviceDid (filter (\<lambda>w. wl_deviceDid w \<noteq> did) (tb_workloads d)) a_did ?actors"
    by (rule points_filter_both) (use w in \<open>auto simp: refs_resolve_def\<close>)
  ultimately show ?thesis
    using w by (simp add: wf_defs wf_rows)
qed

lemma actor_updates_wf [keeps_intros]:
  "actor_touchLastSeen now did d = Inr d' \<Longrightarrow> db_wf d \<Longrightarrow> db_wf d'"
  "actor_touchLastSeenBatch now dids d = (n, d') \<Longrightarrow> db_wf d \<Longrightarrow> db_wf d'"
  "actor_setDeclaredCapabilities did decl d = Inr d' \<Longrightarrow> db_wf d \<Longrightarrow> db_wf d'"
  "actor_mergeKindConfig did patch d = Inr d' \<Longrightarrow> db_wf d \<Longrightarrow> db_wf d'"
  by (clarsimp simp: actor_touchLastSeen_def actor_touchLastSeenBatch_def
        actor_setDeclaredCapabilities_def actor_mergeKindConfig_def Let_def row_update_Inr;
      simp add: wf_defs wf_rows)+

lemma pending_writes_wf [keeps_intros]:
  "pending_updateRequestedCapabilities pid caps d = Inr (p, d') \<Longrightarrow> db_wf d \<Longrightarrow> db_wf d'"
  "pending_approve pid caps by target d = Inr (p, d') \<Longrightarrow> db_wf d \<Longrightarrow> db_wf d'"
  "pending_deny pid d = Inr (p, d') \<Longrightarrow> db_wf d \<Longrightarrow> db_wf d'"
  "pending_markDelivered now pid d = Inr (p, d') \<Longrightarrow> db_wf d \<Longrightarrow> db_wf d'"
  by (clarsimp simp: pending_updateRequestedCapabilities_def pending_approve_def pending_deny_def
        pending_markDelivered_def pending_modify_def row_update_Inr;
      simp add: wf_defs wf_rows)+

lemma pending_create_wf [keeps_intros]:
  "pending_create now pin d = Inr (p, d') \<Longrightarrow> db_wf d \<Longrightarrow> db_wf d'"
  by (clarsimp simp: pending_create_def Let_def row_insert_Inr wf_defs wf_rows dest!: not_in_key_image)

lemma invitation_writes_wf [keeps_intros]:
  "invitation_create h now tok iinp d = Inr (x, d') \<Longrightarrow> db_wf d \<Longrightarrow> db_wf d'"
  "invitation_deletePendingForSsoIdentity sid d = (n, d') \<Longrightarrow> db_wf d \<Longrightarrow> db_wf d'"
  "invitation_markRedeemed now th did d = Inr d' \<Longrightarrow> db_wf d \<Longrightarrow> db_wf d'"
  by (clarsimp simp: invitation_create_def invitation_deletePendingForSsoIdentity_def Let_def
        invitation_markRedeemed_def row_insert_Inr row_update_Inr dest!: not_in_key_image;
      simp add: wf_defs wf_rows unique_filter)+

lemma workspace_insert_wf:
  "workspace_insert r d = Inr (w, d') \<Longrightarrow> db_wf d \<Longrightarrow> db_wf d'"
  by (clarsimp simp: workspace_insert_def row_insert_Inr dest!: not_in_key_image;
      simp add: wf_defs wf_rows)

lemma workspace_writes_wf [keeps_intros]:
  "workspace_create now wid nm sl desc col d = Inr (w, d') \<Longrightarrow> db_wf d \<Longrightarrow> db_wf d'"
  "workspace_ensureDefault now d = Inr (w, d') \<Longrightarrow> db_wf d \<Longrightarrow> db_wf d'"
  by (auto simp: workspace_create_def workspace_ensureDefault_def intro: workspace_insert_wf
        split: option.splits)

lemma workspace_update_wf [keeps_intros]:
  "workspace_update wid e d = Inr (w, d') \<Longrightarrow> db_wf d \<Longrightarrow> db_wf d'"
  by (clarsimp simp: workspace_update_def row_update_Inr; simp add: wf_defs wf_rows)

lemma workspace_delete_wf [keeps_intros]:
  assumes "workspace_delete wid d = Inr d'" and "db_wf d"
  shows "db_wf d'"
proof -
  let ?ws = "filter (\<lambda>r. w_id r \<noteq> wid) (tb_workspaces d)"
  from assms(2) have w: "keys_unique d" "refs_resolve d" "registry_parsed d" by (simp_all add: db_wf_def)
  have "points_opt a_workspaceId (row_map (\<lambda>r. a_workspaceId r = Some wid) (\<lambda>r. r\<lparr>a_workspaceId := None\<rparr>) (tb_actors d)) w_id ?ws"
    by (rule points_opt_clear) (use w in \<open>auto simp: refs_resolve_def\<close>)
  moreover have "points_opt c_workspaceId (row_map (\<lambda>r. c_workspaceId r = Some wid) (\<lambda>r. r\<lparr>c_workspaceId := None\<rparr>) (tb_certs d)) w_id ?ws"
    by (rule points_opt_clear) (use w in \<open>auto simp: refs_resolve_def\<close>)
  moreover have "points_opt k_workspaceId (filter (\<lambda>r. k_workspaceId r \<noteq> Some wid) (tb_killSwitches d)) w_id ?ws"
    by (rule points_opt_filter_both) (use w in \<open>auto simp: refs_resolve_def\<close>)
  moreover note assms(1)
  ultimately show ?thesis
    using w by (clarsimp simp: workspace_delete_def row_delete_Inr; simp add: wf_defs wf_rows)
qed

lemma ks_writes_wf [keeps_intros]:
  "ks_arm now kid st ws why by d = Inr (k, d') \<Longrightarrow> db_wf d \<Longrightarrow> db_wf d'"
  "ks_disarm kid d = (ko, d') \<Longrightarrow> db_wf d \<Longrightarrow> db_wf d'"
   apply (clarsimp simp: ks_arm_def Let_def workspace_ok_iff dest!: not_in_key_image split: option.splits;
      simp add: wf_defs wf_rows)
  apply (clarsimp simp: ks_disarm_def split: option.splits; simp add: wf_defs wf_rows)
  done

lemma registry_writes_wf [keeps_intros]:
  "registry_create rid nm l de g by d = Inr (r, d') \<Longrightarrow> db_wf d \<Longrightarrow> db_wf d'"
  "registry_update rid lo deo go d = Inr (r, d') \<Longrightarrow> db_wf d \<Longrightarrow> db_wf d'"
  "registry_delete rid d = Inr d' \<Longrightarrow> db_wf d \<Longrightarrow> db_wf d'"
    apply (clarsimp simp: registry_create_def Let_def row_insert_Inr dest!: not_in_key_image
      split: sum.splits if_splits; simp add: wf_defs wf_rows)
   apply (clarsimp simp: registry_update_def row_update_Inr; simp add: wf_defs wf_rows; auto simp: set_row_map)
  apply (clarsimp simp: registry_delete_def row_delete_Inr; simp add: wf_defs unique_filter)
  done

lemma workload_upsert_wf [keeps_intros]:
  assumes "workload_upsert wl d = Inr d'" and "db_wf d"
  shows "db_wf d'"
proof (cases "list_ex (\<lambda>r. wl_deviceDid r = wl_deviceDid wl \<and> wl_fingerprint r = wl_fingerprint wl) (tb_workloads d)")
  case True
  then have "wl_deviceDid wl \<in> wl_deviceDid ` set (tb_workloads d)" by (auto simp: list_ex_iff image_iff) metis
  moreover have "points wl_deviceDid (tb_workloads d) a_did (tb_actors d)"
    using assms(2) by (simp add: wf_defs)
  ultimately have "points wl_deviceDid (row_map P (\<lambda>_. wl) (tb_workloads d)) a_did (tb_actors d)" for P
    by (auto simp: points_def set_row_map)
  with assms True show ?thesis
    by (auto simp: workload_upsert_def wf_defs)
next
  case False
  with assms show ?thesis
    by (clarsimp simp: workload_upsert_def dest!: found_in_image; simp add: wf_defs wf_rows)
qed

lemma audit_create_wf [keeps_intros]: "db_wf d \<Longrightarrow> db_wf (audit_create al d)"
  by (simp add: wf_defs audit_create_def)

lemma setting_set_wf [keeps_intros]: "db_wf d \<Longrightarrow> db_wf (setting_set key v d)"
  by (simp add: wf_defs setting_set_def)

lemma dao_write_wf: "dao_write d d' \<Longrightarrow> db_wf d \<Longrightarrow> db_wf d'"
  by (induction rule: dao_write.induct) (auto intro: keeps_intros)

lemma empty_db_wf: "db_wf empty_db"
  by (simp add: wf_defs empty_db_def unique_keys_def points_def points_opt_def)

section \<open>Property\<close>

inductive dao_reach :: "db \<Rightarrow> bool" where
  Empty: "dao_reach empty_db"
| Write: "dao_reach d \<Longrightarrow> dao_write d d' \<Longrightarrow> dao_reach d'"



end
