(* ===== verification/TtlCache.thy ===== *)
theory TtlCache
  imports Prelude
begin

text \<open>
  The in-process cache that three modules share the shape of: \<open>getKillSwitchState\<close>
  (\<open>lib/kill-switch.ts\<close>), \<open>getTrustPolicyState\<close> (\<open>lib/trust-policy.ts\<close>) and \<open>listNames\<close>
  (\<open>db/custom-capability.dao.ts\<close>). A module holds \<open>cache\<close> (a value and the time it was stored) and
  \<open>inFlight\<close> (one shared query). The query is asynchronous, so its read of the database and its
  answer are separate steps, and writes and invalidations interleave with them.

  \<open>cache_step\<close> is that system around a database: requests, the read and the answer of the query,
  the clock, in-process writes with or without an invalidation, and writes by other processes.
  The locale \<open>ttl_source\<close> states what makes the explicit invalidation sufficient: a write that does
  not invalidate leaves the loaded value alone.
\<close>

definition CACHE_TTL_MS :: int where
  "CACHE_TTL_MS = 5000"

text \<open>A query that has been sent, and one whose rows have been read but not yet delivered.\<close>

datatype 'a flight = Sent | Read 'a int

record 'a ttl_cache =
  tc_cached :: "('a \<times> int) option"
  tc_inFlight :: "'a flight option"

definition empty_cache :: "'a ttl_cache" where
  "empty_cache = \<lparr>tc_cached = None, tc_inFlight = None\<rparr>"

text \<open>\<open>if (cache && now - cache.at < CACHE_TTL_MS) return cache.state\<close>.\<close>

definition cache_hit :: "int \<Rightarrow> 'a ttl_cache \<Rightarrow> 'a option" where
  "cache_hit now c =
     (case tc_cached c of
        None \<Rightarrow> None
      | Some (v, stored) \<Rightarrow> if now - stored < CACHE_TTL_MS then Some v else None)"

text \<open>The whole getter up to its \<open>await\<close>: a hit is served, a miss starts or joins the one query.\<close>

definition cache_request :: "int \<Rightarrow> 'a ttl_cache \<Rightarrow> 'a option \<times> 'a ttl_cache" where
  "cache_request now c =
     (case cache_hit now c of
        Some v \<Rightarrow> (Some v, c)
      | None \<Rightarrow>
          (None, if tc_inFlight c = None then c\<lparr>tc_inFlight := Some Sent\<rparr> else c))"

text \<open>The query's \<open>then\<close> and \<open>finally\<close>: every waiter gets the value read.\<close>

definition cache_answer :: "int \<Rightarrow> 'a ttl_cache \<Rightarrow> 'a option \<times> 'a ttl_cache" where
  "cache_answer now c =
     (case tc_inFlight c of
        Some (Read v t) \<Rightarrow> (Some v, \<lparr>tc_cached = Some (v, now), tc_inFlight = None\<rparr>)
      | _ \<Rightarrow> (None, c))"

definition cache_invalidate :: "'a ttl_cache \<Rightarrow> 'a ttl_cache" where
  "cache_invalidate c = c\<lparr>tc_cached := None\<rparr>"

section \<open>The system\<close>

text \<open>
  \<open>cs_changed\<close> and \<open>cs_raced\<close> are history: the time of the last write that changed the loaded value,
  and whether one did so behind the cache's back (another process) or while a read was under way.
\<close>

record ('d, 'a) cache_sys =
  cs_db :: 'd
  cs_now :: int
  cs_cache :: "'a ttl_cache"
  cs_changed :: int
  cs_raced :: bool

definition is_read :: "'a flight option \<Rightarrow> bool" where
  "is_read f = (case f of Some (Read _ _) \<Rightarrow> True | _ \<Rightarrow> False)"

inductive cache_step ::
  "('d \<Rightarrow> 'a) \<Rightarrow> (bool \<Rightarrow> 'd \<Rightarrow> 'd \<Rightarrow> bool) \<Rightarrow> int \<Rightarrow> ('d, 'a) cache_sys \<Rightarrow> ('d, 'a) cache_sys \<Rightarrow> bool"
  for load :: "'d \<Rightarrow> 'a" and wr :: "bool \<Rightarrow> 'd \<Rightarrow> 'd \<Rightarrow> bool" and latency :: int where
  Tick: "0 \<le> dt \<Longrightarrow> cache_step load wr latency s (s\<lparr>cs_now := cs_now s + dt\<rparr>)"
| Request: "cache_request (cs_now s) (cs_cache s) = (r, c) \<Longrightarrow>
     cache_step load wr latency s (s\<lparr>cs_cache := c\<rparr>)"
| QueryReads: "tc_inFlight (cs_cache s) = Some Sent \<Longrightarrow>
     cache_step load wr latency s
       (s\<lparr>cs_cache := (cs_cache s)\<lparr>tc_inFlight := Some (Read (load (cs_db s)) (cs_now s))\<rparr>\<rparr>)"
| QueryAnswers: "tc_inFlight (cs_cache s) = Some (Read v t) \<Longrightarrow> cs_now s - t \<le> latency \<Longrightarrow>
     cache_answer (cs_now s) (cs_cache s) = (r, c) \<Longrightarrow>
     cache_step load wr latency s (s\<lparr>cs_cache := c\<rparr>)"
| QueryFails: "cache_step load wr latency s (s\<lparr>cs_cache := (cs_cache s)\<lparr>tc_inFlight := None\<rparr>\<rparr>)"
| QuietWrite: "wr False (cs_db s) d' \<Longrightarrow> cache_step load wr latency s (s\<lparr>cs_db := d'\<rparr>)"
| InvalidatingWrite: "wr True (cs_db s) d' \<Longrightarrow>
     cache_step load wr latency s
       (s\<lparr>cs_db := d', cs_cache := cache_invalidate (cs_cache s), cs_changed := cs_now s,
          cs_raced := is_read (tc_inFlight (cs_cache s))\<rparr>)"
| ForeignWrite:
     "cache_step load wr latency s (s\<lparr>cs_db := d', cs_changed := cs_now s, cs_raced := True\<rparr>)"

definition cache_start :: "'d \<Rightarrow> int \<Rightarrow> ('d, 'a) cache_sys" where
  "cache_start d now =
     \<lparr>cs_db = d, cs_now = now, cs_cache = empty_cache, cs_changed = now, cs_raced = False\<rparr>"

inductive cache_reach ::
  "('d \<Rightarrow> 'a) \<Rightarrow> (bool \<Rightarrow> 'd \<Rightarrow> 'd \<Rightarrow> bool) \<Rightarrow> int \<Rightarrow> 'd \<Rightarrow> int \<Rightarrow> ('d, 'a) cache_sys \<Rightarrow> bool"
  for load :: "'d \<Rightarrow> 'a" and wr :: "bool \<Rightarrow> 'd \<Rightarrow> 'd \<Rightarrow> bool" and latency :: int
    and d0 :: 'd and t0 :: int where
  Start: "cache_reach load wr latency d0 t0 (cache_start d0 t0)"
| Step: "cache_reach load wr latency d0 t0 s \<Longrightarrow> cache_step load wr latency s s' \<Longrightarrow>
     cache_reach load wr latency d0 t0 s'"

text \<open>The value a getter returns now, at once (a hit) or to its waiters (the answer of the query).\<close>

definition served :: "('d, 'a) cache_sys \<Rightarrow> 'a option" where
  "served s = fst (cache_request (cs_now s) (cs_cache s))"

section \<open>The contract of a cached source\<close>

text \<open>
  Coherent: a value stored or read is the current one, unless a write raced. Fresh: a value stored or
  read that is no longer current was read before the last change, and stored at most \<open>latency\<close>
  after its read.
\<close>

definition coherent :: "('d \<Rightarrow> 'a) \<Rightarrow> ('d, 'a) cache_sys \<Rightarrow> bool" where
  "coherent load s \<longleftrightarrow> cs_raced s \<or>
     ((\<forall>v stored. tc_cached (cs_cache s) = Some (v, stored) \<longrightarrow> v = load (cs_db s)) \<and>
      (\<forall>v t. tc_inFlight (cs_cache s) = Some (Read v t) \<longrightarrow> v = load (cs_db s)))"

definition fresh :: "('d \<Rightarrow> 'a) \<Rightarrow> int \<Rightarrow> ('d, 'a) cache_sys \<Rightarrow> bool" where
  "fresh load latency s \<longleftrightarrow> cs_changed s \<le> cs_now s \<and>
     (\<forall>v stored. tc_cached (cs_cache s) = Some (v, stored) \<longrightarrow>
        stored \<le> cs_now s \<and> (v = load (cs_db s) \<or> stored \<le> cs_changed s + latency)) \<and>
     (\<forall>v t. tc_inFlight (cs_cache s) = Some (Read v t) \<longrightarrow>
        t \<le> cs_now s \<and> (v = load (cs_db s) \<or> t \<le> cs_changed s))"

lemma cache_request_result:
  "cache_request now c = (r, c') \<Longrightarrow>
     tc_cached c' = tc_cached c \<and>
     (\<forall>v t. tc_inFlight c' = Some (Read v t) \<longrightarrow> tc_inFlight c = Some (Read v t))"
  by (auto simp: cache_request_def split: option.splits if_splits)

lemma cache_answer_result:
  "tc_inFlight c = Some (Read v t) \<Longrightarrow> cache_answer now c = (r, c') \<Longrightarrow>
     tc_cached c' = Some (v, now) \<and> tc_inFlight c' = None"
  by (auto simp: cache_answer_def)

locale ttl_source =
  fixes load :: "'d \<Rightarrow> 'a" and wr :: "bool \<Rightarrow> 'd \<Rightarrow> 'd \<Rightarrow> bool"
  assumes quiet: "wr False d d' \<Longrightarrow> load d' = load d"
begin

lemma step_coherent: "cache_step load wr latency s s' \<Longrightarrow> coherent load s \<Longrightarrow> coherent load s'"
proof (induction rule: cache_step.induct)
  case (Request s r c)
  with cache_request_result [OF Request.hyps(1)] show ?case by (auto simp: coherent_def)
next
  case (QueryAnswers s v t r c)
  with cache_answer_result [OF QueryAnswers.hyps(1,3)] show ?case by (auto simp: coherent_def)
next
  case (InvalidatingWrite s d')
  then show ?case by (auto simp: coherent_def cache_invalidate_def is_read_def split: option.splits)
qed (auto simp: coherent_def quiet)

lemma step_fresh:
  "cache_step load wr latency s s' \<Longrightarrow> 0 \<le> latency \<Longrightarrow> fresh load latency s \<Longrightarrow> fresh load latency s'"
proof (induction rule: cache_step.induct)
  case (Request s r c)
  with cache_request_result [OF Request.hyps(1)] show ?case by (auto simp: fresh_def)
next
  case (QueryAnswers s v t r c)
  with cache_answer_result [OF QueryAnswers.hyps(1,3)] show ?case by (fastforce simp: fresh_def)
next
  case (ForeignWrite s d')
  then show ?case by (force simp: fresh_def)
next
  case (Tick dt s)
  then show ?case by (fastforce simp: fresh_def)
qed (auto simp: fresh_def cache_invalidate_def quiet)

lemma reach_coherent: "cache_reach load wr latency d0 t0 s \<Longrightarrow> coherent load s"
proof (induction rule: cache_reach.induct)
  case Start
  show ?case by (simp add: coherent_def cache_start_def empty_cache_def)
qed (rule step_coherent)

lemma reach_fresh:
  assumes "0 \<le> latency" and "cache_reach load wr latency d0 t0 s"
  shows "fresh load latency s"
  using assms(2)
proof (induction rule: cache_reach.induct)
  case Start
  show ?case by (simp add: fresh_def cache_start_def empty_cache_def)
qed (rule step_fresh [OF _ assms(1)])

text \<open>What the getter promises its callers.\<close>

lemma served_current:
  "cache_reach load wr latency d0 t0 s \<Longrightarrow> \<not> cs_raced s \<Longrightarrow> served s = Some v \<Longrightarrow> v = load (cs_db s)"
  using reach_coherent [of latency d0 t0 s]
  by (auto simp: served_def cache_request_def cache_hit_def coherent_def split: option.splits if_splits)

lemma served_bounded:
  "cache_reach load wr latency d0 t0 s \<Longrightarrow> 0 \<le> latency \<Longrightarrow>
     cs_now s \<ge> cs_changed s + latency + CACHE_TTL_MS \<Longrightarrow> served s = Some v \<Longrightarrow> v = load (cs_db s)"
  using reach_fresh [of latency d0 t0 s]
  by (fastforce simp: served_def cache_request_def cache_hit_def fresh_def split: option.splits if_splits)

end

end
