(* ===== verification/KillSwitch.thy ===== *)
theory KillSwitch
  imports Schema TtlCache
begin

text \<open>
  Kill switches (\<open>packages/controlplane/lib/kill-switch.ts\<close>): the armed set as the predicate sees
  it, the one predicate that decides suspension, the status a signed \<open>cert_status_response\<close> reports,
  and the cached getter of the armed set as an instance of \<open>ttl_source\<close>. Also the two actions of
  \<open>app/admin/kill-switch/actions.ts\<close> on the store.
\<close>

section \<open>The armed set\<close>

record kill_switch_state =
  ks_global :: "kill_switch_row option"
  ks_byWorkspace :: "(string \<times> kill_switch_row) list"

record suppressible_cert =
  sb_workspaceId :: "string option"
  sb_scope :: "cert_scope option"

record suppressible_actor =
  sa_kind :: string
  sa_workspaceId :: "string option"

definition toState_row :: "kill_switch_row \<Rightarrow> kill_switch_state \<Rightarrow> kill_switch_state" where
  "toState_row row st =
     (if k_scopeType row = GlobalScope then st\<lparr>ks_global := Some row\<rparr>
      else case k_workspaceId row of
             None \<Rightarrow> st
           | Some w \<Rightarrow>
               if w = [] then st
               else st\<lparr>ks_byWorkspace := map_set w row (ks_byWorkspace st)\<rparr>)"

definition toState :: "kill_switch_row list \<Rightarrow> kill_switch_state" where
  "toState rows = fold toState_row rows \<lparr>ks_global = None, ks_byWorkspace = []\<rparr>"

section \<open>The predicate\<close>

definition workspace_prefix :: string where
  "workspace_prefix = ''workspace:''"

text \<open>The workspace a scope pins: \<open>workspace:<id>\<close>.\<close>

definition scope_workspace :: "cert_scope option \<Rightarrow> string option" where
  "scope_workspace scope =
     (case Option.bind scope resource of
        None \<Rightarrow> None
      | Some r \<Rightarrow> if starts_with r workspace_prefix then Some (drop (length workspace_prefix) r) else None)"

definition candidates :: "suppressible_cert \<Rightarrow> suppressible_actor \<Rightarrow> string option list" where
  "candidates cert actor = [sb_workspaceId cert, sa_workspaceId actor, scope_workspace (sb_scope cert)]"

fun first_armed :: "(string \<times> kill_switch_row) list \<Rightarrow> string option list \<Rightarrow> kill_switch_row option" where
  "first_armed m [] = None"
| "first_armed m (None # ids) = first_armed m ids"
| "first_armed m (Some i # ids) =
     (if i = [] then first_armed m ids
      else case map_of m i of Some row \<Rightarrow> Some row | None \<Rightarrow> first_armed m ids)"

definition suppressionFor ::
  "suppressible_cert \<Rightarrow> suppressible_actor \<Rightarrow> kill_switch_state \<Rightarrow> kill_switch_row option" where
  "suppressionFor cert actor st =
     (if sa_kind actor = ''human'' then None
      else case ks_global st of
             Some row \<Rightarrow> Some row
           | None \<Rightarrow>
               if ks_byWorkspace st = [] then None
               else first_armed (ks_byWorkspace st) (candidates cert actor))"

definition suppressionForActor :: "suppressible_actor \<Rightarrow> kill_switch_state \<Rightarrow> kill_switch_row option" where
  "suppressionForActor actor st = suppressionFor \<lparr>sb_workspaceId = None, sb_scope = None\<rparr> actor st"

definition killSwitchReason :: "kill_switch_row \<Rightarrow> string" where
  "killSwitchReason row =
     ''Kill switch armed ('' @
     (if k_scopeType row = GlobalScope then ''org-wide''
      else ''workspace '' @ (case k_workspaceId row of None \<Rightarrow> ''null'' | Some w \<Rightarrow> w)) @
     ''): '' @ k_reason row"

record resolvable_cert =
  rc_workspaceId :: "string option"
  rc_scope :: "cert_scope option"
  rc_status :: certificate_status
  rc_capabilities :: "string list"
  rc_expiresAt :: "int option"

record effective_cert_status =
  es_status :: certificate_status
  es_capabilities :: "string list"

definition resolveCertStatus ::
  "resolvable_cert \<Rightarrow> suppressible_actor \<Rightarrow> kill_switch_state \<Rightarrow> string list \<Rightarrow> int \<Rightarrow> effective_cert_status" where
  "resolveCertStatus cert actor st registryNames now =
     (let status =
            (if rc_status cert = Active \<and> (case rc_expiresAt cert of None \<Rightarrow> False | Some e \<Rightarrow> e \<le> now)
             then Expired else rc_status cert)
      in if suppressionFor \<lparr>sb_workspaceId = rc_workspaceId cert, sb_scope = rc_scope cert\<rparr> actor st \<noteq> None
         then \<lparr>es_status = Revoked, es_capabilities = []\<rparr>
         else \<lparr>es_status = status,
               es_capabilities = filterAgainstRegistry (rc_capabilities cert) registryNames\<rparr>)"

text \<open>A ledger row and its holder, as the predicate's arguments.\<close>

definition as_resolvable :: "certificate_row \<Rightarrow> resolvable_cert" where
  "as_resolvable r = \<lparr>rc_workspaceId = c_workspaceId r, rc_scope = c_scope r, rc_status = c_status r,
     rc_capabilities = c_capabilities r, rc_expiresAt = c_expiresAt r\<rparr>"

definition as_suppressible :: "certificate_row \<Rightarrow> suppressible_cert" where
  "as_suppressible r = \<lparr>sb_workspaceId = c_workspaceId r, sb_scope = c_scope r\<rparr>"

definition as_actor :: "actor_row \<Rightarrow> suppressible_actor" where
  "as_actor a = \<lparr>sa_kind = a_kind a, sa_workspaceId = a_workspaceId a\<rparr>"

section \<open>Facts\<close>

lemma toState_append: "toState (rows @ [row]) = toState_row row (toState rows)"
  by (simp add: toState_def)

lemma toState_global_iff:
  "ks_global (toState rows) \<noteq> None \<longleftrightarrow> (\<exists>r \<in> set rows. k_scopeType r = GlobalScope)"
  by (induction rows rule: rev_induct)
     (auto simp: toState_append toState_row_def toState_def split: option.splits)

lemma toState_workspace_iff:
  "map_of (ks_byWorkspace (toState rows)) w \<noteq> None \<longleftrightarrow>
     w \<noteq> [] \<and> (\<exists>r \<in> set rows. k_scopeType r = WorkspaceScope \<and> k_workspaceId r = Some w)"
proof (induction rows rule: rev_induct)
  case Nil
  show ?case by (simp add: toState_def)
next
  case (snoc r rows)
  then show ?case
    by (cases "k_scopeType r") (auto simp: toState_append toState_row_def split: option.splits)
qed

lemma toState_row_kept:
  "ks_global (toState rows) = Some r \<Longrightarrow> r \<in> set rows \<and> k_scopeType r = GlobalScope"
  "map_of (ks_byWorkspace (toState rows)) w = Some r \<Longrightarrow> r \<in> set rows \<and> k_workspaceId r = Some w"
  by (induction rows rule: rev_induct)
     (auto simp: toState_append toState_row_def toState_def split: option.splits if_splits)

lemma first_armed_None_iff:
  "first_armed m ids = None \<longleftrightarrow> (\<forall>i. Some i \<in> set ids \<longrightarrow> i = [] \<or> map_of m i = None)"
  by (induction m ids rule: first_armed.induct) (auto split: option.splits)

lemma suppressionFor_None_iff:
  "suppressionFor cert actor st = None \<longleftrightarrow>
     sa_kind actor = ''human'' \<or>
     (ks_global st = None \<and>
      (\<forall>i. Some i \<in> set (candidates cert actor) \<longrightarrow> i = [] \<or> map_of (ks_byWorkspace st) i = None))"
  by (auto simp: suppressionFor_def first_armed_None_iff split: option.splits)

text \<open>Suspension over the rows of the store: the specification the predicate implements.\<close>

definition row_covers :: "suppressible_cert \<Rightarrow> suppressible_actor \<Rightarrow> kill_switch_row \<Rightarrow> bool" where
  "row_covers cert actor r \<longleftrightarrow>
     k_scopeType r = GlobalScope \<or>
     (\<exists>w. k_workspaceId r = Some w \<and> w \<noteq> [] \<and> Some w \<in> set (candidates cert actor))"

lemma suppressionFor_spec:
  "suppressionFor cert actor (toState rows) \<noteq> None \<longleftrightarrow>
     sa_kind actor \<noteq> ''human'' \<and> (\<exists>r \<in> set rows. row_covers cert actor r)"
proof -
  have ws: "k_scopeType r = WorkspaceScope \<longleftrightarrow> k_scopeType r \<noteq> GlobalScope" for r :: kill_switch_row
    by (cases "k_scopeType r") auto
  have g: "ks_global (toState rows) = None \<longleftrightarrow> (\<forall>r \<in> set rows. k_scopeType r \<noteq> GlobalScope)"
    using toState_global_iff [of rows] by blast
  have w: "map_of (ks_byWorkspace (toState rows)) i = None \<longleftrightarrow>
      i = [] \<or> (\<forall>r \<in> set rows. k_scopeType r \<noteq> GlobalScope \<longrightarrow> k_workspaceId r \<noteq> Some i)" for i
    using toState_workspace_iff [of rows i] ws by blast
  show ?thesis
    unfolding suppressionFor_None_iff g w row_covers_def by blast
qed

lemma resolveCertStatus_suspended:
  "suppressionFor \<lparr>sb_workspaceId = rc_workspaceId cert, sb_scope = rc_scope cert\<rparr> actor st \<noteq> None \<Longrightarrow>
     resolveCertStatus cert actor st names now = \<lparr>es_status = Revoked, es_capabilities = []\<rparr>"
  by (simp add: resolveCertStatus_def)

lemma resolveCertStatus_caps:
  "set (es_capabilities (resolveCertStatus cert actor st names now)) \<subseteq> set (rc_capabilities cert)"
  by (auto simp: resolveCertStatus_def Let_def)

lemma resolveCertStatus_active:
  "es_status (resolveCertStatus cert actor st names now) = Active \<longleftrightarrow>
     rc_status cert = Active \<and> \<not> (\<exists>e. rc_expiresAt cert = Some e \<and> e \<le> now) \<and>
     suppressionFor \<lparr>sb_workspaceId = rc_workspaceId cert, sb_scope = rc_scope cert\<rparr> actor st = None"
  by (auto simp: resolveCertStatus_def Let_def split: option.splits)

section \<open>The cached armed set\<close>

definition load_armed :: "db \<Rightarrow> kill_switch_state" where
  "load_armed d = toState (ks_list d)"

text \<open>
  The process's own writes: arming and disarming invalidate; every other write is quiet as long as
  it does not reach the table. Deleting a workspace does reach it (its switch cascades), without
  an invalidation, and is a quiet write only for a workspace that is not suspended.
\<close>

definition kill_switch_write :: "bool \<Rightarrow> db \<Rightarrow> db \<Rightarrow> bool" where
  "kill_switch_write invalidates d d' \<longleftrightarrow>
     (if invalidates
      then (\<exists>now kid st ws why by k. ks_arm now kid st ws why by d = Inr (k, d')) \<or>
           (\<exists>kid k. ks_disarm kid d = (Some k, d'))
      else dao_write d d' \<and> tb_killSwitches d' = tb_killSwitches d)"

interpretation armed: ttl_source load_armed kill_switch_write
  by unfold_locales (simp add: kill_switch_write_def load_armed_def ks_list_def)

definition getKillSwitchState :: "int \<Rightarrow> kill_switch_state ttl_cache \<Rightarrow> kill_switch_state option \<times> kill_switch_state ttl_cache" where
  "getKillSwitchState now c = cache_request now c"

definition invalidateKillSwitchCache :: "kill_switch_state ttl_cache \<Rightarrow> kill_switch_state ttl_cache" where
  "invalidateKillSwitchCache c = cache_invalidate c"

section \<open>Properties\<close>

text \<open>
  C6 (refinement). The status the control plane signs is the specification over the armed rows: a
  certificate of a non-human holder that some armed switch covers (the org-wide one, or one of a
  workspace the certificate names, its holder belongs to or its scope pins) is reported revoked with no
  capabilities; every other one is reported with its own status, expiry overlaid, and those of its
  capabilities the registry still knows. Humans are never covered.
\<close>

theorem cert_status_spec:
  "resolveCertStatus (as_resolvable c) (as_actor a) (load_armed d) (registry_names d) now =
     (if a_kind a \<noteq> ''human'' \<and> (\<exists>r \<in> set (ks_list d). row_covers (as_suppressible c) (as_actor a) r)
      then \<lparr>es_status = Revoked, es_capabilities = []\<rparr>
      else \<lparr>es_status =
              (if c_status c = Active \<and> (\<exists>e. c_expiresAt c = Some e \<and> e \<le> now) then Expired else c_status c),
            es_capabilities = filterAgainstRegistry (c_capabilities c) (registry_names d)\<rparr>)"
  using suppressionFor_spec [of "as_suppressible c" "as_actor a" "ks_list d"]
  by (auto simp: resolveCertStatus_def as_resolvable_def as_suppressible_def as_actor_def load_armed_def
      Let_def split: option.splits)

text \<open>
  A kill switch is reversible: disarming a switch that was not armed before gives back
  exactly the store as it was before arming, so every certificate's status is what it was; and neither
  step touches the ledger.
\<close>

theorem disarm_undoes_arm:
  assumes "row_find k_id kid (tb_killSwitches d) = None" and "ks_arm now kid st ws why by d = Inr (k, d')"
  shows "ks_disarm kid d' = (Some k, d) \<and> tb_certs d' = tb_certs d \<and> k_id k = kid"
proof -
  have keep: "filter (\<lambda>r. k_id r \<noteq> kid) (tb_killSwitches d) = tb_killSwitches d"
    using assms(1) by (simp add: filter_id_conv row_find_None_iff)
  from assms show ?thesis
    by (auto simp: ks_arm_def ks_disarm_def Let_def row_find_append keep)
qed

theorem disarm_undoes_arm_witness:
  "\<exists>k d'. ks_arm 5 ''global'' GlobalScope None ''incident'' ''did:admin'' empty_db = Inr (k, d')
     \<and> ks_disarm ''global'' d' = (Some k, empty_db)"
proof -
  let ?k = "\<lparr>k_id = ''global'', k_scopeType = GlobalScope, k_workspaceId = None, k_reason = ''incident'',
    k_armedBy = ''did:admin'', k_armedAt = 5\<rparr>"
  have a: "ks_arm 5 ''global'' GlobalScope None ''incident'' ''did:admin'' empty_db
      = Inr (?k, empty_db\<lparr>tb_killSwitches := [?k]\<rparr>)"
    by (simp add: ks_arm_def empty_db_def row_find_def throw_when_def workspace_ok_def Let_def)
  have "row_find k_id ''global'' (tb_killSwitches empty_db) = None"
    by (simp add: empty_db_def row_find_def)
  from disarm_undoes_arm [OF this a] a show ?thesis by blast
qed

text \<open>
  C7 (bounds). Whatever this process and others write, and however queries interleave, an armed set
  the cached getter serves is the current one as soon as the last change is older than the cache's
  five seconds plus the time a query may take; and it is always the current one when no write came
  from another process or overlapped a query's read.
\<close>

theorem armed_set_staleness:
  assumes "cache_reach load_armed kill_switch_write latency d0 t0 s" and "0 \<le> latency"
    and "served s = Some st"
    and "\<not> cs_raced s \<or> cs_changed s + latency + CACHE_TTL_MS \<le> cs_now s"
  shows "st = load_armed (cs_db s)"
  using assms armed.served_current armed.served_bounded by blast

definition none_armed :: kill_switch_state where
  "none_armed = \<lparr>ks_global = None, ks_byWorkspace = []\<rparr>"

definition sample_cached :: "(db, kill_switch_state) cache_sys" where
  "sample_cached = \<lparr>cs_db = empty_db, cs_now = 0,
     cs_cache = \<lparr>tc_cached = Some (none_armed, 0), tc_inFlight = None\<rparr>, cs_changed = 0, cs_raced = False\<rparr>"

theorem armed_set_staleness_witness:
  "served sample_cached = Some none_armed \<and> none_armed = load_armed (cs_db sample_cached)"
proof
  let ?s0 = "cache_start empty_db 0 :: (db, kill_switch_state) cache_sys"
  let ?s1 = "?s0\<lparr>cs_cache := \<lparr>tc_cached = None, tc_inFlight = Some Sent\<rparr>\<rparr>"
  let ?s2 = "?s1\<lparr>cs_cache := (cs_cache ?s1)\<lparr>tc_inFlight := Some (Read (load_armed (cs_db ?s1)) (cs_now ?s1))\<rparr>\<rparr>"
  let ?s3 = "?s2\<lparr>cs_cache := \<lparr>tc_cached = Some (none_armed, 0), tc_inFlight = None\<rparr>\<rparr>"
  let ?reach = "cache_reach load_armed kill_switch_write 1 empty_db 0"
  have none: "load_armed empty_db = none_armed"
    by (simp add: load_armed_def toState_def ks_list_def empty_db_def none_armed_def)
  have "?reach ?s0" by (rule cache_reach.Start)
  then have "?reach ?s1"
    by (rule cache_reach.Step) (rule Request, simp add: cache_start_def empty_cache_def cache_request_def cache_hit_def)
  then have "?reach ?s2"
    by (rule cache_reach.Step) (rule QueryReads, simp add: cache_start_def)
  then have "?reach ?s3"
    by (rule cache_reach.Step) (rule QueryAnswers [where v = "load_armed empty_db" and t = 0],
        simp_all add: cache_start_def cache_answer_def none)
  then have r: "?reach sample_cached" by (simp add: cache_start_def sample_cached_def)
  show s: "served sample_cached = Some none_armed"
    by (simp add: served_def cache_request_def cache_hit_def sample_cached_def CACHE_TTL_MS_def)
  show "none_armed = load_armed (cs_db sample_cached)"
    by (rule armed_set_staleness [OF r _ s]) (simp_all add: sample_cached_def)
qed

text \<open>
  Invalidating does not reach a query whose rows are already read: a state can be reached
  in which the only change was an org-wide switch armed by this process, with its invalidation, and
  the getter serves the set from before it.
\<close>

theorem arming_race_serves_old_set:
  "\<exists>s. cache_reach load_armed kill_switch_write 1 empty_db 0 s \<and> served s = Some none_armed
     \<and> ks_global (load_armed (cs_db s)) \<noteq> None \<and> cs_now s = cs_changed s"
proof -
  let ?k = "\<lparr>k_id = ''global'', k_scopeType = GlobalScope, k_workspaceId = None, k_reason = ''incident'',
    k_armedBy = ''did:admin'', k_armedAt = 0\<rparr>"
  let ?d = "empty_db\<lparr>tb_killSwitches := [?k]\<rparr>"
  let ?s0 = "cache_start empty_db 0 :: (db, kill_switch_state) cache_sys"
  let ?s1 = "?s0\<lparr>cs_cache := \<lparr>tc_cached = None, tc_inFlight = Some Sent\<rparr>\<rparr>"
  let ?s2 = "?s1\<lparr>cs_cache := (cs_cache ?s1)\<lparr>tc_inFlight := Some (Read (load_armed (cs_db ?s1)) (cs_now ?s1))\<rparr>\<rparr>"
  let ?s3 = "?s2\<lparr>cs_db := ?d, cs_cache := cache_invalidate (cs_cache ?s2), cs_changed := cs_now ?s2,
          cs_raced := is_read (tc_inFlight (cs_cache ?s2))\<rparr>"
  let ?s4 = "?s3\<lparr>cs_cache := \<lparr>tc_cached = Some (none_armed, 0), tc_inFlight = None\<rparr>\<rparr>"
  let ?reach = "cache_reach load_armed kill_switch_write 1 empty_db 0"
  have none: "load_armed empty_db = none_armed"
    by (simp add: load_armed_def toState_def ks_list_def empty_db_def none_armed_def)
  have arm: "ks_arm 0 ''global'' GlobalScope None ''incident'' ''did:admin'' empty_db = Inr (?k, ?d)"
    by (simp add: ks_arm_def empty_db_def row_find_def throw_when_def workspace_ok_def Let_def)
  have "?reach ?s0" by (rule cache_reach.Start)
  then have "?reach ?s1"
    by (rule cache_reach.Step) (rule Request, simp add: cache_start_def empty_cache_def cache_request_def cache_hit_def)
  then have "?reach ?s2"
    by (rule cache_reach.Step) (rule QueryReads, simp add: cache_start_def)
  then have "?reach ?s3"
    by (rule cache_reach.Step) (rule InvalidatingWrite, use arm in \<open>auto simp: kill_switch_write_def cache_start_def\<close>)
  then have "?reach ?s4"
    by (rule cache_reach.Step) (rule QueryAnswers [where v = "load_armed empty_db" and t = 0],
        simp_all add: cache_start_def cache_answer_def cache_invalidate_def none)
  moreover have "served ?s4 = Some none_armed"
    by (simp add: served_def cache_request_def cache_hit_def cache_start_def CACHE_TTL_MS_def)
  moreover have "ks_global (load_armed (cs_db ?s4)) \<noteq> None"
    by (simp add: load_armed_def toState_def toState_row_def ks_list_def empty_db_def)
  moreover have "cs_now ?s4 = cs_changed ?s4" by (simp add: cache_start_def)
  ultimately show ?thesis by blast
qed

end
