(* ===== verification/TrustPolicy.thy ===== *)
theory TrustPolicy
  imports KillSwitch
begin

text \<open>
  Trust policy resolution (\<open>packages/controlplane/lib/trust-policy.ts\<close> with the keys and defaults of
  \<open>lib/org-settings.ts\<close>): the org-wide defaults parsed from the settings, the per-field override of a
  workspace, and the cached state as an instance of \<open>ttl_source\<close>.
\<close>

definition SETTING_trustFailMode :: string where
  "SETTING_trustFailMode = ''trust.failMode''"

definition SETTING_trustStapleTtlSeconds :: string where
  "SETTING_trustStapleTtlSeconds = ''trust.stapleTtlSeconds''"

datatype trust_fail_mode = FailOpen | FailClosed

definition DEFAULT_TRUST_FAIL_MODE :: string where
  "DEFAULT_TRUST_FAIL_MODE = ''closed''"

definition DEFAULT_STAPLE_TTL_SECONDS :: int where
  "DEFAULT_STAPLE_TTL_SECONDS = 0"

datatype trust_policy_source = FromWorkspace | FromOrg

record effective_trust_policy =
  tp_failClosed :: bool
  tp_stapleTtlSeconds :: int
  tp_failModeSource :: trust_policy_source
  tp_stapleTtlSource :: trust_policy_source

record org_trust_defaults =
  ot_failMode :: trust_fail_mode
  ot_stapleTtlSeconds :: int

record workspace_trust_override =
  wo_certFailMode :: "string option"
  wo_certStapleTtlSeconds :: "int option"

record trust_policy_state =
  ts_org :: org_trust_defaults
  ts_byWorkspace :: "(string \<times> workspace_trust_override) list"

definition parseFailMode :: "string option \<Rightarrow> trust_fail_mode" where
  "parseFailMode raw = (if raw = Some ''open'' then FailOpen else FailClosed)"

definition parseStapleTtl :: "string option \<Rightarrow> int" where
  "parseStapleTtl raw =
     (case Option.bind raw js_parseInt of None \<Rightarrow> DEFAULT_STAPLE_TTL_SECONDS | Some n \<Rightarrow> n)"

definition loadState :: "db \<Rightarrow> trust_policy_state" where
  "loadState d =
     \<lparr>ts_org =
        \<lparr>ot_failMode = parseFailMode (case setting_get SETTING_trustFailMode d of
                         None \<Rightarrow> Some DEFAULT_TRUST_FAIL_MODE | Some v \<Rightarrow> Some v),
         ot_stapleTtlSeconds = parseStapleTtl (setting_get SETTING_trustStapleTtlSeconds d)\<rparr>,
      ts_byWorkspace =
        fold (\<lambda>(wid, mode, ttl) m.
                map_set wid \<lparr>wo_certFailMode = mode, wo_certStapleTtlSeconds = ttl\<rparr> m)
          (workspace_listTrustOverrides d) []\<rparr>"

definition composeTrustPolicy ::
  "org_trust_defaults \<Rightarrow> workspace_trust_override option \<Rightarrow> effective_trust_policy" where
  "composeTrustPolicy org override =
     (let failModeOverride = Option.bind override wo_certFailMode;
          stapleTtlOverride = Option.bind override wo_certStapleTtlSeconds;
          failMode = (case failModeOverride of None \<Rightarrow> ot_failMode org | Some f \<Rightarrow> parseFailMode (Some f))
      in \<lparr>tp_failClosed = (failMode \<noteq> FailOpen),
          tp_stapleTtlSeconds =
            (case stapleTtlOverride of None \<Rightarrow> ot_stapleTtlSeconds org | Some t \<Rightarrow> t),
          tp_failModeSource = (if failModeOverride = None then FromOrg else FromWorkspace),
          tp_stapleTtlSource = (if stapleTtlOverride = None then FromOrg else FromWorkspace)\<rparr>)"

definition resolveTrustPolicy :: "string option \<Rightarrow> trust_policy_state \<Rightarrow> effective_trust_policy" where
  "resolveTrustPolicy workspaceId st =
     (case workspaceId of
        None \<Rightarrow> composeTrustPolicy (ts_org st) None
      | Some wid \<Rightarrow>
          if wid = [] then composeTrustPolicy (ts_org st) None
          else composeTrustPolicy (ts_org st) (map_of (ts_byWorkspace st) wid))"

definition getTrustPolicyState ::
  "int \<Rightarrow> trust_policy_state ttl_cache \<Rightarrow> trust_policy_state option \<times> trust_policy_state ttl_cache" where
  "getTrustPolicyState now c = cache_request now c"

text \<open>
  The writes of the process that reach the state: a setting and a workspace edit invalidate, a write
  that leaves workspaces and settings alone is quiet.
\<close>

definition trust_write :: "bool \<Rightarrow> db \<Rightarrow> db \<Rightarrow> bool" where
  "trust_write invalidates d d' \<longleftrightarrow>
     (if invalidates
      then (\<exists>key v. d' = setting_set key v d) \<or> (\<exists>wid e w. workspace_update wid e d = Inr (w, d'))
      else dao_write d d' \<and> tb_workspaces d' = tb_workspaces d \<and> tb_settings d' = tb_settings d)"

interpretation trust_cache: ttl_source loadState trust_write
  by unfold_locales
     (simp add: trust_write_def loadState_def setting_get_def workspace_listTrustOverrides_def)

section \<open>Facts\<close>

lemma overrides_lookup:
  "distinct (map w_id ws) \<Longrightarrow>
   map_of (fold (\<lambda>(wid, mode, ttl) m. map_set wid \<lparr>wo_certFailMode = mode, wo_certStapleTtlSeconds = ttl\<rparr> m)
      (map (\<lambda>r. (w_id r, w_certFailMode r, w_certStapleTtlSeconds r)) ws) m0) wid =
     (case row_find w_id wid ws of
        Some r \<Rightarrow> Some \<lparr>wo_certFailMode = w_certFailMode r, wo_certStapleTtlSeconds = w_certStapleTtlSeconds r\<rparr>
      | None \<Rightarrow> map_of m0 wid)"
proof (induction ws arbitrary: m0)
  case (Cons r ws)
  have "row_find w_id (w_id r) ws = None" using Cons.prems by (intro row_find_fresh) simp
  with Cons show ?case by (auto simp: row_find_def split: option.splits)
qed (simp add: row_find_def)

lemma loaded_override:
  assumes "db_wf d"
  shows "map_of (ts_byWorkspace (loadState d)) wid =
     (case workspace_findById wid d of
        Some r \<Rightarrow> if w_certFailMode r = None \<and> w_certStapleTtlSeconds r = None then None
                  else Some \<lparr>wo_certFailMode = w_certFailMode r, wo_certStapleTtlSeconds = w_certStapleTtlSeconds r\<rparr>
      | None \<Rightarrow> None)"
proof -
  let ?P = "\<lambda>r. w_certFailMode r \<noteq> None \<or> w_certStapleTtlSeconds r \<noteq> None"
  have u: "unique_keys w_id (tb_workspaces d)" using assms by (simp add: wf_defs)
  then have d1: "distinct (map w_id (filter ?P (tb_workspaces d)))"
    by (simp add: unique_keys_def distinct_map_filter)
  from row_find_filter_unique [OF u, of wid ?P]
  have "row_find w_id wid (filter ?P (tb_workspaces d)) =
      (case row_find w_id wid (tb_workspaces d) of Some r \<Rightarrow> if ?P r then Some r else None | None \<Rightarrow> None)" .
  with overrides_lookup [OF d1, of "[]" wid] show ?thesis
    by (auto simp: loadState_def workspace_listTrustOverrides_def workspace_findById_def split: option.splits)
qed

section \<open>Properties\<close>

text \<open>The policy resolved from a well-formed store, field by field: a workspace's own
  fail mode decides where it is set, any text but "open" failing closed, and its own staple lifetime
  where it is set, an override of 0 included; every other field is the organisation's, and an Actor
  of no workspace or of an unknown one gets the organisation's policy.\<close>

theorem trust_policy_spec:
  assumes "db_wf d"
  shows "tp_failClosed (resolveTrustPolicy wid (loadState d))
      = (case Option.bind (Option.bind wid (\<lambda>i. if i = [] then None else workspace_findById i d)) w_certFailMode of
           Some m \<Rightarrow> m \<noteq> ''open''
         | None \<Rightarrow> setting_get SETTING_trustFailMode d \<noteq> Some ''open'')
    \<and> tp_stapleTtlSeconds (resolveTrustPolicy wid (loadState d))
      = (case Option.bind (Option.bind wid (\<lambda>i. if i = [] then None else workspace_findById i d)) w_certStapleTtlSeconds of
           Some t \<Rightarrow> t
         | None \<Rightarrow> parseStapleTtl (setting_get SETTING_trustStapleTtlSeconds d))"
proof -
  have org: "ts_org (loadState d) = \<lparr>ot_failMode = parseFailMode (case setting_get SETTING_trustFailMode d of
                         None \<Rightarrow> Some DEFAULT_TRUST_FAIL_MODE | Some v \<Rightarrow> Some v),
         ot_stapleTtlSeconds = parseStapleTtl (setting_get SETTING_trustStapleTtlSeconds d)\<rparr>"
    by (simp add: loadState_def)
  show ?thesis
    by (cases wid)
       (auto simp: resolveTrustPolicy_def composeTrustPolicy_def org loaded_override [OF assms] parseFailMode_def
         DEFAULT_TRUST_FAIL_MODE_def split: option.splits)
qed

theorem trust_policy_spec_witness:
  "tp_failClosed (resolveTrustPolicy (Some ''w'') (loadState empty_db))
   \<and> tp_stapleTtlSeconds (resolveTrustPolicy (Some ''w'') (loadState empty_db)) = 0"
  using trust_policy_spec [OF empty_db_wf, of "Some ''w''"]
  by (simp add: empty_db_def workspace_findById_def row_find_def setting_get_def parseStapleTtl_def
      DEFAULT_STAPLE_TTL_SECONDS_def)

end
