(* ===== verification/ActorKinds.thy ===== *)
theory ActorKinds
  imports KillSwitch
begin

text \<open>
  Actor kinds (\<open>lib/actor-kinds.ts\<close>), the capabilities an admin may grant per kind
  (\<open>lib/capabilities.ts\<close>) and the one access decision of the server
  (\<open>lib/access-control.ts\<close>). The badge classes of the kind table are presentation and are not kept.
\<close>

section \<open>Kinds\<close>

datatype actor_category = HumanCategory | AgentCategory

text \<open>
  \<open>ACTOR_KIND_META\<close> is an object literal: besides its own keys, a lookup also finds the members of
  \<open>Object.prototype\<close>, whose \<open>category\<close> is undefined (\<open>None\<close>).
\<close>

definition ACTOR_KIND_META :: "(string \<times> actor_category) list" where
  "ACTOR_KIND_META =
     [(''human'', HumanCategory), (''openclaw'', AgentCategory), (''mcp'', AgentCategory),
      (''sensor'', AgentCategory), (''device'', AgentCategory), (''proxy'', AgentCategory),
      (''harness'', AgentCategory)]"

definition object_prototype_keys :: "string list" where
  "object_prototype_keys =
     [''constructor'', ''__defineGetter__'', ''__defineSetter__'', ''hasOwnProperty'',
      ''__lookupGetter__'', ''__lookupSetter__'', ''isPrototypeOf'', ''propertyIsEnumerable'',
      ''toString'', ''valueOf'', ''__proto__'', ''toLocaleString'']"

definition categoryForKind :: "string \<Rightarrow> actor_category option" where
  "categoryForKind kind =
     (case map_of ACTOR_KIND_META kind of
        Some c \<Rightarrow> Some c
      | None \<Rightarrow> if kind \<in> set object_prototype_keys then None else Some AgentCategory)"

definition MAX_KIND_LENGTH :: nat where
  "MAX_KIND_LENGTH = 64"

definition isRegisterableKind :: "string \<Rightarrow> bool" where
  "isRegisterableKind kind =
     (if kind = [] \<or> length kind > MAX_KIND_LENGTH then False
      else categoryForKind kind \<noteq> Some HumanCategory)"

section \<open>Grantable capabilities\<close>

definition AGENT_CAPABILITIES :: "string list" where
  "AGENT_CAPABILITIES =
     [''file_read'', ''file_write'', ''internet_access'', ''browser_control'', ''api_call'',
      ''mail_send'', ''code_execution'', ''system_command'', ''agent_communication'',
      ''knowledge_search'', ''non_delegatable'']"

definition HUMAN_CAPABILITIES :: "string list" where
  "HUMAN_CAPABILITIES =
     [''portal_access'', ''admin_console_access'', ''knowledge_search'', ''agent_communication'',
      ''non_delegatable'']"

definition SENSOR_CAPABILITIES :: "string list" where
  "SENSOR_CAPABILITIES = [''process_read'']"

definition allowedCapabilitiesForKind :: "string \<Rightarrow> string list" where
  "allowedCapabilitiesForKind kind =
     (if kind = ''human'' then HUMAN_CAPABILITIES
      else if kind = ''sensor'' then SENSOR_CAPABILITIES else AGENT_CAPABILITIES)"

text \<open>\<open>custom\<close> is what the cached \<open>CustomCapabilityDAO.listNames\<close> returns.\<close>

definition grantableCapabilitiesForKind :: "string \<Rightarrow> string list \<Rightarrow> string list" where
  "grantableCapabilitiesForKind kind custom = allowedCapabilitiesForKind kind @ custom"

section \<open>The cached registry names\<close>

definition registry_write :: "bool \<Rightarrow> db \<Rightarrow> db \<Rightarrow> bool" where
  "registry_write invalidates d d' \<longleftrightarrow>
     (if invalidates
      then (\<exists>rid nm l de g by r. registry_create rid nm l de g by d = Inr (r, d')) \<or>
           (\<exists>rid lo deo go r. registry_update rid lo deo go d = Inr (r, d')) \<or>
           (\<exists>rid. registry_delete rid d = Inr d')
      else dao_write d d' \<and> tb_customCaps d' = tb_customCaps d)"

interpretation listNames: ttl_source registry_names registry_write
  by unfold_locales (simp add: registry_write_def registry_names_def)

definition listNames :: "int \<Rightarrow> string list ttl_cache \<Rightarrow> string list option \<times> string list ttl_cache" where
  "listNames now c = cache_request now c"

text \<open>The table of custom capabilities is a registry of names.\<close>

definition registry_creates :: "string \<Rightarrow> db \<Rightarrow> db \<Rightarrow> bool" where
  "registry_creates nm d d' \<longleftrightarrow> db_wf d \<and> (\<exists>rid l de g by r. registry_create rid nm l de g by d = Inr (r, d'))"

definition registry_removes :: "string \<Rightarrow> db \<Rightarrow> db \<Rightarrow> bool" where
  "registry_removes nm d d' \<longleftrightarrow>
     db_wf d \<and> (\<exists>rid r. registry_findById rid d = Some r \<and> cc_name r = nm \<and> registry_delete rid d = Inr d')"

lemma parsed_is_custom: "parseCustomCapability n = Inr (v, a) \<Longrightarrow> isCustomCapability n"
  by (auto simp: parseCustomCapability_def split: if_splits)

lemma unique_other_column:
  assumes "unique_keys key rows" and "unique_keys key' rows" and "r \<in> set rows"
  shows "key' ` set (filter (\<lambda>x. key x \<noteq> key r) rows) = key' ` set rows - {key' r}"
proof -
  have "inj_on key (set rows)" "inj_on key' (set rows)"
    using assms by (simp_all add: unique_keys_def distinct_map)
  then have "key x = key r \<longleftrightarrow> key' x = key' r" if "x \<in> set rows" for x
    using that assms(3) by (auto simp: inj_on_def)
  then have "filter (\<lambda>x. key x \<noteq> key r) rows = filter (\<lambda>x. key' x \<noteq> key' r) rows"
    by (auto intro: filter_cong)
  then show ?thesis by auto
qed

interpretation registry: name_registry registry_names registry_creates registry_removes
proof
  fix n d d' assume "registry_creates n d d'"
  then obtain rid l de g cb r where c: "registry_create rid n l de g cb d = Inr (r, d')"
    by (auto simp: registry_creates_def)
  then show "set (registry_names d') = insert n (set (registry_names d))"
    by (auto simp: registry_create_def registry_names_def Let_def row_insert_Inr split: sum.splits if_splits)
  from c show "isCustomCapability n"
    by (auto simp: registry_create_def intro: parsed_is_custom split: sum.splits)
next
  fix n d d' assume "registry_removes n d d'"
  then obtain rid r where wf: "db_wf d" and r: "registry_findById rid d = Some r" "cc_name r = n"
    and del: "registry_delete rid d = Inr d'"
    by (auto simp: registry_removes_def)
  from r have mem: "r \<in> set (tb_customCaps d)" and rid: "cc_id r = rid"
    by (auto simp: registry_findById_def dest: row_find_Some_D)
  from wf have "unique_keys cc_id (tb_customCaps d)" "unique_keys cc_name (tb_customCaps d)"
    by (simp_all add: wf_defs)
  from unique_other_column [OF this mem]
  have "cc_name ` set (filter (\<lambda>x. cc_id x \<noteq> rid) (tb_customCaps d)) = cc_name ` set (tb_customCaps d) - {n}"
    by (simp only: rid r(2))
  moreover from del have "tb_customCaps d' = filter (\<lambda>x. cc_id x \<noteq> rid) (tb_customCaps d)"
    by (auto simp: registry_delete_def row_delete_Inr)
  ultimately show "set (registry_names d') = set (registry_names d) - {n}"
    by (simp only: registry_names_def list.set_map)
  from wf mem r(2) show "isCustomCapability n"
    by (auto simp: wf_defs intro: parsed_is_custom)
qed

section \<open>Access decision (access-control.ts)\<close>

text \<open>
  \<open>hasCapability\<close> reads the ledger, then the cached armed set \<open>st\<close>, then the holder and the granting
  row; the reads are one after the other, of the store as it is at the call.
\<close>

definition hasCapability ::
  "int \<Rightarrow> kill_switch_state \<Rightarrow> string \<Rightarrow> string \<Rightarrow> string option \<Rightarrow> db \<Rightarrow> bool" where
  "hasCapability now st did capability res d =
     (let certs = cert_findAllForActor did d;
          decision = resolvePermission \<lparr>ra_capability = capability, ra_resource = res\<rparr> certs now
      in if \<not> allowed decision then False
         else if ks_global st = None \<and> ks_byWorkspace st = [] then True
         else case actor_findByDid did d of
                None \<Rightarrow> False
              | Some actor \<Rightarrow>
                  if a_kind actor = ''human'' then True
                  else case (case grantingCertId decision of
                               None \<Rightarrow> None
                             | Some cid \<Rightarrow> if cid = [] then None else cert_findById cid d) of
                         None \<Rightarrow> False
                       | Some granting \<Rightarrow>
                           suppressionFor (as_suppressible granting) (as_actor actor) st = None)"

section \<open>Facts\<close>

lemma registerable_not_human: "isRegisterableKind kind \<Longrightarrow> kind \<noteq> ''human''"
  by (auto simp: isRegisterableKind_def categoryForKind_def ACTOR_KIND_META_def split: if_splits)

lemma registerable_iff:
  "isRegisterableKind kind \<longleftrightarrow> kind \<noteq> [] \<and> length kind \<le> 64 \<and> kind \<noteq> ''human''"
  by (auto simp: isRegisterableKind_def categoryForKind_def ACTOR_KIND_META_def MAX_KIND_LENGTH_def)

lemma console_only_for_humans:
  "''admin_console_access'' \<in> set (allowedCapabilitiesForKind kind) \<longleftrightarrow> kind = ''human''"
  by (auto simp: allowedCapabilitiesForKind_def HUMAN_CAPABILITIES_def SENSOR_CAPABILITIES_def
      AGENT_CAPABILITIES_def)

lemma withdrawn_never_grantable:
  "''file_access'' \<notin> set (allowedCapabilitiesForKind kind)"
  "''delegation'' \<notin> set (allowedCapabilitiesForKind kind)"
  by (auto simp: allowedCapabilitiesForKind_def HUMAN_CAPABILITIES_def SENSOR_CAPABILITIES_def
      AGENT_CAPABILITIES_def)

lemma allowed_are_builtin: "c \<in> set (allowedCapabilitiesForKind kind) \<Longrightarrow> isBuiltinCapability c"
  by (auto simp: allowedCapabilitiesForKind_def HUMAN_CAPABILITIES_def SENSOR_CAPABILITIES_def
      AGENT_CAPABILITIES_def isBuiltinCapability_def BUILTIN_CAPABILITIES_def split: if_splits)

lemma registry_names_custom: "db_wf d \<Longrightarrow> c \<in> set (registry_names d) \<Longrightarrow> isCustomCapability c"
  by (auto simp: registry_names_def wf_defs intro: parsed_is_custom)

text \<open>An access decision of a well-formed store in terms of the row it rests on.\<close>

lemma grantingCert_row:
  assumes "resolvePermission action (cert_findAllForActor did d) now = dec" and "allowed dec"
  obtains row where "row \<in> set (tb_certs d)" "c_agentDid row = did" "grants action now (toLite row)"
    "grantingCertId dec = Some (c_id row)"
proof -
  from assms have "find (grants action now) (cert_findAllForActor did d) \<noteq> None"
    by (auto simp: resolvePermission_find)
  then obtain l where l: "find (grants action now) (cert_findAllForActor did d) = Some l" by auto
  with find_Some_D [OF l] assms(1) show thesis
    by (auto simp: cert_findAllForActor_def resolvePermission_find toLite_def intro!: that)
qed

section \<open>Properties\<close>

text \<open>An Actor that registered itself can never be granted the admin console or the portal:
  whatever kind it may register as, and whatever the registry holds, neither right is among the
  capabilities an admin may grant to that kind.\<close>

theorem registered_never_console:
  assumes "isRegisterableKind kind" and "db_wf d"
  shows "''admin_console_access'' \<notin> set (grantableCapabilitiesForKind kind (registry_names d))
       \<and> ''portal_access'' \<notin> set (grantableCapabilitiesForKind kind (registry_names d))"
proof -
  have "kind \<noteq> ''human''" using assms(1) by (simp add: registerable_iff)
  moreover have "isBuiltinCapability ''admin_console_access''" "isBuiltinCapability ''portal_access''"
    by code_simp+
  then have "\<not> isCustomCapability ''admin_console_access''" "\<not> isCustomCapability ''portal_access''"
    using custom_not_builtin by blast+
  ultimately show ?thesis
    using registry_names_custom [OF assms(2)]
    by (auto simp: grantableCapabilitiesForKind_def allowedCapabilitiesForKind_def SENSOR_CAPABILITIES_def
        AGENT_CAPABILITIES_def)
qed

theorem registered_never_console_witness:
  "''admin_console_access'' \<notin> set (grantableCapabilitiesForKind ''proxy'' (registry_names empty_db))
   \<and> ''portal_access'' \<notin> set (grantableCapabilitiesForKind ''proxy'' (registry_names empty_db))"
  by (rule registered_never_console) (code_simp, rule empty_db_wf)

text \<open>C14 (functional). The access decision allows an action exactly when a certificate of the DID grants
  it and no armed switch suspends what it rests on: with no switch armed any granting certificate is
  enough; else the DID must be a known Actor, and a human or the holder of a granting certificate,
  the first one of the ledger, that no armed switch covers.\<close>

theorem access_decision_spec:
  assumes "db_wf d" and "row_find c_id [] (tb_certs d) = None"
  shows "hasCapability now (load_armed d) did capability res d \<longleftrightarrow>
    (case find (\<lambda>r. c_agentDid r = did \<and> grants \<lparr>ra_capability = capability, ra_resource = res\<rparr> now (toLite r)) (tb_certs d) of
       None \<Rightarrow> False
     | Some row \<Rightarrow>
         ks_global (load_armed d) = None \<and> ks_byWorkspace (load_armed d) = []
         \<or> (\<exists>actor. actor_findByDid did d = Some actor
              \<and> suppressionFor (as_suppressible row) (as_actor actor) (load_armed d) = None))"
proof -
  let ?ra = "\<lparr>ra_capability = capability, ra_resource = res\<rparr>"
  let ?P = "\<lambda>r. c_agentDid r = did \<and> grants ?ra now (toLite r)"
  have found: "find (grants ?ra now) (cert_findAllForActor did d) = map_option toLite (find ?P (tb_certs d))"
  proof -
    have "find Q (map f (filter R xs)) = map_option f (find (\<lambda>x. R x \<and> Q (f x)) xs)" for Q f R and xs :: "certificate_row list"
      by (induction xs) auto
    then show ?thesis by (simp add: cert_findAllForActor_def)
  qed
  show ?thesis
  proof (cases "find ?P (tb_certs d)")
    case None
    with found show ?thesis by (simp add: hasCapability_def Let_def resolvePermission_find)
  next
    case (Some row)
    from find_Some_D [OF Some] have mem: "row \<in> set (tb_certs d)" by simp
    have byId: "cert_findById (c_id row) d = Some row"
      using assms(1) mem by (auto simp: cert_findById_def wf_defs intro: row_find_unique)
    have id: "c_id row \<noteq> []"
      using assms(2) mem by (auto simp: row_find_None_iff)
    have human: "a_kind a = ''human'' \<Longrightarrow> suppressionFor (as_suppressible row) (as_actor a) (load_armed d) = None" for a
      by (simp add: suppressionFor_def as_actor_def)
    have dec: "allowed (resolvePermission ?ra (cert_findAllForActor did d) now)"
      "grantingCertId (resolvePermission ?ra (cert_findAllForActor did d) now) = Some (c_id row)"
      using found Some by (simp_all add: resolvePermission_find toLite_def)
    show ?thesis
      using Some byId id human
      by (auto simp: hasCapability_def Let_def dec split: option.splits)
  qed
qed

definition sample_agent :: actor_row where
  "sample_agent = \<lparr>a_did = ''did:a'', a_name = ''a'', a_kind = ''mcp'', a_publicKey = None, a_workspaceId = None,
     a_declaredCapabilities = None, a_kindConfig = [], a_registeredAt = 0, a_lastSeen = 0, a_ownerDid = None\<rparr>"

definition sample_custom_grant :: certificate_row where
  "sample_custom_grant =
     \<lparr>c_id = ''k'', c_agentDid = ''did:a'', c_workspaceId = None, c_capabilities = [''acme:deploy''],
      c_resourceLimits = None, c_scope = None, c_certFormat = ''packcert'', c_certificate = ''t'',
      c_requestCertificate = None, c_status = Active, c_issuedBy = None, c_issuedAt = 0, c_expiresAt = None,
      c_revokedAt = None, c_revokedBy = None, c_revokedReason = None\<rparr>"

definition sample_ledger :: db where
  "sample_ledger = empty_db\<lparr>tb_actors := [sample_agent], tb_certs := [sample_custom_grant]\<rparr>"

lemma sample_ledger_wf: "db_wf sample_ledger"
  by (simp add: sample_ledger_def sample_agent_def sample_custom_grant_def empty_db_def wf_defs
      points_def points_opt_def unique_keys_def)

lemma sample_ledger_unarmed: "load_armed sample_ledger = \<lparr>ks_global = None, ks_byWorkspace = []\<rparr>"
  by (simp add: load_armed_def toState_def ks_list_def sample_ledger_def empty_db_def)

lemma sample_grants:
  "grants \<lparr>ra_capability = c, ra_resource = None\<rparr> 1 (toLite sample_custom_grant) \<longleftrightarrow> c = ''acme:deploy''"
  by (auto simp: grants_def isUsable_def scopeMatches_def truthy_def toLite_def sample_custom_grant_def)

theorem access_decision_spec_witness:
  "hasCapability 1 (load_armed sample_ledger) ''did:a'' ''acme:deploy'' None sample_ledger
   \<and> \<not> hasCapability 1 (load_armed sample_ledger) ''did:a'' ''acme:read'' None sample_ledger"
proof -
  have noid: "row_find c_id [] (tb_certs sample_ledger) = None"
    by (simp add: sample_ledger_def row_find_def sample_custom_grant_def)
  have certs: "tb_certs sample_ledger = [sample_custom_grant]" by (simp add: sample_ledger_def)
  have "c_agentDid sample_custom_grant = ''did:a''" by (simp add: sample_custom_grant_def)
  then show ?thesis
    unfolding access_decision_spec [OF sample_ledger_wf noid]
    by (simp add: certs sample_grants sample_ledger_unarmed)
qed

text \<open>The access decision does not look at the registry: there is a well-formed store, with no
  switch armed, where it allows a custom capability that has been deleted and that the signed status of
  the very certificate it rests on no longer lists.\<close>

theorem access_allows_deleted_capability:
  "\<exists>d row actor. db_wf d \<and> hasCapability 1 (load_armed d) ''did:a'' ''acme:deploy'' None d
     \<and> cert_findByIdWithActor ''k'' d = Some (row, actor) \<and> ''acme:deploy'' \<in> set (c_capabilities row)
     \<and> ''acme:deploy'' \<notin> set (es_capabilities
          (resolveCertStatus (as_resolvable row) (as_actor actor) (load_armed d) (registry_names d) 1))"
proof (intro exI conjI)
  show "db_wf sample_ledger" by (rule sample_ledger_wf)
  show "hasCapability 1 (load_armed sample_ledger) ''did:a'' ''acme:deploy'' None sample_ledger"
  proof -
    have "cert_findAllForActor ''did:a'' sample_ledger = [toLite sample_custom_grant]"
      by (simp add: cert_findAllForActor_def sample_ledger_def sample_custom_grant_def)
    then show ?thesis
      by (simp add: hasCapability_def sample_ledger_unarmed Let_def resolvePermission_find sample_grants)
  qed
  show "cert_findByIdWithActor ''k'' sample_ledger = Some (sample_custom_grant, sample_agent)"
    by (simp add: cert_findByIdWithActor_def sample_ledger_def row_find_def sample_custom_grant_def sample_agent_def)
  show "''acme:deploy'' \<in> set (c_capabilities sample_custom_grant)" by (simp add: sample_custom_grant_def)
  have "\<not> isBuiltinCapability ''acme:deploy''" by code_simp
  then have drop: "filterAgainstRegistry [''acme:deploy''] [] = []" by (simp add: filterAgainstRegistry_def)
  show "''acme:deploy'' \<notin> set (es_capabilities (resolveCertStatus (as_resolvable sample_custom_grant) (as_actor sample_agent)
      (load_armed sample_ledger) (registry_names sample_ledger) 1))"
    by (simp add: resolveCertStatus_def Let_def sample_ledger_unarmed suppressionFor_def registry_names_def
        sample_ledger_def empty_db_def as_resolvable_def sample_custom_grant_def drop)
qed

text \<open>Deleting a custom capability from the registry takes exactly that name out of every
  grant, and creating it again gives every grant back as it was.\<close>

theorem registry_deletion_exact:
  assumes "registry_removes n d d1" and "registry_creates n d1 d2"
  shows "filterAgainstRegistry cs (registry_names d1) = filter (\<lambda>c. c \<noteq> n) (filterAgainstRegistry cs (registry_names d))
     \<and> filterAgainstRegistry cs (registry_names d2) = filterAgainstRegistry cs (registry_names d)"
proof -
  from assms(1) have "n \<in> set (registry_names d)"
    by (auto simp: registry_removes_def registry_findById_def registry_names_def dest: row_find_Some_D)
  with assms show ?thesis by (metis registry.removal_keeps_others registry.recreate_restores)
qed

theorem registry_deletion_exact_witness:
  "\<exists>d d1 d2. registry_removes ''acme:deploy'' d d1 \<and> registry_creates ''acme:deploy'' d1 d2
     \<and> filterAgainstRegistry [''acme:deploy'', ''file_read''] (registry_names d1) = [''file_read'']
     \<and> filterAgainstRegistry [''acme:deploy'', ''file_read''] (registry_names d2) = [''acme:deploy'', ''file_read'']"
proof -
  let ?r = "\<lparr>cc_id = ''i'', cc_name = ''acme:deploy'', cc_vendor = ''acme'', cc_action = ''deploy'',
    cc_label = ''Deploy'', cc_description = None, cc_group = None, cc_createdBy = ''did:admin''\<rparr>"
  let ?d = "empty_db\<lparr>tb_customCaps := [?r]\<rparr>"
  have parse: "parseCustomCapability ''acme:deploy'' = Inr (''acme'', ''deploy'')" by code_simp
  then have wf: "db_wf ?d"
    by (simp add: empty_db_def wf_defs points_def points_opt_def unique_keys_def)
  have rem: "registry_removes ''acme:deploy'' ?d empty_db"
    unfolding registry_removes_def using wf
    by (intro conjI exI [of _ "''i''"] exI [of _ ?r])
       (simp_all add: registry_findById_def registry_delete_def row_find_def row_delete_def throw_when_def empty_db_def)
  have "registry_create ''i'' ''acme:deploy'' ''Deploy'' None None ''did:admin'' empty_db = Inr (?r, ?d)"
    using parse by (simp add: registry_create_def row_find_def row_insert_def empty_db_def Let_def)
  with empty_db_wf have cre: "registry_creates ''acme:deploy'' empty_db ?d"
    unfolding registry_creates_def by blast
  have "isBuiltinCapability ''file_read''" by code_simp
  then have "filterAgainstRegistry [''acme:deploy'', ''file_read''] (registry_names ?d) = [''acme:deploy'', ''file_read'']"
    using parsed_is_custom [OF parse]
    by (simp add: filterAgainstRegistry_def registry_names_def)
  with registry_deletion_exact [OF rem cre, of "[''acme:deploy'', ''file_read'']"] rem cre show ?thesis
    by (intro exI [of _ ?d] exI [of _ empty_db]) simp
qed

end
