(* ===== verification/Certificates.thy ===== *)
theory Certificates
  imports ActorKinds
begin

text \<open>
  Issuance (\<open>packages/controlplane/lib/certificates.ts\<close>): signing and storing a grant, the admin and
  bootstrap paths, storing the result of a live exchange, and the choice of the certificate to
  deliver again. The server identity is the argument \<open>vid\<close>, a generated id the argument \<open>newId\<close>.
\<close>

datatype issue_error = SignFailed | IssueDb db_error

record issue_grant_input =
  ig_agentDid :: string
  ig_workspaceId :: "string option"
  ig_capabilities :: "string list"
  ig_resourceLimits :: "resource_limits option"
  ig_scope :: "cert_scope option"
  ig_requestCert :: string
  ig_expiresAt :: "int option"
  ig_issuedBy :: "string option"
  ig_certId :: "string option"

definition issueCapabilityGrant ::
  "'vid certlib \<Rightarrow> 'vid \<Rightarrow> int \<Rightarrow> string \<Rightarrow> issue_grant_input \<Rightarrow> db
     \<Rightarrow> (issue_error, certificate_row \<times> db) result" where
  "issueCapabilityGrant L vid now newId inp d =
     (let certId = (case ig_certId inp of None \<Rightarrow> newId | Some i \<Rightarrow> i) in
      case signCapabilityGrantCert L now vid
             \<lparr>cgi_certId = certId, cgi_agentDid = ig_agentDid inp, cgi_workspaceId = ig_workspaceId inp,
              cgi_grantedCapabilities = ig_capabilities inp, cgi_resourceLimits = ig_resourceLimits inp,
              cgi_scope = ig_scope inp, cgi_requestCert = ig_requestCert inp,
              cgi_expiresAt = ig_expiresAt inp\<rparr> of
        None \<Rightarrow> Inl SignFailed
      | Some certificate \<Rightarrow>
          (case cert_create now
                  \<lparr>ci_id = certId, ci_agentDid = ig_agentDid inp, ci_workspaceId = ig_workspaceId inp,
                   ci_capabilities = ig_capabilities inp, ci_resourceLimits = ig_resourceLimits inp,
                   ci_scope = ig_scope inp, ci_certFormat = None, ci_certificate = certificate,
                   ci_requestCertificate = Some (ig_requestCert inp), ci_expiresAt = ig_expiresAt inp,
                   ci_issuedBy = ig_issuedBy inp\<rparr> d of
             Inl e \<Rightarrow> Inl (IssueDb e)
           | Inr r \<Rightarrow> Inr r))"

definition signSystemRequestCert ::
  "'vid certlib \<Rightarrow> 'vid \<Rightarrow> int \<Rightarrow> string \<Rightarrow> string list \<Rightarrow> string \<Rightarrow> string option" where
  "signSystemRequestCert L vid now agentDid capabilities nonce =
     signCapabilityRequestCert L now vid
       \<lparr>cri_agentDid = agentDid, cri_requestedCapabilities = capabilities,
        cri_requestedResourceLimits = None, cri_requestedScope = None, cri_nonce = nonce\<rparr>"

record admin_grant_input =
  ag_agentDid :: string
  ag_workspaceId :: "string option"
  ag_capabilities :: "string list"
  ag_scope :: "cert_scope option"
  ag_resourceLimits :: "resource_limits option"
  ag_expiresAt :: "int option"
  ag_issuedBy :: string

definition issueAdminGrant ::
  "'vid certlib \<Rightarrow> 'vid \<Rightarrow> int \<Rightarrow> string \<Rightarrow> admin_grant_input \<Rightarrow> db
     \<Rightarrow> (issue_error, certificate_row \<times> db) result" where
  "issueAdminGrant L vid now newId inp d =
     (case signSystemRequestCert L vid now (ag_agentDid inp) (ag_capabilities inp)
             (''admin-grant-'' @ dec_string now) of
        None \<Rightarrow> Inl SignFailed
      | Some requestCert \<Rightarrow>
          issueCapabilityGrant L vid now newId
            \<lparr>ig_agentDid = ag_agentDid inp, ig_workspaceId = ag_workspaceId inp,
             ig_capabilities = ag_capabilities inp, ig_resourceLimits = ag_resourceLimits inp,
             ig_scope = ag_scope inp, ig_requestCert = requestCert, ig_expiresAt = ag_expiresAt inp,
             ig_issuedBy = Some (ag_issuedBy inp), ig_certId = None\<rparr> d)"

definition BOOTSTRAP_ADMIN_CERT_ID :: string where
  "BOOTSTRAP_ADMIN_CERT_ID = ''bootstrap-admin-cert''"

definition isBootstrapAdminNeeded :: "int \<Rightarrow> db \<Rightarrow> bool" where
  "isBootstrapAdminNeeded now d = (\<not> cert_existsActiveWithCapability now ''admin_console_access'' d)"

text \<open>
  The existence check and the creation are separate calls, so another login can commit in between:
  \<open>ensureBootstrapAdmin_checked\<close> is the rest of the function once its check has passed, on the store
  as it is then. A unique violation (P2002) is a lost race, every other error is thrown.
\<close>

definition ensureBootstrapAdmin_checked ::
  "'vid certlib \<Rightarrow> 'vid \<Rightarrow> int \<Rightarrow> string \<Rightarrow> db \<Rightarrow> (issue_error, certificate_row option \<times> db) result" where
  "ensureBootstrapAdmin_checked L vid now humanDid d =
     (case signSystemRequestCert L vid now humanDid [''admin_console_access''] ''bootstrap'' of
        None \<Rightarrow> Inl SignFailed
      | Some requestCert \<Rightarrow>
          (case issueCapabilityGrant L vid now []
                  \<lparr>ig_agentDid = humanDid, ig_workspaceId = None,
                   ig_capabilities = [''admin_console_access''], ig_resourceLimits = None,
                   ig_scope = None, ig_requestCert = requestCert, ig_expiresAt = None,
                   ig_issuedBy = Some ''system:bootstrap'', ig_certId = Some BOOTSTRAP_ADMIN_CERT_ID\<rparr> d of
             Inr (row, d') \<Rightarrow> Inr (Some row, d')
           | Inl (IssueDb UniqueViolation) \<Rightarrow> Inr (None, d)
           | Inl e \<Rightarrow> Inl e))"

definition ensureBootstrapAdmin ::
  "'vid certlib \<Rightarrow> 'vid \<Rightarrow> int \<Rightarrow> string \<Rightarrow> db \<Rightarrow> (issue_error, certificate_row option \<times> db) result" where
  "ensureBootstrapAdmin L vid now humanDid d =
     (if \<not> isBootstrapAdminNeeded now d then Inr (None, d)
      else ensureBootstrapAdmin_checked L vid now humanDid d)"

record challenger_cert_input =
  ch_certId :: string
  ch_agentDid :: string
  ch_workspaceId :: "string option"
  ch_capabilities :: "string list"
  ch_certificateBase64 :: string
  ch_expiresAt :: "int option"
  ch_issuedBy :: "string option"

definition persistChallengerCertificate ::
  "int \<Rightarrow> challenger_cert_input \<Rightarrow> db \<Rightarrow> (db_error, certificate_row option \<times> db) result" where
  "persistChallengerCertificate now inp d =
     (case cert_create now
             \<lparr>ci_id = ch_certId inp, ci_agentDid = ch_agentDid inp, ci_workspaceId = ch_workspaceId inp,
              ci_capabilities = ch_capabilities inp, ci_resourceLimits = None, ci_scope = None,
              ci_certFormat = Some ''challenger'', ci_certificate = ch_certificateBase64 inp,
              ci_requestCertificate = None, ci_expiresAt = ch_expiresAt inp,
              ci_issuedBy = ch_issuedBy inp\<rparr> d of
        Inr (row, d') \<Rightarrow> Inr (Some row, d')
      | Inl UniqueViolation \<Rightarrow> Inr (None, d)
      | Inl e \<Rightarrow> Inl e)"

section \<open>Delivering again\<close>

record redeliverable_cert =
  rd_id :: string
  rd_certificate :: string
  rd_capabilities :: "string list"
  rd_expiresAt :: "int option"

fun selectRedeliverableCertificate ::
  "redeliverable_cert list \<Rightarrow> string list \<Rightarrow> string list option \<Rightarrow> int
     \<Rightarrow> (redeliverable_cert \<times> string list) option" where
  "selectRedeliverableCertificate [] registryNames requested nowMs = None"
| "selectRedeliverableCertificate (cert # certs) registryNames requested nowMs =
     (if (case rd_expiresAt cert of None \<Rightarrow> False | Some e \<Rightarrow> e \<le> nowMs)
      then selectRedeliverableCertificate certs registryNames requested nowMs
      else let capabilities = filterAgainstRegistry (rd_capabilities cert) registryNames in
        if capabilities = []
        then selectRedeliverableCertificate certs registryNames requested nowMs
        else if (case requested of None \<Rightarrow> False | Some cs \<Rightarrow> list_ex (\<lambda>c. c \<notin> set capabilities) cs)
        then selectRedeliverableCertificate certs registryNames requested nowMs
        else Some (cert, capabilities))"

definition as_redeliverable :: "certificate_row \<Rightarrow> redeliverable_cert" where
  "as_redeliverable r = \<lparr>rd_id = c_id r, rd_certificate = c_certificate r,
     rd_capabilities = c_capabilities r, rd_expiresAt = c_expiresAt r\<rparr>"

section \<open>Facts\<close>

lemma cert_create_Inr:
  assumes "cert_create now ci d = Inr (c, d')"
  shows "tb_certs d' = tb_certs d @ [c]" and "c_id c = ci_id ci" and "c_agentDid c = ci_agentDid ci"
    and "c_status c = Active" and "c_capabilities c = ci_capabilities ci"
    and "row_find c_id (ci_id ci) (tb_certs d) = None"
    and "d' = d\<lparr>tb_certs := tb_certs d @ [c]\<rparr>" and "c_expiresAt c = ci_expiresAt ci"
    and "c_workspaceId c = ci_workspaceId ci" and "c_scope c = ci_scope ci"
    and "row_find a_did (ci_agentDid ci) (tb_actors d) \<noteq> None"
  using assms by (auto simp: cert_create_def Let_def row_insert_Inr)

lemma issueCapabilityGrant_Inr:
  assumes "issueCapabilityGrant L vid now newId inp d = Inr (c, d')"
  shows "c_id c = (case ig_certId inp of None \<Rightarrow> newId | Some i \<Rightarrow> i)" and "c_agentDid c = ig_agentDid inp"
    and "c_status c = Active" and "c_capabilities c = ig_capabilities inp"
    and "d' = d\<lparr>tb_certs := tb_certs d @ [c]\<rparr>" and "row_find c_id (c_id c) (tb_certs d) = None"
  using assms
  by (auto simp: issueCapabilityGrant_def Let_def cert_create_def row_insert_Inr
      split: option.splits sum.splits)

lemma issueCapabilityGrant_token:
  assumes "issueCapabilityGrant L vid now newId inp d = Inr (c, d')" and "lawful_certlib L"
  shows "openCert L vid (c_certificate c) = Some (CapabilityGrant
           \<lparr>cg_certId = c_id c, cg_agentDid = c_agentDid c, cg_workspaceId = c_workspaceId c,
            cg_grantedCapabilities = c_capabilities c, cg_resourceLimits = c_resourceLimits c,
            cg_scope = c_scope c, cg_requestCert = ig_requestCert inp, cg_issuedAt = now,
            cg_expiresAt = c_expiresAt c\<rparr>)
         \<and> c_requestCertificate c = Some (ig_requestCert inp)"
  using assms(1)
  by (auto simp: issueCapabilityGrant_def Let_def cert_create_def row_insert_Inr signCapabilityGrantCert_def
      dest!: openCert_signCert [OF assms(2)] split: option.splits sum.splits)

lemma selectRedeliverable_Some:
  "selectRedeliverableCertificate certs names requested now = Some (cert, caps) \<Longrightarrow>
     cert \<in> set certs \<and> caps = filterAgainstRegistry (rd_capabilities cert) names \<and> caps \<noteq> [] \<and>
     (\<forall>e. rd_expiresAt cert = Some e \<longrightarrow> now < e) \<and>
     (\<forall>cs. requested = Some cs \<longrightarrow> set cs \<subseteq> set caps)"
  by (induction certs)
     (auto simp: Let_def list_ex_iff split: if_splits option.splits)

lemma selectRedeliverable_None:
  "selectRedeliverableCertificate certs names requested now = None \<Longrightarrow> cert \<in> set certs \<Longrightarrow>
     (\<exists>e. rd_expiresAt cert = Some e \<and> e \<le> now) \<or>
     filterAgainstRegistry (rd_capabilities cert) names = [] \<or>
     (\<exists>cs. requested = Some cs \<and> \<not> set cs \<subseteq> set (filterAgainstRegistry (rd_capabilities cert) names))"
  by (induction certs) (auto simp: Let_def list_ex_iff subset_iff split: if_splits option.splits)

section \<open>Properties\<close>

text \<open>A grant issued by an admin is stored as one new active row, and with a lawful
  certificate library its text opens under the server's identity to exactly that row: id, holder,
  workspace, capabilities, limits, scope and expiry; the request embedded in it is stored with the
  row and opens, under the same identity, to a request for the same holder and capabilities.\<close>

theorem admin_grant_opens:
  assumes "lawful_certlib L" and "issueAdminGrant L vid now newId inp d = Inr (c, d')"
  shows "d' = d\<lparr>tb_certs := tb_certs d @ [c]\<rparr> \<and> c_status c = Active
    \<and> c_agentDid c = ag_agentDid inp \<and> c_capabilities c = ag_capabilities inp
    \<and> (\<exists>req. c_requestCertificate c = Some req
        \<and> openCert L vid (c_certificate c) = Some (CapabilityGrant
            \<lparr>cg_certId = c_id c, cg_agentDid = c_agentDid c, cg_workspaceId = c_workspaceId c,
             cg_grantedCapabilities = c_capabilities c, cg_resourceLimits = c_resourceLimits c,
             cg_scope = c_scope c, cg_requestCert = req, cg_issuedAt = now, cg_expiresAt = c_expiresAt c\<rparr>)
        \<and> map_option (\<lambda>r. (cr_agentDid r, cr_requestedCapabilities r)) (verifyCapabilityRequestCert L vid req)
            = Some (c_agentDid c, c_capabilities c))"
proof -
  from assms(2) obtain req where req: "signSystemRequestCert L vid now (ag_agentDid inp) (ag_capabilities inp)
      (''admin-grant-'' @ dec_string now) = Some req"
    and iss: "issueCapabilityGrant L vid now newId
            \<lparr>ig_agentDid = ag_agentDid inp, ig_workspaceId = ag_workspaceId inp,
             ig_capabilities = ag_capabilities inp, ig_resourceLimits = ag_resourceLimits inp,
             ig_scope = ag_scope inp, ig_requestCert = req, ig_expiresAt = ag_expiresAt inp,
             ig_issuedBy = Some (ag_issuedBy inp), ig_certId = None\<rparr> d = Inr (c, d')"
    by (auto simp: issueAdminGrant_def split: option.splits)
  have "map_option (\<lambda>r. (cr_agentDid r, cr_requestedCapabilities r)) (verifyCapabilityRequestCert L vid req)
      = Some (ag_agentDid inp, ag_capabilities inp)"
    using req by (auto simp: signSystemRequestCert_def signCapabilityRequestCert_def verifyCapabilityRequestCert_def
        dest!: openCert_signCert [OF assms(1)])
  with issueCapabilityGrant_Inr [OF iss] issueCapabilityGrant_token [OF iss assms(1)] show ?thesis by simp
qed

text \<open>An Actor and the two payloads of its grant, for evaluation.\<close>

definition sample_admin_db :: db where
  "sample_admin_db = empty_db\<lparr>tb_actors := [sample_agent]\<rparr>"

definition sample_token :: "byte \<Rightarrow> string" where
  "sample_token x = (case packCert [x] [7, x] of None \<Rightarrow> [] | Some t \<Rightarrow> t)"

definition sample_payloads :: "string \<Rightarrow> string \<Rightarrow> string \<Rightarrow> cert_payload list" where
  "sample_payloads nonce cid cap =
     [CapabilityRequest \<lparr>cr_agentDid = ''did:a'', cr_requestedCapabilities = [cap], cr_requestedResourceLimits = None,
        cr_requestedScope = None, cr_nonce = nonce, cr_issuedAt = 5\<rparr>,
      CapabilityGrant \<lparr>cg_certId = cid, cg_agentDid = ''did:a'', cg_workspaceId = None,
        cg_grantedCapabilities = [cap], cg_resourceLimits = None, cg_scope = None,
        cg_requestCert = sample_token 0, cg_issuedAt = 5, cg_expiresAt = None\<rparr>]"

lemma sample_sign:
  "signCert (table_certlib (sample_payloads n i c)) 7 (sample_payloads n i c ! 0) = Some (sample_token 0)"
  "signCert (table_certlib (sample_payloads n i c)) 7 (sample_payloads n i c ! 1) = Some (sample_token 1)"
  by (simp_all add: signCert_def table_certlib_def sample_payloads_def sample_token_def packCert_def writeUInt32LE_def)

lemma sample_create:
  "\<exists>row d'. cert_create now \<lparr>ci_id = i, ci_agentDid = ''did:a'', ci_workspaceId = None, ci_capabilities = caps,
      ci_resourceLimits = None, ci_scope = None, ci_certFormat = f, ci_certificate = t, ci_requestCertificate = r,
      ci_expiresAt = None, ci_issuedBy = b\<rparr> sample_admin_db = Inr (row, d')"
  by (simp add: cert_create_def sample_admin_db_def sample_agent_def empty_db_def row_find_def row_insert_def
      workspace_ok_def Let_def)

theorem admin_grant_opens_witness:
  "\<exists>c d'. issueAdminGrant (table_certlib (sample_payloads ''admin-grant-5'' ''k'' ''file_read'')) 7 5 ''k''
       \<lparr>ag_agentDid = ''did:a'', ag_workspaceId = None, ag_capabilities = [''file_read''], ag_scope = None,
        ag_resourceLimits = None, ag_expiresAt = None, ag_issuedBy = ''did:admin''\<rparr> sample_admin_db = Inr (c, d')
     \<and> d' = sample_admin_db\<lparr>tb_certs := [c]\<rparr>"
proof -
  let ?L = "table_certlib (sample_payloads ''admin-grant-5'' ''k'' ''file_read'')"
  have dec: "dec_string 5 = ''5''" by code_simp
  obtain c d' where "issueAdminGrant ?L 7 5 ''k''
       \<lparr>ag_agentDid = ''did:a'', ag_workspaceId = None, ag_capabilities = [''file_read''], ag_scope = None,
        ag_resourceLimits = None, ag_expiresAt = None, ag_issuedBy = ''did:admin''\<rparr> sample_admin_db = Inr (c, d')"
    using sample_sign [of "''admin-grant-5''" "''k''" "''file_read''"]
      sample_create [of 5 "''k''" "[''file_read'']" None "sample_token 1" "Some (sample_token 0)" "Some ''did:admin''"]
    by (auto simp: issueAdminGrant_def signSystemRequestCert_def signCapabilityRequestCert_def dec
        issueCapabilityGrant_def signCapabilityGrantCert_def sample_payloads_def)
  moreover from admin_grant_opens [OF table_certlib_lawful this]
  have "d' = sample_admin_db\<lparr>tb_certs := [c]\<rparr>" by (simp add: sample_admin_db_def empty_db_def)
  ultimately show ?thesis by blast
qed

text \<open>At most one bootstrap administrator is ever minted: when two logins both pass the
  existence check and one creation has gone through, the other, whoever it is for and whatever its
  clock, mints nothing and leaves the store alone.\<close>

theorem bootstrap_minted_once:
  assumes "ensureBootstrapAdmin_checked L vid now human1 d = Inr (Some row, d1)"
    and "ensureBootstrapAdmin_checked L vid now2 human2 d1 = Inr (res, d2)"
  shows "res = None \<and> d2 = d1 \<and> c_id row = BOOTSTRAP_ADMIN_CERT_ID \<and> d1 = d\<lparr>tb_certs := tb_certs d @ [row]\<rparr>"
proof -
  from assms(1) have row: "c_id row = BOOTSTRAP_ADMIN_CERT_ID" "d1 = d\<lparr>tb_certs := tb_certs d @ [row]\<rparr>"
    by (auto simp: ensureBootstrapAdmin_checked_def dest: issueCapabilityGrant_Inr
        split: option.splits sum.splits issue_error.splits db_error.splits)
  have no: "issueCapabilityGrant L vid now2 i inp d1 \<noteq> Inr (c, e)"
    if "ig_certId inp = Some BOOTSTRAP_ADMIN_CERT_ID" for i inp c e
  proof
    assume "issueCapabilityGrant L vid now2 i inp d1 = Inr (c, e)"
    from issueCapabilityGrant_Inr(1,6) [OF this] that row show False
      by (auto simp: row_find_None_iff)
  qed
  from assms(2) no row show ?thesis
    by (auto simp: ensureBootstrapAdmin_checked_def
        split: option.splits sum.splits issue_error.splits db_error.splits)
qed

theorem bootstrap_minted_once_witness:
  "\<exists>row d1. ensureBootstrapAdmin_checked
       (table_certlib (sample_payloads ''bootstrap'' BOOTSTRAP_ADMIN_CERT_ID ''admin_console_access'')) 7 5 ''did:a''
       sample_admin_db = Inr (Some row, d1)
     \<and> ensureBootstrapAdmin_checked
       (table_certlib (sample_payloads ''bootstrap'' BOOTSTRAP_ADMIN_CERT_ID ''admin_console_access'')) 7 5 ''did:a''
       d1 = Inr (None, d1)"
proof -
  let ?L = "table_certlib (sample_payloads ''bootstrap'' BOOTSTRAP_ADMIN_CERT_ID ''admin_console_access'')"
  let ?make = "ensureBootstrapAdmin_checked ?L 7 5 ''did:a''"
  note signs = sample_sign [of "''bootstrap''" BOOTSTRAP_ADMIN_CERT_ID "''admin_console_access''"]
  obtain row d1 where first: "?make sample_admin_db = Inr (Some row, d1)"
    using signs sample_create [of 5 BOOTSTRAP_ADMIN_CERT_ID "[''admin_console_access'']" None "sample_token 1"
        "Some (sample_token 0)" "Some ''system:bootstrap''"]
    by (auto simp: ensureBootstrapAdmin_checked_def signSystemRequestCert_def signCapabilityRequestCert_def
        issueCapabilityGrant_def signCapabilityGrantCert_def sample_payloads_def)
  have row: "c_id row = BOOTSTRAP_ADMIN_CERT_ID" "tb_certs d1 = [row]" "tb_actors d1 = [sample_agent]"
    using first by (auto simp: ensureBootstrapAdmin_checked_def sample_admin_db_def empty_db_def
        dest: issueCapabilityGrant_Inr split: option.splits sum.splits issue_error.splits db_error.splits)
  obtain res d2 where second: "?make d1 = Inr (res, d2)"
    using signs row
    by (auto simp: ensureBootstrapAdmin_checked_def signSystemRequestCert_def signCapabilityRequestCert_def
        issueCapabilityGrant_def signCapabilityGrantCert_def sample_payloads_def cert_create_def row_find_def
        row_insert_def sample_agent_def workspace_ok_def Let_def throw_when_def)
  from bootstrap_minted_once [OF first second] first second show ?thesis by auto
qed

end
