(* ===== verification/WsState.thy ===== *)
theory WsState
  imports Certificates
begin

text \<open>
  The connection server's state (\<open>packages/controlplane/lib/ws-server.ts\<close>, messages of
  \<open>lib/protocol.ts\<close>, sockets of \<open>lib/agent-sender.ts\<close>). One record holds the maps and buffers of
  the class, the sockets, the outstanding timers, the asynchronous continuations and the database.

  Third-party code is a parameter: the Challenger state machine and the identities of
  \<open>@vaultys/id\<close> are the functions of \<open>ws_lib\<close> (\<open>None\<close> is a throw), and so is the builder of the
  configuration payload. What differs from call to call (clock, random ids, the armed set and the
  registry names the caches serve) is \<open>ws_env\<close>.

  A handler that awaits is cut where another event can interleave with an effect on the connection
  maps: after the proof of identity (\<open>SeatTask\<close>), after the completed certificate exchange
  (\<open>CertTask\<close>), and at the fire-and-forget calls (\<open>DeliverTask\<close>, \<open>PushTask\<close>, \<open>SweepTask\<close>). An exception or
  rejection no handler catches is counted in \<open>ws_uncaught\<close>. \<open>ws_out\<close>, \<open>ws_seen\<close> and \<open>ws_proven\<close>
  are history: messages sent, sockets ever accepted, and identities each socket has proven.
\<close>

section \<open>Messages\<close>

record register_payload =
  rp_name :: "string option"
  rp_kind :: "string option"
  rp_declared :: "declared_capability list option"

record challenge_payload =
  cp_sessionId :: string
  cp_data :: string

record sensor_event =
  se_schemaVersion :: int
  se_type :: string
  se_hostname :: string
  se_os :: string
  se_fingerprint :: string
  se_processName :: string
  se_executable :: "string option"
  se_command :: "string option"
  se_user :: "string option"
  se_provider :: "string option"
  se_model :: "string option"
  se_aiConfidence :: rat
  se_agentConfidence :: rat
  se_reasons :: "string list option"
  se_isMcp :: "bool option"
  se_mcpServers :: "string list option"
  se_isLocalRuntime :: "bool option"
  se_identityEvidence :: "string option"

text \<open>A received frame; \<open>None\<close> is a message whose \<open>payload\<close> is missing.\<close>

datatype ws_in_msg =
    Malformed
  | Register "register_payload option"
  | AuthChallenge "challenge_payload option"
  | Heartbeat
  | CertStatusReq "string option"
  | CapabilityReq "string list option"
  | CertChallenge "challenge_payload option"
  | SensorTelemetry "sensor_event list option option"
  | OtherIn string

datatype changed_reason = CertificateIssued | CertificateRevoked | CapabilityDeleted | AdminUpdate

datatype registry_reason = RegCreated | RegDeleted | RegUpdated

datatype 'cfg ws_out_msg =
    AuthChallengeOut string string
  | AuthCompleteOut string
  | AuthFailedOut string
  | RegistrationPendingOut string
  | PongOut
  | CertStatusResponseOut string
  | CertChallengeOut string string
  | CertIssuedOut string string "string list"
  | CertFailedOut string
  | CapabilitiesChangedOut changed_reason "string list option"
  | RegistryChangedOut registry_reason "string option"
  | KillSwitchOut scope_type "string option" string int
  | ActorConfigOut 'cfg
  | ErrorOut string

section \<open>Parameters\<close>

record ('vid, 'ch) challenger_lib =
  ch_new :: "'vid \<Rightarrow> 'ch"
  ch_update :: "'ch \<Rightarrow> byte list \<Rightarrow> 'ch option"
  ch_bytes :: "'ch \<Rightarrow> byte list"
  ch_failed :: "'ch \<Rightarrow> bool"
  ch_error :: "'ch \<Rightarrow> string option"
  ch_context :: "'ch \<Rightarrow> string \<times> string"
  ch_complete :: "'ch \<Rightarrow> bool"
  ch_contact :: "'ch \<Rightarrow> 'vid"

record ('vid, 'ch, 'cfg) ws_lib =
  lb_certs :: "'vid certlib"
  lb_challenger :: "('vid, 'ch) challenger_lib"
  lb_serverVid :: 'vid
  lb_did :: "'vid \<Rightarrow> string"
  lb_idBytes :: "'vid \<Rightarrow> byte list"
  lb_fromId :: "byte list \<Rightarrow> 'vid option"
  lb_buildConfig :: "int \<Rightarrow> string \<Rightarrow> db \<Rightarrow> 'cfg option"

text \<open>Reading back an identity from its public bytes gives the identity.\<close>

definition lawful_ids :: "('vid, 'ch, 'cfg) ws_lib \<Rightarrow> bool" where
  "lawful_ids lib \<longleftrightarrow> (\<forall>v. lb_fromId lib (lb_idBytes lib v) = Some v)"

record ws_env =
  ev_now :: int
  ev_session :: string
  ev_uuid :: string
  ev_timer :: nat
  ev_armed :: kill_switch_state
  ev_registry :: "string list"

section \<open>State\<close>

record 'ch pending_conn =
  pn_sessionId :: string
  pn_name :: string
  pn_kind :: string
  pn_declared :: "declared_capability list option"
  pn_challenger :: "'ch option"
  pn_timer :: nat

record 'vid connected_actor =
  ca_did :: string
  ca_name :: string
  ca_kind :: string
  ca_sender :: nat
  ca_remoteVid :: 'vid
  ca_connectedAt :: int
  ca_lastSeen :: int

record awaiting_approval =
  aw_did :: string
  aw_registrationId :: string

record 'ch cert_issuance =
  is_sessionId :: string
  is_registrationId :: string
  is_capabilities :: "string list"
  is_challenger :: "'ch option"

record handshake_timer =
  ht_id :: nat
  ht_sender :: nat

datatype ('vid, 'ch) ws_task =
    SeatTask nat "'ch pending_conn" 'vid string
  | DeliverTask nat string
  | PushTask string
  | SweepTask string
  | CertTask nat "'ch cert_issuance" string

record ('vid, 'ch, 'cfg) ws_state =
  ws_pending :: "(nat \<times> 'ch pending_conn) list"
  ws_connected :: "(string \<times> 'vid connected_actor) list"
  ws_bySender :: "(nat \<times> string) list"
  ws_awaiting :: "(nat \<times> awaiting_approval) list"
  ws_issuance :: "(nat \<times> 'ch cert_issuance) list"
  ws_lastSeen :: "string list"
  ws_checks :: "status_check_input list"
  ws_sweeping :: bool
  ws_timers :: "handshake_timer list"
  ws_open :: "nat list"
  ws_live :: "nat list"
  ws_tasks :: "('vid, 'ch) ws_task list"
  ws_uncaught :: nat
  ws_db :: db
  ws_out :: "(nat \<times> 'cfg ws_out_msg) list"
  ws_seen :: "nat list"
  ws_proven :: "(nat \<times> string) list"

definition ws_start :: "db \<Rightarrow> ('vid, 'ch, 'cfg) ws_state" where
  "ws_start d = \<lparr>ws_pending = [], ws_connected = [], ws_bySender = [], ws_awaiting = [], ws_issuance = [],
     ws_lastSeen = [], ws_checks = [], ws_sweeping = False, ws_timers = [], ws_open = [], ws_live = [],
     ws_tasks = [], ws_uncaught = 0, ws_db = d, ws_out = [], ws_seen = [], ws_proven = []\<rparr>"

section \<open>Sending, closing, and the event loop\<close>

text \<open>\<open>WsSender.sendRaw\<close> drops what it is given unless the socket is open.\<close>

definition sendMessage ::
  "nat \<Rightarrow> 'cfg ws_out_msg \<Rightarrow> ('vid, 'ch, 'cfg) ws_state \<Rightarrow> ('vid, 'ch, 'cfg) ws_state" where
  "sendMessage sender msg st =
     (if sender \<in> set (ws_open st) then st\<lparr>ws_out := ws_out st @ [(sender, msg)]\<rparr> else st)"

definition sendError ::
  "nat \<Rightarrow> string \<Rightarrow> ('vid, 'ch, 'cfg) ws_state \<Rightarrow> ('vid, 'ch, 'cfg) ws_state" where
  "sendError sender why st = sendMessage sender (ErrorOut why) st"

text \<open>\<open>close()\<close> leaves the open state at once; the \<open>close\<close> event comes later.\<close>

definition closeSender :: "nat \<Rightarrow> ('vid, 'ch, 'cfg) ws_state \<Rightarrow> ('vid, 'ch, 'cfg) ws_state" where
  "closeSender sender st = st\<lparr>ws_open := removeAll sender (ws_open st)\<rparr>"

definition uncaught :: "('vid, 'ch, 'cfg) ws_state \<Rightarrow> ('vid, 'ch, 'cfg) ws_state" where
  "uncaught st = st\<lparr>ws_uncaught := ws_uncaught st + 1\<rparr>"

definition add_task ::
  "('vid, 'ch) ws_task \<Rightarrow> ('vid, 'ch, 'cfg) ws_state \<Rightarrow> ('vid, 'ch, 'cfg) ws_state" where
  "add_task t st = st\<lparr>ws_tasks := ws_tasks st @ [t]\<rparr>"

definition clearTimer :: "nat \<Rightarrow> ('vid, 'ch, 'cfg) ws_state \<Rightarrow> ('vid, 'ch, 'cfg) ws_state" where
  "clearTimer t st = st\<lparr>ws_timers := filter (\<lambda>h. ht_id h \<noteq> t) (ws_timers st)\<rparr>"

text \<open>\<open>Set.add\<close> on the buffer of DIDs.\<close>

definition bufferLastSeen :: "string \<Rightarrow> ('vid, 'ch, 'cfg) ws_state \<Rightarrow> ('vid, 'ch, 'cfg) ws_state" where
  "bufferLastSeen did st =
     st\<lparr>ws_lastSeen := (if did \<in> set (ws_lastSeen st) then ws_lastSeen st else ws_lastSeen st @ [did])\<rparr>"

text \<open>
  \<open>sameDeclaredCapabilities\<close>: both lists sorted by name, compared entry by entry. The sort is stable,
  so whatever the collation, that is: equally long, and equal in order on every single name.
\<close>

definition sameDeclaredCapabilities ::
  "declared_capability list option \<Rightarrow> declared_capability list \<Rightarrow> bool" where
  "sameDeclaredCapabilities stored reported =
     (case stored of
        None \<Rightarrow> False
      | Some a \<Rightarrow>
          length a = length reported \<and>
          list_all (\<lambda>x. filter (\<lambda>z. dc_name z = dc_name x) a = filter (\<lambda>z. dc_name z = dc_name x) reported) a)"

definition verifyProtocol :: "('vid, 'ch) challenger_lib \<Rightarrow> 'ch \<Rightarrow> bool" where
  "verifyProtocol C c =
     (fst (ch_context C c) = ''p2p'' \<and> (snd (ch_context C c) = ''register'' \<or> snd (ch_context C c) = ''auth''))"

definition HANDSHAKE_TIMEOUT_MS :: int where
  "HANDSHAKE_TIMEOUT_MS = 30000"

definition DEFAULT_GRANT_TTL_MS :: int where
  "DEFAULT_GRANT_TTL_MS = 365 * 24 * 60 * 60 * 1000"

definition DELIVERY_SWEEP_BATCH :: nat where
  "DELIVERY_SWEEP_BATCH = 100"

end
