(* ===== verification/WsHandlers.thy ===== *)
theory WsHandlers
  imports WsState
begin

text \<open>
  The handlers of the connection server (\<open>packages/controlplane/lib/ws-server.ts\<close>), in the order of
  the class: registration and the authentication handshake, the messages after it, the delivery of
  approved grants, the certificate exchange, the pushes and the timers. Each is a function of the
  library, the call's environment and the state.
\<close>

section \<open>Close, disconnect, register\<close>

definition handleClose :: "nat \<Rightarrow> ('vid, 'ch, 'cfg) ws_state \<Rightarrow> ('vid, 'ch, 'cfg) ws_state" where
  "handleClose sender st =
     (let st1 = st\<lparr>ws_pending := map_remove sender (ws_pending st),
                   ws_awaiting := map_remove sender (ws_awaiting st),
                   ws_issuance := map_remove sender (ws_issuance st)\<rparr>
      in case map_of (ws_bySender st1) sender of
           None \<Rightarrow> st1
         | Some did \<Rightarrow>
             if did = [] then st1
             else st1\<lparr>ws_bySender := map_remove sender (ws_bySender st1),
                      ws_connected := map_remove did (ws_connected st1)\<rparr>)"

definition disconnect :: "string \<Rightarrow> ('vid, 'ch, 'cfg) ws_state \<Rightarrow> ('vid, 'ch, 'cfg) ws_state" where
  "disconnect did st =
     (case map_of (ws_connected st) did of None \<Rightarrow> st | Some conn \<Rightarrow> closeSender (ca_sender conn) st)"

text \<open>\<open>failHandshake\<close> works on the connection object the caller holds, whatever the map says by then.\<close>

definition failHandshake ::
  "nat \<Rightarrow> 'ch pending_conn \<Rightarrow> string \<Rightarrow> ('vid, 'ch, 'cfg) ws_state \<Rightarrow> ('vid, 'ch, 'cfg) ws_state" where
  "failHandshake sender p why st =
     (let st1 = clearTimer (pn_timer p) (closeSender sender (sendMessage sender (AuthFailedOut why) st))
      in st1\<lparr>ws_pending := map_remove sender (ws_pending st1)\<rparr>)"

definition handleRegister ::
  "ws_env \<Rightarrow> nat \<Rightarrow> register_payload option \<Rightarrow> ('vid, 'ch, 'cfg) ws_state \<Rightarrow> ('vid, 'ch, 'cfg) ws_state" where
  "handleRegister ev sender payload st =
     (case payload of
        None \<Rightarrow> uncaught st
      | Some pl \<Rightarrow>
          let kind = (case rp_kind pl of None \<Rightarrow> ''openclaw'' | Some k \<Rightarrow> k) in
          if \<not> isRegisterableKind kind then
            closeSender sender
              (sendMessage sender
                 (AuthFailedOut (quoted (take MAX_KIND_LENGTH kind) @ '' is not a kind an Actor may register as'')) st)
          else
            let p = \<lparr>pn_sessionId = ev_session ev,
                     pn_name = (case rp_name pl of None \<Rightarrow> ''unknown'' | Some n \<Rightarrow> n), pn_kind = kind,
                     pn_declared = rp_declared pl, pn_challenger = None, pn_timer = ev_timer ev\<rparr>
            in sendMessage sender (AuthChallengeOut (ev_session ev) [])
                 (st\<lparr>ws_timers := ws_timers st @ [\<lparr>ht_id = ev_timer ev, ht_sender = sender\<rparr>],
                     ws_pending := map_set sender p (ws_pending st)\<rparr>))"

text \<open>The handshake timer: nothing checks that its connection is still the pending one.\<close>

definition fireTimer :: "handshake_timer \<Rightarrow> ('vid, 'ch, 'cfg) ws_state \<Rightarrow> ('vid, 'ch, 'cfg) ws_state" where
  "fireTimer h st =
     (let st1 = closeSender (ht_sender h)
                  (sendMessage (ht_sender h) (AuthFailedOut ''Handshake timeout'') (clearTimer (ht_id h) st))
      in st1\<lparr>ws_pending := map_remove (ht_sender h) (ws_pending st1)\<rparr>)"

section \<open>The authentication handshake\<close>

text \<open>Up to the proof of identity; the rest of the function is \<open>seatActor\<close>.\<close>

definition handleAuthChallenge ::
  "('vid, 'ch, 'cfg) ws_lib \<Rightarrow> nat \<Rightarrow> challenge_payload option \<Rightarrow> ('vid, 'ch, 'cfg) ws_state
     \<Rightarrow> ('vid, 'ch, 'cfg) ws_state" where
  "handleAuthChallenge lib sender payload st =
     (case map_of (ws_pending st) sender of
        None \<Rightarrow> sendError sender ''No matching session'' st
      | Some p \<Rightarrow>
        (case payload of
           None \<Rightarrow> uncaught st
         | Some pl \<Rightarrow>
             if pn_sessionId p \<noteq> cp_sessionId pl then sendError sender ''No matching session'' st
             else
               let C = lb_challenger lib;
                   c0 = (case pn_challenger p of None \<Rightarrow> ch_new C (lb_serverVid lib) | Some c \<Rightarrow> c)
               in case ch_update C c0 (fromBase64 (cp_data pl)) of
                    None \<Rightarrow> failHandshake sender p ''Internal error'' st
                  | Some c \<Rightarrow>
                      let p' = p\<lparr>pn_challenger := Some c\<rparr>;
                          st1 = st\<lparr>ws_pending := map_set sender p' (ws_pending st)\<rparr>;
                          certB64 = toBase64 (ch_bytes C c)
                      in if ch_failed C c then
                           failHandshake sender p' (case ch_error C c of None \<Rightarrow> ''Challenge failed'' | Some e \<Rightarrow> e) st1
                         else if \<not> verifyProtocol C c then failHandshake sender p' ''Protocol tampered'' st1
                         else if \<not> ch_complete C c then
                           sendMessage sender (AuthChallengeOut (pn_sessionId p) certB64) st1
                         else
                           let st2 = clearTimer (pn_timer p) st1;
                               st3 = st2\<lparr>ws_pending := map_remove sender (ws_pending st2),
                                         ws_proven := ws_proven st2 @ [(sender, lb_did lib (ch_contact C c))]\<rparr>
                           in add_task (SeatTask sender p' (ch_contact C c) certB64) st3))"

text \<open>The known Actor: refused while a kill switch covers it, seated otherwise.\<close>

definition seatExisting ::
  "ws_env \<Rightarrow> nat \<Rightarrow> 'ch pending_conn \<Rightarrow> 'vid \<Rightarrow> string \<Rightarrow> string \<Rightarrow> actor_row
     \<Rightarrow> ('vid, 'ch, 'cfg) ws_state \<Rightarrow> ('vid, 'ch, 'cfg) ws_state" where
  "seatExisting ev sender p contact did certB64 existing st =
     (case suppressionForActor (as_actor existing) (ev_armed ev) of
        Some row \<Rightarrow> failHandshake sender p (killSwitchReason row) st
      | None \<Rightarrow>
          let st1 = bufferLastSeen did st;
              st2 = (case pn_declared p of
                       None \<Rightarrow> st1
                     | Some decl \<Rightarrow>
                         if sameDeclaredCapabilities (a_declaredCapabilities existing) decl then st1
                         else (case actor_setDeclaredCapabilities did decl (ws_db st1) of
                                 Inl _ \<Rightarrow> uncaught st1
                               | Inr d' \<Rightarrow> st1\<lparr>ws_db := d'\<rparr>));
              actor = \<lparr>ca_did = did, ca_name = a_name existing, ca_kind = a_kind existing,
                       ca_sender = sender, ca_remoteVid = contact, ca_connectedAt = ev_now ev,
                       ca_lastSeen = ev_now ev\<rparr>;
              st3 = st2\<lparr>ws_connected := map_set did actor (ws_connected st2),
                        ws_bySender := map_set sender did (ws_bySender st2)\<rparr>;
              st4 = sendMessage sender (AuthChallengeOut (pn_sessionId p) certB64)
                      (sendMessage sender (AuthCompleteOut did) st3)
          in add_task (DeliverTask sender did) (add_task (PushTask did) st4))"

text \<open>The unknown one: one pending row per DID, and the socket waits for its approval.\<close>

definition enrolUnknown ::
  "('vid, 'ch, 'cfg) ws_lib \<Rightarrow> ws_env \<Rightarrow> nat \<Rightarrow> 'ch pending_conn \<Rightarrow> 'vid \<Rightarrow> string
     \<Rightarrow> ('vid, 'ch, 'cfg) ws_state \<Rightarrow> ('vid, 'ch, 'cfg) ws_state" where
  "enrolUnknown lib ev sender p contact did st =
     (let await_it = (\<lambda>regId s.
            sendMessage sender (RegistrationPendingOut regId)
              (s\<lparr>ws_awaiting := map_set sender \<lparr>aw_did = did, aw_registrationId = regId\<rparr> (ws_awaiting s)\<rparr>))
      in case pending_findPendingByDid did (ws_db st) of
           Some row \<Rightarrow> await_it (p_id row) st
         | None \<Rightarrow>
             (case pending_create (ev_now ev)
                     \<lparr>pi_id = ev_uuid ev, pi_did = did,
                      pi_publicKey = Some (toBase64 (lb_idBytes lib contact)),
                      pi_sessionId = pn_sessionId p, pi_name = pn_name p, pi_kind = pn_kind p,
                      pi_requestedCapabilities = []\<rparr> (ws_db st) of
                Inl _ \<Rightarrow> failHandshake sender p ''Internal error'' st
              | Inr (row, d') \<Rightarrow>
                  await_it (ev_uuid ev)
                    (st\<lparr>ws_db := recordEvent (ev_now ev) ''actor.registration_requested''
                          [(''did'', JStr did), (''name'', JStr (pn_name p)), (''kind'', JStr (pn_kind p)),
                           (''registrationId'', JStr (ev_uuid ev))]
                          None (Some ''actor'') (Some did) d'\<rparr>)))"

definition seatActor ::
  "('vid, 'ch, 'cfg) ws_lib \<Rightarrow> ws_env \<Rightarrow> nat \<Rightarrow> 'ch pending_conn \<Rightarrow> 'vid \<Rightarrow> string
     \<Rightarrow> ('vid, 'ch, 'cfg) ws_state \<Rightarrow> ('vid, 'ch, 'cfg) ws_state" where
  "seatActor lib ev sender p contact certB64 st =
     (let did = lb_did lib contact in
      case actor_findByDid did (ws_db st) of
        Some existing \<Rightarrow> seatExisting ev sender p contact did certB64 existing st
      | None \<Rightarrow> enrolUnknown lib ev sender p contact did st)"

section \<open>Heartbeat and delivery\<close>

definition handleHeartbeat ::
  "ws_env \<Rightarrow> nat \<Rightarrow> ('vid, 'ch, 'cfg) ws_state \<Rightarrow> ('vid, 'ch, 'cfg) ws_state" where
  "handleHeartbeat ev sender st =
     (case map_of (ws_bySender st) sender of
        None \<Rightarrow> st
      | Some did \<Rightarrow>
          if did = [] then st
          else (case map_of (ws_connected st) did of
                  None \<Rightarrow> st
                | Some actor \<Rightarrow>
                    sendMessage sender PongOut
                      (bufferLastSeen did
                         (st\<lparr>ws_connected := map_set did (actor\<lparr>ca_lastSeen := ev_now ev\<rparr>) (ws_connected st)\<rparr>))))"

text \<open>An exchange already under way on the connection is never restarted.\<close>

definition startCertificateIssuance ::
  "ws_env \<Rightarrow> nat \<Rightarrow> string \<Rightarrow> string list \<Rightarrow> ('vid, 'ch, 'cfg) ws_state \<Rightarrow> ('vid, 'ch, 'cfg) ws_state" where
  "startCertificateIssuance ev sender registrationId capabilities st =
     (if map_has (ws_issuance st) sender then st
      else sendMessage sender (CertChallengeOut (ev_session ev) [])
             (st\<lparr>ws_issuance := map_set sender
                    \<lparr>is_sessionId = ev_session ev, is_registrationId = registrationId,
                     is_capabilities = capabilities, is_challenger = None\<rparr> (ws_issuance st)\<rparr>))"

text \<open>An empty grant is only marked; a failing mark rejects the call (\<open>None\<close>).\<close>

definition grantOrMark ::
  "ws_env \<Rightarrow> nat \<Rightarrow> string \<Rightarrow> string list \<Rightarrow> ('vid, 'ch, 'cfg) ws_state
     \<Rightarrow> bool option \<times> ('vid, 'ch, 'cfg) ws_state" where
  "grantOrMark ev sender regId capabilities st =
     (if capabilities = [] then
        (case pending_markDelivered (ev_now ev) regId (ws_db st) of
           Inl _ \<Rightarrow> (None, st)
         | Inr (row, d') \<Rightarrow> (Some True, st\<lparr>ws_db := d'\<rparr>))
      else (Some True, startCertificateIssuance ev sender regId capabilities st))"

definition deliverApprovedCapabilities ::
  "('vid, 'ch, 'cfg) ws_lib \<Rightarrow> ws_env \<Rightarrow> string \<Rightarrow> ('vid, 'ch, 'cfg) ws_state
     \<Rightarrow> bool option \<times> ('vid, 'ch, 'cfg) ws_state" where
  "deliverApprovedCapabilities lib ev did st =
     (case pending_findApprovedUndelivered did (ws_db st) of
        None \<Rightarrow> (Some False, st)
      | Some approved \<Rightarrow>
          let capabilities = filterAgainstRegistry (p_assignedCapabilities approved) (ev_registry ev) in
          (case find (\<lambda>(sender, awaiting). aw_did awaiting = did) (ws_awaiting st) of
             Some (sender, awaiting) \<Rightarrow>
               let st1 = st\<lparr>ws_awaiting := map_remove sender (ws_awaiting st)\<rparr>;
                   goOn = (\<lambda>s. grantOrMark ev sender (p_id approved) capabilities
                                (sendMessage sender (AuthCompleteOut did) s))
               in (case p_publicKey approved of
                     None \<Rightarrow> goOn st1
                   | Some key \<Rightarrow>
                       if key = [] then goOn st1
                       else (case lb_fromId lib (fromBase64 key) of
                               None \<Rightarrow> (None, st1)
                             | Some remoteVid \<Rightarrow>
                                 goOn (st1\<lparr>ws_connected := map_set did
                                         \<lparr>ca_did = did, ca_name = p_name approved, ca_kind = p_kind approved,
                                          ca_sender = sender, ca_remoteVid = remoteVid,
                                          ca_connectedAt = ev_now ev, ca_lastSeen = ev_now ev\<rparr> (ws_connected st1),
                                       ws_bySender := map_set sender did (ws_bySender st1)\<rparr>)))
           | None \<Rightarrow>
               (case map_of (ws_connected st) did of
                  None \<Rightarrow> (Some False, st)
                | Some actor \<Rightarrow> grantOrMark ev (ca_sender actor) (p_id approved) capabilities st)))"

definition redeliverExistingCertificate ::
  "ws_env \<Rightarrow> nat \<Rightarrow> string \<Rightarrow> string list option \<Rightarrow> ('vid, 'ch, 'cfg) ws_state
     \<Rightarrow> bool \<times> ('vid, 'ch, 'cfg) ws_state" where
  "redeliverExistingCertificate ev sender did requested st =
     (case selectRedeliverableCertificate
             (map as_redeliverable (cert_list (Some did) (Some Active) (ws_db st)))
             (ev_registry ev) requested (ev_now ev) of
        None \<Rightarrow> (False, st)
      | Some (cert, capabilities) \<Rightarrow>
          (True, sendMessage sender (CertIssuedOut (rd_id cert) (rd_certificate cert) capabilities) st))"

section \<open>Capability requests\<close>

definition handleCapabilityRequest ::
  "('vid, 'ch, 'cfg) ws_lib \<Rightarrow> ws_env \<Rightarrow> nat \<Rightarrow> string list option \<Rightarrow> ('vid, 'ch, 'cfg) ws_state
     \<Rightarrow> ('vid, 'ch, 'cfg) ws_state" where
  "handleCapabilityRequest lib ev sender payload st =
     (let update = (\<lambda>regId s. case payload of
            None \<Rightarrow> uncaught s
          | Some caps \<Rightarrow>
              (case pending_updateRequestedCapabilities regId caps (ws_db s) of
                 Inl _ \<Rightarrow> uncaught s
               | Inr (row, d') \<Rightarrow> s\<lparr>ws_db := d'\<rparr>))
      in case map_of (ws_awaiting st) sender of
           Some awaiting \<Rightarrow> update (aw_registrationId awaiting) st
         | None \<Rightarrow>
             (case map_of (ws_bySender st) sender of
                None \<Rightarrow> sendError sender ''Not authenticated'' st
              | Some did \<Rightarrow>
                  if did = [] then sendError sender ''Not authenticated'' st
                  else if pending_findApprovedUndelivered did (ws_db st) \<noteq> None then st
                  else (case pending_findPendingByDid did (ws_db st) of
                          Some row \<Rightarrow> update (p_id row) st
                        | None \<Rightarrow>
                            (case payload of
                               None \<Rightarrow> uncaught st
                             | Some caps \<Rightarrow>
                                 (case redeliverExistingCertificate ev sender did (Some caps) st of
                                    (True, st') \<Rightarrow> st'
                                  | (False, st') \<Rightarrow>
                                      let actor = map_of (ws_connected st) did in
                                      (case pending_create (ev_now ev)
                                              \<lparr>pi_id = ev_uuid ev, pi_did = did,
                                               pi_publicKey = map_option (\<lambda>a. toBase64 (lb_idBytes lib (ca_remoteVid a))) actor,
                                               pi_sessionId = ev_session ev,
                                               pi_name = (case actor of None \<Rightarrow> did | Some a \<Rightarrow> ca_name a),
                                               pi_kind = (case actor of None \<Rightarrow> ''openclaw'' | Some a \<Rightarrow> ca_kind a),
                                               pi_requestedCapabilities = caps\<rparr> (ws_db st') of
                                         Inl _ \<Rightarrow> uncaught st'
                                       | Inr (row, d') \<Rightarrow> st'\<lparr>ws_db := d'\<rparr>))))))"

section \<open>The certificate exchange\<close>

definition failCertIssuance ::
  "nat \<Rightarrow> string \<Rightarrow> ('vid, 'ch, 'cfg) ws_state \<Rightarrow> ('vid, 'ch, 'cfg) ws_state" where
  "failCertIssuance sender why st =
     sendMessage sender (CertFailedOut why) (st\<lparr>ws_issuance := map_remove sender (ws_issuance st)\<rparr>)"

definition handleCertChallenge ::
  "('vid, 'ch, 'cfg) ws_lib \<Rightarrow> nat \<Rightarrow> challenge_payload option \<Rightarrow> ('vid, 'ch, 'cfg) ws_state
     \<Rightarrow> ('vid, 'ch, 'cfg) ws_state" where
  "handleCertChallenge lib sender payload st =
     (case map_of (ws_issuance st) sender of
        None \<Rightarrow> sendError sender ''No matching certificate session'' st
      | Some x \<Rightarrow>
        (case payload of
           None \<Rightarrow> uncaught st
         | Some pl \<Rightarrow>
             if is_sessionId x \<noteq> cp_sessionId pl then sendError sender ''No matching certificate session'' st
             else
               let C = lb_challenger lib;
                   c0 = (case is_challenger x of None \<Rightarrow> ch_new C (lb_serverVid lib) | Some c \<Rightarrow> c)
               in case ch_update C c0 (fromBase64 (cp_data pl)) of
                    None \<Rightarrow> failCertIssuance sender ''Internal error'' st
                  | Some c \<Rightarrow>
                      let x' = x\<lparr>is_challenger := Some c\<rparr>;
                          st1 = st\<lparr>ws_issuance := map_set sender x' (ws_issuance st)\<rparr>;
                          certB64 = toBase64 (ch_bytes C c)
                      in if ch_failed C c then
                           failCertIssuance sender (case ch_error C c of None \<Rightarrow> ''Challenge failed'' | Some e \<Rightarrow> e) st1
                         else if snd (ch_context C c) \<noteq> ''certificate'' then
                           failCertIssuance sender (''Unexpected service -- expected '' @ quoted ''certificate'') st1
                         else if \<not> ch_complete C c then
                           sendMessage sender (CertChallengeOut (is_sessionId x) certB64) st1
                         else
                           add_task (CertTask sender x' certB64)
                             (st1\<lparr>ws_issuance := map_remove sender (ws_issuance st1)\<rparr>)))"

text \<open>The rest of the function, after the exchange is complete.\<close>

definition persistIssued ::
  "ws_env \<Rightarrow> nat \<Rightarrow> 'ch cert_issuance \<Rightarrow> string \<Rightarrow> ('vid, 'ch, 'cfg) ws_state \<Rightarrow> ('vid, 'ch, 'cfg) ws_state" where
  "persistIssued ev sender x certB64 st =
     (case pending_findById (is_registrationId x) (ws_db st) of
        None \<Rightarrow> sendMessage sender (CertFailedOut ''Registration no longer exists'') st
      | Some registration \<Rightarrow>
          (case persistChallengerCertificate (ev_now ev)
                  \<lparr>ch_certId = ev_uuid ev, ch_agentDid = p_did registration,
                   ch_workspaceId = p_targetWorkspaceId registration, ch_capabilities = is_capabilities x,
                   ch_certificateBase64 = certB64, ch_expiresAt = Some (ev_now ev + DEFAULT_GRANT_TTL_MS),
                   ch_issuedBy = p_approvedBy registration\<rparr> (ws_db st) of
             Inl _ \<Rightarrow> failCertIssuance sender ''Internal error'' st
           | Inr (row, d') \<Rightarrow>
               (case pending_markDelivered (ev_now ev) (p_id registration) d' of
                  Inl _ \<Rightarrow> failCertIssuance sender ''Internal error'' (st\<lparr>ws_db := d'\<rparr>)
                | Inr (reg', d'') \<Rightarrow>
                    add_task (PushTask (p_did registration))
                      (sendMessage sender (CertIssuedOut (ev_uuid ev) certB64 (is_capabilities x))
                         (st\<lparr>ws_db := d''\<rparr>)))))"

section \<open>Status checks and telemetry\<close>

definition handleCertStatusRequest ::
  "('vid, 'ch, 'cfg) ws_lib \<Rightarrow> ws_env \<Rightarrow> nat \<Rightarrow> string option \<Rightarrow> ('vid, 'ch, 'cfg) ws_state
     \<Rightarrow> ('vid, 'ch, 'cfg) ws_state" where
  "handleCertStatusRequest lib ev sender payload st =
     (case map_of (ws_bySender st) sender of
        None \<Rightarrow> sendError sender ''Not authenticated'' st
      | Some requesterDid \<Rightarrow>
        (case (if requesterDid = [] then None else map_of (ws_connected st) requesterDid) of
           None \<Rightarrow> sendError sender ''Not authenticated'' st
         | Some requester \<Rightarrow>
           (case payload of
              None \<Rightarrow> uncaught st
            | Some token \<Rightarrow>
              (case verifyCertStatusRequestCert (lb_certs lib) (ca_remoteVid requester) token of
                 None \<Rightarrow> sendError sender ''Invalid or unverifiable cert_status_request'' st
               | Some body \<Rightarrow>
                 (case cert_findByIdWithActor (sr_certId body) (ws_db st) of
                    None \<Rightarrow> sendError sender (''Unknown certificate: '' @ sr_certId body) st
                  | Some (cert, holder) \<Rightarrow>
                      let eff = resolveCertStatus (as_resolvable cert) (as_actor holder) (ev_armed ev)
                                  (ev_registry ev) (ev_now ev)
                      in (case signCertStatusResponseCert (lb_certs lib) (ev_now ev) (lb_serverVid lib)
                                 \<lparr>spi_certId = c_id cert, spi_agentDid = c_agentDid cert,
                                  spi_status = es_status eff, spi_capabilities = es_capabilities eff,
                                  spi_resourceLimits = c_resourceLimits cert, spi_scope = c_scope cert,
                                  spi_expiresAt = c_expiresAt cert\<rparr> of
                            None \<Rightarrow> uncaught st
                          | Some response \<Rightarrow>
                              sendMessage sender (CertStatusResponseOut response)
                                (st\<lparr>ws_checks := ws_checks st @
                                      [\<lparr>si_id = ev_uuid ev, si_certId = c_id cert,
                                        si_requesterDid = requesterDid, si_status = es_status eff,
                                        si_checkedAt = ev_now ev\<rparr>]\<rparr>)))))))"

definition workload_of :: "int \<Rightarrow> string \<Rightarrow> sensor_event \<Rightarrow> workload_row" where
  "workload_of now deviceDid e =
     \<lparr>wl_deviceDid = deviceDid, wl_fingerprint = se_fingerprint e, wl_eventType = se_type e,
      wl_processName = se_processName e, wl_executable = se_executable e, wl_command = se_command e,
      wl_user = se_user e, wl_provider = se_provider e, wl_model = se_model e,
      wl_aiConfidence = se_aiConfidence e, wl_agentConfidence = se_agentConfidence e,
      wl_reasons = (case se_reasons e of None \<Rightarrow> [] | Some r \<Rightarrow> r),
      wl_isMcp = (case se_isMcp e of None \<Rightarrow> False | Some b \<Rightarrow> b),
      wl_mcpServers = (case se_mcpServers e of None \<Rightarrow> [] | Some s \<Rightarrow> s),
      wl_isLocalRuntime = (case se_isLocalRuntime e of None \<Rightarrow> False | Some b \<Rightarrow> b),
      wl_identityEvidence = se_identityEvidence e, wl_lastSeen = now\<rparr>"

fun acceptEvents ::
  "int \<Rightarrow> string \<Rightarrow> sensor_event list \<Rightarrow> ('vid, 'ch, 'cfg) ws_state \<Rightarrow> ('vid, 'ch, 'cfg) ws_state" where
  "acceptEvents now deviceDid [] st = st"
| "acceptEvents now deviceDid (e # es) st =
     (if se_schemaVersion e \<noteq> 1 then acceptEvents now deviceDid es st
      else case workload_upsert (workload_of now deviceDid e) (ws_db st) of
             Inl _ \<Rightarrow> uncaught st
           | Inr d' \<Rightarrow> acceptEvents now deviceDid es (st\<lparr>ws_db := d'\<rparr>))"

definition handleSensorTelemetry ::
  "ws_env \<Rightarrow> nat \<Rightarrow> sensor_event list option option \<Rightarrow> ('vid, 'ch, 'cfg) ws_state
     \<Rightarrow> ('vid, 'ch, 'cfg) ws_state" where
  "handleSensorTelemetry ev sender payload st =
     (case map_of (ws_bySender st) sender of
        None \<Rightarrow> sendError sender ''Not authenticated'' st
      | Some deviceDid \<Rightarrow>
          if deviceDid = [] then sendError sender ''Not authenticated'' st
          else (case payload of
                  None \<Rightarrow> uncaught st
                | Some events \<Rightarrow>
                    let es = (case events of None \<Rightarrow> [] | Some l \<Rightarrow> l);
                        st1 = (case es of
                                 [] \<Rightarrow> st
                               | e # _ \<Rightarrow>
                                   (case actor_mergeKindConfig deviceDid
                                           [(''hostname'', JStr (se_hostname e)), (''os'', JStr (se_os e))] (ws_db st) of
                                      Inl _ \<Rightarrow> st
                                    | Inr d' \<Rightarrow> st\<lparr>ws_db := d'\<rparr>))
                    in acceptEvents (ev_now ev) deviceDid es st1))"

section \<open>Pushes\<close>

definition pushActorConfig ::
  "('vid, 'ch, 'cfg) ws_lib \<Rightarrow> ws_env \<Rightarrow> string \<Rightarrow> ('vid, 'ch, 'cfg) ws_state
     \<Rightarrow> bool \<times> ('vid, 'ch, 'cfg) ws_state" where
  "pushActorConfig lib ev did st =
     (case map_of (ws_connected st) did of
        None \<Rightarrow> (False, st)
      | Some actor \<Rightarrow>
          (case lb_buildConfig lib (ev_now ev) did (ws_db st) of
             None \<Rightarrow> (False, st)
           | Some payload \<Rightarrow> (True, sendMessage (ca_sender actor) (ActorConfigOut payload) st)))"

fun pushActorConfigMany ::
  "('vid, 'ch, 'cfg) ws_lib \<Rightarrow> ws_env \<Rightarrow> string list \<Rightarrow> ('vid, 'ch, 'cfg) ws_state
     \<Rightarrow> nat \<times> ('vid, 'ch, 'cfg) ws_state" where
  "pushActorConfigMany lib ev [] st = (0, st)"
| "pushActorConfigMany lib ev (did # dids) st =
     (if map_has (ws_connected st) did
      then let (sent, st1) = pushActorConfig lib ev did st;
               (n, st2) = pushActorConfigMany lib ev dids st1
           in ((if sent then 1 else 0) + n, st2)
      else pushActorConfigMany lib ev dids st)"

definition pushActorConfigToAll ::
  "('vid, 'ch, 'cfg) ws_lib \<Rightarrow> ws_env \<Rightarrow> ('vid, 'ch, 'cfg) ws_state \<Rightarrow> nat \<times> ('vid, 'ch, 'cfg) ws_state" where
  "pushActorConfigToAll lib ev st = pushActorConfigMany lib ev (map fst (ws_connected st)) st"

definition notifyCapabilitiesChanged ::
  "string \<Rightarrow> changed_reason \<Rightarrow> string list option \<Rightarrow> ('vid, 'ch, 'cfg) ws_state
     \<Rightarrow> bool \<times> ('vid, 'ch, 'cfg) ws_state" where
  "notifyCapabilitiesChanged did why certIds st =
     (case map_of (ws_connected st) did of
        None \<Rightarrow> (False, st)
      | Some actor \<Rightarrow>
          (True, sendMessage (ca_sender actor)
                   (CapabilitiesChangedOut why (case certIds of Some (c # cs) \<Rightarrow> Some (c # cs) | _ \<Rightarrow> None)) st))"

definition notifyCapabilityRegistryChanged ::
  "registry_reason \<Rightarrow> string option \<Rightarrow> ('vid, 'ch, 'cfg) ws_state \<Rightarrow> nat \<times> ('vid, 'ch, 'cfg) ws_state" where
  "notifyCapabilityRegistryChanged why capability st =
     (length (ws_connected st),
      fold (\<lambda>(_, actor) s. sendMessage (ca_sender actor)
              (RegistryChangedOut why (if truthy capability then capability else None)) s)
        (ws_connected st) st)"

text \<open>Push, then close, every connected Actor the switch covers; the rows give the workspaces.\<close>

definition coveredActors ::
  "ws_env \<Rightarrow> ('vid, 'ch, 'cfg) ws_state \<Rightarrow> 'vid connected_actor list" where
  "coveredActors ev st =
     (let rows = (if ks_global (ev_armed ev) \<noteq> None then []
                  else actor_findManyByDid (map (\<lambda>(_, a). ca_did a) (ws_connected st)) (ws_db st));
          workspaceOf = (\<lambda>did. Option.bind (row_find a_did did rows) a_workspaceId)
      in filter (\<lambda>a. suppressionForActor
                       \<lparr>sa_kind = ca_kind a, sa_workspaceId = workspaceOf (ca_did a)\<rparr> (ev_armed ev) \<noteq> None)
           (map snd (ws_connected st)))"

definition notifyKillSwitchArmed ::
  "ws_env \<Rightarrow> kill_switch_row \<Rightarrow> ('vid, 'ch, 'cfg) ws_state \<Rightarrow> nat \<times> ('vid, 'ch, 'cfg) ws_state" where
  "notifyKillSwitchArmed ev row st =
     (let msg = KillSwitchOut (k_scopeType row) (if truthy (k_workspaceId row) then k_workspaceId row else None)
                  (k_reason row) (k_armedAt row);
          targets = coveredActors ev st
      in (length targets,
          fold (\<lambda>a s. closeSender (ca_sender a) (sendMessage (ca_sender a) msg s)) targets st))"

definition deliverCertificate ::
  "certificate_row \<Rightarrow> ('vid, 'ch, 'cfg) ws_state \<Rightarrow> bool \<times> ('vid, 'ch, 'cfg) ws_state" where
  "deliverCertificate cert st =
     (case map_of (ws_connected st) (c_agentDid cert) of
        None \<Rightarrow> (False, st)
      | Some actor \<Rightarrow>
          (True, sendMessage (ca_sender actor) (CertIssuedOut (c_id cert) (c_certificate cert) (c_capabilities cert)) st))"

section \<open>Deferred writes and the delivery sweep\<close>

definition flushDeferredWrites :: "ws_env \<Rightarrow> ('vid, 'ch, 'cfg) ws_state \<Rightarrow> ('vid, 'ch, 'cfg) ws_state" where
  "flushDeferredWrites ev st =
     (let st1 = (if ws_lastSeen st = [] then st
                 else st\<lparr>ws_lastSeen := [],
                         ws_db := snd (actor_touchLastSeenBatch (ev_now ev) (ws_lastSeen st) (ws_db st))\<rparr>)
      in if ws_checks st1 = [] then st1
         else st1\<lparr>ws_checks := [],
                  ws_db := (case check_recordBatch (ws_checks st1) (ws_db st1) of
                              Inl _ \<Rightarrow> ws_db st1 | Inr (n, d') \<Rightarrow> d')\<rparr>)"

definition didsMidCertificateExchange :: "('vid, 'ch, 'cfg) ws_state \<Rightarrow> string list" where
  "didsMidCertificateExchange st =
     List.map_filter
       (\<lambda>(sender, _). case map_of (ws_bySender st) sender of
            Some did \<Rightarrow> if did \<noteq> [] then Some did else map_option aw_did (map_of (ws_awaiting st) sender)
          | None \<Rightarrow> map_option aw_did (map_of (ws_awaiting st) sender))
       (ws_issuance st)"

definition reachableDids :: "('vid, 'ch, 'cfg) ws_state \<Rightarrow> string list" where
  "reachableDids st = remdups (map fst (ws_connected st) @ map (aw_did \<circ> snd) (ws_awaiting st))"

definition sweepUndeliveredGrants :: "('vid, 'ch, 'cfg) ws_state \<Rightarrow> ('vid, 'ch, 'cfg) ws_state" where
  "sweepUndeliveredGrants st =
     (if ws_sweeping st then st
      else let pending = pending_findApprovedUndeliveredForDids (reachableDids st) (ws_db st);
               eligible = filter (\<lambda>reg. p_did reg \<notin> set (didsMidCertificateExchange st)) pending;
               batch = take DELIVERY_SWEEP_BATCH eligible
           in if batch = [] then st
              else st\<lparr>ws_sweeping := True, ws_tasks := ws_tasks st @ map (SweepTask \<circ> p_did) batch\<rparr>)"

text \<open>The \<open>finally\<close> of the sweep, once every delivery of its batch has settled.\<close>

definition is_sweep :: "('vid, 'ch) ws_task \<Rightarrow> bool" where
  "is_sweep t = (case t of SweepTask _ \<Rightarrow> True | _ \<Rightarrow> False)"

definition endSweep :: "('vid, 'ch, 'cfg) ws_state \<Rightarrow> ('vid, 'ch, 'cfg) ws_state" where
  "endSweep st = (if list_ex is_sweep (ws_tasks st) then st else st\<lparr>ws_sweeping := False\<rparr>)"

section \<open>Dispatch\<close>

definition handleMessage ::
  "('vid, 'ch, 'cfg) ws_lib \<Rightarrow> ws_env \<Rightarrow> nat \<Rightarrow> ws_in_msg \<Rightarrow> ('vid, 'ch, 'cfg) ws_state
     \<Rightarrow> ('vid, 'ch, 'cfg) ws_state" where
  "handleMessage lib ev sender msg st =
     (case msg of
        Malformed \<Rightarrow> sendError sender ''Malformed message'' st
      | Register pl \<Rightarrow> handleRegister ev sender pl st
      | AuthChallenge pl \<Rightarrow> handleAuthChallenge lib sender pl st
      | Heartbeat \<Rightarrow> handleHeartbeat ev sender st
      | CertStatusReq pl \<Rightarrow> handleCertStatusRequest lib ev sender pl st
      | CapabilityReq pl \<Rightarrow> handleCapabilityRequest lib ev sender pl st
      | CertChallenge pl \<Rightarrow> handleCertChallenge lib sender pl st
      | SensorTelemetry pl \<Rightarrow> handleSensorTelemetry ev sender pl st
      | OtherIn t \<Rightarrow> sendError sender (''Unhandled message type: '' @ t) st)"

text \<open>A continuation when its awaits have settled.\<close>

definition runTask ::
  "('vid, 'ch, 'cfg) ws_lib \<Rightarrow> ws_env \<Rightarrow> ('vid, 'ch) ws_task \<Rightarrow> ('vid, 'ch, 'cfg) ws_state
     \<Rightarrow> ('vid, 'ch, 'cfg) ws_state" where
  "runTask lib ev t st =
     (case t of
        SeatTask sender p contact certB64 \<Rightarrow> seatActor lib ev sender p contact certB64 st
      | DeliverTask sender did \<Rightarrow>
          (case deliverApprovedCapabilities lib ev did st of
             (None, st') \<Rightarrow> uncaught st'
           | (Some True, st') \<Rightarrow> st'
           | (Some False, st') \<Rightarrow> snd (redeliverExistingCertificate ev sender did None st'))
      | PushTask did \<Rightarrow> snd (pushActorConfig lib ev did st)
      | SweepTask did \<Rightarrow> endSweep (snd (deliverApprovedCapabilities lib ev did st))
      | CertTask sender x certB64 \<Rightarrow> persistIssued ev sender x certB64 st)"

end
