(* ===== verification/WsSystem.thy ===== *)
theory WsSystem
  imports WsHandlers
begin

text \<open>
  The connection server as a transition system: sockets come and go, frames arrive, timers fire,
  continuations run in any order, the server actions call in, and other code writes the database.
  The invariant is attribution: whatever is filed under a DID (a connection, a socket's entry, an
  awaiting approval, an exchange, a queued continuation) belongs to a socket that completed a
  handshake proving that DID.
\<close>

section \<open>Attribution of registration rows\<close>

text \<open>A registration's public key, when it reads back as an identity, is the key of its DID.\<close>

definition attributable :: "('vid, 'ch, 'cfg) ws_lib \<Rightarrow> db \<Rightarrow> bool" where
  "attributable lib d \<longleftrightarrow>
     (\<forall>row key v. row \<in> set (tb_pending d) \<longrightarrow> p_publicKey row = Some key \<longrightarrow>
        lb_fromId lib (fromBase64 key) = Some v \<longrightarrow> lb_did lib v = p_did row)"

text \<open>A later database still has every registration, of the same DID.\<close>

definition pending_kept :: "db \<Rightarrow> db \<Rightarrow> bool" where
  "pending_kept d d' \<longleftrightarrow>
     (\<forall>i r. row_find p_id i (tb_pending d) = Some r \<longrightarrow>
        (\<exists>r'. row_find p_id i (tb_pending d') = Some r' \<and> p_did r' = p_did r))"

lemma pending_kept_refl [simp]: "pending_kept d d"
  by (simp add: pending_kept_def)

lemma pending_kept_trans: "pending_kept d e \<Longrightarrow> pending_kept e f \<Longrightarrow> pending_kept d f"
  unfolding pending_kept_def by metis

lemma pending_kept_same: "tb_pending d' = tb_pending d \<Longrightarrow> pending_kept d d'"
  by (simp add: pending_kept_def)

lemma pending_kept_map:
  assumes "\<And>r. p_id (f r) = p_id r" and "\<And>r. p_did (f r) = p_did r"
    and "tb_pending d' = row_map P f (tb_pending d)"
  shows "pending_kept d d'"
  using assms by (auto simp: pending_kept_def row_find_map)

lemma pending_kept_append:
  "tb_pending d' = tb_pending d @ [row] \<Longrightarrow> pending_kept d d'"
  by (auto simp: pending_kept_def row_find_append)

lemma pending_modify_kept:
  assumes "pending_modify pid f d = Inr (row, d')" and "\<And>r. p_id (f r) = p_id r" and "\<And>r. p_did (f r) = p_did r"
    and "\<And>r. p_publicKey (f r) = p_publicKey r"
  shows "pending_kept d d'" and "attributable lib d \<Longrightarrow> attributable lib d'"
proof -
  from assms(1) have d': "tb_pending d' = row_map (\<lambda>r. p_id r = pid) f (tb_pending d)"
    by (auto simp: pending_modify_def row_update_Inr)
  from pending_kept_map [OF assms(2,3) d'] show "pending_kept d d'" .
  from assms(3,4) d' show "attributable lib d \<Longrightarrow> attributable lib d'"
    by (fastforce simp: attributable_def set_row_map split: if_splits)
qed

lemmas pending_mod_defs =
  pending_updateRequestedCapabilities_def pending_approve_def pending_deny_def pending_markDelivered_def

lemma pending_edits_kept:
  "pending_updateRequestedCapabilities pid caps d = Inr (row, d') \<Longrightarrow> pending_kept d d'"
  "pending_approve pid caps who target d = Inr (row, d') \<Longrightarrow> pending_kept d d'"
  "pending_deny pid d = Inr (row, d') \<Longrightarrow> pending_kept d d'"
  "pending_markDelivered now pid d = Inr (row, d') \<Longrightarrow> pending_kept d d'"
  unfolding pending_mod_defs by (erule pending_modify_kept; simp)+

lemma pending_edits_attributable:
  "pending_updateRequestedCapabilities pid caps d = Inr (row, d') \<Longrightarrow> attributable lib d \<Longrightarrow> attributable lib d'"
  "pending_approve pid caps who target d = Inr (row, d') \<Longrightarrow> attributable lib d \<Longrightarrow> attributable lib d'"
  "pending_deny pid d = Inr (row, d') \<Longrightarrow> attributable lib d \<Longrightarrow> attributable lib d'"
  "pending_markDelivered now pid d = Inr (row, d') \<Longrightarrow> attributable lib d \<Longrightarrow> attributable lib d'"
  unfolding pending_mod_defs by (erule pending_modify_kept; simp)+

lemma pending_create_kept:
  assumes "pending_create now pin d = Inr (row, d')"
  shows "pending_kept d d'" and "tb_pending d' = tb_pending d @ [row]" and "p_did row = pi_did pin"
    and "p_publicKey row = pi_publicKey pin" and "p_id row = pi_id pin" and "p_kind row = pi_kind pin"
    and "row_find p_id (pi_id pin) (tb_pending d') = Some row"
  using assms
  by (auto simp: pending_create_def Let_def row_insert_Inr row_find_append intro: pending_kept_append)

lemma attributable_same: "tb_pending d' = tb_pending d \<Longrightarrow> attributable lib d' = attributable lib d"
  by (simp add: attributable_def)

text \<open>Every DAO write keeps the registrations.\<close>

lemma dao_write_kept: "dao_write d d' \<Longrightarrow> pending_kept d d'"
proof (induction rule: dao_write.induct)
  case (Wpending_create now pin d p d')
  then show ?case by (rule pending_create_kept)
next
  case (Wworkspace_delete wid d d')
  then show ?case
    by (intro pending_kept_map [where f = "\<lambda>r. r\<lparr>p_targetWorkspaceId := None\<rparr>"
            and P = "\<lambda>r. p_targetWorkspaceId r = Some wid"])
       (auto simp: workspace_delete_def row_delete_Inr)
next
  case (Wworkspace_create now wid nm sl desc col d w d')
  then show ?case
    by (intro pending_kept_same) (auto simp: workspace_create_def workspace_insert_def)
next
  case (Wworkspace_default now d w d')
  then show ?case
    by (intro pending_kept_same)
       (auto simp: workspace_ensureDefault_def workspace_insert_def split: option.splits)
next
  case (Wactor_upsert now au d a d')
  then show ?case
    by (intro pending_kept_same) (auto simp: actor_upsert_def Let_def split: option.splits)
next
  case (Wcheck_batch sis d n d')
  then show ?case
    by (intro pending_kept_same) (auto simp: check_recordBatch_def Let_def split: if_splits)
next
  case (Wks_arm now kid st ws why ab d k d')
  then show ?case
    by (intro pending_kept_same) (auto simp: ks_arm_def Let_def split: option.splits)
next
  case (Wregistry_create rid nm l de g cb d r d')
  then show ?case
    by (intro pending_kept_same) (auto simp: registry_create_def Let_def split: sum.splits if_splits)
next
  case (Wworkload wl d d')
  then show ?case
    by (intro pending_kept_same) (auto simp: workload_upsert_def Let_def split: if_splits)
next
  case (Wpending_update pid caps d p d')
  then show ?case by (rule pending_edits_kept)
next
  case (Wpending_approve pid caps who target d p d')
  then show ?case by (rule pending_edits_kept)
next
  case (Wpending_deny pid d p d')
  then show ?case by (rule pending_edits_kept)
next
  case (Wpending_delivered now pid d p d')
  then show ?case by (rule pending_edits_kept)
qed (auto intro!: pending_kept_same
      simp: cert_create_def cert_revoke_def check_record_def actor_update_def actor_touchLastSeen_def
        actor_touchLastSeenBatch_def actor_setDeclaredCapabilities_def actor_mergeKindConfig_def
        actor_delete_def invitation_create_def invitation_deletePendingForSsoIdentity_def
        invitation_markRedeemed_def workspace_update_def ks_disarm_def registry_update_def
        registry_delete_def audit_create_def setting_set_def Let_def split: option.splits)

text \<open>A run of DAO writes that files no registration under a key that is not its own.\<close>

definition proper_writes :: "('vid, 'ch, 'cfg) ws_lib \<Rightarrow> db \<Rightarrow> db \<Rightarrow> bool" where
  "proper_writes lib d d' \<longleftrightarrow> dao_write\<^sup>*\<^sup>* d d' \<and> (attributable lib d \<longrightarrow> attributable lib d')"

lemma proper_refl [simp]: "proper_writes lib d d"
  by (simp add: proper_writes_def)

lemma proper_trans: "proper_writes lib d e \<Longrightarrow> proper_writes lib e f \<Longrightarrow> proper_writes lib d f"
  by (auto simp: proper_writes_def)

lemma proper_step: "dao_write d e \<Longrightarrow> (attributable lib d \<Longrightarrow> attributable lib e) \<Longrightarrow> proper_writes lib d e"
  by (auto simp: proper_writes_def)

lemma proper_same: "dao_write d e \<Longrightarrow> tb_pending e = tb_pending d \<Longrightarrow> proper_writes lib d e"
  by (simp add: proper_step attributable_same)

lemma proper_writes_wf:
  assumes "proper_writes lib d d'" and "db_wf d" shows "db_wf d'"
proof -
  have "dao_write\<^sup>*\<^sup>* d d' \<Longrightarrow> db_wf d \<Longrightarrow> db_wf d'"
    by (induction rule: rtranclp_induct) (auto intro: dao_write_wf)
  then show ?thesis using assms by (simp add: proper_writes_def)
qed

lemma proper_writes_kept:
  assumes "proper_writes lib d d'" shows "pending_kept d d'"
proof -
  have "dao_write\<^sup>*\<^sup>* d d' \<Longrightarrow> pending_kept d d'"
    by (induction rule: rtranclp_induct) (auto intro: dao_write_kept pending_kept_trans)
  then show ?thesis using assms by (simp add: proper_writes_def)
qed

lemma proper_pending_edits:
  "pending_updateRequestedCapabilities pid caps d = Inr (row, d') \<Longrightarrow> proper_writes lib d d'"
  "pending_approve pid caps who target d = Inr (row, d') \<Longrightarrow> proper_writes lib d d'"
  "pending_deny pid d = Inr (row, d') \<Longrightarrow> proper_writes lib d d'"
  "pending_markDelivered now pid d = Inr (row, d') \<Longrightarrow> proper_writes lib d d'"
  by (rule proper_step; blast intro: dao_write.intros pending_edits_attributable)+

lemma proper_pending_create:
  assumes "pending_create now pin d = Inr (row, d')"
    and "\<And>key v. pi_publicKey pin = Some key \<Longrightarrow> lb_fromId lib (fromBase64 key) = Some v \<Longrightarrow> lb_did lib v = pi_did pin"
  shows "proper_writes lib d d'"
  using assms pending_create_kept [OF assms(1)]
  by (intro proper_step Wpending_create) (auto simp: attributable_def)

lemma proper_recordEvent [simp]: "proper_writes lib d (recordEvent now et pl pb tt ti d)"
  unfolding recordEvent_def by (rule proper_same [OF Waudit [OF refl]]) (simp add: audit_create_def)

lemma proper_others:
  "cert_create now ci d = Inr (c, d') \<Longrightarrow> proper_writes lib d d'"
  "actor_setDeclaredCapabilities did decl d = Inr d' \<Longrightarrow> proper_writes lib d d'"
  "actor_mergeKindConfig did patch d = Inr d' \<Longrightarrow> proper_writes lib d d'"
  "workload_upsert wl d = Inr d' \<Longrightarrow> proper_writes lib d d'"
  "check_recordBatch sis d = Inr (n, d') \<Longrightarrow> proper_writes lib d d'"
  "proper_writes lib d (snd (actor_touchLastSeenBatch now dids d))"
proof -
  show "cert_create now ci d = Inr (c, d') \<Longrightarrow> proper_writes lib d d'"
    by (rule proper_same, erule Wcert_create) (auto simp: cert_create_def Let_def)
  show "actor_setDeclaredCapabilities did decl d = Inr d' \<Longrightarrow> proper_writes lib d d'"
    by (rule proper_same, erule Wactor_declare) (auto simp: actor_setDeclaredCapabilities_def)
  show "actor_mergeKindConfig did patch d = Inr d' \<Longrightarrow> proper_writes lib d d'"
    by (rule proper_same, erule Wactor_merge) (auto simp: actor_mergeKindConfig_def Let_def)
  show "workload_upsert wl d = Inr d' \<Longrightarrow> proper_writes lib d d'"
    by (rule proper_same, erule Wworkload) (auto simp: workload_upsert_def Let_def split: if_splits)
  show "check_recordBatch sis d = Inr (n, d') \<Longrightarrow> proper_writes lib d d'"
    by (rule proper_same, erule Wcheck_batch) (auto simp: check_recordBatch_def Let_def split: if_splits)
  show "proper_writes lib d (snd (actor_touchLastSeenBatch now dids d))"
    by (rule proper_same [OF Wactor_touchBatch [OF surjective_pairing]]) (simp add: actor_touchLastSeenBatch_def)
qed

end
