(* ===== verification/Attribution.thy ===== *)
theory Attribution
  imports WsSystem
begin

text \<open>
  The invariant of the connection server and its preservation by every handler: what is filed under
  a DID was filed by a socket that proved that DID.
\<close>

section \<open>The invariant\<close>

text \<open>\<open>P\<close> is the history of proven identities, \<open>D\<close> the database.\<close>

type_synonym proofs = "(nat \<times> string) list"

definition owns :: "proofs \<Rightarrow> nat \<Rightarrow> string \<Rightarrow> bool" where
  "owns P sender did \<longleftrightarrow> (sender, did) \<in> set P"

text \<open>A connection: filed under its own DID, on a socket that proved it, with that DID's identity.\<close>

definition conn_ok ::
  "('vid, 'ch, 'cfg) ws_lib \<Rightarrow> proofs \<Rightarrow> string \<Rightarrow> 'vid connected_actor \<Rightarrow> bool" where
  "conn_ok lib P did a \<longleftrightarrow>
     ca_did a = did \<and> owns P (ca_sender a) did \<and> lb_did lib (ca_remoteVid a) = did"

text \<open>An exchange: its registration exists and is of a DID the socket proved.\<close>

definition issues_ok :: "proofs \<Rightarrow> db \<Rightarrow> nat \<Rightarrow> string \<Rightarrow> bool" where
  "issues_ok P D sender regId \<longleftrightarrow>
     (\<exists>row. row_find p_id regId (tb_pending D) = Some row \<and> owns P sender (p_did row))"

definition awaits_ok :: "proofs \<Rightarrow> db \<Rightarrow> nat \<Rightarrow> awaiting_approval \<Rightarrow> bool" where
  "awaits_ok P D sender w \<longleftrightarrow>
     owns P sender (aw_did w)
     \<and> (\<exists>row. row_find p_id (aw_registrationId w) (tb_pending D) = Some row \<and> p_did row = aw_did w)"

fun task_ok ::
  "('vid, 'ch, 'cfg) ws_lib \<Rightarrow> proofs \<Rightarrow> db \<Rightarrow> ('vid, 'ch) ws_task \<Rightarrow> bool" where
  "task_ok lib P D (SeatTask sender p contact certB64) \<longleftrightarrow> owns P sender (lb_did lib contact)"
| "task_ok lib P D (DeliverTask sender did) \<longleftrightarrow> owns P sender did"
| "task_ok lib P D (PushTask did) \<longleftrightarrow> True"
| "task_ok lib P D (SweepTask did) \<longleftrightarrow> True"
| "task_ok lib P D (CertTask sender x certB64) \<longleftrightarrow> issues_ok P D sender (is_registrationId x)"

definition ws_ok :: "('vid, 'ch, 'cfg) ws_lib \<Rightarrow> ('vid, 'ch, 'cfg) ws_state \<Rightarrow> bool" where
  "ws_ok lib st \<longleftrightarrow>
     db_wf (ws_db st) \<and> attributable lib (ws_db st)
     \<and> (\<forall>x \<in> set (ws_bySender st). owns (ws_proven st) (fst x) (snd x))
     \<and> (\<forall>x \<in> set (ws_connected st). conn_ok lib (ws_proven st) (fst x) (snd x))
     \<and> (\<forall>x \<in> set (ws_awaiting st). awaits_ok (ws_proven st) (ws_db st) (fst x) (snd x))
     \<and> (\<forall>x \<in> set (ws_issuance st). issues_ok (ws_proven st) (ws_db st) (fst x) (is_registrationId (snd x)))
     \<and> (\<forall>t \<in> set (ws_tasks st). task_ok lib (ws_proven st) (ws_db st) t)"

section \<open>Frame rules\<close>

text \<open>The parts of the state the invariant does not read.\<close>

lemma ok_quiet [simp]:
  "ws_ok lib (st\<lparr>ws_pending := a\<rparr>) = ws_ok lib st" "ws_ok lib (st\<lparr>ws_lastSeen := b\<rparr>) = ws_ok lib st"
  "ws_ok lib (st\<lparr>ws_checks := c\<rparr>) = ws_ok lib st" "ws_ok lib (st\<lparr>ws_sweeping := e\<rparr>) = ws_ok lib st"
  "ws_ok lib (st\<lparr>ws_timers := f\<rparr>) = ws_ok lib st" "ws_ok lib (st\<lparr>ws_open := g\<rparr>) = ws_ok lib st"
  "ws_ok lib (st\<lparr>ws_live := h\<rparr>) = ws_ok lib st" "ws_ok lib (st\<lparr>ws_uncaught := i\<rparr>) = ws_ok lib st"
  "ws_ok lib (st\<lparr>ws_out := j\<rparr>) = ws_ok lib st" "ws_ok lib (st\<lparr>ws_seen := k\<rparr>) = ws_ok lib st"
  by (simp_all add: ws_ok_def)

lemma ok_send [simp]:
  "ws_ok lib (sendMessage s m st) = ws_ok lib st" "ws_ok lib (sendError s why st) = ws_ok lib st"
  "ws_ok lib (closeSender s st) = ws_ok lib st" "ws_ok lib (uncaught st) = ws_ok lib st"
  "ws_ok lib (clearTimer n st) = ws_ok lib st" "ws_ok lib (bufferLastSeen d st) = ws_ok lib st"
  by (simp_all add: sendMessage_def sendError_def closeSender_def uncaught_def clearTimer_def bufferLastSeen_def)

lemma send_fields [simp]:
  "ws_db (sendMessage s m st) = ws_db st" "ws_proven (sendMessage s m st) = ws_proven st"
  "ws_connected (sendMessage s m st) = ws_connected st" "ws_bySender (sendMessage s m st) = ws_bySender st"
  "ws_awaiting (sendMessage s m st) = ws_awaiting st" "ws_issuance (sendMessage s m st) = ws_issuance st"
  "ws_tasks (sendMessage s m st) = ws_tasks st" "ws_pending (sendMessage s m st) = ws_pending st"
  "ws_open (sendMessage s m st) = ws_open st" "ws_timers (sendMessage s m st) = ws_timers st"
  "ws_uncaught (sendMessage s m st) = ws_uncaught st" "ws_live (sendMessage s m st) = ws_live st"
  by (simp_all add: sendMessage_def)

lemma other_fields [simp]:
  "ws_db (sendError s e st) = ws_db st" "ws_proven (sendError s e st) = ws_proven st"
  "ws_db (closeSender s st) = ws_db st" "ws_proven (closeSender s st) = ws_proven st"
  "ws_connected (closeSender s st) = ws_connected st" "ws_bySender (closeSender s st) = ws_bySender st"
  "ws_awaiting (closeSender s st) = ws_awaiting st" "ws_issuance (closeSender s st) = ws_issuance st"
  "ws_tasks (closeSender s st) = ws_tasks st" "ws_pending (closeSender s st) = ws_pending st"
  "ws_db (uncaught st) = ws_db st" "ws_proven (uncaught st) = ws_proven st"
  "ws_connected (uncaught st) = ws_connected st" "ws_bySender (uncaught st) = ws_bySender st"
  "ws_tasks (uncaught st) = ws_tasks st"
  "ws_db (clearTimer n st) = ws_db st" "ws_proven (clearTimer n st) = ws_proven st"
  "ws_connected (clearTimer n st) = ws_connected st" "ws_bySender (clearTimer n st) = ws_bySender st"
  "ws_issuance (clearTimer n st) = ws_issuance st" "ws_tasks (clearTimer n st) = ws_tasks st"
  "ws_pending (clearTimer n st) = ws_pending st" "ws_awaiting (clearTimer n st) = ws_awaiting st"
  "ws_db (bufferLastSeen d st) = ws_db st" "ws_proven (bufferLastSeen d st) = ws_proven st"
  "ws_connected (bufferLastSeen d st) = ws_connected st" "ws_bySender (bufferLastSeen d st) = ws_bySender st"
  "ws_db (add_task t st) = ws_db st" "ws_proven (add_task t st) = ws_proven st"
  "ws_connected (add_task t st) = ws_connected st" "ws_bySender (add_task t st) = ws_bySender st"
  by (simp_all add: sendError_def closeSender_def uncaught_def clearTimer_def bufferLastSeen_def add_task_def)

lemma set_map_set: "x \<in> set (map_set k v m) \<Longrightarrow> x = (k, v) \<or> x \<in> set m"
  by (induction m) (auto split: if_splits)

lemma set_map_remove: "x \<in> set (map_remove k m) \<Longrightarrow> x \<in> set m"
  by (induction m) (auto split: if_splits)

lemma ok_fields [keeps_intros]:
  "ws_ok lib st \<Longrightarrow> (\<And>d a. (d, a) \<in> set m \<Longrightarrow> (d, a) \<notin> set (ws_connected st) \<Longrightarrow> conn_ok lib (ws_proven st) d a)
     \<Longrightarrow> ws_ok lib (st\<lparr>ws_connected := m\<rparr>)"
  "ws_ok lib st \<Longrightarrow> (\<And>s d. (s, d) \<in> set b \<Longrightarrow> (s, d) \<notin> set (ws_bySender st) \<Longrightarrow> owns (ws_proven st) s d)
     \<Longrightarrow> ws_ok lib (st\<lparr>ws_bySender := b\<rparr>)"
  "ws_ok lib st \<Longrightarrow> (\<And>s w. (s, w) \<in> set u \<Longrightarrow> (s, w) \<notin> set (ws_awaiting st)
        \<Longrightarrow> awaits_ok (ws_proven st) (ws_db st) s w)
     \<Longrightarrow> ws_ok lib (st\<lparr>ws_awaiting := u\<rparr>)"
  "ws_ok lib st \<Longrightarrow> (\<And>s x. (s, x) \<in> set i \<Longrightarrow> (s, x) \<notin> set (ws_issuance st)
        \<Longrightarrow> issues_ok (ws_proven st) (ws_db st) s (is_registrationId x))
     \<Longrightarrow> ws_ok lib (st\<lparr>ws_issuance := i\<rparr>)"
  "ws_ok lib st \<Longrightarrow> (\<And>t. t \<in> set ts \<Longrightarrow> t \<notin> set (ws_tasks st) \<Longrightarrow> task_ok lib (ws_proven st) (ws_db st) t)
     \<Longrightarrow> ws_ok lib (st\<lparr>ws_tasks := ts\<rparr>)"
  by (auto simp: ws_ok_def)

lemma ok_add_task [keeps_intros]:
  "ws_ok lib st \<Longrightarrow> task_ok lib (ws_proven st) (ws_db st) t \<Longrightarrow> ws_ok lib (add_task t st)"
  by (auto simp: ws_ok_def add_task_def)

lemma owns_more: "owns P s d \<Longrightarrow> owns (P @ xs) s d"
  by (simp add: owns_def)

lemma task_ok_more: "task_ok lib P D t \<Longrightarrow> task_ok lib (P @ xs) D t"
  by (cases t) (auto simp: issues_ok_def intro: owns_more)

lemma ok_proven [keeps_intros]:
  assumes "ws_ok lib st" and "ws_proven st = P" shows "ws_ok lib (st\<lparr>ws_proven := P @ xs\<rparr>)"
  using assms by (auto simp: ws_ok_def conn_ok_def awaits_ok_def intro: owns_more task_ok_more)
     (metis issues_ok_def owns_more snd_conv fst_conv)

lemma awaits_ok_kept: "awaits_ok P D s w \<Longrightarrow> pending_kept D D' \<Longrightarrow> awaits_ok P D' s w"
  unfolding awaits_ok_def pending_kept_def by metis

lemma issues_ok_kept: "issues_ok P D s i \<Longrightarrow> pending_kept D D' \<Longrightarrow> issues_ok P D' s i"
  unfolding issues_ok_def pending_kept_def by metis

lemma task_ok_kept: "task_ok lib P D t \<Longrightarrow> pending_kept D D' \<Longrightarrow> task_ok lib P D' t"
  by (cases t) (auto intro: issues_ok_kept)

lemma ok_db [keeps_intros]:
  assumes "ws_ok lib st" and "proper_writes lib (ws_db st) d'"
  shows "ws_ok lib (st\<lparr>ws_db := d'\<rparr>)"
  using assms proper_writes_wf [OF assms(2)] proper_writes_kept [OF assms(2)]
  by (auto simp: ws_ok_def proper_writes_def intro: awaits_ok_kept issues_ok_kept task_ok_kept)

text \<open>What the invariant says of a lookup.\<close>

lemma ok_lookups:
  assumes "ws_ok lib st"
  shows "map_of (ws_bySender st) s = Some d \<Longrightarrow> owns (ws_proven st) s d"
    and "map_of (ws_connected st) d = Some a \<Longrightarrow> conn_ok lib (ws_proven st) d a"
    and "map_of (ws_awaiting st) s = Some w \<Longrightarrow> awaits_ok (ws_proven st) (ws_db st) s w"
    and "map_of (ws_issuance st) s = Some x \<Longrightarrow> issues_ok (ws_proven st) (ws_db st) s (is_registrationId x)"
    and "t \<in> set (ws_tasks st) \<Longrightarrow> task_ok lib (ws_proven st) (ws_db st) t"
    and "(s, w) \<in> set (ws_awaiting st) \<Longrightarrow> awaits_ok (ws_proven st) (ws_db st) s w"
  using assms by (force simp: ws_ok_def dest: map_of_SomeD)+

section \<open>Preservation by the handlers\<close>

lemma handleClose_ok: "ws_ok lib st \<Longrightarrow> ws_ok lib (handleClose s st)"
  by (auto simp: ws_ok_def handleClose_def Let_def split: option.splits
      dest!: set_map_remove [of _ _ "ws_bySender st"] set_map_remove)

lemma failHandshake_ok [simp]: "ws_ok lib (failHandshake s p why st) = ws_ok lib st"
  by (simp add: failHandshake_def Let_def)

lemma handleRegister_ok [simp]: "ws_ok lib (handleRegister ev s pl st) = ws_ok lib st"
  by (simp add: handleRegister_def Let_def split: option.splits)

lemma fireTimer_ok [simp]: "ws_ok lib (fireTimer h st) = ws_ok lib st"
  by (simp add: fireTimer_def Let_def)

lemma handleAuthChallenge_ok:
  assumes "ws_ok lib st" shows "ws_ok lib (handleAuthChallenge lib s pl st)"
  using assms
  by (auto simp: handleAuthChallenge_def Let_def owns_def split: option.splits intro!: ok_add_task ok_proven)

lemma seatExisting_ok:
  assumes "ws_ok lib st" and "owns (ws_proven st) s (lb_did lib c)"
  shows "ws_ok lib (seatExisting ev s p c (lb_did lib c) b row st)"
  using assms
  by (auto simp: seatExisting_def Let_def conn_ok_def split: option.splits sum.splits
      intro!: keeps_intros proper_others(2) dest!: set_map_set)

lemma handleHeartbeat_ok: "ws_ok lib st \<Longrightarrow> ws_ok lib (handleHeartbeat ev s st)"
  using ok_lookups(2) [of lib st]
  by (auto simp: handleHeartbeat_def conn_ok_def split: option.splits intro!: keeps_intros dest!: set_map_set)

lemma pending_row_found:
  "db_wf d \<Longrightarrow> row \<in> set (tb_pending d) \<Longrightarrow> row_find p_id (p_id row) (tb_pending d) = Some row"
  by (rule row_find_unique) (auto simp: wf_defs)

lemma pending_finds:
  "pending_findPendingByDid did d = Some row \<Longrightarrow> row \<in> set (tb_pending d) \<and> p_did row = did"
  "pending_findApprovedUndelivered did d = Some row
     \<Longrightarrow> row \<in> set (tb_pending d) \<and> p_did row = did \<and> p_status row = Approved"
proof -
  show "pending_findPendingByDid did d = Some row \<Longrightarrow> row \<in> set (tb_pending d) \<and> p_did row = did"
    by (auto simp: pending_findPendingByDid_def dest!: find_Some_D)
  have "row \<in> set (sort_key p_createdAt (filter (\<lambda>r. p_did r = did \<and> awaits_delivery r) (tb_pending d)))"
    if "pending_findApprovedUndelivered did d = Some row"
    using that by (auto simp: pending_findApprovedUndelivered_def simp del: set_sort split: list.splits)
  then show "pending_findApprovedUndelivered did d = Some row
      \<Longrightarrow> row \<in> set (tb_pending d) \<and> p_did row = did \<and> p_status row = Approved"
    by (auto simp: awaits_delivery_def)
qed

lemma ws_ok_wf: "ws_ok lib st \<Longrightarrow> db_wf (ws_db st)"
  by (simp add: ws_ok_def)

text \<open>An identity's own key reads back as that identity.\<close>

lemma own_key:
  "lawful_ids lib \<Longrightarrow> lb_fromId lib (fromBase64 (toBase64 (lb_idBytes lib c))) = Some v \<Longrightarrow> v = c"
  by (simp add: lawful_ids_def fromBase64_toBase64)

lemma ok_await_row:
  assumes "ws_ok lib st" and "owns (ws_proven st) s did"
    and "row_find p_id regId (tb_pending (ws_db st)) = Some row" and "p_did row = did"
  shows "ws_ok lib (sendMessage s m (st\<lparr>ws_awaiting := map_set s \<lparr>aw_did = did, aw_registrationId = regId\<rparr> (ws_awaiting st)\<rparr>))"
  using assms by (auto simp: awaits_ok_def intro!: keeps_intros dest!: set_map_set)

lemma enrolUnknown_ok:
  assumes ok: "ws_ok lib st" and own: "owns (ws_proven st) s (lb_did lib c)" and ids: "lawful_ids lib"
  shows "ws_ok lib (enrolUnknown lib ev s p c (lb_did lib c) st)"
proof (cases "pending_findPendingByDid (lb_did lib c) (ws_db st)")
  case (Some row)
  then have "row_find p_id (p_id row) (tb_pending (ws_db st)) = Some row" and "p_did row = lb_did lib c"
    using pending_finds(1) [OF Some] pending_row_found [OF ws_ok_wf [OF ok]] by auto
  with Some show ?thesis using ok_await_row [OF ok own] by (simp add: enrolUnknown_def Let_def)
next
  case None
  let ?pin = "\<lparr>pi_id = ev_uuid ev, pi_did = lb_did lib c, pi_publicKey = Some (toBase64 (lb_idBytes lib c)),
               pi_sessionId = pn_sessionId p, pi_name = pn_name p, pi_kind = pn_kind p, pi_requestedCapabilities = []\<rparr>"
  show ?thesis
  proof (cases "pending_create (ev_now ev) ?pin (ws_db st)")
    case (Inl e)
    with None ok show ?thesis by (simp add: enrolUnknown_def Let_def)
  next
    case (Inr y)
    obtain row d' where y: "y = (row, d')" by (cases y)
    note made = pending_create_kept [OF Inr [unfolded y]]
    let ?d = "recordEvent (ev_now ev) ''actor.registration_requested''
                [(''did'', JStr (lb_did lib c)), (''name'', JStr (pn_name p)), (''kind'', JStr (pn_kind p)),
                 (''registrationId'', JStr (ev_uuid ev))] None (Some ''actor'') (Some (lb_did lib c)) d'"
    have "proper_writes lib (ws_db st) d'"
      by (rule proper_pending_create [OF Inr [unfolded y]]) (auto dest: own_key [OF ids])
    then have "ws_ok lib (st\<lparr>ws_db := ?d\<rparr>)"
      using ok by (intro ok_db) (auto intro: proper_trans)
    moreover have "row_find p_id (ev_uuid ev) (tb_pending ?d) = Some row" "p_did row = lb_did lib c"
      using made by (simp_all add: recordEvent_def audit_create_def)
    ultimately show ?thesis
      using None Inr y own ok_await_row [of lib "st\<lparr>ws_db := ?d\<rparr>"] by (simp add: enrolUnknown_def Let_def)
  qed
qed

lemma seatActor_ok:
  assumes "ws_ok lib st" and "owns (ws_proven st) s (lb_did lib c)" and "lawful_ids lib"
  shows "ws_ok lib (seatActor lib ev s p c b st)"
  using assms by (auto simp: seatActor_def Let_def seatExisting_ok enrolUnknown_ok split: option.splits)

lemma startCertificateIssuance_ok:
  assumes "ws_ok lib st" and "issues_ok (ws_proven st) (ws_db st) s regId"
  shows "ws_ok lib (startCertificateIssuance ev s regId caps st)"
  using assms by (auto simp: startCertificateIssuance_def intro!: keeps_intros dest!: set_map_set)

lemma grantOrMark_ok:
  assumes "ws_ok lib st" and "issues_ok (ws_proven st) (ws_db st) s regId"
  shows "ws_ok lib (snd (grantOrMark ev s regId caps st))"
  using assms
  by (auto simp: grantOrMark_def startCertificateIssuance_ok split: sum.splits
      intro!: keeps_intros intro: proper_pending_edits)

lemma deliverApproved_ok:
  assumes ok: "ws_ok lib st"
  shows "ws_ok lib (snd (deliverApprovedCapabilities lib ev did st))"
proof (cases "pending_findApprovedUndelivered did (ws_db st)")
  case None
  with ok show ?thesis by (simp add: deliverApprovedCapabilities_def)
next
  case (Some row)
  let ?caps = "filterAgainstRegistry (p_assignedCapabilities row) (ev_registry ev)"
  from pending_finds(2) [OF Some] have mem: "row \<in> set (tb_pending (ws_db st))" and did: "p_did row = did" by auto
  note found = pending_row_found [OF ws_ok_wf [OF ok] mem]
  have issue: "issues_ok (ws_proven st) (ws_db st) s (p_id row)" if "owns (ws_proven st) s did" for s
    using that found did by (simp add: issues_ok_def)
  show ?thesis
  proof (cases "find (\<lambda>(s, w). aw_did w = did) (ws_awaiting st)")
    case None
    with Some issue show ?thesis
      using ok ok_lookups(2) [OF ok]
      by (auto simp: deliverApprovedCapabilities_def Let_def conn_ok_def split: option.splits intro!: grantOrMark_ok)
  next
    case (Some z)
    obtain s w where z: "z = (s, w)" by (cases z)
    from find_Some_D [OF Some] z have "(s, w) \<in> set (ws_awaiting st)" and "aw_did w = did" by auto
    with ok_lookups(6) [OF ok] have own: "owns (ws_proven st) s did" by (auto simp: awaits_ok_def)
    let ?st = "st\<lparr>ws_awaiting := map_remove s (ws_awaiting st)\<rparr>"
    have ok1: "ws_ok lib ?st" using ok by (auto intro!: keeps_intros dest!: set_map_remove)
    have go: "ws_ok lib (snd (grantOrMark ev s (p_id row) ?caps (sendMessage s m st')))"
      if "ws_ok lib st'" "ws_proven st' = ws_proven st" "ws_db st' = ws_db st" for m st'
      using that issue [OF own] by (intro grantOrMark_ok) auto
    have seat: "ws_ok lib (?st\<lparr>ws_connected := map_set did a (ws_connected st), ws_bySender := map_set s did (ws_bySender st)\<rparr>)"
      if "conn_ok lib (ws_proven st) did a" for a
      using ok1 that own by (auto intro!: keeps_intros dest!: set_map_set)
    have key: "lb_did lib v = did" if "p_publicKey row = Some k" "lb_fromId lib (fromBase64 k) = Some v" for k v
      using ok mem did that by (auto simp: ws_ok_def attributable_def)
    show ?thesis
      using Some z \<open>pending_findApprovedUndelivered did (ws_db st) = Some row\<close> ok1 own
      by (auto simp: deliverApprovedCapabilities_def Let_def conn_ok_def key split: option.splits intro!: go seat)
  qed
qed

lemma redeliver_ok [simp]: "ws_ok lib (snd (redeliverExistingCertificate ev s did req st)) = ws_ok lib st"
  by (simp add: redeliverExistingCertificate_def split: option.splits prod.splits)

lemma redeliver_fields [simp]:
  "ws_db (snd (redeliverExistingCertificate ev s did req st)) = ws_db st"
  "ws_connected (snd (redeliverExistingCertificate ev s did req st)) = ws_connected st"
  by (simp_all add: redeliverExistingCertificate_def split: option.splits prod.splits)

lemma handleCapabilityRequest_ok:
  assumes ok: "ws_ok lib st" and ids: "lawful_ids lib"
  shows "ws_ok lib (handleCapabilityRequest lib ev s pl st)"
proof -
  have edit: "ws_ok lib (st\<lparr>ws_db := d'\<rparr>)"
    if "pending_updateRequestedCapabilities i caps (ws_db st) = Inr (row, d')" for i caps row d'
    using ok that by (intro ok_db proper_pending_edits)
  have create: "ws_ok lib (st'\<lparr>ws_db := d'\<rparr>)"
    if r: "redeliverExistingCertificate ev s did req st = (b, st')"
      and c: "pending_create now \<lparr>pi_id = i, pi_did = did,
          pi_publicKey = map_option (\<lambda>a. toBase64 (lb_idBytes lib (ca_remoteVid a))) (map_of (ws_connected st) did),
          pi_sessionId = sid, pi_name = n, pi_kind = k, pi_requestedCapabilities = caps\<rparr> (ws_db st') = Inr (row, d')"
    for did req b st' now i sid n k caps row d'
  proof -
    have st': "ws_ok lib st'" "ws_db st' = ws_db st"
      using ok redeliver_ok [of lib ev s did req st] redeliver_fields(1) [of ev s did req st] r by simp_all
    have "proper_writes lib (ws_db st') d'"
      using ok_lookups(2) [OF ok, of did]
      by (intro proper_pending_create [OF c]) (auto dest: own_key [OF ids] simp: conn_ok_def)
    with st' show ?thesis by (intro ok_db)
  qed
  have r_ok: "ws_ok lib st'" if "redeliverExistingCertificate ev s did req st = (b, st')" for did req b st'
    using ok redeliver_ok [of lib ev s did req st] that by simp
  have r_conn: "ws_connected st' = ws_connected st"
    if "redeliverExistingCertificate ev s did req st = (b, st')" for did req b st'
    using redeliver_fields(2) [of ev s did req st] that by simp
  show ?thesis
    using ok edit create r_ok r_conn
    by (simp add: handleCapabilityRequest_def Let_def split: option.split sum.split prod.split bool.split)
qed

lemma failCertIssuance_ok: "ws_ok lib st \<Longrightarrow> ws_ok lib (failCertIssuance s why st)"
  by (auto simp: failCertIssuance_def intro!: keeps_intros dest!: set_map_remove)

lemma handleCertChallenge_ok:
  assumes ok: "ws_ok lib st" shows "ws_ok lib (handleCertChallenge lib s pl st)"
proof (cases "map_of (ws_issuance st) s")
  case None
  with ok show ?thesis by (simp add: handleCertChallenge_def)
next
  case (Some x)
  note own = ok_lookups(4) [OF ok Some]
  have keep: "ws_ok lib (st\<lparr>ws_issuance := map_set s (x\<lparr>is_challenger := c\<rparr>) (ws_issuance st)\<rparr>)" for c
    using ok own by (auto intro!: keeps_intros dest!: set_map_set)
  have drop: "ws_ok lib (st\<lparr>ws_issuance := map_remove s (map_set s (x\<lparr>is_challenger := c\<rparr>) (ws_issuance st))\<rparr>)" for c
    using ok own by (auto intro!: keeps_intros dest!: set_map_remove set_map_set)
  show ?thesis
    using Some ok own keep drop
    by (simp add: handleCertChallenge_def Let_def failCertIssuance_ok ok_add_task split: option.split)
qed

lemma persistIssued_ok:
  assumes ok: "ws_ok lib st" shows "ws_ok lib (persistIssued ev s x b st)"
proof -
  have made: "proper_writes lib (ws_db st) d'" if "persistChallengerCertificate now ci (ws_db st) = Inr (row, d')"
    for now ci row d'
    using that by (auto simp: persistChallengerCertificate_def intro: proper_others(1)
        split: sum.splits db_error.splits)
  have marked: "proper_writes lib (ws_db st) d''"
    if "proper_writes lib (ws_db st) d'" "pending_markDelivered n i d' = Inr (r, d'')" for d' d'' n i r
    using that by (blast intro: proper_trans proper_pending_edits)
  show ?thesis
    using ok
    by (auto simp: persistIssued_def split: option.splits sum.splits
        intro!: ok_add_task failCertIssuance_ok ok_db elim!: made marked [rotated])
qed

lemma handleCertStatusRequest_ok [simp]: "ws_ok lib (handleCertStatusRequest lb ev s pl st) = ws_ok lib st"
  by (simp add: handleCertStatusRequest_def Let_def split: option.splits prod.splits)

lemma acceptEvents_ok: "ws_ok lib st \<Longrightarrow> ws_ok lib (acceptEvents now did es st)"
  by (induction now did es st rule: acceptEvents.induct)
     (auto split: sum.splits intro!: ok_db intro: proper_others(4))

lemma handleSensorTelemetry_ok:
  assumes ok: "ws_ok lib st" shows "ws_ok lib (handleSensorTelemetry ev s pl st)"
proof -
  have merged: "ws_ok lib (st\<lparr>ws_db := d'\<rparr>)" if "actor_mergeKindConfig did patch (ws_db st) = Inr d'" for did patch d'
    using ok that by (intro ok_db proper_others(3))
  show ?thesis
    using ok merged
    by (simp add: handleSensorTelemetry_def Let_def acceptEvents_ok del: acceptEvents.simps split: option.split list.split sum.split)
qed

lemma handleMessage_ok:
  "ws_ok lib st \<Longrightarrow> lawful_ids lib \<Longrightarrow> ws_ok lib (handleMessage lib ev s msg st)"
  by (simp add: handleMessage_def handleAuthChallenge_ok handleHeartbeat_ok handleCapabilityRequest_ok
      handleCertChallenge_ok handleSensorTelemetry_ok split: ws_in_msg.split)

lemma pushActorConfig_ok [simp]: "ws_ok lib (snd (pushActorConfig lb ev did st)) = ws_ok lib st"
  by (simp add: pushActorConfig_def split: option.split)

lemma pushActorConfigMany_ok [simp]: "ws_ok lib (snd (pushActorConfigMany lb ev dids st)) = ws_ok lib st"
proof (induction dids arbitrary: st)
  case (Cons did dids)
  then show ?case
    using pushActorConfig_ok [of lib lb ev did st]
    by (cases "pushActorConfig lb ev did st"; cases "pushActorConfigMany lb ev dids (snd (pushActorConfig lb ev did st))")
       (simp_all, metis snd_conv)
qed simp

lemma notify_ok [simp]:
  "ws_ok lib (snd (pushActorConfigToAll lb ev st)) = ws_ok lib st"
  "ws_ok lib (snd (notifyCapabilitiesChanged did why ids st)) = ws_ok lib st"
  "ws_ok lib (snd (notifyCapabilityRegistryChanged rwhy cap st)) = ws_ok lib st"
  "ws_ok lib (snd (notifyKillSwitchArmed ev krow st)) = ws_ok lib st"
  "ws_ok lib (snd (deliverCertificate cert st)) = ws_ok lib st"
  "ws_ok lib (disconnect did st) = ws_ok lib st"
proof -
  have sends: "ws_ok lib (fold (\<lambda>(_, a) s. sendMessage (f a) m s) l st') = ws_ok lib st'"
    "ws_ok lib (fold (\<lambda>a s. closeSender (f a) (sendMessage (f a) m s)) l' st') = ws_ok lib st'"
    for f m l l' and st' :: "('a, 'b, 'c) ws_state"
    by (induction l arbitrary: st', simp_all add: case_prod_unfold)
       (induction l' arbitrary: st', simp_all)
  show "ws_ok lib (snd (pushActorConfigToAll lb ev st)) = ws_ok lib st"
    "ws_ok lib (snd (notifyCapabilitiesChanged did why ids st)) = ws_ok lib st"
    "ws_ok lib (disconnect did st) = ws_ok lib st"
    "ws_ok lib (snd (deliverCertificate cert st)) = ws_ok lib st"
    "ws_ok lib (snd (notifyCapabilityRegistryChanged rwhy cap st)) = ws_ok lib st"
    "ws_ok lib (snd (notifyKillSwitchArmed ev krow st)) = ws_ok lib st"
    by (simp_all add: pushActorConfigToAll_def notifyCapabilitiesChanged_def disconnect_def deliverCertificate_def
        notifyCapabilityRegistryChanged_def notifyKillSwitchArmed_def Let_def sends split: option.split)
qed

lemma flush_ok: "ws_ok lib st \<Longrightarrow> ws_ok lib (flushDeferredWrites ev st)"
  by (auto simp: flushDeferredWrites_def Let_def split: sum.splits
      intro!: ok_db proper_others(6) intro: proper_others(5) proper_trans)

lemma sweep_ok: "ws_ok lib st \<Longrightarrow> ws_ok lib (sweepUndeliveredGrants st)"
  by (auto simp: sweepUndeliveredGrants_def Let_def intro!: keeps_intros)

lemma endSweep_ok [simp]: "ws_ok lib (endSweep st) = ws_ok lib st"
  by (simp add: endSweep_def)

lemma runTask_ok:
  assumes ok: "ws_ok lib st" and t: "task_ok lib (ws_proven st) (ws_db st) t" and ids: "lawful_ids lib"
  shows "ws_ok lib (runTask lib ev t st)"
proof (cases t)
  case (DeliverTask s did)
  then show ?thesis
    using deliverApproved_ok [OF ok, of ev did] by (auto simp: runTask_def split: prod.splits option.splits bool.splits)
qed (use assms in \<open>simp_all add: runTask_def seatActor_ok deliverApproved_ok persistIssued_ok\<close>)

end
