(* ===== verification/ConnectionServer.thy ===== *)
theory ConnectionServer
  imports Attribution
begin

text \<open>
  The connection server as a transition system, and its theorems. Sockets come and go, frames
  arrive on live sockets, timers fire, continuations run in any order, the sweep and the flush run
  at any moment, server actions call in, and other code writes the database through the DAO.
  A socket identity is never reused.
\<close>

section \<open>Steps\<close>

inductive ws_step ::
  "('vid, 'ch, 'cfg) ws_lib \<Rightarrow> ('vid, 'ch, 'cfg) ws_state \<Rightarrow> ('vid, 'ch, 'cfg) ws_state \<Rightarrow> bool"
  for lib :: "('vid, 'ch, 'cfg) ws_lib" where
  Accept: "sender \<notin> set (ws_seen st) \<Longrightarrow>
     ws_step lib st (st\<lparr>ws_seen := ws_seen st @ [sender], ws_open := ws_open st @ [sender],
                        ws_live := ws_live st @ [sender]\<rparr>)"
| Message: "sender \<in> set (ws_live st) \<Longrightarrow> ws_step lib st (handleMessage lib ev sender msg st)"
| SocketClosed: "sender \<in> set (ws_live st) \<Longrightarrow>
     ws_step lib st (handleClose sender (st\<lparr>ws_open := removeAll sender (ws_open st),
                                           ws_live := removeAll sender (ws_live st)\<rparr>))"
| Timer: "h \<in> set (ws_timers st) \<Longrightarrow> ws_step lib st (fireTimer h st)"
| RunTask: "t \<in> set (ws_tasks st) \<Longrightarrow> ws_step lib st (runTask lib ev t (st\<lparr>ws_tasks := remove1 t (ws_tasks st)\<rparr>))"
| Sweep: "ws_step lib st (sweepUndeliveredGrants st)"
| Flush: "ws_step lib st (flushDeferredWrites ev st)"
| Database: "proper_writes lib (ws_db st) d' \<Longrightarrow> ws_step lib st (st\<lparr>ws_db := d'\<rparr>)"
| Deliver: "ws_step lib st (snd (deliverApprovedCapabilities lib ev did st))"
| Disconnect: "ws_step lib st (disconnect did st)"
| PushOne: "ws_step lib st (snd (pushActorConfig lib ev did st))"
| PushMany: "ws_step lib st (snd (pushActorConfigMany lib ev dids st))"
| PushAll: "ws_step lib st (snd (pushActorConfigToAll lib ev st))"
| NotifyCapabilities: "ws_step lib st (snd (notifyCapabilitiesChanged did why ids st))"
| NotifyRegistry: "ws_step lib st (snd (notifyCapabilityRegistryChanged rwhy cap st))"
| NotifyArmed: "ws_step lib st (snd (notifyKillSwitchArmed ev krow st))"
| HandOver: "cert \<in> set (tb_certs (ws_db st)) \<Longrightarrow> ws_step lib st (snd (deliverCertificate cert st))"

inductive ws_reach ::
  "('vid, 'ch, 'cfg) ws_lib \<Rightarrow> db \<Rightarrow> ('vid, 'ch, 'cfg) ws_state \<Rightarrow> bool"
  for lib :: "('vid, 'ch, 'cfg) ws_lib" and d0 :: db where
  Start: "ws_reach lib d0 (ws_start d0)"
| Step: "ws_reach lib d0 st \<Longrightarrow> ws_step lib st st' \<Longrightarrow> ws_reach lib d0 st'"

lemma ws_step_ok: "ws_step lib st st' \<Longrightarrow> lawful_ids lib \<Longrightarrow> ws_ok lib st \<Longrightarrow> ws_ok lib st'"
proof (induction rule: ws_step.induct)
  case (RunTask t st ev)
  then show ?case
    by (intro runTask_ok) (auto intro!: keeps_intros dest: set_remove1_subset [THEN subsetD] ok_lookups(5))
next
  case (Database st d')
  then show ?case by (intro ok_db)
qed (simp_all add: handleMessage_ok handleClose_ok sweep_ok flush_ok deliverApproved_ok)

text \<open>A database the server may start on.\<close>

definition sound_start :: "('vid, 'ch, 'cfg) ws_lib \<Rightarrow> db \<Rightarrow> bool" where
  "sound_start lib d \<longleftrightarrow> db_wf d \<and> attributable lib d"

lemma ws_start_ok: "sound_start lib d \<Longrightarrow> ws_ok lib (ws_start d)"
  by (simp add: ws_ok_def ws_start_def sound_start_def)

lemma ws_reach_ok:
  "ws_reach lib d0 st \<Longrightarrow> lawful_ids lib \<Longrightarrow> sound_start lib d0 \<Longrightarrow> ws_ok lib st"
  by (induction rule: ws_reach.induct) (auto intro: ws_start_ok ws_step_ok)

section \<open>An instance for evaluation\<close>

text \<open>
  Identities are their DIDs, and a challenger completes on the first message, which carries the
  context (1 for a handshake, 2 for a certificate exchange) and the identity's bytes.
\<close>

definition demo_challenger :: "(string, byte list) challenger_lib" where
  "demo_challenger =
     \<lparr>ch_new = (\<lambda>v. []), ch_update = (\<lambda>c b. if b = [] then None else Some b), ch_bytes = (\<lambda>c. c),
      ch_failed = (\<lambda>c. False), ch_error = (\<lambda>c. None),
      ch_context = (\<lambda>c. (''p2p'', if hd c = 1 then ''auth'' else ''certificate'')),
      ch_complete = (\<lambda>c. True), ch_contact = (\<lambda>c. map (char_of \<circ> unat) (tl c))\<rparr>"

definition demo_certs :: "cert_payload list \<Rightarrow> string certlib" where
  "demo_certs ps =
     \<lparr>signChallenge = (\<lambda>vid b. Some b), verifyChallenge = (\<lambda>vid b s. Some (s = b)),
      msgpackEncode = msgpackEncode (table_certlib ps), msgpackDecode = msgpackDecode (table_certlib ps)\<rparr>"

lemma demo_certs_lawful: "lawful_certlib (demo_certs ps)"
  using table_certlib_lawful [of ps] by (auto simp: lawful_certlib_def demo_certs_def)

definition demo_lib :: "(string, byte list, unit) ws_lib" where
  "demo_lib =
     \<lparr>lb_certs = demo_certs [], lb_challenger = demo_challenger, lb_serverVid = ''did:server'',
      lb_did = (\<lambda>v. v), lb_idBytes = map (\<lambda>c. of_nat (of_char c)),
      lb_fromId = (\<lambda>b. Some (map (char_of \<circ> unat) b)), lb_buildConfig = (\<lambda>now did d. Some ())\<rparr>"

lemma char_byte: "(char_of (unat (of_nat (of_char c) :: byte)) :: char) = c"
proof -
  have "(of_char c :: nat) < 256" by simp
  then show ?thesis by (simp add: unat_of_nat)
qed

lemma demo_lawful: "lawful_ids demo_lib"
  by (simp add: lawful_ids_def demo_lib_def map_idI char_byte)

definition demo_actor :: actor_row where
  "demo_actor = \<lparr>a_did = ''did:a'', a_name = ''a'', a_kind = ''openclaw'', a_publicKey = None, a_workspaceId = None,
     a_declaredCapabilities = None, a_kindConfig = [], a_registeredAt = 0, a_lastSeen = 0, a_ownerDid = None\<rparr>"

definition demo_db :: db where
  "demo_db = empty_db\<lparr>tb_actors := [demo_actor]\<rparr>"

definition demo_env :: "nat \<Rightarrow> ws_env" where
  "demo_env t = \<lparr>ev_now = 1000, ev_session = ''s'', ev_uuid = ''u'', ev_timer = t,
     ev_armed = \<lparr>ks_global = None, ks_byWorkspace = []\<rparr>, ev_registry = []\<rparr>"

definition demo_accept :: "nat \<Rightarrow> ('vid, 'ch, 'cfg) ws_state \<Rightarrow> ('vid, 'ch, 'cfg) ws_state" where
  "demo_accept s st = st\<lparr>ws_seen := ws_seen st @ [s], ws_open := ws_open st @ [s], ws_live := ws_live st @ [s]\<rparr>"

definition demo_register :: "nat \<Rightarrow> nat \<Rightarrow> (string, byte list, unit) ws_state \<Rightarrow> (string, byte list, unit) ws_state" where
  "demo_register s t st =
     handleMessage demo_lib (demo_env t) s (Register (Some \<lparr>rp_name = None, rp_kind = None, rp_declared = None\<rparr>)) st"

definition demo_prove :: "nat \<Rightarrow> (string, byte list, unit) ws_state \<Rightarrow> (string, byte list, unit) ws_state" where
  "demo_prove s st =
     handleMessage demo_lib (demo_env 0) s
       (AuthChallenge (Some \<lparr>cp_sessionId = ''s'', cp_data = toBase64 (1 # lb_idBytes demo_lib ''did:a'')\<rparr>)) st"

definition demo_task :: "(string, byte list, unit) ws_state \<Rightarrow> (string, byte list, unit) ws_state" where
  "demo_task st =
     (case ws_tasks st of [] \<Rightarrow> st | t # ts \<Rightarrow> runTask demo_lib (demo_env 0) t (st\<lparr>ws_tasks := ts\<rparr>))"

definition demo_close :: "nat \<Rightarrow> ('vid, 'ch, 'cfg) ws_state \<Rightarrow> ('vid, 'ch, 'cfg) ws_state" where
  "demo_close s st =
     handleClose s (st\<lparr>ws_open := removeAll s (ws_open st), ws_live := removeAll s (ws_live st)\<rparr>)"

lemma demo_steps:
  "ws_reach demo_lib d0 st \<Longrightarrow> s \<notin> set (ws_seen st) \<Longrightarrow> ws_reach demo_lib d0 (demo_accept s st)"
  "ws_reach demo_lib d0 st \<Longrightarrow> s \<in> set (ws_live st) \<Longrightarrow> ws_reach demo_lib d0 (demo_register s t st)"
  "ws_reach demo_lib d0 st \<Longrightarrow> s \<in> set (ws_live st) \<Longrightarrow> ws_reach demo_lib d0 (demo_prove s st)"
  "ws_reach demo_lib d0 st \<Longrightarrow> ws_reach demo_lib d0 (demo_task st)"
  "ws_reach demo_lib d0 st \<Longrightarrow> s \<in> set (ws_live st) \<Longrightarrow> ws_reach demo_lib d0 (demo_close s st)"
proof -
  show "ws_reach demo_lib d0 st \<Longrightarrow> s \<notin> set (ws_seen st) \<Longrightarrow> ws_reach demo_lib d0 (demo_accept s st)"
    unfolding demo_accept_def by (rule ws_reach.Step, assumption, rule ws_step.Accept)
  show "ws_reach demo_lib d0 st \<Longrightarrow> s \<in> set (ws_live st) \<Longrightarrow> ws_reach demo_lib d0 (demo_register s t st)"
    "ws_reach demo_lib d0 st \<Longrightarrow> s \<in> set (ws_live st) \<Longrightarrow> ws_reach demo_lib d0 (demo_prove s st)"
    unfolding demo_register_def demo_prove_def by (rule ws_reach.Step, assumption, rule ws_step.Message, assumption)+
  show "ws_reach demo_lib d0 st \<Longrightarrow> s \<in> set (ws_live st) \<Longrightarrow> ws_reach demo_lib d0 (demo_close s st)"
    unfolding demo_close_def by (rule ws_reach.Step, assumption, rule ws_step.SocketClosed)
  show "ws_reach demo_lib d0 (demo_task st)" if r: "ws_reach demo_lib d0 st"
  proof (cases "ws_tasks st")
    case Nil
    with r show ?thesis by (simp add: demo_task_def)
  next
    case (Cons t ts)
    from ws_reach.Step [OF r ws_step.RunTask [of t st demo_lib "demo_env 0"]] Cons show ?thesis
      by (simp add: demo_task_def)
  qed
qed

text \<open>One Actor connects, proves its identity and is seated; then it does so again on a second socket.\<close>

definition demo_seated :: "(string, byte list, unit) ws_state" where
  "demo_seated = demo_task (demo_prove 0 (demo_register 0 0 (demo_accept 0 (ws_start demo_db))))"

definition demo_reconnected :: "(string, byte list, unit) ws_state" where
  "demo_reconnected =
     demo_task (demo_task (demo_task (demo_prove 1 (demo_register 1 1 (demo_accept 1 demo_seated)))))"

lemma demo_sound: "sound_start demo_lib demo_db"
  by (simp add: sound_start_def attributable_def demo_db_def demo_actor_def empty_db_def wf_defs
      points_def points_opt_def unique_keys_def)

text \<open>C1 (invariant). In every reachable state, a connection the server files under a DID carries that
  DID, sits on a socket that completed a handshake proving that DID, and holds that DID's identity;
  and the DID a socket is known under is one it proved.\<close>

theorem connections_attributed:
  assumes "ws_reach lib d0 st" and "lawful_ids lib" and "sound_start lib d0"
  shows "(map_of (ws_connected st) did = Some a \<longrightarrow>
            ca_did a = did \<and> owns (ws_proven st) (ca_sender a) did \<and> lb_did lib (ca_remoteVid a) = did)
         \<and> (map_of (ws_bySender st) s = Some did \<longrightarrow> owns (ws_proven st) s did)"
  using ok_lookups(1,2) [OF ws_reach_ok [OF assms]] by (auto simp: conn_ok_def)

lemma demo_seated_reach: "ws_reach demo_lib demo_db demo_seated"
  unfolding demo_seated_def
  by (intro demo_steps(4) demo_steps(3) demo_steps(2) demo_steps(1) ws_reach.Start; code_simp)

lemma demo_reconnected_reach: "ws_reach demo_lib demo_db demo_reconnected"
  unfolding demo_reconnected_def
  by (intro demo_steps(4) demo_steps(3) demo_steps(2) demo_steps(1) demo_seated_reach; code_simp)

theorem connections_attributed_witness:
  "\<exists>a. map_of (ws_connected demo_seated) ''did:a'' = Some a
     \<and> ca_did a = ''did:a'' \<and> owns (ws_proven demo_seated) (ca_sender a) ''did:a''
     \<and> lb_did demo_lib (ca_remoteVid a) = ''did:a''"
proof -
  have "map_of (ws_connected demo_seated) ''did:a'' = Some \<lparr>ca_did = ''did:a'', ca_name = ''a'',
      ca_kind = ''openclaw'', ca_sender = 0, ca_remoteVid = ''did:a'', ca_connectedAt = 1000, ca_lastSeen = 1000\<rparr>"
    by code_simp
  with connections_attributed [OF demo_seated_reach demo_lawful demo_sound] show ?thesis by blast
qed

section \<open>Who may prove what\<close>

lemma sends_proven [simp]:
  "ws_proven (fold (\<lambda>(_, a) s. sendMessage (f a) m s) l st) = ws_proven st"
  "ws_proven (fold (\<lambda>a s. closeSender (f' a) (sendMessage (f' a) m' s)) l' st) = ws_proven st"
  by (induction l arbitrary: st, simp_all add: case_prod_unfold)
     (induction l' arbitrary: st, simp_all)

lemma task_proven [simp]: "ws_proven (runTask lib ev t st) = ws_proven st"
proof -
  have [simp]: "ws_proven (snd (grantOrMark e s i c st')) = ws_proven st'" for e s i c and st' :: "('a, 'b, 'c) ws_state"
    by (simp add: grantOrMark_def startCertificateIssuance_def split: sum.split prod.split)
  have deliver [simp]: "ws_proven (snd (deliverApprovedCapabilities lib ev did st')) = ws_proven st'"
    for did and st' :: "('a, 'b, 'c) ws_state"
    by (simp add: deliverApprovedCapabilities_def Let_def split: option.split prod.split)
  have again [simp]: "ws_proven (snd (redeliverExistingCertificate ev s did r st')) = ws_proven st'"
    for s did r and st' :: "('a, 'b, 'c) ws_state"
    by (simp add: redeliverExistingCertificate_def split: option.split prod.split)
  show ?thesis
  proof (cases t)
    case (SeatTask s p c b)
    then show ?thesis
      by (simp add: runTask_def seatActor_def seatExisting_def enrolUnknown_def failHandshake_def Let_def
          split: option.split sum.split prod.split)
  next
    case (DeliverTask s did)
    then show ?thesis using deliver [of did st]
      by (auto simp: runTask_def simp del: deliver split: prod.splits option.splits bool.splits)
  next
    case (CertTask s x b)
    then show ?thesis
      by (simp add: runTask_def persistIssued_def failCertIssuance_def split: option.split sum.split prod.split)
  qed (simp_all add: runTask_def pushActorConfig_def endSweep_def split: option.split)
qed

section \<open>What a frame may write\<close>

text \<open>Rows written are rows of an own DID; the tables of no one's DID stay.\<close>

definition scoped :: "(string \<Rightarrow> bool) \<Rightarrow> db \<Rightarrow> db \<Rightarrow> bool" where
  "scoped own D D' \<longleftrightarrow>
     (\<forall>r \<in> set (tb_pending D'). r \<in> set (tb_pending D) \<or> own (p_did r)) \<and>
     (\<forall>r \<in> set (tb_workloads D'). r \<in> set (tb_workloads D) \<or> own (wl_deviceDid r)) \<and>
     (\<forall>r \<in> set (tb_actors D'). r \<in> set (tb_actors D) \<or> own (a_did r)) \<and>
     tb_certs D' = tb_certs D \<and> tb_checks D' = tb_checks D \<and> tb_invitations D' = tb_invitations D \<and>
     tb_workspaces D' = tb_workspaces D \<and> tb_killSwitches D' = tb_killSwitches D \<and>
     tb_customCaps D' = tb_customCaps D \<and> tb_settings D' = tb_settings D"

lemma scoped_refl [simp]: "scoped own D D"
  by (simp add: scoped_def)

lemma scoped_trans: "scoped own D E \<Longrightarrow> scoped own E F \<Longrightarrow> scoped own D F"
  unfolding scoped_def by (intro conjI ballI) (metis, metis, metis, simp_all)

lemma scoped_request:
  assumes "pending_updateRequestedCapabilities i caps D = Inr (row, D')"
    and "db_wf D" and "row_find p_id i (tb_pending D) = Some r" and "own (p_did r)"
  shows "scoped own D D'"
proof -
  have "x = r" if "x \<in> set (tb_pending D)" "p_id x = i" for x
    using pending_row_found [OF assms(2) that(1)] that(2) assms(3) by simp
  then show ?thesis
    using assms(1,4)
    by (auto simp: scoped_def pending_updateRequestedCapabilities_def pending_modify_def row_update_Inr set_row_map)
qed

lemma scoped_create: "pending_create now pin D = Inr (row, D') \<Longrightarrow> own (pi_did pin) \<Longrightarrow> scoped own D D'"
  by (auto simp: scoped_def pending_create_def Let_def row_insert_Inr)

lemma scoped_merge: "actor_mergeKindConfig did patch D = Inr D' \<Longrightarrow> own did \<Longrightarrow> scoped own D D'"
  by (auto simp: scoped_def actor_mergeKindConfig_def Let_def row_update_Inr set_row_map)

lemma scoped_workload: "workload_upsert wl D = Inr D' \<Longrightarrow> own (wl_deviceDid wl) \<Longrightarrow> scoped own D D'"
  by (auto simp: scoped_def workload_upsert_def Let_def set_row_map split: if_splits)

lemma scoped_events: "own did \<Longrightarrow> scoped own (ws_db st) (ws_db (acceptEvents now did es st))"
proof (induction now did es st rule: acceptEvents.induct)
  case (2 now did e es st)
  show ?case
  proof (cases "workload_upsert (workload_of now did e) (ws_db st)")
    case (Inr d')
    have "scoped own (ws_db st) d'"
      using 2(3) by (intro scoped_workload [OF Inr]) (simp add: workload_of_def)
    with Inr 2 show ?thesis by (auto intro: scoped_trans)
  qed (use 2 in auto)
qed simp

lemma scoped_telemetry:
  assumes "\<And>did. map_of (ws_bySender st) s = Some did \<Longrightarrow> own did"
  shows "scoped own (ws_db st) (ws_db (handleSensorTelemetry ev s pl st))"
proof (cases "\<exists>did events. map_of (ws_bySender st) s = Some did \<and> did \<noteq> [] \<and> pl = Some events")
  case False
  then show ?thesis by (auto simp: handleSensorTelemetry_def split: option.splits)
next
  case True
  then obtain did events where b: "map_of (ws_bySender st) s = Some did" "did \<noteq> []" "pl = Some events" by auto
  define es where "es = (case events of None \<Rightarrow> [] | Some l \<Rightarrow> l)"
  define st1 where "st1 = (case es of [] \<Rightarrow> st | e # _ \<Rightarrow>
      (case actor_mergeKindConfig did [(''hostname'', JStr (se_hostname e)), (''os'', JStr (se_os e))] (ws_db st) of
         Inl _ \<Rightarrow> st | Inr d' \<Rightarrow> st\<lparr>ws_db := d'\<rparr>))"
  have "scoped own (ws_db st) (ws_db st1)"
    using assms [OF b(1)] by (auto simp: st1_def intro: scoped_merge split: list.splits sum.splits)
  moreover have "handleSensorTelemetry ev s pl st = acceptEvents (ev_now ev) did es st1"
    using b by (simp add: handleSensorTelemetry_def Let_def st1_def es_def cong: list.case_cong)
  moreover have "scoped own (ws_db st1) (ws_db (acceptEvents (ev_now ev) did es st1))"
    by (rule scoped_events) (rule assms [OF b(1)])
  ultimately show ?thesis by (metis scoped_trans)
qed

lemma scoped_capability:
  assumes ok: "ws_ok lib st" and own: "\<And>d. owns (ws_proven st) s d \<Longrightarrow> own d"
  shows "scoped own (ws_db st) (ws_db (handleCapabilityRequest lib ev s pl st))"
proof -
  note wf = ws_ok_wf [OF ok]
  have waiting: "scoped own (ws_db st) d'"
    if "map_of (ws_awaiting st) s = Some w"
      "pending_updateRequestedCapabilities (aw_registrationId w) caps (ws_db st) = Inr (row, d')" for w caps row d'
    using ok_lookups(3) [OF ok that(1)] own by (auto simp: awaits_ok_def intro: scoped_request [OF that(2) wf])
  have filed: "scoped own (ws_db st) d'"
    if "map_of (ws_bySender st) s = Some did" "pending_findPendingByDid did (ws_db st) = Some r"
      "pending_updateRequestedCapabilities (p_id r) caps (ws_db st) = Inr (row, d')" for did r caps row d'
    using ok_lookups(1) [OF ok that(1)] own pending_finds(1) [OF that(2)]
    by (auto intro!: scoped_request [OF that(3) wf pending_row_found [OF wf]])
  have created: "scoped own (ws_db st) d'"
    if "pending_create now pin (ws_db st) = Inr (row, d')" "map_of (ws_bySender st) s = Some (pi_did pin)"
    for now pin row d'
    using ok_lookups(1) [OF ok that(2)] own that(1) by (auto intro: scoped_create)
  have again: "ws_db st' = ws_db st" if "redeliverExistingCertificate ev s did req st = (b, st')" for did req b st'
    using redeliver_fields(1) [of ev s did req st] that by simp
  show ?thesis
    by (auto simp: handleCapabilityRequest_def Let_def waiting filed again split: option.splits sum.splits prod.splits bool.splits
        intro: created)
qed

lemma db_untouched [simp]:
  "ws_db (handleRegister ev s rpl st) = ws_db st" "ws_db (handleAuthChallenge lib s cpl st) = ws_db st"
  "ws_db (handleHeartbeat ev s st) = ws_db st" "ws_db (handleCertChallenge lib s cpl st) = ws_db st"
  "ws_db (handleCertStatusRequest lib ev s tok st) = ws_db st" "ws_db (handleClose s st) = ws_db st"
  "ws_db (fireTimer h st) = ws_db st"
  by (simp_all add: handleRegister_def handleAuthChallenge_def handleHeartbeat_def handleCertChallenge_def
      handleCertStatusRequest_def failHandshake_def failCertIssuance_def handleClose_def fireTimer_def Let_def
      split: option.split prod.split)

lemma scoped_message:
  assumes "ws_ok lib st" and "\<And>d. owns (ws_proven st) s d \<Longrightarrow> own d"
  shows "scoped own (ws_db st) (ws_db (handleMessage lib ev s msg st))"
proof -
  have "scoped own (ws_db st) (ws_db (handleSensorTelemetry ev s pl st))" for pl
    using ok_lookups(1) [OF assms(1)] assms(2) by (auto intro: scoped_telemetry)
  then show ?thesis
    using scoped_capability [OF assms] by (simp add: handleMessage_def split: ws_in_msg.split)
qed



end
