(* ===== verification/Sessions.thy ===== *)
theory Sessions
  imports ConnectionServer
begin

text \<open>
  Theorems on single steps of the connection server: how a proof of identity comes about, what a
  kill switch keeps out, to whom a certificate is delivered, what a status reply says, what the
  deferred writes keep, and the steps where the code does not do what it means to.
\<close>

section \<open>Identity\<close>

lemma proven_same:
  "ws_proven (handleRegister ev s rpl st) = ws_proven st" "ws_proven (handleHeartbeat ev s st) = ws_proven st"
  "ws_proven (handleCertChallenge lib s cpl st) = ws_proven st"
  "ws_proven (handleCertStatusRequest lib ev s tok st) = ws_proven st"
  "ws_proven (handleClose s st) = ws_proven st" "ws_proven (fireTimer h st) = ws_proven st"
  "ws_proven (sweepUndeliveredGrants st) = ws_proven st" "ws_proven (flushDeferredWrites ev st) = ws_proven st"
  "ws_proven (disconnect did st) = ws_proven st" "ws_proven (snd (pushActorConfig lib ev did st)) = ws_proven st"
  "ws_proven (snd (notifyCapabilitiesChanged did why ids st)) = ws_proven st"
  "ws_proven (snd (notifyCapabilityRegistryChanged rwhy cap st)) = ws_proven st"
  "ws_proven (snd (notifyKillSwitchArmed ev krow st)) = ws_proven st"
  "ws_proven (snd (deliverCertificate cert st)) = ws_proven st"
  "ws_proven (snd (redeliverExistingCertificate ev s did req st)) = ws_proven st"
  by (simp_all add: handleRegister_def handleHeartbeat_def handleCertChallenge_def handleCertStatusRequest_def
      failCertIssuance_def handleClose_def fireTimer_def sweepUndeliveredGrants_def flushDeferredWrites_def
      disconnect_def pushActorConfig_def notifyCapabilitiesChanged_def notifyCapabilityRegistryChanged_def
      notifyKillSwitchArmed_def deliverCertificate_def redeliverExistingCertificate_def Let_def
      split: option.split prod.split)

lemma deliver_proven: "ws_proven (snd (deliverApprovedCapabilities lib ev did st)) = ws_proven st"
  using task_proven [of lib ev "SweepTask did" st] by (simp add: runTask_def endSweep_def split: if_splits)

lemma pushMany_proven: "ws_proven (snd (pushActorConfigMany lib ev dids st)) = ws_proven st"
proof (induction dids arbitrary: st)
  case (Cons did dids)
  then show ?case
    using proven_same(10) [of lib ev did st]
    by (cases "pushActorConfig lib ev did st"; cases "pushActorConfigMany lib ev dids (snd (pushActorConfig lib ev did st))")
       (simp_all, metis snd_conv)
qed simp

lemma telemetry_proven: "ws_proven (handleSensorTelemetry ev s pl st) = ws_proven st"
proof -
  have "ws_proven (acceptEvents now did es st') = ws_proven st'" for now did es and st' :: "('a, 'b, 'c) ws_state"
    by (induction now did es st' rule: acceptEvents.induct) (auto split: sum.splits)
  then show ?thesis
    by (simp add: handleSensorTelemetry_def Let_def del: acceptEvents.simps split: option.split list.split sum.split)
qed

lemma capability_proven: "ws_proven (handleCapabilityRequest lib ev s pl st) = ws_proven st"
proof -
  have "ws_proven st' = ws_proven st" if "redeliverExistingCertificate e s did req st = (b, st')" for e did req b st'
    using proven_same(15) [of e s did req st] that by simp
  then show ?thesis
    by (simp add: handleCapabilityRequest_def Let_def split: option.split sum.split prod.split bool.split)
qed

text \<open>What a completed handshake is: the frame's challenger accepted and finished for that contact.\<close>

definition handshake_completes ::
  "('vid, 'ch, 'cfg) ws_lib \<Rightarrow> ('vid, 'ch, 'cfg) ws_state \<Rightarrow> nat \<Rightarrow> challenge_payload \<Rightarrow> string \<Rightarrow> bool" where
  "handshake_completes lib st s pl did \<longleftrightarrow>
     (let C = lb_challenger lib in
      case map_of (ws_pending st) s of
        None \<Rightarrow> False
      | Some p \<Rightarrow> pn_sessionId p = cp_sessionId pl \<and>
          (case ch_update C (case pn_challenger p of None \<Rightarrow> ch_new C (lb_serverVid lib) | Some c \<Rightarrow> c)
                  (fromBase64 (cp_data pl)) of
             None \<Rightarrow> False
           | Some c \<Rightarrow> \<not> ch_failed C c \<and> verifyProtocol C c \<and> ch_complete C c \<and> lb_did lib (ch_contact C c) = did))"

lemma auth_proven_by:
  assumes "(s', did) \<in> set (ws_proven (handleAuthChallenge lib s (Some cp) st))" and "(s', did) \<notin> set (ws_proven st)"
  shows "s' = s \<and> handshake_completes lib st s cp did"
  using assms
  by (auto simp: handleAuthChallenge_def handshake_completes_def failHandshake_def Let_def
      split: option.splits if_splits)

lemma auth_proven:
  assumes "(s', did) \<in> set (ws_proven (handleAuthChallenge lib s pl st))" and "(s', did) \<notin> set (ws_proven st)"
  shows "s' = s \<and> (\<exists>cp. pl = Some cp \<and> handshake_completes lib st s cp did)"
proof (cases pl)
  case None
  with assms show ?thesis by (simp add: handleAuthChallenge_def split: option.splits)
next
  case (Some cp)
  with assms auth_proven_by [of s' did lib s cp st] show ?thesis by simp
qed

text \<open>C2 (safety). A socket gains a proven DID in one way only: an auth_challenge frame it sent, with
  the session of its own pending handshake, on which the challenger did not fail, spoke the
  registration or authentication protocol, and completed for a contact of that DID.\<close>

theorem identity_proven_by_handshake:
  assumes "ws_step lib st st'" and "(s, did) \<in> set (ws_proven st')" and "(s, did) \<notin> set (ws_proven st)"
  shows "\<exists>pl. handshake_completes lib st s pl did \<and> s \<in> set (ws_live st) \<and> st' = handleAuthChallenge lib s (Some pl) st"
  using assms
proof (induction rule: ws_step.induct)
  case (Message sender st ev msg)
  then show ?case
    by (cases msg)
       (auto simp: handleMessage_def proven_same telemetry_proven capability_proven sendError_def
         dest!: auth_proven)
qed (auto simp: proven_same deliver_proven pushMany_proven pushActorConfigToAll_def)

theorem identity_proven_by_handshake_witness:
  "\<exists>pl. handshake_completes demo_lib (demo_register 0 0 (demo_accept 0 (ws_start demo_db))) 0 pl ''did:a''
     \<and> 0 \<in> set (ws_live (demo_register 0 0 (demo_accept 0 (ws_start demo_db))))
     \<and> demo_prove 0 (demo_register 0 0 (demo_accept 0 (ws_start demo_db)))
         = handleAuthChallenge demo_lib 0 (Some pl) (demo_register 0 0 (demo_accept 0 (ws_start demo_db)))"
proof (rule identity_proven_by_handshake)
  let ?st = "demo_register 0 0 (demo_accept 0 (ws_start demo_db))"
  show "ws_step demo_lib ?st (demo_prove 0 ?st)"
    unfolding demo_prove_def by (rule ws_step.Message) code_simp
  show "(0, ''did:a'') \<in> set (ws_proven (demo_prove 0 ?st))" by code_simp
  show "(0, ''did:a'') \<notin> set (ws_proven ?st)" by code_simp
qed

section \<open>Kill switches and seats\<close>

text \<open>C13 (functional). When the awaited lookups of a handshake settle on a known Actor, it is seated on the
  socket exactly when no kill switch covers it: covered, the connection maps, the queue and the
  database stay as they are and the socket is closed; not covered, it becomes the connection of
  its DID on this socket.\<close>

theorem seat_respects_kill_switch:
  assumes "actor_findByDid (lb_did lib c) (ws_db st) = Some row"
    and "st' = seatActor lib ev s p c b st"
  shows "(case suppressionForActor (as_actor row) (ev_armed ev) of
            Some k \<Rightarrow> ws_connected st' = ws_connected st \<and> ws_bySender st' = ws_bySender st
              \<and> ws_tasks st' = ws_tasks st \<and> ws_db st' = ws_db st \<and> s \<notin> set (ws_open st')
          | None \<Rightarrow> map_of (ws_bySender st') s = Some (lb_did lib c)
              \<and> map_option ca_sender (map_of (ws_connected st') (lb_did lib c)) = Some s
              \<and> ws_open st' = ws_open st)"
  using assms
  by (auto simp: seatActor_def seatExisting_def failHandshake_def closeSender_def clearTimer_def add_task_def Let_def
      bufferLastSeen_def uncaught_def
      split: option.split sum.split)

definition demo_conn :: "byte list pending_conn" where
  "demo_conn = \<lparr>pn_sessionId = ''s'', pn_name = ''a'', pn_kind = ''openclaw'', pn_declared = None,
     pn_challenger = None, pn_timer = 0\<rparr>"

theorem seat_respects_kill_switch_witness:
  "let st' = seatActor demo_lib (demo_env 0) 0 demo_conn ''did:a'' ''t'' (ws_start demo_db) in
     map_of (ws_bySender st') 0 = Some ''did:a''
     \<and> map_option ca_sender (map_of (ws_connected st') ''did:a'') = Some 0 \<and> ws_open st' = []"
proof -
  have known: "actor_findByDid (lb_did demo_lib ''did:a'') (ws_db (ws_start demo_db)) = Some demo_actor"
    by code_simp
  have "suppressionForActor (as_actor demo_actor) (ev_armed (demo_env 0)) = None" by code_simp
  with seat_respects_kill_switch [OF known refl, of "demo_env 0" 0 demo_conn "''t''"] show ?thesis
    by (simp add: Let_def demo_lib_def ws_start_def)
qed

text \<open>
  The delivery of an approval seats a waiting socket too, and the armed set is nowhere in it: an
  Actor approved before a switch was armed is seated and certified afterwards.
\<close>

text \<open>Delivering an approved grant to a waiting socket seats the Actor whatever kill
  switch is armed: with a readable key, and a registration still approved and undelivered, its
  socket becomes the connection of the DID, and the result is the same for every armed set.\<close>

theorem delivery_ignores_armed_set:
  assumes "pending_findApprovedUndelivered did (ws_db st) = Some row"
    and "find (\<lambda>(s, w). aw_did w = did) (ws_awaiting st) = Some (s, w)"
    and "p_publicKey row = Some key" and "key \<noteq> []" and "lb_fromId lib (fromBase64 key) = Some v"
  shows "map_option ca_sender (map_of (ws_connected (snd (deliverApprovedCapabilities lib ev did st))) did) = Some s
     \<and> deliverApprovedCapabilities lib (ev\<lparr>ev_armed := armed\<rparr>) did st = deliverApprovedCapabilities lib ev did st"
  using assms
  by (auto simp: deliverApprovedCapabilities_def grantOrMark_def startCertificateIssuance_def Let_def split: sum.split)

definition demo_approved :: pending_row where
  "demo_approved =
     \<lparr>p_id = ''r'', p_did = ''did:b'', p_publicKey = Some (toBase64 (lb_idBytes demo_lib ''did:b'')),
      p_sessionId = ''s'', p_name = ''b'', p_kind = ''openclaw'', p_status = Approved,
      p_requestedCapabilities = [], p_assignedCapabilities = [''file_read''], p_targetWorkspaceId = None,
      p_createdAt = 0, p_approvedBy = None, p_deliveredAt = None\<rparr>"

definition demo_waiting :: "(string, byte list, unit) ws_state" where
  "demo_waiting = (ws_start (demo_db\<lparr>tb_pending := [demo_approved]\<rparr>))
     \<lparr>ws_awaiting := [(0, \<lparr>aw_did = ''did:b'', aw_registrationId = ''r''\<rparr>)], ws_open := [0], ws_live := [0]\<rparr>"

theorem delivery_ignores_armed_set_witness:
  "map_option ca_sender
     (map_of (ws_connected (snd (deliverApprovedCapabilities demo_lib (demo_env 0) ''did:b'' demo_waiting))) ''did:b'') = Some 0
   \<and> deliverApprovedCapabilities demo_lib (demo_env 0\<lparr>ev_armed := \<lparr>ks_global = None, ks_byWorkspace = []\<rparr>\<rparr>) ''did:b'' demo_waiting
     = deliverApprovedCapabilities demo_lib (demo_env 0) ''did:b'' demo_waiting"
proof (rule delivery_ignores_armed_set)
  show "pending_findApprovedUndelivered ''did:b'' (ws_db demo_waiting) = Some demo_approved"
    by (simp add: demo_waiting_def ws_start_def demo_db_def pending_findApprovedUndelivered_def
        awaits_delivery_def demo_approved_def)
  show "find (\<lambda>(s, w). aw_did w = ''did:b'') (ws_awaiting demo_waiting)
      = Some (0, \<lparr>aw_did = ''did:b'', aw_registrationId = ''r''\<rparr>)"
    by (simp add: demo_waiting_def)
  show "p_publicKey demo_approved = Some (toBase64 (lb_idBytes demo_lib ''did:b''))"
    by (simp add: demo_approved_def)
  show "toBase64 (lb_idBytes demo_lib ''did:b'') \<noteq> []" by code_simp
  show "lb_fromId demo_lib (fromBase64 (toBase64 (lb_idBytes demo_lib ''did:b''))) = Some ''did:b''"
    using demo_lawful by (simp add: fromBase64_toBase64 lawful_ids_def)
qed

section \<open>Stale sockets\<close>

text \<open>The close of a socket that an Actor has reconnected past removes the Actor's new
  connection: when a socket is still known under a DID whose connection is by now on another
  socket, handling its close leaves the DID without a connection, although the newer socket stays
  known under the DID and open.\<close>

theorem stale_close_unseats_reconnected:
  assumes "map_of (ws_bySender st) old = Some did" and "did \<noteq> []"
    and "map_of (ws_connected st) did = Some a" and "ca_sender a \<noteq> old"
  shows "map_of (ws_connected (handleClose old st)) did = None
     \<and> map_of (ws_bySender (handleClose old st)) (ca_sender a) = map_of (ws_bySender st) (ca_sender a)
     \<and> ws_open (handleClose old st) = ws_open st"
  using assms by (simp add: handleClose_def Let_def)

theorem stale_close_unseats_reconnected_witness:
  "ws_reach demo_lib demo_db demo_reconnected
   \<and> map_of (ws_connected (handleClose 0 demo_reconnected)) ''did:a'' = None
   \<and> map_of (ws_bySender (handleClose 0 demo_reconnected)) 1 = Some ''did:a''
   \<and> 1 \<in> set (ws_open (handleClose 0 demo_reconnected))"
proof -
  have here: "map_of (ws_bySender demo_reconnected) 0 = Some ''did:a''"
    "map_of (ws_connected demo_reconnected) ''did:a''
      = Some \<lparr>ca_did = ''did:a'', ca_name = ''a'', ca_kind = ''openclaw'', ca_sender = 1,
              ca_remoteVid = ''did:a'', ca_connectedAt = 1000, ca_lastSeen = 1000\<rparr>"
    "map_of (ws_bySender demo_reconnected) 1 = Some ''did:a''" "1 \<in> set (ws_open demo_reconnected)"
    by code_simp+
  from stale_close_unseats_reconnected [OF here(1) _ here(2)] here(3,4) demo_reconnected_reach
  show ?thesis by simp
qed

text \<open>Registering twice on a socket leaves the first handshake's timer running.\<close>

definition demo_twice :: "(string, byte list, unit) ws_state" where
  "demo_twice = demo_task (demo_prove 0 (demo_register 0 2 (demo_register 0 1 (demo_accept 0 (ws_start demo_db)))))"

lemma demo_twice_reach: "ws_reach demo_lib demo_db demo_twice"
  unfolding demo_twice_def
  by (intro demo_steps(4) demo_steps(3) demo_steps(2) demo_steps(1) ws_reach.Start; code_simp)

text \<open>A state can be reached in which an Actor is seated on an open socket and a handshake
  timer that is still running closes that socket when it fires.\<close>

theorem orphaned_timer_closes_seated_actor:
  "\<exists>st a h. ws_reach demo_lib demo_db st \<and> map_of (ws_connected st) ''did:a'' = Some a
     \<and> ca_sender a \<in> set (ws_open st) \<and> map_of (ws_pending st) (ca_sender a) = None
     \<and> h \<in> set (ws_timers st) \<and> ca_sender a \<notin> set (ws_open (fireTimer h st))"
proof (intro exI conjI)
  show "ws_reach demo_lib demo_db demo_twice" by (rule demo_twice_reach)
  show "map_of (ws_connected demo_twice) ''did:a'' = Some \<lparr>ca_did = ''did:a'', ca_name = ''a'', ca_kind = ''openclaw'',
      ca_sender = 0, ca_remoteVid = ''did:a'', ca_connectedAt = 1000, ca_lastSeen = 1000\<rparr>"
    by code_simp
  show "\<lparr>ht_id = 1, ht_sender = 0\<rparr> \<in> set (ws_timers demo_twice)" by code_simp
qed code_simp+

text \<open>A state can be reached in which an Actor is recorded as connected on a socket that is
  closed and whose close event is over: the socket closed between the proof of identity and the
  seat, so no later event removes the entry.\<close>

theorem closed_socket_stays_connected:
  "\<exists>st a. ws_reach demo_lib demo_db st \<and> map_of (ws_connected st) ''did:a'' = Some a
     \<and> ca_sender a \<notin> set (ws_live st) \<and> ca_sender a \<in> set (ws_seen st)"
proof (intro exI conjI)
  let ?st = "demo_task (demo_close 0 (demo_prove 0 (demo_register 0 0 (demo_accept 0 (ws_start demo_db)))))"
  show "ws_reach demo_lib demo_db ?st"
    by (intro demo_steps(5) demo_steps(4) demo_steps(3) demo_steps(2) demo_steps(1) ws_reach.Start; code_simp)
  show "map_of (ws_connected ?st) ''did:a'' = Some \<lparr>ca_did = ''did:a'', ca_name = ''a'', ca_kind = ''openclaw'',
      ca_sender = 0, ca_remoteVid = ''did:a'', ca_connectedAt = 1000, ca_lastSeen = 1000\<rparr>"
    by code_simp
qed code_simp+

end
