(* ===== verification/Deliveries.thy ===== *)
theory Deliveries
  imports ConnectionServer
begin

text \<open>
  Theorems on what the connection server hands out and keeps: certificates, status replies, the push
  that follows arming a kill switch, the deferred writes, and the delivery sweep.
\<close>

section \<open>Certificates\<close>

text \<open>C4 (safety). When a completed certificate exchange of a reachable state is run, under an id no
  certificate has, and a certificate goes out, it goes to the socket of the exchange, is stored
  active with the same text and capabilities, and its holder is a DID that socket has proven.\<close>

theorem issued_certificate_addressed:
  assumes "ws_reach lib d0 st" and "lawful_ids lib" and "sound_start lib d0"
    and "CertTask s x certB64 \<in> set (ws_tasks st)" and "cert_findById (ev_uuid ev) (ws_db st) = None"
    and "st' = runTask lib ev (CertTask s x certB64) (st\<lparr>ws_tasks := remove1 (CertTask s x certB64) (ws_tasks st)\<rparr>)"
    and "ws_out st' = ws_out st @ [(to, CertIssuedOut cid token caps)]"
  shows "to = s \<and> (\<exists>row. cert_findById cid (ws_db st') = Some row \<and> owns (ws_proven st) s (c_agentDid row)
           \<and> c_certificate row = token \<and> c_capabilities row = caps \<and> c_status row = Active)"
proof -
  have "issues_ok (ws_proven st) (ws_db st) s (is_registrationId x)"
    using ok_lookups(5) [OF ws_reach_ok [OF assms(1-3)] assms(4)] by simp
  then obtain reg where reg: "pending_findById (is_registrationId x) (ws_db st) = Some reg"
    and own: "owns (ws_proven st) s (p_did reg)"
    by (auto simp: issues_ok_def pending_findById_def)
  have marked: "tb_certs e' = tb_certs e" if "pending_markDelivered n i e = Inr (r, e')" for n i e r e'
    using that by (auto simp: pending_markDelivered_def pending_modify_def)
  show ?thesis
    using assms(5-7) reg own
    by (auto simp: runTask_def persistIssued_def persistChallengerCertificate_def failCertIssuance_def
        sendMessage_def add_task_def cert_findById_def cert_create_def row_insert_Inr row_find_append marked Let_def
        throw_when_def row_insert_def
        split: sum.splits db_error.splits if_splits)
qed

definition demo_grant_db :: db where
  "demo_grant_db = demo_db\<lparr>tb_pending :=
     [\<lparr>p_id = ''r'', p_did = ''did:a'', p_publicKey = None, p_sessionId = ''s'', p_name = ''a'',
       p_kind = ''openclaw'', p_status = Approved, p_requestedCapabilities = [],
       p_assignedCapabilities = [''file_read''], p_targetWorkspaceId = None, p_createdAt = 0,
       p_approvedBy = None, p_deliveredAt = None\<rparr>]\<rparr>"

lemma demo_grant_sound: "sound_start demo_lib demo_grant_db"
  by (simp add: sound_start_def attributable_def demo_grant_db_def demo_db_def demo_actor_def empty_db_def wf_defs
      points_def points_opt_def unique_keys_def)

definition demo_exchange :: "(string, byte list, unit) ws_state \<Rightarrow> (string, byte list, unit) ws_state" where
  "demo_exchange st =
     handleMessage demo_lib (demo_env 0) 0 (CertChallenge (Some \<lparr>cp_sessionId = ''s'', cp_data = toBase64 [2]\<rparr>)) st"

definition demo_issuing :: "(string, byte list, unit) ws_state" where
  "demo_issuing = demo_exchange
     (demo_task (demo_task (demo_task (demo_prove 0 (demo_register 0 0 (demo_accept 0 (ws_start demo_grant_db)))))))"

lemma demo_exchange_step:
  "ws_reach demo_lib d0 st \<Longrightarrow> 0 \<in> set (ws_live st) \<Longrightarrow> ws_reach demo_lib d0 (demo_exchange st)"
  unfolding demo_exchange_def by (rule ws_reach.Step, assumption, rule ws_step.Message)

lemma demo_issuing_reach: "ws_reach demo_lib demo_grant_db demo_issuing"
  unfolding demo_issuing_def
  by (intro demo_exchange_step demo_steps(4) demo_steps(3) demo_steps(2) demo_steps(1) ws_reach.Start; code_simp)

definition demo_issuance :: "byte list cert_issuance" where
  "demo_issuance = \<lparr>is_sessionId = ''s'', is_registrationId = ''r'', is_capabilities = [''file_read''],
     is_challenger = Some [2]\<rparr>"

theorem issued_certificate_addressed_witness:
  "\<exists>row. cert_findById ''u'' (ws_db (demo_task demo_issuing)) = Some row
     \<and> owns (ws_proven demo_issuing) 0 (c_agentDid row)
     \<and> c_certificate row = toBase64 [2] \<and> c_capabilities row = [''file_read''] \<and> c_status row = Active"
proof -
  have queue: "ws_tasks demo_issuing = [CertTask 0 demo_issuance (toBase64 [2])]" by code_simp
  then have task: "demo_task demo_issuing
      = runTask demo_lib (demo_env 0) (CertTask 0 demo_issuance (toBase64 [2]))
          (demo_issuing\<lparr>ws_tasks := remove1 (CertTask 0 demo_issuance (toBase64 [2])) (ws_tasks demo_issuing)\<rparr>)"
    by (simp add: demo_task_def)
  have fresh: "cert_findById (ev_uuid (demo_env 0)) (ws_db demo_issuing) = None" by code_simp
  have out: "ws_out (demo_task demo_issuing)
      = ws_out demo_issuing @ [(0, CertIssuedOut ''u'' (toBase64 [2]) [''file_read''])]" by code_simp
  from issued_certificate_addressed [OF demo_issuing_reach demo_lawful demo_grant_sound _ fresh task out] queue
  show ?thesis by simp
qed

section \<open>Status replies\<close>

lemma status_reply_facts:
  assumes "lawful_certlib (lb_certs lib)"
    and "ws_out (handleCertStatusRequest lib ev s pl st) = ws_out st @ [(to, CertStatusResponseOut reply)]"
  shows "to = s \<and> (\<exists>did a token body cert holder eff.
     map_of (ws_bySender st) s = Some did \<and> map_of (ws_connected st) did = Some a \<and> pl = Some token
     \<and> verifyCertStatusRequestCert (lb_certs lib) (ca_remoteVid a) token = Some body
     \<and> cert_findByIdWithActor (sr_certId body) (ws_db st) = Some (cert, holder)
     \<and> eff = resolveCertStatus (as_resolvable cert) (as_actor holder) (ev_armed ev) (ev_registry ev) (ev_now ev)
     \<and> openCert (lb_certs lib) (lb_serverVid lib) reply
         = Some (CertStatusResponse \<lparr>sp_certId = c_id cert, sp_agentDid = c_agentDid cert,
             sp_status = es_status eff, sp_capabilities = es_capabilities eff,
             sp_resourceLimits = c_resourceLimits cert, sp_scope = c_scope cert,
             sp_checkedAt = ev_now ev, sp_expiresAt = c_expiresAt cert\<rparr>))"
  using assms(2)
  by (auto simp: handleCertStatusRequest_def sendMessage_def sendError_def uncaught_def Let_def
      signCertStatusResponseCert_def split: option.splits if_splits prod.splits
      dest!: openCert_signCert [OF assms(1)])

text \<open>C5 (functional). A status reply goes to the asking socket only, and only when it is authenticated
  and its connection's identity signed the request; with a lawful certificate library the reply opens
  under the server's identity to the asked certificate's ledger row, with the status and the
  capabilities the server computes from the row, its holder, the armed set and the registry.\<close>

theorem status_reply_accurate:
  assumes "lawful_certlib (lb_certs lib)"
    and "ws_out (handleCertStatusRequest lib ev s pl st) = ws_out st @ [(to, CertStatusResponseOut reply)]"
  shows "to = s \<and> (\<exists>did a token body cert holder eff.
     map_of (ws_bySender st) s = Some did \<and> map_of (ws_connected st) did = Some a \<and> pl = Some token
     \<and> verifyCertStatusRequestCert (lb_certs lib) (ca_remoteVid a) token = Some body
     \<and> cert_findByIdWithActor (sr_certId body) (ws_db st) = Some (cert, holder)
     \<and> eff = resolveCertStatus (as_resolvable cert) (as_actor holder) (ev_armed ev) (ev_registry ev) (ev_now ev)
     \<and> openCert (lb_certs lib) (lb_serverVid lib) reply
         = Some (CertStatusResponse \<lparr>sp_certId = c_id cert, sp_agentDid = c_agentDid cert,
             sp_status = es_status eff, sp_capabilities = es_capabilities eff,
             sp_resourceLimits = c_resourceLimits cert, sp_scope = c_scope cert,
             sp_checkedAt = ev_now ev, sp_expiresAt = c_expiresAt cert\<rparr>))"
  using assms by (rule status_reply_facts)

definition demo_cert :: certificate_row where
  "demo_cert =
     \<lparr>c_id = ''k'', c_agentDid = ''did:a'', c_workspaceId = None, c_capabilities = [''file_read''],
      c_resourceLimits = None, c_scope = None, c_certFormat = ''packcert'', c_certificate = ''t'',
      c_requestCertificate = None, c_status = Active, c_issuedBy = None, c_issuedAt = 0, c_expiresAt = None,
      c_revokedAt = None, c_revokedBy = None, c_revokedReason = None\<rparr>"

definition demo_asking :: "(string, byte list, unit) ws_state" where
  "demo_asking = (ws_start (demo_db\<lparr>tb_certs := [demo_cert]\<rparr>))
     \<lparr>ws_bySender := [(0, ''did:a'')], ws_open := [0], ws_live := [0],
      ws_connected := [(''did:a'', \<lparr>ca_did = ''did:a'', ca_name = ''a'', ca_kind = ''openclaw'', ca_sender = 0,
        ca_remoteVid = ''did:a'', ca_connectedAt = 1000, ca_lastSeen = 1000\<rparr>)]\<rparr>"

definition demo_payloads :: "cert_payload list" where
  "demo_payloads =
     [CertStatusRequest \<lparr>sr_certId = ''k'', sr_requesterDid = ''did:a'', sr_nonce = ''n'', sr_issuedAt = 0\<rparr>,
      CertStatusResponse \<lparr>sp_certId = ''k'', sp_agentDid = ''did:a'', sp_status = Active,
        sp_capabilities = [''file_read''], sp_resourceLimits = None, sp_scope = None, sp_checkedAt = 1000,
        sp_expiresAt = None\<rparr>]"

definition demo_asking_lib :: "(string, byte list, unit) ws_lib" where
  "demo_asking_lib = demo_lib\<lparr>lb_certs := demo_certs demo_payloads\<rparr>"

definition demo_pack :: "byte list \<Rightarrow> string" where
  "demo_pack b = (case packCert b b of None \<Rightarrow> [] | Some t \<Rightarrow> t)"

lemma demo_pack_some: "packCert [x] [x] = Some (demo_pack [x])"
  by (simp add: demo_pack_def packCert_def writeUInt32LE_def)

lemma demo_open: "openCert (demo_certs ps) vid (demo_pack [x]) = msgpackDecode (table_certlib ps) [x]"
  by (simp add: openCert_def unpackCert_packCert [OF demo_pack_some] demo_certs_def)

lemma demo_asking_rows:
  "map_of (ws_bySender demo_asking) 0 = Some ''did:a''"
  "map_of (ws_connected demo_asking) ''did:a'' = Some \<lparr>ca_did = ''did:a'', ca_name = ''a'', ca_kind = ''openclaw'',
      ca_sender = 0, ca_remoteVid = ''did:a'', ca_connectedAt = 1000, ca_lastSeen = 1000\<rparr>"
  "cert_findByIdWithActor i (ws_db demo_asking) = (if i = ''k'' then Some (demo_cert, demo_actor) else None)"
  by (simp_all add: demo_asking_def ws_start_def cert_findByIdWithActor_def demo_db_def row_find_def
      demo_cert_def demo_actor_def)

lemma demo_asking_status:
  "resolveCertStatus (as_resolvable demo_cert) (as_actor demo_actor) (ev_armed (demo_env 0))
     (ev_registry (demo_env 0)) 1000 = \<lparr>es_status = Active, es_capabilities = [''file_read'']\<rparr>"
  by code_simp

lemma demo_asking_request:
  "verifyCertStatusRequestCert (lb_certs demo_asking_lib) vid (demo_pack [0])
     = Some \<lparr>sr_certId = ''k'', sr_requesterDid = ''did:a'', sr_nonce = ''n'', sr_issuedAt = 0\<rparr>"
  by (simp add: verifyCertStatusRequestCert_def demo_asking_lib_def demo_open table_certlib_def demo_payloads_def)

lemma demo_asking_lawful: "lawful_certlib (lb_certs demo_asking_lib)"
  by (simp add: demo_asking_lib_def demo_certs_lawful)

lemma demo_asking_reply:
  "ws_out (handleCertStatusRequest demo_asking_lib (demo_env 0) 0 (Some (demo_pack [0])) demo_asking)
     = ws_out demo_asking @ [(0, CertStatusResponseOut (demo_pack [1]))]"
proof -
  have signed: "signCertStatusResponseCert (lb_certs demo_asking_lib) 1000 vid
      \<lparr>spi_certId = ''k'', spi_agentDid = ''did:a'', spi_status = Active, spi_capabilities = [''file_read''],
       spi_resourceLimits = None, spi_scope = None, spi_expiresAt = None\<rparr> = Some (demo_pack [1])" for vid
    by (simp add: signCertStatusResponseCert_def signCert_def demo_asking_lib_def demo_certs_def table_certlib_def
        demo_payloads_def demo_pack_some)
  show ?thesis
    using demo_asking_rows demo_asking_request demo_asking_status signed
    by (simp add: handleCertStatusRequest_def Let_def sendMessage_def demo_cert_def demo_env_def)
       (simp add: demo_asking_def)
qed

theorem status_reply_accurate_witness:
  "\<exists>reply. openCert (lb_certs demo_asking_lib) (lb_serverVid demo_asking_lib) reply = Some (demo_payloads ! 1)"
  using status_reply_accurate [OF demo_asking_lawful demo_asking_reply] demo_asking_rows demo_asking_request
    demo_asking_status
  by (auto simp: demo_env_def demo_payloads_def demo_cert_def split: if_splits)

section \<open>The push after arming\<close>

lemma open_close: "ws_open (closeSender s st) = filter (\<lambda>x. x \<noteq> s) (ws_open st)"
proof -
  have "removeAll s l = filter (\<lambda>x. x \<noteq> s) l" for l :: "nat list"
    by (induction l) auto
  then show ?thesis by (simp add: closeSender_def)
qed

lemma fold_close_open:
  "ws_open (fold (\<lambda>a s. closeSender (f a) (sendMessage (f a) m s)) as st)
     = filter (\<lambda>s. \<not> list_ex (\<lambda>a. f a = s) as) (ws_open st)"
proof (induction as arbitrary: st)
  case (Cons a as)
  show ?case by (simp add: Cons open_close) (rule filter_cong; auto)
qed simp

lemma row_find_kept:
  "k \<in> set ks \<Longrightarrow> row_find key k (filter (\<lambda>r. key r \<in> set ks) rows) = row_find key k rows"
  by (induction rows) (auto simp: row_find_def)

lemma global_covers: "ks_global st \<noteq> None \<Longrightarrow> suppressionForActor \<lparr>sa_kind = k, sa_workspaceId = w\<rparr> st
    = suppressionForActor \<lparr>sa_kind = k, sa_workspaceId = w'\<rparr> st"
  by (auto simp: suppressionForActor_def suppressionFor_def)

text \<open>Arming pushes to exactly the connected Actors the armed set covers, judged by the kind
  of the connection and the workspace of the Actor's row, whether or not the code fetched the rows;
  and after the push exactly the sockets of those Actors have left the open state.\<close>

lemma armed_push:
  "set (coveredActors ev st)
     = {a \<in> snd ` set (ws_connected st).
          suppressionForActor
            \<lparr>sa_kind = ca_kind a, sa_workspaceId = Option.bind (actor_findByDid (ca_did a) (ws_db st)) a_workspaceId\<rparr>
            (ev_armed ev) \<noteq> None}
   \<and> ws_open (snd (notifyKillSwitchArmed ev krow st))
     = filter (\<lambda>s. \<not> list_ex (\<lambda>a. ca_sender a = s) (coveredActors ev st)) (ws_open st)
   \<and> fst (notifyKillSwitchArmed ev krow st) = length (coveredActors ev st)"
proof (intro conjI)
  let ?dids = "map (\<lambda>(_, a). ca_did a) (ws_connected st)"
  have same: "row_find a_did (ca_did a) (actor_findManyByDid ?dids (ws_db st)) = actor_findByDid (ca_did a) (ws_db st)"
    if "(d, a) \<in> set (ws_connected st)" for d a
    unfolding actor_findManyByDid_def actor_findByDid_def by (rule row_find_kept) (use that in force)
  show "set (coveredActors ev st)
     = {a \<in> snd ` set (ws_connected st).
          suppressionForActor
            \<lparr>sa_kind = ca_kind a, sa_workspaceId = Option.bind (actor_findByDid (ca_did a) (ws_db st)) a_workspaceId\<rparr>
            (ev_armed ev) \<noteq> None}"
  proof (cases "ks_global (ev_armed ev)")
    case None
    then show ?thesis using same by (auto simp: coveredActors_def)
  next
    case (Some g)
    then show ?thesis
      using global_covers [of "ev_armed ev"] by (auto simp: coveredActors_def row_find_def) (metis option.distinct(1))+
  qed
  show "ws_open (snd (notifyKillSwitchArmed ev krow st))
     = filter (\<lambda>s. \<not> list_ex (\<lambda>a. ca_sender a = s) (coveredActors ev st)) (ws_open st)"
    by (simp add: notifyKillSwitchArmed_def Let_def fold_close_open)
qed (simp add: notifyKillSwitchArmed_def Let_def)

section \<open>Deferred writes\<close>

definition names_missing :: "db \<Rightarrow> status_check_input list \<Rightarrow> bool" where
  "names_missing d rows = list_ex (\<lambda>r. row_find c_id (si_certId r) (tb_certs d) = None) rows"

lemma recordBatch_missing: "names_missing d rows \<Longrightarrow> check_recordBatch rows d = Inl ForeignKeyViolation"
  by (auto simp: names_missing_def list_ex_iff check_recordBatch_def)

lemma add_checks_ids:
  "sc_id ` set (fold (\<lambda>r t. case row_insert sc_id (check_row r) t of Inl _ \<Rightarrow> t | Inr t' \<Rightarrow> t') rows t)
     = sc_id ` set t \<union> si_id ` set rows"
proof (induction rows arbitrary: t)
  case (Cons r rows)
  show ?case
  proof (cases "row_insert sc_id (check_row r) t")
    case (Inl e)
    then have "si_id r \<in> sc_id ` set t"
      by (auto simp: row_insert_def check_row_def row_find_None_iff throw_when_def intro: rev_image_eqI split: if_splits)
    then show ?thesis using Inl by (auto simp: Cons)
  next
    case (Inr t')
    then have "sc_id ` set t' = insert (si_id r) (sc_id ` set t)"
      by (auto simp: row_insert_Inr check_row_def)
    with Inr show ?thesis by (simp add: Cons)
  qed
qed simp

lemma recordBatch_present:
  "\<not> names_missing d rows \<Longrightarrow> \<exists>n d'. check_recordBatch rows d = Inr (n, d') \<and> sc_id ` set (tb_checks d') = sc_id ` set (tb_checks d) \<union> si_id ` set rows"
  by (auto simp: names_missing_def list_ex_iff check_recordBatch_def Let_def add_checks_ids)

lemma touchBatch_fields:
  "tb_certs (snd (actor_touchLastSeenBatch now dids d)) = tb_certs d"
  "tb_checks (snd (actor_touchLastSeenBatch now dids d)) = tb_checks d"
  by (simp_all add: actor_touchLastSeenBatch_def)

text \<open>A flush empties both buffers, and writes the buffered status checks all or not at
  all: when a single one of them names a certificate that is gone, the stored checks stay as they
  were and the whole batch is lost, else every buffered check has its row.\<close>

theorem flush_all_or_nothing:
  "ws_checks (flushDeferredWrites ev st) = [] \<and> ws_lastSeen (flushDeferredWrites ev st) = []
   \<and> sc_id ` set (tb_checks (ws_db (flushDeferredWrites ev st)))
     = sc_id ` set (tb_checks (ws_db st)) \<union> (if names_missing (ws_db st) (ws_checks st) then {} else si_id ` set (ws_checks st))"
proof -
  define st1 where "st1 = (if ws_lastSeen st = [] then st
      else st\<lparr>ws_lastSeen := [], ws_db := snd (actor_touchLastSeenBatch (ev_now ev) (ws_lastSeen st) (ws_db st))\<rparr>)"
  have s1: "ws_lastSeen st1 = []" "ws_checks st1 = ws_checks st" "tb_checks (ws_db st1) = tb_checks (ws_db st)"
    "names_missing (ws_db st1) = names_missing (ws_db st)"
    by (auto simp: st1_def touchBatch_fields names_missing_def fun_eq_iff)
  have f: "flushDeferredWrites ev st = (if ws_checks st1 = [] then st1
      else st1\<lparr>ws_checks := [], ws_db := (case check_recordBatch (ws_checks st1) (ws_db st1) of
                              Inl _ \<Rightarrow> ws_db st1 | Inr (n, d') \<Rightarrow> d')\<rparr>)"
    unfolding flushDeferredWrites_def st1_def Let_def by (rule refl)
  show ?thesis
  proof (cases "names_missing (ws_db st) (ws_checks st)")
    case True
    then have "ws_checks st1 \<noteq> []" using s1 by (auto simp: names_missing_def)
    with True s1 recordBatch_missing [of "ws_db st1" "ws_checks st1"] show ?thesis by (simp add: f)
  next
    case False
    with s1 recordBatch_present [of "ws_db st1" "ws_checks st1"] show ?thesis by (auto simp: f)
  qed
qed

section \<open>The sweep\<close>

lemma approved_for_some:
  assumes "r \<in> set (pending_findApprovedUndeliveredForDids dids d)"
  shows "p_did r \<in> set dids" and "pending_findApprovedUndelivered (p_did r) d \<noteq> None"
proof -
  from assms have r: "r \<in> set (tb_pending d)" "p_did r \<in> set dids" "awaits_delivery r"
    by (auto simp: pending_findApprovedUndeliveredForDids_def split: if_splits)
  then show "p_did r \<in> set dids" by simp
  have "set (sort_key p_createdAt (filter (\<lambda>x. p_did x = p_did r \<and> awaits_delivery x) (tb_pending d))) \<noteq> {}"
    using r by auto
  then show "pending_findApprovedUndelivered (p_did r) d \<noteq> None"
    by (auto simp: pending_findApprovedUndelivered_def simp del: set_sort split: list.splits)
qed

text \<open>A sweep queues at most a hundred deliveries and none while one is running; each is for a
  DID that has a live socket, has an approved grant not yet delivered, and is not in the middle of a
  certificate exchange.\<close>

theorem sweep_eligible:
  "\<exists>new. ws_tasks (sweepUndeliveredGrants st) = ws_tasks st @ map SweepTask new \<and> length new \<le> 100
     \<and> \<not> (ws_sweeping st \<and> new \<noteq> [])
     \<and> list_all (\<lambda>did. did \<in> set (reachableDids st) \<and> did \<notin> set (didsMidCertificateExchange st)
                  \<and> pending_findApprovedUndelivered did (ws_db st) \<noteq> None) new"
proof -
  let ?pending = "pending_findApprovedUndeliveredForDids (reachableDids st) (ws_db st)"
  let ?batch = "take DELIVERY_SWEEP_BATCH (filter (\<lambda>reg. p_did reg \<notin> set (didsMidCertificateExchange st)) ?pending)"
  have all: "list_all (\<lambda>did. did \<in> set (reachableDids st) \<and> did \<notin> set (didsMidCertificateExchange st)
                  \<and> pending_findApprovedUndelivered did (ws_db st) \<noteq> None) (map p_did ?batch)"
    using approved_for_some [of _ "reachableDids st" "ws_db st"]
    by (auto simp: list_all_iff dest!: in_set_takeD)
  have len: "length (map p_did ?batch) \<le> 100" by (simp add: DELIVERY_SWEEP_BATCH_def)
  show ?thesis
  proof (cases "ws_sweeping st \<or> ?batch = []")
    case True
    then show ?thesis by (intro exI [of _ "[]"]) (auto simp: sweepUndeliveredGrants_def Let_def)
  next
    case False
    then show ?thesis using all len
      by (intro exI [of _ "map p_did ?batch"]) (simp add: sweepUndeliveredGrants_def Let_def)
  qed
qed

end
