(* ===== verification/SdkState.thy ===== *)
theory SdkState
  imports WsState
begin

text \<open>
  The client runtime of the SDK (\<open>packages/sdk/src/actor-runtime.ts\<close>): its state, the handshake
  wrapper (\<open>handshake.ts\<close>), the persisted state (\<open>cap-state.ts\<close>) and the capability manifest
  (\<open>capability-manifest.ts\<close>). The frames are those of the server's protocol, of which
  \<open>packages/sdk/src/protocol.ts\<close> is the mirror: what the server sends is what the runtime receives.

  The Challenger, the identities and the URL parser of the socket library are the parameters of
  \<open>client_lib\<close> (\<open>None\<close> is a throw). A file is modelled as the value a reader finds in it, which is what
  the typed view of its JSON can distinguish. Log lines are left out; emitted events are kept in
  \<open>rt_events\<close> and sent frames in \<open>rt_sent\<close>.
\<close>

section \<open>Wire payloads\<close>

record actor_config =
  ac_kindConfig :: json
  ac_grantToken :: "string option"
  ac_ruleSetToken :: "string option"
  ac_failClosed :: bool
  ac_maxStatusAgeSeconds :: int

datatype sdk_frame = Garbled | Frame "actor_config ws_out_msg" | UnknownFrame string

section \<open>Handshakes (handshake.ts)\<close>

record ('vid, 'ch) client_lib =
  cb_certs :: "'vid certlib"
  cb_challenger :: "('vid, 'ch) challenger_lib"
  cb_create :: "'ch \<Rightarrow> string \<Rightarrow> string \<Rightarrow> 'ch"
  cb_contact :: "'ch \<Rightarrow> 'vid option"
  cb_did :: "'vid \<Rightarrow> string"
  cb_v1 :: "'vid \<Rightarrow> 'vid"
  cb_fromSecret :: "string \<Rightarrow> 'vid option"
  cb_getSecret :: "'vid \<Rightarrow> string"
  cb_urlValid :: "string \<Rightarrow> bool"

definition certificateBase64 :: "('vid, 'ch) client_lib \<Rightarrow> 'ch \<Rightarrow> string" where
  "certificateBase64 L c =
     (if ch_bytes (cb_challenger L) c = [] then [] else toBase64 (ch_bytes (cb_challenger L) c))"

text \<open>\<open>new Handshake(vid)\<close> and \<open>start(service)\<close>.\<close>

definition handshakeStart :: "('vid, 'ch) client_lib \<Rightarrow> 'vid \<Rightarrow> string \<Rightarrow> 'ch \<times> string" where
  "handshakeStart L vid service =
     (let c = cb_create L (ch_new (cb_challenger L) (cb_v1 L vid)) ''p2p'' service in (c, certificateBase64 L c))"

text \<open>The challenger afterwards, and the next round or the text of a \<open>HandshakeError\<close>.\<close>

definition handshakeAccept :: "('vid, 'ch) client_lib \<Rightarrow> 'ch \<Rightarrow> string \<Rightarrow> 'ch \<times> (string, string) result" where
  "handshakeAccept L c dataBase64 =
     (case ch_update (cb_challenger L) c (fromBase64 dataBase64) of
        None \<Rightarrow> (c, Inl ''update failed'')
      | Some c' \<Rightarrow>
          if ch_failed (cb_challenger L) c'
          then (c', Inl (case ch_error (cb_challenger L) c' of None \<Rightarrow> ''Challenge failed'' | Some e \<Rightarrow> e))
          else (c', Inr (certificateBase64 L c')))"

section \<open>The identity file (identity.ts)\<close>

text \<open>The identity or the throw, and the file afterwards; a new identity is the argument \<open>generated\<close>.\<close>

definition loadOrCreateIdentity ::
  "('vid, 'ch) client_lib \<Rightarrow> 'vid \<Rightarrow> string option \<Rightarrow> 'vid option \<times> string option" where
  "loadOrCreateIdentity L generated file =
     (case file of
        Some secret \<Rightarrow> (map_option (cb_v1 L) (cb_fromSecret L (js_trim secret)), file)
      | None \<Rightarrow> (Some (cb_v1 L generated), Some (cb_getSecret L (cb_v1 L generated))))"

section \<open>The capability manifest (capability-manifest.ts)\<close>

record capability_manifest =
  mf_declares :: "declared_capability list"
  mf_bindings :: "(string \<times> string) list"

definition EMPTY_MANIFEST :: capability_manifest where
  "EMPTY_MANIFEST = \<lparr>mf_declares = [], mf_bindings = []\<rparr>"

datatype manifest_error =
    NotAnObject | UnsupportedVersion | DeclaresNotArray | DeclareNotObject | DeclareNoName
  | BadName capability_error | DeclaredTwice string | BindingsNotObject | BindingNotString string
  | BindingUndeclared string string | ManifestNotFound | ManifestNotJson

fun json_string :: "json option \<Rightarrow> string option" where
  "json_string (Some (JStr s)) = Some s"
| "json_string _ = None"

text \<open>\<open>v ?? fallback\<close>.\<close>

fun json_or :: "json \<Rightarrow> json option \<Rightarrow> json" where
  "json_or fallback (Some JNull) = fallback"
| "json_or fallback (Some v) = v"
| "json_or fallback None = fallback"

definition is_json_object :: "json \<Rightarrow> bool" where
  "is_json_object j = (case j of JObj _ \<Rightarrow> True | JArr _ \<Rightarrow> True | _ \<Rightarrow> False)"

definition valid_name :: "string \<Rightarrow> (manifest_error, unit) result" where
  "valid_name name = (case assertValidCapabilityName name of Inl e \<Rightarrow> Inl (BadName e) | Inr u \<Rightarrow> Inr u)"

fun parse_declares ::
  "json list \<Rightarrow> declared_capability list \<Rightarrow> (manifest_error, declared_capability list) result" where
  "parse_declares [] declares = Inr declares"
| "parse_declares (e # es) declares =
     (if \<not> is_json_object e then Inl DeclareNotObject
      else case json_string (js_field ''name'' e) of
             None \<Rightarrow> Inl DeclareNoName
           | Some name \<Rightarrow>
               bind_result (valid_name name) (\<lambda>_.
                 if name \<in> dc_name ` set declares then Inl (DeclaredTwice name)
                 else parse_declares es (declares @
                        [\<lparr>dc_name = name, dc_label = json_string (js_field ''label'' e),
                          dc_description = json_string (js_field ''description'' e)\<rparr>])))"

text \<open>
  Assigning a string to \<open>bindings["__proto__"]\<close> leaves an object unchanged, so that operation stays
  unbound.
\<close>

fun parse_bindings ::
  "string set \<Rightarrow> (string \<times> json) list \<Rightarrow> (string \<times> string) list
     \<Rightarrow> (manifest_error, (string \<times> string) list) result" where
  "parse_bindings seen [] bindings = Inr bindings"
| "parse_bindings seen ((operation, v) # es) bindings =
     (case v of
        JStr capability \<Rightarrow>
          bind_result (valid_name capability) (\<lambda>_.
            if capability \<notin> seen then Inl (BindingUndeclared operation capability)
            else parse_bindings seen es
                   (if operation = ''__proto__'' then bindings else map_set operation capability bindings))
      | _ \<Rightarrow> Inl (BindingNotString operation))"

definition parseCapabilityManifest :: "json \<Rightarrow> (manifest_error, capability_manifest) result" where
  "parseCapabilityManifest raw =
     (if \<not> is_json_object raw then Inl NotAnObject
      else if js_field ''version'' raw \<noteq> Some (JNum 1) then Inl UnsupportedVersion
      else case json_or (JArr []) (js_field ''declares'' raw) of
             JArr entries \<Rightarrow>
               bind_result (parse_declares entries []) (\<lambda>declares.
                 case json_or (JObj []) (js_field ''bindings'' raw) of
                   JObj members \<Rightarrow>
                     bind_result (parse_bindings (dc_name ` set declares) members []) (\<lambda>bindings.
                       Inr \<lparr>mf_declares = declares, mf_bindings = bindings\<rparr>)
                 | _ \<Rightarrow> Inl BindingsNotObject)
           | _ \<Rightarrow> Inl DeclaresNotArray)"

datatype manifest_file = NoManifestFile | GarbledManifest | ManifestFile json

text \<open>\<open>None\<close> is "no path configured".\<close>

definition loadCapabilityManifest :: "manifest_file option \<Rightarrow> (manifest_error, capability_manifest) result" where
  "loadCapabilityManifest path =
     (case path of
        None \<Rightarrow> Inr EMPTY_MANIFEST
      | Some NoManifestFile \<Rightarrow> Inl ManifestNotFound
      | Some GarbledManifest \<Rightarrow> Inl ManifestNotJson
      | Some (ManifestFile parsed) \<Rightarrow> parseCapabilityManifest parsed)"

section \<open>The persisted state (cap-state.ts)\<close>

text \<open>
  \<open>st_certId = None\<close> is an id that is no string, \<open>st_capabilities = None\<close> capabilities that are no array;
  in the other optional fields \<open>None\<close> is an absent or null property.
\<close>

record state_certificate =
  st_certId :: "string option"
  st_certificate :: string
  st_capabilities :: "string list option"
  st_lastStatus :: "certificate_status option"
  st_lastCheckedAt :: "int option"
  st_issuedAt :: "int option"
  st_expiresAt :: "int option"
  st_resourceLimits :: "resource_limits option"
  st_scope :: "cert_scope option"

text \<open>
  \<open>MalformedState\<close> is JSON that is falsy or whose \<open>certificates\<close> is no array; an entry \<open>None\<close> is falsy.
\<close>

datatype state_file = NoStateFile | GarbledState | MalformedState | StateFile "state_certificate option list"

datatype state_error = StateNotJson | StateMalformed

definition well_formed_entry :: "state_certificate option \<Rightarrow> bool" where
  "well_formed_entry c =
     (case c of None \<Rightarrow> False | Some s \<Rightarrow> st_certId s \<noteq> None \<and> st_capabilities s \<noteq> None)"

definition loadCapabilityState ::
  "state_file option \<Rightarrow> (state_error, state_certificate list option) result" where
  "loadCapabilityState path =
     (case path of
        None \<Rightarrow> Inr None
      | Some NoStateFile \<Rightarrow> Inr None
      | Some GarbledState \<Rightarrow> Inl StateNotJson
      | Some MalformedState \<Rightarrow> Inl StateMalformed
      | Some (StateFile entries) \<Rightarrow>
          if list_all well_formed_entry entries then Inr (Some (map the entries)) else Inl StateMalformed)"

text \<open>The file after the write: nothing without a path, and \<open>None\<close> when the write throws.\<close>

definition saveCapabilityState ::
  "bool \<Rightarrow> state_certificate list \<Rightarrow> state_file option \<Rightarrow> state_file option option" where
  "saveCapabilityState writable certs path =
     (case path of
        None \<Rightarrow> Some None
      | Some _ \<Rightarrow> if writable then Some (Some (StateFile (map Some certs))) else None)"

section \<open>The runtime's state (actor-runtime.ts)\<close>

datatype actor_status = Idle | Connecting | Registering | PendingApproval | Connected | Disconnected

datatype change_reason =
    CertificateIssuedR | CertificateRevokedR | CapabilityDeletedR | CapabilityCreatedR
  | CapabilityUpdatedR | StatusRefreshR | KillSwitchR | AdminUpdateR

fun reason_of_change :: "changed_reason \<Rightarrow> change_reason" where
  "reason_of_change CertificateIssued = CertificateIssuedR"
| "reason_of_change CertificateRevoked = CertificateRevokedR"
| "reason_of_change CapabilityDeleted = CapabilityDeletedR"
| "reason_of_change AdminUpdate = AdminUpdateR"

fun reason_of_registry :: "registry_reason \<Rightarrow> change_reason" where
  "reason_of_registry RegCreated = CapabilityCreatedR"
| "reason_of_registry RegDeleted = CapabilityDeletedR"
| "reason_of_registry RegUpdated = CapabilityUpdatedR"

record capability_change =
  ch_current :: "string list"
  ch_added :: "string list"
  ch_removed :: "string list"
  ch_reason :: change_reason
  ch_certIds :: "string list option"

datatype runtime_event =
    StatusEv actor_status
  | PendingEv string
  | ConnectedEv string
  | CertificateEv string string "string list"
  | CapabilityChangeEv capability_change
  | CapabilitiesEv "string list"
  | ConfigEv actor_config
  | MessageEv sdk_frame
  | ErrorEv string

text \<open>The fields of \<open>ActorRuntimeConfig\<close> the runtime reads; \<open>cf_statePath\<close> is whether a path is configured.\<close>

record runtime_config =
  cf_name :: string
  cf_kind :: string
  cf_url :: string
  cf_requestedCapabilities :: "string list option"
  cf_autoReconnect :: "bool option"
  cf_heartbeatIntervalMs :: "int option"
  cf_reconnectBaseDelayMs :: "int option"
  cf_reconnectMaxDelayMs :: "int option"
  cf_manifestFile :: "manifest_file option"
  cf_stateFile :: "state_file option"

definition DEFAULT_heartbeatIntervalMs :: int where "DEFAULT_heartbeatIntervalMs = 30000"

definition DEFAULT_reconnectBaseDelayMs :: int where "DEFAULT_reconnectBaseDelayMs = 1000"

definition DEFAULT_reconnectMaxDelayMs :: int where "DEFAULT_reconnectMaxDelayMs = 30000"

definition DEFAULT_fallbackStatusIntervalMs :: int where "DEFAULT_fallbackStatusIntervalMs = 300000"

record held_certificate =
  hc_certId :: string
  hc_certificate :: string
  hc_capabilities :: "string list"
  hc_resourceLimits :: "resource_limits option"
  hc_scope :: "cert_scope option"
  hc_status :: "certificate_status option"
  hc_lastCheckedAt :: "int option"
  hc_issuedAt :: int
  hc_expiresAt :: "int option"

text \<open>
  Who awaits a refresh of all statuses: nobody (the timer and the reconnect), \<open>onCapabilitiesChanged\<close>
  with the names before and its payload, or \<open>checkPermission\<close> with its action and the times the
  certificates had last been checked.
\<close>

datatype refresh_cont =
    NoCont
  | ChangedCont "string list" changed_reason "string list option"
  | CheckCont requested_action "(string \<times> int option) list"

record refresh =
  rf_index :: nat
  rf_any :: bool
  rf_cont :: refresh_cont

text \<open>Where an iteration of \<open>runLoop\<close> is suspended: on its socket, or on its back-off delay.\<close>

datatype run_loop = AwaitSocket nat | AwaitDelay int

text \<open>
  \<open>rt_connecting\<close>, \<open>rt_open\<close>, \<open>rt_live\<close>: the sockets before \<open>open\<close>, the ones in state OPEN, and the ones
  whose \<open>close\<close> event is still to come. \<open>rt_heartbeat\<close> and \<open>rt_statusTimer\<close> hold the interval of an armed
  timer, \<open>rt_pending\<close> the waiters of \<open>pendingStatusChecks\<close> with the refresh each one resumes,
  \<open>rt_deferred\<close> the refreshes due on the next tick, \<open>rt_decisions\<close> the answers \<open>checkPermission\<close> gave.
\<close>

record ('vid, 'ch) runtime =
  rt_manifest :: capability_manifest
  rt_vaultysId :: "'vid option"
  rt_ws :: "nat option"
  rt_connecting :: "nat list"
  rt_open :: "nat list"
  rt_live :: "nat list"
  rt_authHandshake :: "'ch option"
  rt_authSessionId :: "string option"
  rt_certHandshake :: "'ch option"
  rt_certSessionId :: "string option"
  rt_did :: "string option"
  rt_capabilityNames :: "string list"
  rt_certId :: "string option"
  rt_certificate :: "string option"
  rt_certificates :: "(string \<times> held_certificate) list"
  rt_staples :: "(string \<times> string) list"
  rt_actorConfig :: "actor_config option"
  rt_status :: actor_status
  rt_requested :: bool
  rt_heartbeat :: "int option"
  rt_reconnectAttempts :: nat
  rt_stopped :: bool
  rt_loops :: "run_loop list"
  rt_serverVid :: "'vid option"
  rt_lastStatus :: "certificate_status option"
  rt_lastCheckedAt :: "int option"
  rt_statusTimer :: "int option"
  rt_nextReason :: "change_reason option"
  rt_pending :: "(string \<times> refresh) list"
  rt_deferred :: nat
  rt_stateFile :: "state_file option"
  rt_sent :: "(nat \<times> ws_in_msg) list"
  rt_events :: "runtime_event list"
  rt_decisions :: "(requested_action \<times> permission_decision) list"

text \<open>What differs from call to call: clock, random nonce, the socket a connection gets, and whether the state file can be written.\<close>

record sdk_env =
  ee_now :: int
  ee_nonce :: string
  ee_socket :: nat
  ee_writable :: bool

section \<open>Facts\<close>

lemma valid_name_Inr: "valid_name n = Inr u \<longleftrightarrow> isBuiltinCapability n \<or> isCustomCapability n"
  using assertValid_Inr_iff [of n] by (auto simp: valid_name_def split: sum.splits)

definition names_ok :: "declared_capability list \<Rightarrow> bool" where
  "names_ok ds \<longleftrightarrow> distinct (map dc_name ds)
     \<and> list_all (\<lambda>d. isBuiltinCapability (dc_name d) \<or> isCustomCapability (dc_name d)) ds"

lemma parse_declares_ok: "parse_declares es ds = Inr ds' \<Longrightarrow> names_ok ds \<Longrightarrow> names_ok ds'"
proof (induction es ds rule: parse_declares.induct)
  case (2 e es ds)
  then show ?case by (auto simp: names_ok_def valid_name_Inr split: if_splits option.splits)
qed simp

lemma parse_bindings_ok:
  "parse_bindings seen es bs = Inr bs' \<Longrightarrow> distinct (map fst bs) \<Longrightarrow> snd ` set bs \<subseteq> seen \<Longrightarrow>
     ''__proto__'' \<notin> fst ` set bs \<Longrightarrow>
     distinct (map fst bs') \<and> snd ` set bs' \<subseteq> seen \<and> ''__proto__'' \<notin> fst ` set bs'"
proof (induction seen es bs rule: parse_bindings.induct)
  case (2 seen operation v es bs)
  have upd: "snd ` set m \<subseteq> seen \<Longrightarrow> c \<in> seen \<Longrightarrow> snd ` set (map_set k c m) \<subseteq> seen" for k c m
    by (induction m) auto
  from 2 show ?case
    by (cases v) (auto simp: distinct_update dom_update upd split: if_splits)
qed simp

text \<open>C20 (type). A manifest that is accepted is well typed: every declared name is a built-in or a legal custom
  capability and is declared once, every operation is bound once and to a declared capability, and no
  operation carries the name that object assignment would swallow.\<close>

theorem manifest_well_typed:
  assumes "loadCapabilityManifest path = Inr m"
  shows "distinct (map dc_name (mf_declares m))
    \<and> list_all (\<lambda>d. isBuiltinCapability (dc_name d) \<or> isCustomCapability (dc_name d)) (mf_declares m)
    \<and> distinct (map fst (mf_bindings m))
    \<and> snd ` set (mf_bindings m) \<subseteq> dc_name ` set (mf_declares m)
    \<and> ''__proto__'' \<notin> fst ` set (mf_bindings m)"
proof -
  have "names_ok (mf_declares m) \<and> distinct (map fst (mf_bindings m))
      \<and> snd ` set (mf_bindings m) \<subseteq> dc_name ` set (mf_declares m) \<and> ''__proto__'' \<notin> fst ` set (mf_bindings m)"
    if "parseCapabilityManifest raw = Inr m" for raw
  proof -
    from that obtain es members where d: "parse_declares es [] = Inr (mf_declares m)"
      and b: "parse_bindings (dc_name ` set (mf_declares m)) members [] = Inr (mf_bindings m)"
      by (cases "json_or (JObj []) (js_field ''bindings'' raw)")
         (auto simp: parseCapabilityManifest_def split: if_splits json.splits)
    from parse_declares_ok [OF d] parse_bindings_ok [OF b] show ?thesis by (simp add: names_ok_def)
  qed
  with assms show ?thesis
    by (auto simp: loadCapabilityManifest_def names_ok_def EMPTY_MANIFEST_def split: option.splits manifest_file.splits)
qed

definition sample_manifest :: json where
  "sample_manifest = JObj [(''version'', JNum 1),
     (''declares'', JArr [JObj [(''name'', JStr ''acme:invoice.approve''), (''label'', JStr ''Approve'')]]),
     (''bindings'', JObj [(''erp_approve'', JStr ''acme:invoice.approve''), (''__proto__'', JStr ''acme:invoice.approve'')])]"

theorem manifest_well_typed_witness:
  "case loadCapabilityManifest (Some (ManifestFile sample_manifest)) of
     Inl _ \<Rightarrow> False
   | Inr m \<Rightarrow> mf_bindings m = [(''erp_approve'', ''acme:invoice.approve'')] \<and> ''__proto__'' \<notin> fst ` set (mf_bindings m)"
proof -
  have accepted: "loadCapabilityManifest (Some (ManifestFile sample_manifest)) = Inr
      \<lparr>mf_declares = [\<lparr>dc_name = ''acme:invoice.approve'', dc_label = Some ''Approve'', dc_description = None\<rparr>],
       mf_bindings = [(''erp_approve'', ''acme:invoice.approve'')]\<rparr>"
    by code_simp
  from manifest_well_typed [OF accepted] show ?thesis by (simp add: accepted)
qed

text \<open>The second start finds the identity the first one wrote.\<close>

lemma identity_reloaded:
  assumes "cb_fromSecret L (js_trim (cb_getSecret L (cb_v1 L v))) = Some (cb_v1 L v)"
    and "cb_v1 L (cb_v1 L v) = cb_v1 L v"
  shows "fst (loadOrCreateIdentity L w (snd (loadOrCreateIdentity L v None))) = fst (loadOrCreateIdentity L v None)"
  using assms by (simp add: loadOrCreateIdentity_def)

end
