(* ===== verification/SdkRuntime.thy ===== *)
theory SdkRuntime
  imports SdkState
begin

text \<open>
  The methods of \<open>ActorRuntime\<close> (\<open>packages/sdk/src/actor-runtime.ts\<close>), each a function of the library,
  the configuration, the call's environment and the runtime. A method that may throw also returns the
  text of the error.

  The one await another event can come between is that of a status reply: a refresh of all statuses is
  suspended there as an entry of \<open>rt_pending\<close> and resumed by the reply, the time-out or \<open>stop\<close>. The
  awaits on signing and on the Challenger run to completion. An \<open>error\<close> listener is assumed: without
  one, the emitter of Node throws.
\<close>

section \<open>Sending and events\<close>

definition emit :: "runtime_event \<Rightarrow> ('vid, 'ch) runtime \<Rightarrow> ('vid, 'ch) runtime" where
  "emit e R = R\<lparr>rt_events := rt_events R @ [e]\<rparr>"

definition is_open :: "('vid, 'ch) runtime \<Rightarrow> bool" where
  "is_open R = (case rt_ws R of None \<Rightarrow> False | Some s \<Rightarrow> s \<in> set (rt_open R))"

definition sendRaw :: "ws_in_msg \<Rightarrow> ('vid, 'ch) runtime \<Rightarrow> ('vid, 'ch) runtime" where
  "sendRaw msg R =
     (case rt_ws R of
        None \<Rightarrow> R
      | Some s \<Rightarrow> if s \<in> set (rt_open R) then R\<lparr>rt_sent := rt_sent R @ [(s, msg)]\<rparr> else R)"

text \<open>The public \<open>send\<close>, which throws where \<open>sendRaw\<close> is silent.\<close>

definition send :: "ws_in_msg \<Rightarrow> ('vid, 'ch) runtime \<Rightarrow> (unit, ('vid, 'ch) runtime) result" where
  "send msg R = (if is_open R then Inr (sendRaw msg R) else Inl ())"

definition startHeartbeat :: "runtime_config \<Rightarrow> ('vid, 'ch) runtime \<Rightarrow> ('vid, 'ch) runtime" where
  "startHeartbeat C R =
     R\<lparr>rt_heartbeat := Some (case cf_heartbeatIntervalMs C of None \<Rightarrow> DEFAULT_heartbeatIntervalMs | Some i \<Rightarrow> i)\<rparr>"

definition clearHeartbeat :: "('vid, 'ch) runtime \<Rightarrow> ('vid, 'ch) runtime" where
  "clearHeartbeat R = R\<lparr>rt_heartbeat := None\<rparr>"

definition setStatus :: "actor_status \<Rightarrow> ('vid, 'ch) runtime \<Rightarrow> ('vid, 'ch) runtime" where
  "setStatus s R = (if rt_status R = s then R else emit (StatusEv s) (R\<lparr>rt_status := s\<rparr>))"

definition toWsUrl :: "string \<Rightarrow> string" where
  "toWsUrl url =
     (if starts_with url ''ws://'' \<or> starts_with url ''wss://'' then url
      else if starts_with url ''https://'' then ''wss://'' @ drop (length ''https://'') url
      else if starts_with url ''http://'' then ''ws://'' @ drop (length ''http://'') url
      else url)"

section \<open>Freshness\<close>

definition failClosed :: "('vid, 'ch) runtime \<Rightarrow> bool" where
  "failClosed R = (case rt_actorConfig R of None \<Rightarrow> True | Some c \<Rightarrow> ac_failClosed c)"

text \<open>\<open>None\<close> is unbounded.\<close>

definition maxStatusAgeMs :: "('vid, 'ch) runtime \<Rightarrow> int option" where
  "maxStatusAgeMs R =
     (case rt_actorConfig R of
        None \<Rightarrow> Some DEFAULT_fallbackStatusIntervalMs
      | Some c \<Rightarrow> if ac_maxStatusAgeSeconds c < 0 then None else Some (ac_maxStatusAgeSeconds c * 1000))"

definition isCertStatusFresh :: "int \<Rightarrow> held_certificate \<Rightarrow> ('vid, 'ch) runtime \<Rightarrow> bool" where
  "isCertStatusFresh now cert R =
     (case maxStatusAgeMs R of
        None \<Rightarrow> True
      | Some maxAge \<Rightarrow>
          (case hc_lastCheckedAt cert of
             None \<Rightarrow> False
           | Some t \<Rightarrow> if maxAge = 0 then False else now - t \<le> maxAge))"

definition allStatusesFresh :: "int \<Rightarrow> ('vid, 'ch) runtime \<Rightarrow> bool" where
  "allStatusesFresh now R =
     (rt_certificates R \<noteq> [] \<and> list_all (\<lambda>(k, cert). isCertStatusFresh now cert R) (rt_certificates R))"

text \<open>The last certificate among those issued latest.\<close>

definition later_issued :: "held_certificate \<Rightarrow> held_certificate option \<Rightarrow> held_certificate option" where
  "later_issued cert current =
     (case current of
        None \<Rightarrow> Some cert
      | Some c \<Rightarrow> if hc_issuedAt cert \<ge> hc_issuedAt c then Some cert else Some c)"

definition currentCertificate :: "('vid, 'ch) runtime \<Rightarrow> held_certificate option" where
  "currentCertificate R = fold later_issued (map snd (rt_certificates R)) None"

definition isStatusFresh :: "int \<Rightarrow> ('vid, 'ch) runtime \<Rightarrow> bool" where
  "isStatusFresh now R =
     (case currentCertificate R of None \<Rightarrow> False | Some cert \<Rightarrow> isCertStatusFresh now cert R)"

section \<open>The snapshot of held capabilities\<close>

definition authorizing :: "certificate_status option \<Rightarrow> bool" where
  "authorizing status = (status = None \<or> status = Some Active)"

definition add_unseen :: "string \<Rightarrow> string list \<Rightarrow> string list" where
  "add_unseen c seen = (if c \<in> set seen then seen else seen @ [c])"

definition usable_capabilities :: "(string \<times> held_certificate) list \<Rightarrow> string list" where
  "usable_capabilities certs =
     fold (\<lambda>(k, cert) acc. if authorizing (hc_status cert) then fold add_unseen (hc_capabilities cert) acc else acc)
       certs []"

definition syncCertificateSnapshot :: "('vid, 'ch) runtime \<Rightarrow> ('vid, 'ch) runtime" where
  "syncCertificateSnapshot R =
     (let current = currentCertificate R in
      R\<lparr>rt_certId := map_option hc_certId current, rt_certificate := map_option hc_certificate current,
        rt_lastStatus := Option.bind current hc_status,
        rt_lastCheckedAt := Option.bind current hc_lastCheckedAt,
        rt_capabilityNames := usable_capabilities (rt_certificates R)\<rparr>)"

definition saved_form :: "held_certificate \<Rightarrow> state_certificate" where
  "saved_form cert =
     \<lparr>st_certId = Some (hc_certId cert), st_certificate = hc_certificate cert,
      st_capabilities = Some (hc_capabilities cert), st_lastStatus = hc_status cert,
      st_lastCheckedAt = hc_lastCheckedAt cert, st_issuedAt = Some (hc_issuedAt cert),
      st_expiresAt = hc_expiresAt cert, st_resourceLimits = hc_resourceLimits cert, st_scope = hc_scope cert\<rparr>"

definition persistCapabilityState :: "sdk_env \<Rightarrow> ('vid, 'ch) runtime \<Rightarrow> ('vid, 'ch) runtime" where
  "persistCapabilityState E R =
     (if rt_certificates R = [] then R
      else case saveCapabilityState (ee_writable E) (map (saved_form \<circ> snd) (rt_certificates R)) (rt_stateFile R) of
             None \<Rightarrow> emit (ErrorEv ''Could not persist capability state'') R
           | Some file \<Rightarrow>
               (let current = currentCertificate R in
                R\<lparr>rt_stateFile := file, rt_certId := map_option hc_certId current,
                  rt_certificate := map_option hc_certificate current\<rparr>))"

definition emitCapabilityChange ::
  "string list \<Rightarrow> change_reason \<Rightarrow> string list option \<Rightarrow> bool \<Rightarrow> ('vid, 'ch) runtime \<Rightarrow> ('vid, 'ch) runtime" where
  "emitCapabilityChange before why certIds emitIfUnchanged R =
     (let current = rt_capabilityNames R;
          added = filter (\<lambda>c. c \<notin> set before) current;
          removed = filter (\<lambda>c. c \<notin> set current) before
      in if added = [] \<and> removed = [] \<and> \<not> emitIfUnchanged then R
         else emit (CapabilityChangeEv
                \<lparr>ch_current = current, ch_added = added, ch_removed = removed, ch_reason = why,
                 ch_certIds = (case certIds of None \<Rightarrow> None | Some ids \<Rightarrow> if ids = [] then None else Some ids)\<rparr>) R)"

definition capabilitySetChanged :: "string list \<Rightarrow> string list \<Rightarrow> bool" where
  "capabilitySetChanged before after =
     (length before \<noteq> length after \<or> list_ex (\<lambda>(x, y). x \<noteq> y) (zip before after))"

section \<open>Public reads\<close>

definition getDid :: "('vid, 'ch) client_lib \<Rightarrow> ('vid, 'ch) runtime \<Rightarrow> string option" where
  "getDid L R =
     (case rt_did R of
        Some d \<Rightarrow> Some d
      | None \<Rightarrow> map_option (\<lambda>v. cb_did L (cb_v1 L v)) (rt_vaultysId R))"

definition hasCapability_rt :: "string \<Rightarrow> ('vid, 'ch) runtime \<Rightarrow> bool" where
  "hasCapability_rt capability R = (capability \<in> set (rt_capabilityNames R))"

text \<open>
  \<open>activeCerts\<close>: with \<open>checkedAfter\<close> a certificate counts when its check time differs from the one noted,
  otherwise staleness excludes it when failing closed. The map yields undefined for a certificate it
  lacks, which is never equal to a check time.
\<close>

definition gate_passed ::
  "int \<Rightarrow> (string \<times> int option) list option \<Rightarrow> ('vid, 'ch) runtime \<Rightarrow> held_certificate \<Rightarrow> bool" where
  "gate_passed now checkedAfter R cert =
     (case checkedAfter of
        Some noted \<Rightarrow> map_of noted (hc_certId cert) \<noteq> Some (hc_lastCheckedAt cert)
      | None \<Rightarrow> isCertStatusFresh now cert R \<or> \<not> failClosed R)"

definition lite :: "('vid, 'ch) client_lib \<Rightarrow> ('vid, 'ch) runtime \<Rightarrow> held_certificate \<Rightarrow> capability_certificate_lite" where
  "lite L R cert =
     \<lparr>cl_id = hc_certId cert, cl_agentDid = (case getDid L R of None \<Rightarrow> [] | Some d \<Rightarrow> d),
      cl_capabilities = hc_capabilities cert, cl_resourceLimits = hc_resourceLimits cert,
      cl_scope = hc_scope cert, cl_status = Active, cl_issuedAt = hc_issuedAt cert,
      cl_expiresAt = hc_expiresAt cert, cl_usedCount = None\<rparr>"

definition activeCerts ::
  "('vid, 'ch) client_lib \<Rightarrow> int \<Rightarrow> (string \<times> int option) list option \<Rightarrow> ('vid, 'ch) runtime
     \<Rightarrow> capability_certificate_lite list" where
  "activeCerts L now checkedAfter R =
     map (lite L R)
       (filter (\<lambda>cert. hc_capabilities cert \<noteq> [] \<and> authorizing (hc_status cert) \<and> gate_passed now checkedAfter R cert)
          (map snd (rt_certificates R)))"

definition resolvePermission_rt ::
  "('vid, 'ch) client_lib \<Rightarrow> requested_action \<Rightarrow> int \<Rightarrow> ('vid, 'ch) runtime \<Rightarrow> permission_decision" where
  "resolvePermission_rt L action now R = resolvePermission action (activeCerts L now None R) now"

text \<open>
  The names every object inherits are found in \<open>bindings\<close> too, but as values no certificate lists; they
  are left unbound here, which denies them likewise.
\<close>

definition capabilityFor :: "string \<Rightarrow> ('vid, 'ch) runtime \<Rightarrow> string option" where
  "capabilityFor operation R = map_of (mf_bindings (rt_manifest R)) operation"

definition missingCapabilities :: "('vid, 'ch) runtime \<Rightarrow> declared_capability list" where
  "missingCapabilities R =
     filter (\<lambda>d. dc_name d \<notin> set (rt_capabilityNames R)) (mf_declares (rt_manifest R))"

definition getCertStatus :: "int \<Rightarrow> ('vid, 'ch) runtime \<Rightarrow> certificate_status option \<times> int option \<times> bool" where
  "getCertStatus now R = (rt_lastStatus R, rt_lastCheckedAt R, isStatusFresh now R)"

definition getStatusStaple :: "('vid, 'ch) runtime \<Rightarrow> string option" where
  "getStatusStaple R =
     (case currentCertificate R of None \<Rightarrow> None | Some c \<Rightarrow> map_of (rt_staples R) (hc_certId c))"

section \<open>The constructor\<close>

definition held_of :: "state_certificate \<Rightarrow> held_certificate" where
  "held_of c =
     \<lparr>hc_certId = (case st_certId c of None \<Rightarrow> [] | Some i \<Rightarrow> i), hc_certificate = st_certificate c,
      hc_capabilities = (case st_capabilities c of None \<Rightarrow> [] | Some cs \<Rightarrow> cs),
      hc_resourceLimits = st_resourceLimits c, hc_scope = st_scope c, hc_status = st_lastStatus c,
      hc_lastCheckedAt = st_lastCheckedAt c,
      hc_issuedAt = (case st_issuedAt c of None \<Rightarrow> 0 | Some i \<Rightarrow> i), hc_expiresAt = st_expiresAt c\<rparr>"

definition blank_runtime :: "capability_manifest \<Rightarrow> state_file option \<Rightarrow> ('vid, 'ch) runtime" where
  "blank_runtime m file =
     \<lparr>rt_manifest = m, rt_vaultysId = None, rt_ws = None, rt_connecting = [], rt_open = [], rt_live = [],
      rt_authHandshake = None, rt_authSessionId = None, rt_certHandshake = None, rt_certSessionId = None,
      rt_did = None, rt_capabilityNames = [], rt_certId = None, rt_certificate = None,
      rt_certificates = [], rt_staples = [], rt_actorConfig = None, rt_status = Idle,
      rt_requested = False, rt_heartbeat = None, rt_reconnectAttempts = 0, rt_stopped = False,
      rt_loops = [], rt_serverVid = None, rt_lastStatus = None, rt_lastCheckedAt = None,
      rt_statusTimer = None, rt_nextReason = None, rt_pending = [], rt_deferred = 0, rt_stateFile = file,
      rt_sent = [], rt_events = [], rt_decisions = []\<rparr>"

datatype construct_error = BadManifest manifest_error | BadState state_error

definition construct :: "runtime_config \<Rightarrow> (construct_error, ('vid, 'ch) runtime) result" where
  "construct C =
     (case loadCapabilityManifest (cf_manifestFile C) of
        Inl e \<Rightarrow> Inl (BadManifest e)
      | Inr m \<Rightarrow>
          (case loadCapabilityState (cf_stateFile C) of
             Inl e \<Rightarrow> Inl (BadState e)
           | Inr None \<Rightarrow> Inr (blank_runtime m (cf_stateFile C))
           | Inr (Some certs) \<Rightarrow>
               Inr (syncCertificateSnapshot
                 ((blank_runtime m (cf_stateFile C))\<lparr>rt_certificates :=
                    fold (\<lambda>c. map_set (hc_certId (held_of c)) (held_of c)) certs []\<rparr>))))"

end
