(* ===== verification/SdkHandlers.thy ===== *)
theory SdkHandlers
  imports SdkRuntime
begin

text \<open>
  The rest of \<open>ActorRuntime\<close> (\<open>packages/sdk/src/actor-runtime.ts\<close>): the status refresh and its
  continuations, the message handlers, and the connection life cycle.
\<close>

section \<open>The control plane's identity\<close>

definition isComplete :: "('vid, 'ch) client_lib \<Rightarrow> 'ch option \<Rightarrow> bool" where
  "isComplete L h = (case h of None \<Rightarrow> False | Some c \<Rightarrow> ch_complete (cb_challenger L) c)"

definition serverVid :: "('vid, 'ch) client_lib \<Rightarrow> ('vid, 'ch) runtime \<Rightarrow> 'vid option" where
  "serverVid L R =
     (case rt_serverVid R of
        Some v \<Rightarrow> Some v
      | None \<Rightarrow>
          (case rt_authHandshake R of
             None \<Rightarrow> None
           | Some c \<Rightarrow>
               if \<not> ch_complete (cb_challenger L) c then None
               else map_option (cb_v1 L) (cb_contact L c)))"

definition cacheServerVid :: "('vid, 'ch) client_lib \<Rightarrow> ('vid, 'ch) runtime \<Rightarrow> ('vid, 'ch) runtime" where
  "cacheServerVid L R = R\<lparr>rt_serverVid := serverVid L R\<rparr>"

section \<open>Applying a status, and the timer\<close>

definition applyCertStatus ::
  "sdk_env \<Rightarrow> cert_status_response_body \<Rightarrow> ('vid, 'ch) runtime \<Rightarrow> ('vid, 'ch) runtime" where
  "applyCertStatus E body R =
     (case map_of (rt_certificates R) (sp_certId body) of
        None \<Rightarrow> R
      | Some cert \<Rightarrow>
          let before = rt_capabilityNames R;
              cert' = cert\<lparr>hc_status := Some (sp_status body), hc_lastCheckedAt := Some (sp_checkedAt body),
                           hc_capabilities := sp_capabilities body, hc_resourceLimits := sp_resourceLimits body,
                           hc_scope := sp_scope body, hc_expiresAt := sp_expiresAt body\<rparr>;
              R1 = syncCertificateSnapshot
                     (R\<lparr>rt_certificates := map_set (sp_certId body) cert' (rt_certificates R)\<rparr>);
              changed = capabilitySetChanged before (rt_capabilityNames R1);
              R2 = persistCapabilityState E R1
          in if changed then
               emitCapabilityChange before
                 (case rt_nextReason R2 of None \<Rightarrow> StatusRefreshR | Some r \<Rightarrow> r) (Some [sp_certId body]) False
                 (emit (CapabilitiesEv (rt_capabilityNames R2)) R2)
             else R2)"

definition scheduleStatusChecks :: "('vid, 'ch) runtime \<Rightarrow> ('vid, 'ch) runtime" where
  "scheduleStatusChecks R =
     R\<lparr>rt_statusTimer :=
         (case maxStatusAgeMs R of
            None \<Rightarrow> None
          | Some maxAge \<Rightarrow> if maxAge = 0 then None else Some (max 1000 (maxAge div 2)))\<rparr>"

definition maybeRequestCapabilities ::
  "runtime_config \<Rightarrow> bool \<Rightarrow> ('vid, 'ch) runtime \<Rightarrow> ('vid, 'ch) runtime" where
  "maybeRequestCapabilities C force R =
     (let wanted = (case cf_requestedCapabilities C of None \<Rightarrow> [] | Some w \<Rightarrow> w);
          missing = filter (\<lambda>c. c \<notin> set (rt_capabilityNames R)) wanted
      in if (\<not> force \<and> rt_requested R) \<or> missing = [] then R
         else sendRaw (CapabilityReq (Some missing)) (R\<lparr>rt_requested := True\<rparr>))"

section \<open>The status refresh\<close>

text \<open>
  \<open>refreshOneCertStatus\<close> up to its await: \<open>False\<close> when it returns false at once, \<open>True\<close> when the request
  is out and a waiter has to be registered under the nonce.
\<close>

definition refreshOneCertStatus ::
  "('vid, 'ch) client_lib \<Rightarrow> sdk_env \<Rightarrow> string \<Rightarrow> ('vid, 'ch) runtime \<Rightarrow> bool \<times> ('vid, 'ch) runtime" where
  "refreshOneCertStatus L E certId R =
     (case rt_vaultysId R of
        None \<Rightarrow> (False, R)
      | Some vid \<Rightarrow>
          let R1 = cacheServerVid L R in
          if rt_serverVid R1 = None then (False, R1)
          else if \<not> is_open R1 then (False, R1)
          else case signCertStatusRequestCert (cb_certs L) (ee_now E) vid
                      \<lparr>sri_certId = certId,
                       sri_requesterDid = (case getDid L R1 of None \<Rightarrow> [] | Some d \<Rightarrow> d),
                       sri_nonce = ee_nonce E\<rparr> of
                 None \<Rightarrow> (False, emit (ErrorEv ''signing failed'') R1)
               | Some token \<Rightarrow> (True, sendRaw (CertStatusReq (Some token)) R1))"

text \<open>What the awaiting caller does with the outcome of a refresh.\<close>

definition finishRefresh ::
  "('vid, 'ch) client_lib \<Rightarrow> runtime_config \<Rightarrow> sdk_env \<Rightarrow> refresh_cont \<Rightarrow> bool
     \<Rightarrow> ('vid, 'ch) runtime \<Rightarrow> ('vid, 'ch) runtime" where
  "finishRefresh L C E k refreshed R =
     (case k of
        NoCont \<Rightarrow> R
      | ChangedCont before why certIds \<Rightarrow>
          let R1 = R\<lparr>rt_nextReason := None\<rparr>;
              R2 = (if capabilitySetChanged before (rt_capabilityNames R1) then R1
                    else emitCapabilityChange before (reason_of_change why) certIds True R1)
          in maybeRequestCapabilities C True R2
      | CheckCont action noted \<Rightarrow>
          R\<lparr>rt_decisions := rt_decisions R @
              [(action, if refreshed then resolvePermission action (activeCerts L (ee_now E) (Some noted) R) (ee_now E)
                        else resolvePermission_rt L action (ee_now E) R)]\<rparr>)"

lemma refreshOne_certificates [simp]:
  "rt_certificates (snd (refreshOneCertStatus L E c R)) = rt_certificates R"
  by (auto simp: refreshOneCertStatus_def cacheServerVid_def emit_def sendRaw_def Let_def split: option.splits)

text \<open>
  The loop of \<open>refreshCertStatus\<close> over the keys of \<open>certificates\<close> (whose iterator is live), from index
  \<open>rf_index\<close>: it runs to the end or to the next request, whose waiter resumes the loop behind it.
\<close>

function (sequential) refreshFrom ::
  "('vid, 'ch) client_lib \<Rightarrow> runtime_config \<Rightarrow> sdk_env \<Rightarrow> refresh \<Rightarrow> ('vid, 'ch) runtime \<Rightarrow> ('vid, 'ch) runtime" where
  "refreshFrom L C E f R =
     (if rf_index f \<ge> length (rt_certificates R) then finishRefresh L C E (rf_cont f) (rf_any f) R
      else case refreshOneCertStatus L E (fst (rt_certificates R ! rf_index f)) R of
             (sent, R') \<Rightarrow>
               if sent
               then R'\<lparr>rt_pending := map_set (ee_nonce E) (f\<lparr>rf_index := Suc (rf_index f)\<rparr>) (rt_pending R')\<rparr>
               else refreshFrom L C E (f\<lparr>rf_index := Suc (rf_index f)\<rparr>) R')"
  by pat_completeness auto
termination
  by (relation "measure (\<lambda>(L, C, E, f, R). length (rt_certificates R) - rf_index f)")
     (auto dest: arg_cong [where f = "\<lambda>p. rt_certificates (snd p)"])

declare refreshFrom.simps [simp del]

definition refreshCertStatus ::
  "('vid, 'ch) client_lib \<Rightarrow> runtime_config \<Rightarrow> sdk_env \<Rightarrow> refresh_cont \<Rightarrow> ('vid, 'ch) runtime \<Rightarrow> ('vid, 'ch) runtime" where
  "refreshCertStatus L C E k R =
     (if rt_certificates R = [] \<or> rt_vaultysId R = None then finishRefresh L C E k False R
      else refreshFrom L C E \<lparr>rf_index = 0, rf_any = False, rf_cont = k\<rparr> R)"

text \<open>The await of a reply settles: with the body, or with an error.\<close>

definition resolveWaiter ::
  "('vid, 'ch) client_lib \<Rightarrow> runtime_config \<Rightarrow> sdk_env \<Rightarrow> refresh \<Rightarrow> cert_status_response_body
     \<Rightarrow> ('vid, 'ch) runtime \<Rightarrow> ('vid, 'ch) runtime" where
  "resolveWaiter L C E f body R = refreshFrom L C E (f\<lparr>rf_any := True\<rparr>) (applyCertStatus E body R)"

definition timeoutStatusCheck ::
  "('vid, 'ch) client_lib \<Rightarrow> runtime_config \<Rightarrow> sdk_env \<Rightarrow> string \<Rightarrow> ('vid, 'ch) runtime \<Rightarrow> ('vid, 'ch) runtime" where
  "timeoutStatusCheck L C E nonce R =
     (case map_of (rt_pending R) nonce of
        None \<Rightarrow> R
      | Some f \<Rightarrow> refreshFrom L C E f (R\<lparr>rt_pending := map_remove nonce (rt_pending R)\<rparr>))"

definition onCertStatusResponse ::
  "('vid, 'ch) client_lib \<Rightarrow> runtime_config \<Rightarrow> sdk_env \<Rightarrow> string \<Rightarrow> ('vid, 'ch) runtime \<Rightarrow> ('vid, 'ch) runtime" where
  "onCertStatusResponse L C E token R =
     (let R1 = cacheServerVid L R in
      case rt_serverVid R1 of
        None \<Rightarrow> emit (ErrorEv ''Received cert_status_response before the server identity was established'') R1
      | Some server \<Rightarrow>
          let maxAge = (case maxStatusAgeMs R1 of None \<Rightarrow> None | Some a \<Rightarrow> if a = 0 then None else Some a) in
          case verifyCertStatusResponseCert (cb_certs L) (ee_now E) server token maxAge of
            None \<Rightarrow>
              let complain = emit (ErrorEv ''Discarded an unverifiable cert_status_response'') in
              (case rt_pending R1 of
                 [] \<Rightarrow> complain R1
               | (nonce, f) # rest \<Rightarrow> refreshFrom L C E f (complain (R1\<lparr>rt_pending := rest\<rparr>)))
          | Some body \<Rightarrow>
              let R2 = (if map_has (rt_certificates R1) (sp_certId body)
                        then R1\<lparr>rt_staples := map_set (sp_certId body) token (rt_staples R1)\<rparr> else R1) in
              (case rt_pending R2 of
                 [] \<Rightarrow> applyCertStatus E body R2
               | (nonce, f) # rest \<Rightarrow> resolveWaiter L C E f body (R2\<lparr>rt_pending := rest\<rparr>)))"

text \<open>\<open>checkPermission\<close>: its answer goes to \<open>rt_decisions\<close>.\<close>

definition checkPermission ::
  "('vid, 'ch) client_lib \<Rightarrow> runtime_config \<Rightarrow> sdk_env \<Rightarrow> requested_action \<Rightarrow> ('vid, 'ch) runtime
     \<Rightarrow> ('vid, 'ch) runtime" where
  "checkPermission L C E action R =
     (if \<not> allStatusesFresh (ee_now E) R then
        refreshCertStatus L C E
          (CheckCont action (map (\<lambda>(k, cert). (k, hc_lastCheckedAt cert)) (rt_certificates R))) R
      else R\<lparr>rt_decisions := rt_decisions R @ [(action, resolvePermission_rt L action (ee_now E) R)]\<rparr>)"

text \<open>\<open>Some\<close> is an immediate answer; with \<open>None\<close> the answer is the decision of \<open>checkPermission\<close>.\<close>

definition isOperationAllowed ::
  "('vid, 'ch) client_lib \<Rightarrow> runtime_config \<Rightarrow> sdk_env \<Rightarrow> string \<Rightarrow> string option \<Rightarrow> ('vid, 'ch) runtime
     \<Rightarrow> bool option \<times> ('vid, 'ch) runtime" where
  "isOperationAllowed L C E operation res R =
     (if \<not> truthy (capabilityFor operation R) then (Some False, R)
      else (None, checkPermission L C E
              \<lparr>ra_capability = the (capabilityFor operation R), ra_resource = res\<rparr> R))"

section \<open>Message handlers\<close>

definition onAuthChallenge ::
  "('vid, 'ch) client_lib \<Rightarrow> string \<Rightarrow> string \<Rightarrow> ('vid, 'ch) runtime \<Rightarrow> ('vid, 'ch) runtime \<times> string option" where
  "onAuthChallenge L sessionId data R =
     (case rt_authHandshake R of
        None \<Rightarrow>
          (case rt_vaultysId R of
             None \<Rightarrow> (R\<lparr>rt_authSessionId := Some sessionId\<rparr>, Some ''no identity'')
           | Some vid \<Rightarrow>
               (case handshakeStart L vid ''auth'' of
                  (c, first) \<Rightarrow>
                    (sendRaw (AuthChallenge (Some \<lparr>cp_sessionId = sessionId, cp_data = first\<rparr>))
                       (R\<lparr>rt_authSessionId := Some sessionId, rt_authHandshake := Some c\<rparr>), None)))
      | Some c \<Rightarrow>
          if Some sessionId \<noteq> rt_authSessionId R then (R, Some ''auth_challenge for an unknown session'')
          else if ch_complete (cb_challenger L) c then (R, None)
          else case handshakeAccept L c data of
                 (c', Inl e) \<Rightarrow> (R\<lparr>rt_authHandshake := Some c'\<rparr>, Some e)
               | (c', Inr next_round) \<Rightarrow>
                   (let R1 = R\<lparr>rt_authHandshake := Some c'\<rparr> in
                    (if next_round = [] then R1
                     else sendRaw (AuthChallenge (Some \<lparr>cp_sessionId = sessionId, cp_data = next_round\<rparr>)) R1, None)))"

definition onAuthComplete ::
  "runtime_config \<Rightarrow> string \<Rightarrow> ('vid, 'ch) runtime \<Rightarrow> ('vid, 'ch) runtime" where
  "onAuthComplete C did R =
     (let R1 = emit (ConnectedEv did) (startHeartbeat C (setStatus Connected (R\<lparr>rt_did := Some did\<rparr>)));
          R2 = maybeRequestCapabilities C False R1;
          R3 = (if rt_certificates R2 \<noteq> [] then R2\<lparr>rt_deferred := rt_deferred R2 + 1\<rparr> else R2)
      in scheduleStatusChecks R3)"

definition onRegistrationPending ::
  "runtime_config \<Rightarrow> string \<Rightarrow> ('vid, 'ch) runtime \<Rightarrow> ('vid, 'ch) runtime" where
  "onRegistrationPending C registrationId R =
     maybeRequestCapabilities C False (emit (PendingEv registrationId) (setStatus PendingApproval R))"

definition onCertChallenge ::
  "('vid, 'ch) client_lib \<Rightarrow> string \<Rightarrow> string \<Rightarrow> ('vid, 'ch) runtime \<Rightarrow> ('vid, 'ch) runtime \<times> string option" where
  "onCertChallenge L sessionId data R =
     (case rt_certHandshake R of
        None \<Rightarrow>
          (case rt_vaultysId R of
             None \<Rightarrow> (R\<lparr>rt_certSessionId := Some sessionId\<rparr>, Some ''no identity'')
           | Some vid \<Rightarrow>
               (case handshakeStart L vid ''certificate'' of
                  (c, first) \<Rightarrow>
                    (sendRaw (CertChallenge (Some \<lparr>cp_sessionId = sessionId, cp_data = first\<rparr>))
                       (R\<lparr>rt_certSessionId := Some sessionId, rt_certHandshake := Some c\<rparr>), None)))
      | Some c \<Rightarrow>
          if Some sessionId \<noteq> rt_certSessionId R then (R, Some ''cert_challenge for an unknown session'')
          else if ch_complete (cb_challenger L) c then (R, None)
          else case handshakeAccept L c data of
                 (c', Inl e) \<Rightarrow> (R\<lparr>rt_certHandshake := Some c'\<rparr>, Some e)
               | (c', Inr next_round) \<Rightarrow>
                   (let R1 = R\<lparr>rt_certHandshake := Some c'\<rparr> in
                    (if next_round = [] then R1
                     else sendRaw (CertChallenge (Some \<lparr>cp_sessionId = sessionId, cp_data = next_round\<rparr>)) R1, None)))"

definition onCertIssued ::
  "sdk_env \<Rightarrow> string \<Rightarrow> string \<Rightarrow> string list \<Rightarrow> ('vid, 'ch) runtime \<Rightarrow> ('vid, 'ch) runtime" where
  "onCertIssued E certId certificate capabilities R =
     (let before = rt_capabilityNames R;
          cert = \<lparr>hc_certId = certId, hc_certificate = certificate, hc_capabilities = capabilities,
                  hc_resourceLimits = None, hc_scope = None, hc_status = Some Active,
                  hc_lastCheckedAt = Some (ee_now E), hc_issuedAt = ee_now E, hc_expiresAt = None\<rparr>;
          R1 = (syncCertificateSnapshot (R\<lparr>rt_certificates := map_set certId cert (rt_certificates R)\<rparr>))
                 \<lparr>rt_certHandshake := None, rt_certSessionId := None\<rparr>;
          R2 = emit (CertificateEv certId certificate capabilities) (persistCapabilityState E R1);
          R3 = (if capabilitySetChanged before (rt_capabilityNames R2)
                then emitCapabilityChange before CertificateIssuedR (Some [certId]) False
                       (emit (CapabilitiesEv (rt_capabilityNames R2)) R2)
                else R2)
      in scheduleStatusChecks R3)"

definition onCapabilitiesChanged ::
  "('vid, 'ch) client_lib \<Rightarrow> runtime_config \<Rightarrow> sdk_env \<Rightarrow> changed_reason \<Rightarrow> string list option
     \<Rightarrow> ('vid, 'ch) runtime \<Rightarrow> ('vid, 'ch) runtime" where
  "onCapabilitiesChanged L C E why certIds R =
     refreshCertStatus L C E (ChangedCont (rt_capabilityNames R) why certIds)
       (R\<lparr>rt_nextReason := Some (reason_of_change why)\<rparr>)"

definition onCapabilityRegistryChanged ::
  "runtime_config \<Rightarrow> registry_reason \<Rightarrow> ('vid, 'ch) runtime \<Rightarrow> ('vid, 'ch) runtime" where
  "onCapabilityRegistryChanged C why R =
     maybeRequestCapabilities C True
       (emitCapabilityChange (rt_capabilityNames R) (reason_of_registry why) None True R)"

definition onKillSwitch :: "sdk_env \<Rightarrow> ('vid, 'ch) runtime \<Rightarrow> ('vid, 'ch) runtime" where
  "onKillSwitch E R =
     (let before = rt_capabilityNames R;
          certIds = map (\<lambda>(k, c). hc_certId c) (filter (\<lambda>(k, c). hc_status c \<noteq> Some Revoked) (rt_certificates R))
      in if certIds = [] then R
         else
           let R1 = persistCapabilityState E (syncCertificateSnapshot
                      (R\<lparr>rt_certificates := map (\<lambda>(k, c). (k, c\<lparr>hc_status := Some Revoked\<rparr>)) (rt_certificates R)\<rparr>))
           in emitCapabilityChange before KillSwitchR (Some certIds) True
                (emit (CapabilitiesEv (rt_capabilityNames R1)) R1))"

text \<open>\<open>handleMessage\<close>, and the \<open>catch\<close> of its caller, which emits what it throws.\<close>

definition thrown :: "('vid, 'ch) runtime \<times> string option \<Rightarrow> ('vid, 'ch) runtime" where
  "thrown r = (case r of (R, None) \<Rightarrow> R | (R, Some e) \<Rightarrow> emit (ErrorEv e) R)"

definition handleMessage_rt ::
  "('vid, 'ch) client_lib \<Rightarrow> runtime_config \<Rightarrow> sdk_env \<Rightarrow> sdk_frame \<Rightarrow> ('vid, 'ch) runtime \<Rightarrow> ('vid, 'ch) runtime" where
  "handleMessage_rt L C E frame R0 =
     (case frame of
        Garbled \<Rightarrow> emit (ErrorEv ''Received malformed JSON from control plane'') R0
      | UnknownFrame t \<Rightarrow> emit (MessageEv frame) R0
      | Frame message \<Rightarrow>
          let R = emit (MessageEv frame) R0 in
          (case message of
             AuthChallengeOut sessionId data \<Rightarrow> thrown (onAuthChallenge L sessionId data R)
           | AuthCompleteOut did \<Rightarrow> onAuthComplete C did R
           | AuthFailedOut why \<Rightarrow> emit (ErrorEv (''Authentication refused: '' @ why)) R
           | RegistrationPendingOut registrationId \<Rightarrow> onRegistrationPending C registrationId R
           | PongOut \<Rightarrow> R
           | CertStatusResponseOut token \<Rightarrow> onCertStatusResponse L C E token R
           | CertChallengeOut sessionId data \<Rightarrow> thrown (onCertChallenge L sessionId data R)
           | CertIssuedOut certId certificate capabilities \<Rightarrow> onCertIssued E certId certificate capabilities R
           | CertFailedOut why \<Rightarrow> emit (ErrorEv (''Certificate issuance failed: '' @ why)) R
           | CapabilitiesChangedOut why certIds \<Rightarrow> onCapabilitiesChanged L C E why certIds R
           | RegistryChangedOut why capability \<Rightarrow> onCapabilityRegistryChanged C why R
           | KillSwitchOut scope workspaceId why armedAt \<Rightarrow> onKillSwitch E R
           | ActorConfigOut cfg \<Rightarrow>
               emit (ConfigEv cfg) (scheduleStatusChecks (R\<lparr>rt_actorConfig := Some cfg\<rparr>))
           | ErrorOut why \<Rightarrow> emit (ErrorEv why) R))"

section \<open>The connection life cycle\<close>

definition backoff_delay :: "runtime_config \<Rightarrow> nat \<Rightarrow> int" where
  "backoff_delay C attempts =
     min (case cf_reconnectMaxDelayMs C of None \<Rightarrow> DEFAULT_reconnectMaxDelayMs | Some m \<Rightarrow> m)
         ((case cf_reconnectBaseDelayMs C of None \<Rightarrow> DEFAULT_reconnectBaseDelayMs | Some b \<Rightarrow> b) * 2 ^ attempts)"

definition backoff :: "runtime_config \<Rightarrow> ('vid, 'ch) runtime \<Rightarrow> ('vid, 'ch) runtime" where
  "backoff C R =
     R\<lparr>rt_loops := rt_loops R @ [AwaitDelay (backoff_delay C (rt_reconnectAttempts R))],
       rt_reconnectAttempts := rt_reconnectAttempts R + 1\<rparr>"

text \<open>The iteration of \<open>runLoop\<close> after \<open>connectOnce\<close> has settled: \<open>None\<close> resolved, \<open>Some\<close> rejected.\<close>

definition afterConnect :: "runtime_config \<Rightarrow> string option \<Rightarrow> ('vid, 'ch) runtime \<Rightarrow> ('vid, 'ch) runtime" where
  "afterConnect C failure R =
     (let R1 = (case failure of None \<Rightarrow> R\<lparr>rt_reconnectAttempts := 0\<rparr> | Some e \<Rightarrow> emit (ErrorEv e) R) in
      if rt_stopped R1 \<or> cf_autoReconnect C = Some False then R1 else backoff C R1)"

text \<open>\<open>connectOnce\<close> up to its await; a URL the socket constructor throws on rejects at once.\<close>

definition connectOnce ::
  "('vid, 'ch) client_lib \<Rightarrow> runtime_config \<Rightarrow> sdk_env \<Rightarrow> ('vid, 'ch) runtime \<Rightarrow> ('vid, 'ch) runtime" where
  "connectOnce L C E R =
     (let R1 = (setStatus Connecting R)
                 \<lparr>rt_requested := False, rt_authHandshake := None, rt_authSessionId := None,
                  rt_certHandshake := None, rt_certSessionId := None, rt_serverVid := None\<rparr>
      in if \<not> cb_urlValid L (toWsUrl (cf_url C)) then afterConnect C (Some ''Invalid URL'') R1
         else R1\<lparr>rt_ws := Some (ee_socket E), rt_connecting := rt_connecting R1 @ [ee_socket E],
                 rt_live := rt_live R1 @ [ee_socket E],
                 rt_loops := rt_loops R1 @ [AwaitSocket (ee_socket E)]\<rparr>)"

definition start ::
  "('vid, 'ch) client_lib \<Rightarrow> runtime_config \<Rightarrow> sdk_env \<Rightarrow> 'vid \<Rightarrow> ('vid, 'ch) runtime \<Rightarrow> ('vid, 'ch) runtime" where
  "start L C E vid R = connectOnce L C E (R\<lparr>rt_vaultysId := Some vid, rt_stopped := False\<rparr>)"

definition closeSocket :: "('vid, 'ch) runtime \<Rightarrow> ('vid, 'ch) runtime" where
  "closeSocket R =
     (case rt_ws R of
        None \<Rightarrow> R
      | Some s \<Rightarrow> R\<lparr>rt_open := removeAll s (rt_open R), rt_connecting := removeAll s (rt_connecting R)\<rparr>)"

definition dropConnection :: "('vid, 'ch) runtime \<Rightarrow> ('vid, 'ch) runtime" where
  "dropConnection R = closeSocket R"

text \<open>\<open>stop\<close>, then the refreshes whose waiters it rejected.\<close>

definition stop ::
  "('vid, 'ch) client_lib \<Rightarrow> runtime_config \<Rightarrow> sdk_env \<Rightarrow> ('vid, 'ch) runtime \<Rightarrow> ('vid, 'ch) runtime" where
  "stop L C E R =
     (let R1 = setStatus Idle
                 ((closeSocket (R\<lparr>rt_stopped := True, rt_heartbeat := None, rt_statusTimer := None, rt_pending := []\<rparr>))
                   \<lparr>rt_ws := None\<rparr>)
      in fold (\<lambda>(nonce, f). refreshFrom L C E f) (rt_pending R) R1)"

definition onOpen :: "runtime_config \<Rightarrow> nat \<Rightarrow> ('vid, 'ch) runtime \<Rightarrow> ('vid, 'ch) runtime" where
  "onOpen C s R =
     (let R1 = R\<lparr>rt_connecting := removeAll s (rt_connecting R), rt_open := rt_open R @ [s]\<rparr>;
          declares = mf_declares (rt_manifest R1)
      in sendRaw (Register (Some \<lparr>rp_name = Some (cf_name C), rp_kind = Some (cf_kind C),
                                  rp_declared = (if declares = [] then None else Some declares)\<rparr>))
           (setStatus Registering R1))"

text \<open>A settled promise stays settled: only the loop still awaiting the socket goes on.\<close>

definition settle :: "runtime_config \<Rightarrow> nat \<Rightarrow> string option \<Rightarrow> ('vid, 'ch) runtime \<Rightarrow> ('vid, 'ch) runtime" where
  "settle C s failure R =
     (if AwaitSocket s \<in> set (rt_loops R)
      then afterConnect C failure (R\<lparr>rt_loops := remove1 (AwaitSocket s) (rt_loops R)\<rparr>) else R)"

definition onError :: "runtime_config \<Rightarrow> nat \<Rightarrow> string \<Rightarrow> ('vid, 'ch) runtime \<Rightarrow> ('vid, 'ch) runtime" where
  "onError C s e R =
     settle C s (Some e)
       (clearHeartbeat (R\<lparr>rt_connecting := removeAll s (rt_connecting R), rt_open := removeAll s (rt_open R)\<rparr>))"

definition onClose :: "runtime_config \<Rightarrow> nat \<Rightarrow> ('vid, 'ch) runtime \<Rightarrow> ('vid, 'ch) runtime" where
  "onClose C s R =
     (let R1 = clearHeartbeat (R\<lparr>rt_connecting := removeAll s (rt_connecting R),
                                 rt_open := removeAll s (rt_open R), rt_live := removeAll s (rt_live R)\<rparr>);
          R2 = (if rt_status R1 \<noteq> Idle then setStatus Disconnected R1 else R1)
      in settle C s None R2)"

definition backoffElapsed ::
  "('vid, 'ch) client_lib \<Rightarrow> runtime_config \<Rightarrow> sdk_env \<Rightarrow> int \<Rightarrow> ('vid, 'ch) runtime \<Rightarrow> ('vid, 'ch) runtime" where
  "backoffElapsed L C E delay R =
     (let R1 = R\<lparr>rt_loops := remove1 (AwaitDelay delay) (rt_loops R)\<rparr> in
      if rt_stopped R1 then R1 else connectOnce L C E R1)"

end
