(* ===== verification/SdkSystem.thy ===== *)
theory SdkSystem
  imports SdkHandlers
begin

text \<open>
  The runtime of the SDK as a transition system: the inputs the event loop can deliver, the step each
  one makes, and the runtimes reachable from a constructed one. The invariant is that what the runtime
  says it holds is what its certificates say.
\<close>

section \<open>Inputs and steps\<close>

datatype 'vid sdk_input =
    StartIn 'vid
  | StopIn
  | DropIn
  | OpenIn nat
  | MessageIn nat sdk_frame
  | SocketErrorIn nat string
  | CloseIn nat
  | BackoffIn int
  | StatusTickIn
  | HeartbeatTickIn
  | TimeoutIn string
  | DeferredIn
  | AskIn requested_action

text \<open>An input that cannot occur in a state (an event of a socket that is gone, a cleared timer) changes nothing.\<close>

definition sdk_step ::
  "('vid, 'ch) client_lib \<Rightarrow> runtime_config \<Rightarrow> sdk_env \<Rightarrow> 'vid sdk_input \<Rightarrow> ('vid, 'ch) runtime \<Rightarrow> ('vid, 'ch) runtime" where
  "sdk_step L C E i R =
     (case i of
        StartIn vid \<Rightarrow> start L C E vid R
      | StopIn \<Rightarrow> stop L C E R
      | DropIn \<Rightarrow> dropConnection R
      | OpenIn s \<Rightarrow> if s \<in> set (rt_connecting R) then onOpen C s R else R
      | MessageIn s frame \<Rightarrow>
          if s \<in> set (rt_live R) \<and> s \<notin> set (rt_connecting R) then handleMessage_rt L C E frame R else R
      | SocketErrorIn s e \<Rightarrow> if s \<in> set (rt_live R) then onError C s e R else R
      | CloseIn s \<Rightarrow> if s \<in> set (rt_live R) then onClose C s R else R
      | BackoffIn d \<Rightarrow> if AwaitDelay d \<in> set (rt_loops R) then backoffElapsed L C E d R else R
      | StatusTickIn \<Rightarrow> if rt_statusTimer R = None then R else refreshCertStatus L C E NoCont R
      | HeartbeatTickIn \<Rightarrow> if rt_heartbeat R = None then R else sendRaw Heartbeat R
      | TimeoutIn nonce \<Rightarrow> timeoutStatusCheck L C E nonce R
      | DeferredIn \<Rightarrow>
          if rt_deferred R = 0 then R
          else refreshCertStatus L C E NoCont (R\<lparr>rt_deferred := rt_deferred R - 1\<rparr>)
      | AskIn action \<Rightarrow> checkPermission L C E action R)"

inductive sdk_reach :: "('vid, 'ch) client_lib \<Rightarrow> runtime_config \<Rightarrow> ('vid, 'ch) runtime \<Rightarrow> bool"
  for L :: "('vid, 'ch) client_lib" and C :: runtime_config where
  constructed: "construct C = Inr R \<Longrightarrow> sdk_reach L C R"
| stepped: "sdk_reach L C R \<Longrightarrow> sdk_reach L C (sdk_step L C E i R)"

definition sdk_run ::
  "('vid, 'ch) client_lib \<Rightarrow> runtime_config \<Rightarrow> (sdk_env \<times> 'vid sdk_input) list \<Rightarrow> ('vid, 'ch) runtime
     \<Rightarrow> ('vid, 'ch) runtime" where
  "sdk_run L C evs R = fold (\<lambda>(E, i). sdk_step L C E i) evs R"

lemma sdk_run_simps [simp]:
  "sdk_run L C [] R = R"
  "sdk_run L C ((E, i) # evs) R = sdk_run L C evs (sdk_step L C E i R)"
  by (simp_all add: sdk_run_def)

lemma sdk_run_reach: "sdk_reach L C R \<Longrightarrow> sdk_reach L C (sdk_run L C evs R)"
  by (induction evs arbitrary: R) (auto simp: sdk_reach.stepped)

section \<open>What no other operation touches\<close>

text \<open>The certificates and the snapshot of them; all but three handlers leave both as they are.\<close>

definition holdings ::
  "('vid, 'ch) runtime \<Rightarrow> (string \<times> held_certificate) list \<times> string list \<times> string option \<times> string option
     \<times> certificate_status option \<times> int option" where
  "holdings R = (rt_certificates R, rt_capabilityNames R, rt_certId R, rt_certificate R, rt_lastStatus R,
     rt_lastCheckedAt R)"

lemma holdings_certificates: "holdings R = holdings R' \<Longrightarrow> rt_certificates R = rt_certificates R'"
  by (simp add: holdings_def)

lemma holdings_plain [simp]:
  "holdings (emit e R) = holdings R"
  "holdings (sendRaw m R) = holdings R"
  "holdings (startHeartbeat C R) = holdings R"
  "holdings (clearHeartbeat R) = holdings R"
  "holdings (setStatus s R) = holdings R"
  "holdings (emitCapabilityChange b r ids u R) = holdings R"
  "holdings (cacheServerVid L R) = holdings R"
  "holdings (scheduleStatusChecks R) = holdings R"
  "holdings (maybeRequestCapabilities C f R) = holdings R"
  "holdings (closeSocket R) = holdings R"
  by (auto simp: holdings_def emit_def sendRaw_def startHeartbeat_def clearHeartbeat_def setStatus_def
      emitCapabilityChange_def cacheServerVid_def scheduleStatusChecks_def maybeRequestCapabilities_def
      closeSocket_def Let_def split: option.splits)

lemma holdings_updates [simp]:
  "holdings (R\<lparr>rt_pending := p\<rparr>) = holdings R"
  "holdings (R\<lparr>rt_decisions := d\<rparr>) = holdings R"
  "holdings (R\<lparr>rt_nextReason := n\<rparr>) = holdings R"
  "holdings (R\<lparr>rt_deferred := k\<rparr>) = holdings R"
  "holdings (R\<lparr>rt_staples := st\<rparr>) = holdings R"
  "holdings (R\<lparr>rt_loops := l\<rparr>) = holdings R"
  "holdings (R\<lparr>rt_did := did\<rparr>) = holdings R"
  "holdings (R\<lparr>rt_ws := w\<rparr>) = holdings R"
  "holdings (R\<lparr>rt_live := lv\<rparr>) = holdings R"
  "holdings (R\<lparr>rt_open := op\<rparr>) = holdings R"
  "holdings (R\<lparr>rt_connecting := co\<rparr>) = holdings R"
  "holdings (R\<lparr>rt_actorConfig := cfg\<rparr>) = holdings R"
  "holdings (R\<lparr>rt_authHandshake := h\<rparr>) = holdings R"
  "holdings (R\<lparr>rt_authSessionId := ss\<rparr>) = holdings R"
  "holdings (R\<lparr>rt_certHandshake := h\<rparr>) = holdings R"
  "holdings (R\<lparr>rt_certSessionId := ss\<rparr>) = holdings R"
  "holdings (R\<lparr>rt_serverVid := v\<rparr>) = holdings R"
  "holdings (R\<lparr>rt_vaultysId := v\<rparr>) = holdings R"
  "holdings (R\<lparr>rt_stopped := b\<rparr>) = holdings R"
  "holdings (R\<lparr>rt_requested := b\<rparr>) = holdings R"
  "holdings (R\<lparr>rt_heartbeat := hb\<rparr>) = holdings R"
  "holdings (R\<lparr>rt_statusTimer := hb\<rparr>) = holdings R"
  "holdings (R\<lparr>rt_reconnectAttempts := n'\<rparr>) = holdings R"
  by (simp_all add: holdings_def)

lemma holdings_refreshOne [simp]: "holdings (snd (refreshOneCertStatus L E c R)) = holdings R"
  by (auto simp: refreshOneCertStatus_def Let_def split: option.splits)

lemma holdings_finish [simp]: "holdings (finishRefresh L C E k r R) = holdings R"
  by (auto simp: finishRefresh_def Let_def split: refresh_cont.splits)

text \<open>A refresh asks for some statuses, then ends or leaves a waiter: what these steps keep, it keeps.\<close>

lemma refreshFrom_rule:
  assumes one: "\<And>R c. P R \<Longrightarrow> P (snd (refreshOneCertStatus L E c R))"
    and waits: "\<And>R g. P R \<Longrightarrow> rf_cont g = rf_cont f \<Longrightarrow> rf_index f < rf_index g \<Longrightarrow>
      rf_index g \<le> length (rt_certificates R) \<Longrightarrow> Q (R\<lparr>rt_pending := map_set (ee_nonce E) g (rt_pending R)\<rparr>)"
    and ends: "\<And>R. P R \<Longrightarrow> Q (finishRefresh L C E (rf_cont f) (rf_any f) R)"
    and start: "P R"
  shows "Q (refreshFrom L C E f R)"
  using waits ends start
proof (induction "length (rt_certificates R) - rf_index f" arbitrary: f R)
  case 0
  then show ?case by (simp add: refreshFrom.simps [of L C E f R])
next
  case (Suc n)
  obtain sent R' where step: "refreshOneCertStatus L E (fst (rt_certificates R ! rf_index f)) R = (sent, R')"
    by fastforce
  with one [OF Suc.prems(3)] have P: "P R'" by (metis snd_conv)
  from step have same: "rt_certificates R' = rt_certificates R"
    using refreshOne_certificates [of L E _ R] by (metis snd_conv)
  from Suc.hyps(2) have more: "\<not> length (rt_certificates R) \<le> rf_index f" by simp
  show ?case
  proof (cases sent)
    case True
    with step more same Suc.prems(1) [OF P, of "f\<lparr>rf_index := Suc (rf_index f)\<rparr>"] show ?thesis
      by (simp add: refreshFrom.simps [of L C E f R])
  next
    case False
    have "Q (refreshFrom L C E (f\<lparr>rf_index := Suc (rf_index f)\<rparr>) R')"
      by (rule Suc.hyps(1)) (use Suc.hyps(2) same P Suc.prems in simp_all)
    with False step more show ?thesis by (simp add: refreshFrom.simps [of L C E f R])
  qed
qed

lemma holdings_refreshFrom [simp]: "holdings (refreshFrom L C E f R) = holdings R"
  by (rule refreshFrom_rule [where P = "\<lambda>X. holdings X = holdings R"]) simp_all

lemma holdings_refresh [simp]:
  "holdings (refreshCertStatus L C E k R) = holdings R"
  "holdings (timeoutStatusCheck L C E n R) = holdings R"
  "holdings (checkPermission L C E a R) = holdings R"
  by (auto simp: refreshCertStatus_def timeoutStatusCheck_def checkPermission_def split: option.splits)

lemma holdings_fold_refresh [simp]: "holdings (fold (\<lambda>(n, f). refreshFrom L C E f) ws R) = holdings R"
  by (induction ws arbitrary: R) auto

lemma holdings_connection [simp]:
  "holdings (afterConnect C e R) = holdings R"
  "holdings (settle C s e R) = holdings R"
  "holdings (connectOnce L C E R) = holdings R"
  "holdings (start L C E v R) = holdings R"
  "holdings (stop L C E R) = holdings R"
  "holdings (dropConnection R) = holdings R"
  "holdings (onOpen C s R) = holdings R"
  "holdings (onError C s w R) = holdings R"
  "holdings (onClose C s R) = holdings R"
  "holdings (backoffElapsed L C E d R) = holdings R"
proof -
  show after: "holdings (afterConnect C e R) = holdings R" for e R
    by (simp add: afterConnect_def backoff_def Let_def holdings_def emit_def split: option.splits)
  show settle: "holdings (settle C s e R) = holdings R" for s e R
    by (simp add: settle_def after)
  show connect: "holdings (connectOnce L C E R) = holdings R" for R
    by (simp add: connectOnce_def Let_def after)
  show "holdings (start L C E v R) = holdings R" by (simp add: start_def connect)
  show "holdings (stop L C E R) = holdings R" by (simp add: stop_def Let_def)
  show "holdings (dropConnection R) = holdings R" by (simp add: dropConnection_def)
  show "holdings (onOpen C s R) = holdings R" by (simp add: onOpen_def Let_def)
  show "holdings (onError C s w R) = holdings R" by (simp add: onError_def settle)
  show "holdings (onClose C s R) = holdings R" by (simp add: onClose_def Let_def settle)
  show "holdings (backoffElapsed L C E d R) = holdings R" by (simp add: backoffElapsed_def Let_def connect)
qed

lemma holdings_thrown [simp]: "holdings (thrown r) = holdings (fst r)"
  by (simp add: thrown_def split: prod.splits option.splits)

lemma holdings_handlers [simp]:
  "holdings (fst (onAuthChallenge L sid d R)) = holdings R"
  "holdings (fst (onCertChallenge L sid d R)) = holdings R"
  "holdings (onAuthComplete C did R) = holdings R"
  "holdings (onRegistrationPending C rid R) = holdings R"
  "holdings (onCapabilitiesChanged L C E w ids R) = holdings R"
  "holdings (onCapabilityRegistryChanged C rr R) = holdings R"
  by (auto simp: onAuthChallenge_def onCertChallenge_def onAuthComplete_def onRegistrationPending_def
      onCapabilitiesChanged_def onCapabilityRegistryChanged_def Let_def
      split: option.splits prod.splits sum.splits)

section \<open>The snapshot says what the certificates say\<close>

definition snapshot_ok :: "('vid, 'ch) runtime \<Rightarrow> bool" where
  "snapshot_ok R \<longleftrightarrow>
     distinct (map fst (rt_certificates R)) \<and>
     list_all (\<lambda>(k, c). hc_certId c = k) (rt_certificates R) \<and>
     rt_capabilityNames R = usable_capabilities (rt_certificates R) \<and>
     rt_certId R = map_option hc_certId (currentCertificate R) \<and>
     rt_certificate R = map_option hc_certificate (currentCertificate R) \<and>
     rt_lastStatus R = Option.bind (currentCertificate R) hc_status \<and>
     rt_lastCheckedAt R = Option.bind (currentCertificate R) hc_lastCheckedAt"

lemma snapshot_holdings: "holdings R = holdings R' \<Longrightarrow> snapshot_ok R \<longleftrightarrow> snapshot_ok R'"
  by (auto simp: holdings_def snapshot_ok_def currentCertificate_def)

lemmas snapshot_simps [simp] =
  holdings_plain [THEN snapshot_holdings] holdings_updates [THEN snapshot_holdings]
  holdings_refreshFrom [THEN snapshot_holdings] holdings_refresh [THEN snapshot_holdings]
  holdings_connection [THEN snapshot_holdings] holdings_handlers [THEN snapshot_holdings]
  holdings_thrown [THEN snapshot_holdings]

lemma sync_certificates [simp]: "rt_certificates (syncCertificateSnapshot R) = rt_certificates R"
  by (simp add: syncCertificateSnapshot_def Let_def)

lemma snapshot_sync:
  "distinct (map fst (rt_certificates R)) \<Longrightarrow> list_all (\<lambda>(k, c). hc_certId c = k) (rt_certificates R) \<Longrightarrow>
     snapshot_ok (syncCertificateSnapshot R)"
  by (simp add: snapshot_ok_def syncCertificateSnapshot_def currentCertificate_def Let_def)

lemma persist_holdings: "snapshot_ok R \<Longrightarrow> holdings (persistCapabilityState E R) = holdings R"
  by (auto simp: persistCapabilityState_def holdings_def emit_def currentCertificate_def snapshot_ok_def Let_def
      split: option.splits)

lemma persist_certificates [simp]: "rt_certificates (persistCapabilityState E R) = rt_certificates R"
  by (auto simp: persistCapabilityState_def emit_def Let_def split: option.splits)

lemma in_map_set: "(j, v) \<in> set (map_set k x m) \<Longrightarrow> (j = k \<and> v = x) \<or> (j, v) \<in> set m"
  by (induction m) (auto split: if_splits)

lemma snapshot_set:
  assumes "snapshot_ok R" and "hc_certId c = k"
  shows "snapshot_ok (syncCertificateSnapshot (R\<lparr>rt_certificates := map_set k c (rt_certificates R)\<rparr>))"
proof (rule snapshot_sync)
  show "list_all (\<lambda>(k, c). hc_certId c = k)
      (rt_certificates (R\<lparr>rt_certificates := map_set k c (rt_certificates R)\<rparr>))"
    using assms by (auto simp: snapshot_ok_def list_all_iff dest!: in_map_set)
qed (use assms in \<open>simp add: snapshot_ok_def distinct_update\<close>)

lemma snapshot_apply: "snapshot_ok R \<Longrightarrow> snapshot_ok (applyCertStatus E body R)"
proof (cases "map_of (rt_certificates R) (sp_certId body)")
  case (Some cert)
  assume ok: "snapshot_ok R"
  have id: "hc_certId cert = sp_certId body"
    using ok map_of_SomeD [OF Some] by (auto simp: snapshot_ok_def list_all_iff)
  define cert' where "cert' = cert\<lparr>hc_status := Some (sp_status body), hc_lastCheckedAt := Some (sp_checkedAt body),
      hc_capabilities := sp_capabilities body, hc_resourceLimits := sp_resourceLimits body,
      hc_scope := sp_scope body, hc_expiresAt := sp_expiresAt body\<rparr>"
  let ?R1 = "syncCertificateSnapshot
      (R\<lparr>rt_certificates := map_set (sp_certId body) cert' (rt_certificates R)\<rparr>)"
  have one: "snapshot_ok ?R1" by (rule snapshot_set [OF ok]) (simp add: cert'_def id)
  have "holdings (applyCertStatus E body R) = holdings ?R1"
    by (simp add: applyCertStatus_def Some Let_def cert'_def [symmetric] persist_holdings [OF one])
  with one show ?thesis using snapshot_holdings by blast
qed (simp add: applyCertStatus_def)

lemma snapshot_issued: "snapshot_ok R \<Longrightarrow> snapshot_ok (onCertIssued E i c caps R)"
proof -
  assume ok: "snapshot_ok R"
  define cert where "cert = \<lparr>hc_certId = i, hc_certificate = c, hc_capabilities = caps,
      hc_resourceLimits = None, hc_scope = None, hc_status = Some Active,
      hc_lastCheckedAt = Some (ee_now E), hc_issuedAt = ee_now E, hc_expiresAt = None\<rparr>"
  let ?R0 = "syncCertificateSnapshot (R\<lparr>rt_certificates := map_set i cert (rt_certificates R)\<rparr>)"
  have zero: "snapshot_ok ?R0" by (rule snapshot_set [OF ok]) (simp add: cert_def)
  let ?R1 = "?R0\<lparr>rt_certHandshake := None, rt_certSessionId := None\<rparr>"
  have one: "snapshot_ok ?R1" using zero snapshot_holdings [of ?R1 ?R0] by simp
  have "holdings (onCertIssued E i c caps R) = holdings ?R1"
    by (simp add: onCertIssued_def Let_def cert_def [symmetric] persist_holdings [OF one])
  with one show ?thesis using snapshot_holdings by blast
qed

lemma snapshot_kill: "snapshot_ok R \<Longrightarrow> snapshot_ok (onKillSwitch E R)"
proof -
  assume ok: "snapshot_ok R"
  let ?m = "map (\<lambda>(k, c). (k, c\<lparr>hc_status := Some Revoked\<rparr>)) (rt_certificates R)"
  have keys: "map fst ?m = map fst (rt_certificates R)" by (auto simp: case_prod_beta)
  have one: "snapshot_ok (syncCertificateSnapshot (R\<lparr>rt_certificates := ?m\<rparr>))"
    by (rule snapshot_sync; use ok keys in \<open>simp add: snapshot_ok_def list_all_iff del: list.map_comp map_map\<close>)
       (use ok in \<open>auto simp: snapshot_ok_def list_all_iff\<close>)
  show ?thesis
  proof (cases "filter (\<lambda>(k, c). hc_status c \<noteq> Some Revoked) (rt_certificates R) = []")
    case False
    have "holdings (onKillSwitch E R) = holdings (syncCertificateSnapshot (R\<lparr>rt_certificates := ?m\<rparr>))"
      using False by (simp add: onKillSwitch_def Let_def persist_holdings [OF one])
    with one show ?thesis using snapshot_holdings by blast
  qed (simp add: onKillSwitch_def ok)
qed

lemma snapshot_response: "snapshot_ok R \<Longrightarrow> snapshot_ok (onCertStatusResponse L C E token R)"
  by (auto simp: onCertStatusResponse_def resolveWaiter_def Let_def intro!: snapshot_apply
      split: option.splits list.splits)

lemma snapshot_message: "snapshot_ok R \<Longrightarrow> snapshot_ok (handleMessage_rt L C E frame R)"
  by (auto simp: handleMessage_rt_def Let_def intro!: snapshot_issued snapshot_kill snapshot_response
      split: sdk_frame.splits ws_out_msg.splits)

lemma snapshot_step: "snapshot_ok R \<Longrightarrow> snapshot_ok (sdk_step L C E i R)"
  by (auto simp: sdk_step_def intro!: snapshot_message split: sdk_input.splits)

lemma keyed_fold:
  "distinct (map fst m) \<Longrightarrow> list_all (\<lambda>(k, c). hc_certId c = k) m \<Longrightarrow>
     distinct (map fst (fold (\<lambda>c. map_set (hc_certId (held_of c)) (held_of c)) cs m)) \<and>
     list_all (\<lambda>(k, c). hc_certId c = k) (fold (\<lambda>c. map_set (hc_certId (held_of c)) (held_of c)) cs m)"
proof (induction cs arbitrary: m)
  case (Cons c cs)
  have "list_all (\<lambda>(k, c). hc_certId c = k) (map_set (hc_certId (held_of c)) (held_of c) m)"
    using Cons.prems by (auto simp: list_all_iff dest!: in_map_set)
  with Cons.IH [OF distinct_update [OF Cons.prems(1)] this] show ?case by simp
qed simp

lemma snapshot_constructed: "construct C = Inr R \<Longrightarrow> snapshot_ok R"
proof -
  have blank: "snapshot_ok (blank_runtime m st)" for m st
    by (simp add: snapshot_ok_def blank_runtime_def currentCertificate_def usable_capabilities_def)
  have restored: "snapshot_ok (syncCertificateSnapshot ((blank_runtime m st)\<lparr>rt_certificates :=
      fold (\<lambda>c. map_set (hc_certId (held_of c)) (held_of c)) certs []\<rparr>))" for m st certs
    by (rule snapshot_sync) (simp_all add: keyed_fold)
  assume "construct C = Inr R"
  then show ?thesis
    by (auto simp: construct_def blank restored split: sum.splits option.splits)
qed

lemma snapshot_reach: "sdk_reach L C R \<Longrightarrow> snapshot_ok R"
  by (induction rule: sdk_reach.induct) (auto intro: snapshot_constructed snapshot_step)

end
