(* ===== verification/SdkAuthority.thy ===== *)
theory SdkAuthority
  imports SdkSystem
begin

text \<open>
  What the runtime authorizes: the snapshot of its capabilities, the synchronous decision, the hold of a
  kill switch over everything that is decided after it, and the persistence of the held certificates.
\<close>

section \<open>The snapshot\<close>

lemma fold_add_unseen:
  "distinct acc \<Longrightarrow> distinct (fold add_unseen cs acc) \<and> set (fold add_unseen cs acc) = set cs \<union> set acc"
  by (induction cs arbitrary: acc) (auto simp: add_unseen_def)

lemma fold_usable:
  fixes certs :: "(string \<times> held_certificate) list"
  defines "step \<equiv> \<lambda>(k :: string, cert) acc.
     if authorizing (hc_status cert) then fold add_unseen (hc_capabilities cert) acc else acc"
  assumes "distinct acc"
  shows "distinct (fold step certs acc) \<and>
    set (fold step certs acc) =
      set acc \<union> (\<Union>(k, h) \<in> set certs. if authorizing (hc_status h) then set (hc_capabilities h) else {})"
  using assms(2)
proof (induction certs arbitrary: acc)
  case (Cons x certs)
  obtain k h where x: "x = (k, h)" by (cases x)
  have "distinct (step (k, h) acc) \<and>
      set (step (k, h) acc) = set acc \<union> (if authorizing (hc_status h) then set (hc_capabilities h) else {})"
    using fold_add_unseen [OF Cons.prems, of "hc_capabilities h"] Cons.prems by (auto simp: step_def)
  with Cons.IH [of "step (k, h) acc"] show ?case by (auto simp: x)
qed simp

lemma usable_distinct: "distinct (usable_capabilities certs)"
  using fold_usable [of "[]" certs] by (simp add: usable_capabilities_def)

lemma in_usable:
  "c \<in> set (usable_capabilities certs) \<longleftrightarrow>
     (\<exists>k h. (k, h) \<in> set certs \<and> authorizing (hc_status h) \<and> c \<in> set (hc_capabilities h))"
  using fold_usable [of "[]" certs] by (fastforce simp: usable_capabilities_def split: if_splits)

lemma fold_later_issued:
  "fold later_issued hs cur = Some h \<Longrightarrow>
     (h \<in> set hs \<or> cur = Some h) \<and> (\<forall>x. x \<in> set hs \<or> cur = Some x \<longrightarrow> hc_issuedAt x \<le> hc_issuedAt h)"
proof (induction hs arbitrary: cur)
  case (Cons a hs)
  from Cons.IH [of "later_issued a cur"] Cons.prems show ?case
    by (cases cur) (auto simp: later_issued_def split: if_splits)
qed simp

lemma current_issued_last:
  "currentCertificate R = Some h \<Longrightarrow>
     h \<in> snd ` set (rt_certificates R) \<and> (\<forall>k x. (k, x) \<in> set (rt_certificates R) \<longrightarrow> hc_issuedAt x \<le> hc_issuedAt h)"
  using fold_later_issued [of "map snd (rt_certificates R)" None h] by (force simp: currentCertificate_def)

text \<open>C15 (invariant). In every state the runtime can reach, the capabilities it reports are, each once, those of its held certificates whose
  last known status is active or unknown; the certificate it names as its own is one it holds that was
  issued last, and the status and check time it reports are that certificate's.\<close>

theorem snapshot_sound:
  assumes "sdk_reach L C R"
  shows "distinct (rt_capabilityNames R) \<and>
    (\<forall>c. hasCapability_rt c R \<longleftrightarrow>
      (\<exists>k h. (k, h) \<in> set (rt_certificates R) \<and> hc_certId h = k \<and> authorizing (hc_status h)
         \<and> c \<in> set (hc_capabilities h))) \<and>
    (case currentCertificate R of
       None \<Rightarrow> rt_certificate R = None \<and> getCertStatus now R = (None, None, False)
     | Some h \<Rightarrow> rt_certificate R = Some (hc_certificate h)
         \<and> map_of (rt_certificates R) (hc_certId h) = Some h
         \<and> list_all (\<lambda>(k, x). hc_issuedAt x \<le> hc_issuedAt h) (rt_certificates R)
         \<and> getCertStatus now R = (hc_status h, hc_lastCheckedAt h, isCertStatusFresh now h R))"
proof -
  have ok: "snapshot_ok R" by (rule snapshot_reach [OF assms])
  have keyed: "hc_certId h = k" if "(k, h) \<in> set (rt_certificates R)" for k h
    using ok that by (auto simp: snapshot_ok_def list_all_iff)
  have found: "map_of (rt_certificates R) (hc_certId h) = Some h" if "currentCertificate R = Some h" for h
    using ok keyed current_issued_last [OF that] by (fastforce simp: snapshot_ok_def)
  have held: "hasCapability_rt c R \<longleftrightarrow> (\<exists>k h. (k, h) \<in> set (rt_certificates R) \<and> hc_certId h = k
      \<and> authorizing (hc_status h) \<and> c \<in> set (hc_capabilities h))" for c
    using ok keyed by (fastforce simp: snapshot_ok_def in_usable hasCapability_rt_def)
  have current: "case currentCertificate R of
       None \<Rightarrow> rt_certificate R = None \<and> getCertStatus now R = (None, None, False)
     | Some h \<Rightarrow> rt_certificate R = Some (hc_certificate h)
         \<and> map_of (rt_certificates R) (hc_certId h) = Some h
         \<and> list_all (\<lambda>(k, x). hc_issuedAt x \<le> hc_issuedAt h) (rt_certificates R)
         \<and> getCertStatus now R = (hc_status h, hc_lastCheckedAt h, isCertStatusFresh now h R)"
  proof (cases "currentCertificate R")
    case (Some h)
    with ok found [OF Some] current_issued_last [OF Some] show ?thesis
      by (auto simp: snapshot_ok_def getCertStatus_def isStatusFresh_def list_all_iff)
  qed (use ok in \<open>simp add: snapshot_ok_def getCertStatus_def isStatusFresh_def\<close>)
  from ok held current show ?thesis by (simp add: snapshot_ok_def usable_distinct)
qed

section \<open>The synchronous decision\<close>

text \<open>The synchronous decision allows an action exactly when some held certificate carries it: its last status is
  active or unknown, its status is fresh unless the organisation fails open, it has not expired, it lists
  the capability, its scope covers the resource, and its scope allows at least one use.\<close>

theorem sync_decision_iff:
  "allowed (resolvePermission_rt L action now R) \<longleftrightarrow>
     (\<exists>k h. (k, h) \<in> set (rt_certificates R) \<and> authorizing (hc_status h)
        \<and> (if failClosed R then isCertStatusFresh now h R else True)
        \<and> (case hc_expiresAt h of None \<Rightarrow> True | Some e \<Rightarrow> now < e)
        \<and> ra_capability action \<in> set (hc_capabilities h)
        \<and> scopeMatches (hc_scope h) (ra_resource action)
        \<and> (case Option.bind (hc_scope h) maxUses of None \<Rightarrow> True | Some m \<Rightarrow> 0 < m))"
proof -
  have one: "grants action now (lite L R h) \<longleftrightarrow>
      (case hc_expiresAt h of None \<Rightarrow> True | Some e \<Rightarrow> now < e) \<and> ra_capability action \<in> set (hc_capabilities h)
      \<and> scopeMatches (hc_scope h) (ra_resource action)
      \<and> (case Option.bind (hc_scope h) maxUses of None \<Rightarrow> True | Some m \<Rightarrow> 0 < m)" for h
    by (auto simp: grants_def isUsable_def lite_def split: option.splits)
  have "allowed (resolvePermission_rt L action now R) \<longleftrightarrow>
      (\<exists>h \<in> snd ` set (rt_certificates R). hc_capabilities h \<noteq> [] \<and> authorizing (hc_status h)
         \<and> gate_passed now None R h \<and> grants action now (lite L R h))"
    by (auto simp: resolvePermission_rt_def allowed_iff activeCerts_def)
  then show ?thesis by (fastforce simp: one gate_passed_def split: if_splits)
qed

section \<open>The kill switch\<close>

definition suspended :: "('vid, 'ch) runtime \<Rightarrow> bool" where
  "suspended R \<longleftrightarrow> list_all (\<lambda>(k, h). \<not> authorizing (hc_status h)) (rt_certificates R)"

lemma suspended_holdings: "holdings R = holdings R' \<Longrightarrow> suspended R \<longleftrightarrow> suspended R'"
  by (simp add: holdings_def suspended_def)

lemmas suspended_simps [simp] =
  holdings_plain [THEN suspended_holdings] holdings_updates [THEN suspended_holdings]
  holdings_refreshOne [THEN suspended_holdings] holdings_finish [THEN suspended_holdings]
  holdings_refreshFrom [THEN suspended_holdings] holdings_refresh [THEN suspended_holdings]
  holdings_connection [THEN suspended_holdings] holdings_handlers [THEN suspended_holdings]
  holdings_thrown [THEN suspended_holdings] holdings_fold_refresh [THEN suspended_holdings]

lemma suspended_active_none: "suspended R \<Longrightarrow> activeCerts L now noted R = []"
  by (auto simp: suspended_def activeCerts_def list_all_iff filter_empty_conv)

lemma suspended_denies:
  "suspended R \<Longrightarrow> \<not> allowed (resolvePermission action (activeCerts L now noted R) now)"
  "suspended R \<Longrightarrow> \<not> allowed (resolvePermission_rt L action now R)"
  by (simp_all add: suspended_active_none resolvePermission_rt_def)

lemma kill_suspends: "suspended (onKillSwitch E R)"
proof (cases "filter (\<lambda>(k, c). hc_status c \<noteq> Some Revoked) (rt_certificates R) = []")
  case True
  then show ?thesis
    by (auto simp: onKillSwitch_def suspended_def list_all_iff authorizing_def filter_empty_conv)
next
  case False
  let ?R1 = "persistCapabilityState E (syncCertificateSnapshot
      (R\<lparr>rt_certificates := map (\<lambda>(k, c). (k, c\<lparr>hc_status := Some Revoked\<rparr>)) (rt_certificates R)\<rparr>))"
  have "suspended ?R1" by (auto simp: suspended_def list_all_iff authorizing_def)
  with False show ?thesis by (simp add: onKillSwitch_def Let_def)
qed

text \<open>Every decision taken on the way from one runtime to the other is a denial.\<close>

definition only_denials :: "('vid, 'ch) runtime \<Rightarrow> ('vid, 'ch) runtime \<Rightarrow> bool" where
  "only_denials R R' \<longleftrightarrow> (\<exists>ds. rt_decisions R' = rt_decisions R @ ds \<and> list_all (\<lambda>d. \<not> allowed (snd d)) ds)"

lemma only_denials_same: "rt_decisions R' = rt_decisions R \<Longrightarrow> only_denials R R'"
  by (simp add: only_denials_def)

lemma only_denials_trans [trans]: "only_denials R R' \<Longrightarrow> only_denials R' R'' \<Longrightarrow> only_denials R R''"
  by (fastforce simp: only_denials_def)

lemma decisions_plain [simp]:
  "rt_decisions (emit e R) = rt_decisions R"
  "rt_decisions (sendRaw m R) = rt_decisions R"
  "rt_decisions (startHeartbeat C R) = rt_decisions R"
  "rt_decisions (clearHeartbeat R) = rt_decisions R"
  "rt_decisions (setStatus s R) = rt_decisions R"
  "rt_decisions (emitCapabilityChange b r ids u R) = rt_decisions R"
  "rt_decisions (cacheServerVid L R) = rt_decisions R"
  "rt_decisions (scheduleStatusChecks R) = rt_decisions R"
  "rt_decisions (maybeRequestCapabilities C f R) = rt_decisions R"
  "rt_decisions (closeSocket R) = rt_decisions R"
  "rt_decisions (syncCertificateSnapshot R) = rt_decisions R"
  "rt_decisions (persistCapabilityState E R) = rt_decisions R"
  by (auto simp: emit_def sendRaw_def startHeartbeat_def clearHeartbeat_def setStatus_def
      emitCapabilityChange_def cacheServerVid_def scheduleStatusChecks_def maybeRequestCapabilities_def
      closeSocket_def syncCertificateSnapshot_def persistCapabilityState_def Let_def split: option.splits)

lemma decisions_handlers [simp]:
  "rt_decisions (snd (refreshOneCertStatus L E c R)) = rt_decisions R"
  "rt_decisions (afterConnect C w R) = rt_decisions R"
  "rt_decisions (fst (onAuthChallenge L sid d R)) = rt_decisions R"
  "rt_decisions (fst (onCertChallenge L sid d R)) = rt_decisions R"
  "rt_decisions (onAuthComplete C did R) = rt_decisions R"
  "rt_decisions (onRegistrationPending C rid R) = rt_decisions R"
  "rt_decisions (onCapabilityRegistryChanged C rr R) = rt_decisions R"
  "rt_decisions (onKillSwitch E R) = rt_decisions R"
  by (auto simp: refreshOneCertStatus_def afterConnect_def backoff_def onAuthChallenge_def onCertChallenge_def
      onAuthComplete_def onRegistrationPending_def onCapabilityRegistryChanged_def onKillSwitch_def Let_def
      split: option.splits prod.splits sum.splits)

lemma decisions_connection [simp]:
  "rt_decisions (thrown r) = rt_decisions (fst r)"
  "rt_decisions (settle C s w R) = rt_decisions R"
  "rt_decisions (connectOnce L C E R) = rt_decisions R"
  "rt_decisions (onOpen C s R) = rt_decisions R"
  by (auto simp: thrown_def settle_def connectOnce_def onOpen_def Let_def split: option.splits prod.splits)

lemma finish_denies: "suspended R \<Longrightarrow> only_denials R (finishRefresh L C E k r R)"
  by (auto simp: finishRefresh_def Let_def only_denials_def suspended_denies split: refresh_cont.splits)

lemma refresh_denies: "suspended R \<Longrightarrow> only_denials R (refreshFrom L C E f R)"
  by (rule refreshFrom_rule [where P = "\<lambda>X. suspended X \<and> only_denials R X" and Q = "only_denials R"])
     (auto intro: only_denials_trans [OF _ finish_denies] elim!: only_denials_trans intro: only_denials_same)

lemma calls_deny:
  assumes "suspended R"
  shows "only_denials R (refreshCertStatus L C E k R)"
    and "only_denials R (timeoutStatusCheck L C E nonce R)"
    and "only_denials R (checkPermission L C E action R)"
    and "only_denials R (onCapabilitiesChanged L C E why ids R)"
proof -
  have resumed: "only_denials R (refreshFrom L C E f R')"
    if "suspended R'" and "rt_decisions R' = rt_decisions R" for f R'
    using refresh_denies [OF that(1)] that(2) by (simp add: only_denials_def)
  have fin: "only_denials R (finishRefresh L C E k r R')"
    if "suspended R'" and "rt_decisions R' = rt_decisions R" for k r R'
    using finish_denies [OF that(1)] that(2) by (simp add: only_denials_def)
  show refresh: "only_denials R (refreshCertStatus L C E k R)" for k
    using assms by (simp add: refreshCertStatus_def resumed fin)
  show "only_denials R (timeoutStatusCheck L C E nonce R)"
    using assms by (auto simp: timeoutStatusCheck_def intro!: resumed intro: only_denials_same split: option.splits)
  show "only_denials R (checkPermission L C E action R)"
    using assms by (simp add: checkPermission_def refresh)
      (simp add: only_denials_def suspended_denies)
  show "only_denials R (onCapabilitiesChanged L C E why ids R)"
    using assms by (simp add: onCapabilitiesChanged_def refreshCertStatus_def resumed fin)
qed

lemma stop_denies: "suspended R \<Longrightarrow> only_denials R (stop L C E R)"
proof -
  have fold: "suspended R' \<Longrightarrow> only_denials R' (fold (\<lambda>(n, f). refreshFrom L C E f) ws R')" for ws R'
  proof (induction ws arbitrary: R')
    case (Cons w ws)
    obtain n f where w: "w = (n, f)" by (cases w)
    from Cons.IH [of "refreshFrom L C E f R'"] Cons.prems refresh_denies [OF Cons.prems, of L C E f]
    show ?case by (simp add: w) (rule only_denials_trans; simp)
  qed (simp add: only_denials_same)
  assume "suspended R"
  then show ?thesis
    unfolding stop_def Let_def
    by (intro only_denials_trans [OF only_denials_same fold]) simp_all
qed

lemma connection_denies:
  "only_denials R (start L C E v R)" "only_denials R (dropConnection R)" "only_denials R (onOpen C s R)"
  "only_denials R (onError C s w R)" "only_denials R (onClose C s R)" "only_denials R (backoffElapsed L C E d R)"
  by (simp_all add: only_denials_same start_def dropConnection_def onError_def onClose_def backoffElapsed_def Let_def)

lemma apply_suspended:
  assumes "suspended R" and "sp_status body \<noteq> Active"
  shows "suspended (applyCertStatus E body R)"
proof (cases "map_of (rt_certificates R) (sp_certId body)")
  case (Some cert)
  let ?cert = "cert\<lparr>hc_status := Some (sp_status body), hc_lastCheckedAt := Some (sp_checkedAt body),
      hc_capabilities := sp_capabilities body, hc_resourceLimits := sp_resourceLimits body,
      hc_scope := sp_scope body, hc_expiresAt := sp_expiresAt body\<rparr>"
  have "suspended (persistCapabilityState E (syncCertificateSnapshot
      (R\<lparr>rt_certificates := map_set (sp_certId body) ?cert (rt_certificates R)\<rparr>)))"
    using assms by (auto simp: suspended_def list_all_iff authorizing_def dest!: in_map_set)
  then show ?thesis by (simp add: applyCertStatus_def Some Let_def)
qed (simp add: applyCertStatus_def assms)

lemma apply_decisions [simp]: "rt_decisions (applyCertStatus E body R) = rt_decisions R"
  by (simp add: applyCertStatus_def Let_def split: option.splits)

text \<open>What may restore authority: a certificate newly issued, and a response that reports a certificate active.\<close>

definition may_restore :: "('vid, 'ch) client_lib \<Rightarrow> 'vid sdk_input \<Rightarrow> bool" where
  "may_restore L i =
     (case i of
        MessageIn s (Frame (CertIssuedOut certId certificate caps)) \<Rightarrow> True
      | MessageIn s (Frame (CertStatusResponseOut token)) \<Rightarrow>
          (case decodeCertUnsafe (cb_certs L) token of
             Some (CertStatusResponse body) \<Rightarrow> sp_status body = Active
           | _ \<Rightarrow> False)
      | _ \<Rightarrow> False)"

lemma verified_decodes:
  "verifyCertStatusResponseCert L now vid token m = Some body \<Longrightarrow>
     decodeCertUnsafe L token = Some (CertStatusResponse body)"
  by (auto simp: verifyCertStatusResponseCert_def dest: openCert_decodeCertUnsafe
      split: option.splits cert_payload.splits if_splits)

lemma response_suspended:
  assumes "suspended R" and "\<not> may_restore L (MessageIn s (Frame (CertStatusResponseOut token)))"
  shows "suspended (onCertStatusResponse L C E token R) \<and> only_denials R (onCertStatusResponse L C E token R)"
proof -
  have inactive: "sp_status body \<noteq> Active"
    if "verifyCertStatusResponseCert (cb_certs L) now vid token m = Some body" for now vid m body
    using assms(2) verified_decodes [OF that] by (simp add: may_restore_def)
  have resumed: "only_denials R (refreshFrom L C E f R')"
    if "suspended R'" and "rt_decisions R' = rt_decisions R" for f R'
    using refresh_denies [OF that(1)] that(2) by (simp add: only_denials_def)
  show ?thesis
    using assms(1)
    by (auto simp: onCertStatusResponse_def resolveWaiter_def Let_def
        intro!: apply_suspended inactive resumed intro: only_denials_same
        split: option.splits list.splits if_splits)
qed

lemma issued_or_response:
  "\<not> may_restore L (MessageIn s frame) \<Longrightarrow> frame \<noteq> Frame (CertIssuedOut i c caps)"
  by (auto simp: may_restore_def)

lemma message_suspended:
  assumes "suspended R" and "\<not> may_restore L (MessageIn s frame)"
  shows "suspended (handleMessage_rt L C E frame R) \<and> only_denials R (handleMessage_rt L C E frame R)"
proof (cases frame)
  case (Frame m)
  let ?R = "emit (MessageEv (Frame m)) R"
  have same: "suspended ?R" "rt_decisions ?R = rt_decisions R" using assms by simp_all
  show ?thesis
  proof (cases m)
    case (CertStatusResponseOut token)
    with response_suspended [OF same(1), of L s token C E] assms Frame show ?thesis
      by (simp add: handleMessage_rt_def only_denials_def)
  next
    case (CapabilitiesChangedOut why ids)
    with calls_deny(4) [OF same(1), of L C E why ids] Frame assms show ?thesis
      by (simp add: handleMessage_rt_def only_denials_def)
  next
    case (CertIssuedOut i c caps)
    with assms(2) Frame show ?thesis by (simp add: may_restore_def)
  qed (use assms Frame in \<open>simp_all add: handleMessage_rt_def kill_suspends only_denials_same\<close>)
qed (use assms in \<open>simp_all add: handleMessage_rt_def only_denials_same\<close>)

lemma step_suspended:
  assumes "suspended R" and "\<not> may_restore L i"
  shows "suspended (sdk_step L C E i R) \<and> only_denials R (sdk_step L C E i R)"
proof (cases i)
  case (MessageIn s frame)
  with message_suspended [OF assms(1), of L s frame C E] assms show ?thesis
    by (simp add: sdk_step_def only_denials_same)
next
  case DeferredIn
  have "only_denials R (refreshCertStatus L C E NoCont (R\<lparr>rt_deferred := rt_deferred R - 1\<rparr>))"
    using calls_deny(1) [of "R\<lparr>rt_deferred := rt_deferred R - 1\<rparr>" L C E NoCont] assms
    by (simp add: only_denials_def)
  with DeferredIn assms show ?thesis by (simp add: sdk_step_def only_denials_same)
qed (use assms calls_deny [OF assms(1)] stop_denies [OF assms(1)] in
    \<open>simp_all add: sdk_step_def only_denials_same connection_denies\<close>)

lemma run_suspended:
  "suspended R \<Longrightarrow> list_all (\<lambda>(E, i). \<not> may_restore L i) evs \<Longrightarrow>
     suspended (sdk_run L C evs R) \<and> only_denials R (sdk_run L C evs R)"
proof (induction evs arbitrary: R)
  case (Cons e evs)
  obtain E i where e: "e = (E, i)" by (cases e)
  with Cons.prems step_suspended [of R L i C E] Cons.IH [of "sdk_step L C E i R"] show ?case
    by (auto intro: only_denials_trans)
qed (simp add: only_denials_same)

lemma run_snapshot: "snapshot_ok R \<Longrightarrow> snapshot_ok (sdk_run L C evs R)"
  by (induction evs arbitrary: R) (auto simp: snapshot_step)

text \<open>C16 (safety). After a kill switch the runtime holds no capability and every decision is a denial, whether the
  question was asked before or after and whatever happens next (reconnects, restarts of the loop,
  refreshes, time-outs, configuration pushes), until a new certificate is issued or a response reports a
  certificate active.\<close>

theorem kill_switch_holds:
  assumes "sdk_reach L C R" and "list_all (\<lambda>(E, i). \<not> may_restore L i) evs"
    and "R' = sdk_run L C evs (onKillSwitch E R)"
  shows "rt_capabilityNames R' = [] \<and> \<not> allowed (resolvePermission_rt L action now R')
    \<and> (\<exists>ds. rt_decisions R' = rt_decisions R @ ds \<and> list_all (\<lambda>d. \<not> allowed (snd d)) ds)"
proof -
  have cut: "suspended R'" "only_denials (onKillSwitch E R) R'"
    using run_suspended [OF kill_suspends assms(2)] assms(3) by simp_all
  have "snapshot_ok R'" using assms(3) run_snapshot [OF snapshot_kill [OF snapshot_reach [OF assms(1)]]] by simp
  with cut(1) have "rt_capabilityNames R' = []"
    using in_usable [of _ "rt_certificates R'"] 
    by (cases "usable_capabilities (rt_certificates R')")
       (fastforce simp: snapshot_ok_def suspended_def list_all_iff)+
  with cut suspended_denies(2) [OF cut(1)] show ?thesis by (simp add: only_denials_def)
qed

section \<open>A small runtime\<close>

text \<open>
  The Challenger of the examples counts rounds and is complete after the second; signing is the identity
  on bodies, and the payloads are those of a table.
\<close>

definition demo_client :: "cert_payload list \<Rightarrow> (byte, nat) client_lib" where
  "demo_client ps =
     \<lparr>cb_certs = table_certlib ps,
      cb_challenger = \<lparr>ch_new = (\<lambda>_. 0), ch_update = (\<lambda>c _. Some (Suc c)), ch_bytes = (\<lambda>_. []),
        ch_failed = (\<lambda>_. False), ch_error = (\<lambda>_. None), ch_context = (\<lambda>_. (''p2p'', ''auth'')),
        ch_complete = (\<lambda>c. c \<ge> 2), ch_contact = (\<lambda>_. 7)\<rparr>,
      cb_create = (\<lambda>c _ _. Suc c), cb_contact = (\<lambda>_. Some 7), cb_did = (\<lambda>_. ''did:me''), cb_v1 = id,
      cb_fromSecret = (\<lambda>_. Some 1), cb_getSecret = (\<lambda>_. ''s''), cb_urlValid = (\<lambda>_. True)\<rparr>"

definition demo_saved :: "string \<Rightarrow> string \<Rightarrow> state_certificate" where
  "demo_saved i cap =
     \<lparr>st_certId = Some i, st_certificate = ''c'', st_capabilities = Some [cap], st_lastStatus = Some Active,
      st_lastCheckedAt = Some 0, st_issuedAt = Some 0, st_expiresAt = None, st_resourceLimits = None,
      st_scope = None\<rparr>"

definition demo_config :: runtime_config where
  "demo_config =
     \<lparr>cf_name = ''a'', cf_kind = ''openclaw'', cf_url = ''http://h'', cf_requestedCapabilities = None,
      cf_autoReconnect = None, cf_heartbeatIntervalMs = None, cf_reconnectBaseDelayMs = None,
      cf_reconnectMaxDelayMs = None, cf_manifestFile = None,
      cf_stateFile = Some (StateFile [Some (demo_saved ''k'' ''file_read''), Some (demo_saved ''j'' ''api_call'')])\<rparr>"

definition demo_held :: "string \<Rightarrow> string \<Rightarrow> held_certificate" where
  "demo_held i cap = held_of (demo_saved i cap)"

definition demo_runtime :: "(byte, nat) runtime" where
  "demo_runtime = syncCertificateSnapshot ((blank_runtime EMPTY_MANIFEST (cf_stateFile demo_config))\<lparr>rt_certificates :=
     [(''k'', demo_held ''k'' ''file_read''), (''j'', demo_held ''j'' ''api_call'')]\<rparr>)"

lemma demo_constructed: "construct demo_config = Inr demo_runtime"
  by (simp add: construct_def demo_config_def loadCapabilityManifest_def loadCapabilityState_def demo_runtime_def
      well_formed_entry_def demo_saved_def demo_held_def held_of_def)

lemma demo_reach: "sdk_reach L demo_config demo_runtime"
  by (rule sdk_reach.constructed [OF demo_constructed])

definition demo_now :: "int \<Rightarrow> sdk_env" where
  "demo_now t = \<lparr>ee_now = t, ee_nonce = ''n'', ee_socket = 0, ee_writable = True\<rparr>"

definition demo_read :: requested_action where
  "demo_read = \<lparr>ra_capability = ''file_read'', ra_resource = None\<rparr>"

lemma demo_runtime_facts:
  "rt_capabilityNames demo_runtime = [''file_read'', ''api_call'']"
  "rt_certificates demo_runtime = [(''k'', demo_held ''k'' ''file_read''), (''j'', demo_held ''j'' ''api_call'')]"
  "rt_actorConfig demo_runtime = None"
  "allowed (resolvePermission_rt (demo_client []) demo_read 5 demo_runtime)"
  by code_simp+

theorem snapshot_sound_witness:
  "hasCapability_rt ''file_read'' demo_runtime \<and> \<not> hasCapability_rt ''mail_send'' demo_runtime
     \<and> distinct (rt_capabilityNames demo_runtime)"
  using snapshot_sound [OF demo_reach, of 5] demo_runtime_facts(1)
  by (simp add: hasCapability_rt_def)

theorem kill_switch_holds_witness:
  "\<not> allowed (resolvePermission_rt (demo_client []) demo_read 5
     (sdk_run (demo_client []) demo_config [(demo_now 1, StartIn 1), (demo_now 2, OpenIn 0), (demo_now 3, AskIn demo_read)]
        (onKillSwitch (demo_now 1) demo_runtime)))"
  using kill_switch_holds [OF demo_reach _ refl, where L = "demo_client []"
      and evs = "[(demo_now 1, StartIn 1), (demo_now 2, OpenIn 0), (demo_now 3, AskIn demo_read)]"
      and E = "demo_now 1" and action = demo_read and now = 5]
  by (simp add: may_restore_def)

section \<open>Restart\<close>

lemma held_saved [simp]: "held_of (saved_form h) = h"
  by (simp add: held_of_def saved_form_def)

lemma fold_map_set_fresh:
  "distinct (map fst (acc @ m)) \<Longrightarrow> fold (\<lambda>(k, v). map_set k v) m acc = acc @ m"
proof (induction m arbitrary: acc)
  case (Cons x m)
  obtain k v where x: "x = (k, v)" by (cases x)
  have "k \<notin> fst ` set acc" using Cons.prems x by auto
  then have "map_set k v acc = acc @ [(k, v)]" by (induction acc) auto
  with Cons.IH [of "acc @ [(k, v)]"] Cons.prems x show ?case by simp
qed simp

lemma reach_manifest: "sdk_reach L C R \<Longrightarrow> \<exists>m. loadCapabilityManifest (cf_manifestFile C) = Inr m"
  by (induction rule: sdk_reach.induct) (auto simp: construct_def split: sum.splits)

text \<open>C17 (roundtrip). A runtime that holds certificates and has a writable state file comes back from a restart with what it held:
  constructing from the file it wrote succeeds and gives the same certificates, capabilities, certificate
  of its own, status and check time.\<close>

theorem restart_restores:
  assumes reach: "sdk_reach L C R" and held: "rt_certificates R \<noteq> []" and path: "rt_stateFile R \<noteq> None"
    and ok: "ee_writable E"
  shows "\<exists>R' :: ('vid, 'ch) runtime. construct (C\<lparr>cf_stateFile := rt_stateFile (persistCapabilityState E R)\<rparr>) = Inr R'
    \<and> holdings R' = holdings R"
proof -
  from reach_manifest [OF reach] obtain m where m: "loadCapabilityManifest (cf_manifestFile C) = Inr m" by blast
  have snap: "snapshot_ok R" by (rule snapshot_reach [OF reach])
  have written: "rt_stateFile (persistCapabilityState E R)
      = Some (StateFile (map (Some \<circ> saved_form \<circ> snd) (rt_certificates R)))"
    using held path ok by (auto simp: persistCapabilityState_def saveCapabilityState_def Let_def)
  have loaded: "loadCapabilityState (rt_stateFile (persistCapabilityState E R))
      = Inr (Some (map (saved_form \<circ> snd) (rt_certificates R)))"
    by (auto simp: written loadCapabilityState_def list_all_iff well_formed_entry_def saved_form_def comp_assoc)
  have "fold (\<lambda>c. map_set (hc_certId (held_of c)) (held_of c)) (map (saved_form \<circ> snd) (rt_certificates R)) []
      = fold (\<lambda>(k, v). map_set k v) (rt_certificates R) []"
    unfolding fold_map by (rule fold_cong) (use snap in \<open>auto simp: snapshot_ok_def list_all_iff\<close>)
  also have "\<dots> = rt_certificates R"
    using fold_map_set_fresh [of "[]" "rt_certificates R"] snap by (simp add: snapshot_ok_def)
  finally have certs: "fold (\<lambda>c. map_set (hc_certId (held_of c)) (held_of c))
      (map (saved_form \<circ> snd) (rt_certificates R)) [] = rt_certificates R" .
  show ?thesis
    using m loaded certs snap
    by (simp add: construct_def holdings_def syncCertificateSnapshot_def currentCertificate_def snapshot_ok_def Let_def)
qed

theorem restart_restores_witness:
  "\<exists>R' :: (byte, nat) runtime. construct (demo_config\<lparr>cf_stateFile := rt_stateFile (persistCapabilityState (demo_now 1)
     demo_runtime)\<rparr>) = Inr R' \<and> rt_capabilityNames R' = [''file_read'', ''api_call'']"
  using restart_restores [OF demo_reach, of "demo_now 1"] demo_runtime_facts
  by (auto simp: holdings_def demo_runtime_def syncCertificateSnapshot_def blank_runtime_def demo_config_def
      demo_now_def Let_def)

end
