(* ===== verification/SdkLiveness.thy ===== *)
theory SdkLiveness
  imports SdkAuthority "HOL-Library.Multiset"
begin

text \<open>
  What the runtime does when the control plane does not answer, refuses, or answers in part: every check
  is answered after finitely many time-outs, and the behaviour of the back-off, of a failed certificate
  exchange and of a refresh that succeeds for some certificates only.
\<close>

section \<open>Every check is answered\<close>

definition asked_by :: "refresh_cont \<Rightarrow> requested_action list" where
  "asked_by k = (case k of CheckCont action noted \<Rightarrow> [action] | _ \<Rightarrow> [])"

text \<open>The questions put to \<open>checkPermission\<close>: answered ones and waiting ones.\<close>

definition questions :: "('vid, 'ch) runtime \<Rightarrow> requested_action multiset" where
  "questions R = mset (map fst (rt_decisions R)) + mset (concat (map (asked_by \<circ> rf_cont \<circ> snd) (rt_pending R)))"

text \<open>How many more replies the waiting refreshes can await.\<close>

definition awaited :: "('vid, 'ch) runtime \<Rightarrow> nat" where
  "awaited R = sum_list (map (\<lambda>(n, f). Suc (length (rt_certificates R) - rf_index f)) (rt_pending R))"

text \<open>The control plane stays silent: one waiter after the other times out.\<close>

fun drain ::
  "('vid, 'ch) client_lib \<Rightarrow> runtime_config \<Rightarrow> (nat \<Rightarrow> sdk_env) \<Rightarrow> nat \<Rightarrow> ('vid, 'ch) runtime \<Rightarrow> ('vid, 'ch) runtime" where
  "drain L C Es 0 R = R"
| "drain L C Es (Suc n) R =
     (case rt_pending R of
        [] \<Rightarrow> R
      | (nonce, f) # rest \<Rightarrow> drain L C Es n (sdk_step L C (Es n) (TimeoutIn nonce) R))"

lemma pending_plain [simp]:
  "rt_pending (emit e R) = rt_pending R"
  "rt_pending (sendRaw m R) = rt_pending R"
  "rt_pending (emitCapabilityChange b r ids u R) = rt_pending R"
  "rt_pending (cacheServerVid L R) = rt_pending R"
  "rt_pending (maybeRequestCapabilities C f R) = rt_pending R"
  by (auto simp: emit_def sendRaw_def emitCapabilityChange_def cacheServerVid_def maybeRequestCapabilities_def Let_def
      split: option.splits)

lemma pending_refreshOne [simp]: "rt_pending (snd (refreshOneCertStatus L E c R)) = rt_pending R"
  by (auto simp: refreshOneCertStatus_def Let_def split: option.splits)

lemma finish_answers:
  "rt_pending (finishRefresh L C E k r R) = rt_pending R"
  "map fst (rt_decisions (finishRefresh L C E k r R)) = map fst (rt_decisions R) @ asked_by k"
  by (auto simp: finishRefresh_def asked_by_def Let_def split: refresh_cont.splits)

definition waits_or_ends :: "sdk_env \<Rightarrow> refresh \<Rightarrow> ('vid, 'ch) runtime \<Rightarrow> ('vid, 'ch) runtime \<Rightarrow> bool" where
  "waits_or_ends E f R R' \<longleftrightarrow>
     (rt_pending R' = rt_pending R \<and> map fst (rt_decisions R') = map fst (rt_decisions R) @ asked_by (rf_cont f))
     \<or> (\<exists>g. rt_pending R' = map_set (ee_nonce E) g (rt_pending R) \<and> rf_cont g = rf_cont f
          \<and> rf_index f < rf_index g \<and> rf_index g \<le> length (rt_certificates R) \<and> rt_decisions R' = rt_decisions R)"

lemma refresh_waits_or_ends: "waits_or_ends E f R (refreshFrom L C E f R)"
  by (rule refreshFrom_rule [where P = "\<lambda>X. rt_pending X = rt_pending R \<and> rt_decisions X = rt_decisions R
        \<and> rt_certificates X = rt_certificates R"])
     (auto simp: waits_or_ends_def finish_answers)

lemma map_set_new: "k \<notin> fst ` set m \<Longrightarrow> map_set k v m = m @ [(k, v)]"
  by (induction m) auto

lemma refresh_keeps_certificates [simp]: "rt_certificates (refreshFrom L C E f R) = rt_certificates R"
  by (rule holdings_certificates) simp

lemma timeout_progress:
  fixes L C
  assumes "rt_pending R = (nonce, f) # rest" and "distinct (map fst (rt_pending R))"
    and "ee_nonce E \<notin> fst ` set (rt_pending R)"
  defines "R' \<equiv> sdk_step L C E (TimeoutIn nonce) R"
  shows "questions R' = questions R" "awaited R' < awaited R" "distinct (map fst (rt_pending R'))"
    "fst ` set (rt_pending R') \<subseteq> insert (ee_nonce E) (fst ` set (rt_pending R))"
proof -
  let ?R = "R\<lparr>rt_pending := rest\<rparr>"
  have "map_remove nonce ((nonce, f) # rest) = rest" using assms(1,2) by (simp add: delete_idem)
  then have R': "R' = refreshFrom L C E f ?R"
    by (simp add: R'_def sdk_step_def timeoutStatusCheck_def assms(1))
  have certs: "rt_certificates R' = rt_certificates R" by (simp add: R')
  have fresh: "ee_nonce E \<notin> fst ` set rest" using assms by auto
  from refresh_waits_or_ends [of E f ?R L C] have
    "(rt_pending R' = rest \<and> map fst (rt_decisions R') = map fst (rt_decisions R) @ asked_by (rf_cont f))
     \<or> (\<exists>g. rt_pending R' = rest @ [(ee_nonce E, g)] \<and> rf_cont g = rf_cont f
          \<and> rf_index f < rf_index g \<and> rf_index g \<le> length (rt_certificates R) \<and> rt_decisions R' = rt_decisions R)"
    by (simp add: waits_or_ends_def R' map_set_new [OF fresh])
  then have "questions R' = questions R \<and> awaited R' < awaited R \<and> distinct (map fst (rt_pending R'))
      \<and> fst ` set (rt_pending R') \<subseteq> insert (ee_nonce E) (fst ` set (rt_pending R))"
    using assms(1-3) fresh by (elim disjE exE) (auto simp: questions_def awaited_def certs)
  then show "questions R' = questions R" "awaited R' < awaited R" "distinct (map fst (rt_pending R'))"
    "fst ` set (rt_pending R') \<subseteq> insert (ee_nonce E) (fst ` set (rt_pending R))" by blast+
qed

lemma drain_answers:
  assumes "inj (\<lambda>i. ee_nonce (Es i))"
  shows "distinct (map fst (rt_pending R)) \<Longrightarrow> \<forall>i < n. ee_nonce (Es i) \<notin> fst ` set (rt_pending R) \<Longrightarrow>
    awaited R \<le> n \<Longrightarrow> rt_pending (drain L C Es n R) = [] \<and> questions (drain L C Es n R) = questions R"
proof (induction n arbitrary: R)
  case 0
  then show ?case by (cases "rt_pending R") (auto simp: awaited_def)
next
  case (Suc n)
  show ?case
  proof (cases "rt_pending R")
    case (Cons w rest)
    obtain nonce f where w: "w = (nonce, f)" by (cases w)
    let ?R' = "sdk_step L C (Es n) (TimeoutIn nonce) R"
    note step = timeout_progress [OF Cons [unfolded w] Suc.prems(1), of "Es n" L C]
    have new: "ee_nonce (Es n) \<notin> fst ` set (rt_pending R)" using Suc.prems(2) by simp
    have later: "\<forall>i < n. ee_nonce (Es i) \<notin> fst ` set (rt_pending ?R')"
    proof (intro allI impI)
      fix i assume "i < n"
      then have "ee_nonce (Es i) \<noteq> ee_nonce (Es n)" using assms by (auto dest: injD)
      moreover have "ee_nonce (Es i) \<notin> fst ` set (rt_pending R)" using Suc.prems(2) \<open>i < n\<close> by simp
      ultimately show "ee_nonce (Es i) \<notin> fst ` set (rt_pending ?R')" using step(4) [OF new] by blast
    qed
    from Suc.IH [OF step(3) [OF new] later] step(1,2) [OF new] Suc.prems(3) Cons w show ?thesis by simp
  qed simp
qed

text \<open>C18 (liveness). However many status requests are out and none is answered, finitely many time-outs (at most one for
  each waiting refresh and each certificate it has not asked about yet, plus one) end every refresh, and
  every question a caller of \<open>checkPermission\<close> was waiting on is answered exactly once.\<close>

theorem checks_are_answered:
  assumes "distinct (map fst (rt_pending R))" and "inj (\<lambda>i. ee_nonce (Es i))"
    and "list_all (\<lambda>k. \<not> (\<exists>i. ee_nonce (Es i) = k)) (map fst (rt_pending R))"
    and "awaited R \<le> n"
  shows "rt_pending (drain L C Es n R) = []
    \<and> mset (map fst (rt_decisions (drain L C Es n R)))
        = mset (map fst (rt_decisions R)) + mset (concat (map (asked_by \<circ> rf_cont \<circ> snd) (rt_pending R)))"
proof -
  have "\<forall>i < n. ee_nonce (Es i) \<notin> fst ` set (rt_pending R)" using assms(3) by (auto simp: list_all_iff)
  from drain_answers [OF assms(2,1) this assms(4), of L C]
  have idle: "rt_pending (drain L C Es n R) = []" and "questions (drain L C Es n R) = questions R" by blast+
  then show ?thesis by (simp add: questions_def idle)
qed

definition demo_waiting :: "(byte, nat) runtime" where
  "demo_waiting = demo_runtime\<lparr>rt_pending := [(''w'', \<lparr>rf_index = 1, rf_any = False,
     rf_cont = CheckCont demo_read [(''k'', Some 0), (''j'', Some 0)]\<rparr>)]\<rparr>"

theorem checks_are_answered_witness:
  "rt_pending (drain (demo_client []) demo_config (\<lambda>i. (demo_now 9)\<lparr>ee_nonce := replicate i CHR ''a''\<rparr>) 2 demo_waiting) = []"
proof -
  have "inj (\<lambda>i. ee_nonce ((demo_now 9)\<lparr>ee_nonce := replicate i CHR ''a''\<rparr>))"
    by (auto intro!: injI dest: arg_cong [where f = length])
  moreover have "replicate i CHR ''a'' \<noteq> ''w''" for i by (cases i) auto
  ultimately show ?thesis
    using checks_are_answered [of demo_waiting "\<lambda>i. (demo_now 9)\<lparr>ee_nonce := replicate i CHR ''a''\<rparr>" 2]
    by (simp add: demo_waiting_def awaited_def demo_runtime_facts)
qed

section \<open>A refresh that succeeds in part\<close>

text \<open>When a refresh succeeded for any certificate, the waiting check is decided on the certificates whose
  check time changed alone: an action that only certificates without a new answer carry is denied even if
  the organisation fails open, while with no answer at all the check gets the synchronous decision.\<close>

theorem partial_refresh_decides:
  assumes "list_all (\<lambda>(k, h). \<not> (ra_capability action \<in> set (hc_capabilities h)
      \<and> map_of noted (hc_certId h) \<noteq> Some (hc_lastCheckedAt h))) (rt_certificates R)"
  shows "(\<exists>d. rt_decisions (finishRefresh L C E (CheckCont action noted) True R) = rt_decisions R @ [(action, d)] \<and> \<not> allowed d)
    \<and> rt_decisions (finishRefresh L C E (CheckCont action noted) False R)
       = rt_decisions R @ [(action, resolvePermission_rt L action (ee_now E) R)]"
  using assms
  by (auto simp: finishRefresh_def allowed_iff activeCerts_def grants_def lite_def gate_passed_def list_all_iff)

definition demo_open :: "(byte, nat) runtime" where
  "demo_open = demo_runtime\<lparr>rt_actorConfig := Some \<lparr>ac_kindConfig = JNull, ac_grantToken = None, ac_ruleSetToken = None,
     ac_failClosed = False, ac_maxStatusAgeSeconds = 1\<rparr>\<rparr>"

theorem partial_refresh_decides_witness:
  "\<exists>d d'. rt_decisions (finishRefresh (demo_client []) demo_config (demo_now 9000)
        (CheckCont demo_read [(''k'', Some 0), (''j'', Some 5)]) True demo_open) = [(demo_read, d)] \<and> \<not> allowed d
     \<and> rt_decisions (finishRefresh (demo_client []) demo_config (demo_now 9000)
        (CheckCont demo_read [(''k'', Some 0), (''j'', Some 5)]) False demo_open) = [(demo_read, d')] \<and> allowed d'"
proof -
  have certs: "rt_certificates demo_open = [(''k'', demo_held ''k'' ''file_read''), (''j'', demo_held ''j'' ''api_call'')]"
    "rt_decisions demo_open = []"
    by code_simp+
  have hyp: "list_all (\<lambda>(k, h). \<not> (ra_capability demo_read \<in> set (hc_capabilities h)
      \<and> map_of [(''k'', Some 0), (''j'', Some 5)] (hc_certId h) \<noteq> Some (hc_lastCheckedAt h))) (rt_certificates demo_open)"
    by (simp add: certs demo_read_def demo_held_def demo_saved_def held_of_def)
  have sync: "allowed (resolvePermission_rt (demo_client []) demo_read 9000 demo_open)" by code_simp
  from partial_refresh_decides [OF hyp, of "demo_client []" demo_config "demo_now 9000"] sync show ?thesis
    by (simp add: certs demo_now_def)
qed

section \<open>Back-off and failed exchanges\<close>

text \<open>The base delay and the bound in force.\<close>

definition base_delay :: "runtime_config \<Rightarrow> int" where
  "base_delay C = (case cf_reconnectBaseDelayMs C of None \<Rightarrow> DEFAULT_reconnectBaseDelayMs | Some b \<Rightarrow> b)"

definition max_delay :: "runtime_config \<Rightarrow> int" where
  "max_delay C = (case cf_reconnectMaxDelayMs C of None \<Rightarrow> DEFAULT_reconnectMaxDelayMs | Some m \<Rightarrow> m)"

lemma backoff_delay_bounds:
  assumes "0 \<le> base_delay C" and "base_delay C \<le> max_delay C"
  shows "base_delay C \<le> backoff_delay C n \<and> backoff_delay C n \<le> max_delay C \<and> backoff_delay C 0 = base_delay C"
proof -
  have "base_delay C * 1 \<le> base_delay C * 2 ^ n" by (rule mult_left_mono) (use assms in simp_all)
  with assms show ?thesis
    unfolding backoff_delay_def base_delay_def [symmetric] max_delay_def [symmetric] by simp
qed

text \<open>Every back-off delay lies between the base delay and the maximum, but the counter it grows with is
  cleared by every close: a runtime that is refused in the handshake and closed retries after the base
  delay again, however often it has been refused.\<close>

theorem refused_retries_at_base:
  assumes "AwaitSocket s \<in> set (rt_loops R)" and "s \<in> set (rt_live R)" and "\<not> rt_stopped R"
    and "cf_autoReconnect C \<noteq> Some False" and "0 \<le> base_delay C" and "base_delay C \<le> max_delay C"
  shows "AwaitDelay (base_delay C) \<in> set (rt_loops (sdk_step L C E (CloseIn s) R))
    \<and> rt_reconnectAttempts (sdk_step L C E (CloseIn s) R) = 1
    \<and> base_delay C \<le> backoff_delay C n \<and> backoff_delay C n \<le> max_delay C"
  using assms backoff_delay_bounds [OF assms(5,6), of n] backoff_delay_bounds [OF assms(5,6), of 0]
  by (auto simp: sdk_step_def onClose_def settle_def afterConnect_def backoff_def clearHeartbeat_def setStatus_def
      emit_def Let_def)

theorem refused_retries_at_base_witness:
  "AwaitDelay 1000 \<in> set (rt_loops (sdk_step (demo_client []) demo_config (demo_now 1) (CloseIn 0)
     (demo_runtime\<lparr>rt_loops := [AwaitSocket 0], rt_live := [0], rt_reconnectAttempts := 5\<rparr>)))"
  using refused_retries_at_base [of 0 "demo_runtime\<lparr>rt_loops := [AwaitSocket 0], rt_live := [0], rt_reconnectAttempts := 5\<rparr>"
      demo_config "demo_client []" "demo_now 1" 0]
  by (simp add: demo_config_def base_delay_def max_delay_def DEFAULT_reconnectMaxDelayMs_def
      DEFAULT_reconnectBaseDelayMs_def demo_runtime_def syncCertificateSnapshot_def blank_runtime_def Let_def)

text \<open>A failed certificate exchange leaves its handshake behind: the next exchange, which the server opens under
  a new session, is refused as an unknown session and nothing is sent, for as long as the connection
  lasts.\<close>

theorem failed_exchange_blocks_next:
  assumes "rt_certHandshake R = Some c" and "rt_certSessionId R = Some old" and "session \<noteq> old"
  shows "\<exists>log. handleMessage_rt L C E' (Frame (CertChallengeOut session data))
      (handleMessage_rt L C E (Frame (CertFailedOut why)) R)
    = R\<lparr>rt_events := rt_events R @ log @ [ErrorEv ''cert_challenge for an unknown session'']\<rparr>"
  using assms
  by (intro exI [of _ "[MessageEv (Frame (CertFailedOut why)), ErrorEv (''Certificate issuance failed: '' @ why),
        MessageEv (Frame (CertChallengeOut session data))]"])
     (simp add: handleMessage_rt_def onCertChallenge_def thrown_def emit_def)

theorem failed_exchange_blocks_next_witness:
  "rt_sent (handleMessage_rt (demo_client []) demo_config (demo_now 2) (Frame (CertChallengeOut ''t'' []))
      (handleMessage_rt (demo_client []) demo_config (demo_now 1) (Frame (CertFailedOut ''Internal error''))
        (demo_runtime\<lparr>rt_certHandshake := Some 1, rt_certSessionId := Some ''s'', rt_ws := Some 0, rt_open := [0]\<rparr>))) = []"
  using failed_exchange_blocks_next [of "demo_runtime\<lparr>rt_certHandshake := Some 1, rt_certSessionId := Some ''s'',
      rt_ws := Some 0, rt_open := [0]\<rparr>" 1 "''s''" "''t''" "demo_client []" demo_config "demo_now 2" "[]" "demo_now 1" "''Internal error''"]
  by (auto simp: demo_runtime_def syncCertificateSnapshot_def blank_runtime_def Let_def)

end
