(* ===== verification/SdkServer.thy ===== *)
theory SdkServer
  imports SdkAuthority Deliveries
begin

text \<open>
  The two ends together: what the connection server answers about a certificate
  (\<open>packages/controlplane/lib/ws-server.ts\<close>) and what the runtime of its holder makes of the answer
  (\<open>packages/sdk/src/actor-runtime.ts\<close>).
\<close>

lemma staples_plain [simp]:
  "rt_staples (emit e R) = rt_staples R"
  "rt_staples (sendRaw m R) = rt_staples R"
  "rt_staples (emitCapabilityChange b r ids u R) = rt_staples R"
  "rt_staples (cacheServerVid L R) = rt_staples R"
  "rt_staples (maybeRequestCapabilities C f R) = rt_staples R"
  "rt_staples (syncCertificateSnapshot R) = rt_staples R"
  "rt_staples (persistCapabilityState E R) = rt_staples R"
  by (auto simp: emit_def sendRaw_def emitCapabilityChange_def cacheServerVid_def maybeRequestCapabilities_def
      syncCertificateSnapshot_def persistCapabilityState_def Let_def split: option.splits)

lemma staples_refresh [simp]: "rt_staples (refreshFrom L C E f R) = rt_staples R"
proof -
  have "rt_staples (snd (refreshOneCertStatus L E c R')) = rt_staples R'" for c R'
    by (auto simp: refreshOneCertStatus_def Let_def split: option.splits)
  moreover have "rt_staples (finishRefresh L C E k r R') = rt_staples R'" for k r R'
    by (auto simp: finishRefresh_def Let_def split: refresh_cont.splits)
  ultimately show ?thesis
    by (intro refreshFrom_rule [where P = "\<lambda>X. rt_staples X = rt_staples R"
        and Q = "\<lambda>X. rt_staples X = rt_staples R"]) simp_all
qed

lemma refresh_certificates [simp]: "rt_certificates (refreshFrom L C E f R) = rt_certificates R"
  by (rule holdings_certificates) simp

lemma certificates_plain [simp]:
  "rt_certificates (emit e R) = rt_certificates R"
  "rt_certificates (cacheServerVid L R) = rt_certificates R"
  "rt_certificates (emitCapabilityChange b r ids u R) = rt_certificates R"
  by (rule holdings_certificates, simp)+

text \<open>The certificate after a status is applied to it.\<close>

definition restated :: "cert_status_response_body \<Rightarrow> held_certificate \<Rightarrow> held_certificate" where
  "restated body h = h\<lparr>hc_status := Some (sp_status body), hc_lastCheckedAt := Some (sp_checkedAt body),
     hc_capabilities := sp_capabilities body, hc_resourceLimits := sp_resourceLimits body,
     hc_scope := sp_scope body, hc_expiresAt := sp_expiresAt body\<rparr>"

lemma apply_certificates:
  "rt_certificates (applyCertStatus E body R) =
     (case map_of (rt_certificates R) (sp_certId body) of
        None \<Rightarrow> rt_certificates R
      | Some h \<Rightarrow> map_set (sp_certId body) (restated body h) (rt_certificates R))"
  by (simp add: applyCertStatus_def restated_def Let_def split: option.splits)

lemma apply_staples [simp]: "rt_staples (applyCertStatus E body R) = rt_staples R"
  by (simp add: applyCertStatus_def Let_def split: option.splits)

lemma response_applied:
  fixes C
  assumes "serverVid L R = Some server"
    and "verifyCertStatusResponseCert (cb_certs L) (ee_now E) server token
           (case maxStatusAgeMs R of None \<Rightarrow> None | Some a \<Rightarrow> if a = 0 then None else Some a) = Some body"
  defines "R' \<equiv> handleMessage_rt L C E (Frame (CertStatusResponseOut token)) R"
  shows "rt_certificates R' =
       (case map_of (rt_certificates R) (sp_certId body) of
          None \<Rightarrow> rt_certificates R
        | Some h \<Rightarrow> map_set (sp_certId body) (restated body h) (rt_certificates R))"
    and "rt_staples R' = (if map_has (rt_certificates R) (sp_certId body)
                          then map_set (sp_certId body) token (rt_staples R) else rt_staples R)"
proof -
  have vid: "rt_serverVid (cacheServerVid L (emit e R)) = Some server" for e
    using assms(1) by (simp add: cacheServerVid_def emit_def serverVid_def cong: option.case_cong)
  have age: "maxStatusAgeMs (cacheServerVid L (emit e R)) = maxStatusAgeMs R" for e
    by (simp add: maxStatusAgeMs_def cacheServerVid_def emit_def)
  note facts = R'_def handleMessage_rt_def onCertStatusResponse_def resolveWaiter_def Let_def vid age assms(2)
  show "rt_certificates R' =
       (case map_of (rt_certificates R) (sp_certId body) of
          None \<Rightarrow> rt_certificates R
        | Some h \<Rightarrow> map_set (sp_certId body) (restated body h) (rt_certificates R))"
    by (simp add: facts apply_certificates split: list.split option.split)
  show "rt_staples R' = (if map_has (rt_certificates R) (sp_certId body)
                          then map_set (sp_certId body) token (rt_staples R) else rt_staples R)"
    by (cases "map_of (rt_certificates R) (sp_certId body)") (simp_all add: facts split: list.split)
qed

text \<open>C19 (refinement). A status reply of the server, received by a runtime that established the server's identity and
  within the age it accepts, makes the runtime hold exactly what the ledger says at the time of the
  reply: the certificate's status and capabilities become the ones the server resolved from the row, its
  holder, the armed kill switches and the registry, its limits, scope and expiry the row's, the reply
  becomes its staple, and no other certificate is touched.\<close>

theorem reply_mirrors_ledger:
  assumes "lawful_certlib (lb_certs lib)" and "cb_certs L = lb_certs lib"
    and "ws_out (handleCertStatusRequest lib ev s pl st) = ws_out st @ [(to, CertStatusResponseOut reply)]"
    and "serverVid L R = Some (lb_serverVid lib)"
    and "case maxStatusAgeMs R of None \<Rightarrow> True | Some a \<Rightarrow> a = 0 \<or> ee_now E - ev_now ev \<le> a"
    and "R' = handleMessage_rt L C E (Frame (CertStatusResponseOut reply)) R"
  shows "\<exists>certId cert holder eff. cert_findByIdWithActor certId (ws_db st) = Some (cert, holder)
    \<and> eff = resolveCertStatus (as_resolvable cert) (as_actor holder) (ev_armed ev) (ev_registry ev) (ev_now ev)
    \<and> (case map_of (rt_certificates R) (c_id cert) of
         None \<Rightarrow> rt_certificates R' = rt_certificates R \<and> rt_staples R' = rt_staples R
       | Some h \<Rightarrow> rt_certificates R' = map_set (c_id cert)
             (h\<lparr>hc_status := Some (es_status eff), hc_lastCheckedAt := Some (ev_now ev),
                hc_capabilities := es_capabilities eff, hc_resourceLimits := c_resourceLimits cert,
                hc_scope := c_scope cert, hc_expiresAt := c_expiresAt cert\<rparr>) (rt_certificates R)
           \<and> map_of (rt_staples R') (c_id cert) = Some reply)"
proof -
  from status_reply_facts [OF assms(1,3)] obtain certId cert holder eff where
      row: "cert_findByIdWithActor certId (ws_db st) = Some (cert, holder)"
    and eff: "eff = resolveCertStatus (as_resolvable cert) (as_actor holder) (ev_armed ev) (ev_registry ev) (ev_now ev)"
    and opened: "openCert (lb_certs lib) (lb_serverVid lib) reply = Some (CertStatusResponse
       \<lparr>sp_certId = c_id cert, sp_agentDid = c_agentDid cert, sp_status = es_status eff,
        sp_capabilities = es_capabilities eff, sp_resourceLimits = c_resourceLimits cert, sp_scope = c_scope cert,
        sp_checkedAt = ev_now ev, sp_expiresAt = c_expiresAt cert\<rparr>)" (is "_ = Some (CertStatusResponse ?b)")
    by (elim conjE exE) (rule that)
  have "verifyCertStatusResponseCert (cb_certs L) (ee_now E) (lb_serverVid lib) reply
      (case maxStatusAgeMs R of None \<Rightarrow> None | Some a \<Rightarrow> if a = 0 then None else Some a) = Some ?b"
    using assms(2,5) opened by (auto simp: verifyCertStatusResponseCert_def split: option.splits)
  note applied = response_applied [OF assms(4) this, of C]
  show ?thesis
    using row eff applied assms(6) by (intro exI) (auto simp: restated_def split: option.splits)
qed

definition demo_asker :: "(string, byte list) client_lib" where
  "demo_asker =
     \<lparr>cb_certs = lb_certs demo_asking_lib, cb_challenger = lb_challenger demo_lib, cb_create = (\<lambda>c _ _. c),
      cb_contact = (\<lambda>_. None), cb_did = id, cb_v1 = id, cb_fromSecret = Some, cb_getSecret = id,
      cb_urlValid = (\<lambda>_. True)\<rparr>"

definition demo_holder :: "(string, byte list) runtime" where
  "demo_holder = (blank_runtime EMPTY_MANIFEST None)
     \<lparr>rt_serverVid := Some (lb_serverVid demo_asking_lib), rt_certificates := [(''k'', demo_held ''k'' ''mail_send'')]\<rparr>"

theorem reply_mirrors_ledger_witness:
  "map_option hc_capabilities (map_of (rt_certificates (handleMessage_rt demo_asker demo_config (demo_now 1500)
     (Frame (CertStatusResponseOut (demo_pack [1]))) demo_holder)) ''k'') = Some [''file_read'']"
proof -
  note lawful = demo_asking_lawful
  have same: "cb_certs demo_asker = lb_certs demo_asking_lib" by (simp add: demo_asker_def)
  have server: "serverVid demo_asker demo_holder = Some (lb_serverVid demo_asking_lib)"
    by (simp add: serverVid_def demo_holder_def)
  have age: "case maxStatusAgeMs demo_holder of None \<Rightarrow> True
      | Some a \<Rightarrow> a = 0 \<or> ee_now (demo_now 1500) - ev_now (demo_env 0) \<le> a"
    by (simp add: maxStatusAgeMs_def demo_holder_def blank_runtime_def demo_now_def demo_env_def
        DEFAULT_fallbackStatusIntervalMs_def)
  have "ev_now (demo_env 0) = 1000" by (simp add: demo_env_def)
  with reply_mirrors_ledger [OF lawful same demo_asking_reply server age refl, of demo_config] demo_asking_rows(3)
    demo_asking_status
  show ?thesis by (auto simp: demo_holder_def demo_cert_def split: if_splits)
qed

end
