(* ===== verification/WebhookPayloads.thy ===== *)
theory WebhookPayloads
  imports KillSwitch Codec
begin

text \<open>
  The payloads of audit entries and webhook events (\<open>packages/controlplane/lib/webhook-payloads.ts\<close>),
  the deep links they carry (\<open>lib/actor-route.ts\<close>), and the pass \<open>stripSensitive\<close> they all go through
  before they leave the process (\<open>lib/webhook-queue.ts\<close>).

  A payload is the JSON object a builder returns. The text of a date and the two URL variables of the
  process are the record \<open>payload_env\<close>.
\<close>

section \<open>Links\<close>

record payload_env =
  pe_iso :: "int \<Rightarrow> string"
  pe_appUrl :: "string option"
  pe_nextauthUrl :: "string option"

text \<open>UTF-8 of code units below 256, and its decoder.\<close>

fun utf8 :: "string \<Rightarrow> byte list" where
  "utf8 [] = []"
| "utf8 (c # s) =
     (if code_unit c < 128 then [of_nat (code_unit c)]
      else [of_nat (192 + code_unit c div 64), of_nat (128 + code_unit c mod 64)]) @ utf8 s"

fun from_utf8 :: "byte list \<Rightarrow> string" where
  "from_utf8 (a # b # r) =
     (if unat a < 128 then char_of (unat a) # from_utf8 (b # r)
      else char_of ((unat a - 192) * 64 + (unat b - 128)) # from_utf8 r)"
| "from_utf8 [a] = [char_of (unat a)]"
| "from_utf8 [] = []"

definition url_char :: "char \<Rightarrow> char" where
  "url_char c = (if c = CHR ''+'' then CHR ''-'' else if c = CHR ''/'' then CHR ''_'' else c)"

definition encodeDidParam :: "string \<Rightarrow> string" where
  "encodeDidParam did = takeWhile (\<lambda>c. c \<noteq> CHR ''='') (map url_char (toBase64 (utf8 did)))"

definition decodeDidParam :: "string \<Rightarrow> string" where
  "decodeDidParam param =
     from_utf8 (fromBase64 (map (\<lambda>c. if c = CHR ''-'' then CHR ''+'' else if c = CHR ''_'' then CHR ''/'' else c) param))"

definition buildAdminUrl :: "payload_env \<Rightarrow> string \<Rightarrow> string option" where
  "buildAdminUrl P path =
     (let base = (if truthy (pe_appUrl P) then pe_appUrl P else pe_nextauthUrl P) in
      case base of
        None \<Rightarrow> None
      | Some b \<Rightarrow> if b = [] then None else Some (rev (dropWhile (\<lambda>c. c = CHR ''/'') (rev b)) @ path))"

definition actorAdminUrl :: "payload_env \<Rightarrow> string \<Rightarrow> string option" where
  "actorAdminUrl P did = buildAdminUrl P (''/admin/actors/'' @ encodeDidParam did)"

definition capabilityAdminUrl :: "payload_env \<Rightarrow> string \<Rightarrow> string option" where
  "capabilityAdminUrl P i = buildAdminUrl P (''/admin/integrations/capabilities/'' @ i)"

section \<open>Building blocks\<close>

definition jopt :: "string option \<Rightarrow> json" where
  "jopt x = (case x of None \<Rightarrow> JNull | Some s \<Rightarrow> JStr s)"

definition jint :: "int option \<Rightarrow> json" where
  "jint x = (case x of None \<Rightarrow> JNull | Some n \<Rightarrow> JNum n)"

definition jdate :: "payload_env \<Rightarrow> int option \<Rightarrow> json" where
  "jdate P x = (case x of None \<Rightarrow> JNull | Some t \<Rightarrow> JStr (pe_iso P t))"

definition jstrs :: "string list \<Rightarrow> json" where
  "jstrs xs = JArr (map JStr xs)"

fun status_text :: "certificate_status \<Rightarrow> string" where
  "status_text Active = ''active''"
| "status_text Revoked = ''revoked''"
| "status_text Superseded = ''superseded''"
| "status_text Expired = ''expired''"

definition jperformer :: "performer \<Rightarrow> json" where
  "jperformer p = JObj [(''did'', JStr (pb_did p)), (''name'', jopt (pb_name p))]"

text \<open>\<open>diffFields\<close>: \<open>undefined\<close> and \<open>null\<close> compare alike, dates by their text.\<close>

definition diffFields ::
  "(string \<times> json) list \<Rightarrow> (string \<times> json) list \<Rightarrow> string list \<Rightarrow> json list" where
  "diffFields before after names =
     (let normalize = (\<lambda>r f. case map_of r f of None \<Rightarrow> JNull | Some v \<Rightarrow> v) in
      map (\<lambda>f. JObj [(''field'', JStr f), (''from'', normalize before f), (''to'', normalize after f)])
        (filter (\<lambda>f. normalize before f \<noteq> normalize after f) names))"

section \<open>Payloads\<close>

definition actorPayload :: "payload_env \<Rightarrow> actor_row \<Rightarrow> (string \<times> json) list" where
  "actorPayload P a =
     [(''did'', JStr (a_did a)), (''name'', JStr (a_name a)), (''kind'', JStr (a_kind a)),
      (''workspaceId'', jopt (a_workspaceId a)), (''ownerDid'', jopt (a_ownerDid a)),
      (''registeredAt'', jdate P (Some (a_registeredAt a))), (''lastSeen'', jdate P (Some (a_lastSeen a)))]"

definition certificatePayload :: "payload_env \<Rightarrow> certificate_row \<Rightarrow> (string \<times> json) list" where
  "certificatePayload P c =
     [(''id'', JStr (c_id c)), (''agentDid'', JStr (c_agentDid c)), (''workspaceId'', jopt (c_workspaceId c)),
      (''capabilities'', jstrs (c_capabilities c)), (''certFormat'', JStr (c_certFormat c)),
      (''status'', JStr (status_text (c_status c))), (''issuedBy'', jopt (c_issuedBy c)),
      (''issuedAt'', jdate P (Some (c_issuedAt c))), (''expiresAt'', jdate P (c_expiresAt c)),
      (''revokedAt'', jdate P (c_revokedAt c)), (''revokedBy'', jopt (c_revokedBy c)),
      (''revokedReason'', jopt (c_revokedReason c))]"

definition workspacePayload :: "payload_env \<Rightarrow> workspace_row \<Rightarrow> (string \<times> json) list" where
  "workspacePayload P w =
     [(''id'', JStr (w_id w)), (''name'', JStr (w_name w)), (''slug'', JStr (w_slug w)),
      (''description'', jopt (w_description w)), (''color'', JStr (w_color w)),
      (''isDefault'', JBool (w_isDefault w)), (''createdAt'', jdate P (Some (w_createdAt w))),
      (''certFailMode'', jopt (w_certFailMode w)), (''certStapleTtlSeconds'', jint (w_certStapleTtlSeconds w))]"

definition killSwitchPayload ::
  "payload_env \<Rightarrow> kill_switch_row \<Rightarrow> string option \<Rightarrow> nat option \<Rightarrow> (string \<times> json) list" where
  "killSwitchPayload P row workspaceName affectedActors =
     [(''scope'', JStr (if k_scopeType row = GlobalScope then ''global'' else ''workspace'')),
      (''workspaceId'', jopt (k_workspaceId row)), (''workspaceName'', jopt workspaceName),
      (''reason'', JStr (k_reason row)), (''armedBy'', JStr (k_armedBy row)),
      (''armedAt'', jdate P (Some (k_armedAt row))),
      (''affectedActors'', JNum (case affectedActors of None \<Rightarrow> 0 | Some n \<Rightarrow> int n))]"

text \<open>The registry row's creation time, which the store does not keep, is left out.\<close>

definition customCapabilityPayload :: "custom_capability_row \<Rightarrow> (string \<times> json) list" where
  "customCapabilityPayload c =
     [(''id'', JStr (cc_id c)), (''name'', JStr (cc_name c)), (''vendor'', JStr (cc_vendor c)),
      (''action'', JStr (cc_action c)), (''label'', JStr (cc_label c)),
      (''description'', jopt (cc_description c)), (''group'', jopt (cc_group c)),
      (''createdBy'', JStr (cc_createdBy c))]"

definition actorDeletedPayload :: "actor_row \<Rightarrow> string list \<Rightarrow> (string \<times> json) list" where
  "actorDeletedPayload a revokedCertIds =
     [(''did'', JStr (a_did a)), (''name'', JStr (a_name a)), (''kind'', JStr (a_kind a)),
      (''workspaceId'', jopt (a_workspaceId a)),
      (''revokedCertificateCount'', JNum (int (length revokedCertIds))),
      (''revokedCertificateIds'', jstrs revokedCertIds)]"

section \<open>Redaction\<close>

definition lower_char :: "char \<Rightarrow> char" where
  "lower_char c = (if 65 \<le> code_unit c \<and> code_unit c \<le> 90 then char_of (code_unit c + 32) else c)"

definition SENSITIVE_KEY :: "string \<Rightarrow> bool" where
  "SENSITIVE_KEY k =
     (let l = map lower_char k in
      list_ex (str_includes l)
        [''secret'', ''password'', ''passwd'', ''apikey'', ''api_key'', ''keyhash'', ''token'', ''privatekey'',
         ''private_key'', ''credential'', ''virtualkey'']
      \<or> ends_with l ''enc'')"

fun stripSensitive :: "json \<Rightarrow> json" where
  "stripSensitive (JArr vs) = JArr (map stripSensitive vs)"
| "stripSensitive (JObj fs) = JObj (map (\<lambda>(k, v). (k, stripSensitive v)) (filter (\<lambda>(k, v). \<not> SENSITIVE_KEY k) fs))"
| "stripSensitive v = v"

record webhook_job =
  wj_eventType :: string
  wj_payload :: json
  wj_occurredAt :: string

definition enqueue_job :: "payload_env \<Rightarrow> int \<Rightarrow> string \<Rightarrow> (string \<times> json) list \<Rightarrow> webhook_job" where
  "enqueue_job P now eventType payload =
     \<lparr>wj_eventType = eventType, wj_payload = stripSensitive (JObj payload), wj_occurredAt = pe_iso P now\<rparr>"

section \<open>Facts\<close>

text \<open>No key of any object inside looks sensitive.\<close>

fun clean :: "json \<Rightarrow> bool" where
  "clean (JArr vs) = list_all clean vs"
| "clean (JObj fs) = list_all (\<lambda>(k, v). \<not> SENSITIVE_KEY k \<and> clean v) fs"
| "clean _ = True"

lemma strip_clean: "clean (stripSensitive j)"
  by (induction j rule: stripSensitive.induct) (auto simp: list_all_iff)

lemma strip_id: "clean j \<Longrightarrow> stripSensitive j = j"
proof (induction j rule: clean.induct)
  case (1 vs)
  then show ?case by (auto simp: list_all_iff intro: map_idI)
next
  case (2 fs)
  have "filter (\<lambda>(k, v). \<not> SENSITIVE_KEY k) fs = fs"
    using 2(2) by (auto simp: filter_id_conv list_all_iff)
  moreover have "map (\<lambda>(k, v). (k, stripSensitive v)) fs = fs"
    using 2 by (auto simp: list_all_iff intro!: map_idI)
  ultimately show ?case by simp
qed simp_all

text \<open>The keys of the builders.\<close>

lemma builder_keys:
  "list_all (\<lambda>k. \<not> SENSITIVE_KEY k)
     [''did'', ''name'', ''kind'', ''workspaceId'', ''ownerDid'', ''registeredAt'', ''lastSeen'', ''id'',
      ''agentDid'', ''capabilities'', ''certFormat'', ''status'', ''issuedBy'', ''issuedAt'', ''expiresAt'',
      ''revokedAt'', ''revokedBy'', ''revokedReason'', ''slug'', ''description'', ''color'', ''isDefault'',
      ''createdAt'', ''certFailMode'', ''certStapleTtlSeconds'', ''scope'', ''workspaceName'', ''reason'',
      ''armedBy'', ''armedAt'', ''affectedActors'', ''vendor'', ''action'', ''label'', ''group'', ''createdBy'',
      ''revokedCertificateCount'', ''revokedCertificateIds'', ''performedBy'', ''adminUrl'', ''changes'',
      ''field'', ''from'', ''to'', ''grantedCapabilities'', ''unassignedActors'', ''affectedGrants'']"
  by (simp add: SENSITIVE_KEY_def lower_char_def code_unit_def char_of_def starts_with_def ends_with_def)

lemma clean_leaves [simp]: "clean (jopt x)" "clean (jint n)" "clean (jdate P t)" "clean (jstrs xs)"
  by (auto simp: jopt_def jint_def jdate_def jstrs_def list_all_iff split: option.split)


lemma utf8_bytes: "unat (of_nat n :: byte) = n" if "n < 256"
  using that by (simp add: unat_of_nat take_bit_nat_eq_self)

lemma from_utf8_utf8: "from_utf8 (utf8 s) = s"
proof (induction s)
  case (Cons c s)
  define n where "n = code_unit c"
  have n: "n < 256" "char_of n = c" by (simp_all add: n_def code_unit_def)
  show ?case
  proof (cases "n < 128")
    case True
    with Cons n show ?thesis by (cases "utf8 s") (simp_all add: n_def [symmetric] utf8_bytes)
  next
    case False
    then have b: "unat (of_nat (192 + n div 64) :: byte) = 192 + n div 64"
      "unat (of_nat (128 + n mod 64) :: byte) = 128 + n mod 64"
      using n(1) by (intro utf8_bytes; simp)+
    have "n div 64 * 64 + n mod 64 = n" by simp
    with b False Cons n show ?thesis
      by (simp add: n_def [symmetric] del: of_nat_add)
  qed
qed simp

lemma toBase64_chars: "c \<in> set (toBase64 bs) \<Longrightarrow> c \<in> set b64_alphabet \<or> c = CHR ''=''"
proof -
  have "b64_char x \<in> set b64_alphabet" if "x < 64" for x
    using that unfolding b64_char_def
    by (intro nth_mem) (simp add: b64_alphabet_def word_less_nat_alt)
  moreover assume "c \<in> set (toBase64 bs)"
  ultimately show ?thesis
    by (auto simp: toBase64_def b64_padding_def dest: sextets_less_64 split: if_splits)
qed

text \<open>The path segment of an Actor's page reads back as its DID.\<close>

lemma decodeDidParam_encodeDidParam: "decodeDidParam (encodeDidParam did) = did"
proof -
  let ?unurl = "\<lambda>c. if c = CHR ''-'' then CHR ''+'' else if c = CHR ''_'' then CHR ''/'' else c"
  let ?x = "toBase64 (utf8 did)"
  have plain: "c \<noteq> CHR ''-'' \<and> c \<noteq> CHR ''_''" if "c \<in> set ?x" for c
    using toBase64_chars [OF that] by (auto simp: b64_alphabet_def)
  have "encodeDidParam did = map url_char (takeWhile (\<lambda>c. c \<noteq> CHR ''='') ?x)"
  proof -
    have "(\<lambda>c. c \<noteq> CHR ''='') \<circ> url_char = (\<lambda>c. c \<noteq> CHR ''='')" by (rule ext) (simp add: url_char_def)
    then show ?thesis unfolding encodeDidParam_def takeWhile_map by simp
  qed
  then have "map ?unurl (encodeDidParam did) = takeWhile (\<lambda>c. c \<noteq> CHR ''='') ?x"
    using plain by (auto simp: url_char_def intro!: map_idI dest: set_takeWhileD)
  then have "fromBase64 (map ?unurl (encodeDidParam did)) = fromBase64 ?x"
    by (simp add: fromBase64_def)
  then show ?thesis by (simp add: decodeDidParam_def fromBase64_toBase64 from_utf8_utf8)
qed

end
