(* ===== verification/ProxyRules.thy ===== *)
theory ProxyRules
  imports Certs Table
begin

text \<open>
  Rule sets of interception points (\<open>packages/controlplane/lib/proxy-rules.ts\<close>): the validator that guards
  every store and every signature, the signed payload, and the warnings.

  A stored rule is what \<open>JSON.parse\<close> gave, cast to its type and not checked: here it is a \<open>json\<close>, and reading
  a field of the wrong type is the TypeError it is in the code. The messages are left out, their kinds kept.
\<close>

section \<open>Errors\<close>

datatype rule_fault =
    RuleTypeError | NoRuleId | DuplicateRuleId | UnknownEffect | UnknownSubject | NoWorkloadId | StrayWorkloadId
  | NoHosts | EmptyHost | WildcardHost | UrlHost | BadPort
  | NoResources | EmptyPattern | PaddedPattern | NotUri | BadWildcard | WholeScheme

datatype rule_error = WrongVersion int | HostRule nat rule_fault | ResourceRule nat rule_fault

definition PROXY_RULESET_VERSION :: int where
  "PROXY_RULESET_VERSION = 1"

record proxy_rule_set =
  rs_version :: int
  rs_rules :: "json list"
  rs_resourceRules :: "json list option"
  rs_issuedAt :: int

section \<open>One rule\<close>

text \<open>What \<open>for ... of\<close> runs over: the elements of an array, the characters of a string, else a TypeError.\<close>

fun elements :: "json option \<Rightarrow> json list option" where
  "elements (Some (JArr vs)) = Some vs"
| "elements (Some (JStr s)) = Some (map (\<lambda>c. JStr [c]) s)"
| "elements _ = None"

fun check_all :: "('a \<Rightarrow> ('e, unit) result) \<Rightarrow> 'a list \<Rightarrow> ('e, unit) result" where
  "check_all f [] = Inr ()"
| "check_all f (x # xs) = bind_result (f x) (\<lambda>_. check_all f xs)"

definition check_workload :: "json \<Rightarrow> (rule_fault, unit) result" where
  "check_workload r =
     (if js_field ''subject'' r = Some (JStr ''workload'') then
        (case js_field ''workloadId'' r of
           None \<Rightarrow> Inl NoWorkloadId
         | Some JNull \<Rightarrow> Inl NoWorkloadId
         | Some (JStr s) \<Rightarrow> throw_when (js_trim s = []) NoWorkloadId (Inr ())
         | Some _ \<Rightarrow> Inl RuleTypeError)
      else throw_when (case js_field ''workloadId'' r of None \<Rightarrow> False | Some v \<Rightarrow> js_truthy v) StrayWorkloadId (Inr ()))"

text \<open>The checks both kinds of rule open with; the ids seen so far are the first argument.\<close>

definition check_head :: "string list \<Rightarrow> json \<Rightarrow> (rule_fault, string) result" where
  "check_head seen r =
     (case js_field ''id'' r of
        Some (JStr i) \<Rightarrow>
          throw_when (js_trim i = []) NoRuleId (
          throw_when (i \<in> set seen) DuplicateRuleId (
          throw_when (js_field ''effect'' r \<notin> {Some (JStr ''deny''), Some (JStr ''allow'')}) UnknownEffect (
          throw_when (js_field ''subject'' r \<notin> {Some (JStr ''any''), Some (JStr ''agent''), Some (JStr ''workload'')}) UnknownSubject (
          bind_result (check_workload r) (\<lambda>_. Inr i)))))
      | _ \<Rightarrow> Inl RuleTypeError)"

fun check_host :: "json \<Rightarrow> (rule_fault, unit) result" where
  "check_host (JStr host) =
     (let h = js_trim host in
      throw_when (h = [] \<or> h = ''.'') EmptyHost (
      throw_when (str_includes h ''*'') WildcardHost (
      throw_when (str_includes h ''/'' \<or> str_includes h '':'') UrlHost (Inr ()))))"
| "check_host _ = Inl RuleTypeError"

fun check_port :: "json \<Rightarrow> (rule_fault, unit) result" where
  "check_port (JNum n) = throw_when (n < 1 \<or> n > 65535) BadPort (Inr ())"
| "check_port _ = Inl BadPort"

text \<open>\<open>x.length === 0\<close>, then a loop over \<open>x\<close>.\<close>

definition check_list :: "rule_fault \<Rightarrow> (json \<Rightarrow> (rule_fault, unit) result) \<Rightarrow> json option \<Rightarrow> (rule_fault, unit) result" where
  "check_list none f v =
     (case elements v of
        None \<Rightarrow> Inl (if Option.bind v (js_field ''length'') = Some (JNum 0) then none else RuleTypeError)
      | Some vs \<Rightarrow> throw_when (vs = []) none (check_all f vs))"

definition check_ports :: "json option \<Rightarrow> (rule_fault, unit) result" where
  "check_ports v =
     (if v = None \<or> v = Some JNull then Inr ()
      else case elements v of None \<Rightarrow> Inl RuleTypeError | Some vs \<Rightarrow> check_all check_port vs)"

definition host_body :: "json \<Rightarrow> (rule_fault, unit) result" where
  "host_body r =
     bind_result (check_list NoHosts check_host (js_field ''hosts'' r)) (\<lambda>_. check_ports (js_field ''ports'' r))"

fun validateResourcePattern :: "json \<Rightarrow> (rule_fault, unit) result" where
  "validateResourcePattern (JStr pattern) =
     throw_when (js_trim pattern = []) EmptyPattern (
     throw_when (js_trim pattern \<noteq> pattern) PaddedPattern (
     throw_when (\<not> str_includes pattern ''://'') NotUri (
     if str_includes pattern ''*'' then
       throw_when (\<not> ends_with pattern ''/*'' \<or> length (filter (\<lambda>c. c = CHR ''*'') pattern) \<noteq> 1) BadWildcard (
       throw_when (ends_with pattern ''://*'') WholeScheme (Inr ()))
     else Inr ())))"
| "validateResourcePattern _ = Inl RuleTypeError"

definition resource_body :: "json \<Rightarrow> (rule_fault, unit) result" where
  "resource_body r = check_list NoResources validateResourcePattern (js_field ''resources'' r)"

section \<open>A rule set\<close>

fun check_rules ::
  "(json \<Rightarrow> (rule_fault, unit) result) \<Rightarrow> (nat \<Rightarrow> rule_fault \<Rightarrow> rule_error) \<Rightarrow> nat \<Rightarrow> string list \<Rightarrow> json list
     \<Rightarrow> (rule_error, string list) result" where
  "check_rules body err i seen [] = Inr seen"
| "check_rules body err i seen (r # rs) =
     (case check_head seen r of
        Inl f \<Rightarrow> Inl (err i f)
      | Inr rid \<Rightarrow>
          (case body r of
             Inl f \<Rightarrow> Inl (err i f)
           | Inr _ \<Rightarrow> check_rules body err (Suc i) (rid # seen) rs))"

definition resource_rules :: "proxy_rule_set \<Rightarrow> json list" where
  "resource_rules s = (case rs_resourceRules s of None \<Rightarrow> [] | Some rs \<Rightarrow> rs)"

definition validateProxyRuleSet :: "proxy_rule_set \<Rightarrow> (rule_error, unit) result" where
  "validateProxyRuleSet s =
     throw_when (rs_version s \<noteq> PROXY_RULESET_VERSION) (WrongVersion (rs_version s)) (
     bind_result (check_rules host_body HostRule 0 [] (rs_rules s)) (\<lambda>seen.
     bind_result (check_rules resource_body ResourceRule 0 seen (resource_rules s)) (\<lambda>_. Inr ())))"

section \<open>Signing\<close>

text \<open>The fields of a rule in the order the payload has them; optional ones are omitted when falsy or empty.\<close>

definition field_or_undefined :: "string \<Rightarrow> json \<Rightarrow> (string \<times> json) list" where
  "field_or_undefined k r = (case js_field k r of None \<Rightarrow> [] | Some v \<Rightarrow> [(k, v)])"

definition truthy_field :: "string \<Rightarrow> json \<Rightarrow> (string \<times> json) list" where
  "truthy_field k r = (case js_field k r of None \<Rightarrow> [] | Some v \<Rightarrow> if js_truthy v then [(k, v)] else [])"

definition ports_field :: "json \<Rightarrow> (string \<times> json) list" where
  "ports_field r = (case elements (js_field ''ports'' r) of
      Some (p # ps) \<Rightarrow> field_or_undefined ''ports'' r | _ \<Rightarrow> [])"

definition signed_rule :: "json \<Rightarrow> json" where
  "signed_rule r = JObj (field_or_undefined ''id'' r @ field_or_undefined ''subject'' r @ truthy_field ''workloadId'' r @
     field_or_undefined ''hosts'' r @ ports_field r @ field_or_undefined ''effect'' r)"

definition signed_resource_rule :: "json \<Rightarrow> json" where
  "signed_resource_rule r = JObj (field_or_undefined ''id'' r @ field_or_undefined ''subject'' r @ truthy_field ''workloadId'' r @
     field_or_undefined ''resources'' r @ field_or_undefined ''effect'' r)"

definition rule_payload :: "proxy_rule_set \<Rightarrow> json" where
  "rule_payload s =
     JObj ([(''version'', JNum (rs_version s)), (''issuedAt'', JNum (rs_issuedAt s)),
            (''rules'', JArr (map signed_rule (rs_rules s)))] @
       (if resource_rules s = [] then [] else [(''resourceRules'', JArr (map signed_resource_rule (resource_rules s)))]))"

text \<open>
  \<open>signCert\<close> of a plain object: the envelope of \<open>Certs\<close> around the packing of a JSON value, which is
  \<open>@msgpack/msgpack\<close>'s and a parameter.
\<close>

definition signObject ::
  "'vid certlib \<Rightarrow> (json \<Rightarrow> byte list option) \<Rightarrow> 'vid \<Rightarrow> json \<Rightarrow> string option" where
  "signObject L pack vid v =
     Option.bind (pack v) (\<lambda>body. Option.bind (signChallenge L vid body) (\<lambda>signature. packCert body signature))"

datatype sign_rules_error = RulesInvalid rule_error | RulesUnsigned

definition signProxyRuleSet ::
  "'vid certlib \<Rightarrow> (json \<Rightarrow> byte list option) \<Rightarrow> 'vid \<Rightarrow> proxy_rule_set \<Rightarrow> (sign_rules_error, string) result" where
  "signProxyRuleSet L pack vid s =
     (case validateProxyRuleSet s of
        Inl e \<Rightarrow> Inl (RulesInvalid e)
      | Inr _ \<Rightarrow> (case signObject L pack vid (rule_payload s) of None \<Rightarrow> Inl RulesUnsigned | Some t \<Rightarrow> Inr t))"

section \<open>Warnings\<close>

definition SYMLINKED_ROOTS :: "string list" where
  "SYMLINKED_ROOTS = [''/etc/'', ''/var/'', ''/tmp/'']"

definition rule_text :: "json \<Rightarrow> string option" where
  "rule_text v = (case v of JStr s \<Rightarrow> Some s | _ \<Rightarrow> None)"

text \<open>The resources of a validated rule, and the pairs of a rule and a pattern that is warned about.\<close>

definition texts_of :: "json option \<Rightarrow> string list" where
  "texts_of v = (case elements v of None \<Rightarrow> [] | Some vs \<Rightarrow> List.map_filter rule_text vs)"

definition proxyResourceRuleWarnings :: "proxy_rule_set \<Rightarrow> (json option \<times> string) list" where
  "proxyResourceRuleWarnings s =
     concat (map (\<lambda>r. map (Pair (js_field ''id'' r))
       (filter (\<lambda>p. starts_with p ''file://'' \<and> list_ex (starts_with (drop 7 p)) SYMLINKED_ROOTS)
          (texts_of (js_field ''resources'' r)))) (resource_rules s))"

definition subject_scoped :: "json \<Rightarrow> bool" where
  "subject_scoped r = (js_field ''subject'' r \<in> {Some (JStr ''agent''), Some (JStr ''workload'')})"

definition subjectScopedRuleIds :: "proxy_rule_set \<Rightarrow> json option list" where
  "subjectScopedRuleIds s = map (js_field ''id'') (filter subject_scoped (rs_rules s @ resource_rules s))"

section \<open>What the validator accepts\<close>

definition rule_id :: "json \<Rightarrow> string option" where
  "rule_id r = Option.bind (js_field ''id'' r) rule_text"

text \<open>A head: an id that is not blank, a known effect and subject, and a workload exactly where the subject asks for one.\<close>

definition head_ok :: "json \<Rightarrow> bool" where
  "head_ok r \<longleftrightarrow> (\<exists>i. js_field ''id'' r = Some (JStr i) \<and> js_trim i \<noteq> [])
     \<and> js_field ''effect'' r \<in> {Some (JStr ''deny''), Some (JStr ''allow'')}
     \<and> (js_field ''subject'' r = Some (JStr ''workload'') \<and> (\<exists>w. js_field ''workloadId'' r = Some (JStr w) \<and> js_trim w \<noteq> [])
        \<or> js_field ''subject'' r \<in> {Some (JStr ''any''), Some (JStr ''agent'')}
          \<and> \<not> (\<exists>v. js_field ''workloadId'' r = Some v \<and> js_truthy v))"

definition host_ok :: "json \<Rightarrow> bool" where
  "host_ok v \<longleftrightarrow> (\<exists>s. v = JStr s \<and> js_trim s \<noteq> [] \<and> js_trim s \<noteq> ''.''
     \<and> set (js_trim s) \<inter> {CHR ''*'', CHR ''/'', CHR '':''} = {})"

definition port_ok :: "json \<Rightarrow> bool" where
  "port_ok v \<longleftrightarrow> (\<exists>n. v = JNum n \<and> 1 \<le> n \<and> n \<le> 65535)"

text \<open>A pattern: a URI without a star, or a path of one followed by the one star, the path not empty.\<close>

definition pattern_ok :: "json \<Rightarrow> bool" where
  "pattern_ok v \<longleftrightarrow> (\<exists>p. v = JStr p \<and> p \<noteq> [] \<and> js_trim p = p \<and> sublist ''://'' p
     \<and> (CHR ''*'' \<notin> set p \<or> (\<exists>q. p = q @ ''/*'' \<and> CHR ''*'' \<notin> set q \<and> \<not> suffix '':/'' q)))"

definition listed :: "(json \<Rightarrow> bool) \<Rightarrow> json option \<Rightarrow> bool" where
  "listed ok v \<longleftrightarrow> (\<exists>vs. elements v = Some vs \<and> vs \<noteq> [] \<and> list_all ok vs)"

definition host_rule_ok :: "json \<Rightarrow> bool" where
  "host_rule_ok r \<longleftrightarrow> head_ok r \<and> listed host_ok (js_field ''hosts'' r)
     \<and> (js_field ''ports'' r \<in> {None, Some JNull} \<or> (\<exists>vs. elements (js_field ''ports'' r) = Some vs \<and> list_all port_ok vs))"

definition resource_rule_ok :: "json \<Rightarrow> bool" where
  "resource_rule_ok r \<longleftrightarrow> head_ok r \<and> listed pattern_ok (js_field ''resources'' r)"

lemma check_all_iff: "check_all f xs = Inr () \<longleftrightarrow> list_all (\<lambda>x. f x = Inr ()) xs"
  by (induction xs) auto

lemma check_head_iff:
  "check_head seen r = Inr i \<longleftrightarrow> head_ok r \<and> rule_id r = Some i \<and> i \<notin> set seen"
  by (auto simp: check_head_def head_ok_def rule_id_def rule_text_def check_workload_def split: option.splits json.splits if_splits)

lemma check_host_iff: "check_host v = Inr () \<longleftrightarrow> host_ok v"
  by (cases v) (auto simp: host_ok_def Let_def)

lemma check_port_iff: "check_port v = Inr () \<longleftrightarrow> port_ok v"
  by (cases v) (auto simp: port_ok_def)

lemma check_list_iff: "check_list none f v = Inr () \<longleftrightarrow> listed (\<lambda>x. f x = Inr ()) v"
  by (auto simp: check_list_def listed_def check_all_iff split: option.splits)

lemma host_body_iff:
  "host_body r = Inr () \<longleftrightarrow> listed host_ok (js_field ''hosts'' r)
     \<and> (js_field ''ports'' r \<in> {None, Some JNull} \<or> (\<exists>vs. elements (js_field ''ports'' r) = Some vs \<and> list_all port_ok vs))"
  by (auto simp: host_body_def check_list_iff check_host_iff check_ports_def check_all_iff check_port_iff split: option.splits)

lemma ends_with_suffix: "ends_with s p \<longleftrightarrow> suffix p s"
  by (simp add: ends_with_def starts_with_prefix suffix_to_prefix)

lemma one_star:
  "suffix ''/*'' p \<and> length (filter (\<lambda>c. c = CHR ''*'') p) = 1 \<longleftrightarrow> (\<exists>q. p = q @ ''/*'' \<and> CHR ''*'' \<notin> set q)"
  by (auto simp: suffix_def filter_empty_conv)

lemma pattern_iff: "validateResourcePattern v = Inr () \<longleftrightarrow> pattern_ok v"
proof (cases v)
  case (JStr p)
  have trim: "js_trim p = [] \<and> js_trim p = p \<longleftrightarrow> p = [] \<and> js_trim p = p" by auto
  have whole: "suffix ''://*'' (q @ ''/*'') \<longleftrightarrow> suffix '':/'' q" for q
    by (auto simp: suffix_def)
  have star: "sublist ''*'' p \<longleftrightarrow> CHR ''*'' \<in> set p"
    by (simp flip: str_includes_iff)
  show ?thesis
  proof (cases "CHR ''*'' \<in> set p")
    case True
    have "validateResourcePattern v = Inr () \<longleftrightarrow> p \<noteq> [] \<and> js_trim p = p \<and> sublist ''://'' p
        \<and> (suffix ''/*'' p \<and> length (filter (\<lambda>c. c = CHR ''*'') p) = 1) \<and> \<not> suffix ''://*'' p"
      using True trim star by (auto simp: JStr str_includes_iff ends_with_suffix)
    also have "\<dots> \<longleftrightarrow> pattern_ok v"
      unfolding one_star using True whole by (auto simp: pattern_ok_def JStr)
    finally show ?thesis .
  next
    case False
    then show ?thesis using trim star by (auto simp: JStr str_includes_iff pattern_ok_def)
  qed
qed (auto simp: pattern_ok_def)

lemma check_rules_iff:
  "check_rules body err i seen rs = Inr seen' \<longleftrightarrow>
     list_all (\<lambda>r. head_ok r \<and> body r = Inr ()) rs \<and> seen' = rev (map (the \<circ> rule_id) rs) @ seen
     \<and> distinct (map (the \<circ> rule_id) rs) \<and> set (map (the \<circ> rule_id) rs) \<inter> set seen = {}"
proof (induction rs arbitrary: i seen)
  case (Cons r rs)
  have known: "\<exists>j. rule_id r = Some j" if "head_ok r"
    using that by (auto simp: head_ok_def rule_id_def rule_text_def)
  show ?case
  proof (cases "head_ok r \<and> the (rule_id r) \<notin> set seen")
    case True
    with known have "check_head seen r = Inr (the (rule_id r))" by (auto simp: check_head_iff)
    with True Cons.IH show ?thesis by (cases "body r") auto
  next
    case False
    then have "check_head seen r \<noteq> Inr j" for j by (auto simp: check_head_iff)
    then obtain f where "check_head seen r = Inl f" by (cases "check_head seen r") auto
    with False show ?thesis by auto
  qed
qed auto

lemma validator_specification:
  "validateProxyRuleSet s = Inr () \<longleftrightarrow>
     rs_version s = 1 \<and> list_all host_rule_ok (rs_rules s) \<and> list_all resource_rule_ok (resource_rules s)
     \<and> distinct (map rule_id (rs_rules s @ resource_rules s))"
proof -
  have inj: "distinct (map (the \<circ> rule_id) rs) \<longleftrightarrow> distinct (map rule_id rs)" if "list_all head_ok rs" for rs
  proof -
    have "map rule_id rs = map Some (map (the \<circ> rule_id) rs)"
      using that by (auto simp: head_ok_def rule_id_def rule_text_def list_all_iff)
    then show ?thesis by (metis distinct_map inj_Some inj_on_subset subset_UNIV)
  qed
  have "validateProxyRuleSet s = Inr () \<longleftrightarrow> rs_version s = 1
      \<and> list_all (\<lambda>r. head_ok r \<and> host_body r = Inr ()) (rs_rules s)
      \<and> list_all (\<lambda>r. head_ok r \<and> resource_body r = Inr ()) (resource_rules s)
      \<and> distinct (map (the \<circ> rule_id) (rs_rules s @ resource_rules s))"
    by (auto simp: validateProxyRuleSet_def PROXY_RULESET_VERSION_def check_rules_iff)
  also have "\<dots> \<longleftrightarrow> rs_version s = 1 \<and> list_all host_rule_ok (rs_rules s) \<and> list_all resource_rule_ok (resource_rules s)
      \<and> list_all head_ok (rs_rules s @ resource_rules s) \<and> distinct (map (the \<circ> rule_id) (rs_rules s @ resource_rules s))"
    by (auto simp: host_rule_ok_def resource_rule_ok_def host_body_iff resource_body_def check_list_iff pattern_iff list_all_iff)
  also have "\<dots> \<longleftrightarrow> rs_version s = 1 \<and> list_all host_rule_ok (rs_rules s) \<and> list_all resource_rule_ok (resource_rules s)
      \<and> distinct (map rule_id (rs_rules s @ resource_rules s))"
    using inj [of "rs_rules s @ resource_rules s"] by (auto simp: host_rule_ok_def resource_rule_ok_def list_all_iff)
  finally show ?thesis .
qed

text \<open>The validator accepts a rule set exactly when its version is the one that is signed, every
  host rule and every resource rule is well formed on its own, and no two rules of either list share an
  id. What well formed means is said without the order and the early exits of the code: a blank or
  missing id, an unknown effect or subject, a workload id where none is read, a star in a host, a
  pattern with a star anywhere but in one final "/*", a port out of range are each refused, and nothing else is.\<close>

theorem validator_accepts_iff:
  "validateProxyRuleSet s = Inr () \<longleftrightarrow>
     rs_version s = 1 \<and> list_all host_rule_ok (rs_rules s) \<and> list_all resource_rule_ok (resource_rules s)
     \<and> distinct (map rule_id (rs_rules s @ resource_rules s))"
  by (rule validator_specification)

end
