(* ===== verification/ProxyKinds.thy ===== *)
theory ProxyKinds
  imports ProxyRules
begin

text \<open>
  The \<open>kindConfig\<close> of the two enforcing kinds (\<open>packages/controlplane/lib/proxy-kind.ts\<close>, \<open>harness-kind.ts\<close>): how a stored
  one is read, and what is warned about. \<open>JSON.parse\<close> numbers are integers here.
\<close>

datatype proxy_mode = ProxyExplicit | ProxySystem
datatype harness_mode = HarnessObserve | HarnessExplicit
datatype harness_sandbox = SandboxOff | SandboxAuto | SandboxRequire

datatype config_error = NotAnObject | BadMode | BadSandbox | BadAge | RulesNotArray | RulesRejected rule_error

record proxy_kind_config =
  px_mode :: proxy_mode
  px_listenAddr :: "string option"
  px_rules :: "json list"
  px_maxStatusAgeSeconds :: int

record harness_kind_config =
  hx_mode :: harness_mode
  hx_sandbox :: harness_sandbox
  hx_resourceRules :: "json list"
  hx_maxStatusAgeSeconds :: int

definition DEFAULT_PROXY_KIND_CONFIG :: proxy_kind_config where
  "DEFAULT_PROXY_KIND_CONFIG =
     \<lparr>px_mode = ProxyExplicit, px_listenAddr = None, px_rules = [], px_maxStatusAgeSeconds = - 1\<rparr>"

definition DEFAULT_HARNESS_KIND_CONFIG :: harness_kind_config where
  "DEFAULT_HARNESS_KIND_CONFIG =
     \<lparr>hx_mode = HarnessObserve, hx_sandbox = SandboxAuto, hx_resourceRules = [], hx_maxStatusAgeSeconds = - 1\<rparr>"

section \<open>Reading\<close>

text \<open>\<open>obj.k ?? d\<close>: \<open>None\<close> where the default is taken.\<close>

definition given :: "string \<Rightarrow> (string \<times> json) list \<Rightarrow> json option" where
  "given k fs = (case map_of fs k of Some JNull \<Rightarrow> None | v \<Rightarrow> v)"

definition proxy_mode_of :: "json option \<Rightarrow> (config_error, proxy_mode) result" where
  "proxy_mode_of v =
     (if v = None then Inr (px_mode DEFAULT_PROXY_KIND_CONFIG)
      else if v = Some (JStr ''explicit'') then Inr ProxyExplicit
      else if v = Some (JStr ''system'') then Inr ProxySystem else Inl BadMode)"

definition harness_mode_of :: "json option \<Rightarrow> (config_error, harness_mode) result" where
  "harness_mode_of v =
     (if v = None then Inr (hx_mode DEFAULT_HARNESS_KIND_CONFIG)
      else if v = Some (JStr ''observe'') then Inr HarnessObserve
      else if v = Some (JStr ''explicit'') then Inr HarnessExplicit else Inl BadMode)"

definition sandbox_of :: "json option \<Rightarrow> (config_error, harness_sandbox) result" where
  "sandbox_of v =
     (if v = None then Inr (hx_sandbox DEFAULT_HARNESS_KIND_CONFIG)
      else if v = Some (JStr ''off'') then Inr SandboxOff
      else if v = Some (JStr ''auto'') then Inr SandboxAuto
      else if v = Some (JStr ''require'') then Inr SandboxRequire else Inl BadSandbox)"

definition age_of :: "int \<Rightarrow> json option \<Rightarrow> (config_error, int) result" where
  "age_of d v = (case v of None \<Rightarrow> Inr d | Some (JNum n) \<Rightarrow> Inr n | Some _ \<Rightarrow> Inl BadAge)"

definition rules_of :: "json option \<Rightarrow> (config_error, json list) result" where
  "rules_of v = (case v of None \<Rightarrow> Inr [] | Some (JArr vs) \<Rightarrow> Inr vs | Some _ \<Rightarrow> Inl RulesNotArray)"

definition config_rejected :: "(rule_error, unit) result \<Rightarrow> (config_error, unit) result" where
  "config_rejected r = (case r of Inl e \<Rightarrow> Inl (RulesRejected e) | Inr u \<Rightarrow> Inr u)"

definition listen_of :: "json option \<Rightarrow> string option" where
  "listen_of v = (case v of Some (JStr s) \<Rightarrow> if js_trim s = [] then None else Some (js_trim s) | _ \<Rightarrow> None)"

definition parseProxyKindConfig :: "int \<Rightarrow> json option \<Rightarrow> (config_error, proxy_kind_config) result" where
  "parseProxyKindConfig now raw =
     (case raw of
        None \<Rightarrow> Inr DEFAULT_PROXY_KIND_CONFIG
      | Some JNull \<Rightarrow> Inr DEFAULT_PROXY_KIND_CONFIG
      | Some (JObj fs) \<Rightarrow>
          if fs = [] then Inr DEFAULT_PROXY_KIND_CONFIG
          else
            bind_result (proxy_mode_of (given ''mode'' fs)) (\<lambda>mode.
            bind_result (age_of (px_maxStatusAgeSeconds DEFAULT_PROXY_KIND_CONFIG) (given ''maxStatusAgeSeconds'' fs)) (\<lambda>age.
            bind_result (rules_of (given ''rules'' fs)) (\<lambda>rules.
            bind_result (config_rejected (validateProxyRuleSet
              \<lparr>rs_version = PROXY_RULESET_VERSION, rs_rules = rules, rs_resourceRules = None, rs_issuedAt = now\<rparr>)) (\<lambda>_.
            Inr \<lparr>px_mode = mode, px_listenAddr = listen_of (map_of fs ''listenAddr''), px_rules = rules,
                 px_maxStatusAgeSeconds = age\<rparr>))))
      | Some _ \<Rightarrow> Inl NotAnObject)"

definition parseHarnessKindConfig :: "int \<Rightarrow> json option \<Rightarrow> (config_error, harness_kind_config) result" where
  "parseHarnessKindConfig now raw =
     (case raw of
        None \<Rightarrow> Inr DEFAULT_HARNESS_KIND_CONFIG
      | Some JNull \<Rightarrow> Inr DEFAULT_HARNESS_KIND_CONFIG
      | Some (JObj fs) \<Rightarrow>
          bind_result (harness_mode_of (given ''mode'' fs)) (\<lambda>mode.
          bind_result (sandbox_of (given ''sandbox'' fs)) (\<lambda>sandbox.
          bind_result (age_of (hx_maxStatusAgeSeconds DEFAULT_HARNESS_KIND_CONFIG) (given ''maxStatusAgeSeconds'' fs)) (\<lambda>age.
          bind_result (rules_of (given ''resourceRules'' fs)) (\<lambda>rules.
          bind_result (config_rejected (validateProxyRuleSet
            \<lparr>rs_version = PROXY_RULESET_VERSION, rs_rules = [], rs_resourceRules = Some rules, rs_issuedAt = now\<rparr>)) (\<lambda>_.
          Inr \<lparr>hx_mode = mode, hx_sandbox = sandbox, hx_resourceRules = rules, hx_maxStatusAgeSeconds = age\<rparr>)))))
      | Some _ \<Rightarrow> Inl NotAnObject)"

section \<open>Writing\<close>

text \<open>\<open>{ ...config }\<close>, the object that is merged into the stored one, signed and pushed.\<close>

fun proxy_mode_text :: "proxy_mode \<Rightarrow> string" where
  "proxy_mode_text ProxyExplicit = ''explicit''"
| "proxy_mode_text ProxySystem = ''system''"

fun harness_mode_text :: "harness_mode \<Rightarrow> string" where
  "harness_mode_text HarnessObserve = ''observe''"
| "harness_mode_text HarnessExplicit = ''explicit''"

fun sandbox_text :: "harness_sandbox \<Rightarrow> string" where
  "sandbox_text SandboxOff = ''off''"
| "sandbox_text SandboxAuto = ''auto''"
| "sandbox_text SandboxRequire = ''require''"

definition proxy_fields :: "proxy_kind_config \<Rightarrow> (string \<times> json) list" where
  "proxy_fields c =
     [(''mode'', JStr (proxy_mode_text (px_mode c))), (''rules'', JArr (px_rules c)),
      (''maxStatusAgeSeconds'', JNum (px_maxStatusAgeSeconds c))] @
     (case px_listenAddr c of None \<Rightarrow> [] | Some a \<Rightarrow> [(''listenAddr'', JStr a)])"

definition harness_fields :: "harness_kind_config \<Rightarrow> (string \<times> json) list" where
  "harness_fields c =
     [(''mode'', JStr (harness_mode_text (hx_mode c))), (''sandbox'', JStr (sandbox_text (hx_sandbox c))),
      (''resourceRules'', JArr (hx_resourceRules c)), (''maxStatusAgeSeconds'', JNum (hx_maxStatusAgeSeconds c))]"

section \<open>Warnings\<close>

datatype config_warning =
    ScopedRules "json option list" | SystemUnimplemented | StrictStatus | UnboundedStatus
  | ObserveOnly | Unconfined | NoResourceRules | ResolvedElsewhere "json option" string
  | NoActiveCertificate | UnverifiableFormats "string list" | StaleCapabilities "string list"

definition proxyKindConfigWarnings :: "proxy_kind_config \<Rightarrow> config_warning list" where
  "proxyKindConfigWarnings c =
     (let scoped = filter subject_scoped (px_rules c) in
      (if px_mode c = ProxyExplicit \<and> scoped \<noteq> [] then [ScopedRules (map (js_field ''id'') scoped)] else []) @
      (if px_mode c = ProxySystem then [SystemUnimplemented] else []) @
      (if px_maxStatusAgeSeconds c = 0 then [StrictStatus]
       else if px_maxStatusAgeSeconds c < 0 then [UnboundedStatus] else []))"

definition harnessKindConfigWarnings :: "int \<Rightarrow> harness_kind_config \<Rightarrow> config_warning list" where
  "harnessKindConfigWarnings now c =
     (let scoped = filter (\<lambda>r. js_field ''subject'' r \<noteq> Some (JStr ''any'')) (hx_resourceRules c) in
      (if hx_mode c = HarnessObserve then [ObserveOnly] else []) @
      (if hx_sandbox c = SandboxOff then [Unconfined] else []) @
      (if hx_maxStatusAgeSeconds c < 0 then [UnboundedStatus]
       else if hx_maxStatusAgeSeconds c = 0 \<and> hx_mode c = HarnessExplicit then [StrictStatus] else []) @
      (if hx_resourceRules c = [] then [NoResourceRules] else []) @
      (if scoped \<noteq> [] then [ScopedRules (map (js_field ''id'') scoped)] else []) @
      map (\<lambda>(i, p). ResolvedElsewhere i p) (proxyResourceRuleWarnings
        \<lparr>rs_version = PROXY_RULESET_VERSION, rs_rules = [], rs_resourceRules = Some (hx_resourceRules c), rs_issuedAt = now\<rparr>))"

section \<open>What is read back\<close>

text \<open>The configurations a parse can give, and their validity whatever the clock.\<close>

definition host_rules_valid :: "json list \<Rightarrow> bool" where
  "host_rules_valid rules \<longleftrightarrow> list_all host_rule_ok rules \<and> distinct (map rule_id rules)"

definition resource_rules_valid :: "json list \<Rightarrow> bool" where
  "resource_rules_valid rules \<longleftrightarrow> list_all resource_rule_ok rules \<and> distinct (map rule_id rules)"

lemma validate_hosts:
  "validateProxyRuleSet \<lparr>rs_version = PROXY_RULESET_VERSION, rs_rules = rules, rs_resourceRules = None, rs_issuedAt = now\<rparr> = Inr ()
     \<longleftrightarrow> host_rules_valid rules"
  by (simp add: validator_specification host_rules_valid_def PROXY_RULESET_VERSION_def resource_rules_def)

lemma validate_resources:
  "validateProxyRuleSet \<lparr>rs_version = PROXY_RULESET_VERSION, rs_rules = [], rs_resourceRules = Some rules, rs_issuedAt = now\<rparr> = Inr ()
     \<longleftrightarrow> resource_rules_valid rules"
  by (simp add: validator_specification resource_rules_valid_def PROXY_RULESET_VERSION_def resource_rules_def)

lemma config_rejected_Inr [simp]: "config_rejected r = Inr u \<longleftrightarrow> r = Inr ()"
  by (cases r) (auto simp: config_rejected_def)

lemma given_lookups [simp]:
  "map_of fs k = Some (JStr s) \<Longrightarrow> given k fs = Some (JStr s)"
  "map_of fs k = Some (JNum n) \<Longrightarrow> given k fs = Some (JNum n)"
  "map_of fs k = Some (JArr vs) \<Longrightarrow> given k fs = Some (JArr vs)"
  by (simp_all add: given_def)

lemma mode_texts [simp]:
  "proxy_mode_of (Some (JStr (proxy_mode_text m))) = Inr m"
  "harness_mode_of (Some (JStr (harness_mode_text hm))) = Inr hm"
  "sandbox_of (Some (JStr (sandbox_text b))) = Inr b"
  by (cases m; simp add: proxy_mode_of_def) (cases hm; simp add: harness_mode_of_def; fail | cases b; simp add: sandbox_of_def)+

lemma parsed_proxy_valid: "parseProxyKindConfig now raw = Inr c \<Longrightarrow> host_rules_valid (px_rules c)"
  by (auto simp: parseProxyKindConfig_def validate_hosts DEFAULT_PROXY_KIND_CONFIG_def host_rules_valid_def
      split: option.splits json.splits if_splits)

lemma parsed_harness_valid: "parseHarnessKindConfig now raw = Inr c \<Longrightarrow> resource_rules_valid (hx_resourceRules c)"
  by (auto simp: parseHarnessKindConfig_def validate_resources DEFAULT_HARNESS_KIND_CONFIG_def resource_rules_valid_def
      split: option.splits json.splits)

text \<open>A valid configuration merged into any stored object is read back as itself, but for an address kept from before.\<close>

lemma stored_proxy:
  assumes "host_rules_valid (px_rules c)"
  shows "parseProxyKindConfig now (Some (JObj (js_spread current (proxy_fields c)))) =
    Inr (c\<lparr>px_listenAddr := listen_of (case px_listenAddr c of None \<Rightarrow> map_of current ''listenAddr'' | Some a \<Rightarrow> Some (JStr a))\<rparr>)"
proof -
  let ?fs = "js_spread current (proxy_fields c)"
  have d: "distinct (map fst (proxy_fields c))" by (simp add: proxy_fields_def split: option.split)
  have fs: "map_of ?fs ''mode'' = Some (JStr (proxy_mode_text (px_mode c)))" "map_of ?fs ''rules'' = Some (JArr (px_rules c))"
    "map_of ?fs ''maxStatusAgeSeconds'' = Some (JNum (px_maxStatusAgeSeconds c))"
    "map_of ?fs ''listenAddr'' = (case px_listenAddr c of None \<Rightarrow> map_of current ''listenAddr'' | Some a \<Rightarrow> Some (JStr a))"
    by (simp_all add: map_of_js_spread [OF d]) (simp_all add: proxy_fields_def split: option.split)
  from fs(1) have "?fs \<noteq> []" by auto
  with fs assms validate_hosts [of "px_rules c" now] show ?thesis
    by (simp add: parseProxyKindConfig_def age_of_def rules_of_def config_rejected_def)
qed

lemma stored_harness:
  assumes "resource_rules_valid (hx_resourceRules c)"
  shows "parseHarnessKindConfig now (Some (JObj (js_spread current (harness_fields c)))) = Inr c"
proof -
  let ?fs = "js_spread current (harness_fields c)"
  have d: "distinct (map fst (harness_fields c))" by (simp add: harness_fields_def)
  have fs: "map_of ?fs ''mode'' = Some (JStr (harness_mode_text (hx_mode c)))"
    "map_of ?fs ''sandbox'' = Some (JStr (sandbox_text (hx_sandbox c)))"
    "map_of ?fs ''resourceRules'' = Some (JArr (hx_resourceRules c))"
    "map_of ?fs ''maxStatusAgeSeconds'' = Some (JNum (hx_maxStatusAgeSeconds c))"
    by (simp_all add: map_of_js_spread [OF d]) (simp_all add: harness_fields_def)
  with assms validate_resources [of "hx_resourceRules c" now] show ?thesis
    by (simp add: parseHarnessKindConfig_def age_of_def rules_of_def config_rejected_def)
qed

end
