(* ===== verification/ActorConfig.thy ===== *)
theory ActorConfig
  imports ProxyKinds TrustPolicy
begin

text \<open>
  The configuration pushed to an Actor (\<open>packages/controlplane/lib/actor-config.ts\<close>). The cached trust state is an
  argument; packing a JSON value is the parameter of \<open>signObject\<close>. A rejected promise is \<open>Inl\<close>.
\<close>

definition VERIFIABLE_CERT_FORMAT :: string where
  "VERIFIABLE_CERT_FORMAT = ''packcert''"

record 'vid config_signer =
  cs_certs :: "'vid certlib"
  cs_vid :: 'vid
  cs_pack :: "json \<Rightarrow> byte list option"

record actor_config_payload =
  ap_kindConfig :: "(string \<times> json) list"
  ap_kindConfigToken :: string
  ap_grantToken :: "string option"
  ap_ruleSetToken :: "string option"
  ap_failClosed :: bool
  ap_maxStatusAgeSeconds :: int

datatype push_error = ConfigInvalid config_error | SetRefused rule_error | CannotSign

definition signKindConfig :: "'vid config_signer \<Rightarrow> (string \<times> json) list \<Rightarrow> (push_error, string) result" where
  "signKindConfig S fs =
     (case signObject (cs_certs S) (cs_pack S) (cs_vid S) (JObj fs) of None \<Rightarrow> Inl CannotSign | Some t \<Rightarrow> Inr t)"

definition sign_set :: "'vid config_signer \<Rightarrow> proxy_rule_set \<Rightarrow> (push_error, string option) result" where
  "sign_set S s =
     (case signProxyRuleSet (cs_certs S) (cs_pack S) (cs_vid S) s of
        Inl (RulesInvalid e) \<Rightarrow> Inl (SetRefused e)
      | Inl RulesUnsigned \<Rightarrow> Inl CannotSign
      | Inr t \<Rightarrow> Inr (Some t))"

definition signRuleSet :: "'vid config_signer \<Rightarrow> int \<Rightarrow> proxy_kind_config \<Rightarrow> (push_error, string option) result" where
  "signRuleSet S now c =
     (if px_rules c = [] then Inr None
      else sign_set S \<lparr>rs_version = PROXY_RULESET_VERSION, rs_rules = px_rules c, rs_resourceRules = None, rs_issuedAt = now\<rparr>)"

definition signHarnessRuleSet :: "'vid config_signer \<Rightarrow> int \<Rightarrow> harness_kind_config \<Rightarrow> (push_error, string option) result" where
  "signHarnessRuleSet S now c =
     (if hx_resourceRules c = [] then Inr None
      else sign_set S \<lparr>rs_version = PROXY_RULESET_VERSION, rs_rules = [], rs_resourceRules = Some (hx_resourceRules c),
             rs_issuedAt = now\<rparr>)"

definition staleCustomCapabilities :: "string list \<Rightarrow> db \<Rightarrow> string list" where
  "staleCustomCapabilities caps d =
     (let custom = filter isCustomCapability caps in
      if custom = [] then [] else filter (\<lambda>c. c \<notin> set (registry_names d)) custom)"

definition resolveGrantToken :: "string \<Rightarrow> db \<Rightarrow> string option \<times> config_warning list" where
  "resolveGrantToken did d =
     (let active = cert_list (Some did) (Some Active) d in
      if active = [] then (None, [NoActiveCertificate])
      else case find (\<lambda>c. c_certFormat c = VERIFIABLE_CERT_FORMAT) active of
             None \<Rightarrow> (None, [UnverifiableFormats (map c_certFormat active)])
           | Some verifiable \<Rightarrow>
               let stale = staleCustomCapabilities (c_capabilities verifiable) d in
               if stale \<noteq> [] then (None, [StaleCapabilities stale])
               else (Some (c_certificate verifiable), []))"

text \<open>The trust block: the fail mode is the resolved policy's; a kind that decides offline brings its own age.\<close>

definition resolveTrustFrom :: "trust_policy_state \<Rightarrow> int \<Rightarrow> string option \<Rightarrow> bool \<times> int" where
  "resolveTrustFrom ts maxStatusAgeSeconds workspaceId =
     (tp_failClosed (resolveTrustPolicy workspaceId ts), maxStatusAgeSeconds)"

definition resolveTrust :: "trust_policy_state \<Rightarrow> proxy_kind_config \<Rightarrow> string option \<Rightarrow> bool \<times> int" where
  "resolveTrust ts config workspaceId = resolveTrustFrom ts (px_maxStatusAgeSeconds config) workspaceId"

definition resolveInheritedTrust :: "trust_policy_state \<Rightarrow> string option \<Rightarrow> bool \<times> int" where
  "resolveInheritedTrust ts workspaceId =
     (let policy = resolveTrustPolicy workspaceId ts in (tp_failClosed policy, tp_stapleTtlSeconds policy))"

definition payload_of ::
  "'vid config_signer \<Rightarrow> (string \<times> json) list \<Rightarrow> string option \<Rightarrow> string option \<Rightarrow> bool \<times> int
     \<Rightarrow> (push_error, actor_config_payload) result" where
  "payload_of S fs grant rules trust =
     bind_result (signKindConfig S fs) (\<lambda>t.
     Inr \<lparr>ap_kindConfig = fs, ap_kindConfigToken = t, ap_grantToken = grant, ap_ruleSetToken = rules,
          ap_failClosed = fst trust, ap_maxStatusAgeSeconds = snd trust\<rparr>)"

definition buildHarnessConfig ::
  "'vid config_signer \<Rightarrow> int \<Rightarrow> trust_policy_state \<Rightarrow> string \<Rightarrow> (string \<times> json) list \<Rightarrow> string option \<Rightarrow> db
     \<Rightarrow> (push_error, actor_config_payload \<times> config_warning list) result" where
  "buildHarnessConfig S now ts did raw wid d =
     (case parseHarnessKindConfig now (Some (JObj raw)) of
        Inl e \<Rightarrow> Inl (ConfigInvalid e)
      | Inr c \<Rightarrow>
          let (grant, warned) = resolveGrantToken did d in
          bind_result (signHarnessRuleSet S now c) (\<lambda>rules.
          bind_result (payload_of S (harness_fields c) grant rules (resolveTrustFrom ts (hx_maxStatusAgeSeconds c) wid)) (\<lambda>p.
          Inr (p, warned @ harnessKindConfigWarnings now c))))"

definition buildActorConfig ::
  "'vid config_signer \<Rightarrow> int \<Rightarrow> trust_policy_state \<Rightarrow> string \<Rightarrow> db
     \<Rightarrow> (push_error, (actor_config_payload \<times> config_warning list) option) result" where
  "buildActorConfig S now ts did d =
     (case actor_findByDid did d of
        None \<Rightarrow> Inr None
      | Some actor \<Rightarrow>
          if a_kind actor = ''harness'' then
            bind_result (buildHarnessConfig S now ts did (a_kindConfig actor) (a_workspaceId actor) d) (\<lambda>r. Inr (Some r))
          else if a_kind actor \<noteq> ''proxy'' then
            bind_result (payload_of S [] None None (resolveInheritedTrust ts (a_workspaceId actor))) (\<lambda>p. Inr (Some (p, [])))
          else
            (case parseProxyKindConfig now (Some (JObj (a_kindConfig actor))) of
               Inl e \<Rightarrow> Inl (ConfigInvalid e)
             | Inr c \<Rightarrow>
                 let (grant, warned) = resolveGrantToken did d in
                 bind_result (signRuleSet S now c) (\<lambda>rules.
                 bind_result (payload_of S (proxy_fields c) grant rules (resolveTrust ts c (a_workspaceId actor))) (\<lambda>p.
                 Inr (Some (p, warned @ proxyKindConfigWarnings c))))))"

section \<open>What is pushed\<close>

lemma newest_first:
  assumes "find P xs = Some x" and "sorted (map (\<lambda>r. - key r) xs)" and "y \<in> set xs" and "P y"
  shows "key y \<le> (key x :: int)"
  using assms by (induction xs) (auto split: if_splits)

text \<open>A grant token is the text of a certificate that can be checked offline, and of no other.\<close>

lemma grant_token_facts:
  assumes "resolveGrantToken did d = (Some t, w)"
  shows "\<exists>row \<in> set (tb_certs d). t = c_certificate row \<and> c_agentDid row = did \<and> c_status row = Active
    \<and> c_certFormat row = ''packcert''
    \<and> list_all (\<lambda>c. isCustomCapability c \<longrightarrow> c \<in> set (registry_names d)) (c_capabilities row)
    \<and> list_all (\<lambda>r. c_agentDid r = did \<longrightarrow> c_status r = Active \<longrightarrow> c_certFormat r = ''packcert''
          \<longrightarrow> c_issuedAt r \<le> c_issuedAt row) (tb_certs d)"
proof -
  let ?active = "cert_list (Some did) (Some Active) d"
  obtain row where row: "find (\<lambda>c. c_certFormat c = VERIFIABLE_CERT_FORMAT) ?active = Some row"
    and st: "staleCustomCapabilities (c_capabilities row) d = []" and t: "t = c_certificate row"
    using assms by (auto simp: resolveGrantToken_def Let_def split: if_splits option.splits)
  have mem: "row \<in> set ?active" "c_certFormat row = ''packcert''"
    using find_Some_D [OF row] by (simp_all add: VERIFIABLE_CERT_FORMAT_def)
  have "c_issuedAt r \<le> c_issuedAt row" if r: "r \<in> set ?active" "c_certFormat r = ''packcert''" for r
    using newest_first [OF row _ r(1)] r(2) by (simp add: VERIFIABLE_CERT_FORMAT_def cert_list_def)
  moreover have "list_all (\<lambda>c. isCustomCapability c \<longrightarrow> c \<in> set (registry_names d)) (c_capabilities row)"
    using st by (auto simp: staleCustomCapabilities_def Let_def list_all_iff filter_empty_conv split: if_splits)
  ultimately show ?thesis using mem t by (intro bexI [of _ row]) (auto simp: cert_list_def list_all_iff)
qed

text \<open>What a recipient does with a token: the envelope is opened under the pinned identity and the value unpacked.\<close>

definition openObject :: "'vid certlib \<Rightarrow> (byte list \<Rightarrow> json option) \<Rightarrow> 'vid \<Rightarrow> string \<Rightarrow> json option" where
  "openObject L unpack vid token =
     (case unpackCert token of
        None \<Rightarrow> None
      | Some (body, signature) \<Rightarrow>
          (case verifyChallenge L vid body signature of
             None \<Rightarrow> None
           | Some valid \<Rightarrow> if valid then unpack body else None))"

definition lawful_packing :: "(json \<Rightarrow> byte list option) \<Rightarrow> (byte list \<Rightarrow> json option) \<Rightarrow> bool" where
  "lawful_packing pack unpack \<longleftrightarrow> (\<forall>v b. pack v = Some b \<longrightarrow> b \<noteq> [] \<and> unpack b = Some v)"

lemma openObject_signObject:
  assumes "lawful_certlib L" and "lawful_packing pack unpack" and "signObject L pack vid v = Some t"
  shows "openObject L unpack vid t = Some v"
proof -
  from assms(3) obtain body signature where b: "pack v = Some body" "signChallenge L vid body = Some signature"
    "packCert body signature = Some t"
    by (auto simp: signObject_def bind_eq_Some_conv)
  from assms(2) b(1) have "body \<noteq> []" "unpack body = Some v" by (auto simp: lawful_packing_def)
  moreover have "verifyChallenge L vid body signature = Some True"
    using assms(1) b(2) by (auto simp: lawful_certlib_def)
  ultimately show ?thesis using unpackCert_packCert [OF b(3)] by (simp add: openObject_def)
qed

text \<open>The token of a rule list: none for an empty one, else one that opens to the list's payload.\<close>

definition carries :: "'vid config_signer \<Rightarrow> (byte list \<Rightarrow> json option) \<Rightarrow> string option \<Rightarrow> json list \<Rightarrow> json \<Rightarrow> bool" where
  "carries S unpack token rules payload \<longleftrightarrow>
     (case token of
        None \<Rightarrow> rules = []
      | Some t \<Rightarrow> rules \<noteq> [] \<and> openObject (cs_certs S) unpack (cs_vid S) t = Some payload)"

definition host_set :: "int \<Rightarrow> proxy_kind_config \<Rightarrow> proxy_rule_set" where
  "host_set now c = \<lparr>rs_version = PROXY_RULESET_VERSION, rs_rules = px_rules c, rs_resourceRules = None, rs_issuedAt = now\<rparr>"

definition resource_set :: "int \<Rightarrow> harness_kind_config \<Rightarrow> proxy_rule_set" where
  "resource_set now c = \<lparr>rs_version = PROXY_RULESET_VERSION, rs_rules = [], rs_resourceRules = Some (hx_resourceRules c), rs_issuedAt = now\<rparr>"

lemma set_carried:
  assumes "lawful_certlib (cs_certs S)" and "lawful_packing (cs_pack S) unpack"
  shows "signRuleSet S now c = Inr token \<Longrightarrow> carries S unpack token (px_rules c) (rule_payload (host_set now c))"
    and "signHarnessRuleSet S now h = Inr token \<Longrightarrow> carries S unpack token (hx_resourceRules h) (rule_payload (resource_set now h))"
  by (auto simp: signRuleSet_def signHarnessRuleSet_def sign_set_def signProxyRuleSet_def carries_def host_set_def resource_set_def
      dest: openObject_signObject [OF assms] split: if_splits sum.splits sign_rules_error.splits option.splits)

lemma payload_facts:
  assumes "payload_of S fs grant rules trust = Inr p"
  shows "ap_kindConfig p = fs" "ap_grantToken p = grant" "ap_ruleSetToken p = rules"
    "ap_failClosed p = fst trust" "ap_maxStatusAgeSeconds p = snd trust"
    "signObject (cs_certs S) (cs_pack S) (cs_vid S) (JObj fs) = Some (ap_kindConfigToken p)"
  using assms by (auto simp: payload_of_def signKindConfig_def split: option.splits)

lemma built_facts:
  assumes "buildActorConfig S now ts did d = Inr (Some (p, w))" and "actor_findByDid did d = Some a"
  shows "if a_kind a = ''proxy'' then
       \<exists>c. parseProxyKindConfig now (Some (JObj (a_kindConfig a))) = Inr c
         \<and> signRuleSet S now c = Inr (ap_ruleSetToken p)
         \<and> payload_of S (proxy_fields c) (fst (resolveGrantToken did d)) (ap_ruleSetToken p) (resolveTrust ts c (a_workspaceId a)) = Inr p
     else if a_kind a = ''harness'' then
       \<exists>c. parseHarnessKindConfig now (Some (JObj (a_kindConfig a))) = Inr c
         \<and> signHarnessRuleSet S now c = Inr (ap_ruleSetToken p)
         \<and> payload_of S (harness_fields c) (fst (resolveGrantToken did d)) (ap_ruleSetToken p)
             (resolveTrustFrom ts (hx_maxStatusAgeSeconds c) (a_workspaceId a)) = Inr p
     else payload_of S [] None None (resolveInheritedTrust ts (a_workspaceId a)) = Inr p"
  using assms
  by (auto simp: buildActorConfig_def buildHarnessConfig_def case_prod_unfold Let_def payload_facts(3) split: if_splits sum.splits)

text \<open>C29 (roundtrip). What is pushed to an Actor verifies, and is what is stored: the configuration token opens to
  the configuration sent beside it; for a proxy or a harness that is the stored one as read, the rule token
  is there exactly when there are rules and opens to all of them, and the age of a status is the kind's own;
  any other kind gets no authority, and the organisation's or workspace's age. The fail mode is the policy's always.\<close>

theorem pushed_config_verifies:
  assumes "lawful_certlib (cs_certs S)" and "lawful_packing (cs_pack S) unpack"
    and "buildActorConfig S now ts did d = Inr (Some (p, w))" and "actor_findByDid did d = Some a"
  shows "openObject (cs_certs S) unpack (cs_vid S) (ap_kindConfigToken p) = Some (JObj (ap_kindConfig p))
    \<and> ap_failClosed p = tp_failClosed (resolveTrustPolicy (a_workspaceId a) ts)
    \<and> (if a_kind a = ''proxy'' then
         \<exists>c. parseProxyKindConfig now (Some (JObj (a_kindConfig a))) = Inr c \<and> ap_kindConfig p = proxy_fields c
           \<and> carries S unpack (ap_ruleSetToken p) (px_rules c) (rule_payload (host_set now c))
           \<and> ap_maxStatusAgeSeconds p = px_maxStatusAgeSeconds c
       else if a_kind a = ''harness'' then
         \<exists>c. parseHarnessKindConfig now (Some (JObj (a_kindConfig a))) = Inr c \<and> ap_kindConfig p = harness_fields c
           \<and> carries S unpack (ap_ruleSetToken p) (hx_resourceRules c) (rule_payload (resource_set now c))
           \<and> ap_maxStatusAgeSeconds p = hx_maxStatusAgeSeconds c
       else ap_kindConfig p = [] \<and> ap_grantToken p = None \<and> ap_ruleSetToken p = None
         \<and> ap_maxStatusAgeSeconds p = tp_stapleTtlSeconds (resolveTrustPolicy (a_workspaceId a) ts))"
    (is "?opens \<and> ?closed \<and> ?kind")
proof -
  note built = built_facts [OF assms(3,4)]
  obtain fs grant trust where pay: "payload_of S fs grant (ap_ruleSetToken p) trust = Inr p"
    and closed: "fst trust = tp_failClosed (resolveTrustPolicy (a_workspaceId a) ts)"
  proof (cases "a_kind a \<in> {''proxy'', ''harness''}")
    case True
    with built that show thesis by (auto simp: resolveTrust_def resolveTrustFrom_def split: if_splits)
  next
    case False
    with built have "payload_of S [] None None (resolveInheritedTrust ts (a_workspaceId a)) = Inr p" by simp
    from this payload_facts(3) [OF this] that show thesis by (simp add: resolveInheritedTrust_def Let_def)
  qed
  note facts = payload_facts
  have ?opens
    using openObject_signObject [OF assms(1,2) facts(6) [OF pay]] facts(1) [OF pay] by simp
  moreover have ?closed
    using facts(4) [OF pay] closed by simp
  moreover consider (proxy) "a_kind a = ''proxy''" | (harness) "a_kind a = ''harness''"
    | (plain) "a_kind a \<noteq> ''proxy''" "a_kind a \<noteq> ''harness''" by blast
  then have ?kind
  proof cases
    case proxy
    with built obtain c where c: "parseProxyKindConfig now (Some (JObj (a_kindConfig a))) = Inr c"
      "signRuleSet S now c = Inr (ap_ruleSetToken p)"
      "payload_of S (proxy_fields c) (fst (resolveGrantToken did d)) (ap_ruleSetToken p) (resolveTrust ts c (a_workspaceId a)) = Inr p"
      by auto
    with proxy set_carried(1) [OF assms(1,2) c(2)] facts(1,5) [OF c(3)] show ?thesis
      by (simp add: resolveTrust_def resolveTrustFrom_def)
  next
    case harness
    with built obtain c where c: "parseHarnessKindConfig now (Some (JObj (a_kindConfig a))) = Inr c"
      "signHarnessRuleSet S now c = Inr (ap_ruleSetToken p)"
      "payload_of S (harness_fields c) (fst (resolveGrantToken did d)) (ap_ruleSetToken p)
         (resolveTrustFrom ts (hx_maxStatusAgeSeconds c) (a_workspaceId a)) = Inr p"
      by auto
    with harness set_carried(2) [OF assms(1,2) c(2)] facts(1,5) [OF c(3)] show ?thesis
      by (simp add: resolveTrustFrom_def)
  next
    case plain
    with built have c: "payload_of S [] None None (resolveInheritedTrust ts (a_workspaceId a)) = Inr p" by simp
    with plain facts(1,2,3,5) [OF c] show ?thesis by (simp add: resolveInheritedTrust_def Let_def)
  qed
  ultimately show ?thesis by blast
qed

text \<open>C30 (safety). The authority that is pushed is real: a grant token goes only to a proxy or a harness, and is the
  text of a certificate of that very Actor which is active in the ledger, of the format that can be checked
  offline, the newest of that kind, and naming no custom capability the registry does not know.\<close>

theorem pushed_grant_is_held:
  assumes "buildActorConfig S now ts did d = Inr (Some (p, w))" and "ap_grantToken p = Some t"
  shows "\<exists>a row. actor_findByDid did d = Some a \<and> a_kind a \<in> {''proxy'', ''harness''}
    \<and> row \<in> set (tb_certs d) \<and> t = c_certificate row \<and> c_agentDid row = did \<and> c_status row = Active
    \<and> c_certFormat row = ''packcert''
    \<and> set (filter isCustomCapability (c_capabilities row)) \<subseteq> set (registry_names d)
    \<and> {r \<in> set (tb_certs d). c_agentDid r = did \<and> c_status r = Active \<and> c_certFormat r = ''packcert''
         \<and> c_issuedAt r > c_issuedAt row} = {}"
proof -
  from assms(1) obtain a where a: "actor_findByDid did d = Some a"
    by (auto simp: buildActorConfig_def split: option.splits)
  have kind: "a_kind a \<in> {''proxy'', ''harness''}" and "fst (resolveGrantToken did d) = Some t"
    using built_facts [OF assms(1) a] assms(2) by (auto split: if_splits dest: payload_facts(2))
  then obtain w' where "resolveGrantToken did d = (Some t, w')" by (cases "resolveGrantToken did d") simp
  from grant_token_facts [OF this] obtain row where row: "row \<in> set (tb_certs d)" "t = c_certificate row" "c_agentDid row = did"
    "c_status row = Active" "c_certFormat row = ''packcert''"
    "list_all (\<lambda>c. isCustomCapability c \<longrightarrow> c \<in> set (registry_names d)) (c_capabilities row)"
    "list_all (\<lambda>r. c_agentDid r = did \<longrightarrow> c_status r = Active \<longrightarrow> c_certFormat r = ''packcert''
          \<longrightarrow> c_issuedAt r \<le> c_issuedAt row) (tb_certs d)"
    by blast
  show ?thesis
    by (intro exI [of _ a] exI [of _ row]) (use a kind row in \<open>auto simp: list_all_iff not_less [symmetric]\<close>)
qed

text \<open>A proxy with one rule and one certificate, for evaluation.\<close>

definition demo_rule :: json where
  "demo_rule = JObj [(''id'', JStr ''r1''), (''subject'', JStr ''any''), (''hosts'', JArr [JStr ''.openai.com'']), (''effect'', JStr ''deny'')]"

definition demo_proxy :: proxy_kind_config where
  "demo_proxy = DEFAULT_PROXY_KIND_CONFIG\<lparr>px_rules := [demo_rule]\<rparr>"

definition demo_proxy_actor :: actor_row where
  "demo_proxy_actor = \<lparr>a_did = ''did:x'', a_name = ''X'', a_kind = ''proxy'', a_publicKey = None, a_workspaceId = None,
     a_declaredCapabilities = None, a_kindConfig = proxy_fields demo_proxy, a_registeredAt = 0, a_lastSeen = 0, a_ownerDid = None\<rparr>"

definition demo_proxy_cert :: certificate_row where
  "demo_proxy_cert = \<lparr>c_id = ''c'', c_agentDid = ''did:x'', c_workspaceId = None, c_capabilities = [''file_read''],
     c_resourceLimits = None, c_scope = None, c_certFormat = ''packcert'', c_certificate = ''text'',
     c_requestCertificate = None, c_status = Active, c_issuedBy = None, c_issuedAt = 0, c_expiresAt = None,
     c_revokedAt = None, c_revokedBy = None, c_revokedReason = None\<rparr>"

definition demo_proxy_db :: db where
  "demo_proxy_db = empty_db\<lparr>tb_actors := [demo_proxy_actor], tb_certs := [demo_proxy_cert]\<rparr>"

definition demo_values :: "json list" where
  "demo_values = [rule_payload (host_set 0 demo_proxy), JObj (proxy_fields demo_proxy)]"

definition demo_signer :: "byte config_signer" where
  "demo_signer = \<lparr>cs_certs = table_certlib [], cs_vid = 7,
     cs_pack = (\<lambda>v. map_option (\<lambda>i. [of_nat i]) (index_of v demo_values))\<rparr>"

definition demo_unpack :: "byte list \<Rightarrow> json option" where
  "demo_unpack b = (case b of [x] \<Rightarrow> if unat x < length demo_values then Some (demo_values ! unat x) else None | _ \<Rightarrow> None)"

lemma demo_lawful_packing: "lawful_packing (cs_pack demo_signer) demo_unpack"
proof -
  have n: "length demo_values = 2" by (simp add: demo_values_def)
  have "unat (of_nat i :: byte) = i" if "i < length demo_values" for i
    using that n by (simp add: unat_of_nat)
  then show ?thesis
    by (auto simp: lawful_packing_def demo_signer_def demo_unpack_def index_of_Some_iff)
qed

lemma demo_signs: "v \<in> set demo_values \<Longrightarrow> \<exists>t. signObject (cs_certs demo_signer) (cs_pack demo_signer) (cs_vid demo_signer) v = Some t"
proof -
  assume "v \<in> set demo_values"
  then obtain i where "index_of v demo_values = Some i" by (cases "index_of v demo_values") simp_all
  then show ?thesis
    by (simp add: signObject_def demo_signer_def table_certlib_def packCert_def writeUInt32LE_def)
qed

lemma demo_rules_sign: "\<exists>t. signRuleSet demo_signer 0 demo_proxy = Inr (Some t)"
proof -
  have "rule_payload (host_set 0 demo_proxy) \<in> set demo_values" by (simp add: demo_values_def)
  from demo_signs [OF this] obtain t where
    "signObject (cs_certs demo_signer) (cs_pack demo_signer) (cs_vid demo_signer) (rule_payload (host_set 0 demo_proxy)) = Some t" ..
  moreover have "validateProxyRuleSet (host_set 0 demo_proxy) = Inr ()" by code_simp
  moreover have "px_rules demo_proxy \<noteq> []" by (simp add: demo_proxy_def)
  ultimately show ?thesis by (simp add: signRuleSet_def sign_set_def signProxyRuleSet_def host_set_def)
qed

lemma demo_config_signs: "\<exists>t. signKindConfig demo_signer (proxy_fields demo_proxy) = Inr t"
proof -
  have "JObj (proxy_fields demo_proxy) \<in> set demo_values" by (simp add: demo_values_def)
  from demo_signs [OF this] show ?thesis by (auto simp: signKindConfig_def)
qed

lemma demo_proxy_found: "actor_findByDid ''did:x'' demo_proxy_db = Some demo_proxy_actor"
  by (simp add: actor_findByDid_def row_find_def demo_proxy_db_def demo_proxy_actor_def)

lemma demo_proxy_read: "parseProxyKindConfig 0 (Some (JObj (proxy_fields demo_proxy))) = Inr demo_proxy"
  by code_simp

lemma demo_pushed:
  "\<exists>p w. buildActorConfig demo_signer 0 (loadState demo_proxy_db) ''did:x'' demo_proxy_db = Inr (Some (p, w))
     \<and> ap_ruleSetToken p \<noteq> None \<and> ap_grantToken p = Some ''text''"
proof -
  obtain r where r: "signRuleSet demo_signer 0 demo_proxy = Inr (Some r)" using demo_rules_sign ..
  obtain k where k: "signKindConfig demo_signer (proxy_fields demo_proxy) = Inr k" using demo_config_signs ..
  have g: "resolveGrantToken ''did:x'' demo_proxy_db = (Some ''text'', [])" by code_simp
  have a: "a_kind demo_proxy_actor = ''proxy''" "a_kindConfig demo_proxy_actor = proxy_fields demo_proxy"
    by (simp_all add: demo_proxy_actor_def)
  show ?thesis by (simp add: buildActorConfig_def demo_proxy_found a demo_proxy_read g r k payload_of_def)
qed

theorem pushed_config_verifies_witness:
  "\<exists>p w t. buildActorConfig demo_signer 0 (loadState demo_proxy_db) ''did:x'' demo_proxy_db = Inr (Some (p, w))
     \<and> ap_ruleSetToken p = Some t
     \<and> openObject (table_certlib []) demo_unpack 7 t = Some (rule_payload (host_set 0 demo_proxy))"
proof -
  obtain p w where b: "buildActorConfig demo_signer 0 (loadState demo_proxy_db) ''did:x'' demo_proxy_db = Inr (Some (p, w))"
    "ap_ruleSetToken p \<noteq> None"
    by (rule exE [OF demo_pushed]) (elim exE conjE)
  have "lawful_certlib (cs_certs demo_signer)" by (simp add: demo_signer_def table_certlib_lawful)
  from pushed_config_verifies [OF this demo_lawful_packing b(1) demo_proxy_found] b(2)
  have "\<exists>c. parseProxyKindConfig 0 (Some (JObj (proxy_fields demo_proxy))) = Inr c
     \<and> carries demo_signer demo_unpack (ap_ruleSetToken p) (px_rules c) (rule_payload (host_set 0 c))"
    by (auto simp: demo_proxy_actor_def)
  moreover have "parseProxyKindConfig 0 (Some (JObj (proxy_fields demo_proxy))) = Inr demo_proxy" by (rule demo_proxy_read)
  ultimately show ?thesis using b by (auto simp: carries_def demo_signer_def)
qed

theorem pushed_grant_is_held_witness:
  "\<exists>p w row. buildActorConfig demo_signer 0 (loadState demo_proxy_db) ''did:x'' demo_proxy_db = Inr (Some (p, w))
     \<and> ap_grantToken p = Some ''text'' \<and> row \<in> set (tb_certs demo_proxy_db) \<and> c_certificate row = ''text''"
proof -
  obtain p w where b: "buildActorConfig demo_signer 0 (loadState demo_proxy_db) ''did:x'' demo_proxy_db = Inr (Some (p, w))"
    "ap_grantToken p = Some ''text''"
    by (rule exE [OF demo_pushed]) (elim exE conjE)
  from pushed_grant_is_held [OF b] b show ?thesis by fastforce
qed

end
