(* ===== verification/AdminConsole.thy ===== *)
theory AdminConsole
  imports WebhookPayloads ConnectionServer ActorConfig
begin

text \<open>
  What the console's server actions share: the state an action works on, its outcome, the gate every
  action opens with (\<open>packages/controlplane/lib/require-admin.ts\<close>), the forms they parse
  (\<open>lib/certificate-form.ts\<close>, \<open>lib/login-window.ts\<close>), and the rows of humans and of links
  (\<open>db/user.dao.ts\<close>, \<open>db/actor-link.dao.ts\<close>).

  An action throws (\<open>Inl\<close>) or returns, and what it did before the throw stays. The connection server
  runs in the same process. The messages of the errors, \<open>revalidatePath\<close> and \<open>redirect\<close> are left out.
\<close>

section \<open>State\<close>

record user_row =
  us_did :: string
  us_email :: "string option"
  us_profileCompletedAt :: "int option"

record link_row =
  ln_id :: string
  ln_fromDid :: string
  ln_toDid :: string
  ln_label :: string

record ('vid, 'ch, 'cfg) console =
  co_ws :: "('vid, 'ch, 'cfg) ws_state"
  co_users :: "user_row list"
  co_links :: "link_row list"
  co_jobs :: "webhook_job list"

abbreviation co_db :: "('vid, 'ch, 'cfg) console \<Rightarrow> db" where
  "co_db c \<equiv> ws_db (co_ws c)"

text \<open>
  A call: the clock, ids, armed set and registry names of \<open>ws_env\<close>, the session, a second random
  id, the random token and its hash, and \<open>JSON.parse\<close>.
\<close>

record admin_env =
  ae_ev :: ws_env
  ae_session :: "(string \<times> string option) option"
  ae_payload :: payload_env
  ae_uuid2 :: string
  ae_rawToken :: string
  ae_hashToken :: "string \<Rightarrow> string"
  ae_json :: "string \<Rightarrow> json option"

datatype refusal =
    MissingField | NotFound | AlreadyResolved | KindNotRegisterable string | SwitchArmed string
  | NotConfirmed | BadScope | NotGrantable "string list" | ExpiryNotConfirmed | SrtNotJson | SrtNotObject
  | BuiltinName | BadFailMode | BadTtlMode | BadNumber | OutOfRange | IsDefaultWorkspace | SelfReference
  | OwnActor | EmailTaken string | WrongKind

datatype admin_error =
    NotAuthenticated
  | NotAuthorized
  | Refused refusal
  | DbFailed db_error
  | NameRejected capability_error
  | SigningFailed
  | InvalidDate
  | DeliveryFailed
  | BadConfig config_error

section \<open>Outcomes\<close>

text \<open>A call: what it returns or throws, and the state it leaves.\<close>

type_synonym ('s, 'e, 'a) run = "'s \<Rightarrow> ('e, 'a) result \<times> 's"

type_synonym ('vid, 'ch, 'cfg, 'a) act = "(('vid, 'ch, 'cfg) console, admin_error, 'a) run"

definition give :: "'a \<Rightarrow> ('s, 'e, 'a) run" where
  "give x c = (Inr x, c)"

definition throw :: "'e \<Rightarrow> ('s, 'e, 'a) run" where
  "throw e c = (Inl e, c)"

definition andThen :: "('s, 'e, 'a) run \<Rightarrow> ('a \<Rightarrow> ('s, 'e, 'b) run) \<Rightarrow> ('s, 'e, 'b) run" where
  "andThen m f c = (case m c of (Inl e, c') \<Rightarrow> (Inl e, c') | (Inr x, c') \<Rightarrow> f x c')"

definition reading :: "('s \<Rightarrow> 'a) \<Rightarrow> ('s, 'e, 'a) run" where
  "reading f c = (Inr (f c), c)"

definition catching :: "('s, 'e, 'a) run \<Rightarrow> ('e \<Rightarrow> ('s, 'e, 'a) run) \<Rightarrow> ('s, 'e, 'a) run" where
  "catching m h c = (case m c of (Inl e, c') \<Rightarrow> h e c' | (Inr x, c') \<Rightarrow> (Inr x, c'))"

definition refuse_when :: "bool \<Rightarrow> refusal \<Rightarrow> ('s, admin_error, 'a) run \<Rightarrow> ('s, admin_error, 'a) run" where
  "refuse_when b r m = (if b then throw (Refused r) else m)"

definition require :: "'a option \<Rightarrow> refusal \<Rightarrow> ('s, admin_error, 'a) run" where
  "require x r = (case x of None \<Rightarrow> throw (Refused r) | Some v \<Rightarrow> give v)"

definition lift_result :: "('e, 'a) result \<Rightarrow> ('s, 'e, 'a) run" where
  "lift_result r = (case r of Inl e \<Rightarrow> throw e | Inr x \<Rightarrow> give x)"

text \<open>A DAO call, a call of the connection server, and \<open>try ... catch\<close> that returns the error.\<close>

definition set_db :: "db \<Rightarrow> ('vid, 'ch, 'cfg) console \<Rightarrow> ('vid, 'ch, 'cfg) console" where
  "set_db d c = c\<lparr>co_ws := (co_ws c)\<lparr>ws_db := d\<rparr>\<rparr>"

definition dao :: "(db \<Rightarrow> (db_error, 'a \<times> db) result) \<Rightarrow> ('vid, 'ch, 'cfg, 'a) act" where
  "dao f c = (case f (co_db c) of Inl e \<Rightarrow> (Inl (DbFailed e), c) | Inr (x, d') \<Rightarrow> (Inr x, set_db d' c))"

definition dao_unit :: "(db \<Rightarrow> (db_error, db) result) \<Rightarrow> ('vid, 'ch, 'cfg, unit) act" where
  "dao_unit f = dao (\<lambda>d. bind_result (f d) (\<lambda>d'. Inr ((), d')))"

definition onServer ::
  "(('vid, 'ch, 'cfg) ws_state \<Rightarrow> 'a \<times> ('vid, 'ch, 'cfg) ws_state) \<Rightarrow> ('vid, 'ch, 'cfg, 'a) act" where
  "onServer f c = (let (x, st') = f (co_ws c) in (Inr x, c\<lparr>co_ws := st'\<rparr>))"

definition caught :: "('s, 'e, unit) run \<Rightarrow> ('s, 'e, 'e option) run" where
  "caught m c = (case m c of (Inl e, c') \<Rightarrow> (Inr (Some e), c') | (Inr _, c') \<Rightarrow> (Inr None, c'))"

text \<open>\<open>recordEvent\<close>: the audit entry, and the job handed to the queue.\<close>

definition record_event ::
  "admin_env \<Rightarrow> string \<Rightarrow> (string \<times> json) list \<Rightarrow> performer option \<Rightarrow> string option \<Rightarrow> string option
     \<Rightarrow> ('vid, 'ch, 'cfg, unit) act" where
  "record_event E eventType payload by targetType targetId c =
     (let now = ev_now (ae_ev E);
          c' = set_db (recordEvent now eventType payload by targetType targetId (co_db c)) c
      in (Inr (), c'\<lparr>co_jobs := co_jobs c' @ [enqueue_job (ae_payload E) now eventType payload]\<rparr>))"

section \<open>The gate\<close>

definition requireAdmin :: "admin_env \<Rightarrow> ('vid, 'ch, 'cfg, performer) act" where
  "requireAdmin E c =
     (case ae_session E of
        None \<Rightarrow> throw NotAuthenticated c
      | Some (did, nm) \<Rightarrow>
          if did = [] then throw NotAuthenticated c
          else if \<not> hasCapability (ev_now (ae_ev E)) (ev_armed (ae_ev E)) did ''admin_console_access'' None (co_db c)
          then throw NotAuthorized c
          else give \<lparr>pb_did = did, pb_name = Some (case nm of None \<Rightarrow> ''Unnamed'' | Some n \<Rightarrow> n)\<rparr> c)"

section \<open>Forms\<close>

type_synonym form = "(string \<times> string) list"

definition form_get :: "form \<Rightarrow> string \<Rightarrow> string option" where
  "form_get f k = map_of f k"

definition form_all :: "form \<Rightarrow> string \<Rightarrow> string list" where
  "form_all f k = map snd (filter (\<lambda>(k', _). k' = k) f)"

definition form_trim :: "form \<Rightarrow> string \<Rightarrow> string option" where
  "form_trim f k = map_option js_trim (form_get f k)"

text \<open>\<open>x || null\<close>.\<close>

definition or_null :: "string option \<Rightarrow> string option" where
  "or_null x = (if truthy x then x else None)"

definition text_of :: "string option \<Rightarrow> string" where
  "text_of x = (case x of None \<Rightarrow> [] | Some s \<Rightarrow> s)"

text \<open>\<open>toLowerCase\<close> of code units below 256.\<close>

definition js_lower :: "string \<Rightarrow> string" where
  "js_lower s = map (\<lambda>c. if (65 \<le> code_unit c \<and> code_unit c \<le> 90)
                          \<or> (192 \<le> code_unit c \<and> code_unit c \<le> 222 \<and> code_unit c \<noteq> 215)
                         then char_of (code_unit c + 32) else c) s"

text \<open>The pieces between separators, none empty.\<close>

fun pieces :: "(char \<Rightarrow> bool) \<Rightarrow> string \<Rightarrow> string \<Rightarrow> string list" where
  "pieces sep cur [] = (if cur = [] then [] else [cur])"
| "pieces sep cur (c # s) =
     (if sep c then (if cur = [] then pieces sep [] s else cur # pieces sep [] s)
      else pieces sep (cur @ [c]) s)"

definition splitDomains :: "string \<Rightarrow> string list" where
  "splitDomains raw = pieces (\<lambda>c. is_js_space c \<or> c = CHR '','') [] raw"

definition parseSrtSettings :: "admin_env \<Rightarrow> string \<Rightarrow> (admin_error, string option) result" where
  "parseSrtSettings E raw =
     (let text = js_trim raw in
      if text = [] then Inr None
      else case ae_json E text of
             None \<Rightarrow> Inl (Refused SrtNotJson)
           | Some (JObj _) \<Rightarrow> Inr (Some text)
           | Some _ \<Rightarrow> Inl (Refused SrtNotObject))"

definition parseResourceLimits :: "admin_env \<Rightarrow> form \<Rightarrow> (admin_error, resource_limits option) result" where
  "parseResourceLimits E f =
     (let domains = splitDomains (text_of (form_get f ''allowedDomains'')) in
      bind_result (parseSrtSettings E (text_of (form_get f ''srt''))) (\<lambda>srt'.
        Inr (if domains = [] \<and> srt' = None then None
             else Some \<lparr>maxTokensPerDay = None, maxRequestsPerHour = None,
                        allowedDomains = (if domains = [] then None else Some domains), srt = srt'\<rparr>)))"

definition DEFAULT_P2P_CONNECT_WINDOW_SECONDS :: int where
  "DEFAULT_P2P_CONNECT_WINDOW_SECONDS = 120"

definition MIN_P2P_CONNECT_WINDOW_SECONDS :: int where
  "MIN_P2P_CONNECT_WINDOW_SECONDS = 30"

definition MAX_P2P_CONNECT_WINDOW_SECONDS :: int where
  "MAX_P2P_CONNECT_WINDOW_SECONDS = 600"

definition parseP2PConnectWindowSeconds :: "string option \<Rightarrow> int" where
  "parseP2PConnectWindowSeconds raw =
     (case js_parseInt (text_of raw) of
        None \<Rightarrow> DEFAULT_P2P_CONNECT_WINDOW_SECONDS
      | Some n \<Rightarrow> min MAX_P2P_CONNECT_WINDOW_SECONDS (max MIN_P2P_CONNECT_WINDOW_SECONDS n))"

definition validateP2PConnectWindowSeconds :: "string \<Rightarrow> (admin_error, int) result" where
  "validateP2PConnectWindowSeconds raw =
     (case js_parseInt raw of
        None \<Rightarrow> Inl (Refused BadNumber)
      | Some n \<Rightarrow>
          throw_when (n < MIN_P2P_CONNECT_WINDOW_SECONDS \<or> n > MAX_P2P_CONNECT_WINDOW_SECONDS)
            (Refused OutOfRange) (Inr n))"

section \<open>Humans and links\<close>

definition user_findByEmail :: "string \<Rightarrow> ('vid, 'ch, 'cfg) console \<Rightarrow> user_row option" where
  "user_findByEmail email c = row_find us_email (Some email) (co_users c)"

definition user_findByDid :: "string \<Rightarrow> ('vid, 'ch, 'cfg) console \<Rightarrow> user_row option" where
  "user_findByDid did c = row_find us_did did (co_users c)"

definition user_updateEmail :: "string \<Rightarrow> string option \<Rightarrow> ('vid, 'ch, 'cfg, unit) act" where
  "user_updateEmail did email c =
     (if row_find us_did did (co_users c) = None then (Inl (DbFailed RecordNotFound), c)
      else if email \<noteq> None \<and> list_ex (\<lambda>u. us_email u = email \<and> us_did u \<noteq> did) (co_users c)
      then (Inl (DbFailed UniqueViolation), c)
      else (Inr (), c\<lparr>co_users := row_map (\<lambda>u. us_did u = did) (\<lambda>u. u\<lparr>us_email := email\<rparr>) (co_users c)\<rparr>))"

definition user_markProfileCompleted :: "int \<Rightarrow> string \<Rightarrow> ('vid, 'ch, 'cfg, unit) act" where
  "user_markProfileCompleted now did c =
     (if row_find us_did did (co_users c) = None then (Inl (DbFailed RecordNotFound), c)
      else (Inr (), c\<lparr>co_users := row_map (\<lambda>u. us_did u = did)
                          (\<lambda>u. u\<lparr>us_profileCompletedAt := Some now\<rparr>) (co_users c)\<rparr>))"

text \<open>The Actor and User rows of a human's first login; a known Actor is only touched.\<close>

definition user_ensureExists ::
  "int \<Rightarrow> string \<Rightarrow> string \<Rightarrow> string option \<Rightarrow> string option \<Rightarrow> ('vid, 'ch, 'cfg, unit) act" where
  "user_ensureExists now did nm email publicKey c =
     (if actor_findByDid did (co_db c) \<noteq> None
      then dao_unit (actor_touchLastSeen now did) c
      else if email \<noteq> None \<and> list_ex (\<lambda>u. us_email u = email) (co_users c)
      then throw (Refused (EmailTaken (text_of email))) c
      else andThen (dao (actor_upsert now
               \<lparr>au_did = did, au_name = nm, au_kind = ''human'', au_publicKey = publicKey,
                au_workspaceId = None, au_kindConfig = None\<rparr>))
             (\<lambda>_ c1. (Inr (), c1\<lparr>co_users := co_users c1 @
                [\<lparr>us_did = did, us_email = email, us_profileCompletedAt = None\<rparr>]\<rparr>)) c)"

definition link_create :: "string \<Rightarrow> string \<Rightarrow> string \<Rightarrow> string \<Rightarrow> ('vid, 'ch, 'cfg, unit) act" where
  "link_create lid fromDid toDid label c =
     (if row_find ln_id lid (co_links c) \<noteq> None then (Inl (DbFailed UniqueViolation), c)
      else if actor_findByDid fromDid (co_db c) = None \<or> actor_findByDid toDid (co_db c) = None
      then (Inl (DbFailed ForeignKeyViolation), c)
      else (Inr (), c\<lparr>co_links := co_links c @
              [\<lparr>ln_id = lid, ln_fromDid = fromDid, ln_toDid = toDid, ln_label = label\<rparr>]\<rparr>))"

definition link_delete :: "string \<Rightarrow> ('vid, 'ch, 'cfg, unit) act" where
  "link_delete lid c = (Inr (), c\<lparr>co_links := filter (\<lambda>l. ln_id l \<noteq> lid) (co_links c)\<rparr>)"

text \<open>Deleting an Actor also takes its profile and its links with it.\<close>

definition delete_actor_rows :: "string \<Rightarrow> ('vid, 'ch, 'cfg, unit) act" where
  "delete_actor_rows did =
     andThen (dao_unit (actor_delete did))
       (\<lambda>_ c. (Inr (), c\<lparr>co_users := filter (\<lambda>u. us_did u \<noteq> did) (co_users c),
                          co_links := filter (\<lambda>l. ln_fromDid l \<noteq> did \<and> ln_toDid l \<noteq> did) (co_links c)\<rparr>))"

end
