(* ===== verification/AdminActions.thy ===== *)
theory AdminActions
  imports AdminConsole
begin

text \<open>
  The console's server actions (\<open>packages/controlplane/app/admin/*/actions.ts\<close>) and the approval and
  denial of registrations they call (\<open>lib/registrations.ts\<close>): one definition each, in the order the
  code performs its checks, writes, events and calls of the connection server. A push that is not
  awaited runs on the spot. The cached armed set is \<open>ev_armed\<close>; an action that invalidates it and
  then calls the server has it loaded again.
\<close>

section \<open>Registrations (registrations.ts)\<close>

definition actor_event :: "admin_env \<Rightarrow> actor_row \<Rightarrow> performer \<Rightarrow> (string \<times> json) list" where
  "actor_event E a by = actorPayload (ae_payload E) a @
     [(''performedBy'', jperformer by), (''adminUrl'', jopt (actorAdminUrl (ae_payload E) (a_did a)))]"

definition approvePendingRegistration ::
  "('vid, 'ch, 'cfg) ws_lib \<Rightarrow> admin_env \<Rightarrow> string \<Rightarrow> string list \<Rightarrow> performer
     \<Rightarrow> ('vid, 'ch, 'cfg, unit) act" where
  "approvePendingRegistration lib E registrationId capabilities approver =
     (let now = ev_now (ae_ev E) in
      andThen (reading (\<lambda>c. pending_findById registrationId (co_db c))) (\<lambda>found.
      case found of
        None \<Rightarrow> throw (Refused AlreadyResolved)
      | Some r \<Rightarrow>
          refuse_when (p_status r \<noteq> Pending) AlreadyResolved (
          refuse_when (\<not> isRegisterableKind (p_kind r)) (KindNotRegisterable (p_kind r)) (
          case suppressionForActor \<lparr>sa_kind = p_kind r, sa_workspaceId = p_targetWorkspaceId r\<rparr>
                 (ev_armed (ae_ev E)) of
            Some k \<Rightarrow> throw (Refused (SwitchArmed (killSwitchReason k)))
          | None \<Rightarrow>
              andThen (dao (actor_upsert now
                \<lparr>au_did = p_did r, au_name = p_name r, au_kind = p_kind r, au_publicKey = p_publicKey r,
                 au_workspaceId = p_targetWorkspaceId r, au_kindConfig = None\<rparr>)) (\<lambda>actor.
              let grantable = grantableCapabilitiesForKind (p_kind r) (ev_registry (ae_ev E));
                  granted = filter (\<lambda>cap. cap \<in> set grantable) capabilities
              in andThen (record_event E ''actor.approved''
                   (actor_event E actor approver @ [(''grantedCapabilities'', jstrs granted)])
                   (Some approver) (Some ''actor'') (Some (a_did actor))) (\<lambda>_.
                 andThen (dao (pending_approve registrationId granted (pb_did approver) (p_targetWorkspaceId r))) (\<lambda>_.
                 andThen (onServer (deliverApprovedCapabilities lib (ae_ev E) (p_did r))) (\<lambda>delivered.
                 case delivered of None \<Rightarrow> throw DeliveryFailed | Some _ \<Rightarrow> give ()))))))))"

definition denyPendingRegistration ::
  "admin_env \<Rightarrow> string \<Rightarrow> performer \<Rightarrow> ('vid, 'ch, 'cfg, unit) act" where
  "denyPendingRegistration E registrationId denier =
     andThen (reading (\<lambda>c. pending_findById registrationId (co_db c))) (\<lambda>found.
     case found of
       None \<Rightarrow> throw (Refused AlreadyResolved)
     | Some r \<Rightarrow>
         refuse_when (p_status r \<noteq> Pending) AlreadyResolved (
         andThen (dao (pending_deny registrationId)) (\<lambda>_.
         record_event E ''actor.denied''
           [(''did'', JStr (p_did r)), (''name'', JStr (p_name r)), (''kind'', JStr (p_kind r)),
            (''performedBy'', jperformer denier),
            (''adminUrl'', jopt (buildAdminUrl (ae_payload E) ''/admin/actors''))]
           (Some denier) (Some ''actor'') (Some (p_did r)))))"

definition approveRegistrationAction ::
  "('vid, 'ch, 'cfg) ws_lib \<Rightarrow> admin_env \<Rightarrow> form \<Rightarrow> ('vid, 'ch, 'cfg, unit) act" where
  "approveRegistrationAction lib E f =
     andThen (requireAdmin E) (\<lambda>by.
       approvePendingRegistration lib E (text_of (form_get f ''registrationId''))
         (form_all f ''capabilities'') by)"

definition denyRegistrationAction :: "admin_env \<Rightarrow> form \<Rightarrow> ('vid, 'ch, 'cfg, unit) act" where
  "denyRegistrationAction E f =
     andThen (requireAdmin E) (\<lambda>by.
       denyPendingRegistration E (text_of (form_get f ''registrationId'')) by)"

section \<open>Kill switches (kill-switch/actions.ts)\<close>

record target =
  tg_id :: string
  tg_scopeType :: scope_type
  tg_workspaceId :: "string option"
  tg_workspaceName :: "string option"
  tg_revalidate :: string

definition ARM_CONFIRMATION :: string where
  "ARM_CONFIRMATION = ''ARM''"

definition resolveTarget :: "form \<Rightarrow> ('vid, 'ch, 'cfg, target) act" where
  "resolveTarget f =
     (if form_get f ''scope'' = Some ''global'' then
        give \<lparr>tg_id = GLOBAL_KILL_SWITCH_ID, tg_scopeType = GlobalScope, tg_workspaceId = None,
              tg_workspaceName = None, tg_revalidate = ''/admin/settings''\<rparr>
      else refuse_when (form_get f ''scope'' \<noteq> Some ''workspace'') BadScope (
           let wid = form_trim f ''workspaceId'' in
           refuse_when (\<not> truthy wid) MissingField (
           andThen (reading (\<lambda>c. workspace_findById (text_of wid) (co_db c))) (\<lambda>found.
           andThen (require found NotFound) (\<lambda>w.
           give \<lparr>tg_id = w_id w, tg_scopeType = WorkspaceScope, tg_workspaceId = Some (w_id w),
                 tg_workspaceName = Some (w_name w), tg_revalidate = ''/admin/workspaces/'' @ w_id w\<rparr>)))))"

definition switch_event ::
  "admin_env \<Rightarrow> string \<Rightarrow> target \<Rightarrow> kill_switch_row \<Rightarrow> nat option \<Rightarrow> performer
     \<Rightarrow> ('vid, 'ch, 'cfg, unit) act" where
  "switch_event E eventType t row affected by =
     record_event E eventType
       (killSwitchPayload (ae_payload E) row (tg_workspaceName t) affected @
        [(''performedBy'', jperformer by), (''adminUrl'', jopt (buildAdminUrl (ae_payload E) (tg_revalidate t)))])
       (Some by) (if tg_scopeType t = WorkspaceScope then Some ''workspace'' else None) (tg_workspaceId t)"

text \<open>The server reads the armed set again, this switch included.\<close>

definition reloaded :: "admin_env \<Rightarrow> ('vid, 'ch, 'cfg) ws_state \<Rightarrow> ws_env" where
  "reloaded E st = (ae_ev E)\<lparr>ev_armed := load_armed (ws_db st)\<rparr>"

definition armKillSwitchAction :: "admin_env \<Rightarrow> form \<Rightarrow> ('vid, 'ch, 'cfg, unit) act" where
  "armKillSwitchAction E f =
     andThen (requireAdmin E) (\<lambda>by.
     let why = form_trim f ''reason'' in
     refuse_when (\<not> truthy why) MissingField (
     refuse_when (form_trim f ''confirm'' \<noteq> Some ARM_CONFIRMATION) NotConfirmed (
     andThen (resolveTarget f) (\<lambda>t.
     andThen (dao (ks_arm (ev_now (ae_ev E)) (tg_id t) (tg_scopeType t) (tg_workspaceId t) (text_of why) (pb_did by))) (\<lambda>row.
     andThen (onServer (\<lambda>st. notifyKillSwitchArmed (reloaded E st) row st)) (\<lambda>affected.
     switch_event E ''killswitch.armed'' t row (Some affected) by))))))"

definition disarmKillSwitchAction :: "admin_env \<Rightarrow> form \<Rightarrow> ('vid, 'ch, 'cfg, unit) act" where
  "disarmKillSwitchAction E f =
     andThen (requireAdmin E) (\<lambda>by.
     andThen (resolveTarget f) (\<lambda>t.
     andThen (dao (\<lambda>d. Inr (ks_disarm (tg_id t) d))) (\<lambda>row.
     case row of
       None \<Rightarrow> give ()
     | Some k \<Rightarrow> switch_event E ''killswitch.disarmed'' t k None by)))"

section \<open>Certificates (certificates/actions.ts)\<close>

definition certificate_event ::
  "admin_env \<Rightarrow> string \<Rightarrow> certificate_row \<Rightarrow> performer \<Rightarrow> ('vid, 'ch, 'cfg, unit) act" where
  "certificate_event E eventType cert by =
     record_event E eventType
       (certificatePayload (ae_payload E) cert @
        [(''performedBy'', jperformer by),
         (''adminUrl'', jopt (buildAdminUrl (ae_payload E) (''/admin/certificates/'' @ c_id cert)))])
       (Some by) (Some ''certificate'') (Some (c_id cert))"

definition push_config ::
  "('vid, 'ch, 'cfg) ws_lib \<Rightarrow> admin_env \<Rightarrow> string \<Rightarrow> ('vid, 'ch, 'cfg, unit) act" where
  "push_config lib E did = andThen (onServer (pushActorConfig lib (ae_ev E) did)) (\<lambda>_. give ())"

definition tell_changed ::
  "string \<Rightarrow> changed_reason \<Rightarrow> string list \<Rightarrow> ('vid, 'ch, 'cfg, unit) act" where
  "tell_changed did why ids = andThen (onServer (notifyCapabilitiesChanged did why (Some ids))) (\<lambda>_. give ())"

definition revokeCertificateAction ::
  "('vid, 'ch, 'cfg) ws_lib \<Rightarrow> admin_env \<Rightarrow> form \<Rightarrow> ('vid, 'ch, 'cfg, unit) act" where
  "revokeCertificateAction lib E f =
     andThen (requireAdmin E) (\<lambda>by.
     let why = (if truthy (form_get f ''reason'') then text_of (form_get f ''reason'') else ''No reason given'') in
     andThen (dao (cert_revoke (ev_now (ae_ev E)) (text_of (form_get f ''certId'')) (pb_did by) why)) (\<lambda>cert.
     andThen (certificate_event E ''certificate.revoked'' cert by) (\<lambda>_.
     andThen (tell_changed (c_agentDid cert) CertificateRevoked [c_id cert]) (\<lambda>_.
     push_config lib E (c_agentDid cert)))))"

text \<open>
  The expiry presets: a name inherited from \<open>Object.prototype\<close> is found too, and its sum with the
  clock is no date.
\<close>

definition preset_ms ::
  "(string \<times> int) list \<Rightarrow> string \<Rightarrow> string option \<Rightarrow> (admin_error, int) result" where
  "preset_ms presets default_name key =
     (let k = (case key of None \<Rightarrow> ''null'' | Some s \<Rightarrow> s) in
      case map_of presets k of
        Some ms \<Rightarrow> Inr ms
      | None \<Rightarrow> if k \<in> set object_prototype_keys then Inl InvalidDate
                else Inr (case map_of presets default_name of None \<Rightarrow> 0 | Some ms \<Rightarrow> ms))"

definition CERT_PRESETS :: "(string \<times> int) list" where
  "CERT_PRESETS = [(''1h'', 60 * 60 * 1000), (''1d'', 24 * 60 * 60 * 1000),
     (''30d'', 30 * 24 * 60 * 60 * 1000), (''1y'', 365 * 24 * 60 * 60 * 1000)]"

definition cert_expiry :: "admin_env \<Rightarrow> form \<Rightarrow> (admin_error, int option) result" where
  "cert_expiry E f =
     (if form_get f ''expiryPreset'' = Some ''never'' then
        throw_when (form_get f ''confirmNoExpiry'' \<noteq> Some ''on'') (Refused ExpiryNotConfirmed) (Inr None)
      else bind_result (preset_ms CERT_PRESETS ''30d'' (form_get f ''expiryPreset''))
             (\<lambda>ms. Inr (Some (ev_now (ae_ev E) + ms))))"

definition issue_grant ::
  "('vid, 'ch, 'cfg) ws_lib \<Rightarrow> admin_env \<Rightarrow> admin_grant_input \<Rightarrow> ('vid, 'ch, 'cfg, certificate_row) act" where
  "issue_grant lib E inp c =
     (case issueAdminGrant (lb_certs lib) (lb_serverVid lib) (ev_now (ae_ev E)) (ev_uuid (ae_ev E)) inp (co_db c) of
        Inl SignFailed \<Rightarrow> (Inl SigningFailed, c)
      | Inl (IssueDb e) \<Rightarrow> (Inl (DbFailed e), c)
      | Inr (row, d') \<Rightarrow> (Inr row, set_db d' c))"

definition issueCertificateAction ::
  "('vid, 'ch, 'cfg) ws_lib \<Rightarrow> admin_env \<Rightarrow> form \<Rightarrow> ('vid, 'ch, 'cfg, unit) act" where
  "issueCertificateAction lib E f =
     andThen (requireAdmin E) (\<lambda>by.
     let did = form_get f ''agentDid''; submitted = form_all f ''capabilities''; res = form_trim f ''resource'' in
     refuse_when (\<not> truthy did \<or> submitted = []) MissingField (
     andThen (reading (\<lambda>c. actor_findByDid (text_of did) (co_db c))) (\<lambda>found.
     andThen (require found NotFound) (\<lambda>actor.
     case suppressionForActor (as_actor actor) (ev_armed (ae_ev E)) of
       Some k \<Rightarrow> throw (Refused (SwitchArmed (killSwitchReason k)))
     | None \<Rightarrow>
         let rejected = filter (\<lambda>cap. cap \<notin> set (grantableCapabilitiesForKind (a_kind actor) (ev_registry (ae_ev E)))) submitted
         in refuse_when (rejected \<noteq> []) (NotGrantable rejected) (
            andThen (lift_result (parseResourceLimits E f)) (\<lambda>limits.
            andThen (lift_result (cert_expiry E f)) (\<lambda>expiry.
            andThen (issue_grant lib E
              \<lparr>ag_agentDid = text_of did, ag_workspaceId = None, ag_capabilities = submitted,
               ag_scope = (if truthy res
                 then Some \<lparr>resource = res, resourcePattern = None, maxUses = None, purpose = None\<rparr> else None),
               ag_resourceLimits = limits, ag_expiresAt = expiry, ag_issuedBy = pb_did by\<rparr>) (\<lambda>cert.
            andThen (certificate_event E ''certificate.issued'' cert by) (\<lambda>_.
            andThen (onServer (deliverCertificate cert)) (\<lambda>handed.
            andThen (if handed then give () else tell_changed (c_agentDid cert) CertificateIssued [c_id cert]) (\<lambda>_.
            push_config lib E (c_agentDid cert))))))))))))"

end
