(* ===== verification/AdminConfig.thy ===== *)
theory AdminConfig
  imports AdminActions
begin

text \<open>
  The server actions on the configuration of interception points
  (\<open>packages/controlplane/app/admin/actors/actions.ts\<close>, the proxy and harness panels) and the event payloads they
  record (\<open>lib/webhook-payloads.ts\<close>).
\<close>

section \<open>Texts\<close>

text \<open>\<open>String(v)\<close> and the text of a template field; \<open>None\<close> is \<open>undefined\<close>.\<close>

definition join_with :: "string \<Rightarrow> string list \<Rightarrow> string" where
  "join_with sep xs = (case xs of [] \<Rightarrow> [] | x # ys \<Rightarrow> x @ concat (map (\<lambda>y. sep @ y) ys))"

fun js_String :: "json \<Rightarrow> string" where
  "js_String JNull = ''null''"
| "js_String (JBool b) = (if b then ''true'' else ''false'')"
| "js_String (JNum n) = dec_string n"
| "js_String (JStr s) = s"
| "js_String (JArr vs) = join_with '','' (map (\<lambda>v. if v = JNull then [] else js_String v) vs)"
| "js_String (JObj fs) = ''[object Object]''"

definition js_text :: "json option \<Rightarrow> string" where
  "js_text v = (case v of None \<Rightarrow> ''undefined'' | Some j \<Rightarrow> js_String j)"

definition array_text :: "json option \<Rightarrow> string" where
  "array_text v = (case v of Some (JArr vs) \<Rightarrow> js_String (JArr vs) | _ \<Rightarrow> [])"

text \<open>
  \<open>Number(s)\<close> where it is an integer: blank is 0, then hexadecimal, octal, binary, or decimal with a
  fraction and an exponent. Exact, which a double is for the magnitudes a form holds.
\<close>

definition radix_digit :: "char \<Rightarrow> nat" where
  "radix_digit c =
     (if is_digit c then code_unit c - 48
      else if 97 \<le> code_unit c \<and> code_unit c \<le> 102 then code_unit c - 87
      else if 65 \<le> code_unit c \<and> code_unit c \<le> 70 then code_unit c - 55 else 16)"

definition radix_int :: "nat \<Rightarrow> string \<Rightarrow> int option" where
  "radix_int b ds =
     (if ds = [] \<or> \<not> list_all (\<lambda>c. radix_digit c < b) ds then None
      else Some (fold (\<lambda>c acc. int b * acc + int (radix_digit c)) ds 0))"

definition signed_split :: "string \<Rightarrow> bool \<times> string" where
  "signed_split s =
     (case s of c # t \<Rightarrow> if c = CHR ''-'' then (True, t) else if c = CHR ''+'' then (False, t) else (False, s) | [] \<Rightarrow> (False, []))"

definition scaled :: "int \<Rightarrow> int \<Rightarrow> int option" where
  "scaled m e = (if 0 \<le> e then Some (m * 10 ^ nat e)
                 else if m mod 10 ^ nat (- e) = 0 then Some (m div 10 ^ nat (- e)) else None)"

definition decimal_int :: "string \<Rightarrow> int option" where
  "decimal_int s =
     (let (neg, t) = signed_split s; whole = takeWhile is_digit t; t1 = dropWhile is_digit t;
          dot = (t1 \<noteq> [] \<and> hd t1 = CHR ''.'');
          frac = (if dot then takeWhile is_digit (tl t1) else []);
          t2 = (if dot then dropWhile is_digit (tl t1) else t1);
          m = digits_int (whole @ frac)
      in if whole @ frac = [] then None
         else if t2 = [] then map_option (\<lambda>n. if neg then - n else n) (scaled m (- int (length frac)))
         else if hd t2 \<notin> {CHR ''e'', CHR ''E''} then None
         else let (eneg, ds) = signed_split (tl t2) in
              if ds = [] \<or> \<not> list_all is_digit ds then None
              else map_option (\<lambda>n. if neg then - n else n)
                     (scaled m ((if eneg then - digits_int ds else digits_int ds) - int (length frac))))"

definition js_integer :: "string \<Rightarrow> int option" where
  "js_integer s =
     (let t = js_trim s in
      if t = [] then Some 0
      else if starts_with t ''0x'' \<or> starts_with t ''0X'' then radix_int 16 (drop 2 t)
      else if starts_with t ''0o'' \<or> starts_with t ''0O'' then radix_int 8 (drop 2 t)
      else if starts_with t ''0b'' \<or> starts_with t ''0B'' then radix_int 2 (drop 2 t)
      else decimal_int t)"

definition splitList :: "string option \<Rightarrow> string list" where
  "splitList raw =
     filter (\<lambda>s. s \<noteq> []) (map js_trim (pieces (\<lambda>c. c = CHR 0x0A \<or> c = CHR '','') [] (text_of raw)))"

section \<open>Event payloads\<close>

definition proxy_summary :: "json \<Rightarrow> string" where
  "proxy_summary r =
     js_text (js_field ''effect'' r) @ '' '' @ js_text (js_field ''subject'' r) @
     (case js_field ''workloadId'' r of None \<Rightarrow> [] | Some w \<Rightarrow> if js_truthy w then '':'' @ js_String w else []) @ '' '' @
     array_text (js_field ''hosts'' r) @
     (case js_field ''ports'' r of Some (JArr (p # ps)) \<Rightarrow> '':'' @ js_String (JArr (p # ps)) | _ \<Rightarrow> [])"

definition harness_summary :: "json \<Rightarrow> string" where
  "harness_summary r = js_text (js_field ''effect'' r) @ '' '' @ js_text (js_field ''subject'' r) @ '' '' @
     array_text (js_field ''resources'' r)"

definition summaries :: "(json \<Rightarrow> string) \<Rightarrow> json list \<Rightarrow> json" where
  "summaries f rs = JArr (map (\<lambda>r. JObj (field_or_undefined ''id'' r @ [(''summary'', JStr (f r))])) rs)"

definition without_ids :: "json list \<Rightarrow> json list \<Rightarrow> json list" where
  "without_ids others rs =
     filter (\<lambda>r. js_text (js_field ''id'' r) \<notin> (\<lambda>q. js_text (js_field ''id'' q)) ` set others) rs"

definition rule_changes :: "(json \<Rightarrow> string) \<Rightarrow> json list \<Rightarrow> json list \<Rightarrow> json" where
  "rule_changes f before after =
     JObj [(''added'', summaries f (without_ids before after)), (''removed'', summaries f (without_ids after before))]"

definition actor_head :: "string \<Rightarrow> actor_row option \<Rightarrow> (string \<times> json) list" where
  "actor_head did actor = (case actor of None \<Rightarrow> [(''did'', JStr did)]
     | Some a \<Rightarrow> [(''did'', JStr (a_did a)), (''name'', JStr (a_name a)), (''kind'', JStr (a_kind a))])"

definition proxyConfigPayload ::
  "string \<Rightarrow> actor_row option \<Rightarrow> proxy_kind_config option \<Rightarrow> proxy_kind_config \<Rightarrow> (string \<times> json) list" where
  "proxyConfigPayload did actor before after =
     actor_head did actor @
     [(''mode'', JStr (proxy_mode_text (px_mode after))), (''maxStatusAgeSeconds'', JNum (px_maxStatusAgeSeconds after)),
      (''ruleCount'', JNum (int (length (px_rules after)))), (''rules'', summaries proxy_summary (px_rules after)),
      (''ruleChanges'', rule_changes proxy_summary (case before of None \<Rightarrow> [] | Some b \<Rightarrow> px_rules b) (px_rules after))]"

definition harnessConfigPayload ::
  "string \<Rightarrow> actor_row option \<Rightarrow> harness_kind_config option \<Rightarrow> harness_kind_config \<Rightarrow> (string \<times> json) list" where
  "harnessConfigPayload did actor before after =
     actor_head did actor @
     [(''mode'', JStr (harness_mode_text (hx_mode after))), (''sandbox'', JStr (sandbox_text (hx_sandbox after))),
      (''maxStatusAgeSeconds'', JNum (hx_maxStatusAgeSeconds after)),
      (''resourceRuleCount'', JNum (int (length (hx_resourceRules after)))),
      (''resourceRules'', summaries harness_summary (hx_resourceRules after)),
      (''ruleChanges'', rule_changes harness_summary (case before of None \<Rightarrow> [] | Some b \<Rightarrow> hx_resourceRules b)
         (hx_resourceRules after))]"

section \<open>Proxy\<close>

definition config_or_throw :: "(config_error, 'a) result \<Rightarrow> ('vid, 'ch, 'cfg, 'a) act" where
  "config_or_throw r = lift_result (case r of Inl e \<Rightarrow> Inl (BadConfig e) | Inr x \<Rightarrow> Inr x)"

abbreviation ae_now :: "admin_env \<Rightarrow> int" where
  "ae_now E \<equiv> ev_now (ae_ev E)"

definition loadProxyConfig :: "admin_env \<Rightarrow> string \<Rightarrow> ('vid, 'ch, 'cfg, proxy_kind_config) act" where
  "loadProxyConfig E did =
     andThen (reading (\<lambda>c. actor_findByDid did (co_db c))) (\<lambda>found.
     andThen (require found NotFound) (\<lambda>actor.
     refuse_when (a_kind actor \<noteq> ''proxy'') WrongKind
       (config_or_throw (parseProxyKindConfig (ae_now E) (Some (JObj (a_kindConfig actor)))))))"

definition config_event ::
  "admin_env \<Rightarrow> string \<Rightarrow> (string \<times> json) list \<Rightarrow> string \<Rightarrow> performer \<Rightarrow> ('vid, 'ch, 'cfg, unit) act" where
  "config_event E eventType payload did by =
     record_event E eventType
       (payload @ [(''performedBy'', jperformer by), (''adminUrl'', jopt (actorAdminUrl (ae_payload E) did))])
       (Some by) (Some ''actor'') (Some did)"

definition before_of ::
  "(json option \<Rightarrow> (config_error, 'a) result) \<Rightarrow> actor_row option \<Rightarrow> ('vid, 'ch, 'cfg, 'a option) act" where
  "before_of parse actor =
     (case actor of
        None \<Rightarrow> give None
      | Some a \<Rightarrow> andThen (config_or_throw (parse (Some (JObj (a_kindConfig a))))) (\<lambda>b. give (Some b)))"

definition saveProxyConfig ::
  "('vid, 'ch, 'cfg) ws_lib \<Rightarrow> admin_env \<Rightarrow> string \<Rightarrow> proxy_kind_config \<Rightarrow> performer \<Rightarrow> ('vid, 'ch, 'cfg, unit) act" where
  "saveProxyConfig lib E did config by =
     andThen (reading (\<lambda>c. actor_findByDid did (co_db c))) (\<lambda>actor.
     andThen (before_of (parseProxyKindConfig (ae_now E)) actor) (\<lambda>before.
     andThen (dao_unit (actor_mergeKindConfig did (proxy_fields config))) (\<lambda>_.
     andThen (config_event E ''proxy.config_updated'' (proxyConfigPayload did actor before config) did by) (\<lambda>_.
     push_config lib E did))))"

definition updateProxySettingsAction ::
  "('vid, 'ch, 'cfg) ws_lib \<Rightarrow> admin_env \<Rightarrow> form \<Rightarrow> ('vid, 'ch, 'cfg, admin_error option) act" where
  "updateProxySettingsAction lib E f =
     andThen (requireAdmin E) (\<lambda>by.
     let did = text_of (form_get f ''did'') in
     caught (
       andThen (loadProxyConfig E did) (\<lambda>config.
       let mode = proxy_mode_of (Some (jopt (form_get f ''mode''))); age = Option.bind (form_trim f ''maxStatusAgeSeconds'') js_integer;
           listenAddr = form_trim f ''listenAddr'' in
       andThen (config_or_throw mode) (\<lambda>m.
       andThen (require age BadNumber) (\<lambda>n.
       saveProxyConfig lib E did
         (config\<lparr>px_mode := m, px_maxStatusAgeSeconds := n,
                 px_listenAddr := (if truthy listenAddr then listenAddr else px_listenAddr config)\<rparr>) by)))))"

definition form_rule :: "form \<Rightarrow> string list \<Rightarrow> int list \<Rightarrow> json" where
  "form_rule f hosts ports =
     JObj ((case form_trim f ''id'' of None \<Rightarrow> [] | Some i \<Rightarrow> [(''id'', JStr i)]) @
       [(''subject'', jopt (form_get f ''subject'')), (''hosts'', jstrs hosts), (''effect'', jopt (form_get f ''effect''))] @
       (if truthy (form_trim f ''workloadId'') then [(''workloadId'', JStr (text_of (form_trim f ''workloadId'')))] else []) @
       (if ports = [] then [] else [(''ports'', JArr (map JNum ports))]))"

definition addProxyRuleAction ::
  "('vid, 'ch, 'cfg) ws_lib \<Rightarrow> admin_env \<Rightarrow> form \<Rightarrow> ('vid, 'ch, 'cfg, admin_error option) act" where
  "addProxyRuleAction lib E f =
     andThen (requireAdmin E) (\<lambda>by.
     let did = text_of (form_get f ''did'') in
     caught (
       andThen (loadProxyConfig E did) (\<lambda>config.
       let hosts = splitList (form_get f ''hosts''); ports = map js_integer (splitList (form_get f ''ports'')) in
       refuse_when (None \<in> set ports) BadNumber (
       andThen (config_or_throw (parseProxyKindConfig (ae_now E)
         (Some (JObj (proxy_fields (config\<lparr>px_rules := px_rules config @ [form_rule f hosts (map the ports)]\<rparr>)))))) (\<lambda>next.
       saveProxyConfig lib E did next by)))))"

definition deleteProxyRuleAction ::
  "('vid, 'ch, 'cfg) ws_lib \<Rightarrow> admin_env \<Rightarrow> form \<Rightarrow> ('vid, 'ch, 'cfg, unit) act" where
  "deleteProxyRuleAction lib E f =
     andThen (requireAdmin E) (\<lambda>by.
     let did = text_of (form_get f ''did'') in
     andThen (loadProxyConfig E did) (\<lambda>config.
     saveProxyConfig lib E did
       (config\<lparr>px_rules := filter (\<lambda>r. js_field ''id'' r \<noteq> Some (jopt (form_get f ''ruleId''))) (px_rules config)\<rparr>) by))"

section \<open>Harness\<close>

definition loadHarnessConfig :: "admin_env \<Rightarrow> string \<Rightarrow> ('vid, 'ch, 'cfg, harness_kind_config) act" where
  "loadHarnessConfig E did =
     andThen (reading (\<lambda>c. actor_findByDid did (co_db c))) (\<lambda>found.
     andThen (require found NotFound) (\<lambda>actor.
     refuse_when (a_kind actor \<noteq> ''harness'') WrongKind
       (config_or_throw (parseHarnessKindConfig (ae_now E) (Some (JObj (a_kindConfig actor)))))))"

definition saveHarnessConfig ::
  "('vid, 'ch, 'cfg) ws_lib \<Rightarrow> admin_env \<Rightarrow> string \<Rightarrow> harness_kind_config \<Rightarrow> performer \<Rightarrow> ('vid, 'ch, 'cfg, unit) act" where
  "saveHarnessConfig lib E did config by =
     andThen (reading (\<lambda>c. actor_findByDid did (co_db c))) (\<lambda>actor.
     andThen (before_of (parseHarnessKindConfig (ae_now E)) actor) (\<lambda>before.
     andThen (dao_unit (actor_mergeKindConfig did (harness_fields config))) (\<lambda>_.
     andThen (config_event E ''harness.config_updated'' (harnessConfigPayload did actor before config) did by) (\<lambda>_.
     push_config lib E did))))"

definition updateHarnessSettingsAction ::
  "('vid, 'ch, 'cfg) ws_lib \<Rightarrow> admin_env \<Rightarrow> form \<Rightarrow> ('vid, 'ch, 'cfg, admin_error option) act" where
  "updateHarnessSettingsAction lib E f =
     andThen (requireAdmin E) (\<lambda>by.
     let did = text_of (form_get f ''did'') in
     caught (
       andThen (loadHarnessConfig E did) (\<lambda>config.
       let mode = harness_mode_of (Some (jopt (form_get f ''mode''))); sandbox = sandbox_of (Some (jopt (form_get f ''sandbox'')));
           age = Option.bind (form_trim f ''maxStatusAgeSeconds'') js_integer in
       andThen (config_or_throw mode) (\<lambda>m.
       andThen (config_or_throw sandbox) (\<lambda>b.
       andThen (require age BadNumber) (\<lambda>n.
       saveHarnessConfig lib E did (config\<lparr>hx_mode := m, hx_sandbox := b, hx_maxStatusAgeSeconds := n\<rparr>) by))))))"

definition form_resource_rule :: "form \<Rightarrow> json" where
  "form_resource_rule f =
     JObj ((case form_trim f ''id'' of None \<Rightarrow> [] | Some i \<Rightarrow> [(''id'', JStr i)]) @
       [(''subject'', JStr ''any''), (''resources'', jstrs (splitList (form_get f ''resources''))),
        (''effect'', jopt (form_get f ''effect''))])"

definition addHarnessResourceRuleAction ::
  "('vid, 'ch, 'cfg) ws_lib \<Rightarrow> admin_env \<Rightarrow> form \<Rightarrow> ('vid, 'ch, 'cfg, admin_error option) act" where
  "addHarnessResourceRuleAction lib E f =
     andThen (requireAdmin E) (\<lambda>by.
     let did = text_of (form_get f ''did'') in
     caught (
       andThen (loadHarnessConfig E did) (\<lambda>config.
       andThen (config_or_throw (parseHarnessKindConfig (ae_now E)
         (Some (JObj (harness_fields (config\<lparr>hx_resourceRules := hx_resourceRules config @ [form_resource_rule f]\<rparr>)))))) (\<lambda>next.
       saveHarnessConfig lib E did next by))))"

definition deleteHarnessResourceRuleAction ::
  "('vid, 'ch, 'cfg) ws_lib \<Rightarrow> admin_env \<Rightarrow> form \<Rightarrow> ('vid, 'ch, 'cfg, unit) act" where
  "deleteHarnessResourceRuleAction lib E f =
     andThen (requireAdmin E) (\<lambda>by.
     let did = text_of (form_get f ''did'') in
     andThen (loadHarnessConfig E did) (\<lambda>config.
     saveHarnessConfig lib E did
       (config\<lparr>hx_resourceRules := filter (\<lambda>r. js_field ''id'' r \<noteq> Some (jopt (form_get f ''ruleId''))) (hx_resourceRules config)\<rparr>) by))"

end
