(* ===== verification/AdminEdits.thy ===== *)
theory AdminEdits
  imports AdminConfig TrustPolicy
begin

text \<open>
  The server actions on workspaces, custom capabilities, Actors, links, invitations and settings
  (\<open>packages/controlplane/app/admin/workspaces/actions.ts\<close>, \<open>integrations/capabilities/actions.ts\<close>,
  \<open>actors/actions.ts\<close>, \<open>settings/actions.ts\<close>), and \<open>run_action\<close>, the action a posted form reaches.
\<close>

section \<open>Workspaces\<close>

text \<open>\<open>replace(/[^a-z0-9]+/g, '-')\<close>, then \<open>replace(/^-+|-+$/g, '')\<close>.\<close>

fun dashed :: "bool \<Rightarrow> string \<Rightarrow> string" where
  "dashed inRun [] = []"
| "dashed inRun (c # s) =
     (if is_lower_alnum c then c # dashed False s
      else if inRun then dashed True s else CHR ''-'' # dashed True s)"

definition slugify :: "string \<Rightarrow> string \<Rightarrow> string" where
  "slugify uuid nm =
     (let no_dash = dropWhile (\<lambda>c. c = CHR ''-'');
          s = rev (no_dash (rev (no_dash (dashed False (js_trim (js_lower nm))))))
      in if s = [] then take 8 uuid else s)"

definition workspace_fields :: "workspace_row \<Rightarrow> (string \<times> json) list" where
  "workspace_fields w = [(''name'', JStr (w_name w)), (''description'', jopt (w_description w)),
     (''color'', JStr (w_color w)), (''certFailMode'', jopt (w_certFailMode w)),
     (''certStapleTtlSeconds'', jint (w_certStapleTtlSeconds w))]"

definition workspace_event ::
  "admin_env \<Rightarrow> string \<Rightarrow> workspace_row \<Rightarrow> string \<Rightarrow> (string \<times> json) list \<Rightarrow> performer
     \<Rightarrow> ('vid, 'ch, 'cfg, unit) act" where
  "workspace_event E eventType w path extra by =
     record_event E eventType
       (workspacePayload (ae_payload E) w @
        [(''performedBy'', jperformer by), (''adminUrl'', jopt (buildAdminUrl (ae_payload E) path))] @ extra)
       (Some by) (Some ''workspace'') (Some (w_id w))"

definition createWorkspaceAction :: "admin_env \<Rightarrow> form \<Rightarrow> ('vid, 'ch, 'cfg, unit) act" where
  "createWorkspaceAction E f =
     andThen (requireAdmin E) (\<lambda>by.
     let nm = form_trim f ''name''; desc = form_trim f ''description''; color = or_null (form_get f ''color'');
         i = ev_uuid (ae_ev E)
     in refuse_when (\<not> truthy nm) MissingField (
        let base = slugify (ae_uuid2 E) (text_of nm) in
        andThen (reading (\<lambda>c. workspace_list (co_db c))) (\<lambda>existing.
        let slug = (if list_ex (\<lambda>w. w_slug w = base) existing then base @ ''-'' @ take 6 i else base) in
        andThen (dao (workspace_create (ev_now (ae_ev E)) i (text_of nm) slug (or_null desc) color)) (\<lambda>w.
        workspace_event E ''workspace.created'' w (''/admin/workspaces/'' @ w_id w) [] by))))"

definition updateWorkspaceAction :: "admin_env \<Rightarrow> form \<Rightarrow> ('vid, 'ch, 'cfg, unit) act" where
  "updateWorkspaceAction E f =
     andThen (requireAdmin E) (\<lambda>by.
     let i = form_get f ''id''; nm = form_trim f ''name''; desc = form_trim f ''description'';
         color = or_null (form_get f ''color'')
     in refuse_when (\<not> truthy i \<or> \<not> truthy nm) MissingField (
        andThen (reading (\<lambda>c. workspace_findById (text_of i) (co_db c))) (\<lambda>before.
        andThen (dao (workspace_update (text_of i)
          \<lparr>we_name = nm, we_description = Some (or_null desc), we_color = color, we_certFailMode = None,
           we_certStapleTtlSeconds = None\<rparr>)) (\<lambda>w.
        workspace_event E ''workspace.updated'' w (''/admin/workspaces/'' @ w_id w)
          [(''changes'', JArr (case before of
              None \<Rightarrow> []
            | Some b \<Rightarrow> diffFields (workspace_fields b) (workspace_fields w) [''name'', ''description'', ''color'']))] by))))"

definition parse_ttl :: "form \<Rightarrow> (admin_error, int option) result" where
  "parse_ttl f =
     (let mode = form_get f ''stapleTtlMode'' in
      if mode = Some ''custom'' then
        (case Option.bind (form_get f ''stapleTtlSeconds'') js_parseInt of
           None \<Rightarrow> Inl (Refused BadNumber)
         | Some n \<Rightarrow> throw_when (n < 0) (Refused BadNumber) (Inr (Some n)))
      else if mode = Some ''inherit'' then Inr None
      else Inl (Refused BadTtlMode))"

definition push_many ::
  "('vid, 'ch, 'cfg) ws_lib \<Rightarrow> admin_env \<Rightarrow> string list \<Rightarrow> ('vid, 'ch, 'cfg, unit) act" where
  "push_many lib E dids = andThen (onServer (pushActorConfigMany lib (ae_ev E) dids)) (\<lambda>_. give ())"

definition updateWorkspaceTrustPolicyAction ::
  "('vid, 'ch, 'cfg) ws_lib \<Rightarrow> admin_env \<Rightarrow> form \<Rightarrow> ('vid, 'ch, 'cfg, unit) act" where
  "updateWorkspaceTrustPolicyAction lib E f =
     andThen (requireAdmin E) (\<lambda>by.
     let i = form_get f ''id''; raw = form_get f ''failMode'' in
     refuse_when (\<not> truthy i) MissingField (
     refuse_when (raw \<notin> {Some ''inherit'', Some ''open'', Some ''closed''}) BadFailMode (
     andThen (lift_result (parse_ttl f)) (\<lambda>ttl.
     andThen (reading (\<lambda>c. workspace_findById (text_of i) (co_db c))) (\<lambda>found.
     andThen (require found NotFound) (\<lambda>before.
     andThen (dao (workspace_update (text_of i)
       \<lparr>we_name = None, we_description = None, we_color = None,
        we_certFailMode = Some (if raw = Some ''inherit'' then None else raw),
        we_certStapleTtlSeconds = Some ttl\<rparr>)) (\<lambda>w.
     andThen (workspace_event E ''workspace.updated'' w (''/admin/workspaces/'' @ w_id w @ ''?tab=settings'')
       [(''changes'', JArr (diffFields (workspace_fields before) (workspace_fields w)
            [''certFailMode'', ''certStapleTtlSeconds'']))] by) (\<lambda>_.
     andThen (reading (\<lambda>c. actor_list None (Some (text_of i)) (co_db c))) (\<lambda>actors.
     push_many lib E (map a_did actors))))))))))"

definition assignActorWorkspaceAction :: "admin_env \<Rightarrow> form \<Rightarrow> ('vid, 'ch, 'cfg, unit) act" where
  "assignActorWorkspaceAction E f =
     andThen (requireAdmin E) (\<lambda>by.
     let did = form_get f ''did''; ws = or_null (form_get f ''workspaceId'') in
     refuse_when (\<not> truthy did) MissingField (
     andThen (dao (actor_update (text_of did) None (Some ws) None)) (\<lambda>_. give ())))"

text \<open>Revoking a list of certificates, one call after the other.\<close>

fun revoke_all :: "admin_env \<Rightarrow> string \<Rightarrow> string \<Rightarrow> string list \<Rightarrow> ('vid, 'ch, 'cfg, unit) act" where
  "revoke_all E by why [] = give ()"
| "revoke_all E by why (i # ids) =
     andThen (dao (cert_revoke (ev_now (ae_ev E)) i by why)) (\<lambda>_. revoke_all E by why ids)"

fun tell_holders ::
  "('vid, 'ch, 'cfg) ws_lib \<Rightarrow> admin_env \<Rightarrow> changed_reason \<Rightarrow> string list \<Rightarrow> string list
     \<Rightarrow> ('vid, 'ch, 'cfg, unit) act" where
  "tell_holders lib E why ids [] = give ()"
| "tell_holders lib E why ids (did # dids) =
     andThen (tell_changed did why ids) (\<lambda>_. andThen (push_config lib E did) (\<lambda>_. tell_holders lib E why ids dids))"

text \<open>\<open>Set\<close> of the holders, in order of first occurrence.\<close>

definition distinct_in_order :: "string list \<Rightarrow> string list" where
  "distinct_in_order xs = rev (remdups (rev xs))"

definition deleteWorkspaceAction ::
  "('vid, 'ch, 'cfg) ws_lib \<Rightarrow> admin_env \<Rightarrow> form \<Rightarrow> ('vid, 'ch, 'cfg, admin_error option) act" where
  "deleteWorkspaceAction lib E f =
     andThen (requireAdmin E) (\<lambda>by.
     let i = text_of (form_get f ''id''); confirmation = js_trim (text_of (form_get f ''confirmName'')) in
     caught (
     andThen (reading (\<lambda>c. workspace_findById i (co_db c))) (\<lambda>found.
     andThen (require found NotFound) (\<lambda>w.
     refuse_when (w_isDefault w) IsDefaultWorkspace (
     refuse_when (confirmation \<noteq> w_name w) NotConfirmed (
     andThen (reading (\<lambda>c. (workspace_listActiveScopedCertificates i (co_db c), workspace_countActors i (co_db c))))
       (\<lambda>(scoped, actorCount).
     let ids = map c_id scoped; holders = distinct_in_order (map c_agentDid scoped) in
     andThen (revoke_all E (pb_did by) (''Workspace '' @ w_name w @ '' ('' @ i @ '') deleted'') ids) (\<lambda>_.
     andThen (record_event E ''workspace.deleted''
       (workspacePayload (ae_payload E) w @
        [(''unassignedActors'', JNum (int actorCount)), (''affectedGrants'', JNum (int (length ids))),
         (''performedBy'', jperformer by), (''adminUrl'', jopt (buildAdminUrl (ae_payload E) ''/admin/workspaces''))])
       (Some by) (Some ''workspace'') (Some i)) (\<lambda>_.
     andThen (dao_unit (workspace_delete i)) (\<lambda>_.
     tell_holders lib E CertificateRevoked ids holders))))))))))"

section \<open>Custom capabilities\<close>

definition registry_call ::
  "(db \<Rightarrow> (registry_error, 'a \<times> db) result) \<Rightarrow> ('vid, 'ch, 'cfg, 'a) act" where
  "registry_call f c =
     (case f (co_db c) of
        Inl (RegistryName e) \<Rightarrow> (Inl (NameRejected e), c)
      | Inl (RegistryDb e) \<Rightarrow> (Inl (DbFailed e), c)
      | Inr (x, d') \<Rightarrow> (Inr x, set_db d' c))"

definition capability_event ::
  "admin_env \<Rightarrow> string \<Rightarrow> custom_capability_row \<Rightarrow> (string \<times> json) list \<Rightarrow> performer
     \<Rightarrow> ('vid, 'ch, 'cfg, unit) act" where
  "capability_event E eventType row extra by =
     record_event E eventType (customCapabilityPayload row @ extra @ [(''performedBy'', jperformer by)])
       (Some by) (Some ''capability'') (Some (cc_id row))"

definition tell_registry ::
  "registry_reason \<Rightarrow> string \<Rightarrow> ('vid, 'ch, 'cfg, unit) act" where
  "tell_registry why nm = andThen (onServer (notifyCapabilityRegistryChanged why (Some nm))) (\<lambda>_. give ())"

definition createCapabilityAction :: "admin_env \<Rightarrow> form \<Rightarrow> ('vid, 'ch, 'cfg, unit) act" where
  "createCapabilityAction E f =
     andThen (requireAdmin E) (\<lambda>by.
     let nm = map_option js_lower (form_trim f ''name''); label = form_trim f ''label'';
         desc = or_null (form_trim f ''description''); grp = or_null (form_trim f ''group'')
     in refuse_when (\<not> truthy nm \<or> \<not> truthy label) MissingField (
        andThen (case assertValidCapabilityName (text_of nm) of Inl e \<Rightarrow> throw (NameRejected e) | Inr _ \<Rightarrow> give ()) (\<lambda>_.
        refuse_when (\<not> isCustomCapability (text_of nm)) BuiltinName (
        andThen (reading (\<lambda>c. registry_findByName (text_of nm) (co_db c))) (\<lambda>existing.
        refuse_when (existing \<noteq> None) AlreadyResolved (
        andThen (registry_call (registry_create (ev_uuid (ae_ev E)) (text_of nm) (text_of label) desc grp (pb_did by))) (\<lambda>row.
        andThen (capability_event E ''capability.created'' row
          [(''adminUrl'', jopt (capabilityAdminUrl (ae_payload E) (cc_id row)))] by) (\<lambda>_.
        tell_registry RegCreated (cc_name row)))))))))"

definition capability_fields :: "custom_capability_row \<Rightarrow> (string \<times> json) list" where
  "capability_fields r = [(''label'', JStr (cc_label r)), (''description'', jopt (cc_description r)),
     (''group'', jopt (cc_group r))]"

definition updateCapabilityAction :: "admin_env \<Rightarrow> form \<Rightarrow> ('vid, 'ch, 'cfg, unit) act" where
  "updateCapabilityAction E f =
     andThen (requireAdmin E) (\<lambda>by.
     let i = form_get f ''id''; label = form_trim f ''label'';
         desc = or_null (form_trim f ''description''); grp = or_null (form_trim f ''group'')
     in refuse_when (\<not> truthy i \<or> \<not> truthy label) MissingField (
        andThen (reading (\<lambda>c. registry_findById (text_of i) (co_db c))) (\<lambda>found.
        andThen (require found NotFound) (\<lambda>before.
        andThen (dao (registry_update (text_of i) label (Some desc) (Some grp))) (\<lambda>row.
        andThen (capability_event E ''capability.updated'' row
          [(''changes'', JArr (diffFields (capability_fields before) (capability_fields row)
              [''label'', ''description'', ''group''])),
           (''adminUrl'', jopt (capabilityAdminUrl (ae_payload E) (cc_id row)))] by) (\<lambda>_.
        tell_registry RegUpdated (cc_name row)))))))"

definition deleteCapabilityAction ::
  "('vid, 'ch, 'cfg) ws_lib \<Rightarrow> admin_env \<Rightarrow> form \<Rightarrow> ('vid, 'ch, 'cfg, unit) act" where
  "deleteCapabilityAction lib E f =
     andThen (requireAdmin E) (\<lambda>by.
     let i = form_get f ''id'' in
     refuse_when (\<not> truthy i) MissingField (
     andThen (reading (\<lambda>c. registry_findById (text_of i) (co_db c))) (\<lambda>found.
     andThen (require found NotFound) (\<lambda>cap.
     refuse_when (form_trim f ''confirmName'' \<noteq> Some (cc_name cap)) NotConfirmed (
     andThen (reading (\<lambda>c. registry_findAffectedCertIds (cc_name cap) (co_db c))) (\<lambda>ids.
     andThen (reading (\<lambda>c. distinct_in_order
       (map c_agentDid (List.map_filter (\<lambda>j. cert_findById j (co_db c)) ids)))) (\<lambda>holders.
     andThen (dao_unit (registry_delete (text_of i))) (\<lambda>_.
     andThen (revoke_all E (pb_did by)
       (''Custom capability '' @ [CHR 34] @ cc_name cap @ [CHR 34] @ '' was removed from the registry'') ids) (\<lambda>_.
     andThen (capability_event E ''capability.deleted'' cap [(''affectedGrants'', JNum (int (length ids)))] by) (\<lambda>_.
     andThen (tell_registry RegDeleted (cc_name cap)) (\<lambda>_.
     tell_holders lib E CapabilityDeleted ids holders)))))))))))"

section \<open>Actors, links and invitations\<close>

definition EXPIRY_PRESET_MS :: "(string \<times> int) list" where
  "EXPIRY_PRESET_MS = [(''1d'', 24 * 60 * 60 * 1000), (''7d'', 7 * 24 * 60 * 60 * 1000),
     (''30d'', 30 * 24 * 60 * 60 * 1000)]"

text \<open>The outcome is the link with the raw token, or what the form has to be told.\<close>

definition createInvitationAction ::
  "admin_env \<Rightarrow> form \<Rightarrow> ('vid, 'ch, 'cfg, refusal + string) act" where
  "createInvitationAction E f =
     andThen (requireAdmin E) (\<lambda>by.
     let nm = form_trim f ''name''; email = or_null (form_trim f ''email'');
         key = (if truthy (form_get f ''expiryPreset'') then form_get f ''expiryPreset'' else Some ''7d'')
     in if \<not> truthy nm then give (Inl MissingField)
        else andThen (reading (\<lambda>c. email \<noteq> None \<and> user_findByEmail (text_of email) c \<noteq> None)) (\<lambda>taken.
          if taken then give (Inl (EmailTaken (text_of email)))
          else
            andThen (lift_result (preset_ms EXPIRY_PRESET_MS ''7d'' key)) (\<lambda>ms.
            andThen (dao (invitation_create (ae_hashToken E) (ev_now (ae_ev E)) (ae_rawToken E)
              \<lparr>ii_name = text_of nm, ii_email = email, ii_capabilities = form_all f ''capabilities'',
               ii_workspaceId = or_null (form_get f ''workspaceId''), ii_createdBy = pb_did by,
               ii_expiresAt = ev_now (ae_ev E) + ms, ii_ssoIdentityId = None\<rparr>)) (\<lambda>(inv, raw).
            andThen (record_event E ''human.invited''
              [(''name'', JStr (i_name inv)), (''email'', jopt (i_email inv)),
               (''workspaceId'', jopt (i_workspaceId inv)),
               (''expiresAt'', jdate (ae_payload E) (Some (i_expiresAt inv))),
               (''createdBy'', JStr (i_createdBy inv)), (''performedBy'', jperformer by)]
              (Some by) None None) (\<lambda>_.
            give (Inr (case buildAdminUrl (ae_payload E) (''/invite/'' @ raw) of
                         None \<Rightarrow> ''/invite/'' @ raw | Some u \<Rightarrow> u)))))))"

definition actor_fields :: "actor_row \<Rightarrow> (string \<times> json) list" where
  "actor_fields a = [(''name'', JStr (a_name a)), (''workspaceId'', jopt (a_workspaceId a)),
     (''ownerDid'', jopt (a_ownerDid a))]"

definition updateActorAction :: "admin_env \<Rightarrow> form \<Rightarrow> ('vid, 'ch, 'cfg, unit) act" where
  "updateActorAction E f =
     andThen (requireAdmin E) (\<lambda>by.
     let did = form_get f ''did''; nm = form_trim f ''name''; ws = or_null (form_get f ''workspaceId'');
         own = or_null (form_get f ''ownerDid'')
     in refuse_when (\<not> truthy did \<or> \<not> truthy nm) MissingField (
        refuse_when (own = did) SelfReference (
        andThen (reading (\<lambda>c. actor_findByDid (text_of did) (co_db c))) (\<lambda>found.
        andThen (require found NotFound) (\<lambda>actor.
        andThen (dao (actor_update (text_of did) nm (Some ws) (Some own))) (\<lambda>updated.
        let changes = diffFields (actor_fields actor) (actor_fields updated) [''name'', ''workspaceId'', ''ownerDid''] in
        andThen
          (if a_kind actor \<noteq> ''human'' then give changes
           else let email = or_null (form_trim f ''email'') in
             andThen (reading (\<lambda>c. Option.bind (user_findByDid (text_of did) c) us_email)) (\<lambda>beforeEmail.
             andThen (user_updateEmail (text_of did) email) (\<lambda>_.
             andThen (user_markProfileCompleted (ev_now (ae_ev E)) (text_of did)) (\<lambda>_.
             give (changes @ diffFields [(''email'', jopt beforeEmail)] [(''email'', jopt email)] [''email'']))))) (\<lambda>all.
        record_event E ''actor.updated'' (actor_event E updated by @ [(''changes'', JArr all)])
          (Some by) (Some ''actor'') (Some (a_did updated)))))))))"

definition addActorLinkAction :: "admin_env \<Rightarrow> form \<Rightarrow> ('vid, 'ch, 'cfg, unit) act" where
  "addActorLinkAction E f =
     andThen (requireAdmin E) (\<lambda>by.
     let fromDid = form_get f ''fromDid''; toDid = form_get f ''toDid''; label = form_trim f ''label'' in
     refuse_when (\<not> truthy fromDid \<or> \<not> truthy toDid \<or> \<not> truthy label) MissingField (
     refuse_when (fromDid = toDid) SelfReference (
     link_create (ev_uuid (ae_ev E)) (text_of fromDid) (text_of toDid) (text_of label))))"

definition deleteActorLinkAction :: "admin_env \<Rightarrow> form \<Rightarrow> ('vid, 'ch, 'cfg, unit) act" where
  "deleteActorLinkAction E f =
     andThen (requireAdmin E) (\<lambda>by. link_delete (text_of (form_get f ''id'')))"

definition deleteActorAction ::
  "admin_env \<Rightarrow> form \<Rightarrow> ('vid, 'ch, 'cfg, admin_error option) act" where
  "deleteActorAction E f =
     andThen (requireAdmin E) (\<lambda>by.
     let did = text_of (form_get f ''did''); confirmation = js_trim (text_of (form_get f ''confirmName'')) in
     caught (
     andThen (reading (\<lambda>c. actor_findByDid did (co_db c))) (\<lambda>found.
     andThen (require found NotFound) (\<lambda>actor.
     refuse_when (confirmation \<noteq> a_name actor) NotConfirmed (
     refuse_when (a_did actor = pb_did by) OwnActor (
     andThen (reading (\<lambda>c. map c_id (cert_list (Some did) (Some Active) (co_db c)))) (\<lambda>ids.
     andThen (revoke_all E (pb_did by) (''Actor '' @ a_name actor @ '' ('' @ did @ '') deleted'') ids) (\<lambda>_.
     andThen (record_event E ''actor.deleted''
       (actorDeletedPayload actor ids @
        [(''performedBy'', jperformer by), (''adminUrl'', jopt (buildAdminUrl (ae_payload E) ''/admin/actors''))])
       (Some by) (Some ''actor'') (Some did)) (\<lambda>_.
     andThen (onServer (\<lambda>st. ((), disconnect did st))) (\<lambda>_.
     delete_actor_rows did))))))))))"

section \<open>Settings\<close>

definition SETTING_orgName :: string where
  "SETTING_orgName = ''org.name''"

definition SETTING_p2pConnectWindowSeconds :: string where
  "SETTING_p2pConnectWindowSeconds = ''login.p2pConnectWindowSeconds''"

definition save_setting :: "string \<Rightarrow> string \<Rightarrow> ('vid, 'ch, 'cfg, unit) act" where
  "save_setting key v = dao (\<lambda>d. Inr ((), setting_set key v d))"

definition updateGeneralSettingsAction :: "admin_env \<Rightarrow> form \<Rightarrow> ('vid, 'ch, 'cfg, unit) act" where
  "updateGeneralSettingsAction E f =
     andThen (requireAdmin E) (\<lambda>by.
     let nm = form_trim f ''orgName'' in
     refuse_when (\<not> truthy nm) MissingField (save_setting SETTING_orgName (text_of nm)))"

definition updateTrustPolicyAction ::
  "('vid, 'ch, 'cfg) ws_lib \<Rightarrow> admin_env \<Rightarrow> form \<Rightarrow> ('vid, 'ch, 'cfg, unit) act" where
  "updateTrustPolicyAction lib E f =
     andThen (requireAdmin E) (\<lambda>by.
     let mode = form_get f ''failMode'' in
     refuse_when (mode \<notin> {Some ''open'', Some ''closed''}) BadFailMode (
     case Option.bind (form_get f ''stapleTtlSeconds'') js_parseInt of
       None \<Rightarrow> throw (Refused BadNumber)
     | Some n \<Rightarrow>
         refuse_when (n < 0) BadNumber (
         andThen (save_setting SETTING_trustFailMode (text_of mode)) (\<lambda>_.
         andThen (save_setting SETTING_trustStapleTtlSeconds (dec_string n)) (\<lambda>_.
         andThen (onServer (pushActorConfigToAll lib (ae_ev E))) (\<lambda>_. give ()))))))"

definition updateSignInSettingsAction :: "admin_env \<Rightarrow> form \<Rightarrow> ('vid, 'ch, 'cfg, unit) act" where
  "updateSignInSettingsAction E f =
     andThen (requireAdmin E) (\<lambda>by.
     andThen (lift_result (validateP2PConnectWindowSeconds (text_of (form_get f ''p2pConnectWindowSeconds'')))) (\<lambda>n.
     save_setting SETTING_p2pConnectWindowSeconds (dec_string n)))"

section \<open>One action\<close>

datatype admin_action =
    ApproveRegistration | DenyRegistration | ArmKillSwitch | DisarmKillSwitch
  | RevokeCertificate | IssueCertificate | CreateWorkspace | UpdateWorkspace | UpdateWorkspaceTrust
  | AssignActorWorkspace | DeleteWorkspace | CreateCapability | UpdateCapability | DeleteCapability
  | CreateInvitation | UpdateActor | AddActorLink | DeleteActorLink | DeleteActor
  | UpdateGeneralSettings | UpdateTrustPolicy | UpdateSignInSettings
  | UpdateProxySettings | AddProxyRule | DeleteProxyRule
  | UpdateHarnessSettings | AddHarnessRule | DeleteHarnessRule

text \<open>The outcome as the caller sees it: done, an error returned to the form, or a throw.\<close>

definition forget :: "('s, 'e, 'a) run \<Rightarrow> ('s, 'e, unit) run" where
  "forget m = andThen m (\<lambda>_. give ())"

fun run_action ::
  "('vid, 'ch, 'cfg) ws_lib \<Rightarrow> admin_env \<Rightarrow> admin_action \<Rightarrow> form \<Rightarrow> ('vid, 'ch, 'cfg, unit) act" where
  "run_action lib E ApproveRegistration f = approveRegistrationAction lib E f"
| "run_action lib E DenyRegistration f = denyRegistrationAction E f"
| "run_action lib E ArmKillSwitch f = armKillSwitchAction E f"
| "run_action lib E DisarmKillSwitch f = disarmKillSwitchAction E f"
| "run_action lib E RevokeCertificate f = revokeCertificateAction lib E f"
| "run_action lib E IssueCertificate f = issueCertificateAction lib E f"
| "run_action lib E CreateWorkspace f = createWorkspaceAction E f"
| "run_action lib E UpdateWorkspace f = updateWorkspaceAction E f"
| "run_action lib E UpdateWorkspaceTrust f = updateWorkspaceTrustPolicyAction lib E f"
| "run_action lib E AssignActorWorkspace f = assignActorWorkspaceAction E f"
| "run_action lib E DeleteWorkspace f = forget (deleteWorkspaceAction lib E f)"
| "run_action lib E CreateCapability f = createCapabilityAction E f"
| "run_action lib E UpdateCapability f = updateCapabilityAction E f"
| "run_action lib E DeleteCapability f = deleteCapabilityAction lib E f"
| "run_action lib E CreateInvitation f = forget (createInvitationAction E f)"
| "run_action lib E UpdateActor f = updateActorAction E f"
| "run_action lib E AddActorLink f = addActorLinkAction E f"
| "run_action lib E DeleteActorLink f = deleteActorLinkAction E f"
| "run_action lib E DeleteActor f = forget (deleteActorAction E f)"
| "run_action lib E UpdateGeneralSettings f = updateGeneralSettingsAction E f"
| "run_action lib E UpdateTrustPolicy f = updateTrustPolicyAction lib E f"
| "run_action lib E UpdateSignInSettings f = updateSignInSettingsAction E f"
| "run_action lib E UpdateProxySettings f = forget (updateProxySettingsAction lib E f)"
| "run_action lib E AddProxyRule f = forget (addProxyRuleAction lib E f)"
| "run_action lib E DeleteProxyRule f = deleteProxyRuleAction lib E f"
| "run_action lib E UpdateHarnessSettings f = forget (updateHarnessSettingsAction lib E f)"
| "run_action lib E AddHarnessRule f = forget (addHarnessResourceRuleAction lib E f)"
| "run_action lib E DeleteHarnessRule f = deleteHarnessResourceRuleAction lib E f"

end
