(* ===== verification/AdminLogic.thy ===== *)
theory AdminLogic
  imports AdminEdits
begin

text \<open>
  Reasoning about server actions. The locale \<open>act_logic\<close> takes a reflexive and transitive relation of
  console states and carries it from the pieces of an action to the whole; it is interpreted on two
  relations: the new connection-server state is reached by steps of the server, and the audit entries
  added are the jobs queued. Then the theorems about every action: who may act, what an action is to
  the connection server, and what it leaves in the journal.
\<close>

section \<open>Carrying a relation through an action\<close>

definition act_rel :: "('s \<Rightarrow> 's \<Rightarrow> bool) \<Rightarrow> ('s, 'e, 'a) run \<Rightarrow> bool" where
  "act_rel R m \<longleftrightarrow> (\<forall>c. R c (snd (m c)))"

locale run_logic =
  fixes R :: "'s \<Rightarrow> 's \<Rightarrow> bool"
  assumes R_refl: "R c c"
    and R_trans: "R c d \<Longrightarrow> R d e \<Longrightarrow> R c e"
begin

lemma quiet: "(\<And>c. snd (m c) = c) \<Longrightarrow> act_rel R m"
  by (simp add: act_rel_def R_refl)

lemma pure:
  "act_rel R (give x)" "act_rel R (throw e)" "act_rel R (reading g)" "act_rel R (require ov r)" "act_rel R (lift_result res)"
  by (rule quiet; simp add: give_def throw_def reading_def require_def lift_result_def split: option.split sum.split)+

lemma andThen: "act_rel R m \<Longrightarrow> (\<And>x. act_rel R (g x)) \<Longrightarrow> act_rel R (andThen m g)"
  unfolding act_rel_def
proof
  fix c assume m: "\<forall>c. R c (snd (m c))" and g: "\<And>x. \<forall>c. R c (snd (g x c))"
  show "R c (snd (andThen m g c))"
  proof (cases "m c")
    case (Pair r c')
    then have "R c c'" using m [THEN spec, of c] by simp
    with Pair g show ?thesis by (cases r) (auto simp: andThen_def intro: R_trans)
  qed
qed

lemma catching: "act_rel R m \<Longrightarrow> (\<And>e. act_rel R (g e)) \<Longrightarrow> act_rel R (catching m g)"
  unfolding act_rel_def
proof
  fix c assume m: "\<forall>c. R c (snd (m c))" and g: "\<And>x. \<forall>c. R c (snd (g x c))"
  show "R c (snd (catching m g c))"
  proof (cases "m c")
    case (Pair r c')
    then have "R c c'" using m [THEN spec, of c] by simp
    with Pair g show ?thesis by (cases r) (auto simp: catching_def intro: R_trans)
  qed
qed

lemma refuse: "act_rel R m \<Longrightarrow> act_rel R (refuse_when b r m)"
  by (simp add: refuse_when_def pure)

lemma caught: "act_rel R m \<Longrightarrow> act_rel R (caught m)"
  unfolding act_rel_def caught_def by (auto split: prod.split sum.split) (metis snd_conv)+

lemma forget: "act_rel R m \<Longrightarrow> act_rel R (forget m)"
  unfolding forget_def by (intro andThen pure)

lemma cases:
  "act_rel R m \<Longrightarrow> (\<And>x. act_rel R (g x)) \<Longrightarrow> act_rel R (case ov of None \<Rightarrow> m | Some x \<Rightarrow> g x)"
  "act_rel R m1 \<Longrightarrow> act_rel R m2 \<Longrightarrow> act_rel R (if b then m1 else m2)"
  "(\<And>x y. act_rel R (g' x y)) \<Longrightarrow> act_rel R (case p of (x, y) \<Rightarrow> g' x y)"
  "(\<And>x. act_rel R (h x)) \<Longrightarrow> (\<And>y. act_rel R (h' y)) \<Longrightarrow> act_rel R (case su of Inl x \<Rightarrow> h x | Inr y \<Rightarrow> h' y)"
  by (simp_all split: option.split sum.split prod.split)

lemma lets: "(\<And>x. act_rel R (g x)) \<Longrightarrow> act_rel R (let x = v in g x)"
  by simp

end

text \<open>The calls of an action on the console.\<close>

locale act_logic = run_logic R for R :: "('vid, 'ch, 'cfg) console \<Rightarrow> ('vid, 'ch, 'cfg) console \<Rightarrow> bool"
begin

lemma gates: "act_rel R (requireAdmin E)" "act_rel R (resolveTarget f)"
  by (rule quiet; simp add: give_def throw_def reading_def require_def requireAdmin_def resolveTarget_def refuse_when_def andThen_def Let_def
      split: option.split sum.split)+

lemma dao_rel:
  "(\<And>c x d'. h (co_db c) = Inr (x, d') \<Longrightarrow> R c (set_db d' c)) \<Longrightarrow> act_rel R (dao h)"
  by (auto simp: act_rel_def dao_def R_refl split: sum.split)

lemma server_rel:
  "(\<And>c. R c (c\<lparr>co_ws := snd (k (co_ws c))\<rparr>)) \<Longrightarrow> act_rel R (onServer k)"
  by (simp add: act_rel_def onServer_def case_prod_unfold Let_def)

lemmas rules = pure gates andThen refuse caught forget cases lets

lemma revoke_all_rel:
  "(\<And>i. act_rel R (dao (cert_revoke (ev_now (ae_ev E)) i by' why))) \<Longrightarrow> act_rel R (revoke_all E by' why ids)"
  by (induction ids) (auto intro: rules)

lemma tell_holders_rel:
  "(\<And>did. act_rel R (tell_changed did why ids)) \<Longrightarrow> (\<And>did. act_rel R (push_config lib E did)) \<Longrightarrow>
     act_rel R (tell_holders lib E why ids dids)"
  by (induction dids) (auto intro!: rules)

end

section \<open>Actions as steps of the connection server\<close>

definition server_steps ::
  "('vid, 'ch, 'cfg) ws_lib \<Rightarrow> ('vid, 'ch, 'cfg) console \<Rightarrow> ('vid, 'ch, 'cfg) console \<Rightarrow> bool" where
  "server_steps lib c c' \<longleftrightarrow> (ws_step lib)\<^sup>*\<^sup>* (co_ws c) (co_ws c')"

interpretation steps: act_logic "server_steps lib" for lib :: "('vid, 'ch, 'cfg) ws_lib"
  by unfold_locales (auto simp: server_steps_def)

lemma workspace_delete_attributable:
  "workspace_delete wid d = Inr d' \<Longrightarrow> attributable lib d \<Longrightarrow> attributable lib d'"
  by (fastforce simp: workspace_delete_def attributable_def set_row_map)

lemma proper_daos:
  "actor_upsert now au d = Inr (a, d') \<Longrightarrow> proper_writes lib d d'"
  "actor_update did nm ws ow d = Inr (a, d') \<Longrightarrow> proper_writes lib d d'"
  "actor_delete did d = Inr d' \<Longrightarrow> proper_writes lib d d'"
  "cert_revoke now cid by' why d = Inr (c, d') \<Longrightarrow> proper_writes lib d d'"
  "ks_arm now kid st kw why by' d = Inr (k, d') \<Longrightarrow> proper_writes lib d d'"
  "ks_disarm kid d = (ko, d') \<Longrightarrow> proper_writes lib d d'"
  "workspace_create now wid nm' sl desc col d = Inr (w, d') \<Longrightarrow> proper_writes lib d d'"
  "workspace_update wid e d = Inr (w, d') \<Longrightarrow> proper_writes lib d d'"
  "registry_create rid nm' l de g by' d = Inr (r, d') \<Longrightarrow> proper_writes lib d d'"
  "registry_update rid lo deo go d = Inr (r, d') \<Longrightarrow> proper_writes lib d d'"
  "registry_delete rid d = Inr d' \<Longrightarrow> proper_writes lib d d'"
  "invitation_create h now tok iin d = Inr (x, d') \<Longrightarrow> proper_writes lib d d'"
  by ((rule proper_same, erule dao_write.intros,
      force simp: actor_upsert_def actor_update_def actor_delete_def cert_revoke_def ks_arm_def ks_disarm_def
        workspace_create_def workspace_insert_def workspace_update_def registry_create_def registry_update_def
        registry_delete_def invitation_create_def Let_def row_update_Inr split: option.splits sum.splits if_splits)+)

lemma proper_workspace_delete: "workspace_delete wid d = Inr d' \<Longrightarrow> proper_writes lib d d'"
  by (rule proper_step) (auto intro: Wworkspace_delete workspace_delete_attributable)

lemma proper_setting: "proper_writes lib d (setting_set key v d)"
  by (rule proper_same [OF Wsetting_set [OF refl]]) (simp add: setting_set_def)

lemma step_db: "proper_writes lib (co_db c) d' \<Longrightarrow> server_steps lib c (set_db d' c)"
  unfolding server_steps_def set_db_def using ws_step.Database by fastforce

lemma dao_steps:
  "(\<And>d x d'. h d = Inr (x, d') \<Longrightarrow> proper_writes lib d d') \<Longrightarrow> act_rel (server_steps lib) (dao h)"
  by (rule steps.dao_rel) (blast intro: step_db)

lemma dao_unit_steps:
  "(\<And>d d'. h d = Inr d' \<Longrightarrow> proper_writes lib d d') \<Longrightarrow> act_rel (server_steps lib) (dao_unit h)"
  unfolding dao_unit_def by (rule dao_steps) auto

lemma event_steps: "act_rel (server_steps lib) (record_event E et pl by' tt ti)"
  using step_db [OF proper_recordEvent]
  by (auto simp: act_rel_def record_event_def Let_def server_steps_def)

lemma call_step: "(\<And>st. ws_step lib st (snd (k st))) \<Longrightarrow> act_rel (server_steps lib) (onServer k)"
  by (rule steps.server_rel) (auto simp: server_steps_def)

lemma calls_steps:
  fixes lib :: "('vid, 'ch, 'cfg) ws_lib"
  shows "act_rel (server_steps lib) (onServer (deliverApprovedCapabilities lib ev did))"
    "act_rel (server_steps lib) (onServer (\<lambda>st. ((), disconnect did st)))"
    "act_rel (server_steps lib) (onServer (pushActorConfig lib ev did))"
    "act_rel (server_steps lib) (onServer (pushActorConfigMany lib ev dids))"
    "act_rel (server_steps lib) (onServer (pushActorConfigToAll lib ev))"
    "act_rel (server_steps lib) (onServer (notifyCapabilitiesChanged did why ids))"
    "act_rel (server_steps lib) (onServer (notifyCapabilityRegistryChanged rwhy cap))"
    "act_rel (server_steps lib) (onServer (\<lambda>st. notifyKillSwitchArmed (reloaded E st) row st))"
  by ((rule call_step, (unfold snd_conv)?, rule ws_step.intros)+)

lemma push_steps:
  "act_rel (server_steps lib) (push_config lib E did)"
  "act_rel (server_steps lib) (push_many lib E dids)"
  "act_rel (server_steps lib) (tell_changed did why ids)"
  "act_rel (server_steps lib) (tell_registry rwhy nm)"
  unfolding push_config_def push_many_def tell_changed_def tell_registry_def
  by (intro steps.rules calls_steps)+

lemma tell_steps: "act_rel (server_steps lib) (tell_holders lib E why ids dids)"
  by (intro steps.tell_holders_rel push_steps)

lemma write_steps:
  "act_rel (server_steps lib) (revoke_all E by' why ids)"
  "act_rel (server_steps lib) (save_setting key v)"
  "act_rel (server_steps lib) (registry_call (registry_create rid nm l de g who))"
  "act_rel (server_steps lib) (delete_actor_rows did)"
proof -
  show "act_rel (server_steps lib) (revoke_all E by' why ids)"
    by (intro steps.revoke_all_rel dao_steps) (rule proper_daos)
  show "act_rel (server_steps lib) (save_setting key v)"
    unfolding save_setting_def by (rule dao_steps) (auto intro: proper_setting)
  show "act_rel (server_steps lib) (registry_call (registry_create rid nm l de g who))"
    by (auto simp: act_rel_def registry_call_def steps.R_refl intro: step_db proper_daos
        split: sum.split registry_error.split)
  have "act_rel (server_steps lib) (dao_unit (actor_delete did))"
    by (rule dao_unit_steps) (rule proper_daos)
  then show "act_rel (server_steps lib) (delete_actor_rows did)"
    unfolding delete_actor_rows_def
    by (rule steps.andThen) (simp add: act_rel_def server_steps_def)
qed

lemma user_steps:
  "act_rel (server_steps lib) (user_updateEmail did email)"
  "act_rel (server_steps lib) (user_markProfileCompleted now did)"
  "act_rel (server_steps lib) (link_create lid a b l)"
  "act_rel (server_steps lib) (link_delete lid)"
  by (simp_all add: act_rel_def server_steps_def user_updateEmail_def user_markProfileCompleted_def
      link_create_def link_delete_def)

lemma issueAdminGrant_row:
  "issueAdminGrant L vid now newId inp d = Inr (cert, d') \<Longrightarrow>
     d' = d\<lparr>tb_certs := tb_certs d @ [cert]\<rparr> \<and> proper_writes lib d d'"
  by (auto simp: issueAdminGrant_def issueCapabilityGrant_def Let_def dest: issueCapabilityGrant_Inr(5) proper_others(1)
      cert_create_Inr(7) split: option.splits sum.splits)

lemma issue_steps:
  assumes "\<And>cert x. act_rel (server_steps lib) (k cert x)"
  shows "act_rel (server_steps lib)
    (andThen (issue_grant lib E inp) (\<lambda>cert. andThen (certificate_event E et cert by') (\<lambda>_.
       andThen (onServer (deliverCertificate cert)) (k cert))))"
  unfolding act_rel_def
proof
  fix c :: "('a, 'b, 'c) console"
  show "server_steps lib c (snd (andThen (issue_grant lib E inp) (\<lambda>cert. andThen (certificate_event E et cert by') (\<lambda>_.
       andThen (onServer (deliverCertificate cert)) (k cert))) c))"
  proof (cases "issueAdminGrant (lb_certs lib) (lb_serverVid lib) (ev_now (ae_ev E)) (ev_uuid (ae_ev E)) inp (co_db c)")
    case (Inl e)
    then show ?thesis by (cases e) (simp_all add: andThen_def issue_grant_def steps.R_refl)
  next
    case (Inr r)
    then obtain cert d' where g: "issueAdminGrant (lb_certs lib) (lb_serverVid lib) (ev_now (ae_ev E)) (ev_uuid (ae_ev E)) inp (co_db c)
        = Inr (cert, d')" by (cases r) auto
    define c1 where "c1 = snd (certificate_event E et cert by' (set_db d' c))"
    define c2 where "c2 = c1\<lparr>co_ws := snd (deliverCertificate cert (co_ws c1))\<rparr>"
    have res: "fst (certificate_event E et cert by' (set_db d' c)) = Inr ()"
      by (simp add: certificate_event_def record_event_def Let_def)
    have "server_steps lib c (set_db d' c)"
      by (intro step_db issueAdminGrant_row [OF g, THEN conjunct2])
    moreover have "act_rel (server_steps lib) (certificate_event E et cert by')"
      unfolding certificate_event_def by (rule event_steps)
    then have "server_steps lib (set_db d' c) c1"
      unfolding c1_def act_rel_def by blast
    moreover have "cert \<in> set (tb_certs (co_db c1))"
      using issueAdminGrant_row [OF g, THEN conjunct1]
      by (simp add: c1_def certificate_event_def record_event_def set_db_def Let_def recordEvent_def audit_create_def)
    then have "server_steps lib c1 c2"
      by (simp add: server_steps_def c2_def r_into_rtranclp ws_step.HandOver)
    moreover have "server_steps lib c2 (snd (k cert (fst (deliverCertificate cert (co_ws c1))) c2))"
      using assms unfolding act_rel_def by blast
    moreover have "snd (andThen (issue_grant lib E inp) (\<lambda>cert. andThen (certificate_event E et cert by') (\<lambda>_.
       andThen (onServer (deliverCertificate cert)) (k cert))) c) = snd (k cert (fst (deliverCertificate cert (co_ws c1))) c2)"
      using g res by (simp add: andThen_def issue_grant_def c1_def c2_def onServer_def Let_def case_prod_unfold)
    ultimately show ?thesis by (metis steps.R_trans)
  qed
qed

lemmas act_defs =
  approveRegistrationAction_def denyRegistrationAction_def approvePendingRegistration_def
  denyPendingRegistration_def armKillSwitchAction_def disarmKillSwitchAction_def switch_event_def
  revokeCertificateAction_def createWorkspaceAction_def updateWorkspaceAction_def
  updateWorkspaceTrustPolicyAction_def assignActorWorkspaceAction_def deleteWorkspaceAction_def workspace_event_def
  createCapabilityAction_def updateCapabilityAction_def deleteCapabilityAction_def capability_event_def
  createInvitationAction_def updateActorAction_def addActorLinkAction_def deleteActorLinkAction_def
  deleteActorAction_def updateGeneralSettingsAction_def updateTrustPolicyAction_def updateSignInSettingsAction_def
  updateProxySettingsAction_def addProxyRuleAction_def deleteProxyRuleAction_def loadProxyConfig_def
  updateHarnessSettingsAction_def addHarnessResourceRuleAction_def deleteHarnessResourceRuleAction_def
  loadHarnessConfig_def config_or_throw_def

lemma certificate_event_steps: "act_rel (server_steps lib) (certificate_event E et cert by')"
  unfolding certificate_event_def by (rule event_steps)

text \<open>Saving a configuration merges it, records it and pushes it.\<close>

lemma save_steps:
  "act_rel (server_steps lib) (saveProxyConfig lib E did pc by')"
  "act_rel (server_steps lib) (saveHarnessConfig lib E did hc by')"
proof -
  have merge: "act_rel (server_steps lib) (dao_unit (actor_mergeKindConfig did patch))" for patch
    by (rule dao_unit_steps) (rule proper_others(3))
  show "act_rel (server_steps lib) (saveProxyConfig lib E did pc by')"
    "act_rel (server_steps lib) (saveHarnessConfig lib E did hc by')"
    unfolding saveProxyConfig_def saveHarnessConfig_def before_of_def config_event_def config_or_throw_def
    by (intro steps.rules merge event_steps push_steps)+
qed

lemma dao_calls_steps:
  "act_rel (server_steps lib) (dao (actor_upsert now au))"
  "act_rel (server_steps lib) (dao (actor_update did nm ws ow))"
  "act_rel (server_steps lib) (dao (cert_revoke now cid who why))"
  "act_rel (server_steps lib) (dao (pending_approve rid caps who tgt))"
  "act_rel (server_steps lib) (dao (pending_deny rid))"
  "act_rel (server_steps lib) (dao (ks_arm now kid st kw why who))"
  "act_rel (server_steps lib) (dao (\<lambda>d. Inr (ks_disarm kid d)))"
  "act_rel (server_steps lib) (dao (workspace_create now wid nm' sl desc col))"
  "act_rel (server_steps lib) (dao (workspace_update wid e))"
  "act_rel (server_steps lib) (dao (registry_update rid lo deo go))"
  "act_rel (server_steps lib) (dao (invitation_create h now tok iin))"
  "act_rel (server_steps lib) (dao_unit (workspace_delete wid))"
  "act_rel (server_steps lib) (dao_unit (registry_delete rid))"
  by ((rule dao_steps dao_unit_steps, (simp only: sum.inject)?,
       (erule proper_daos | erule proper_pending_edits | erule proper_workspace_delete)+)+)

lemmas all_steps =
  dao_calls_steps calls_steps push_steps tell_steps write_steps user_steps event_steps certificate_event_steps save_steps

lemma issue_action_steps: "act_rel (server_steps lib) (issueCertificateAction lib E f)"
  unfolding issueCertificateAction_def Let_def
  by (intro issue_steps steps.rules all_steps)

lemma action_steps: "act_rel (server_steps lib) (run_action lib E a f)"
  by (cases a; simp only: run_action.simps act_defs Let_def issue_action_steps;
      intro steps.rules all_steps)

section \<open>The journal\<close>

definition entry_of_job :: "audit_row \<Rightarrow> webhook_job \<Rightarrow> bool" where
  "entry_of_job e j \<longleftrightarrow> wj_eventType j = al_eventType e \<and> wj_payload j = stripSensitive (JObj (al_details e))"

definition journalled :: "('vid, 'ch, 'cfg) console \<Rightarrow> ('vid, 'ch, 'cfg) console \<Rightarrow> bool" where
  "journalled c c' \<longleftrightarrow> (\<exists>es js. tb_audit (co_db c') = tb_audit (co_db c) @ es \<and> co_jobs c' = co_jobs c @ js
     \<and> list_all2 entry_of_job es js)"

interpretation journal: act_logic journalled
proof
  show "journalled c c" for c :: "('a, 'b, 'c) console"
    unfolding journalled_def by (rule exI [of _ "[]"], rule exI [of _ "[]"]) simp
  fix c d e :: "('a, 'b, 'c) console"
  assume "journalled c d" "journalled d e"
  then obtain es js es' js' where
    "tb_audit (co_db d) = tb_audit (co_db c) @ es" "co_jobs d = co_jobs c @ js" "list_all2 entry_of_job es js"
    "tb_audit (co_db e) = tb_audit (co_db d) @ es'" "co_jobs e = co_jobs d @ js'" "list_all2 entry_of_job es' js'"
    by (auto simp: journalled_def)
  then show "journalled c e" unfolding journalled_def
    by (intro exI [of _ "es @ es'"] exI [of _ "js @ js'"]) (simp add: list_all2_appendI)
qed

lemma journal_same: "tb_audit (co_db c') = tb_audit (co_db c) \<Longrightarrow> co_jobs c' = co_jobs c \<Longrightarrow> journalled c c'"
  using journal.R_refl [of c] by (simp add: journalled_def)

lemma dao_journal:
  "(\<And>d x d'. h d = Inr (x, d') \<Longrightarrow> tb_audit d' = tb_audit d) \<Longrightarrow> act_rel journalled (dao h)"
  by (rule journal.dao_rel) (auto intro: journal_same simp: set_db_def)

lemma dao_unit_journal:
  "(\<And>d d'. h d = Inr d' \<Longrightarrow> tb_audit d' = tb_audit d) \<Longrightarrow> act_rel journalled (dao_unit h)"
  unfolding dao_unit_def by (rule dao_journal) auto

lemma event_journal: "act_rel journalled (record_event E et pl by' tt ti)"
  by (auto simp: act_rel_def record_event_def Let_def journalled_def set_db_def recordEvent_def audit_create_def
      entry_of_job_def enqueue_job_def)

text \<open>No call of the server writes an entry.\<close>

lemma server_journal:
  "(\<And>st. tb_audit (ws_db (snd (k st))) = tb_audit (ws_db st)) \<Longrightarrow> act_rel journalled (onServer k)"
  by (rule journal.server_rel) (rule journal_same, simp_all)

lemma grantOrMark_audit [simp]: "tb_audit (ws_db (snd (grantOrMark ev s i caps st))) = tb_audit (ws_db st)"
  by (auto simp: grantOrMark_def startCertificateIssuance_def pending_markDelivered_def pending_modify_def
      split: sum.split)

lemma deliver_audit: "tb_audit (ws_db (snd (deliverApprovedCapabilities lib ev did st))) = tb_audit (ws_db st)"
  by (simp add: deliverApprovedCapabilities_def Let_def split: option.split prod.split)

lemma push_audit: "ws_db (snd (pushActorConfigMany lib ev dids st)) = ws_db st"
proof (induction dids arbitrary: st)
  case (Cons did dids)
  have "ws_db (snd (pushActorConfig lib ev did st)) = ws_db st"
    by (simp add: pushActorConfig_def split: option.split)
  with Cons show ?case by (simp add: case_prod_unfold Let_def)
qed simp

lemma sends_audit [simp]:
  "ws_db (fold (\<lambda>(_, a) s. sendMessage (g a) m s) l st) = ws_db st"
  "ws_db (fold (\<lambda>a s. closeSender (g' a) (sendMessage (g' a) m' s)) l' st) = ws_db st"
  by (induction l arbitrary: st, simp_all add: case_prod_unfold)
     (induction l' arbitrary: st, simp_all)

lemma calls_journal:
  "act_rel journalled (onServer (deliverApprovedCapabilities lib ev did))"
  "act_rel journalled (onServer (\<lambda>st. ((), disconnect did st)))"
  "act_rel journalled (push_config lib E did)"
  "act_rel journalled (push_many lib E dids)"
  "act_rel journalled (onServer (pushActorConfigToAll lib ev))"
  "act_rel journalled (tell_changed did why ids)"
  "act_rel journalled (tell_registry rwhy nm)"
  "act_rel journalled (onServer (\<lambda>st. notifyKillSwitchArmed (reloaded E st) row st))"
  "act_rel journalled (onServer (deliverCertificate cert))"
  unfolding push_config_def push_many_def tell_changed_def tell_registry_def
  by (intro journal.rules server_journal;
      simp add: deliver_audit push_audit pushActorConfigToAll_def disconnect_def pushActorConfig_def
        notifyCapabilitiesChanged_def notifyCapabilityRegistryChanged_def notifyKillSwitchArmed_def
        deliverCertificate_def Let_def split: option.split)+

lemma dao_calls_journal:
  "act_rel journalled (dao (actor_upsert now au))"
  "act_rel journalled (dao (actor_update did nm ws ow))"
  "act_rel journalled (dao (cert_revoke now cid who why))"
  "act_rel journalled (dao (pending_approve rid caps who tgt))"
  "act_rel journalled (dao (pending_deny rid))"
  "act_rel journalled (dao (ks_arm now kid st kw why who))"
  "act_rel journalled (dao (\<lambda>d. Inr (ks_disarm kid d)))"
  "act_rel journalled (dao (workspace_create now wid nm' sl desc col))"
  "act_rel journalled (dao (workspace_update wid e))"
  "act_rel journalled (dao (registry_update rid lo deo go))"
  "act_rel journalled (dao (invitation_create h now tok iin))"
  "act_rel journalled (dao_unit (workspace_delete wid))"
  "act_rel journalled (dao_unit (registry_delete rid))"
  "act_rel journalled (save_setting key v)"
  by ((unfold save_setting_def)?, rule dao_journal dao_unit_journal,
      force simp: actor_upsert_def actor_update_def cert_revoke_def ks_arm_def ks_disarm_def pending_approve_def
        pending_deny_def pending_modify_def workspace_create_def workspace_insert_def workspace_update_def
        workspace_delete_def registry_update_def registry_delete_def invitation_create_def setting_set_def Let_def
        row_update_Inr split: option.splits if_splits)+

lemma writes_journal:
  "act_rel journalled (revoke_all E by' why ids)"
  "act_rel journalled (tell_holders lib E cwhy ids dids)"
  "act_rel journalled (registry_call (registry_create rid nm l de g who))"
  "act_rel journalled (delete_actor_rows did)"
  "act_rel journalled (certificate_event E et cert pby)"
  "act_rel journalled (issue_grant lib E inp)"
  "act_rel journalled (user_updateEmail did email)"
  "act_rel journalled (user_markProfileCompleted now did)"
  "act_rel journalled (link_create lid a b lab)"
  "act_rel journalled (link_delete lid)"
proof -
  show "act_rel journalled (revoke_all E by' why ids)"
    by (intro journal.revoke_all_rel dao_calls_journal)
  show "act_rel journalled (tell_holders lib E cwhy ids dids)"
    by (intro journal.tell_holders_rel calls_journal)
  show "act_rel journalled (registry_call (registry_create rid nm l de g who))"
    by (auto simp: act_rel_def registry_call_def registry_create_def Let_def row_insert_Inr set_db_def
        intro!: journal_same split: sum.splits registry_error.splits if_splits)
  show "act_rel journalled (delete_actor_rows did)"
    unfolding delete_actor_rows_def
    by (intro journal.andThen dao_unit_journal)
       (auto simp: actor_delete_def Let_def act_rel_def intro: journal_same)
  show "act_rel journalled (certificate_event E et cert pby)"
    unfolding certificate_event_def by (rule event_journal)
  show "act_rel journalled (issue_grant lib E inp)"
    by (auto simp: act_rel_def issue_grant_def set_db_def intro!: journal_same dest: issueAdminGrant_row
        split: sum.splits issue_error.splits)
qed (auto simp: act_rel_def user_updateEmail_def user_markProfileCompleted_def link_create_def link_delete_def
       intro: journal_same)

lemma save_journal:
  "act_rel journalled (saveProxyConfig lib E did pc by')"
  "act_rel journalled (saveHarnessConfig lib E did hc by')"
proof -
  have merge: "act_rel journalled (dao_unit (actor_mergeKindConfig did patch))" for patch
    by (rule dao_unit_journal) (auto simp: actor_mergeKindConfig_def Let_def)
  show "act_rel journalled (saveProxyConfig lib E did pc by')"
    "act_rel journalled (saveHarnessConfig lib E did hc by')"
    unfolding saveProxyConfig_def saveHarnessConfig_def before_of_def config_event_def config_or_throw_def
    by (intro journal.rules merge event_journal calls_journal)+
qed

lemmas all_journal = save_journal dao_calls_journal calls_journal writes_journal event_journal

lemma action_journal: "act_rel journalled (run_action lib E a f)"
  by (cases a; simp only: run_action.simps act_defs issueCertificateAction_def Let_def;
      intro journal.rules all_journal)

section \<open>The gate\<close>

lemma andThen_assoc: "andThen (andThen m g) h = andThen m (\<lambda>x. andThen (g x) h)"
  by (rule ext) (simp add: andThen_def split: prod.split sum.split)

lemma action_gated: "\<exists>k. run_action lib E a f = andThen (requireAdmin E) k"
  by (cases a; simp only: run_action.simps act_defs issueCertificateAction_def forget_def andThen_assoc) blast+

lemma gate_closed:
  "requireAdmin E c = (Inl e, c') \<Longrightarrow> run_action lib E a f c = (Inl e, c)"
  using action_gated [of lib E a f]
  by (auto simp: andThen_def requireAdmin_def throw_def give_def split: option.splits prod.splits if_splits)

lemma gate_open:
  assumes "requireAdmin E c = (Inr by', c')"
  obtains did nm row where "ae_session E = Some (did, nm)" "did \<noteq> []" "row \<in> set (tb_certs (co_db c))"
    "c_agentDid row = did" "grants \<lparr>ra_capability = ''admin_console_access'', ra_resource = None\<rparr> (ev_now (ae_ev E)) (toLite row)"
    "pb_did by' = did" "c' = c"
proof -
  obtain did nm where s: "ae_session E = Some (did, nm)" "did \<noteq> []" "pb_did by' = did" "c' = c"
    and h: "hasCapability (ev_now (ae_ev E)) (ev_armed (ae_ev E)) did ''admin_console_access'' None (co_db c)"
    using assms by (auto simp: requireAdmin_def throw_def give_def split: option.splits if_splits)
  from h have "allowed (resolvePermission \<lparr>ra_capability = ''admin_console_access'', ra_resource = None\<rparr>
      (cert_findAllForActor did (co_db c)) (ev_now (ae_ev E)))"
    by (simp add: hasCapability_def Let_def split: if_splits)
  from grantingCert_row [OF refl this] s that show thesis by blast
qed

end
