(* ===== verification/AdminSafety.thy ===== *)
theory AdminSafety
  imports AdminLogic Deliveries
begin

text \<open>
  What the server actions do: who may act, what an action is to the connection server, what it leaves
  in the journal, and the effects of arming a switch, approving a registration, and deleting a
  capability, a workspace or an Actor.
\<close>

section \<open>Running an action that succeeds\<close>

named_theorems act_run \<open>the runs of the pieces of an action\<close>

lemma run_pieces [act_run]:
  "give x c = (Inr y, c') \<longleftrightarrow> y = x \<and> c' = c"
  "\<not> throw e c = (Inr y, c')"
  "andThen m g c = (Inr z, c') \<longleftrightarrow> (\<exists>x c1. m c = (Inr x, c1) \<and> g x c1 = (Inr z, c'))"
  "refuse_when b r m' c = (Inr z', c') \<longleftrightarrow> \<not> b \<and> m' c = (Inr z', c')"
  "require ov r c = (Inr v, c') \<longleftrightarrow> ov = Some v \<and> c' = c"
  "reading h c = (Inr u, c') \<longleftrightarrow> u = h c \<and> c' = c"
  by (auto simp: give_def throw_def andThen_def refuse_when_def require_def reading_def
      split: prod.splits sum.splits option.splits)

lemma run_dao [act_run]:
  "dao w c = (Inr x, c') \<longleftrightarrow> (\<exists>d'. w (co_db c) = Inr (x, d') \<and> c' = set_db d' c)"
  "dao_unit w' c = (Inr (), c') \<longleftrightarrow> (\<exists>d'. w' (co_db c) = Inr d' \<and> c' = set_db d' c)"
  by (auto simp: dao_def dao_unit_def split: sum.splits prod.splits)

lemma run_server [act_run]:
  "onServer k c = (Inr x, c') \<longleftrightarrow> x = fst (k (co_ws c)) \<and> c' = c\<lparr>co_ws := snd (k (co_ws c))\<rparr>"
  by (auto simp: onServer_def Let_def case_prod_unfold)

lemma run_caught [act_run]: "caught m c = (Inr None, c') \<longleftrightarrow> m c = (Inr (), c')"
  by (auto simp: caught_def split: prod.splits sum.splits)

lemma run_event [act_run]:
  "record_event E et pl by' tt ti c = (r, c') \<longleftrightarrow>
     r = Inr () \<and> c' = (set_db (recordEvent (ev_now (ae_ev E)) et pl by' tt ti (co_db c)) c)
       \<lparr>co_jobs := co_jobs c @ [enqueue_job (ae_payload E) (ev_now (ae_ev E)) et pl]\<rparr>"
  by (auto simp: record_event_def Let_def set_db_def)

lemma run_require [act_run]:
  "requireAdmin E c = (Inr by', c') \<longleftrightarrow> fst (requireAdmin E c) = Inr by' \<and> c' = c"
  by (auto simp: requireAdmin_def throw_def give_def split: option.splits)

lemma set_db_fields [simp]:
  "co_db (set_db d c) = d" "co_jobs (set_db d c) = co_jobs c" "co_users (set_db d c) = co_users c"
  "co_links (set_db d c) = co_links c" "ws_open (co_ws (set_db d c)) = ws_open (co_ws c)"
  "ws_connected (co_ws (set_db d c)) = ws_connected (co_ws c)"
  by (simp_all add: set_db_def)

lemma recordEvent_fields [simp]:
  "tb_certs (recordEvent now et pl pb tt ti d) = tb_certs d"
  "tb_actors (recordEvent now et pl pb tt ti d) = tb_actors d"
  "tb_killSwitches (recordEvent now et pl pb tt ti d) = tb_killSwitches d"
  "tb_pending (recordEvent now et pl pb tt ti d) = tb_pending d"
  "tb_workspaces (recordEvent now et pl pb tt ti d) = tb_workspaces d"
  "tb_customCaps (recordEvent now et pl pb tt ti d) = tb_customCaps d"
  by (simp_all add: recordEvent_def audit_create_def)

section \<open>Revoking a list\<close>

definition revoked_row :: "admin_env \<Rightarrow> string \<Rightarrow> string \<Rightarrow> certificate_row \<Rightarrow> certificate_row" where
  "revoked_row E who why r = r\<lparr>c_status := Revoked, c_revokedAt := Some (ev_now (ae_ev E)),
     c_revokedBy := Some who, c_revokedReason := Some why\<rparr>"

lemma revoked_row_key [simp]: "c_id (revoked_row E who why r) = c_id r"
  by (simp add: revoked_row_def)

lemma revoke_all_run:
  "list_all (\<lambda>i. row_find c_id i (tb_certs (co_db c)) \<noteq> None) ids \<Longrightarrow>
     revoke_all E who why ids c =
       (Inr (), set_db ((co_db c)\<lparr>tb_certs := row_map (\<lambda>r. c_id r \<in> set ids) (revoked_row E who why) (tb_certs (co_db c))\<rparr>) c)"
proof (induction ids arbitrary: c)
  case Nil
  then show ?case by (simp add: give_def set_db_def row_map_def)
next
  case (Cons i ids)
  let ?f = "revoked_row E who why"
  let ?t = "row_map (\<lambda>r. c_id r = i) ?f (tb_certs (co_db c))"
  obtain r where r: "row_find c_id i (tb_certs (co_db c)) = Some r" using Cons.prems by auto
  then have "dao (cert_revoke (ev_now (ae_ev E)) i who why) c = (Inr (?f r), set_db ((co_db c)\<lparr>tb_certs := ?t\<rparr>) c)"
    by (simp add: dao_def cert_revoke_def row_update_def revoked_row_def [abs_def])
  moreover have "list_all (\<lambda>j. row_find c_id j ?t \<noteq> None) ids"
    using Cons.prems by (simp add: row_find_map list_all_iff)
  moreover have "row_map (\<lambda>r. c_id r \<in> set ids) ?f ?t = row_map (\<lambda>r. c_id r \<in> set (i # ids)) ?f (tb_certs (co_db c))"
    by (auto simp: row_map_def revoked_row_def)
  ultimately show ?case
    using Cons.IH [of "set_db ((co_db c)\<lparr>tb_certs := ?t\<rparr>) c"] by (simp add: andThen_def set_db_def)
qed

lemma revoke_all_of:
  assumes "ids = map c_id (filter P (tb_certs (co_db c)))" and "unique_keys c_id (tb_certs (co_db c))"
  shows "revoke_all E who why ids c =
    (Inr (), set_db ((co_db c)\<lparr>tb_certs := row_map P (revoked_row E who why) (tb_certs (co_db c))\<rparr>) c)"
proof -
  have "c_id r \<in> set ids \<longleftrightarrow> P r" if "r \<in> set (tb_certs (co_db c))" for r
    using that assms by (auto simp: unique_keys_def distinct_map inj_on_def)
  then have "row_map (\<lambda>r. c_id r \<in> set ids) (revoked_row E who why) (tb_certs (co_db c))
      = row_map P (revoked_row E who why) (tb_certs (co_db c))"
    by (simp add: row_map_def)
  moreover have "list_all (\<lambda>i. row_find c_id i (tb_certs (co_db c)) \<noteq> None) ids"
    using assms(1) by (auto simp: list_all_iff row_find_None_iff)
  ultimately show ?thesis by (simp add: revoke_all_run)
qed

text \<open>Only the journal and the sockets change in the calls of the server.\<close>

lemma tell_holders_run:
  "tell_holders lib E why ids dids c = (r, c') \<Longrightarrow>
     r = Inr () \<and> co_db c' = co_db c \<and> co_jobs c' = co_jobs c \<and> co_users c' = co_users c"
proof (induction dids arbitrary: c)
  case (Cons did dids)
  have n: "ws_db (snd (notifyCapabilitiesChanged did why (Some ids) st)) = ws_db st"
    "ws_db (snd (pushActorConfig lib ev did st)) = ws_db st" for st ev
    by (simp_all add: notifyCapabilitiesChanged_def pushActorConfig_def split: option.split)
  from Cons.prems have "tell_holders lib E why ids dids
      (c\<lparr>co_ws := snd (pushActorConfig lib (ae_ev E) did (snd (notifyCapabilitiesChanged did why (Some ids) (co_ws c))))\<rparr>) = (r, c')"
    by (simp add: andThen_def tell_changed_def push_config_def onServer_def give_def case_prod_unfold Let_def)
  from Cons.IH [OF this] n show ?case by simp
qed (simp add: give_def)

section \<open>Every action\<close>




text \<open>A console with one admin and one Actor, for evaluation.\<close>

definition desk_cert :: "string \<Rightarrow> string \<Rightarrow> string \<Rightarrow> certificate_row" where
  "desk_cert cid did cap = \<lparr>c_id = cid, c_agentDid = did, c_workspaceId = None, c_capabilities = [cap],
     c_resourceLimits = None, c_scope = None, c_certFormat = ''packcert'', c_certificate = [],
     c_requestCertificate = None, c_status = Active, c_issuedBy = None, c_issuedAt = 0, c_expiresAt = None,
     c_revokedAt = None, c_revokedBy = None, c_revokedReason = None\<rparr>"

definition desk_actor :: "string \<Rightarrow> string \<Rightarrow> string \<Rightarrow> string option \<Rightarrow> actor_row" where
  "desk_actor did nm kind ws = \<lparr>a_did = did, a_name = nm, a_kind = kind, a_publicKey = None, a_workspaceId = ws,
     a_declaredCapabilities = None, a_kindConfig = [], a_registeredAt = 0, a_lastSeen = 0, a_ownerDid = None\<rparr>"

definition desk_workspace :: workspace_row where
  "desk_workspace = \<lparr>w_id = ''w'', w_name = ''Ops'', w_slug = ''ops'', w_description = None, w_color = ''#6366f1'',
     w_isDefault = False, w_createdAt = 0, w_certFailMode = None, w_certStapleTtlSeconds = None\<rparr>"

definition desk_db :: db where
  "desk_db = empty_db\<lparr>tb_actors := [desk_actor ''did:h'' ''H'' ''human'' None, desk_actor ''did:a'' ''A'' ''openclaw'' (Some ''w'')],
     tb_workspaces := [desk_workspace],
     tb_certs := [desk_cert ''c1'' ''did:h'' ''admin_console_access'', desk_cert ''k'' ''did:a'' ''acme:deploy''],
     tb_pending := [\<lparr>p_id = ''p'', p_did = ''did:a'', p_publicKey = None, p_sessionId = ''s'', p_name = ''A'',
        p_kind = ''openclaw'', p_status = Pending, p_requestedCapabilities = [''file_read''],
        p_assignedCapabilities = [], p_targetWorkspaceId = None, p_createdAt = 0, p_approvedBy = None,
        p_deliveredAt = None\<rparr>],
     tb_customCaps := [\<lparr>cc_id = ''k'', cc_name = ''acme:deploy'', cc_vendor = ''acme'', cc_action = ''deploy'',
        cc_label = ''Deploy'', cc_description = None, cc_group = None, cc_createdBy = ''did:h''\<rparr>]\<rparr>"

definition desk :: "(string, byte list, unit) console" where
  "desk = \<lparr>co_ws = demo_asking\<lparr>ws_db := desk_db\<rparr>, co_users = [\<lparr>us_did = ''did:h'', us_email = Some ''h'', us_profileCompletedAt = None\<rparr>,
       \<lparr>us_did = ''did:i'', us_email = Some ''i'', us_profileCompletedAt = None\<rparr>],
     co_links = [], co_jobs = []\<rparr>"

definition desk_env :: admin_env where
  "desk_env = \<lparr>ae_ev = demo_env 0, ae_session = Some (''did:h'', None),
     ae_payload = \<lparr>pe_iso = (\<lambda>_. []), pe_appUrl = None, pe_nextauthUrl = None\<rparr>,
     ae_uuid2 = ''u2'', ae_rawToken = ''t'', ae_hashToken = (\<lambda>t. t), ae_json = (\<lambda>_. None)\<rparr>"

lemma desk_run: "requireAdmin desk_env desk = (Inr \<lparr>pb_did = ''did:h'', pb_name = Some ''Unnamed''\<rparr>, desk)"
  by (simp add: requireAdmin_def desk_env_def desk_def hasCapability_def demo_env_def desk_db_def
      empty_db_def desk_cert_def cert_findAllForActor_def toLite_def resolvePermission_find grants_def isUsable_def
      scopeMatches_def truthy_def give_def)


end
