(* ===== verification/AdminEffects.thy ===== *)
theory AdminEffects
  imports AdminSafety
begin

text \<open>
  The effects of the actions that end authority: arming a kill switch, approving a registration, and
  deleting a custom capability, a workspace or an Actor.
\<close>

section \<open>Deleting a capability\<close>

lemma affected_ids:
  "registry_findAffectedCertIds nm d =
     map c_id (filter (\<lambda>r. c_status r = Active \<and> nm \<in> set (c_capabilities r)) (tb_certs d))"
  by (simp add: registry_findAffectedCertIds_def conj_commute)

text \<open>Deleting a custom capability that succeeds revokes exactly the active certificates
  that name it, changes no other row of the ledger, and takes the name out of the registry; the entry
  it leaves counts the certificates revoked.\<close>

theorem capability_delete_revokes:
  assumes "deleteCapabilityAction lib E f c = (Inr (), c')"
    and "registry_findById (text_of (form_get f ''id'')) (co_db c) = Some cap" and "db_wf (co_db c)"
  shows "\<exists>who why. tb_certs (co_db c') =
        row_map (\<lambda>r. c_status r = Active \<and> cc_name cap \<in> set (c_capabilities r)) (revoked_row E who why) (tb_certs (co_db c))
     \<and> cc_name cap \<notin> set (registry_names (co_db c'))
     \<and> (\<exists>e. tb_audit (co_db c') = tb_audit (co_db c) @ [e] \<and> al_eventType e = ''capability.deleted''
          \<and> map_of (al_details e) ''affectedGrants'' = Some (JNum (int (length
              (filter (\<lambda>r. c_status r = Active \<and> cc_name cap \<in> set (c_capabilities r)) (tb_certs (co_db c)))))))"
proof -
  let ?P = "\<lambda>r. c_status r = Active \<and> cc_name cap \<in> set (c_capabilities r)"
  let ?ids = "registry_findAffectedCertIds (cc_name cap) (co_db c)"
  from assms(1,2) obtain by' d1 c2 c3 c4 c5 holders where
    del: "registry_delete (text_of (form_get f ''id'')) (co_db c) = Inr d1"
    and rev: "revoke_all E (pb_did by') (''Custom capability '' @ [CHR 34] @ cc_name cap @ [CHR 34] @ '' was removed from the registry'')
        ?ids (set_db d1 c) = (Inr (), c2)"
    and ev: "capability_event E ''capability.deleted'' cap [(''affectedGrants'', JNum (int (length ?ids)))] by' c2 = (Inr (), c3)"
    and reg: "tell_registry RegDeleted (cc_name cap) c3 = (Inr (), c4)"
    and tell: "tell_holders lib E CapabilityDeleted ?ids holders c4 = (Inr (), c')"
    by (auto simp: deleteCapabilityAction_def Let_def act_run)
  have d1: "tb_certs d1 = tb_certs (co_db c)" "tb_audit d1 = tb_audit (co_db c)"
    "tb_customCaps d1 = filter (\<lambda>r. cc_id r \<noteq> text_of (form_get f ''id'')) (tb_customCaps (co_db c))"
    using del by (auto simp: registry_delete_def row_delete_Inr)
  have u: "unique_keys c_id (tb_certs (co_db (set_db d1 c)))" using assms(3) d1 by (simp add: wf_defs)
  have c2: "c2 = set_db (d1\<lparr>tb_certs := row_map ?P (revoked_row E (pb_did by')
      (''Custom capability '' @ [CHR 34] @ cc_name cap @ [CHR 34] @ '' was removed from the registry'')) (tb_certs (co_db c))\<rparr>) c"
    using revoke_all_of [of ?ids ?P "set_db d1 c", OF _ u] rev d1 by (simp add: affected_ids set_db_def)
  have c4: "co_db c4 = co_db c3"
    using reg by (auto simp: tell_registry_def act_run notifyCapabilityRegistryChanged_def)
  from tell_holders_run [OF tell] have c': "co_db c' = co_db c3" using c4 by simp
  have gone: "cc_name cap \<notin> cc_name ` set (tb_customCaps d1)"
  proof -
    from assms(2) have m: "cap \<in> set (tb_customCaps (co_db c))" "cc_id cap = text_of (form_get f ''id'')"
      by (auto simp: registry_findById_def dest: row_find_Some_D)
    have "cc_name ` set (filter (\<lambda>x. cc_id x \<noteq> cc_id cap) (tb_customCaps (co_db c)))
        = cc_name ` set (tb_customCaps (co_db c)) - {cc_name cap}"
      by (rule unique_other_column [OF _ _ m(1)]) (use assms(3) in \<open>simp_all add: wf_defs\<close>)
    then show ?thesis unfolding d1(3) m(2) [symmetric] by simp
  qed
  show ?thesis
    using ev gone unfolding c' c2
    by (intro exI [of _ "pb_did by'"] exI)
       (auto simp: capability_event_def act_run recordEvent_def audit_create_def d1 registry_names_def affected_ids
         customCapabilityPayload_def)
qed

section \<open>Deleting a workspace\<close>

definition scoped_to :: "string \<Rightarrow> certificate_row \<Rightarrow> bool" where
  "scoped_to wid r \<longleftrightarrow> c_status r = Active \<and>
     (c_workspaceId r = Some wid \<or> Option.bind (c_scope r) resource = Some (''workspace:'' @ wid))"

text \<open>Deleting a workspace that succeeds revokes exactly the active certificates filed
  under it or scoped to it and clears its name from the rest; its Actors lose their workspace; and a
  kill switch armed for it goes with it, the only switch that does, so Actors it held are released.\<close>

theorem workspace_delete_revokes:
  assumes "deleteWorkspaceAction lib E f c = (Inr None, c')" and "db_wf (co_db c)"
    and "wid = text_of (form_get f ''id'')"
  shows "\<exists>who why. tb_certs (co_db c') = row_map (\<lambda>r. c_workspaceId r = Some wid) (\<lambda>r. r\<lparr>c_workspaceId := None\<rparr>)
         (row_map (scoped_to wid) (revoked_row E who why) (tb_certs (co_db c)))
     \<and> tb_actors (co_db c') = row_map (\<lambda>r. a_workspaceId r = Some wid) (\<lambda>r. r\<lparr>a_workspaceId := None\<rparr>) (tb_actors (co_db c))
     \<and> tb_killSwitches (co_db c') = filter (\<lambda>k. k_workspaceId k \<noteq> Some wid) (tb_killSwitches (co_db c))"
proof -
  let ?ids = "map c_id (workspace_listActiveScopedCertificates wid (co_db c))"
  obtain who why pl by' c2 c3 d4 ids holders where
    rev: "revoke_all E who why ?ids c = (Inr (), c2)"
    and ev: "record_event E ''workspace.deleted'' pl by' (Some ''workspace'') (Some wid) c2 = (Inr (), c3)"
    and del: "workspace_delete wid (co_db c3) = Inr d4"
    and tell: "tell_holders lib E CertificateRevoked ids holders (set_db d4 c3) = (Inr (), c')"
    using assms(1,3) by (auto simp: deleteWorkspaceAction_def Let_def act_run simp del: run_event)
  have u: "unique_keys c_id (tb_certs (co_db c))" using assms(2) by (simp add: wf_defs)
  have "?ids = map c_id (filter (scoped_to wid) (tb_certs (co_db c)))"
    by (simp add: workspace_listActiveScopedCertificates_def scoped_to_def [abs_def])
  from revoke_all_of [OF this u] rev
  have "c2 = set_db ((co_db c)\<lparr>tb_certs := row_map (scoped_to wid) (revoked_row E who why) (tb_certs (co_db c))\<rparr>) c"
    by simp
  then have c3: "tb_certs (co_db c3) = row_map (scoped_to wid) (revoked_row E who why) (tb_certs (co_db c))"
    "tb_actors (co_db c3) = tb_actors (co_db c)" "tb_killSwitches (co_db c3) = tb_killSwitches (co_db c)"
    using ev by (simp_all add: run_event)
  have d4: "tb_certs d4 = row_map (\<lambda>r. c_workspaceId r = Some wid) (\<lambda>r. r\<lparr>c_workspaceId := None\<rparr>) (tb_certs (co_db c3))
     \<and> tb_actors d4 = row_map (\<lambda>r. a_workspaceId r = Some wid) (\<lambda>r. r\<lparr>a_workspaceId := None\<rparr>) (tb_actors (co_db c3))
     \<and> tb_killSwitches d4 = filter (\<lambda>k. k_workspaceId k \<noteq> Some wid) (tb_killSwitches (co_db c3))"
    using del by (auto simp: workspace_delete_def)
  from tell_holders_run [OF tell] have "co_db c' = d4" by simp
  with d4 show ?thesis unfolding c3 by blast
qed

section \<open>Deleting an Actor\<close>

text \<open>After an Actor is deleted no certificate it held can be looked up any more, although
  each was revoked a moment before: a status query for one, from anybody, is answered with an
  unsigned error and never with a signed revocation, and only the audit entry still lists them.\<close>

theorem deleted_actor_unanswered:
  assumes "deleteActorAction E f c = (Inr None, c')" and "did = text_of (form_get f ''did'')"
    and "db_wf (co_db c)" and "cert \<in> set (tb_certs (co_db c))" and "c_agentDid cert = did"
    and "ws_db st = co_db c'" and "map_of (ws_bySender st) s = Some who" and "who \<noteq> []"
    and "map_of (ws_connected st) who = Some requester"
    and "verifyCertStatusRequestCert (lb_certs lib) (ca_remoteVid requester) token = Some body"
    and "sr_certId body = c_id cert"
  shows "handleCertStatusRequest lib ev s (Some token) st = sendError s (''Unknown certificate: '' @ c_id cert) st
     \<and> actor_findByDid did (co_db c') = None
     \<and> (\<exists>e. tb_audit (co_db c') = tb_audit (co_db c) @ [e] \<and> al_eventType e = ''actor.deleted''
          \<and> map_of (al_details e) ''revokedCertificateIds''
              = Some (jstrs (map c_id (cert_list (Some did) (Some Active) (co_db c)))))"
proof -
  let ?ids = "map c_id (cert_list (Some did) (Some Active) (co_db c))"
  obtain who why pl by' actor c2 c3 d4 where
    rev: "revoke_all E who why ?ids c = (Inr (), c2)"
    and ev: "record_event E ''actor.deleted'' (actorDeletedPayload actor ?ids @ pl) by' (Some ''actor'') (Some did) c2
       = (Inr (), c3)"
    and del: "actor_delete did (co_db c3) = Inr d4" and d4: "co_db c' = d4"
    using assms(1,2)
    by (auto simp: deleteActorAction_def Let_def act_run delete_actor_rows_def disconnect_def closeSender_def
        split: option.splits simp del: run_event)
  have "list_all (\<lambda>i. row_find c_id i (tb_certs (co_db c)) \<noteq> None) ?ids"
    by (auto simp: list_all_iff cert_list_def row_find_None_iff)
  from revoke_all_run [OF this, of E who why] rev
  have "c2 = set_db ((co_db c)\<lparr>tb_certs := row_map (\<lambda>r. c_id r \<in> set ?ids) (revoked_row E who why) (tb_certs (co_db c))\<rparr>) c"
    by simp
  with ev have c3: "tb_certs (co_db c3) = row_map (\<lambda>r. c_id r \<in> set ?ids) (revoked_row E who why) (tb_certs (co_db c))"
    "\<exists>e. tb_audit (co_db c3) = tb_audit (co_db c) @ [e] \<and> al_eventType e = ''actor.deleted''
          \<and> map_of (al_details e) ''revokedCertificateIds'' = Some (jstrs ?ids)"
    by (simp_all add: run_event recordEvent_def audit_create_def actorDeletedPayload_def)
  have d4': "tb_certs d4 = filter (\<lambda>r. c_agentDid r \<noteq> did) (tb_certs (co_db c3))" "tb_audit d4 = tb_audit (co_db c3)"
    "row_find a_did did (tb_actors d4) = None"
    using del by (auto simp: actor_delete_def Let_def row_delete_Inr row_find_None_iff set_row_map)
  have "c_agentDid r = did" if "r \<in> set (tb_certs (co_db c))" "c_id r = c_id cert" for r
    using assms(3-5) that by (auto simp: wf_defs unique_keys_def distinct_map inj_on_def)
  then have "row_find c_id (c_id cert) (tb_certs d4) = None"
    unfolding row_find_None_iff d4' c3(1) by (auto simp: set_row_map revoked_row_def)
  then have "cert_findByIdWithActor (sr_certId body) (ws_db st) = None"
    by (simp add: cert_findByIdWithActor_def assms(6,11) d4)
  then have "handleCertStatusRequest lib ev s (Some token) st = sendError s (''Unknown certificate: '' @ c_id cert) st"
    using assms(7-11) by (simp add: handleCertStatusRequest_def)
  with d4' c3(2) show ?thesis by (simp add: d4 actor_findByDid_def)
qed

section \<open>Arming\<close>

lemma ks_arm_keeps:
  "ks_arm now kid st ws why who d = Inr (k, d') \<Longrightarrow>
     tb_certs d' = tb_certs d \<and> tb_actors d' = tb_actors d \<and> tb_audit d' = tb_audit d"
  by (auto simp: ks_arm_def Let_def split: option.splits)

lemma run_target: "resolveTarget f c = (Inr t, c') \<Longrightarrow> c' = c"
  by (auto simp: resolveTarget_def Let_def act_run split: if_splits)

lemma switch_event_run:
  "switch_event E et t row n who c = (Inr (), c') \<Longrightarrow>
     \<exists>pl. co_ws c' = (co_ws c)\<lparr>ws_db := recordEvent (ev_now (ae_ev E)) et
         (killSwitchPayload (ae_payload E) row (tg_workspaceName t) n @ pl) (Some who)
         (if tg_scopeType t = WorkspaceScope then Some ''workspace'' else None) (tg_workspaceId t) (co_db c)\<rparr>"
  by (auto simp: switch_event_def run_event set_db_def)


section \<open>Approving\<close>

lemma deliver_pending:
  "tb_actors (ws_db (snd (deliverApprovedCapabilities lib ev did st))) = tb_actors (ws_db st)
   \<and> (row_find p_id i (tb_pending (ws_db st)) = Some p \<longrightarrow>
      (\<exists>p'. row_find p_id i (tb_pending (ws_db (snd (deliverApprovedCapabilities lib ev did st)))) = Some p'
         \<and> p_status p' = p_status p \<and> p_assignedCapabilities p' = p_assignedCapabilities p))"
proof -
  have mark: "tb_actors (ws_db (snd (grantOrMark ev s j caps st'))) = tb_actors (ws_db st')
      \<and> (row_find p_id i (tb_pending (ws_db st')) = Some p \<longrightarrow>
      (\<exists>p'. row_find p_id i (tb_pending (ws_db (snd (grantOrMark ev s j caps st')))) = Some p'
         \<and> p_status p' = p_status p \<and> p_assignedCapabilities p' = p_assignedCapabilities p))"
    for s j caps and st' :: "('a, 'b, 'c) ws_state"
    by (auto simp: grantOrMark_def startCertificateIssuance_def pending_markDelivered_def pending_modify_def
        row_update_Inr row_find_map split: sum.split)
  show ?thesis
    by (simp add: deliverApprovedCapabilities_def Let_def mark split: option.split prod.split)
qed

text \<open>Approving a registration whose target workspace is not set, which is every one the server
  files, gives the Actor no workspace even when it had one, so from then on only the org-wide kill
  switch holds it; what it is granted is what the admin ticked and its kind and the registry allow.\<close>

theorem approval_unfiles:
  assumes "approvePendingRegistration lib E rid caps who c = (Inr (), c')"
    and "pending_findById rid (co_db c) = Some r" and "p_targetWorkspaceId r = None"
  shows "\<exists>a p. actor_findByDid (p_did r) (co_db c') = Some a \<and> a_workspaceId a = None
     \<and> suppressionForActor (as_actor a) sw = ks_global sw
     \<and> pending_findById rid (co_db c') = Some p \<and> p_status p = Approved
     \<and> p_assignedCapabilities p
         = filter (\<lambda>x. x \<in> set (grantableCapabilitiesForKind (p_kind r) (ev_registry (ae_ev E)))) caps"
proof -
  let ?au = "\<lparr>au_did = p_did r, au_name = p_name r, au_kind = p_kind r, au_publicKey = p_publicKey r,
    au_workspaceId = p_targetWorkspaceId r, au_kindConfig = None\<rparr>"
  let ?granted = "filter (\<lambda>x. x \<in> set (grantableCapabilitiesForKind (p_kind r) (ev_registry (ae_ev E)))) caps"
  obtain actor d1 c2 row d3 where reg: "isRegisterableKind (p_kind r)"
    and up: "actor_upsert (ev_now (ae_ev E)) ?au (co_db c) = Inr (actor, d1)"
    and ev: "record_event E ''actor.approved'' (actor_event E actor who @ [(''grantedCapabilities'', jstrs ?granted)])
        (Some who) (Some ''actor'') (Some (a_did actor)) (set_db d1 c) = (Inr (), c2)"
    and ap: "pending_approve rid ?granted (pb_did who) (p_targetWorkspaceId r) (co_db c2) = Inr (row, d3)"
    and c': "co_ws c' = snd (deliverApprovedCapabilities lib (ae_ev E) (p_did r) (co_ws (set_db d3 c2)))"
    using assms(1,2)
    by (auto simp: approvePendingRegistration_def Let_def act_run simp del: run_event split: option.splits)
  have a1: "actor_findByDid (p_did r) d1 = Some actor" "a_workspaceId actor = None" "a_kind actor = p_kind r"
    using up assms(3)
    by (auto simp: actor_upsert_def Let_def actor_findByDid_def row_find_append row_find_map actor_upsert_fields_def
        dest: row_find_Some_D split: option.splits)
  have p3: "row_find p_id rid (tb_pending d3) = Some row" "p_status row = Approved" "p_assignedCapabilities row = ?granted"
    "tb_actors d3 = tb_actors (co_db c2)"
    using ap by (auto simp: pending_approve_def pending_modify_def row_update_Inr row_find_map dest: row_find_Some_D)
  from deliver_pending [of lib "ae_ev E" "p_did r" "co_ws (set_db d3 c2)" rid row] p3 c' a1 ev [unfolded run_event]
  have "actor_findByDid (p_did r) (co_db c') = Some actor"
    "\<exists>p. pending_findById rid (co_db c') = Some p \<and> p_status p = Approved \<and> p_assignedCapabilities p = ?granted"
    by (auto simp: actor_findByDid_def pending_findById_def)
  moreover have "suppressionForActor (as_actor actor) sw = ks_global sw"
    using registerable_not_human [OF reg] a1
    by (auto simp: suppressionForActor_def suppressionFor_def as_actor_def candidates_def scope_workspace_def split: option.split)
  ultimately show ?thesis using a1(2) by blast
qed

section \<open>Witnesses\<close>

lemma desk_wf: "db_wf (co_db desk)"
  by (simp add: desk_def desk_db_def empty_db_def wf_defs desk_actor_def desk_cert_def desk_workspace_def
      unique_keys_def points_def points_opt_def) code_simp

lemma desk_rows:
  "tb_certs (co_db desk) = [desk_cert ''c1'' ''did:h'' ''admin_console_access'', desk_cert ''k'' ''did:a'' ''acme:deploy'']"
  "tb_actors (co_db desk) = [desk_actor ''did:h'' ''H'' ''human'' None, desk_actor ''did:a'' ''A'' ''openclaw'' (Some ''w'')]"
  "tb_killSwitches (co_db desk) = []"
  by (simp_all add: desk_def desk_db_def empty_db_def)

lemma desk_capability_run:
  "fst (deleteCapabilityAction demo_lib desk_env [(''id'', ''k''), (''confirmName'', ''acme:deploy'')] desk) = Inr ()"
  by code_simp

lemma desk_capability: "registry_findById (text_of (form_get [(''id'', ''k''), (''confirmName'', ''acme:deploy'')] ''id'')) (co_db desk)
    = Some \<lparr>cc_id = ''k'', cc_name = ''acme:deploy'', cc_vendor = ''acme'', cc_action = ''deploy'',
        cc_label = ''Deploy'', cc_description = None, cc_group = None, cc_createdBy = ''did:h''\<rparr>"
  by code_simp

theorem capability_delete_revokes_witness:
  "\<exists>c' (e :: audit_row). deleteCapabilityAction demo_lib desk_env [(''id'', ''k''), (''confirmName'', ''acme:deploy'')] desk = (Inr (), c')
     \<and> map c_status (tb_certs (co_db c')) = [Active, Revoked] \<and> ''acme:deploy'' \<notin> set (registry_names (co_db c'))
     \<and> map_of (al_details e) ''affectedGrants'' = Some (JNum 1)"
proof -
  obtain c' where r: "deleteCapabilityAction demo_lib desk_env [(''id'', ''k''), (''confirmName'', ''acme:deploy'')] desk = (Inr (), c')"
    using desk_capability_run by (metis fst_conv surj_pair)
  let ?P = "\<lambda>r. c_status r = Active \<and> ''acme:deploy'' \<in> set (c_capabilities r)"
  from capability_delete_revokes [OF r desk_capability desk_wf] obtain who why and e :: audit_row where
    eff: "tb_certs (co_db c') = row_map ?P (revoked_row desk_env who why) (tb_certs (co_db desk))"
      "''acme:deploy'' \<notin> set (registry_names (co_db c'))"
      "map_of (al_details e) ''affectedGrants'' = Some (JNum (int (length (filter ?P (tb_certs (co_db desk))))))"
    unfolding custom_capability_row.simps by (elim exE conjE) (rule that; assumption)
  have "map c_status (tb_certs (co_db c')) = [Active, Revoked]" "map_of (al_details e) ''affectedGrants'' = Some (JNum 1)"
    unfolding eff(1,3) by (simp_all add: desk_rows row_map_def desk_cert_def revoked_row_def)
  moreover note eff(2)
  ultimately show ?thesis using r by (intro exI conjI)
qed

lemma desk_workspace_run:
  "fst (deleteWorkspaceAction demo_lib desk_env [(''id'', ''w''), (''confirmName'', ''Ops'')] desk) = Inr None"
  by code_simp

theorem workspace_delete_revokes_witness:
  "\<exists>c'. deleteWorkspaceAction demo_lib desk_env [(''id'', ''w''), (''confirmName'', ''Ops'')] desk = (Inr None, c')
     \<and> map a_workspaceId (tb_actors (co_db c')) = [None, None] \<and> tb_killSwitches (co_db c') = []"
proof -
  obtain c' where r: "deleteWorkspaceAction demo_lib desk_env [(''id'', ''w''), (''confirmName'', ''Ops'')] desk = (Inr None, c')"
    using desk_workspace_run by (metis fst_conv surj_pair)
  let ?w = "text_of (form_get [(''id'', ''w''), (''confirmName'', ''Ops'')] ''id'')"
  have "tb_actors (co_db c') = row_map (\<lambda>r. a_workspaceId r = Some ?w) (\<lambda>r. r\<lparr>a_workspaceId := None\<rparr>) (tb_actors (co_db desk))
     \<and> tb_killSwitches (co_db c') = filter (\<lambda>k. k_workspaceId k \<noteq> Some ?w) (tb_killSwitches (co_db desk))"
    using workspace_delete_revokes [OF r desk_wf refl] by (elim exE conjE) (intro conjI; assumption)
  then have "map a_workspaceId (tb_actors (co_db c')) = [None, None] \<and> tb_killSwitches (co_db c') = []"
    unfolding desk_rows by (simp add: row_map_def desk_actor_def text_of_def form_get_def)
  then have "map a_workspaceId (tb_actors (co_db c')) = [None, None]" "tb_killSwitches (co_db c') = []" by simp_all
  with r show ?thesis by (intro exI conjI)
qed

lemma desk_actor_run:
  "fst (deleteActorAction desk_env [(''did'', ''did:a''), (''confirmName'', ''A'')] desk) = Inr None"
  by code_simp

theorem deleted_actor_unanswered_witness:
  "\<exists>c'. deleteActorAction desk_env [(''did'', ''did:a''), (''confirmName'', ''A'')] desk = (Inr None, c')
     \<and> handleCertStatusRequest demo_asking_lib (demo_env 0) 0 (Some (demo_pack [0])) (demo_asking\<lparr>ws_db := co_db c'\<rparr>)
       = sendError 0 (''Unknown certificate: '' @ ''k'') (demo_asking\<lparr>ws_db := co_db c'\<rparr>)"
proof -
  obtain c' where r: "deleteActorAction desk_env [(''did'', ''did:a''), (''confirmName'', ''A'')] desk = (Inr None, c')"
    using desk_actor_run by (metis fst_conv surj_pair)
  let ?st = "demo_asking\<lparr>ws_db := co_db c'\<rparr>" and ?k = "desk_cert ''k'' ''did:a'' ''acme:deploy''"
  have "''did:a'' = text_of (form_get [(''did'', ''did:a''), (''confirmName'', ''A'')] ''did'')"
    by (simp add: text_of_def form_get_def)
  moreover have "?k \<in> set (tb_certs (co_db desk))" "c_agentDid ?k = ''did:a''" "c_id ?k = ''k''"
    by (simp_all add: desk_def desk_db_def desk_cert_def)
  moreover have "map_of (ws_bySender ?st) 0 = Some ''did:a''" using demo_asking_rows(1) by simp
  moreover have "map_of (ws_connected ?st) ''did:a'' = Some \<lparr>ca_did = ''did:a'', ca_name = ''a'', ca_kind = ''openclaw'',
      ca_sender = 0, ca_remoteVid = ''did:a'', ca_connectedAt = 1000, ca_lastSeen = 1000\<rparr>"
    using demo_asking_rows(2) by simp
  ultimately have "handleCertStatusRequest demo_asking_lib (demo_env 0) 0 (Some (demo_pack [0])) ?st
      = sendError 0 (''Unknown certificate: '' @ ''k'') ?st"
    using deleted_actor_unanswered [OF r _ desk_wf, of "''did:a''" ?k ?st 0 "''did:a''" _ demo_asking_lib "demo_pack [0]",
        OF _ _ _ _ _ _ _ demo_asking_request]
    by simp
  with r show ?thesis by blast
qed

lemma desk_arm_run:
  "fst (armKillSwitchAction desk_env [(''scope'', ''global''), (''reason'', ''breach''), (''confirm'', ''ARM'')] desk) = Inr ()"
  by code_simp


definition desk_registration :: pending_row where
  "desk_registration = hd (tb_pending desk_db)"

lemma desk_approve_run:
  "fst (approvePendingRegistration demo_lib desk_env ''p'' [''file_read'', ''admin_console_access'']
      \<lparr>pb_did = ''did:h'', pb_name = None\<rparr> desk) = Inr ()"
  by code_simp

text \<open>The Actor was filed under the workspace \<open>w\<close>.\<close>

theorem approval_unfiles_witness:
  "\<exists>c' a p. approvePendingRegistration demo_lib desk_env ''p'' [''file_read'', ''admin_console_access'']
       \<lparr>pb_did = ''did:h'', pb_name = None\<rparr> desk = (Inr (), c')
     \<and> map_option a_workspaceId (actor_findByDid ''did:a'' (co_db desk)) = Some (Some ''w'')
     \<and> actor_findByDid ''did:a'' (co_db c') = Some a \<and> a_workspaceId a = None
     \<and> pending_findById ''p'' (co_db c') = Some p \<and> p_assignedCapabilities p = [''file_read'']"
proof -
  obtain c' where r: "approvePendingRegistration demo_lib desk_env ''p'' [''file_read'', ''admin_console_access'']
      \<lparr>pb_did = ''did:h'', pb_name = None\<rparr> desk = (Inr (), c')"
    using desk_approve_run by (metis fst_conv surj_pair)
  have p: "pending_findById ''p'' (co_db desk) = Some desk_registration" "p_targetWorkspaceId desk_registration = None"
    "p_did desk_registration = ''did:a''" "p_kind desk_registration = ''openclaw''"
    by (simp_all add: pending_findById_def desk_def desk_registration_def desk_db_def row_find_def)
  have g: "filter (\<lambda>x. x \<in> set (grantableCapabilitiesForKind ''openclaw'' (ev_registry (ae_ev desk_env))))
      [''file_read'', ''admin_console_access''] = [''file_read'']"
    by code_simp
  have "map_option a_workspaceId (actor_findByDid ''did:a'' (co_db desk)) = Some (Some ''w'')"
    by (simp add: actor_findByDid_def desk_def desk_db_def row_find_def desk_actor_def)
  with approval_unfiles [OF r p(1,2)] r show ?thesis
    unfolding p g by blast
qed

section \<open>A failing edit\<close>

lemma fail_pieces:
  "\<not> give x c = (Inl e, c')"
  "andThen m g c = (Inl e, c') \<longleftrightarrow> m c = (Inl e, c') \<or> (\<exists>x c1. m c = (Inr x, c1) \<and> g x c1 = (Inl e, c'))"
  "refuse_when b r m' c = (Inl e, c') \<longleftrightarrow> (b \<and> e = Refused r \<and> c' = c) \<or> (\<not> b \<and> m' c = (Inl e, c'))"
  "require ov r c = (Inl e, c') \<longleftrightarrow> ov = None \<and> e = Refused r \<and> c' = c"
  "\<not> reading h c = (Inl e, c')"
  "dao w c = (Inl e, c') \<longleftrightarrow> (\<exists>x. w (co_db c) = Inl x \<and> e = DbFailed x \<and> c' = c)"
  "\<not> record_event E et pl pb tt ti c = (Inl e, c')"
  by (auto simp: give_def throw_def andThen_def refuse_when_def require_def reading_def dao_def record_event_def Let_def
      split: prod.splits sum.splits option.splits)

text \<open>Saving a human's profile under an e-mail address somebody else holds throws, but only after the
  name, workspace and owner of the Actor were written: the edit stays, and neither the audit log nor
  the event queue hears of it.\<close>

theorem taken_email_half_saves:
  assumes "updateActorAction E f c = (Inl (DbFailed UniqueViolation), c')"
  shows "\<exists>a. actor_findByDid (text_of (form_get f ''did'')) (co_db c') = Some a
     \<and> Some (a_name a) = form_trim f ''name''
     \<and> a_workspaceId a = or_null (form_get f ''workspaceId'') \<and> a_ownerDid a = or_null (form_get f ''ownerDid'')
     \<and> tb_audit (co_db c') = tb_audit (co_db c) \<and> co_jobs c' = co_jobs c \<and> co_users c' = co_users c"
proof -
  obtain actor d1 c1 where up: "actor_update (text_of (form_get f ''did'')) (form_trim f ''name'')
      (Some (or_null (form_get f ''workspaceId''))) (Some (or_null (form_get f ''ownerDid''))) (co_db c) = Inr (actor, d1)"
    and c': "c' = set_db d1 c" and nm: "truthy (form_trim f ''name'')"
    using assms
    by (auto simp: updateActorAction_def Let_def fail_pieces act_run requireAdmin_def throw_def give_def actor_update_def
        user_updateEmail_def user_markProfileCompleted_def row_update_def throw_when_def
        split: if_splits option.splits prod.splits)
  from nm obtain n where "form_trim f ''name'' = Some n" by (auto simp: truthy_def split: option.splits)
  with up show ?thesis
    by (auto simp: c' actor_update_def row_update_Inr actor_findByDid_def row_find_map actor_update_fields_def
        dest: row_find_Some_D)
qed

lemma desk_update_run:
  "fst (updateActorAction desk_env [(''did'', ''did:h''), (''name'', ''New''), (''email'', ''i'')] desk)
     = Inl (DbFailed UniqueViolation)"
  by code_simp

theorem taken_email_half_saves_witness:
  "\<exists>c' a. updateActorAction desk_env [(''did'', ''did:h''), (''name'', ''New''), (''email'', ''i'')] desk
       = (Inl (DbFailed UniqueViolation), c')
     \<and> actor_findByDid ''did:h'' (co_db c') = Some a \<and> a_name a = ''New'' \<and> tb_audit (co_db c') = tb_audit (co_db desk)"
proof -
  obtain c' where r: "updateActorAction desk_env [(''did'', ''did:h''), (''name'', ''New''), (''email'', ''i'')] desk
      = (Inl (DbFailed UniqueViolation), c')"
    using desk_update_run by (metis fst_conv surj_pair)
  have f: "text_of (form_get [(''did'', ''did:h''), (''name'', ''New''), (''email'', ''i'')] ''did'') = ''did:h''"
    "form_trim [(''did'', ''did:h''), (''name'', ''New''), (''email'', ''i'')] ''name'' = Some ''New''"
    by code_simp+
  from taken_email_half_saves [OF r, unfolded f] obtain a where "actor_findByDid ''did:h'' (co_db c') = Some a"
    "a_name a = ''New''" "tb_audit (co_db c') = tb_audit (co_db desk)"
    by auto
  with r show ?thesis by (intro exI conjI)
qed

end
