(* ===== verification/Notifications.thy ===== *)
theory Notifications
  imports WebhookPayloads
begin

text \<open>
  The event catalog shared by the control plane and the dispatcher (\<open>packages/shared/src/webhooks.ts\<close>),
  and the texts of the notification channels (\<open>packages/webhook-dispatcher/src/render.ts\<close>).

  A payload is a JSON value. Strings hold code units below 256: an arrow is written \<open>->\<close> and a dash
  \<open>--\<close>. The descriptions of the catalog, shown in the console only, are left out. A renderer or the
  footer may throw (\<open>Inl\<close>) on a payload whose \<open>changes\<close> are no list of objects.
\<close>

section \<open>The catalog\<close>

record webhook_event_def =
  wd_type :: string
  wd_label :: string
  wd_group :: string

definition WEBHOOK_EVENTS :: "webhook_event_def list" where
  "WEBHOOK_EVENTS = map (\<lambda>(t, l, g). \<lparr>wd_type = t, wd_label = l, wd_group = g\<rparr>)
     [(''user.login'', ''User signed in'', ''Authentication''),
      (''user.logout'', ''User signed out'', ''Authentication''),
      (''user.created'', ''User created'', ''Users''),
      (''user.updated'', ''User updated'', ''Users''),
      (''user.deleted'', ''User deleted'', ''Users''),
      (''user.joined'', ''User joined'', ''Users''),
      (''agent.approval_requested'', ''Agent approval requested'', ''Agents''),
      (''agent.created'', ''Agent created'', ''Agents''),
      (''agent.updated'', ''Agent updated'', ''Agents''),
      (''agent.deleted'', ''Agent deleted'', ''Agents''),
      (''workspace.created'', ''Workspace created'', ''Workspaces''),
      (''workspace.updated'', ''Workspace updated'', ''Workspaces''),
      (''workspace.deleted'', ''Workspace deleted'', ''Workspaces''),
      (''model.created'', ''Model created'', ''Models''),
      (''model.updated'', ''Model updated'', ''Models''),
      (''model.deleted'', ''Model deleted'', ''Models''),
      (''capability.created'', ''Custom capability created'', ''Capabilities''),
      (''capability.updated'', ''Custom capability updated'', ''Capabilities''),
      (''capability.deleted'', ''Custom capability deleted'', ''Capabilities''),
      (''knowledge.created'', ''Knowledge created'', ''Knowledge''),
      (''knowledge.deleted'', ''Knowledge deleted'', ''Knowledge''),
      (''skill.created'', ''Skill created'', ''Skills''),
      (''skill.updated'', ''Skill updated'', ''Skills''),
      (''skill.deleted'', ''Skill deleted'', ''Skills''),
      (''workflow.succeeded'', ''Workflow succeeded'', ''Workflows''),
      (''workflow.failed'', ''Workflow failed'', ''Workflows''),
      (''actor.registration_requested'', ''Actor registration requested'', ''Actors''),
      (''actor.approved'', ''Actor approved'', ''Actors''),
      (''actor.denied'', ''Actor denied'', ''Actors''),
      (''actor.updated'', ''Actor updated'', ''Actors''),
      (''proxy.config_updated'', ''Proxy configuration updated'', ''Actors''),
      (''actor.deleted'', ''Actor deleted'', ''Actors''),
      (''harness.config_updated'', ''Harness supervision updated'', ''Actors''),
      (''human.invited'', ''Human invited'', ''Actors''),
      (''human.invitation_redeemed'', ''Human invitation redeemed'', ''Actors''),
      (''certificate.issued'', ''Certificate issued'', ''Certificates''),
      (''certificate.revoked'', ''Certificate revoked'', ''Certificates''),
      (''killswitch.armed'', ''Kill switch armed'', ''Kill Switch''),
      (''killswitch.disarmed'', ''Kill switch disarmed'', ''Kill Switch'')]"

definition getWebhookEvent :: "string \<Rightarrow> webhook_event_def option" where
  "getWebhookEvent t = find (\<lambda>e. wd_type e = t) WEBHOOK_EVENTS"

definition webhookEventTypes :: "string list" where
  "webhookEventTypes = map wd_type WEBHOOK_EVENTS"

section \<open>JavaScript texts of JSON values\<close>

text \<open>\<open>String(v)\<close>; \<open>None\<close> is \<open>undefined\<close>. An element of an array that is \<open>null\<close> has no text.\<close>

function js_text :: "json \<Rightarrow> string" where
  "js_text JNull = ''null''"
| "js_text (JBool b) = (if b then ''true'' else ''false'')"
| "js_text (JNum n) = dec_string n"
| "js_text (JStr s) = s"
| "js_text (JArr vs) = concat (case map (\<lambda>v. if v = JNull then [] else js_text v) vs of
      [] \<Rightarrow> [] | t # ts \<Rightarrow> t # map (\<lambda>u. '','' @ u) ts)"
| "js_text (JObj fs) = ''[object Object]''"
  by pat_completeness auto
termination by (relation "measure size") (auto intro: size_list_estimation' simp: less_Suc_eq_le)

definition js_text_opt :: "json option \<Rightarrow> string" where
  "js_text_opt v = (case v of None \<Rightarrow> ''undefined'' | Some j \<Rightarrow> js_text j)"

definition js_join :: "string \<Rightarrow> json list \<Rightarrow> string" where
  "js_join sep vs = concat (case map (\<lambda>v. if v = JNull then [] else js_text v) vs of
     [] \<Rightarrow> [] | t # ts \<Rightarrow> t # map (\<lambda>u. sep @ u) ts)"

definition join_lines :: "string list \<Rightarrow> string" where
  "join_lines ls = concat (case ls of [] \<Rightarrow> [] | t # ts \<Rightarrow> t # map (\<lambda>u. CHR 10 # u) ts)"

text \<open>\<open>str\<close> and \<open>num\<close> of the renderers: a text that is not empty, a number.\<close>

definition str_or :: "string \<Rightarrow> json option \<Rightarrow> string" where
  "str_or fallback v = (case v of Some (JStr s) \<Rightarrow> if s = [] then fallback else s | _ \<Rightarrow> fallback)"

definition str :: "json option \<Rightarrow> string" where
  "str v = str_or ''unknown'' v"

definition num :: "json option \<Rightarrow> string" where
  "num v = (case v of Some (JNum n) \<Rightarrow> dec_string n | _ \<Rightarrow> ''?'')"

definition set_field :: "json option \<Rightarrow> bool" where
  "set_field v = (case v of None \<Rightarrow> False | Some j \<Rightarrow> js_truthy j)"

text \<open>\<open>a ?? b\<close>.\<close>

definition or_else :: "json option \<Rightarrow> json option \<Rightarrow> json option" where
  "or_else a b = (if a = None \<or> a = Some JNull then b else a)"

text \<open>\<open>Number(v) > 0\<close>, of a text that is a decimal integer.\<close>

definition above_zero :: "json option \<Rightarrow> bool" where
  "above_zero v = (case v of
      Some (JNum n) \<Rightarrow> n > 0
    | Some (JBool b) \<Rightarrow> b
    | Some (JStr s) \<Rightarrow> (case js_parseInt s of None \<Rightarrow> False | Some n \<Rightarrow> n > 0)
    | _ \<Rightarrow> False)"

section \<open>Templates\<close>

datatype notification_type = Info | Success | Warning | Failure

record rendered_notification =
  rn_title :: string
  rn_body :: string
  rn_type :: notification_type

definition dq :: "string \<Rightarrow> string" where
  "dq s = [CHR 34] @ s @ [CHR 34]"

definition notice :: "string \<Rightarrow> string \<Rightarrow> notification_type \<Rightarrow> rendered_notification" where
  "notice title body t = \<lparr>rn_title = title, rn_body = body, rn_type = t\<rparr>"

definition RENDERERS :: "(string \<times> (json \<Rightarrow> rendered_notification)) list" where
  "RENDERERS =
     [(''actor.registration_requested'', \<lambda>p. notice ''New Actor registration pending''
         (str (js_field ''name'' p) @ '' ('' @ str (js_field ''kind'' p) @ '') is awaiting admin approval.'') Info),
      (''actor.approved'', \<lambda>p. notice ''Actor approved''
         (str (js_field ''name'' p) @ '' ('' @ str (js_field ''kind'' p) @ '') was approved and is now active.'') Success),
      (''actor.denied'', \<lambda>p. notice ''Actor registration denied''
         (str (js_field ''name'' p) @ '' ('' @ str (js_field ''kind'' p) @ '')'' @ [CHR 39] @ ''s registration was denied.'') Warning),
      (''actor.updated'', \<lambda>p. notice ''Actor updated''
         (str (js_field ''name'' p) @ [CHR 39] @ ''s profile was modified.'') Info),
      (''proxy.config_updated'', \<lambda>p. notice ''Proxy enforcement changed''
         (str (js_field ''name'' p) @ '': mode '' @ str (js_field ''mode'' p) @ '', '' @ num (js_field ''ruleCount'' p)
            @ '' rule(s).'') Warning),
      (''harness.config_updated'', \<lambda>p. notice ''Harness supervision changed''
         (str (js_field ''name'' p) @ '': mode '' @ str (js_field ''mode'' p) @ '', confinement ''
            @ str (js_field ''sandbox'' p) @ '', '' @ num (js_field ''resourceRuleCount'' p) @ '' resource rule(s).'') Warning),
      (''actor.deleted'', \<lambda>p. notice ''Actor deleted''
         (str (js_field ''name'' p) @ '' ('' @ str (js_field ''kind'' p) @ '') was removed; ''
            @ num (js_field ''revokedCertificateCount'' p) @ '' certificate(s) revoked.'') Warning),
      (''human.invited'', \<lambda>p. notice ''Human invited''
         (str (js_field ''name'' p) @ '' was invited to onboard''
            @ (if set_field (js_field ''email'' p) then '' ('' @ str (js_field ''email'' p) @ '')'' else []) @ ''.'') Info),
      (''human.invitation_redeemed'', \<lambda>p. notice ''Human onboarded via invite''
         (str (js_field ''name'' p) @ '' accepted their invite and is now active.'') Success),
      (''certificate.issued'', \<lambda>p.
         let caps = (case js_field ''capabilities'' p of Some (JArr vs) \<Rightarrow> vs | _ \<Rightarrow> []) in
         notice ''Certificate issued''
           (''A certificate for '' @ str (js_field ''agentDid'' p) @ '' was issued''
              @ (if caps \<noteq> [] then '' ('' @ js_join '', '' caps @ '')'' else []) @ ''.'') Success),
      (''certificate.revoked'', \<lambda>p. notice ''Certificate revoked''
         (''A certificate for '' @ str (js_field ''agentDid'' p) @ '' was revoked''
            @ (if set_field (js_field ''revokedReason'' p) then '': '' @ str (js_field ''revokedReason'' p) else ''.'')) Warning),
      (''killswitch.armed'', \<lambda>p.
         let scope = (if js_field ''scope'' p = Some (JStr ''global'') then ''org-wide''
                      else ''workspace '' @ dq (str (or_else (js_field ''workspaceName'' p) (js_field ''workspaceId'' p))));
             affected = (case js_field ''affectedActors'' p of Some (JNum n) \<Rightarrow> n | _ \<Rightarrow> 0)
         in notice ''Kill switch ARMED''
              (''An emergency kill switch was armed '' @ scope @ '': '' @ str (js_field ''reason'' p) @ ''. ''
                @ dec_string affected @ '' connected Actor(s) were disconnected. Certificates are suspended, not revoked -- disarming restores them immediately.'') Failure),
      (''killswitch.disarmed'', \<lambda>p.
         let scope = (if js_field ''scope'' p = Some (JStr ''global'') then ''org-wide''
                      else ''workspace '' @ dq (str (or_else (js_field ''workspaceName'' p) (js_field ''workspaceId'' p))))
         in notice ''Kill switch disarmed''
              (''The '' @ scope @ '' kill switch was disarmed. Covered certificates authorize again; Actors reconnect on their own.'') Success),
      (''workspace.created'', \<lambda>p. notice ''Workspace created''
         (''Workspace '' @ dq (str (js_field ''name'' p)) @ '' was created.'') Success),
      (''workspace.updated'', \<lambda>p. notice ''Workspace updated''
         (''Workspace '' @ dq (str (js_field ''name'' p)) @ '' was modified.'') Info),
      (''workspace.deleted'', \<lambda>p. notice ''Workspace deleted''
         (''Workspace '' @ dq (str (js_field ''name'' p)) @ '' was deleted''
            @ (if above_zero (js_field ''affectedGrants'' p)
               then '', revoking '' @ str (js_field ''affectedGrants'' p) @ '' scoped certificate(s)'' else [])
            @ (if above_zero (js_field ''unassignedActors'' p)
               then ''; '' @ str (js_field ''unassignedActors'' p) @ '' actor(s) are now unassigned'' else [])
            @ ''.'') Warning)]"

section \<open>The footer\<close>

definition formatValue :: "json option \<Rightarrow> string" where
  "formatValue v = (case v of
      None \<Rightarrow> ''(none)''
    | Some JNull \<Rightarrow> ''(none)''
    | Some (JStr []) \<Rightarrow> ''(none)''
    | Some (JArr vs) \<Rightarrow> if vs = [] then ''(none)'' else js_join '', '' vs
    | Some j \<Rightarrow> js_text j)"

definition change_line :: "json \<Rightarrow> unit + string" where
  "change_line c = (if c = JNull then Inl ()
     else Inr (''  '' @ js_text_opt (js_field ''field'' c) @ '': '' @ formatValue (js_field ''from'' c) @ '' -> ''
            @ formatValue (js_field ''to'' c)))"

fun change_lines :: "json list \<Rightarrow> unit + string list" where
  "change_lines [] = Inr []"
| "change_lines (c # cs) = bind_result (change_line c) (\<lambda>l. bind_result (change_lines cs) (\<lambda>ls. Inr (l # ls)))"

text \<open>\<open>for ... of\<close> over what is no array and no text throws.\<close>

definition appendChanges :: "json \<Rightarrow> unit + string list" where
  "appendChanges payload =
     (case js_field ''changes'' payload of
        None \<Rightarrow> Inr []
      | Some ch \<Rightarrow>
          if \<not> js_truthy ch \<or> ch = JArr [] then Inr []
          else (case ch of
                  JArr cs \<Rightarrow> bind_result (change_lines cs) (\<lambda>ls. Inr (''Changes:'' # ls))
                | JStr s \<Rightarrow> bind_result (change_lines (map (\<lambda>c. JStr [c]) s)) (\<lambda>ls. Inr (''Changes:'' # ls))
                | _ \<Rightarrow> Inl ()))"

definition appendGrantedCapabilities :: "json \<Rightarrow> string list" where
  "appendGrantedCapabilities payload =
     (case js_field ''grantedCapabilities'' payload of
        Some (JArr vs) \<Rightarrow> [if vs = [] then ''Granted: (no capabilities)'' else ''Granted: '' @ js_join '', '' vs]
      | _ \<Rightarrow> [])"

definition appendFooter :: "string \<Rightarrow> json \<Rightarrow> unit + string" where
  "appendFooter body payload =
     bind_result (appendChanges payload) (\<lambda>changes.
       let by_name = Option.bind (js_field ''performedBy'' payload) (js_field ''name'');
           who = (if set_field by_name then [''By: '' @ js_text_opt by_name] else []);
           view = (case js_field ''adminUrl'' payload of
                     Some (JStr u) \<Rightarrow> if u = [] then [] else [''View: '' @ u] | _ \<Rightarrow> [])
       in Inr (join_lines ([body] @ changes @ appendGrantedCapabilities payload @ who @ view)))"

definition renderNotification :: "webhook_job \<Rightarrow> unit + rendered_notification option" where
  "renderNotification job =
     (case map_of RENDERERS (wj_eventType job) of
        None \<Rightarrow> Inr None
      | Some renderer \<Rightarrow>
          let rendered = renderer (wj_payload job) in
          bind_result (appendFooter (rn_body rendered) (wj_payload job)) (\<lambda>b. Inr (Some (rendered\<lparr>rn_body := b\<rparr>))))"

end
