(* ===== verification/Dispatcher.thy ===== *)
theory Dispatcher
  imports Notifications "HOL-Library.Multiset"
begin

text \<open>
  The webhook dispatcher (\<open>packages/webhook-dispatcher/src/delivery.ts\<close>, \<open>apprise.ts\<close>, \<open>sign.ts\<close> and the
  worker of \<open>index.ts\<close>): one job, fanned out to the endpoints and channels subscribed to its event,
  retried whole by the queue, and dead-lettered when its attempts are used up.

  Each attempt has its own surroundings (\<open>dispatch_env\<close>): what the two queries answer (\<open>None\<close> is a
  rejection), what each request is answered, the clock, the random delivery ids. The HMAC and the
  URL encoding of the platform are fields too. The queue, which is not part of the repository, is
  used as its documentation has it: an attempt that throws raises \<open>attemptsMade\<close>, then the \<open>failed\<close>
  handler runs, and the job is tried again while attempts are left.
\<close>

section \<open>Requests\<close>

record webhook_subscription =
  ws_id :: string
  ws_url :: string
  ws_secret :: string
  ws_events :: json

record channel_subscription =
  nc_id :: string
  nc_appriseKey :: string
  nc_events :: json

record delivery_request =
  dr_url :: string
  dr_headers :: "(string \<times> string) list"
  dr_body :: string
  dr_deliveryId :: string

datatype http_answer = Responded nat "json option" | NoAnswer string

record dispatch_env =
  de_webhooks :: "webhook_subscription list option"
  de_channels :: "channel_subscription list option"
  de_appriseUrl :: "string option"
  de_fetch :: "string \<Rightarrow> (string \<times> string) list \<Rightarrow> string \<Rightarrow> http_answer"
  de_now :: int
  de_uuid :: "nat \<Rightarrow> string"
  de_iso :: "int \<Rightarrow> string"
  de_hmac :: "string \<Rightarrow> string \<Rightarrow> string"
  de_encode :: "string \<Rightarrow> string"
  de_deadQueue :: bool

text \<open>\<open>JSON.stringify\<close>.\<close>

definition hex_digit :: "nat \<Rightarrow> char" where
  "hex_digit n = (if n < 10 then char_of (48 + n) else char_of (87 + n))"

definition json_escape :: "char \<Rightarrow> string" where
  "json_escape c =
     (let n = code_unit c; esc = (\<lambda>x. [CHR 92, x]) in
      if n = 34 \<or> n = 92 then esc c
      else if n = 8 then esc (CHR ''b'') else if n = 9 then esc (CHR ''t'')
      else if n = 10 then esc (CHR ''n'') else if n = 12 then esc (CHR ''f'')
      else if n = 13 then esc (CHR ''r'')
      else if n < 32 then [CHR 92] @ ''u00'' @ [hex_digit (n div 16), hex_digit (n mod 16)]
      else [c])"

definition json_string :: "string \<Rightarrow> string" where
  "json_string s = dq (concat (map json_escape s))"

definition commas :: "string list \<Rightarrow> string" where
  "commas ts = concat (case ts of [] \<Rightarrow> [] | t # us \<Rightarrow> t # map (\<lambda>u. '','' @ u) us)"

fun json_text :: "json \<Rightarrow> string" where
  "json_text JNull = ''null''"
| "json_text (JBool b) = (if b then ''true'' else ''false'')"
| "json_text (JNum n) = dec_string n"
| "json_text (JStr s) = json_string s"
| "json_text (JArr vs) = ''['' @ commas (map json_text vs) @ '']''"
| "json_text (JObj fs) = ''{'' @ commas (map (\<lambda>(k, v). json_string k @ '':'' @ json_text v) fs) @ ''}''"

definition sign :: "dispatch_env \<Rightarrow> string \<Rightarrow> string \<Rightarrow> string \<Rightarrow> string" where
  "sign D secret timestamp rawBody = ''sha256='' @ de_hmac D secret (timestamp @ ''.'' @ rawBody)"

definition buildDeliveryRequest ::
  "dispatch_env \<Rightarrow> webhook_subscription \<Rightarrow> webhook_job \<Rightarrow> string \<Rightarrow> delivery_request" where
  "buildDeliveryRequest D endpoint job deliveryId =
     (let rawBody = json_text (JObj [(''event'', JStr (wj_eventType job)), (''occurredAt'', JStr (wj_occurredAt job)),
            (''data'', wj_payload job)]);
          timestamp = dec_string (de_now D)
      in \<lparr>dr_url = ws_url endpoint,
          dr_headers =
            [(''Content-Type'', ''application/json''), (''User-Agent'', ''VaultysClaw-Webhooks/1.0''),
             (''X-VaultysClaw-Event'', wj_eventType job), (''X-VaultysClaw-Delivery'', deliveryId),
             (''X-VaultysClaw-Timestamp'', timestamp),
             (''X-VaultysClaw-Signature'', sign D (ws_secret endpoint) timestamp rawBody)],
          dr_body = rawBody, dr_deliveryId = deliveryId\<rparr>)"

text \<open>The event list of a row is a JSON column; what is no array subscribes to nothing.\<close>

definition subscribed :: "json \<Rightarrow> string \<Rightarrow> bool" where
  "subscribed events eventType = (case events of JArr vs \<Rightarrow> JStr eventType \<in> set vs | _ \<Rightarrow> False)"

definition selectTargets :: "webhook_subscription list \<Rightarrow> string \<Rightarrow> webhook_subscription list" where
  "selectTargets webhooks eventType = filter (\<lambda>w. subscribed (ws_events w) eventType) webhooks"

definition selectNotificationTargets :: "channel_subscription list \<Rightarrow> string \<Rightarrow> channel_subscription list" where
  "selectNotificationTargets channels eventType = filter (\<lambda>c. subscribed (nc_events c) eventType) channels"

section \<open>One delivery\<close>

record delivery_outcome =
  do_id :: string
  do_ok :: bool
  do_status :: "nat option"
  do_error :: "string option"

definition ok_status :: "nat \<Rightarrow> bool" where
  "ok_status n = (200 \<le> n \<and> n \<le> 299)"

definition deliverOne ::
  "dispatch_env \<Rightarrow> webhook_job \<Rightarrow> string \<Rightarrow> webhook_subscription \<Rightarrow> delivery_outcome" where
  "deliverOne D job deliveryId endpoint =
     (let req = buildDeliveryRequest D endpoint job deliveryId in
      case de_fetch D (dr_url req) (dr_headers req) (dr_body req) of
        NoAnswer e \<Rightarrow> \<lparr>do_id = ws_id endpoint, do_ok = False, do_status = None, do_error = Some e\<rparr>
      | Responded n b \<Rightarrow>
          if ok_status n then \<lparr>do_id = ws_id endpoint, do_ok = True, do_status = Some n, do_error = None\<rparr>
          else \<lparr>do_id = ws_id endpoint, do_ok = False, do_status = Some n,
                do_error = Some (''endpoint responded '' @ dec_string (int n))\<rparr>)"

definition type_text :: "notification_type \<Rightarrow> string" where
  "type_text t = (case t of Info \<Rightarrow> ''info'' | Success \<Rightarrow> ''success'' | Warning \<Rightarrow> ''warning'' | Failure \<Rightarrow> ''failure'')"

definition notifyApprise ::
  "dispatch_env \<Rightarrow> string \<Rightarrow> string \<Rightarrow> rendered_notification \<Rightarrow> bool \<times> string option" where
  "notifyApprise D baseUrl appriseKey n =
     (case de_fetch D (rev (dropWhile (\<lambda>c. c = CHR ''/'') (rev baseUrl)) @ ''/notify/'' @ de_encode D appriseKey)
             [(''Content-Type'', ''application/json'')]
             (json_text (JObj [(''title'', JStr (rn_title n)), (''body'', JStr (rn_body n)),
                (''type'', JStr (type_text (rn_type n)))])) of
        NoAnswer e \<Rightarrow> (False, Some e)
      | Responded s b \<Rightarrow>
          if \<not> ok_status s then (False, Some (''Apprise /notify responded '' @ dec_string (int s)))
          else (case Option.bind b (js_field ''error'') of
                  None \<Rightarrow> (True, None)
                | Some e \<Rightarrow> if js_truthy e then (False, Some (js_text e)) else (True, None)))"

section \<open>One side of a job\<close>

datatype skip_reason = UnknownEvent | NoTemplate | AppriseNotConfigured

record process_result =
  pr_skipped :: "skip_reason option"
  pr_targets :: nat
  pr_outcomes :: "delivery_outcome list"
  pr_delivered :: "string list"
  pr_failures :: "delivery_outcome list"

definition skipped :: "skip_reason \<Rightarrow> process_result" where
  "skipped why = \<lparr>pr_skipped = Some why, pr_targets = 0, pr_outcomes = [], pr_delivered = [], pr_failures = []\<rparr>"

definition processed :: "delivery_outcome list \<Rightarrow> process_result" where
  "processed outcomes =
     \<lparr>pr_skipped = None, pr_targets = length outcomes, pr_outcomes = outcomes,
      pr_delivered = map do_id (filter do_ok outcomes), pr_failures = filter (\<lambda>o'. \<not> do_ok o') outcomes\<rparr>"

definition processWebhookJob ::
  "dispatch_env \<Rightarrow> webhook_job \<Rightarrow> string list \<Rightarrow> string + process_result" where
  "processWebhookJob D job alreadyDelivered =
     (if getWebhookEvent (wj_eventType job) = None then Inr (skipped UnknownEvent)
      else case de_webhooks D of
             None \<Rightarrow> Inl ''load failed''
           | Some active \<Rightarrow>
               let targets = filter (\<lambda>w. ws_id w \<notin> set alreadyDelivered) (selectTargets active (wj_eventType job)) in
               Inr (processed (map2 (\<lambda>i w. deliverOne D job (de_uuid D i) w) [0..<length targets] targets)))"

definition processNotificationJob ::
  "dispatch_env \<Rightarrow> webhook_job \<Rightarrow> string list \<Rightarrow> string + process_result" where
  "processNotificationJob D job alreadyNotified =
     (if \<not> truthy (de_appriseUrl D) then Inr (skipped AppriseNotConfigured)
      else if getWebhookEvent (wj_eventType job) = None then Inr (skipped UnknownEvent)
      else case renderNotification job of
             Inl _ \<Rightarrow> Inl ''render failed''
           | Inr None \<Rightarrow> Inr (skipped NoTemplate)
           | Inr (Some n) \<Rightarrow>
               (case de_channels D of
                  None \<Rightarrow> Inl ''load failed''
                | Some active \<Rightarrow>
                    Inr (processed (map (\<lambda>c.
                        let (ok, err) = notifyApprise D (case de_appriseUrl D of None \<Rightarrow> [] | Some u \<Rightarrow> u) (nc_appriseKey c) n
                        in \<lparr>do_id = nc_id c, do_ok = ok, do_status = None, do_error = err\<rparr>)
                      (filter (\<lambda>c. nc_id c \<notin> set alreadyNotified)
                        (selectNotificationTargets active (wj_eventType job)))))))"

section \<open>The worker\<close>

record queued_job =
  qj_job :: webhook_job
  qj_delivered :: "string list option"
  qj_notified :: "string list option"

definition or_empty :: "string list option \<Rightarrow> string list" where
  "or_empty x = (case x of None \<Rightarrow> [] | Some l \<Rightarrow> l)"

text \<open>\<open>Promise.all\<close> rejects as soon as one side does, and what the other side did is not seen.\<close>

definition work :: "dispatch_env \<Rightarrow> queued_job \<Rightarrow> (string + unit) \<times> queued_job" where
  "work D q =
     (let alreadyDelivered = or_empty (qj_delivered q); alreadyNotified = or_empty (qj_notified q) in
      case (processWebhookJob D (qj_job q) alreadyDelivered, processNotificationJob D (qj_job q) alreadyNotified) of
        (Inr wr, Inr nr) \<Rightarrow>
          if pr_skipped wr \<noteq> None \<and> pr_skipped nr \<noteq> None then (Inr (), q)
          else
            let q' = q\<lparr>qj_delivered := (if pr_delivered wr \<noteq> [] then Some (alreadyDelivered @ pr_delivered wr) else qj_delivered q),
                       qj_notified := (if pr_delivered nr \<noteq> [] then Some (alreadyNotified @ pr_delivered nr) else qj_notified q)\<rparr>
            in if length (pr_failures wr) + length (pr_failures nr) > 0
               then (Inl (dec_string (int (length (pr_failures wr))) @ ''/'' @ dec_string (int (pr_targets wr))
                       @ '' webhook deliveries and '' @ dec_string (int (length (pr_failures nr))) @ ''/''
                       @ dec_string (int (pr_targets nr)) @ '' notifications failed''), q')
               else (Inr (), q')
      | (Inl e, _) \<Rightarrow> (Inl e, q)
      | (_, Inl e) \<Rightarrow> (Inl e, q))"

record dead_webhook_job =
  dj_job :: webhook_job
  dj_failedAt :: string
  dj_attemptsMade :: nat
  dj_error :: string
  dj_deliveredEndpointIds :: "string list"

definition shouldDeadLetter :: "nat \<Rightarrow> nat \<Rightarrow> bool" where
  "shouldDeadLetter attemptsMade maxAttempts = (attemptsMade \<ge> maxAttempts)"

definition buildDeadLetter ::
  "dispatch_env \<Rightarrow> webhook_job \<Rightarrow> nat \<Rightarrow> string \<Rightarrow> string list option \<Rightarrow> dead_webhook_job" where
  "buildDeadLetter D job attemptsMade err delivered =
     \<lparr>dj_job = job, dj_failedAt = de_iso D (de_now D), dj_attemptsMade = attemptsMade, dj_error = err,
      dj_deliveredEndpointIds = or_empty delivered\<rparr>"

datatype job_status = Waiting | Completed | Failed

text \<open>\<open>js_acks\<close> is history: the endpoints that answered with success, in order.\<close>

record job_state =
  js_data :: queued_job
  js_attemptsMade :: nat
  js_attempts :: "nat option"
  js_status :: job_status
  js_dead :: "dead_webhook_job list"
  js_acks :: "string list"

definition onFailed :: "dispatch_env \<Rightarrow> string \<Rightarrow> job_state \<Rightarrow> job_state" where
  "onFailed D err j =
     (let maxAttempts = (case js_attempts j of None \<Rightarrow> 1 | Some n \<Rightarrow> n) in
      if \<not> shouldDeadLetter (js_attemptsMade j) maxAttempts then j
      else if de_deadQueue D
      then j\<lparr>js_dead := js_dead j @ [buildDeadLetter D (qj_job (js_data j)) (js_attemptsMade j) err (qj_delivered (js_data j))]\<rparr>
      else j)"

definition acked :: "dispatch_env \<Rightarrow> queued_job \<Rightarrow> string list" where
  "acked D q = (case processWebhookJob D (qj_job q) (or_empty (qj_delivered q)) of
      Inl _ \<Rightarrow> [] | Inr r \<Rightarrow> pr_delivered r)"

text \<open>The queue is not the program's: that it runs a job again after a failed attempt is the answer of \<open>again\<close>
  on the attempts made and the attempts the job was given. One that keeps to its options answers like
  \<open>keeps_options\<close>.\<close>

definition keeps_options :: "(nat \<Rightarrow> nat \<Rightarrow> bool) \<Rightarrow> bool" where
  "keeps_options again \<longleftrightarrow> (\<forall>made allowed. again made allowed = (made < allowed))"

definition attempt :: "(nat \<Rightarrow> nat \<Rightarrow> bool) \<Rightarrow> dispatch_env \<Rightarrow> job_state \<Rightarrow> job_state" where
  "attempt again D j =
     (if js_status j \<noteq> Waiting then j
      else
        let (res, q) = work D (js_data j); acks = js_acks j @ acked D (js_data j) in
        case res of
          Inr _ \<Rightarrow> j\<lparr>js_data := q, js_status := Completed, js_acks := acks\<rparr>
        | Inl err \<Rightarrow>
            let made = js_attemptsMade j + 1 in
            onFailed D err (j\<lparr>js_data := q, js_attemptsMade := made, js_acks := acks,
              js_status := (if again made (case js_attempts j of None \<Rightarrow> 1 | Some n \<Rightarrow> n) then Waiting else Failed)\<rparr>))"

fun attempts :: "(nat \<Rightarrow> nat \<Rightarrow> bool) \<Rightarrow> dispatch_env list \<Rightarrow> job_state \<Rightarrow> job_state" where
  "attempts again [] j = j"
| "attempts again (D # Ds) j = attempts again Ds (attempt again D j)"

text \<open>The queue's options, as \<open>enqueueWebhook\<close> sets them.\<close>

definition WEBHOOK_ATTEMPTS :: nat where
  "WEBHOOK_ATTEMPTS = 5"

definition fresh_job :: "webhook_job \<Rightarrow> job_state" where
  "fresh_job job = \<lparr>js_data = \<lparr>qj_job = job, qj_delivered = None, qj_notified = None\<rparr>, js_attemptsMade = 0,
     js_attempts = Some WEBHOOK_ATTEMPTS, js_status = Waiting, js_dead = [], js_acks = []\<rparr>"

end
