(* ===== verification/DispatcherSafety.thy ===== *)
theory DispatcherSafety
  imports Dispatcher
begin

text \<open>
  What the dispatcher guarantees about one job: it settles, it reaches everybody before it is called
  complete, an endpoint that acknowledged is not sent the event again, and where those guarantees
  end; and which events the notification channels never hear of.
\<close>

section \<open>One attempt\<close>

lemma attempt_settled: "js_status j \<noteq> Waiting \<Longrightarrow> attempts again Ds j = j"
  by (induction Ds) (simp_all add: attempt_def)

lemma work_job: "qj_job (snd (work D q)) = qj_job q"
  by (simp add: work_def Let_def split: sum.split)

lemma onFailed_fields [simp]:
  "js_data (onFailed D e j) = js_data j" "js_status (onFailed D e j) = js_status j"
  "js_attemptsMade (onFailed D e j) = js_attemptsMade j" "js_attempts (onFailed D e j) = js_attempts j"
  "js_acks (onFailed D e j) = js_acks j"
  by (simp_all add: onFailed_def Let_def)

text \<open>A job with attempts left, after the attempt.\<close>

definition counted :: "nat \<Rightarrow> job_state \<Rightarrow> bool" where
  "counted k j \<longleftrightarrow> js_attempts j = Some 5 \<and> js_attemptsMade j = k \<and> js_dead j = [] \<and> js_status j = Waiting"

definition settled :: "job_state \<Rightarrow> bool" where
  "settled j \<longleftrightarrow> js_status j = Completed \<and> js_attemptsMade j < 5 \<and> js_dead j = []"

lemma attempt_counted:
  assumes "keeps_options again" and "counted k j" and "k < 4"
  shows "counted (Suc k) (attempt again D j) \<or> settled (attempt again D j)"
  using assms
  by (auto simp: attempt_def counted_def settled_def keeps_options_def onFailed_def shouldDeadLetter_def case_prod_unfold Let_def
      split: sum.split)

lemma attempt_last:
  assumes "keeps_options again" and "counted 4 j"
  shows "settled (attempt again D j) \<or> js_status (attempt again D j) = Failed \<and> js_attemptsMade (attempt again D j) = 5
     \<and> length (js_dead (attempt again D j)) = (if de_deadQueue D then 1 else 0)"
  using assms
  by (auto simp: attempt_def counted_def settled_def keeps_options_def onFailed_def shouldDeadLetter_def case_prod_unfold Let_def
      split: sum.split)

lemma settled_stays: "settled j \<Longrightarrow> attempt again D j = j"
  by (simp add: settled_def attempt_def)

lemma attempt_step: "keeps_options again \<Longrightarrow> k < 4 \<Longrightarrow> counted k j \<or> settled j \<Longrightarrow> counted (Suc k) (attempt again D j) \<or> settled (attempt again D j)"
  using attempt_counted settled_stays by metis


section \<open>Who is reached\<close>

lemma delivered_ids: "set (map do_id os) = set (map do_id (filter do_ok os)) \<union> set (map do_id (filter (\<lambda>o'. \<not> do_ok o') os))"
  by auto

lemma deliverOne_id [simp]: "do_id (deliverOne D job i w) = ws_id w"
  by (simp add: deliverOne_def Let_def split: http_answer.split)

lemma map2_ids: "map do_id (map2 (\<lambda>i w. deliverOne D job (f i) w) [0..<length ts] ts) = map ws_id ts"
  by (rule nth_equalityI) simp_all

lemma some_of_all: "set (map do_id (filter P os)) \<subseteq> set (map do_id os)"
  by auto

text \<open>The run of a webhook side that was loaded.\<close>

lemma webhook_side:
  assumes "getWebhookEvent (wj_eventType job) \<noteq> None" and "de_webhooks D = Some active"
  shows "\<exists>r. processWebhookJob D job already = Inr r \<and> pr_skipped r = None
     \<and> set (pr_delivered r) \<union> set (map do_id (pr_failures r))
       = ws_id ` {w \<in> set (selectTargets active (wj_eventType job)). ws_id w \<notin> set already}
     \<and> (distinct (map ws_id active) \<longrightarrow> distinct (pr_delivered r)) \<and> set (pr_delivered r) \<inter> set already = {}"
proof -
  let ?ts = "filter (\<lambda>w. ws_id w \<notin> set already) (selectTargets active (wj_eventType job))"
  let ?os = "map2 (\<lambda>i w. deliverOne D job (de_uuid D i) w) [0..<length ?ts] ?ts"
  note ids = map2_ids [of D job "de_uuid D" ?ts]
  have sub: "set (map do_id (filter do_ok ?os)) \<subseteq> set (map ws_id ?ts)"
    using some_of_all [of do_ok ?os] unfolding ids .
  have d: "distinct (map do_id (filter do_ok ?os))" if "distinct (map ws_id active)"
  proof -
    have "distinct (map do_id ?os)"
      unfolding ids by (intro distinct_map_filter) (simp add: selectTargets_def distinct_map_filter that)
    then show ?thesis by (rule distinct_map_filter)
  qed
  have "set (pr_delivered (processed ?os)) \<union> set (map do_id (pr_failures (processed ?os)))
       = ws_id ` {w \<in> set (selectTargets active (wj_eventType job)). ws_id w \<notin> set already}"
    using delivered_ids [of ?os] unfolding ids by (auto simp: processed_def)
  moreover have "processWebhookJob D job already = Inr (processed ?os)"
    using assms by (simp only: processWebhookJob_def if_False option.case Let_def)
  moreover have "set (pr_delivered (processed ?os)) \<inter> set already = {}"
  proof -
    have "pr_delivered (processed ?os) = map do_id (filter do_ok ?os)" by (simp add: processed_def)
    moreover have "set (map ws_id ?ts) \<inter> set already = {}" by auto
    ultimately show ?thesis using sub by (simp only:) blast
  qed
  ultimately show ?thesis
    using d by (intro exI [of _ "processed ?os"]) (simp add: processed_def)
qed

lemma webhook_unknown:
  "getWebhookEvent (wj_eventType job) = None \<Longrightarrow> processWebhookJob D job already = Inr (skipped UnknownEvent)"
  by (simp add: processWebhookJob_def)

lemma webhook_not_loaded:
  "getWebhookEvent (wj_eventType job) \<noteq> None \<Longrightarrow> de_webhooks D = None \<Longrightarrow> processWebhookJob D job already = Inl ''load failed''"
  by (simp add: processWebhookJob_def)

text \<open>What a run that throws nothing records.\<close>

lemma work_delivered:
  "processWebhookJob D (qj_job q) (or_empty (qj_delivered q)) = Inr wr \<Longrightarrow>
     processNotificationJob D (qj_job q) (or_empty (qj_notified q)) = Inr nr \<Longrightarrow>
     pr_skipped wr \<noteq> None \<longrightarrow> pr_delivered wr = [] \<Longrightarrow>
     or_empty (qj_delivered (snd (work D q))) = or_empty (qj_delivered q) @ pr_delivered wr"
  by (auto simp: work_def Let_def or_empty_def)

lemma work_complete:
  assumes "fst (work D q) = Inr ()"
  obtains wr nr where "processWebhookJob D (qj_job q) (or_empty (qj_delivered q)) = Inr wr" "pr_failures wr = []"
    "processNotificationJob D (qj_job q) (or_empty (qj_notified q)) = Inr nr"
proof (cases "processWebhookJob D (qj_job q) (or_empty (qj_delivered q))")
  case (Inl e)
  with assms show ?thesis by (simp add: work_def Let_def split: sum.splits)
next
  case (Inr wr)
  note w = Inr
  show ?thesis
  proof (cases "processNotificationJob D (qj_job q) (or_empty (qj_notified q))")
    case (Inl e)
    with assms w show ?thesis by (simp add: work_def Let_def)
  next
    case (Inr nr)
    have "pr_failures wr = []" if "pr_skipped wr \<noteq> None"
      using w that by (auto simp: processWebhookJob_def skipped_def processed_def Let_def split: if_splits option.splits)
    with assms w Inr have "pr_failures wr = []"
      by (auto simp: work_def Let_def split: if_splits)
    with w Inr that show ?thesis by blast
  qed
qed

text \<open>What was recorded as delivered was acknowledged.\<close>

definition recorded_acked :: "job_state \<Rightarrow> bool" where
  "recorded_acked j \<longleftrightarrow> set (or_empty (qj_delivered (js_data j))) \<subseteq> set (js_acks j)"

lemma attempt_recorded: "recorded_acked j \<Longrightarrow> recorded_acked (attempt again D j)"
proof -
  assume r: "recorded_acked j"
  let ?q = "js_data j"
  have "set (or_empty (qj_delivered (snd (work D ?q)))) \<subseteq> set (or_empty (qj_delivered ?q)) \<union> set (acked D ?q)"
    by (auto simp: work_def acked_def Let_def or_empty_def split: sum.splits)
  with r show ?thesis
    by (auto simp: attempt_def recorded_acked_def case_prod_unfold Let_def split: sum.split)
qed

lemma attempts_recorded: "recorded_acked j \<Longrightarrow> recorded_acked (attempts again Ds j)"
  by (induction Ds arbitrary: j) (simp_all add: attempt_recorded)

lemma attempts_job: "qj_job (js_data (attempts again Ds j)) = qj_job (js_data j)"
proof (induction Ds arbitrary: j)
  case (Cons D Ds)
  have "qj_job (js_data (attempt again D j)) = qj_job (js_data j)"
    by (auto simp: attempt_def case_prod_unfold Let_def work_job split: sum.split)
  with Cons show ?case by simp
qed simp

lemma acks_grow: "set (js_acks j) \<subseteq> set (js_acks (attempts again Ds j))"
proof (induction Ds arbitrary: j)
  case (Cons D Ds)
  have "set (js_acks j) \<subseteq> set (js_acks (attempt again D j))"
    by (auto simp: attempt_def case_prod_unfold Let_def split: sum.split)
  with Cons [of "attempt again D j"] show ?case by auto
qed simp

lemma attempt_complete:
  assumes "js_status j = Waiting" and "js_status (attempt again D j) = Completed"
  shows "fst (work D (js_data j)) = Inr ()"
  using assms by (cases "fst (work D (js_data j))") (auto simp: attempt_def case_prod_unfold Let_def split: if_splits)


section \<open>Nobody twice\<close>

definition loads_answer :: "dispatch_env \<Rightarrow> webhook_job \<Rightarrow> bool" where
  "loads_answer D job \<longleftrightarrow>
     (case de_webhooks D of None \<Rightarrow> False | Some active \<Rightarrow> distinct (map ws_id active))
     \<and> de_channels D \<noteq> None \<and> \<not> isl (renderNotification job)"

lemma channels_answer: "loads_answer D job \<Longrightarrow> \<exists>nr. processNotificationJob D job already = Inr nr"
  by (auto simp: loads_answer_def processNotificationJob_def isl_def split: sum.split option.split)

lemma acked_attempt: "js_acks (attempt again D j) = (if js_status j = Waiting then js_acks j @ acked D (js_data j) else js_acks j)"
  by (auto simp: attempt_def case_prod_unfold Let_def split: sum.split)

lemma data_attempt: "js_data (attempt again D j) = (if js_status j = Waiting then snd (work D (js_data j)) else js_data j)"
  by (auto simp: attempt_def case_prod_unfold Let_def split: sum.split)

lemma attempt_once:
  assumes "loads_answer D (qj_job (js_data j))" and "distinct (js_acks j)" and "js_acks j = or_empty (qj_delivered (js_data j))"
  shows "distinct (js_acks (attempt again D j)) \<and> js_acks (attempt again D j) = or_empty (qj_delivered (js_data (attempt again D j)))"
proof (cases "js_status j = Waiting")
  case True
  let ?q = "js_data j" and ?job = "qj_job (js_data j)"
  obtain nr where nr: "processNotificationJob D ?job (or_empty (qj_notified ?q)) = Inr nr"
    using channels_answer [OF assms(1)] by blast
  show ?thesis
  proof (cases "getWebhookEvent (wj_eventType ?job)")
    case None
    from webhook_unknown [OF this] have w: "processWebhookJob D ?job (or_empty (qj_delivered ?q)) = Inr (skipped UnknownEvent)" .
    then have "acked D ?q = []" by (simp add: acked_def skipped_def)
    with work_delivered [OF w nr] True assms show ?thesis
      by (simp add: acked_attempt data_attempt skipped_def)
  next
    case (Some e)
    then have ne: "getWebhookEvent (wj_eventType ?job) \<noteq> None" by simp
    from assms(1) obtain active where a: "de_webhooks D = Some active" "distinct (map ws_id active)"
      by (auto simp: loads_answer_def split: option.splits)
    obtain wr where
      w: "processWebhookJob D ?job (or_empty (qj_delivered ?q)) = Inr wr" "pr_skipped wr = None"
      "distinct (pr_delivered wr)" "set (pr_delivered wr) \<inter> set (or_empty (qj_delivered ?q)) = {}"
      using webhook_side [OF ne a(1)] a(2) by blast
    from w have "acked D ?q = pr_delivered wr" by (simp add: acked_def)
    with work_delivered [OF w(1) nr] w True assms show ?thesis
      by (auto simp: acked_attempt data_attempt)
  qed
qed (use assms in \<open>simp add: acked_attempt data_attempt\<close>)


section \<open>Instances\<close>

text \<open>Two endpoints, of which the second answers only the second time; an attempt whose channel list cannot be read.\<close>

definition hook :: "string \<Rightarrow> webhook_subscription" where
  "hook i = \<lparr>ws_id = i, ws_url = i, ws_secret = ''s'', ws_events = JArr [JStr ''workspace.created'']\<rparr>"

definition site :: "string list \<Rightarrow> bool \<Rightarrow> dispatch_env" where
  "site up channels = \<lparr>de_webhooks = Some [hook ''a'', hook ''b''],
     de_channels = (if channels then Some [] else None), de_appriseUrl = Some ''http://apprise'',
     de_fetch = (\<lambda>url hs body. if url \<in> set up then Responded 200 None else NoAnswer ''refused''),
     de_now = 0, de_uuid = (\<lambda>i. []), de_iso = (\<lambda>t. []), de_hmac = (\<lambda>s t. []), de_encode = (\<lambda>s. s),
     de_deadQueue = True\<rparr>"

definition created_job :: webhook_job where
  "created_job = \<lparr>wj_eventType = ''workspace.created'', wj_payload = JObj [(''name'', JStr ''Ops'')], wj_occurredAt = []\<rparr>"

lemma created_known: "getWebhookEvent (wj_eventType created_job) \<noteq> None"
  by (simp add: getWebhookEvent_def WEBHOOK_EVENTS_def created_job_def)

lemma created_rendered: "renderNotification created_job
    = Inr (Some \<lparr>rn_title = ''Workspace created'', rn_body = ''Workspace '' @ dq ''Ops'' @ '' was created.'', rn_type = Success\<rparr>)"
  by code_simp

lemma two_attempts:
  "js_status (attempts (<) [site [''a''] True, site [''a'', ''b''] True] (fresh_job created_job)) = Completed"
  "js_acks (attempts (<) [site [''a''] True, site [''a'', ''b''] True] (fresh_job created_job)) = [''a'', ''b'']"
  "js_acks (attempts (<) [site [''a''] False, site [''a'', ''b''] True] (fresh_job created_job)) = [''a'', ''a'', ''b'']"
  by code_simp+

lemma keeps_less: "keeps_options (<)"
  by (simp add: keeps_options_def)




text \<open>Once one list of subscriptions cannot be read, that guarantee ends: the endpoint that
  acknowledged on that attempt is not recorded, and the retry sends it the event again.\<close>

theorem unread_channels_send_twice:
  "\<exists>D1 D2 job again. keeps_options again \<and> de_webhooks D1 = de_webhooks D2 \<and> js_acks (attempts again [D1, D2] (fresh_job job)) = [''a'', ''a'', ''b'']
     \<and> js_status (attempts again [D1, D2] (fresh_job job)) = Completed"
proof (intro exI conjI)
  show "keeps_options (<)" by (rule keeps_less)
  show "de_webhooks (site [''a''] False) = de_webhooks (site [''a'', ''b''] True)" by (simp add: site_def)
  show "js_acks (attempts (<) [site [''a''] False, site [''a'', ''b''] True] (fresh_job created_job)) = [''a'', ''a'', ''b'']"
    by (rule two_attempts)
  show "js_status (attempts (<) [site [''a''] False, site [''a'', ''b''] True] (fresh_job created_job)) = Completed"
    by code_simp
qed

section \<open>What the channels are told\<close>

text \<open>The catalog offers the deletion of a custom capability, which revokes every grant of it, and
  the other capability events for subscription, but none has a notification text, so no channel is ever
  told; and the text for a deleted workspace never gives the numbers its payload holds, reading the same
  whatever they are.\<close>

theorem channels_kept_in_the_dark:
  "list_all (\<lambda>t. getWebhookEvent t \<noteq> None
      \<and> renderNotification \<lparr>wj_eventType = t, wj_payload = payload, wj_occurredAt = ts\<rparr> = Inr None)
     [''capability.created'', ''capability.updated'', ''capability.deleted'']
   \<and> renderNotification \<lparr>wj_eventType = ''workspace.deleted'',
        wj_payload = JObj [(''name'', JStr nm), (''affectedGrants'', JNum (1 + int g)), (''unassignedActors'', JNum (1 + int u))],
        wj_occurredAt = ts\<rparr>
     = renderNotification \<lparr>wj_eventType = ''workspace.deleted'',
        wj_payload = JObj [(''name'', JStr nm), (''affectedGrants'', JNum 1), (''unassignedActors'', JNum 1)],
        wj_occurredAt = ts\<rparr>"
  by (simp add: getWebhookEvent_def WEBHOOK_EVENTS_def renderNotification_def RENDERERS_def above_zero_def str_def
      str_or_def appendFooter_def appendChanges_def appendGrantedCapabilities_def set_field_def Let_def)

end
