(* ===== verification/LoginState.thy ===== *)
theory LoginState
  imports AdminEdits
begin

text \<open>
  Signing in to the console: the rows of a login handshake (\<open>db/auth-certificate.dao.ts\<close>), of identity
  providers and external identities (\<open>db/sso.dao.ts\<close>), and the state of the sign-in code around the
  console (\<open>packages/controlplane/lib/user-login-channel.ts\<close>).

  The metadata column is JSON text written by \<open>JSON.stringify\<close> only: the row holds the object. The
  challenger of \<open>@vaultys/id\<close> is the one of the connection server, with the operations only the login
  uses in \<open>login_lib\<close>; a throw is \<open>None\<close>.
\<close>

section \<open>Rows\<close>

record login_row =
  lr_id :: string
  lr_key :: string
  lr_registration :: "string option"
  lr_connection :: "string option"
  lr_register :: int
  lr_data :: string
  lr_status :: int
  lr_metadata :: "(string \<times> json) list option"
  lr_startedAt :: int

record sso_connection_row =
  sn_id :: string
  sn_kind :: string
  sn_name :: string
  sn_issuer :: string
  sn_clientId :: string
  sn_clientSecretEnc :: string
  sn_tenantId :: "string option"
  sn_isActive :: bool
  sn_createdBy :: string
  sn_createdAt :: int

record sso_identity_row =
  si_id :: string
  si_connectionId :: string
  si_subject :: string
  si_issuer :: string
  si_email :: "string option"
  si_name :: "string option"
  si_did :: "string option"
  si_lastLoginAt :: "int option"

section \<open>Handshake rows (auth-certificate.dao.ts)\<close>

definition login_create :: "login_row \<Rightarrow> login_row list \<Rightarrow> (db_error, login_row list) result" where
  "login_create r rows =
     (if list_ex (\<lambda>x. lr_id x = lr_id r \<or> lr_registration r \<noteq> None \<and> lr_registration x = lr_registration r
          \<or> lr_connection r \<noteq> None \<and> lr_connection x = lr_connection r) rows
      then Inl UniqueViolation else Inr (rows @ [r]))"

definition login_findByRegistration :: "string \<Rightarrow> login_row list \<Rightarrow> login_row option" where
  "login_findByRegistration t rows = row_find lr_registration (Some t) rows"

definition login_findByConnection :: "string \<Rightarrow> login_row list \<Rightarrow> login_row option" where
  "login_findByConnection t rows = row_find lr_connection (Some t) rows"

definition login_findByKey :: "string \<Rightarrow> login_row list \<Rightarrow> login_row option" where
  "login_findByKey k rows = row_find lr_key k rows"

text \<open>An update; \<open>None\<close> leaves a column alone.\<close>

definition login_update ::
  "string \<Rightarrow> string option \<Rightarrow> int option \<Rightarrow> (string \<times> json) list option \<Rightarrow> login_row list
     \<Rightarrow> (db_error, login_row list) result" where
  "login_update i dat status meta rows =
     bind_result (row_update lr_id i
       (\<lambda>r. r\<lparr>lr_data := (case dat of None \<Rightarrow> lr_data r | Some x \<Rightarrow> x),
              lr_status := (case status of None \<Rightarrow> lr_status r | Some x \<Rightarrow> x),
              lr_metadata := (case meta of None \<Rightarrow> lr_metadata r | Some x \<Rightarrow> Some x)\<rparr>) rows)
       (\<lambda>(_, rows'). Inr rows')"

definition login_delete :: "string \<Rightarrow> login_row list \<Rightarrow> login_row list" where
  "login_delete i rows = filter (\<lambda>r. lr_id r \<noteq> i) rows"

definition login_deleteStartedBefore :: "int \<Rightarrow> login_row list \<Rightarrow> nat \<times> login_row list" where
  "login_deleteStartedBefore cutoff rows =
     (length (filter (\<lambda>r. lr_startedAt r < cutoff) rows), filter (\<lambda>r. \<not> lr_startedAt r < cutoff) rows)"

section \<open>Identity providers (sso.dao.ts)\<close>

definition connection_create ::
  "sso_connection_row \<Rightarrow> sso_connection_row list \<Rightarrow> (db_error, sso_connection_row list) result" where
  "connection_create r rows =
     (if list_ex (\<lambda>x. sn_id x = sn_id r \<or> sn_issuer x = sn_issuer r \<and> sn_clientId x = sn_clientId r) rows
      then Inl UniqueViolation else Inr (rows @ [r]))"

definition connection_list :: "sso_connection_row list \<Rightarrow> sso_connection_row list" where
  "connection_list rows = sort_key sn_createdAt rows"

definition connection_listActive :: "sso_connection_row list \<Rightarrow> sso_connection_row list" where
  "connection_listActive rows = sort_key sn_createdAt (filter sn_isActive rows)"

definition connection_findById :: "string \<Rightarrow> sso_connection_row list \<Rightarrow> sso_connection_row option" where
  "connection_findById i rows = row_find sn_id i rows"

text \<open>An edit of some columns, which must leave issuer and client unique.\<close>

definition connection_update ::
  "string \<Rightarrow> (sso_connection_row \<Rightarrow> sso_connection_row) \<Rightarrow> sso_connection_row list
     \<Rightarrow> (db_error, sso_connection_row \<times> sso_connection_row list) result" where
  "connection_update i f rows =
     (case row_find sn_id i rows of
        None \<Rightarrow> Inl RecordNotFound
      | Some r \<Rightarrow>
          if list_ex (\<lambda>x. sn_id x \<noteq> i \<and> sn_issuer x = sn_issuer (f r) \<and> sn_clientId x = sn_clientId (f r)) rows
          then Inl UniqueViolation
          else Inr (f r, row_map (\<lambda>r. sn_id r = i) f rows))"

definition connection_delete :: "string \<Rightarrow> sso_connection_row list \<Rightarrow> (db_error, sso_connection_row list) result" where
  "connection_delete i rows = row_delete sn_id i rows"

definition boundIdentityCount :: "string \<Rightarrow> sso_identity_row list \<Rightarrow> nat" where
  "boundIdentityCount i rows = length (filter (\<lambda>r. si_connectionId r = i \<and> si_did r \<noteq> None) rows)"

record sso_claims =
  sl_subject :: string
  sl_issuer :: string
  sl_email :: "string option"
  sl_name :: "string option"

definition identity_findBySubject :: "string \<Rightarrow> string \<Rightarrow> sso_identity_row list \<Rightarrow> sso_identity_row option" where
  "identity_findBySubject con sub rows = find (\<lambda>r. si_connectionId r = con \<and> si_subject r = sub) rows"

text \<open>The claims are refreshed, the binding never touched. A foreign key of a new row asks for the connection.\<close>

definition identity_upsertFromClaims ::
  "int \<Rightarrow> string \<Rightarrow> string \<Rightarrow> sso_claims \<Rightarrow> sso_connection_row list \<Rightarrow> sso_identity_row list
     \<Rightarrow> (db_error, sso_identity_row \<times> sso_identity_row list) result" where
  "identity_upsertFromClaims now newId con cl cons rows =
     (let refresh = (\<lambda>r. r\<lparr>si_email := sl_email cl, si_name := sl_name cl, si_issuer := sl_issuer cl,
                           si_lastLoginAt := Some now\<rparr>) in
      case identity_findBySubject con (sl_subject cl) rows of
        Some r \<Rightarrow> Inr (refresh r, row_map (\<lambda>r. si_connectionId r = con \<and> si_subject r = sl_subject cl) refresh rows)
      | None \<Rightarrow>
          if row_find si_id newId rows \<noteq> None then Inl UniqueViolation
          else if connection_findById con cons = None then Inl ForeignKeyViolation
          else
            let r = \<lparr>si_id = newId, si_connectionId = con, si_subject = sl_subject cl, si_issuer = sl_issuer cl,
                     si_email = sl_email cl, si_name = sl_name cl, si_did = None, si_lastLoginAt = Some now\<rparr>
            in Inr (r, rows @ [r]))"

text \<open>
  \<open>updateMany\<close> of the unbound row with the id. A DID that is bound elsewhere breaks the unique column,
  and one that is no Actor the foreign key.
\<close>

definition identity_bindDid ::
  "string \<Rightarrow> string \<Rightarrow> db \<Rightarrow> sso_identity_row list \<Rightarrow> (db_error, bool \<times> sso_identity_row list) result" where
  "identity_bindDid i did d rows =
     (let hit = (\<lambda>r. si_id r = i \<and> si_did r = None); n = length (filter hit rows) in
      if n = 0 then Inr (False, rows)
      else if list_ex (\<lambda>r. si_did r = Some did) rows then Inl UniqueViolation
      else if actor_findByDid did d = None then Inl ForeignKeyViolation
      else Inr (n = 1, row_map hit (\<lambda>r. r\<lparr>si_did := Some did\<rparr>) rows))"

definition identity_findByDid :: "string \<Rightarrow> sso_identity_row list \<Rightarrow> sso_identity_row option" where
  "identity_findByDid did rows = row_find si_did (Some did) rows"

section \<open>State\<close>

record ('vid, 'ch) login_lib =
  ll_init :: "'vid \<Rightarrow> byte list \<Rightarrow> 'ch option"
  ll_update :: "'ch \<Rightarrow> byte list \<Rightarrow> (string \<times> string) list option \<Rightarrow> 'ch option"
  ll_state :: "'ch \<Rightarrow> int"
  ll_decrypt :: "byte list \<Rightarrow> string \<Rightarrow> byte list option"
  ll_encrypt :: "byte list \<Rightarrow> string \<Rightarrow> byte list"
  ll_sha256 :: "string \<Rightarrow> string"
  ll_encryptSecret :: "string \<Rightarrow> string"
  ll_decryptSecret :: "string \<Rightarrow> string option"

text \<open>A wallet session over PeerJS: waiting for a wallet to dial, or for its message of a round.\<close>

datatype 'ch p2p_phase = Dialing | Round nat 'ch

record 'ch p2p_session =
  ps_row :: login_row
  ps_deadline :: int
  ps_phase :: "'ch p2p_phase"

text \<open>What waits at an \<open>await\<close>: a round on the row it read, and the two steps of trading a key for a session.\<close>

datatype login_task =
    RoundTask login_row string
  | ConsumeTask string login_row
  | DeleteTask login_row login_row bool

text \<open>How a session was opened: from a handshake row, or from an external identity.\<close>

datatype session_source = FromKey string int | FromIdentity string string

record ('vid, 'ch, 'cfg) portal =
  pt_console :: "('vid, 'ch, 'cfg) console"
  pt_logins :: "login_row list"
  pt_connections :: "sso_connection_row list"
  pt_identities :: "sso_identity_row list"
  pt_lastSweepAt :: int
  pt_p2p :: "(nat \<times> 'ch p2p_session) list"
  pt_tasks :: "login_task list"
  pt_sessions :: "(session_source \<times> string) list"
  pt_proven :: "(string \<times> 'ch) list"

text \<open>\<open>pt_sessions\<close> and \<open>pt_proven\<close> are history: the sessions opened, and the challengers whose contact was taken as proven, by row.\<close>

abbreviation pt_db :: "('vid, 'ch, 'cfg) portal \<Rightarrow> db" where
  "pt_db p \<equiv> co_db (pt_console p)"

record login_env =
  le_admin :: admin_env
  le_key :: string
  le_id :: string
  le_browserBootstrap :: bool
  le_sent :: bool

abbreviation le_now :: "login_env \<Rightarrow> int" where
  "le_now E \<equiv> ev_now (ae_ev (le_admin E))"

section \<open>Outcomes\<close>

datatype portal_error = ConsoleError admin_error | DecryptFailed | SendFailed

type_synonym ('vid, 'ch, 'cfg, 'a) port = "(('vid, 'ch, 'cfg) portal, portal_error, 'a) run"

definition onConsole :: "('vid, 'ch, 'cfg, 'a) act \<Rightarrow> ('vid, 'ch, 'cfg, 'a) port" where
  "onConsole m p =
     (case m (pt_console p) of
        (Inl e, c) \<Rightarrow> (Inl (ConsoleError e), p\<lparr>pt_console := c\<rparr>)
      | (Inr x, c) \<Rightarrow> (Inr x, p\<lparr>pt_console := c\<rparr>))"

definition onLogins :: "(login_row list \<Rightarrow> (db_error, login_row list) result) \<Rightarrow> ('vid, 'ch, 'cfg, unit) port" where
  "onLogins f p =
     (case f (pt_logins p) of
        Inl e \<Rightarrow> (Inl (ConsoleError (DbFailed e)), p)
      | Inr rows \<Rightarrow> (Inr (), p\<lparr>pt_logins := rows\<rparr>))"

end
