(* ===== verification/Login.thy ===== *)
theory Login
  imports LoginState
begin

text \<open>
  The sign-in code: \<open>packages/controlplane/lib/user-login-channel.ts\<close> (handshake rows, wallet sessions, rounds over
  HTTP, redeeming an invitation, trading a key for a session), \<open>lib/auth-config.ts\<close> and \<open>lib/sso.ts\<close>.

  A function is cut at an \<open>await\<close> where another call can reach the handshake row it works on: between
  reading the row and the rest of a round, and between the lookups and the deletion that trade a key.
\<close>

section \<open>Handshake rows\<close>

definition AUTH_CERTIFICATE_TTL_MS :: int where
  "AUTH_CERTIFICATE_TTL_MS = 10 * 60 * 1000"

definition isAuthCertificateExpired :: "login_row \<Rightarrow> int \<Rightarrow> bool" where
  "isAuthCertificateExpired r now = (now - lr_startedAt r > AUTH_CERTIFICATE_TTL_MS)"

definition SWEEP_INTERVAL_MS :: int where
  "SWEEP_INTERVAL_MS = 5 * 60 * 1000"

definition sweepExpiredCertificates :: "int \<Rightarrow> ('vid, 'ch, 'cfg, unit) port" where
  "sweepExpiredCertificates now p =
     (if now - pt_lastSweepAt p < SWEEP_INTERVAL_MS then (Inr (), p)
      else (Inr (), p\<lparr>pt_lastSweepAt := now,
                      pt_logins := snd (login_deleteStartedBefore (now - AUTH_CERTIFICATE_TTL_MS) (pt_logins p))\<rparr>))"

definition new_row :: "('vid, 'ch) login_lib \<Rightarrow> login_env \<Rightarrow> int \<Rightarrow> (string \<times> json) list option \<Rightarrow> login_row" where
  "new_row L E reg meta =
     \<lparr>lr_id = le_id E, lr_key = le_key E,
      lr_registration = Some (ll_sha256 L (''vaultys-'' @ le_key E @ ''-server'')),
      lr_connection = Some (ll_sha256 L (''connecting-'' @ le_key E @ ''-vaultys'')),
      lr_register = reg, lr_data = [], lr_status = - 1, lr_metadata = meta, lr_startedAt = le_now E\<rparr>"

definition create_row ::
  "('vid, 'ch) login_lib \<Rightarrow> login_env \<Rightarrow> int \<Rightarrow> (string \<times> json) list option \<Rightarrow> ('vid, 'ch, 'cfg, login_row) port" where
  "create_row L E reg meta =
     andThen (onLogins (login_create (new_row L E reg meta))) (\<lambda>_. give (new_row L E reg meta))"

definition createRegistrationCertificate ::
  "('vid, 'ch) login_lib \<Rightarrow> login_env \<Rightarrow> string option \<Rightarrow> ('vid, 'ch, 'cfg, login_row) port" where
  "createRegistrationCertificate L E invitationToken =
     andThen (sweepExpiredCertificates (le_now E)) (\<lambda>_.
     create_row L E 1
       (if truthy invitationToken then Some [(''invitationToken'', JStr (text_of invitationToken))] else None))"

definition createConnectionCertificate ::
  "('vid, 'ch) login_lib \<Rightarrow> login_env \<Rightarrow> ('vid, 'ch, 'cfg, login_row) port" where
  "createConnectionCertificate L E =
     andThen (sweepExpiredCertificates (le_now E)) (\<lambda>_. create_row L E 0 None)"

definition createCertificateRound ::
  "('vid, 'ch) login_lib \<Rightarrow> login_env \<Rightarrow> string \<Rightarrow> string list \<Rightarrow> string \<Rightarrow> string
     \<Rightarrow> ('vid, 'ch, 'cfg, login_row) port" where
  "createCertificateRound L E humanDid capabilities certId issuedBy =
     create_row L E 0 (Some [(''kind'', JStr ''certificate''), (''humanDid'', JStr humanDid),
       (''capabilities'', jstrs capabilities), (''certId'', JStr certId), (''issuedBy'', JStr issuedBy)])"

text \<open>\<open>JSON.parse(metadata ?? "{}")\<close> and the text of one of its fields.\<close>

definition meta_of :: "login_row \<Rightarrow> (string \<times> json) list" where
  "meta_of r = (case lr_metadata r of None \<Rightarrow> [] | Some m \<Rightarrow> m)"

definition meta_text :: "(string \<times> json) list \<Rightarrow> string \<Rightarrow> string option" where
  "meta_text m k = (case map_of m k of Some (JStr s) \<Rightarrow> Some s | _ \<Rightarrow> None)"

definition meta_texts :: "(string \<times> json) list \<Rightarrow> string \<Rightarrow> string list" where
  "meta_texts m k = (case map_of m k of
      Some (JArr xs) \<Rightarrow> List.map_filter (\<lambda>x. case x of JStr s \<Rightarrow> Some s | _ \<Rightarrow> None) xs | _ \<Rightarrow> [])"

section \<open>Redeeming an invitation\<close>

text \<open>
  The check and the rest: between them another redemption can commit. \<open>redeemInvitation\<close> is what follows
  once the check has passed, on the state as it is then.
\<close>

definition INVITED_GRANT_TTL_MS :: int where
  "INVITED_GRANT_TTL_MS = 365 * 24 * 60 * 60 * 1000"

definition bindSsoIdentity :: "string \<Rightarrow> string \<Rightarrow> ('vid, 'ch, 'cfg, bool) port" where
  "bindSsoIdentity i did p =
     (case identity_bindDid i did (pt_db p) (pt_identities p) of
        Inl e \<Rightarrow> (Inl (ConsoleError (DbFailed e)), p)
      | Inr (ok, rows) \<Rightarrow> (Inr ok, p\<lparr>pt_identities := rows\<rparr>))"

definition redeemInvitation ::
  "('vid, 'ch, 'cfg) ws_lib \<Rightarrow> login_env \<Rightarrow> string \<Rightarrow> string \<Rightarrow> invitation_row \<Rightarrow> ('vid, 'ch, 'cfg, bool) port" where
  "redeemInvitation lib E did publicKey invitation =
     (let now = le_now E in
      andThen (catching (andThen (onConsole (user_ensureExists now did (i_name invitation) (i_email invitation) (Some publicKey))) (\<lambda>_. give True))
               (\<lambda>e. case e of ConsoleError (Refused (EmailTaken _)) \<Rightarrow> give False | _ \<Rightarrow> throw e)) (\<lambda>made.
      if \<not> made then give False
      else
        andThen (reading (\<lambda>p. actor_findByDid did (pt_db p))) (\<lambda>actor.
        andThen (onConsole (dao_unit (invitation_markRedeemed now (i_tokenHash invitation) did))) (\<lambda>_.
        andThen (case i_ssoIdentityId invitation of
                 None \<Rightarrow> give ()
               | Some i \<Rightarrow> if i = [] then give () else andThen (bindSsoIdentity i did) (\<lambda>_. give ())) (\<lambda>_.
        andThen (onConsole (user_markProfileCompleted now did)) (\<lambda>_.
        andThen (if i_capabilities invitation = [] then give ()
               else andThen (onConsole (issue_grant lib (le_admin E)
                      \<lparr>ag_agentDid = did, ag_workspaceId = i_workspaceId invitation, ag_capabilities = i_capabilities invitation,
                       ag_scope = None, ag_resourceLimits = None,
                       ag_expiresAt = Some (now + INVITED_GRANT_TTL_MS), ag_issuedBy = i_createdBy invitation\<rparr>)) (\<lambda>_. give ())) (\<lambda>_.
        andThen (onConsole (record_event (le_admin E) ''human.invitation_redeemed''
                 ((case actor of None \<Rightarrow> [] | Some a \<Rightarrow> actorPayload (ae_payload (le_admin E)) a) @
                  [(''invitedBy'', JStr (i_createdBy invitation))]) None (Some ''actor'') (Some did))) (\<lambda>_.
        give True))))))))"

definition registerHumanFromInvitation ::
  "('vid, 'ch, 'cfg) ws_lib \<Rightarrow> login_env \<Rightarrow> string \<Rightarrow> string \<Rightarrow> string \<Rightarrow> ('vid, 'ch, 'cfg, bool) port" where
  "registerHumanFromInvitation lib E did publicKey rawToken =
     andThen (reading (\<lambda>p. invitation_findValidByToken (ae_hashToken (le_admin E)) (le_now E) rawToken (pt_db p))) (\<lambda>found.
     case found of
       None \<Rightarrow> give False
     | Some invitation \<Rightarrow>
         andThen (reading (\<lambda>p. if truthy (i_email invitation) then user_findByEmail (text_of (i_email invitation)) (pt_console p) else None)) (\<lambda>holder.
         if (case holder of None \<Rightarrow> False | Some u \<Rightarrow> us_did u \<noteq> did) then give False
         else redeemInvitation lib E did publicKey invitation))"

section \<open>Completed handshakes\<close>

definition registerHuman ::
  "('vid, 'ch, 'cfg) ws_lib \<Rightarrow> login_env \<Rightarrow> 'vid \<Rightarrow> string option \<Rightarrow> ('vid, 'ch, 'cfg, bool) port" where
  "registerHuman lib E contact invitationToken =
     (let did = lb_did lib contact; publicKey = toBase64 (lb_idBytes lib contact) in
      if truthy invitationToken then registerHumanFromInvitation lib E did publicKey (text_of invitationToken)
      else andThen (onConsole (user_ensureExists (le_now E) did ''Unnamed'' None (Some publicKey))) (\<lambda>_. give True))"

definition loginHuman :: "('vid, 'ch, 'cfg) ws_lib \<Rightarrow> 'vid \<Rightarrow> ('vid, 'ch, 'cfg, bool) port" where
  "loginHuman lib contact = reading (\<lambda>p. actor_findByDid (lb_did lib contact) (pt_db p) \<noteq> None)"

record login_result =
  lo_ok :: bool
  lo_did :: string
  lo_isNewRegistration :: bool
  lo_metadata :: "(string \<times> json) list option"

text \<open>The history of proofs is written here, where the contact of a complete challenger is read.\<close>

definition handleSuccess ::
  "('vid, 'ch, 'cfg) ws_lib \<Rightarrow> login_env \<Rightarrow> login_row \<Rightarrow> 'ch \<Rightarrow> ('vid, 'ch, 'cfg, login_result) port" where
  "handleSuccess lib E cert challenger =
     (let contact = ch_contact (lb_challenger lib) challenger; did = lb_did lib contact;
          meta = meta_of cert; isNew = (lr_register cert = 1) in
      andThen (\<lambda>p. (Inr (), p\<lparr>pt_proven := pt_proven p @ [(lr_id cert, challenger)]\<rparr>)) (\<lambda>_.
      andThen (if isNew then registerHuman lib E contact (meta_text meta ''invitationToken'') else loginHuman lib contact) (\<lambda>ok.
      give \<lparr>lo_ok = ok, lo_did = did, lo_isNewRegistration = isNew,
             lo_metadata = (if ok then Some (map_set ''did'' (JStr did) meta) else lr_metadata cert)\<rparr>)))"

definition bootstrap_admin :: "('vid, 'ch, 'cfg) ws_lib \<Rightarrow> login_env \<Rightarrow> string \<Rightarrow> ('vid, 'ch, 'cfg, unit) act" where
  "bootstrap_admin lib E did c =
     (case ensureBootstrapAdmin (lb_certs lib) (lb_serverVid lib) (le_now E) did (co_db c) of
        Inl SignFailed \<Rightarrow> (Inl SigningFailed, c)
      | Inl (IssueDb e) \<Rightarrow> (Inl (DbFailed e), c)
      | Inr (_, d') \<Rightarrow> (Inr (), set_db d' c))"

section \<open>Wallet sessions\<close>

datatype p2p_input =
    DialledIn | DialTimedOut | DialFailed
  | Received "byte list" | ReceiveTimedOut | ReceiveFailed

definition p2p_close :: "nat \<Rightarrow> ('vid, 'ch, 'cfg, unit) port" where
  "p2p_close s p = (Inr (), p\<lparr>pt_p2p := map_remove s (pt_p2p p)\<rparr>)"

definition mark_failed :: "login_row \<Rightarrow> string option \<Rightarrow> ('vid, 'ch, 'cfg, unit) port" where
  "mark_failed row dat = onLogins (login_update (lr_id row) dat (Some (- 2)) None)"

definition startP2PSession ::
  "login_env \<Rightarrow> nat \<Rightarrow> login_row \<Rightarrow> int \<Rightarrow> ('vid, 'ch, 'cfg, unit) port" where
  "startP2PSession E s cert connectWindowMs p =
     (Inr (), p\<lparr>pt_p2p := map_set s \<lparr>ps_row = cert, ps_deadline = le_now E + connectWindowMs, ps_phase = Dialing\<rparr> (pt_p2p p)\<rparr>)"

definition P2P_ROUNDS :: nat where
  "P2P_ROUNDS = 4"

text \<open>One message of the wallet: what the body of the loop does with it, and whether the session goes on.\<close>

definition p2p_round ::
  "('vid, 'ch, 'cfg) ws_lib \<Rightarrow> login_env \<Rightarrow> login_row \<Rightarrow> 'ch \<Rightarrow> byte list \<Rightarrow> ('vid, 'ch, 'cfg, 'ch option) port" where
  "p2p_round lib E row ch walletCert =
     (let C = lb_challenger lib in
      case ch_update C ch walletCert of
        None \<Rightarrow> andThen (mark_failed row None) (\<lambda>_. give None)
      | Some c \<Rightarrow>
          let dat = toBase64 (ch_bytes C c) in
          if ch_failed C c \<or> \<not> verifyProtocol C c then andThen (mark_failed row (Some dat)) (\<lambda>_. give None)
          else if ch_complete C c then
            andThen (handleSuccess lib E row c) (\<lambda>res.
            andThen (if lo_ok res \<and> lo_isNewRegistration res then onConsole (bootstrap_admin lib E (lo_did res)) else give ()) (\<lambda>_.
            andThen (onLogins (login_update (lr_id row) (Some dat) (Some (if lo_ok res then 2 else - 2)) (lo_metadata res))) (\<lambda>_.
            give None)))
          else if le_sent E then give (Some c)
          else throw SendFailed)"

text \<open>An error inside marks the row failed; one of that write itself is lost with the promise.\<close>

definition p2p_step ::
  "('vid, 'ch, 'cfg) ws_lib \<Rightarrow> login_env \<Rightarrow> nat \<Rightarrow> p2p_input \<Rightarrow> ('vid, 'ch, 'cfg) portal \<Rightarrow> ('vid, 'ch, 'cfg) portal" where
  "p2p_step lib E s inp p =
     (case map_of (pt_p2p p) s of
        None \<Rightarrow> p
      | Some S \<Rightarrow>
          let row = ps_row S; stop = (\<lambda>p. snd (p2p_close s p));
              broken = (\<lambda>p. stop (snd (mark_failed row None p))) in
          case (ps_phase S, inp) of
            (Dialing, DialledIn) \<Rightarrow>
              p\<lparr>pt_p2p := map_set s (S\<lparr>ps_phase := Round 0 (ch_new (lb_challenger lib) (lb_serverVid lib))\<rparr>) (pt_p2p p)\<rparr>
          | (Dialing, DialTimedOut) \<Rightarrow> broken p
          | (Dialing, DialFailed) \<Rightarrow> broken p
          | (Round n ch, ReceiveTimedOut) \<Rightarrow> broken p
          | (Round n ch, ReceiveFailed) \<Rightarrow> broken p
          | (Round n ch, Received walletCert) \<Rightarrow>
              (case p2p_round lib E row ch walletCert p of
                 (Inl e, p') \<Rightarrow> broken p'
               | (Inr None, p') \<Rightarrow> stop p'
               | (Inr (Some c), p') \<Rightarrow>
                   if Suc n < P2P_ROUNDS
                   then p'\<lparr>pt_p2p := map_set s (S\<lparr>ps_phase := Round (Suc n) c\<rparr>) (pt_p2p p')\<rparr>
                   else stop p')
          | _ \<Rightarrow> p)"

text \<open>How long a session waits for its next input.\<close>

definition p2p_patience :: "'ch p2p_session \<Rightarrow> int \<Rightarrow> int" where
  "p2p_patience S now =
     (let remaining = max 0 (ps_deadline S - now) in
      case ps_phase S of
        Dialing \<Rightarrow> remaining
      | Round n _ \<Rightarrow> if n = 0 then max 5000 remaining else 5000)"

section \<open>Rounds over HTTP\<close>

definition refusal_bytes :: "byte list" where
  "refusal_bytes = [0]"

definition verifyCertificateProtocol :: "('vid, 'ch) challenger_lib \<Rightarrow> 'ch \<Rightarrow> bool" where
  "verifyCertificateProtocol C c = (fst (ch_context C c) = ''p2p'' \<and> snd (ch_context C c) = ''certificate'')"

definition resumed ::
  "('vid, 'ch, 'cfg) ws_lib \<Rightarrow> ('vid, 'ch) login_lib \<Rightarrow> login_row \<Rightarrow> 'ch option" where
  "resumed lib L row =
     (if lr_data row = [] then Some (ch_new (lb_challenger lib) (lb_serverVid lib))
      else ll_init L (lb_serverVid lib) (fromBase64 (lr_data row)))"

definition refuse_round :: "login_row \<Rightarrow> string option \<Rightarrow> ('vid, 'ch, 'cfg, byte list) port" where
  "refuse_round row dat = andThen (mark_failed row dat) (\<lambda>_. give refusal_bytes)"

definition persist_round :: "login_env \<Rightarrow> login_row \<Rightarrow> string \<Rightarrow> ('vid, 'ch, 'cfg, unit) act" where
  "persist_round E row dataB64 =
     (let m = meta_of row in
      andThen (dao (persistChallengerCertificate (le_now E)
        \<lparr>ch_certId = text_of (meta_text m ''certId''), ch_agentDid = text_of (meta_text m ''humanDid''),
         ch_workspaceId = None, ch_capabilities = meta_texts m ''capabilities'',
         ch_certificateBase64 = dataB64, ch_expiresAt = None, ch_issuedBy = meta_text m ''issuedBy''\<rparr>)) (\<lambda>_. give ()))"

text \<open>\<open>JSON.stringify\<close> of capability names, which need no escape.\<close>

definition capabilities_text :: "string list \<Rightarrow> string" where
  "capabilities_text caps =
     (let dq = CHR 0x22 in [CHR ''[''] @ concat (map (\<lambda>(i, c). (if i = (0::nat) then [] else '','') @ [dq] @ c @ [dq])
        (zip [0..<length caps] caps)) @ [CHR '']''])"

definition handleCertificateRequest ::
  "('vid, 'ch, 'cfg) ws_lib \<Rightarrow> ('vid, 'ch) login_lib \<Rightarrow> login_env \<Rightarrow> login_row \<Rightarrow> string
     \<Rightarrow> ('vid, 'ch, 'cfg, byte list) port" where
  "handleCertificateRequest lib L E cert dat =
     (let C = lb_challenger lib; isFirstRound = (lr_data cert = []) in
      case resumed lib L cert of
        None \<Rightarrow> refuse_round cert None
      | Some c0 \<Rightarrow>
      (case ll_decrypt L (fromBase64 dat) (lr_key cert) of
         None \<Rightarrow> throw DecryptFailed
       | Some decoded \<Rightarrow>
      (case ll_update L c0 decoded
              (if isFirstRound then Some [(''capabilities'', capabilities_text (meta_texts (meta_of cert) ''capabilities''))] else None) of
         None \<Rightarrow> refuse_round cert None
       | Some c \<Rightarrow>
           let dataB64 = toBase64 (ch_bytes C c) in
           if ch_failed C c \<or> \<not> verifyCertificateProtocol C c then refuse_round cert (Some dataB64)
           else
             andThen (if ch_complete C c then onConsole (persist_round E cert dataB64) else give ()) (\<lambda>_.
             andThen (onLogins (login_update (lr_id cert) (Some dataB64) (Some (ll_state L c)) None)) (\<lambda>_.
             give (ll_encrypt L (ch_bytes C c) (lr_key cert)))))))"

text \<open>A round up to its first wait: the row it read, or the refusal.\<close>

definition handleRequest_open ::
  "login_env \<Rightarrow> string \<Rightarrow> ('vid, 'ch, 'cfg, login_row option) port" where
  "handleRequest_open E token =
     (if token = [] then give None
      else andThen (reading (\<lambda>p. login_findByRegistration token (pt_logins p))) (\<lambda>found.
           case found of
             None \<Rightarrow> give None
           | Some cert \<Rightarrow>
               if isAuthCertificateExpired cert (le_now E)
               then andThen (mark_failed cert None) (\<lambda>_. give None)
               else give (Some cert)))"

definition handleRequest_round ::
  "('vid, 'ch, 'cfg) ws_lib \<Rightarrow> ('vid, 'ch) login_lib \<Rightarrow> login_env \<Rightarrow> login_row \<Rightarrow> string
     \<Rightarrow> ('vid, 'ch, 'cfg, byte list) port" where
  "handleRequest_round lib L E cert dat =
     (if meta_text (meta_of cert) ''kind'' = Some ''certificate'' then handleCertificateRequest lib L E cert dat
      else
        let C = lb_challenger lib in
        case resumed lib L cert of
          None \<Rightarrow> refuse_round cert None
        | Some c0 \<Rightarrow>
        (case ll_decrypt L (fromBase64 dat) (lr_key cert) of
           None \<Rightarrow> throw DecryptFailed
         | Some decoded \<Rightarrow>
        (case ch_update C c0 decoded of
           None \<Rightarrow> refuse_round cert None
         | Some c \<Rightarrow>
             let data64 = toBase64 (ch_bytes C c);
                 answer = (\<lambda>meta. andThen (onLogins (login_update (lr_id cert) (Some data64) (Some (ll_state L c)) meta)) (\<lambda>_.
                            give (ll_encrypt L (ch_bytes C c) (lr_key cert)))) in
             if ch_failed C c \<or> \<not> verifyProtocol C c then refuse_round cert (Some data64)
             else if \<not> ch_complete C c then answer (lr_metadata cert)
             else
               andThen (handleSuccess lib E cert c) (\<lambda>res.
               if \<not> lo_ok res then refuse_round cert (Some data64)
               else
                 andThen (reading (\<lambda>p. lo_isNewRegistration res \<and> isBootstrapAdminNeeded (le_now E) (pt_db p))) (\<lambda>needed.
                 if needed then
                   andThen (createCertificateRound L E (lo_did res) [''admin_console_access''] BOOTSTRAP_ADMIN_CERT_ID ''system:bootstrap'') (\<lambda>cr.
                   answer (Some (map_set ''certRound'' (JObj [(''key'', JStr (lr_key cr))])
                     (case lo_metadata res of None \<Rightarrow> [] | Some m \<Rightarrow> m))))
                 else answer (lo_metadata res))))))"

definition handleRequest ::
  "('vid, 'ch, 'cfg) ws_lib \<Rightarrow> ('vid, 'ch) login_lib \<Rightarrow> login_env \<Rightarrow> string \<Rightarrow> string
     \<Rightarrow> ('vid, 'ch, 'cfg, byte list) port" where
  "handleRequest lib L E token dat =
     andThen (handleRequest_open E token) (\<lambda>found.
     case found of None \<Rightarrow> give refusal_bytes | Some cert \<Rightarrow> handleRequest_round lib L E cert dat)"

section \<open>Trading a key for a session\<close>

definition connecting :: "int \<Rightarrow> string \<Rightarrow> ('vid, 'ch, 'cfg) portal \<Rightarrow> login_row option" where
  "connecting now key p =
     (if key = [] then None
      else case login_findByKey key (pt_logins p) of
             None \<Rightarrow> None
           | Some r \<Rightarrow> if isAuthCertificateExpired r now then None else Some r)"

definition listen :: "int \<Rightarrow> string \<Rightarrow> ('vid, 'ch, 'cfg) portal \<Rightarrow> login_row option" where
  "listen now token p =
     (if token = [] then None
      else case login_findByConnection token (pt_logins p) of
             None \<Rightarrow> None
           | Some r \<Rightarrow> if isAuthCertificateExpired r now then None else Some r)"

definition hasAnyHuman :: "('vid, 'ch, 'cfg) portal \<Rightarrow> bool" where
  "hasAnyHuman p = (actor_count (Some ''human'') (pt_db p) > 0)"

text \<open>
  \<open>consumeCertificate\<close> reads the row (\<open>consume_find\<close>) and, after a wait, deletes it and tells whether it was
  still redeemable (\<open>consume_delete\<close>).
\<close>

definition consume_find :: "int \<Rightarrow> string \<Rightarrow> ('vid, 'ch, 'cfg) portal \<Rightarrow> (login_row \<times> bool) option" where
  "consume_find now key p =
     (case login_findByKey key (pt_logins p) of
        None \<Rightarrow> None
      | Some r \<Rightarrow>
          if \<not> truthy (lr_connection r) \<or> lr_status r \<noteq> 2 then None
          else Some (r, isAuthCertificateExpired r now))"

definition consume_delete :: "login_row \<Rightarrow> bool \<Rightarrow> ('vid, 'ch, 'cfg, bool) port" where
  "consume_delete r expired p = (Inr (\<not> expired), p\<lparr>pt_logins := login_delete (lr_id r) (pt_logins p)\<rparr>)"

record session_user =
  su_did :: string
  su_name :: "string option"
  su_email :: "string option"

definition authorize_open :: "int \<Rightarrow> string \<Rightarrow> ('vid, 'ch, 'cfg) portal \<Rightarrow> login_row option" where
  "authorize_open now key p =
     (if key = [] then None
      else case connecting now key p of
             None \<Rightarrow> None
           | Some r \<Rightarrow> if lr_status r \<noteq> 2 then None else Some r)"

text \<open>The end of \<open>authorize\<close>: the row read first carries the DID.\<close>

definition authorize_close ::
  "int \<Rightarrow> login_row \<Rightarrow> login_row \<Rightarrow> bool \<Rightarrow> ('vid, 'ch, 'cfg, session_user option) port" where
  "authorize_close now cert r expired =
     andThen (consume_delete r expired) (\<lambda>consumed.
     if \<not> consumed then give None
     else case meta_text (meta_of cert) ''did'' of
            None \<Rightarrow> give None
          | Some did \<Rightarrow>
              if did = [] then give None
              else andThen (reading (\<lambda>p. actor_findByDid did (pt_db p))) (\<lambda>found.
                   case found of
                     None \<Rightarrow> give None
                   | Some a \<Rightarrow>
                       andThen (reading (\<lambda>p. Option.bind (user_findByDid did (pt_console p)) us_email)) (\<lambda>email.
                       andThen (\<lambda>p. (Inr (), p\<lparr>pt_sessions := pt_sessions p @ [(FromKey (lr_id cert) (lr_startedAt cert), a_did a)]\<rparr>)) (\<lambda>_.
                       give (Some \<lparr>su_did = a_did a, su_name = Some (a_name a), su_email = email\<rparr>)))))"

definition authorize :: "int \<Rightarrow> string \<Rightarrow> ('vid, 'ch, 'cfg, session_user option) port" where
  "authorize now key =
     andThen (reading (authorize_open now key)) (\<lambda>cert.
     case cert of
       None \<Rightarrow> give None
     | Some c \<Rightarrow>
         andThen (reading (consume_find now key)) (\<lambda>found.
         case found of None \<Rightarrow> give None | Some (r, expired) \<Rightarrow> authorize_close now c r expired))"

text \<open>The token follows the rows of its human whenever it is refreshed.\<close>

definition jwt_callback :: "session_user option \<Rightarrow> session_user \<Rightarrow> ('vid, 'ch, 'cfg) portal \<Rightarrow> session_user" where
  "jwt_callback user token p =
     (let t = (case user of None \<Rightarrow> token | Some u \<Rightarrow> u) in
      if su_did t = [] then t
      else case actor_findByDid (su_did t) (pt_db p) of
             None \<Rightarrow> t
           | Some a \<Rightarrow> t\<lparr>su_name := Some (a_name a), su_email := Option.bind (user_findByDid (su_did t) (pt_console p)) us_email\<rparr>)"

section \<open>External identities\<close>

definition BINDING_CAPABILITIES :: "string list" where
  "BINDING_CAPABILITIES = [''portal_access'']"

definition BINDING_TTL_MS :: int where
  "BINDING_TTL_MS = 60 * 60 * 1000"

datatype sso_outcome = SignIn string | Bind string | Denied

definition upsert_identity ::
  "login_env \<Rightarrow> string \<Rightarrow> sso_claims \<Rightarrow> ('vid, 'ch, 'cfg, sso_identity_row) port" where
  "upsert_identity E con cl p =
     (case identity_upsertFromClaims (le_now E) (le_id E) con cl (pt_connections p) (pt_identities p) of
        Inl e \<Rightarrow> (Inl (ConsoleError (DbFailed e)), p)
      | Inr (r, rows) \<Rightarrow> (Inr r, p\<lparr>pt_identities := rows\<rparr>))"

definition or_else :: "string option \<Rightarrow> string option \<Rightarrow> string option" where
  "or_else a b = (if truthy a then a else b)"

definition resolveSsoLogin :: "login_env \<Rightarrow> string \<Rightarrow> sso_claims \<Rightarrow> ('vid, 'ch, 'cfg, sso_outcome) port" where
  "resolveSsoLogin E connectionId claims =
     andThen (upsert_identity E connectionId claims) (\<lambda>r.
     if truthy (si_did r) then give (SignIn (text_of (si_did r)))
     else
       andThen (onConsole (dao (\<lambda>d. Inr (invitation_deletePendingForSsoIdentity (si_id r) d)))) (\<lambda>_.
       andThen (onConsole (dao (invitation_create (ae_hashToken (le_admin E)) (le_now E) (ae_rawToken (le_admin E))
         \<lparr>ii_name = text_of (or_else (map_option js_trim (sl_name claims))
                     (or_else (map_option js_trim (sl_email claims)) (Some ''Unnamed''))),
          ii_email = sl_email claims, ii_capabilities = BINDING_CAPABILITIES, ii_workspaceId = None,
          ii_createdBy = ''system:sso:'' @ connectionId, ii_expiresAt = le_now E + BINDING_TTL_MS,
          ii_ssoIdentityId = Some (si_id r)\<rparr>))) (\<lambda>_.
       give (Bind (''/invite/'' @ ae_rawToken (le_admin E) @ ''?sso=1'')))))"

text \<open>The connections whose secret still opens.\<close>

definition resolveActiveConnections ::
  "('vid, 'ch) login_lib \<Rightarrow> ('vid, 'ch, 'cfg) portal \<Rightarrow> (sso_connection_row \<times> string) list" where
  "resolveActiveConnections L p =
     List.map_filter (\<lambda>c. map_option (Pair c) (ll_decryptSecret L (sn_clientSecretEnc c)))
       (connection_listActive (pt_connections p))"

definition providerIdFor :: "sso_connection_row \<Rightarrow> string" where
  "providerIdFor c = ''sso-'' @ sn_id c"

record sso_profile =
  sp_sub :: "string option"
  sp_email :: "string option"
  sp_name :: "string option"

definition nullish :: "'a option \<Rightarrow> 'a option \<Rightarrow> 'a option" where
  "nullish a b = (case a of None \<Rightarrow> b | Some x \<Rightarrow> Some x)"

text \<open>\<open>claims\<close> are the token's, \<open>user\<close> what \<open>profile()\<close> made of them.\<close>

definition signIn ::
  "('vid, 'ch) login_lib \<Rightarrow> login_env \<Rightarrow> string \<Rightarrow> sso_profile \<Rightarrow> sso_profile
     \<Rightarrow> ('vid, 'ch, 'cfg, sso_outcome option) port" where
  "signIn L E provider claims user =
     (if \<not> starts_with provider ''sso-'' then give None
      else
        let connectionId = drop (length ''sso-'') provider; sub = nullish (sp_sub claims) (sp_sub user) in
        if \<not> truthy sub then give (Some Denied)
        else
          andThen (reading (\<lambda>p. find (\<lambda>(c, s). sn_id c = connectionId) (resolveActiveConnections L p))) (\<lambda>con.
          case con of
            None \<Rightarrow> give (Some Denied)
          | Some (c, s) \<Rightarrow>
              andThen (resolveSsoLogin E connectionId
                \<lparr>sl_subject = text_of sub, sl_issuer = sn_issuer c,
                 sl_email = nullish (sp_email claims) (sp_email user),
                 sl_name = nullish (sp_name claims) (sp_name user)\<rparr>) (\<lambda>out.
              andThen (case out of
                       SignIn did \<Rightarrow> (\<lambda>p. (Inr (), p\<lparr>pt_sessions := pt_sessions p @ [(FromIdentity connectionId (text_of sub), did)]\<rparr>))
                     | _ \<Rightarrow> give ()) (\<lambda>_.
              give (Some out)))))"

section \<open>Routes (app/api/public)\<close>

definition user_connect ::
  "('vid, 'ch) login_lib \<Rightarrow> login_env \<Rightarrow> ('vid, 'ch, 'cfg, login_row option) port" where
  "user_connect L E =
     andThen (reading hasAnyHuman) (\<lambda>hasHuman.
     if \<not> hasHuman then
       if \<not> le_browserBootstrap E then give None
       else andThen (createRegistrationCertificate L E None) (\<lambda>r. give (Some r))
     else andThen (createConnectionCertificate L E) (\<lambda>r. give (Some r)))"

definition connect_window :: "('vid, 'ch, 'cfg) portal \<Rightarrow> int" where
  "connect_window p = parseP2PConnectWindowSeconds (map_of (tb_settings (pt_db p)) SETTING_p2pConnectWindowSeconds) * 1000"

definition user_p2p_connect ::
  "('vid, 'ch) login_lib \<Rightarrow> login_env \<Rightarrow> nat \<Rightarrow> ('vid, 'ch, 'cfg, login_row) port" where
  "user_p2p_connect L E s =
     andThen (reading hasAnyHuman) (\<lambda>hasHuman.
     andThen (if hasHuman then createConnectionCertificate L E else createRegistrationCertificate L E None) (\<lambda>r.
     andThen (reading connect_window) (\<lambda>window.
     andThen (startP2PSession E s r window) (\<lambda>_. give r))))"

definition valid_invitation :: "login_env \<Rightarrow> string \<Rightarrow> ('vid, 'ch, 'cfg) portal \<Rightarrow> bool" where
  "valid_invitation E token p =
     (invitation_findValidByToken (ae_hashToken (le_admin E)) (le_now E) token (pt_db p) \<noteq> None)"

definition invite_connect ::
  "('vid, 'ch) login_lib \<Rightarrow> login_env \<Rightarrow> string \<Rightarrow> ('vid, 'ch, 'cfg, login_row option) port" where
  "invite_connect L E token =
     andThen (reading (valid_invitation E token)) (\<lambda>ok.
     if \<not> ok then give None
     else andThen (createRegistrationCertificate L E (Some token)) (\<lambda>r. give (Some r)))"

definition invite_p2p_connect ::
  "('vid, 'ch) login_lib \<Rightarrow> login_env \<Rightarrow> nat \<Rightarrow> string \<Rightarrow> ('vid, 'ch, 'cfg, login_row option) port" where
  "invite_p2p_connect L E s token =
     andThen (reading (valid_invitation E token)) (\<lambda>ok.
     if \<not> ok then give None
     else
       andThen (createRegistrationCertificate L E (Some token)) (\<lambda>r.
       andThen (reading connect_window) (\<lambda>window.
       andThen (startP2PSession E s r window) (\<lambda>_. give (Some r)))))"

text \<open>The answer of the poll: the status, and the key of the second exchange.\<close>

definition user_listen :: "int \<Rightarrow> string \<Rightarrow> ('vid, 'ch, 'cfg) portal \<Rightarrow> int \<times> json option" where
  "user_listen now token p =
     (case listen now token p of
        None \<Rightarrow> (- 1, None)
      | Some r \<Rightarrow> (lr_status r, map_of (meta_of r) ''certRound''))"

datatype invite_check = InviteOk string | InviteNotFound | InviteRedeemed | InviteExpired

definition invite_preflight :: "login_env \<Rightarrow> string \<Rightarrow> ('vid, 'ch, 'cfg) portal \<Rightarrow> invite_check" where
  "invite_preflight E token p =
     (case invitation_findByToken (ae_hashToken (le_admin E)) token (pt_db p) of
        None \<Rightarrow> InviteNotFound
      | Some invitation \<Rightarrow>
          if i_redeemedAt invitation \<noteq> None then InviteRedeemed
          else if i_expiresAt invitation \<le> le_now E then InviteExpired
          else InviteOk (i_name invitation))"

section \<open>The profile prompt (app/welcome/actions.ts)\<close>

definition session_did :: "admin_env \<Rightarrow> string option" where
  "session_did E = (case ae_session E of None \<Rightarrow> None | Some (did, _) \<Rightarrow> if did = [] then None else Some did)"

definition completeProfileAction :: "admin_env \<Rightarrow> form \<Rightarrow> ('vid, 'ch, 'cfg, unit) act" where
  "completeProfileAction E f =
     (case session_did E of
        None \<Rightarrow> throw NotAuthenticated
      | Some did \<Rightarrow>
          let nm = form_trim f ''name''; email = or_null (form_trim f ''email'') in
          refuse_when (\<not> truthy nm) MissingField (
          andThen (reading (\<lambda>c. actor_findByDid did (co_db c))) (\<lambda>found.
          refuse_when (case found of None \<Rightarrow> True | Some a \<Rightarrow> a_kind a \<noteq> ''human'') NotFound (
          andThen (require found NotFound) (\<lambda>before.
          andThen (reading (\<lambda>c. Option.bind (user_findByDid did c) us_email)) (\<lambda>beforeEmail.
          andThen (dao (actor_update did nm None None)) (\<lambda>updated.
          andThen (user_updateEmail did email) (\<lambda>_.
          andThen (user_markProfileCompleted (ev_now (ae_ev E)) did) (\<lambda>_.
          let changes = diffFields (actorPayload (ae_payload E) before) (actorPayload (ae_payload E) updated) [''name'']
                        @ diffFields [(''email'', jopt beforeEmail)] [(''email'', jopt email)] [''email''];
              by = \<lparr>pb_did = did, pb_name = Some (a_name updated)\<rparr> in
          record_event E ''actor.updated''
            (actorPayload (ae_payload E) updated @
             [(''performedBy'', jperformer by), (''adminUrl'', jopt (actorAdminUrl (ae_payload E) did)), (''changes'', JArr changes)])
            (Some by) (Some ''actor'') (Some did))))))))))"

definition skipProfileAction :: "admin_env \<Rightarrow> ('vid, 'ch, 'cfg, unit) act" where
  "skipProfileAction E =
     (case session_did E of
        None \<Rightarrow> throw NotAuthenticated
      | Some did \<Rightarrow> user_markProfileCompleted (ev_now (ae_ev E)) did)"

end
