(* ===== verification/LoginSystem.thy ===== *)
theory LoginSystem
  imports Login
begin

text \<open>
  The sign-in code as a transition system: routes, rounds, wallet sessions, keys traded for sessions and
  sign-ins at a provider happen in any order, while everything else the console does changes its state.
  The locale \<open>port_logic\<close> carries a relation of portal states through the pieces of an operation.
\<close>

section \<open>Carrying a relation through an operation\<close>

definition port_rel ::
  "(('vid, 'ch, 'cfg) portal \<Rightarrow> ('vid, 'ch, 'cfg) portal \<Rightarrow> bool) \<Rightarrow> ('vid, 'ch, 'cfg, 'a) port \<Rightarrow> bool" where
  "port_rel R m \<longleftrightarrow> (\<forall>p. R p (snd (m p)))"

locale port_logic =
  fixes R :: "('vid, 'ch, 'cfg) portal \<Rightarrow> ('vid, 'ch, 'cfg) portal \<Rightarrow> bool"
  assumes R_refl: "R p p"
    and R_trans: "R p q \<Longrightarrow> R q r \<Longrightarrow> R p r"
begin

lemma pure: "port_rel R (give x)" "port_rel R (throw e)" "port_rel R (reading g)"
  by (simp_all add: port_rel_def give_def throw_def reading_def R_refl)

lemma andThen: "port_rel R m \<Longrightarrow> (\<And>x. port_rel R (g x)) \<Longrightarrow> port_rel R (andThen m g)"
  unfolding port_rel_def andThen_def by (auto split: prod.split sum.split intro: R_trans) (metis R_trans snd_conv)+

lemma catching: "port_rel R m \<Longrightarrow> (\<And>e. port_rel R (h e)) \<Longrightarrow> port_rel R (catching m h)"
  unfolding port_rel_def catching_def by (auto split: prod.split sum.split intro: R_trans) (metis R_trans snd_conv)+

lemma cases:
  "port_rel R m \<Longrightarrow> (\<And>x. port_rel R (g x)) \<Longrightarrow> port_rel R (case ov of None \<Rightarrow> m | Some x \<Rightarrow> g x)"
  "port_rel R m1 \<Longrightarrow> port_rel R m2 \<Longrightarrow> port_rel R (if b then m1 else m2)"
  "(\<And>x y. port_rel R (g' x y)) \<Longrightarrow> port_rel R (case pr of (x, y) \<Rightarrow> g' x y)"
  by (simp_all split: option.split prod.split)

lemma console: "(\<And>p c. R p (p\<lparr>pt_console := c\<rparr>)) \<Longrightarrow> port_rel R (onConsole m)"
  by (auto simp: port_rel_def onConsole_def split: prod.split sum.split)

lemma bind_identity: "(\<And>p ok rows. identity_bindDid i did (pt_db p) (pt_identities p) = Inr (ok, rows) \<Longrightarrow> R p (p\<lparr>pt_identities := rows\<rparr>))
    \<Longrightarrow> port_rel R (bindSsoIdentity i did)"
  by (auto simp: port_rel_def bindSsoIdentity_def R_refl split: sum.split)

lemmas rules = pure andThen catching cases

lemma redeem:
  assumes "\<And>p c. R p (p\<lparr>pt_console := c\<rparr>)"
    and "\<And>i. port_rel R (bindSsoIdentity i did)"
  shows "port_rel R (redeemInvitation lib E did key invitation)"
  unfolding redeemInvitation_def Let_def
  by (intro rules console assms) (auto split: portal_error.split admin_error.split refusal.split intro: pure)

lemma register:
  assumes "\<And>p c. R p (p\<lparr>pt_console := c\<rparr>)"
    and "\<And>i did. port_rel R (bindSsoIdentity i did)"
  shows "port_rel R (registerHuman lib E contact token)"
  unfolding registerHuman_def registerHumanFromInvitation_def Let_def
  by (intro rules console redeem assms)

end

section \<open>What registration leaves alone\<close>

definition same_logins :: "('vid, 'ch, 'cfg) portal \<Rightarrow> ('vid, 'ch, 'cfg) portal \<Rightarrow> bool" where
  "same_logins p p' \<longleftrightarrow> pt_logins p' = pt_logins p \<and> pt_p2p p' = pt_p2p p \<and> pt_tasks p' = pt_tasks p
     \<and> pt_sessions p' = pt_sessions p \<and> pt_proven p' = pt_proven p \<and> pt_connections p' = pt_connections p"

interpretation logins: port_logic same_logins
  by unfold_locales (auto simp: same_logins_def)

lemma same_console [simp]: "same_logins p (p\<lparr>pt_console := c\<rparr>)" "same_logins p (p\<lparr>pt_identities := ids\<rparr>)" "same_logins p p"
  by (simp_all add: same_logins_def)

lemma register_same: "same_logins p (snd (registerHuman lib E contact token p))"
  using logins.register [of lib E contact token] logins.bind_identity
  by (auto simp: port_rel_def)

section \<open>Steps\<close>

inductive login_step ::
  "('vid, 'ch, 'cfg) ws_lib \<Rightarrow> ('vid, 'ch) login_lib \<Rightarrow> ('vid, 'ch, 'cfg) portal \<Rightarrow> ('vid, 'ch, 'cfg) portal \<Rightarrow> bool"
  for lib :: "('vid, 'ch, 'cfg) ws_lib" and L :: "('vid, 'ch) login_lib" where
  Connect: "login_step lib L p (snd (user_connect L E p))"
| P2PConnect: "login_step lib L p (snd (user_p2p_connect L E s p))"
| InviteConnect: "login_step lib L p (snd (invite_connect L E token p))"
| InviteP2PConnect: "login_step lib L p (snd (invite_p2p_connect L E s token p))"
| Wallet: "login_step lib L p (p2p_step lib E s inp p)"
| RoundOpen:
    "handleRequest_open E token p = (r, p1) \<Longrightarrow>
     login_step lib L p (p1\<lparr>pt_tasks := pt_tasks p1 @ (case r of Inr (Some cert) \<Rightarrow> [RoundTask cert dat] | _ \<Rightarrow> [])\<rparr>)"
| RoundRun:
    "RoundTask cert dat \<in> set (pt_tasks p) \<Longrightarrow>
     login_step lib L p (snd (handleRequest_round lib L E cert dat (p\<lparr>pt_tasks := remove1 (RoundTask cert dat) (pt_tasks p)\<rparr>)))"
| Authorize:
    "authorize_open now key p = Some cert \<Longrightarrow> login_step lib L p (p\<lparr>pt_tasks := pt_tasks p @ [ConsumeTask key cert]\<rparr>)"
| Consume:
    "ConsumeTask key cert \<in> set (pt_tasks p) \<Longrightarrow>
     login_step lib L p (p\<lparr>pt_tasks := remove1 (ConsumeTask key cert) (pt_tasks p) @
       (case consume_find now key p of None \<Rightarrow> [] | Some (r, expired) \<Rightarrow> [DeleteTask cert r expired])\<rparr>)"
| Delete:
    "DeleteTask cert r expired \<in> set (pt_tasks p) \<Longrightarrow>
     login_step lib L p (snd (authorize_close now cert r expired (p\<lparr>pt_tasks := remove1 (DeleteTask cert r expired) (pt_tasks p)\<rparr>)))"
| Provider: "login_step lib L p (snd (signIn L E provider claims user p))"
| Console: "login_step lib L p (p\<lparr>pt_console := c\<rparr>)"
| ActorGone: "login_step lib L p (p\<lparr>pt_identities := row_map (\<lambda>r. si_did r = Some did) (\<lambda>r. r\<lparr>si_did := None\<rparr>) (pt_identities p)\<rparr>)"
| Connections: "login_step lib L p (p\<lparr>pt_connections := cons, pt_identities := filter (\<lambda>r. si_connectionId r \<in> sn_id ` set cons) (pt_identities p)\<rparr>)"

definition portal_start :: "('vid, 'ch, 'cfg) console \<Rightarrow> ('vid, 'ch, 'cfg) portal" where
  "portal_start c = \<lparr>pt_console = c, pt_logins = [], pt_connections = [], pt_identities = [], pt_lastSweepAt = 0,
     pt_p2p = [], pt_tasks = [], pt_sessions = [], pt_proven = []\<rparr>"

inductive login_reach ::
  "('vid, 'ch, 'cfg) ws_lib \<Rightarrow> ('vid, 'ch) login_lib \<Rightarrow> ('vid, 'ch, 'cfg) portal \<Rightarrow> bool"
  for lib :: "('vid, 'ch, 'cfg) ws_lib" and L :: "('vid, 'ch) login_lib" where
  Start: "login_reach lib L (portal_start c)"
| Step: "login_reach lib L p \<Longrightarrow> login_step lib L p p' \<Longrightarrow> login_reach lib L p'"

section \<open>The invariant\<close>

definition completed :: "('vid, 'ch, 'cfg) ws_lib \<Rightarrow> 'ch \<Rightarrow> bool" where
  "completed lib c \<longleftrightarrow> ch_complete (lb_challenger lib) c \<and> \<not> ch_failed (lb_challenger lib) c \<and> verifyProtocol (lb_challenger lib) c"

definition proved :: "('vid, 'ch, 'cfg) ws_lib \<Rightarrow> (string \<times> 'ch) list \<Rightarrow> string \<Rightarrow> string \<Rightarrow> bool" where
  "proved lib P i did \<longleftrightarrow> (\<exists>c. (i, c) \<in> set P \<and> completed lib c \<and> lb_did lib (ch_contact (lb_challenger lib) c) = did)"

definition row_proved :: "('vid, 'ch, 'cfg) ws_lib \<Rightarrow> (string \<times> 'ch) list \<Rightarrow> login_row \<Rightarrow> bool" where
  "row_proved lib P r \<longleftrightarrow> (\<forall>did. meta_text (meta_of r) ''did'' = Some did \<longrightarrow> proved lib P (lr_id r) did)"

fun task_row :: "login_task \<Rightarrow> login_row" where
  "task_row (RoundTask r d) = r"
| "task_row (ConsumeTask k r) = r"
| "task_row (DeleteTask r r' e) = r"

definition session_proved :: "('vid, 'ch, 'cfg) ws_lib \<Rightarrow> (string \<times> 'ch) list \<Rightarrow> session_source \<times> string \<Rightarrow> bool" where
  "session_proved lib P s \<longleftrightarrow> (case s of (FromKey i t, did) \<Rightarrow> proved lib P i did | _ \<Rightarrow> True)"

definition portal_ok :: "('vid, 'ch, 'cfg) ws_lib \<Rightarrow> ('vid, 'ch, 'cfg) portal \<Rightarrow> bool" where
  "portal_ok lib p \<longleftrightarrow>
     list_all (row_proved lib (pt_proven p)) (pt_logins p)
     \<and> list_all (row_proved lib (pt_proven p) \<circ> task_row) (pt_tasks p)
     \<and> list_all (row_proved lib (pt_proven p) \<circ> ps_row \<circ> snd) (pt_p2p p)
     \<and> list_all (session_proved lib (pt_proven p)) (pt_sessions p)"

end
