(* ===== verification/LoginDemo.thy ===== *)
theory LoginDemo
  imports LoginSystem AdminSafety
begin

text \<open>
  A small portal for evaluation: the console of \<open>AdminSafety\<close> with its one human, a library whose
  challenger completes on the first message, and the wallet login of that human.
\<close>

definition demo_login :: "(string, byte list) login_lib" where
  "demo_login = \<lparr>ll_init = (\<lambda>v b. Some b), ll_update = (\<lambda>c b m. if b = [] then None else Some b), ll_state = (\<lambda>c. 2),
     ll_decrypt = (\<lambda>b k. Some b), ll_encrypt = (\<lambda>b k. b), ll_sha256 = (\<lambda>s. s),
     ll_encryptSecret = (\<lambda>s. s), ll_decryptSecret = (\<lambda>s. Some s)\<rparr>"

definition demo_login_env :: login_env where
  "demo_login_env = \<lparr>le_admin = desk_env, le_key = ''key'', le_id = ''row'', le_browserBootstrap = False, le_sent = True\<rparr>"

definition demo_wallet :: p2p_input where
  "demo_wallet = Received (1 # lb_idBytes demo_lib ''did:h'')"

definition demo_dialled :: "(string, byte list, unit) portal" where
  "demo_dialled = p2p_step demo_lib demo_login_env 0 DialledIn (snd (user_p2p_connect demo_login demo_login_env 0 (portal_start desk)))"

definition demo_proved :: "(string, byte list, unit) portal" where
  "demo_proved = p2p_step demo_lib demo_login_env 0 demo_wallet demo_dialled"

definition demo_row :: login_row where
  "demo_row = \<lparr>lr_id = ''row'', lr_key = ''key'', lr_registration = Some ''vaultys-key-server'',
     lr_connection = Some ''connecting-key-vaultys'', lr_register = 0,
     lr_data = toBase64 (1 # lb_idBytes demo_lib ''did:h''), lr_status = 2,
     lr_metadata = Some [(''did'', JStr ''did:h'')], lr_startedAt = 1000\<rparr>"

lemma demo_proved_run:
  "pt_logins demo_proved = [demo_row] \<and> pt_tasks demo_proved = [] \<and> pt_sessions demo_proved = []
   \<and> map_option a_did (actor_findByDid ''did:h'' (pt_db demo_proved)) = Some ''did:h''"
  by code_simp

lemma demo_login_reach: "login_reach demo_lib demo_login demo_proved"
  unfolding demo_proved_def demo_dialled_def
  by (intro login_reach.Step [OF _ Wallet] login_reach.Step [OF _ P2PConnect] login_reach.Start)

lemma demo_row_meta: "meta_text (meta_of demo_row) ''did'' = Some ''did:h''" "truthy (lr_connection demo_row)"
  "\<not> isAuthCertificateExpired demo_row 1000" "lr_status demo_row = 2" "lr_key demo_row = ''key''" "lr_id demo_row = ''row''"
  "lr_startedAt demo_row = 1000"
  by (simp_all add: demo_row_def meta_text_def meta_of_def truthy_def isAuthCertificateExpired_def AUTH_CERTIFICATE_TTL_MS_def)

text \<open>The three parts of trading the key, whatever else has been done to the rows.\<close>

lemma demo_trade:
  "pt_logins p = [demo_row] \<Longrightarrow> authorize_open 1000 ''key'' p = Some demo_row"
  "pt_logins p = [demo_row] \<Longrightarrow> consume_find 1000 ''key'' p = Some (demo_row, False)"
  by (simp_all add: authorize_open_def connecting_def consume_find_def login_findByKey_def row_find_def demo_row_meta)

lemma demo_closes:
  assumes "map_option a_did (actor_findByDid ''did:h'' (pt_db p)) = Some ''did:h''"
  shows "\<exists>u. authorize_close 1000 demo_row demo_row False p = (Inr (Some u), p\<lparr>pt_logins := login_delete ''row'' (pt_logins p),
    pt_sessions := pt_sessions p @ [(FromKey ''row'' 1000, ''did:h'')]\<rparr>)"
  using assms
  by (auto simp: authorize_close_def consume_delete_def andThen_def give_def reading_def demo_row_meta)

text \<open>Two requests with one key, each past its lookups before the other deletes the row: two sessions.\<close>

lemma one_key_two_sessions:
  "\<exists>p. login_reach demo_lib demo_login p
     \<and> pt_sessions p = [(FromKey ''row'' 1000, ''did:h''), (FromKey ''row'' 1000, ''did:h'')]"
proof -
  let ?C = "ConsumeTask ''key'' demo_row" and ?D = "DeleteTask demo_row demo_row False"
  let ?p = "\<lambda>ts. demo_proved\<lparr>pt_tasks := ts\<rparr>"
  note run = demo_proved_run
  have rows: "pt_logins (?p ts) = [demo_row]" for ts using run by simp
  have "login_reach demo_lib demo_login (?p [?C])"
    using login_reach.Step [OF demo_login_reach Authorize [OF demo_trade(1)]] run by simp
  from login_reach.Step [OF this Authorize [OF demo_trade(1) [OF rows]]]
  have "login_reach demo_lib demo_login (?p [?C, ?C])" by simp
  from login_reach.Step [OF this Consume [of "''key''" demo_row _ demo_lib demo_login 1000]] demo_trade(2) [OF rows [of "[?C, ?C]"]]
  have "login_reach demo_lib demo_login (?p [?C, ?D])" by simp
  from login_reach.Step [OF this Consume [of "''key''" demo_row _ demo_lib demo_login 1000]] demo_trade(2) [OF rows [of "[?C, ?D]"]]
  have two: "login_reach demo_lib demo_login (?p [?D, ?D])" by simp
  have "\<exists>u. authorize_close 1000 demo_row demo_row False (?p [?D]) = (Inr (Some u), (?p [?D])\<lparr>pt_logins := login_delete ''row'' [demo_row],
    pt_sessions := [(FromKey ''row'' 1000, ''did:h'')]\<rparr>)"
    using demo_closes [of "?p [?D]"] run by simp
  with login_reach.Step [OF two Delete [of demo_row demo_row False _ demo_lib demo_login 1000]]
  have one: "login_reach demo_lib demo_login ((?p [?D])\<lparr>pt_logins := login_delete ''row'' [demo_row],
    pt_sessions := [(FromKey ''row'' 1000, ''did:h'')]\<rparr>)" by auto
  let ?q = "demo_proved\<lparr>pt_logins := login_delete ''row'' [demo_row], pt_sessions := [(FromKey ''row'' 1000, ''did:h'')], pt_tasks := []\<rparr>"
  have "\<exists>u. authorize_close 1000 demo_row demo_row False ?q = (Inr (Some u), ?q\<lparr>pt_logins := login_delete ''row'' (login_delete ''row'' [demo_row]),
    pt_sessions := [(FromKey ''row'' 1000, ''did:h''), (FromKey ''row'' 1000, ''did:h'')]\<rparr>)"
    using demo_closes [of ?q] run by simp
  with login_reach.Step [OF one Delete [of demo_row demo_row False _ demo_lib demo_login 1000]]
  have "login_reach demo_lib demo_login (?q\<lparr>pt_logins := login_delete ''row'' (login_delete ''row'' [demo_row]),
    pt_sessions := [(FromKey ''row'' 1000, ''did:h''), (FromKey ''row'' 1000, ''did:h'')]\<rparr>)" by auto
  then show ?thesis by - (rule exI, rule conjI, assumption, simp)
qed

end
