(* ===== verification/LoginSafety.thy ===== *)
theory LoginSafety
  imports LoginDemo
begin

text \<open>
  The invariant of signing in: whatever names a DID (a row, a task, a wallet session, a session) rests on a
  handshake that DID completed on the same row. Every step keeps it.
\<close>

section \<open>Every session is proved\<close>

definition meta_proved :: "('vid, 'ch, 'cfg) ws_lib \<Rightarrow> (string \<times> 'ch) list \<Rightarrow> string \<Rightarrow> (string \<times> json) list \<Rightarrow> bool" where
  "meta_proved lib P i m \<longleftrightarrow> (\<forall>did. meta_text m ''did'' = Some did \<longrightarrow> proved lib P i did)"

lemma row_meta: "row_proved lib P r \<longleftrightarrow> meta_proved lib P (lr_id r) (meta_of r)"
  by (simp add: row_proved_def meta_proved_def)

lemma proved_mono: "proved lib P i did \<Longrightarrow> set P \<subseteq> set Q \<Longrightarrow> proved lib Q i did"
  by (auto simp: proved_def)

lemma row_proved_mono: "row_proved lib P r \<Longrightarrow> set P \<subseteq> set Q \<Longrightarrow> row_proved lib Q r"
  by (auto simp: row_proved_def intro: proved_mono)

lemma session_proved_mono: "session_proved lib P s \<Longrightarrow> set P \<subseteq> set Q \<Longrightarrow> session_proved lib Q s"
  by (auto simp: session_proved_def intro: proved_mono split: prod.splits session_source.splits)

lemma portal_ok_proven: "portal_ok lib p \<Longrightarrow> portal_ok lib (p\<lparr>pt_proven := pt_proven p @ xs\<rparr>)"
  unfolding portal_ok_def
  by (auto simp: list_all_iff intro: row_proved_mono session_proved_mono)

lemma portal_ok_same: "portal_ok lib p \<Longrightarrow> same_logins p p' \<Longrightarrow> portal_ok lib p'"
  by (simp add: portal_ok_def same_logins_def)

lemma portal_ok_fields [simp]:
  "portal_ok lib (p\<lparr>pt_console := c\<rparr>) = portal_ok lib p"
  "portal_ok lib (p\<lparr>pt_connections := cs\<rparr>) = portal_ok lib p"
  "portal_ok lib (p\<lparr>pt_identities := ids\<rparr>) = portal_ok lib p"
  "portal_ok lib (p\<lparr>pt_lastSweepAt := t\<rparr>) = portal_ok lib p"
  by (simp_all add: portal_ok_def)

lemma portal_ok_fewer:
  "portal_ok lib p \<Longrightarrow> set rows \<subseteq> set (pt_logins p) \<Longrightarrow> portal_ok lib (p\<lparr>pt_logins := rows\<rparr>)"
  "portal_ok lib p \<Longrightarrow> set tasks \<subseteq> set (pt_tasks p) \<Longrightarrow> portal_ok lib (p\<lparr>pt_tasks := tasks\<rparr>)"
  "portal_ok lib p \<Longrightarrow> set ses \<subseteq> set (pt_p2p p) \<Longrightarrow> portal_ok lib (p\<lparr>pt_p2p := ses\<rparr>)"
  by (auto simp: portal_ok_def list_all_iff)

lemma update_ok:
  assumes "portal_ok lib p" and "\<And>m. meta = Some m \<Longrightarrow> meta_proved lib (pt_proven p) i m"
  shows "portal_ok lib (snd (onLogins (login_update i dat st meta) p))"
proof -
  have "row_proved lib (pt_proven p) (r\<lparr>lr_data := d, lr_status := s,
          lr_metadata := case meta of None \<Rightarrow> lr_metadata r | Some x \<Rightarrow> Some x\<rparr>)"
    if "row_proved lib (pt_proven p) r" "lr_id r = i" for r d s
    using that assms(2) by (auto simp: row_meta meta_of_def split: option.split)
  with assms(1) show ?thesis
    unfolding onLogins_def login_update_def portal_ok_def list_all_iff
    by (auto simp: row_update_Inr set_row_map split: sum.split prod.split)
qed

lemma mark_failed_ok: "portal_ok lib p \<Longrightarrow> portal_ok lib (snd (mark_failed r dat p))"
  unfolding mark_failed_def by (rule update_ok) simp_all

lemma handleSuccess_run:
  assumes "handleSuccess lib E cert c p = (res, p')"
  shows "same_logins (p\<lparr>pt_proven := pt_proven p @ [(lr_id cert, c)]\<rparr>) p'"
    and "res = Inr out \<Longrightarrow> completed lib c \<Longrightarrow> row_proved lib (pt_proven p) cert \<Longrightarrow> lo_metadata out = Some m \<Longrightarrow>
      meta_proved lib (pt_proven p') (lr_id cert) m"
    and "res = Inr out \<Longrightarrow> lo_did out = lb_did lib (ch_contact (lb_challenger lib) c)"
proof -
  let ?q = "p\<lparr>pt_proven := pt_proven p @ [(lr_id cert, c)]\<rparr>"
  have "same_logins ?q p'"
  proof (cases "lr_register cert = 1")
    case True
    with assms register_same [of ?q lib E "ch_contact (lb_challenger lib) c" "meta_text (meta_of cert) ''invitationToken''"]
    show ?thesis by (auto simp: handleSuccess_def andThen_def give_def Let_def split: prod.splits sum.splits)
  qed (use assms in \<open>auto simp: handleSuccess_def loginHuman_def reading_def andThen_def give_def Let_def\<close>)
  then show s: "same_logins ?q p'" .
  show "res = Inr out \<Longrightarrow> lo_did out = lb_did lib (ch_contact (lb_challenger lib) c)"
    using assms by (auto simp: handleSuccess_def andThen_def give_def Let_def split: prod.splits sum.splits)
  assume r: "res = Inr out" "completed lib c" "row_proved lib (pt_proven p) cert" "lo_metadata out = Some m"
  have "proved lib (pt_proven ?q) (lr_id cert) (lb_did lib (ch_contact (lb_challenger lib) c))"
    using r(2) by (auto simp: proved_def)
  moreover have "m = map_set ''did'' (JStr (lb_did lib (ch_contact (lb_challenger lib) c))) (meta_of cert)
      \<or> lr_metadata cert = Some m"
    using assms r(1,4) by (auto simp: handleSuccess_def andThen_def give_def Let_def split: prod.splits sum.splits if_splits)
  moreover have "row_proved lib (pt_proven ?q) cert" using r(3) by (rule row_proved_mono) auto
  ultimately show "meta_proved lib (pt_proven p') (lr_id cert) m"
    using s by (auto simp: meta_proved_def row_meta meta_text_def meta_of_def same_logins_def)
qed

text \<open>New rows name nobody.\<close>

definition nameless :: "(string \<times> json) list option \<Rightarrow> bool" where
  "nameless meta \<longleftrightarrow> meta_text (case meta of None \<Rightarrow> [] | Some m \<Rightarrow> m) ''did'' = None"

lemma new_row_proved: "nameless meta \<Longrightarrow> row_proved lib P (new_row L E reg meta)"
  by (simp add: nameless_def row_proved_def new_row_def meta_of_def)

lemma create_row_ok:
  assumes "create_row L E reg meta p = (res, p')" and "nameless meta" and "portal_ok lib p"
  shows "portal_ok lib p'" and "res = Inr r \<Longrightarrow> row_proved lib P r"
  using assms new_row_proved [OF assms(2)]
  by (auto simp: create_row_def andThen_def give_def onLogins_def login_create_def portal_ok_def split: if_splits)

definition keeps_ok :: "('vid, 'ch, 'cfg) ws_lib \<Rightarrow> ('vid, 'ch, 'cfg) portal \<Rightarrow> ('vid, 'ch, 'cfg) portal \<Rightarrow> bool" where
  "keeps_ok lib p p' \<longleftrightarrow> (portal_ok lib p \<longrightarrow> portal_ok lib p')"

interpretation sound: port_logic "keeps_ok lib" for lib :: "('vid, 'ch, 'cfg) ws_lib"
  by unfold_locales (auto simp: keeps_ok_def)

lemma sweep_keeps: "port_rel (keeps_ok lib) (sweepExpiredCertificates now)"
  by (auto simp: port_rel_def keeps_ok_def sweepExpiredCertificates_def login_deleteStartedBefore_def
      intro!: portal_ok_fewer)

lemma create_keeps: "nameless meta \<Longrightarrow> port_rel (keeps_ok lib) (create_row L E reg meta)"
  unfolding port_rel_def keeps_ok_def using create_row_ok(1) by (metis prod.collapse)

lemma created_nameless:
  "nameless (if b then Some [(''invitationToken'', x)] else None)" "nameless None"
  "nameless (Some [(''kind'', JStr k), (''humanDid'', JStr h), (''capabilities'', jstrs cs), (''certId'', JStr ci), (''issuedBy'', JStr iss)])"
  by (simp_all add: nameless_def meta_text_def)

lemma certificates_keep:
  "port_rel (keeps_ok lib) (createRegistrationCertificate L E t)"
  "port_rel (keeps_ok lib) (createConnectionCertificate L E)"
  "port_rel (keeps_ok lib) (createCertificateRound L E h cs ci iss)"
  unfolding createRegistrationCertificate_def createConnectionCertificate_def createCertificateRound_def
  by (intro sound.andThen sweep_keeps create_keeps created_nameless)+

lemma certificates_proved:
  "createRegistrationCertificate L E t p = (Inr r, p') \<Longrightarrow> row_proved lib P r"
  "createConnectionCertificate L E p = (Inr r, p') \<Longrightarrow> row_proved lib P r"
  unfolding createRegistrationCertificate_def createConnectionCertificate_def andThen_def create_row_def give_def
  by (auto split: prod.splits sum.splits intro!: new_row_proved created_nameless)

lemma session_started:
  "portal_ok lib p \<Longrightarrow> row_proved lib (pt_proven p) r \<Longrightarrow> portal_ok lib (snd (startP2PSession E s r w p))"
  by (auto simp: startP2PSession_def portal_ok_def list_all_iff dest!: set_map_set)

section \<open>Every step keeps the invariant\<close>

lemma failed_keeps: "port_rel (keeps_ok lib) (mark_failed r dat)"
  by (simp add: port_rel_def keeps_ok_def mark_failed_ok)

lemma success_ok:
  assumes "handleSuccess lib E cert c p = (res, p')" and "portal_ok lib p"
  shows "portal_ok lib p'"
  using portal_ok_same [OF portal_ok_proven [OF assms(2)] handleSuccess_run(1) [OF assms(1)]] .

text \<open>What follows a completed handshake: writes of the row with the metadata it may carry, and of others without.\<close>

lemma after_success:
  assumes "portal_ok lib p" and "row_proved lib (pt_proven p) cert" and "completed lib c"
    and "\<And>out p1. handleSuccess lib E cert c p = (Inr out, p1) \<Longrightarrow> portal_ok lib p1 \<Longrightarrow>
      (\<And>m. lo_metadata out = Some m \<Longrightarrow> meta_proved lib (pt_proven p1) (lr_id cert) m) \<Longrightarrow> portal_ok lib (snd (f out p1))"
  shows "portal_ok lib (snd (andThen (handleSuccess lib E cert c) f p))"
proof (cases "handleSuccess lib E cert c p")
  case (Pair res p1)
  note ok = success_ok [OF Pair assms(1)]
  show ?thesis
  proof (cases res)
    case (Inr out)
    with handleSuccess_run(2) [OF Pair Inr assms(3,2)] assms(4) Pair ok show ?thesis by (simp add: andThen_def)
  qed (use Pair ok in \<open>simp add: andThen_def\<close>)
qed

lemma finish_ok:
  assumes "portal_ok lib p" and "\<And>m. meta = Some m \<Longrightarrow> meta_proved lib (pt_proven p) i m"
  shows "portal_ok lib (snd (andThen (if b then onConsole act else give ()) (\<lambda>_.
         andThen (onLogins (login_update i dat st meta)) (\<lambda>_. give x)) p))"
proof -
  have "portal_ok lib (snd (onLogins (login_update i dat st meta) (p\<lparr>pt_console := c\<rparr>)))" for c
    using assms by (intro update_ok) simp_all
  with update_ok [OF assms] assms(1) show ?thesis
    by (auto simp: andThen_def give_def onConsole_def split: prod.splits sum.splits) (metis snd_conv)+
qed

lemma round_ok:
  assumes "portal_ok lib p" and "row_proved lib (pt_proven p) row"
  shows "portal_ok lib (snd (p2p_round lib E row ch w p))"
proof (cases "ch_update (lb_challenger lib) ch w")
  case None
  have "port_rel (keeps_ok lib) (p2p_round lib E row ch w)"
    unfolding p2p_round_def Let_def None by (simp, intro sound.rules failed_keeps)
  with assms show ?thesis by (simp add: port_rel_def keeps_ok_def)
next
  case (Some c)
  show ?thesis
  proof (cases "completed lib c")
    case True
    have run: "p2p_round lib E row ch w p = andThen (handleSuccess lib E row c) (\<lambda>res.
         andThen (if lo_ok res \<and> lo_isNewRegistration res then onConsole (bootstrap_admin lib E (lo_did res)) else give ()) (\<lambda>_.
         andThen (onLogins (login_update (lr_id row) (Some (toBase64 (ch_bytes (lb_challenger lib) c)))
             (Some (if lo_ok res then 2 else - 2)) (lo_metadata res))) (\<lambda>_. give None))) p"
      using Some True by (simp add: p2p_round_def completed_def Let_def)
    show ?thesis
      unfolding run by (rule after_success [OF assms True]) (rule finish_ok, assumption, blast)
  next
    case False
    then have "port_rel (keeps_ok lib) (p2p_round lib E row ch w)"
      unfolding p2p_round_def Let_def Some completed_def
      by (simp, intro sound.rules failed_keeps impI conjI) auto
    with assms show ?thesis by (simp add: port_rel_def keeps_ok_def)
  qed
qed

definition grows :: "('vid, 'ch, 'cfg) portal \<Rightarrow> ('vid, 'ch, 'cfg) portal \<Rightarrow> bool" where
  "grows p p' \<longleftrightarrow> set (pt_proven p) \<subseteq> set (pt_proven p')"

interpretation growing: port_logic grows
  by unfold_locales (auto simp: grows_def)

lemma logins_grow: "port_rel grows (onLogins f)"
  by (simp add: port_rel_def grows_def onLogins_def split: sum.split)

lemma success_grows: "port_rel grows (handleSuccess lib E cert c)"
  unfolding port_rel_def
proof
  fix p
  show "grows p (snd (handleSuccess lib E cert c p))"
    using handleSuccess_run(1) [of lib E cert c p, OF surjective_pairing] by (auto simp: grows_def same_logins_def)
qed

lemma round_grows: "grows p (snd (p2p_round lib E row ch w p))"
proof -
  have "port_rel grows (p2p_round lib E row ch w)"
    unfolding p2p_round_def Let_def mark_failed_def
    by (intro growing.rules logins_grow success_grows growing.console) (simp add: grows_def)
  then show ?thesis by (simp add: port_rel_def)
qed

lemma wallet_ok:
  assumes "portal_ok lib p"
  shows "portal_ok lib (p2p_step lib E s inp p)"
proof (cases "map_of (pt_p2p p) s")
  case (Some S)
  have row: "row_proved lib (pt_proven p) (ps_row S)"
    using map_of_SomeD [OF Some] assms by (auto simp: portal_ok_def list_all_iff)
  have stop: "portal_ok lib q \<Longrightarrow> portal_ok lib (snd (p2p_close s q))" for q :: "('a, 'b, 'c) portal"
    by (auto simp: p2p_close_def intro!: portal_ok_fewer simp: AList.delete_eq)
  have broken: "portal_ok lib q \<Longrightarrow> portal_ok lib (snd (p2p_close s (snd (mark_failed (ps_row S) None q))))"
    for q :: "('a, 'b, 'c) portal"
    by (intro stop mark_failed_ok)
  have phase: "portal_ok lib q \<Longrightarrow> row_proved lib (pt_proven q) (ps_row S) \<Longrightarrow>
      portal_ok lib (q\<lparr>pt_p2p := map_set s (S\<lparr>ps_phase := ph\<rparr>) (pt_p2p q)\<rparr>)" for q ph
    by (auto simp: portal_ok_def list_all_iff dest!: set_map_set)
  show ?thesis
  proof (cases "ps_phase S")
    case Dialing
    with Some row assms show ?thesis
      by (cases inp) (simp_all add: p2p_step_def Let_def broken phase)
  next
    case (Round n ch)
    show ?thesis
    proof (cases inp)
      case (Received w)
      obtain r p' where run: "p2p_round lib E (ps_row S) ch w p = (r, p')" by fastforce
      from round_ok [OF assms row, of E ch w] run have ok: "portal_ok lib p'" by simp
      from round_grows [of p lib E "ps_row S" ch w] run
      have "row_proved lib (pt_proven p') (ps_row S)"
        by (intro row_proved_mono [OF row]) (simp add: port_rel_def grows_def)
      with Some Round Received run ok show ?thesis
        by (auto simp: p2p_step_def Let_def broken stop phase split: sum.split option.split)
    qed (use Some Round assms in \<open>simp_all add: p2p_step_def Let_def broken\<close>)
  qed
qed (use assms in \<open>simp add: p2p_step_def\<close>)

text \<open>An update that writes no metadata, or the metadata the row had.\<close>

lemma update_keeps: "port_rel (keeps_ok lib) (onLogins (login_update i dat st None))"
  unfolding port_rel_def keeps_ok_def by (intro allI impI update_ok) simp_all

lemma refuse_keeps: "port_rel (keeps_ok lib) (refuse_round r dat)"
  unfolding refuse_round_def by (intro sound.andThen sound.pure failed_keeps)

lemma console_keeps: "port_rel (keeps_ok lib) (onConsole m)"
  by (rule sound.console) (simp add: keeps_ok_def)

lemma exchange_keeps: "port_rel (keeps_ok lib) (handleCertificateRequest lib L E cert dat)"
  unfolding handleCertificateRequest_def Let_def
  by (intro sound.rules refuse_keeps update_keeps console_keeps)

lemma keeps_apply: "port_rel (keeps_ok lib) m \<Longrightarrow> portal_ok lib p \<Longrightarrow> portal_ok lib (snd (m p))"
  by (simp add: port_rel_def keeps_ok_def)

text \<open>What a round does once the handshake is complete.\<close>

lemma answer_ok:
  assumes "portal_ok lib p" and "\<And>m. meta = Some m \<Longrightarrow> meta_proved lib (pt_proven p) i m"
  shows "portal_ok lib (snd (andThen (onLogins (login_update i dat st meta)) (\<lambda>_. give x) p))"
  using update_ok [of lib p meta i dat st, OF assms]
  by (cases "onLogins (login_update i dat st meta) p"; cases "fst (onLogins (login_update i dat st meta) p)")
     (simp_all add: andThen_def give_def)

lemma certified_ok:
  assumes "portal_ok lib p" and "\<And>m. meta = Some m \<Longrightarrow> meta_proved lib (pt_proven p) i m"
  shows "portal_ok lib (snd (andThen (createCertificateRound L E d caps ci iss) (\<lambda>cr.
     andThen (onLogins (login_update i dat st (Some (map_set ''certRound'' (JObj [(''key'', JStr (lr_key cr))])
        (case meta of None \<Rightarrow> [] | Some m \<Rightarrow> m))))) (\<lambda>_. give x)) p))"
proof (cases "createCertificateRound L E d caps ci iss p")
  case (Pair r p1)
  with keeps_apply [OF certificates_keep(3) assms(1), of L E d caps ci iss] have ok: "portal_ok lib p1" by simp
  have "pt_proven p1 = pt_proven p"
    using Pair by (auto simp: createCertificateRound_def create_row_def andThen_def give_def onLogins_def split: sum.splits)
  then have "meta_proved lib (pt_proven p1) i (map_set ''certRound'' v (case meta of None \<Rightarrow> [] | Some m \<Rightarrow> m))" for v
    using assms(2) by (auto simp: meta_proved_def meta_text_def split: option.splits)
  then have "portal_ok lib (snd (andThen (onLogins (login_update i dat st (Some (map_set ''certRound'' v
      (case meta of None \<Rightarrow> [] | Some m \<Rightarrow> m))))) (\<lambda>_. give x) p1))" for v
    using ok by (intro answer_ok) auto
  with Pair ok show ?thesis by (cases r) (simp_all add: andThen_def [of "createCertificateRound L E d caps ci iss"])
qed

lemma request_ok:
  assumes "portal_ok lib p" and "row_proved lib (pt_proven p) cert"
  shows "portal_ok lib (snd (handleRequest_round lib L E cert dat p))"
proof -
  let ?k = "\<lambda>c. lr_metadata c"
  have old: "meta_proved lib (pt_proven p) (lr_id cert) m" if "lr_metadata cert = Some m" for m
    using assms(2) that by (simp add: row_meta meta_of_def)
  have early: "portal_ok lib (snd (refuse_round cert d p))" "portal_ok lib (snd (throw DecryptFailed p))" for d
    using keeps_apply [OF refuse_keeps assms(1)] assms(1) by (simp_all add: throw_def)
  show ?thesis
    unfolding handleRequest_round_def Let_def
  proof (cases "meta_text (meta_of cert) ''kind'' = Some ''certificate''", goal_cases)
    case 1
    with keeps_apply [OF exchange_keeps assms(1)] show ?case by simp
  next
    case kind: 2
    show ?case
    proof (cases "resumed lib L cert")
      case None
      with kind early show ?thesis by simp
    next
      case r: (Some c0)
      show ?thesis
      proof (cases "ll_decrypt L (fromBase64 dat) (lr_key cert)")
        case None
        with kind r early show ?thesis by simp
      next
        case d: (Some decoded)
        show ?thesis
        proof (cases "ch_update (lb_challenger lib) c0 decoded")
          case None
          with kind r d early show ?thesis by simp
        next
          case (Some c)
          note here = kind r d Some
          show ?thesis
          proof (cases "completed lib c")
            case True
            show ?thesis
              using here True
              by (simp add: completed_def, intro after_success [OF assms True])
                (auto simp: reading_def andThen_def [of "reading _"] intro: answer_ok certified_ok
                   keeps_apply [OF refuse_keeps])
          next
            case False
            with here early show ?thesis
              by (auto simp: completed_def intro: answer_ok [OF assms(1) old])
          qed
        qed
      qed
    qed
  qed
qed

lemma session_ok:
  assumes "portal_ok lib p" and "row_proved lib (pt_proven p) cert"
  shows "portal_ok lib (snd (authorize_close now cert r expired p))"
proof -
  have gone: "portal_ok lib (p\<lparr>pt_logins := login_delete (lr_id r) (pt_logins p)\<rparr>)"
    using assms(1) by (rule portal_ok_fewer) (auto simp: login_delete_def)
  have opened: "portal_ok lib (p\<lparr>pt_logins := login_delete (lr_id r) (pt_logins p),
      pt_sessions := pt_sessions p @ [(FromKey (lr_id cert) t, a_did a)]\<rparr>)"
    if "meta_text (meta_of cert) ''did'' = Some did" "actor_findByDid did d = Some a" for did d a t
  proof -
    have "a_did a = did" using that(2) by (auto simp: actor_findByDid_def dest: row_find_Some_D)
    with that assms(2) have "session_proved lib (pt_proven p) (FromKey (lr_id cert) t, a_did a)"
      by (simp add: session_proved_def row_proved_def)
    with gone show ?thesis by (simp add: portal_ok_def)
  qed
  show ?thesis
    using gone opened
    by (auto simp: authorize_close_def consume_delete_def andThen_def give_def reading_def split: option.split)
qed

lemma provider_ok: "portal_ok lib p \<Longrightarrow> portal_ok lib (snd (signIn L E provider claims user p))"
proof (rule keeps_apply)
  have upsert: "port_rel (keeps_ok lib) (upsert_identity E con cl)" for con cl
    by (auto simp: port_rel_def keeps_ok_def upsert_identity_def split: sum.split)
  have opened: "port_rel (keeps_ok lib) (\<lambda>p. (Inr (), p\<lparr>pt_sessions := pt_sessions p @ [(FromIdentity c s, did)]\<rparr>))" for c s did
    by (auto simp: port_rel_def keeps_ok_def portal_ok_def session_proved_def)
  show "port_rel (keeps_ok lib) (signIn L E provider claims user)"
    unfolding signIn_def resolveSsoLogin_def Let_def
    by (intro sound.rules upsert console_keeps) (auto intro: opened sound.pure split: sso_outcome.split)
qed

lemma routes_ok:
  assumes "portal_ok lib p"
  shows "portal_ok lib (snd (user_connect L E p))" "portal_ok lib (snd (user_p2p_connect L E s p))"
    "portal_ok lib (snd (invite_connect L E token p))" "portal_ok lib (snd (invite_p2p_connect L E s token p))"
    "portal_ok lib (snd (handleRequest_open E token p))"
proof -
  have start: "portal_ok lib (snd (andThen m (\<lambda>r. andThen (reading connect_window) (\<lambda>w. andThen (startP2PSession E s r w) (\<lambda>_. give (h r)))) p))"
    if "port_rel (keeps_ok lib) m" "\<And>r p'. m p = (Inr r, p') \<Longrightarrow> row_proved lib (pt_proven p') r"
    for m :: "('a, 'b, 'c, login_row) port" and h :: "login_row \<Rightarrow> 'd"
  proof (cases "m p")
    case (Pair res p1)
    with keeps_apply [OF that(1) assms] have ok: "portal_ok lib p1" by simp
    show ?thesis
    proof (cases res)
      case (Inr r)
      with session_started [OF ok that(2), of r E s] Pair
      show ?thesis by (simp add: andThen_def reading_def give_def startP2PSession_def)
    qed (use Pair ok in \<open>simp add: andThen_def\<close>)
  qed
  show "portal_ok lib (snd (user_connect L E p))" "portal_ok lib (snd (invite_connect L E token p))"
    "portal_ok lib (snd (handleRequest_open E token p))"
    unfolding user_connect_def invite_connect_def handleRequest_open_def
    by (intro keeps_apply [OF _ assms] sound.rules certificates_keep failed_keeps)+
  show "portal_ok lib (snd (user_p2p_connect L E s p))"
    unfolding user_p2p_connect_def
    by (simp add: andThen_def [of "reading hasAnyHuman"] reading_def [of hasAnyHuman])
      (intro conjI impI start certificates_keep; erule certificates_proved)
  have "portal_ok lib (snd (andThen (createRegistrationCertificate L E (Some token)) (\<lambda>r.
      andThen (reading connect_window) (\<lambda>w. andThen (startP2PSession E s r w) (\<lambda>_. give (Some r)))) p))"
    by (intro start certificates_keep; erule certificates_proved)
  with assms show "portal_ok lib (snd (invite_p2p_connect L E s token p))"
    by (simp add: invite_p2p_connect_def andThen_def [of "reading (valid_invitation E token)"]
        reading_def [of "valid_invitation E token"] give_def [of None])
qed

lemma login_step_ok: "login_step lib L p p' \<Longrightarrow> portal_ok lib p \<Longrightarrow> portal_ok lib p'"
proof (induction rule: login_step.induct)
  case (RoundOpen E token p r p1 dat)
  have ok: "portal_ok lib p1" using routes_ok(5) [OF RoundOpen.prems, of E token] RoundOpen.hyps by simp
  have "cert \<in> set (pt_logins p) \<and> p1 = p" if "r = Inr (Some cert)" for cert
    using RoundOpen.hyps that
    by (auto simp: handleRequest_open_def andThen_def give_def reading_def login_findByRegistration_def
        dest: row_find_Some_D split: if_splits option.splits prod.splits sum.splits)
  with ok show ?case
    by (auto simp: portal_ok_def list_all_iff split: sum.split option.split)
next
  case (RoundRun cert dat p E)
  then show ?case
    by (intro request_ok portal_ok_fewer(2)) (auto simp: portal_ok_def list_all_iff dest: set_remove1_subset [THEN subsetD])
next
  case (Authorize now key p cert)
  then have "cert \<in> set (pt_logins p)"
    by (auto simp: authorize_open_def connecting_def login_findByKey_def dest: row_find_Some_D split: if_splits option.splits)
  with Authorize.prems show ?case by (auto simp: portal_ok_def list_all_iff)
next
  case (Consume key cert p now)
  then have "row_proved lib (pt_proven p) cert" by (auto simp: portal_ok_def list_all_iff)
  with Consume.prems show ?case
    by (auto simp: portal_ok_def list_all_iff dest: set_remove1_subset [THEN subsetD] split: option.split)
next
  case (Delete cert r expired p now)
  then show ?case
    by (intro session_ok portal_ok_fewer(2)) (auto simp: portal_ok_def list_all_iff dest: set_remove1_subset [THEN subsetD])
qed (simp_all add: routes_ok wallet_ok provider_ok)

lemma login_reach_ok: "login_reach lib L p \<Longrightarrow> portal_ok lib p"
proof (induction rule: login_reach.induct)
  case (Step p p')
  from Step.hyps(2) Step.IH show ?case by (rule login_step_ok)
qed (simp add: portal_start_def portal_ok_def)

text \<open>C24 (safety). In every state the sign-in code can reach, a session opened with a key is for a DID
  that completed a login handshake on that key's row: a challenger that finished without failure, for
  the login service, with that DID as its contact.\<close>

theorem session_needs_proof:
  assumes "login_reach lib L p" and "(FromKey i t, did) \<in> set (pt_sessions p)"
  shows "\<exists>c. (i, c) \<in> set (pt_proven p) \<and> ch_complete (lb_challenger lib) c \<and> \<not> ch_failed (lb_challenger lib) c
    \<and> verifyProtocol (lb_challenger lib) c \<and> lb_did lib (ch_contact (lb_challenger lib) c) = did"
  using login_reach_ok [OF assms(1)] assms(2)
  by (auto simp: portal_ok_def list_all_iff session_proved_def proved_def completed_def)

theorem session_needs_proof_witness:
  "\<exists>p. login_reach demo_lib demo_login p \<and> (FromKey ''row'' 1000, ''did:h'') \<in> set (pt_sessions p)
     \<and> (\<exists>c. (''row'', c) \<in> set (pt_proven p) \<and> ch_complete demo_challenger c \<and> ch_contact demo_challenger c = ''did:h'')"
proof -
  obtain p where p: "login_reach demo_lib demo_login p" "(FromKey ''row'' 1000, ''did:h'') \<in> set (pt_sessions p)"
    using one_key_two_sessions by fastforce
  from session_needs_proof [OF p] p show ?thesis by (auto simp: demo_lib_def)
qed

end
