(* ===== verification/LoginEffects.thy ===== *)
theory LoginEffects
  imports LoginSafety
begin

text \<open>
  Single operations of signing in: when a key is traded for a session, how long a wallet session can last,
  what redeeming an invitation does, and what a provider's login does; with the races and the half-done
  redemptions the code allows.
\<close>

section \<open>Keys\<close>

text \<open>A key is traded for a session of a DID exactly when the first handshake row with the key
  is complete, at most ten minutes old and meant for connecting, carries that DID, and the DID is
  still an Actor.\<close>

theorem authorize_iff:
  "(\<exists>u p'. authorize now key p = (Inr (Some u), p') \<and> su_did u = did) \<longleftrightarrow>
     (\<exists>r. key \<noteq> [] \<and> login_findByKey key (pt_logins p) = Some r \<and> lr_status r = 2 \<and> truthy (lr_connection r)
        \<and> now - lr_startedAt r \<le> AUTH_CERTIFICATE_TTL_MS \<and> meta_text (meta_of r) ''did'' = Some did \<and> did \<noteq> []
        \<and> actor_findByDid did (pt_db p) \<noteq> None)"
proof -
  have same: "a_did a = d" if "actor_findByDid d db = Some a" for a d db
    using that by (auto simp: actor_findByDid_def dest: row_find_Some_D)
  show ?thesis
    by (auto simp: authorize_def authorize_open_def connecting_def consume_find_def authorize_close_def consume_delete_def
        isAuthCertificateExpired_def andThen_def give_def reading_def not_less same split: option.splits if_splits)
qed



section \<open>Wallet sessions\<close>

text \<open>Inputs a session can get in its phase, each within its patience.\<close>

fun expected :: "'ch p2p_phase \<Rightarrow> p2p_input \<Rightarrow> bool" where
  "expected Dialing i = (i \<in> {DialledIn, DialTimedOut, DialFailed})"
| "expected (Round n ch) i = (i \<notin> {DialledIn, DialTimedOut, DialFailed})"

fun timely ::
  "('vid, 'ch, 'cfg) ws_lib \<Rightarrow> nat \<Rightarrow> int \<Rightarrow> (login_env \<times> p2p_input) list \<Rightarrow> ('vid, 'ch, 'cfg) portal \<Rightarrow> bool" where
  "timely lib s now [] p = True"
| "timely lib s now ((E, inp) # evs) p =
     (case map_of (pt_p2p p) s of
        None \<Rightarrow> True
      | Some S \<Rightarrow> now \<le> le_now E \<and> le_now E \<le> now + p2p_patience S now \<and> expected (ps_phase S) inp
                 \<and> timely lib s (le_now E) evs (p2p_step lib E s inp p))"

fun wallet_run ::
  "('vid, 'ch, 'cfg) ws_lib \<Rightarrow> nat \<Rightarrow> (login_env \<times> p2p_input) list \<Rightarrow> ('vid, 'ch, 'cfg) portal \<Rightarrow> ('vid, 'ch, 'cfg) portal" where
  "wallet_run lib s [] p = p"
| "wallet_run lib s ((E, inp) # evs) p = wallet_run lib s evs (p2p_step lib E s inp p)"

text \<open>Where a session stands: the inputs it has left, and when its next wait ends at the latest.\<close>

definition on_time :: "int \<Rightarrow> int \<Rightarrow> nat \<Rightarrow> 'ch p2p_session \<Rightarrow> bool" where
  "on_time deadline now k S \<longleftrightarrow> ps_deadline S = deadline \<and>
     (case ps_phase S of
        Dialing \<Rightarrow> k = 0 \<and> now \<le> deadline
      | Round n _ \<Rightarrow> k = Suc n \<and> n < 4 \<and> now \<le> deadline + 5000 * int n)"

lemma step_phase:
  assumes "map_of (pt_p2p p) s = Some S" and "expected (ps_phase S) inp"
    and "map_of (pt_p2p (p2p_step lib E s inp p)) s = Some S'"
  shows "ps_deadline S' = ps_deadline S \<and> (case ps_phase S of
      Dialing \<Rightarrow> (\<exists>ch. ps_phase S' = Round 0 ch) | Round n _ \<Rightarrow> (\<exists>ch. ps_phase S' = Round (Suc n) ch) \<and> Suc n < 4)"
proof (cases "ps_phase S")
  case Dialing
  with assms show ?thesis
    by (cases inp) (auto simp: p2p_step_def Let_def p2p_close_def)
next
  case (Round n ch)
  with assms show ?thesis
    by (cases inp) (auto simp: p2p_step_def Let_def p2p_close_def P2P_ROUNDS_def split: prod.splits sum.splits option.splits if_splits)
qed

lemma closed_stays: "map_of (pt_p2p p) s = None \<Longrightarrow> wallet_run lib s evs p = p"
proof (induction evs)
  case (Cons e evs)
  then show ?case by (cases e) (simp add: p2p_step_def)
qed simp

lemma wallet_bounded:
  assumes "timely lib s now evs p" and "map_of (pt_p2p p) s = Some S" and "on_time deadline now k S"
    and "map_of (pt_p2p (wallet_run lib s evs p)) s = Some S'"
  shows "\<exists>now'. on_time deadline now' (k + length evs) S' \<and> now' = (if evs = [] then now else le_now (fst (last evs)))"
  using assms
proof (induction evs arbitrary: p now k S)
  case (Cons e evs)
  obtain E inp where e: "e = (E, inp)" by fastforce
  let ?p = "p2p_step lib E s inp p"
  have open': "map_of (pt_p2p ?p) s \<noteq> None"
  proof
    assume none: "map_of (pt_p2p ?p) s = None"
    with closed_stays [OF none, of lib evs] Cons.prems(4) e show False by simp
  qed
  then obtain S1 where S1: "map_of (pt_p2p ?p) s = Some S1" by auto
  have t: "now \<le> le_now E" "le_now E \<le> now + p2p_patience S now" "expected (ps_phase S) inp" "timely lib s (le_now E) evs ?p"
    using Cons.prems(1,2) e by simp_all
  have "on_time deadline (le_now E) (Suc k) S1"
    using step_phase [OF Cons.prems(2) t(3) S1] Cons.prems(3) t(1,2)
    by (auto simp: on_time_def p2p_patience_def Let_def max_def split: p2p_phase.splits if_splits)
  from Cons.IH [OF t(4) S1 this] Cons.prems(4) e show ?case by auto
qed auto

text \<open>A wallet session that is still open has had at most four inputs, and waits for its next one
  until at most twenty seconds after the connect window: nothing keeps it open for good.\<close>

theorem p2p_session_bounded:
  assumes "timely lib s (le_now E) evs (snd (startP2PSession E s row window p))" and "0 \<le> window"
    and "map_of (pt_p2p (wallet_run lib s evs (snd (startP2PSession E s row window p)))) s = Some S"
    and "now = (if evs = [] then le_now E else le_now (fst (last evs)))"
  shows "length evs \<le> 4 \<and> now + p2p_patience S now \<le> le_now E + window + 20000"
proof -
  let ?p = "snd (startP2PSession E s row window p)"
  have "map_of (pt_p2p ?p) s = Some \<lparr>ps_row = row, ps_deadline = le_now E + window, ps_phase = Dialing\<rparr>"
    by (simp add: startP2PSession_def)
  from wallet_bounded [OF assms(1) this, of "le_now E + window" 0 S] assms
  have "on_time (le_now E + window) now (length evs) S"
    by (auto simp: on_time_def)
  with assms(2) show ?thesis
    by (auto simp: on_time_def p2p_patience_def Let_def max_def split: p2p_phase.splits if_splits)
qed

theorem p2p_session_bounded_witness:
  "let p = snd (startP2PSession demo_login_env 0 demo_row 120000 demo_proved); evs = [(demo_login_env, DialledIn)] in
   \<exists>S. map_of (pt_p2p (wallet_run demo_lib 0 evs p)) 0 = Some S
     \<and> length evs \<le> 4 \<and> 1000 + p2p_patience S 1000 \<le> 1000 + 120000 + 20000"
proof -
  let ?p = "snd (startP2PSession demo_login_env 0 demo_row 120000 demo_proved)"
  let ?S = "\<lparr>ps_row = demo_row, ps_deadline = 121000, ps_phase = Round 0 []\<rparr>"
  have now: "le_now demo_login_env = 1000"
    by (simp add: demo_login_env_def desk_env_def demo_env_def)
  have S: "map_of (pt_p2p (wallet_run demo_lib 0 [(demo_login_env, DialledIn)] ?p)) 0 = Some ?S"
    by (simp add: startP2PSession_def p2p_step_def now demo_lib_def demo_challenger_def)
  have "timely demo_lib 0 (le_now demo_login_env) [(demo_login_env, DialledIn)] ?p"
    by (simp add: startP2PSession_def p2p_step_def now p2p_patience_def demo_lib_def demo_challenger_def)
  from p2p_session_bounded [OF this _ S, of 1000] S now show ?thesis by (simp add: Let_def)
qed

end
