(* ===== verification/LoginBindings.thy ===== *)
theory LoginBindings
  imports LoginDemo
begin

text \<open>
  External identities: every reachable table of them is well formed, and no step of the sign-in code
  points a bound identity at another DID. The locale \<open>port_logic\<close> carries the relation through the
  operations.
\<close>

section \<open>Bindings\<close>

definition separate :: "sso_identity_row list \<Rightarrow> bool" where
  "separate ids \<longleftrightarrow> (\<forall>r \<in> set ids. \<forall>r' \<in> set ids. \<forall>d. si_did r = Some d \<longrightarrow> si_did r' = Some d \<longrightarrow> si_id r' = si_id r)"

definition identities_wf :: "sso_identity_row list \<Rightarrow> bool" where
  "identities_wf ids \<longleftrightarrow> unique_keys si_id ids \<and> unique_keys (\<lambda>r. (si_connectionId r, si_subject r)) ids
     \<and> separate ids"

definition bindings_kept :: "sso_identity_row list \<Rightarrow> sso_identity_row list \<Rightarrow> bool" where
  "bindings_kept ids ids' \<longleftrightarrow> (\<forall>r \<in> set ids. \<forall>did. si_did r = Some did \<longrightarrow>
     (\<exists>r' \<in> set ids'. si_id r' = si_id r \<and> si_connectionId r' = si_connectionId r
        \<and> si_subject r' = si_subject r \<and> si_did r' = Some did))"

definition binds_well :: "('vid, 'ch, 'cfg) portal \<Rightarrow> ('vid, 'ch, 'cfg) portal \<Rightarrow> bool" where
  "binds_well p p' \<longleftrightarrow> (identities_wf (pt_identities p) \<longrightarrow>
     identities_wf (pt_identities p') \<and> bindings_kept (pt_identities p) (pt_identities p'))"

lemma bindings_kept_trans: "bindings_kept a b \<Longrightarrow> bindings_kept b c \<Longrightarrow> bindings_kept a c"
  unfolding bindings_kept_def by metis

lemma bindings_kept_refl [simp]: "bindings_kept a a"
  by (auto simp: bindings_kept_def)

interpretation bindings: port_logic binds_well
  by unfold_locales (auto simp: binds_well_def intro: bindings_kept_trans)

lemma binds_same: "pt_identities p' = pt_identities p \<Longrightarrow> binds_well p p'"
  by (simp add: binds_well_def)

lemma separateD:
  "separate ids \<Longrightarrow> r \<in> set ids \<Longrightarrow> r' \<in> set ids \<Longrightarrow> si_did r = Some d \<Longrightarrow> si_did r' = Some d \<Longrightarrow> si_id r' = si_id r"
  unfolding separate_def by blast

lemma separateI:
  "(\<And>r r' d. r \<in> set ids \<Longrightarrow> r' \<in> set ids \<Longrightarrow> si_did r = Some d \<Longrightarrow> si_did r' = Some d \<Longrightarrow> si_id r' = si_id r) \<Longrightarrow> separate ids"
  unfolding separate_def by blast

lemma mapped_row:
  assumes "r \<in> set (row_map P f ids)" obtains q where "q \<in> set ids" "r = (if P q then f q else q)"
  using assms by (auto simp: set_row_map)

lemma kept_map:
  assumes "\<And>r did. si_did r = Some did \<Longrightarrow> P r \<Longrightarrow> si_id (f r) = si_id r \<and> si_connectionId (f r) = si_connectionId r
     \<and> si_subject (f r) = si_subject r \<and> si_did (f r) = Some did"
  shows "bindings_kept ids (row_map P f ids)"
  unfolding bindings_kept_def
proof (intro ballI allI impI)
  fix r did assume r: "r \<in> set ids" "si_did r = Some did"
  then have "(if P r then f r else r) \<in> set (row_map P f ids)" by (simp add: set_row_map)
  with assms [OF r(2)] r(2) show "\<exists>r' \<in> set (row_map P f ids). si_id r' = si_id r \<and> si_connectionId r' = si_connectionId r
      \<and> si_subject r' = si_subject r \<and> si_did r' = Some did"
    by (intro bexI [of _ "if P r then f r else r"]) simp_all
qed

lemma bind_wf:
  assumes "identity_bindDid i did d ids = Inr (ok, ids')" and "identities_wf ids"
  shows "identities_wf ids' \<and> bindings_kept ids ids'"
proof -
  let ?hit = "\<lambda>r. si_id r = i \<and> si_did r = None" and ?f = "\<lambda>r. r\<lparr>si_did := Some did\<rparr>"
  show ?thesis
  proof (cases "ids' = ids")
    case False
    with assms(1) have ids': "ids' = row_map ?hit ?f ids" and free: "\<forall>r \<in> set ids. si_did r \<noteq> Some did"
      by (auto simp: identity_bindDid_def Let_def list_ex_iff split: if_splits)
    have "unique_keys si_id ids'" "unique_keys (\<lambda>r. (si_connectionId r, si_subject r)) ids'"
      unfolding ids' by (rule unique_row_map; use assms(2) in \<open>simp add: identities_wf_def\<close>)+
    moreover have "separate ids'"
    proof (rule separateI)
      fix r r' d assume r: "r \<in> set ids'" "r' \<in> set ids'" "si_did r = Some d" "si_did r' = Some d"
      obtain q where q: "q \<in> set ids" "r = (if ?hit q then ?f q else q)" by (rule mapped_row [OF r(1) [unfolded ids']])
      obtain q' where q': "q' \<in> set ids" "r' = (if ?hit q' then ?f q' else q')" by (rule mapped_row [OF r(2) [unfolded ids']])
      have sep: "si_did q = Some d \<Longrightarrow> si_did q' = Some d \<Longrightarrow> si_id q' = si_id q"
        using assms(2) q(1) q'(1) by (auto simp: identities_wf_def intro: separateD)
      have bound: "?hit x" if "x \<in> set ids" "si_did (if ?hit x then ?f x else x) = Some did" for x
        using that free by (cases "?hit x") auto
      show "si_id r' = si_id r"
      proof (cases "?hit q \<or> ?hit q'")
        case True
        then have d: "d = did" using r(3,4) unfolding q(2) q'(2) by auto
        have "?hit q" using bound [OF q(1)] r(3) unfolding q(2) d by blast
        moreover have "?hit q'" using bound [OF q'(1)] r(4) unfolding q'(2) d by blast
        ultimately show ?thesis unfolding q(2) q'(2) by simp
      next
        case False
        then have "r = q" "r' = q'" using q(2) q'(2) by presburger+
        with sep r(3,4) show ?thesis by blast
      qed
    qed
    moreover have "bindings_kept ids ids'"
      unfolding ids' by (rule kept_map) auto
    ultimately show ?thesis by (simp add: identities_wf_def)
  qed (use assms(2) in simp)
qed

lemma upsert_wf:
  assumes "identity_upsertFromClaims now newId con cl cons ids = Inr (r, ids')" and "identities_wf ids"
  shows "identities_wf ids' \<and> bindings_kept ids ids'"
proof (cases "identity_findBySubject con (sl_subject cl) ids")
  case None
  with assms(1) have new: "ids' = ids @ [r]" "si_id r = newId" "si_connectionId r = con" "si_subject r = sl_subject cl" "si_did r = None"
    "row_find si_id newId ids = None"
    by (auto simp: identity_upsertFromClaims_def Let_def split: if_splits)
  from None have "\<forall>q \<in> set ids. (si_connectionId q, si_subject q) \<noteq> (con, sl_subject cl)"
    by (auto simp: identity_findBySubject_def find_None_iff)
  with new assms(2) show ?thesis
    by (auto simp: identities_wf_def bindings_kept_def unique_keys_def row_find_None_iff image_iff
        intro!: separateI dest: separateD)
next
  case (Some q)
  let ?hit = "\<lambda>r. si_connectionId r = con \<and> si_subject r = sl_subject cl"
  let ?f = "\<lambda>r. r\<lparr>si_email := sl_email cl, si_name := sl_name cl, si_issuer := sl_issuer cl, si_lastLoginAt := Some now\<rparr>"
  from Some assms(1) have ids': "ids' = row_map ?hit ?f ids"
    by (auto simp: identity_upsertFromClaims_def Let_def)
  have "unique_keys si_id ids'" "unique_keys (\<lambda>r. (si_connectionId r, si_subject r)) ids'"
    unfolding ids' by (rule unique_row_map; use assms(2) in \<open>simp add: identities_wf_def\<close>)+
  moreover have "separate ids'"
  proof (rule separateI)
    fix r r' d assume r: "r \<in> set ids'" "r' \<in> set ids'" "si_did r = Some d" "si_did r' = Some d"
    obtain x where x: "x \<in> set ids" "r = (if ?hit x then ?f x else x)" by (rule mapped_row [OF r(1) [unfolded ids']])
    obtain y where y: "y \<in> set ids" "r' = (if ?hit y then ?f y else y)" by (rule mapped_row [OF r(2) [unfolded ids']])
    from x(2) y(2) r(3,4) have "si_did x = Some d" "si_did y = Some d" "si_id r = si_id x" "si_id r' = si_id y" by (auto split: if_splits)
    with assms(2) x(1) y(1) show "si_id r' = si_id r" by (auto simp: identities_wf_def dest: separateD)
  qed
  moreover have "bindings_kept ids ids'"
    unfolding ids' by (rule kept_map) auto
  ultimately show ?thesis by (simp add: identities_wf_def)
qed

section \<open>The operations\<close>

lemma quiet_port [simp]:
  "port_rel binds_well (onConsole m)" "port_rel binds_well (onLogins f)" "port_rel binds_well (mark_failed r dat)"
  "port_rel binds_well (sweepExpiredCertificates now)" "port_rel binds_well (startP2PSession E s r w)"
  "port_rel binds_well (consume_delete r b)"
  by (auto simp: port_rel_def onConsole_def onLogins_def mark_failed_def sweepExpiredCertificates_def startP2PSession_def
      consume_delete_def split: prod.split sum.split intro!: binds_same)

lemma bind_port: "port_rel binds_well (bindSsoIdentity i did)"
  by (rule bindings.bind_identity) (auto simp: binds_well_def dest: bind_wf)

lemma upsert_port: "port_rel binds_well (upsert_identity E con cl)"
  by (auto simp: port_rel_def upsert_identity_def binds_well_def split: sum.split dest: upsert_wf)

lemma register_port: "port_rel binds_well (registerHuman lib E contact token)"
  by (rule bindings.register [OF binds_same bind_port]) simp

lemma proven_port: "port_rel binds_well (\<lambda>p. (Inr (), p\<lparr>pt_proven := pt_proven p @ xs\<rparr>))"
  "port_rel binds_well (\<lambda>p. (Inr (), p\<lparr>pt_sessions := pt_sessions p @ ys\<rparr>))"
  by (simp_all add: port_rel_def binds_same)

lemma success_port: "port_rel binds_well (handleSuccess lib E cert c)"
  unfolding handleSuccess_def Let_def loginHuman_def
  by (intro bindings.rules proven_port register_port)

lemma certificate_ports:
  "port_rel binds_well (createRegistrationCertificate L E t)"
  "port_rel binds_well (createConnectionCertificate L E)"
  "port_rel binds_well (createCertificateRound L E h cs ci iss)"
  unfolding createRegistrationCertificate_def createConnectionCertificate_def createCertificateRound_def create_row_def
  by (intro bindings.rules quiet_port)+

lemma wallet_port: "port_rel binds_well (p2p_round lib E row ch w)"
  unfolding p2p_round_def Let_def
  by (intro bindings.rules quiet_port success_port)

lemma exchange_port: "port_rel binds_well (handleCertificateRequest lib L E cert dat)"
  unfolding handleCertificateRequest_def Let_def refuse_round_def
  by (intro bindings.rules quiet_port)

lemma request_port: "port_rel binds_well (handleRequest_round lib L E cert dat)"
  unfolding handleRequest_round_def Let_def refuse_round_def
  by (intro bindings.rules quiet_port exchange_port success_port certificate_ports)

lemma close_port: "port_rel binds_well (authorize_close now cert r expired)"
  unfolding authorize_close_def
  by (intro bindings.rules quiet_port proven_port)

lemma provider_port: "port_rel binds_well (signIn L E provider claims user)"
  unfolding signIn_def resolveSsoLogin_def Let_def
  by (intro bindings.rules quiet_port upsert_port) (auto intro: proven_port bindings.pure split: sso_outcome.split)

lemma route_ports:
  "port_rel binds_well (user_connect L E)" "port_rel binds_well (user_p2p_connect L E s)"
  "port_rel binds_well (invite_connect L E token)" "port_rel binds_well (invite_p2p_connect L E s token)"
  "port_rel binds_well (handleRequest_open E token)"
  unfolding user_connect_def user_p2p_connect_def invite_connect_def invite_p2p_connect_def handleRequest_open_def
  by (intro bindings.rules quiet_port certificate_ports)+

lemma port_apply: "port_rel binds_well m \<Longrightarrow> binds_well p (snd (m p))"
  by (simp add: port_rel_def)

lemma step_binds: "binds_well p (p2p_step lib E s inp p)"
proof (cases "map_of (pt_p2p p) s")
  case (Some S)
  have after: "pt_identities p' = pt_identities q \<Longrightarrow> binds_well p q \<Longrightarrow> binds_well p p'" for p' q :: "('a, 'b, 'c) portal"
    by (simp add: binds_well_def)
  have failed: "pt_identities (snd (mark_failed r dat q)) = pt_identities q" for r dat and q :: "('a, 'b, 'c) portal"
    by (simp add: mark_failed_def onLogins_def split: sum.split)
  show ?thesis
  proof (cases "(ps_phase S, inp)")
    case (Pair ph i)
    show ?thesis
    proof (cases "\<exists>n ch w. ph = Round n ch \<and> i = Received w")
      case True
      then obtain n ch w where r: "ps_phase S = Round n ch" "inp = Received w" using Pair by auto
      obtain res p' where run: "p2p_round lib E (ps_row S) ch w p = (res, p')" by fastforce
      have "binds_well p p'" using port_apply [OF wallet_port, of p lib E "ps_row S" ch w] run by simp
      then show ?thesis
        by (rule after [rotated]) (auto simp: p2p_step_def Some r run Let_def p2p_close_def failed split: sum.split option.split)
    next
      case False
      with Pair show ?thesis
        by (intro binds_same) (cases ph; cases i; simp add: p2p_step_def Some Let_def p2p_close_def failed)
    qed
  qed
qed (simp add: p2p_step_def binds_same)

section \<open>Every step\<close>

text \<open>No row is pointed at another DID; the row of a deleted Actor is unbound, the rows of a deleted provider go.\<close>

definition not_repointed :: "sso_identity_row list \<Rightarrow> sso_identity_row list \<Rightarrow> bool" where
  "not_repointed ids ids' \<longleftrightarrow> (\<forall>r \<in> set ids. \<forall>r' \<in> set ids'. \<forall>d d'. si_id r' = si_id r \<longrightarrow> si_did r = Some d \<longrightarrow>
     si_did r' = Some d' \<longrightarrow> d' = d)"

lemma same_row:
  assumes "identities_wf ids" and "q \<in> set ids" and "r \<in> set ids" and "si_id q = si_id r"
  shows "q = r"
proof -
  have u: "unique_keys si_id ids" using assms(1) by (simp add: identities_wf_def)
  have "Some q = row_find si_id (si_id r) ids"
    unfolding assms(4) [symmetric] by (rule row_find_unique [OF u assms(2), symmetric])
  also have "\<dots> = Some r" by (rule row_find_unique [OF u assms(3)])
  finally show ?thesis by simp
qed

lemma wf_separate: "identities_wf ids \<Longrightarrow> separate ids"
  by (simp add: identities_wf_def)

lemma kept_not_repointed:
  assumes "bindings_kept ids ids'" and "identities_wf ids'"
  shows "not_repointed ids ids'"
  unfolding not_repointed_def
proof (intro ballI allI impI)
  fix r r' d d' assume r: "r \<in> set ids" "r' \<in> set ids'" "si_id r' = si_id r" "si_did r = Some d" "si_did r' = Some d'"
  from bspec [OF assms(1) [unfolded bindings_kept_def] r(1)] r(4)
  obtain q where q: "q \<in> set ids'" "si_id q = si_id r" "si_did q = Some d" by auto
  have "q = r'" using same_row [OF assms(2) q(1) r(2)] q(2) r(3) by simp
  with q(3) r(5) show "d' = d" by simp
qed

lemma filter_wf: "identities_wf ids \<Longrightarrow> identities_wf (filter P ids)"
  by (auto simp: identities_wf_def unique_filter intro!: separateI dest: separateD)

lemma unbind_wf:
  assumes "identities_wf ids"
  shows "identities_wf (row_map (\<lambda>r. si_did r = Some did) (\<lambda>r. r\<lparr>si_did := None\<rparr>) ids)" (is "identities_wf ?ids'")
  unfolding identities_wf_def
proof (intro conjI separateI)
  show "unique_keys si_id ?ids'" "unique_keys (\<lambda>r. (si_connectionId r, si_subject r)) ?ids'"
    by (rule unique_row_map; use assms in \<open>simp add: identities_wf_def\<close>)+
  have kept: "x \<in> set ids" if "x \<in> set ?ids'" "si_did x = Some d" for x d
    using that by (auto simp: set_row_map split: if_splits)
  fix r r' d assume "r \<in> set ?ids'" "r' \<in> set ?ids'" "si_did r = Some d" "si_did r' = Some d"
  with kept show "si_id r' = si_id r" using separateD [OF wf_separate [OF assms]] by blast
qed

lemma subset_not_repointed:
  assumes "identities_wf ids" and "\<And>r. r \<in> set ids' \<Longrightarrow> si_did r \<noteq> None \<Longrightarrow> r \<in> set ids"
  shows "not_repointed ids ids'"
  unfolding not_repointed_def
proof (intro ballI allI impI)
  fix r r' d d' assume r: "r \<in> set ids" "r' \<in> set ids'" "si_id r' = si_id r" "si_did r = Some d" "si_did r' = Some d'"
  have "r' \<in> set ids" using assms(2) [OF r(2)] r(5) by simp
  from same_row [OF assms(1) this r(1,3)] have "r' = r" .
  with r(4,5) show "d' = d" by simp
qed

lemma login_step_binds:
  assumes "login_step lib L p p'" and "identities_wf (pt_identities p)"
  shows "identities_wf (pt_identities p') \<and> not_repointed (pt_identities p) (pt_identities p')"
proof -
  have well: "identities_wf (pt_identities q) \<and> not_repointed (pt_identities p) (pt_identities q)"
    if "binds_well p q" for q :: "('a, 'b, 'c) portal"
    using that assms(2) by (auto simp: binds_well_def intro: kept_not_repointed)
  have after: "binds_well p (snd (m (p\<lparr>pt_tasks := ts\<rparr>)))" if "port_rel binds_well m" for m :: "('a, 'b, 'c, 'd) port" and ts
    using port_apply [OF that, of "p\<lparr>pt_tasks := ts\<rparr>"] by (simp add: binds_well_def)
  show ?thesis
    using assms(1)
  proof cases
    case (RoundOpen E token r p1 dat)
    have "binds_well p p1" using port_apply [OF route_ports(5), of p E token] RoundOpen(2) by simp
    then show ?thesis unfolding RoundOpen(1) by (intro well) (simp add: binds_well_def)
  next
    case (ActorGone did)
    have "r \<in> set (pt_identities p)" if "r \<in> set (pt_identities p')" "si_did r \<noteq> None" for r
    proof -
      have m: "r \<in> set (row_map (\<lambda>q. si_did q = Some did) (\<lambda>q. q\<lparr>si_did := None\<rparr>) (pt_identities p))"
        using that(1) by (simp add: ActorGone)
      obtain q where "q \<in> set (pt_identities p)" "r = (if si_did q = Some did then q\<lparr>si_did := None\<rparr> else q)"
        by (rule mapped_row [OF m])
      with that(2) show ?thesis by (cases "si_did q = Some did") simp_all
    qed
    then have "not_repointed (pt_identities p) (pt_identities p')" by (rule subset_not_repointed [OF assms(2)])
    moreover have "identities_wf (pt_identities p')"
      unfolding ActorGone by (simp add: unbind_wf [OF assms(2)])
    ultimately show ?thesis by blast
  next
    case (Connections cons)
    have "not_repointed (pt_identities p) (pt_identities p')"
      by (rule subset_not_repointed [OF assms(2)]) (simp add: Connections)
    moreover have "identities_wf (pt_identities p')"
      unfolding Connections by (simp add: filter_wf [OF assms(2)])
    ultimately show ?thesis by blast
  next
    case (RoundRun cert dat E)
    show ?thesis unfolding RoundRun(1) by (intro well after request_port)
  next
    case (Delete cert r expired now)
    show ?thesis unfolding Delete(1) by (intro well after close_port)
  next
    case (Wallet E s inp)
    show ?thesis unfolding Wallet by (intro well step_binds)
  next
    case (Provider E provider claims user)
    show ?thesis unfolding Provider by (intro well port_apply provider_port)
  next
    case (Authorize now key cert)
    show ?thesis unfolding Authorize by (intro well binds_same) simp
  next
    case (Consume key cert now)
    show ?thesis unfolding Consume by (intro well binds_same) simp
  next
    case (Console c)
    show ?thesis unfolding Console by (intro well binds_same) simp
  qed (hypsubst, intro well port_apply route_ports)+
qed

lemma login_reach_identities: "login_reach lib L p \<Longrightarrow> identities_wf (pt_identities p)"
proof (induction rule: login_reach.induct)
  case (Step p p')
  with login_step_binds [OF Step.hyps(2)] show ?case by simp
qed (simp add: portal_start_def identities_wf_def unique_keys_def separate_def)

text \<open>C25 (invariant). In every state the sign-in code can reach a DID is bound to at most one external identity, and
  whatever happens next, races between redemptions included, an identity that is bound to a DID is
  never pointed at another one.\<close>

theorem bindings_never_repointed:
  assumes "login_reach lib L p" and "login_step lib L p p'"
    and "r \<in> set (pt_identities p)" and "si_did r = Some did"
  shows "{q \<in> set (pt_identities p). si_did q = Some did} = {r}
    \<and> {d. \<exists>q \<in> set (pt_identities p'). si_id q = si_id r \<and> si_did q = Some d} \<subseteq> {did}"
proof
  note wf = login_reach_identities [OF assms(1)]
  have "q = r" if "q \<in> set (pt_identities p)" "si_did q = Some did" for q
    using same_row [OF wf that(1) assms(3)] separateD [OF wf_separate [OF wf] assms(3) that(1) assms(4) that(2)] by blast
  with assms(3,4) show "{q \<in> set (pt_identities p). si_did q = Some did} = {r}" by blast
  show "{d. \<exists>q \<in> set (pt_identities p'). si_id q = si_id r \<and> si_did q = Some d} \<subseteq> {did}"
    using login_step_binds [OF assms(2) wf] assms(3,4) unfolding not_repointed_def by blast
qed

text \<open>A provider's login of somebody new, the invitation it writes, and the wallet that redeems it.\<close>

definition demo_connection :: sso_connection_row where
  "demo_connection = \<lparr>sn_id = ''c'', sn_kind = ''oidc'', sn_name = ''Idp'', sn_issuer = ''i'', sn_clientId = ''x'',
     sn_clientSecretEnc = ''s'', sn_tenantId = None, sn_isActive = True, sn_createdBy = ''did:h'', sn_createdAt = 0\<rparr>"

definition demo_profile :: sso_profile where
  "demo_profile = \<lparr>sp_sub = Some ''sub'', sp_email = None, sp_name = Some ''N''\<rparr>"

definition demo_provider :: "(string, byte list, unit) portal \<Rightarrow> (string, byte list, unit) portal" where
  "demo_provider p = snd (signIn demo_login demo_login_env ''sso-c'' demo_profile demo_profile p)"

definition demo_invited :: "(string, byte list, unit) portal" where
  "demo_invited = demo_provider ((portal_start desk)\<lparr>pt_connections := [demo_connection], pt_identities := []\<rparr>)"

definition demo_bound :: "(string, byte list, unit) portal" where
  "demo_bound = p2p_step demo_lib demo_login_env 0 (Received (1 # lb_idBytes demo_lib ''did:n''))
     (p2p_step demo_lib demo_login_env 0 DialledIn (snd (invite_p2p_connect demo_login demo_login_env 0 ''t'' demo_invited)))"

lemma demo_bound_reach: "login_reach demo_lib demo_login demo_bound"
proof -
  have "login_reach demo_lib demo_login ((portal_start desk)\<lparr>pt_connections := [demo_connection], pt_identities := []\<rparr>)"
    using login_reach.Step [OF login_reach.Start [of demo_lib demo_login desk]
        Connections [of demo_lib demo_login "portal_start desk" "[demo_connection]"]]
    by (simp add: portal_start_def)
  then show ?thesis
    unfolding demo_bound_def demo_invited_def demo_provider_def
    by (intro login_reach.Step [OF _ Wallet] login_reach.Step [OF _ InviteP2PConnect] login_reach.Step [OF _ Provider])
qed

lemma demo_bound_run: "map (\<lambda>r. (si_id r, si_did r)) (pt_identities demo_bound) = [(''row'', Some ''did:n'')]"
  by code_simp

theorem bindings_never_repointed_witness:
  "\<exists>r. pt_identities demo_bound = [r] \<and> si_did r = Some ''did:n''
     \<and> {q \<in> set (pt_identities demo_bound). si_did q = Some ''did:n''} = {r}
     \<and> {d. \<exists>q \<in> set (pt_identities (demo_provider demo_bound)). si_id q = si_id r \<and> si_did q = Some d} \<subseteq> {''did:n''}"
proof -
  from demo_bound_run obtain r where r: "pt_identities demo_bound = [r]" "si_did r = Some ''did:n''" by auto
  have "login_step demo_lib demo_login demo_bound (demo_provider demo_bound)"
    unfolding demo_provider_def by (rule Provider)
  from bindings_never_repointed [OF demo_bound_reach this _ r(2)] r show ?thesis by auto
qed

end
