(* ===== verification/LoginRedeem.thy ===== *)
theory LoginRedeem
  imports LoginBindings
begin

text \<open>
  Redeeming an invitation and signing in at an identity provider: what each outcome has changed, and the
  half-done redemptions and races the code allows.
\<close>

section \<open>Runs\<close>

named_theorems port_run \<open>the outcomes of the pieces of an operation\<close>

lemma port_pieces [port_run]:
  "give x p = (r, p') \<longleftrightarrow> r = Inr x \<and> p' = p"
  "throw e p = (r', p') \<longleftrightarrow> r' = Inl e \<and> p' = p"
  "reading h p = (r'', p') \<longleftrightarrow> r'' = Inr (h p) \<and> p' = p"
  "andThen m g p = (Inr z, p') \<longleftrightarrow> (\<exists>x p1. m p = (Inr x, p1) \<and> g x p1 = (Inr z, p'))"
  "andThen m g p = (Inl e', p') \<longleftrightarrow> m p = (Inl e', p') \<or> (\<exists>x p1. m p = (Inr x, p1) \<and> g x p1 = (Inl e', p'))"
  by (auto simp: give_def throw_def reading_def andThen_def split: prod.splits sum.splits)

lemma port_console [port_run]:
  "onConsole m p = (Inr x, p') \<longleftrightarrow> (\<exists>c. m (pt_console p) = (Inr x, c) \<and> p' = p\<lparr>pt_console := c\<rparr>)"
  "onConsole m p = (Inl e, p') \<longleftrightarrow> (\<exists>a c. m (pt_console p) = (Inl a, c) \<and> e = ConsoleError a \<and> p' = p\<lparr>pt_console := c\<rparr>)"
  by (auto simp: onConsole_def split: prod.splits sum.splits)

lemma port_cases [port_run]:
  "(if b then m else n) p = y \<longleftrightarrow> (b \<and> m p = y) \<or> (\<not> b \<and> n p = y)"
  by auto

lemma andThen_at: "m p = (r, p1) \<Longrightarrow> andThen m g p = (case r of Inl e \<Rightarrow> (Inl e, p1) | Inr x \<Rightarrow> g x p1)"
  by (simp add: andThen_def)

section \<open>The pieces of a redemption\<close>

text \<open>Making sure of the Actor: it grants nothing and leaves the invitations alone, and when it throws nothing has changed.\<close>

lemma ensure_run:
  assumes "user_ensureExists now did nm email key c = (r, c')"
  shows "tb_certs (co_db c') = tb_certs (co_db c) \<and> tb_invitations (co_db c') = tb_invitations (co_db c)
    \<and> (\<forall>e. r = Inl e \<longrightarrow> c' = c \<and> e = Refused (EmailTaken (text_of email)))"
proof (cases "actor_findByDid did (co_db c)")
  case None
  with assms show ?thesis
    by (auto simp: user_ensureExists_def actor_findByDid_def throw_def andThen_def dao_def actor_upsert_def workspace_ok_def throw_when_def
        Let_def set_db_def split: if_splits)
next
  case (Some a)
  with assms show ?thesis
    by (auto simp: user_ensureExists_def actor_findByDid_def dao_unit_def dao_def actor_touchLastSeen_def row_update_def set_db_def)
qed

lemma grant_run:
  assumes "issue_grant lib E inp c = (r, c')"
  shows "(\<forall>e. r = Inl e \<longrightarrow> c' = c) \<and> (\<forall>row. r = Inr row \<longrightarrow> c' = set_db ((co_db c)\<lparr>tb_certs := tb_certs (co_db c) @ [row]\<rparr>) c
     \<and> c_agentDid row = ag_agentDid inp \<and> c_status row = Active \<and> c_capabilities row = ag_capabilities inp
     \<and> c_workspaceId row = ag_workspaceId inp \<and> c_scope row = ag_scope inp \<and> c_expiresAt row = ag_expiresAt inp)"
  using assms
  by (auto simp: issue_grant_def issueAdminGrant_def issueCapabilityGrant_def Let_def cert_create_def row_insert_Inr
      split: option.splits sum.splits issue_error.splits)

lemma profile_run:
  assumes "user_markProfileCompleted now did c = (r, c')" shows "co_db c' = co_db c"
  using assms by (auto simp: user_markProfileCompleted_def split: if_splits)

lemma bind_run:
  assumes "bindSsoIdentity i did p = (r, p')" shows "pt_console p' = pt_console p"
  using assms by (auto simp: bindSsoIdentity_def split: sum.splits)

text \<open>Everything after the invitation is marked: the invitations stay, and certificates are only written by an end that returns.\<close>

definition granted :: "login_env \<Rightarrow> string \<Rightarrow> invitation_row \<Rightarrow> certificate_row list \<Rightarrow> bool" where
  "granted E did i cs \<longleftrightarrow> (if i_capabilities i = [] then cs = []
     else \<exists>c. cs = [c] \<and> c_agentDid c = did \<and> c_status c = Active \<and> c_capabilities c = i_capabilities i
       \<and> c_workspaceId c = i_workspaceId i \<and> c_scope c = None \<and> c_expiresAt c = Some (le_now E + INVITED_GRANT_TTL_MS))"

definition marked :: "login_env \<Rightarrow> string \<Rightarrow> invitation_row \<Rightarrow> db \<Rightarrow> invitation_row list" where
  "marked E did i d = row_map (\<lambda>r. i_tokenHash r = i_tokenHash i)
     (\<lambda>r. r\<lparr>i_redeemedAt := Some (le_now E), i_redeemedDid := Some did\<rparr>) (tb_invitations d)"

lemma mark_run:
  assumes "row_find i_tokenHash (i_tokenHash i) (tb_invitations (co_db c)) \<noteq> None"
  shows "dao_unit (invitation_markRedeemed now (i_tokenHash i) did) c =
    (Inr (), set_db ((co_db c)\<lparr>tb_invitations := row_map (\<lambda>r. i_tokenHash r = i_tokenHash i)
       (\<lambda>r. r\<lparr>i_redeemedAt := Some now, i_redeemedDid := Some did\<rparr>) (tb_invitations (co_db c))\<rparr>) c)"
  using assms by (auto simp: dao_unit_def dao_def invitation_markRedeemed_def row_update_def)

text \<open>The end of a redemption: profile, grant and event.\<close>

definition redeem_end ::
  "('vid, 'ch, 'cfg) ws_lib \<Rightarrow> login_env \<Rightarrow> string \<Rightarrow> invitation_row \<Rightarrow> actor_row option \<Rightarrow> ('vid, 'ch, 'cfg, bool) port" where
  "redeem_end lib E did i actor =
     andThen (onConsole (user_markProfileCompleted (le_now E) did)) (\<lambda>_.
     andThen (if i_capabilities i = [] then give ()
            else andThen (onConsole (issue_grant lib (le_admin E)
                   \<lparr>ag_agentDid = did, ag_workspaceId = i_workspaceId i, ag_capabilities = i_capabilities i,
                    ag_scope = None, ag_resourceLimits = None,
                    ag_expiresAt = Some (le_now E + INVITED_GRANT_TTL_MS), ag_issuedBy = i_createdBy i\<rparr>)) (\<lambda>_. give ())) (\<lambda>_.
     andThen (onConsole (record_event (le_admin E) ''human.invitation_redeemed''
              ((case actor of None \<Rightarrow> [] | Some a \<Rightarrow> actorPayload (ae_payload (le_admin E)) a) @
               [(''invitedBy'', JStr (i_createdBy i))]) None (Some ''actor'') (Some did))) (\<lambda>_.
     give True)))"

lemma redeem_end_run:
  assumes "redeem_end lib E did i actor p = (r, p')"
  shows "tb_invitations (pt_db p') = tb_invitations (pt_db p) \<and> (case r of
      Inr ok \<Rightarrow> ok \<and> (\<exists>cs. tb_certs (pt_db p') = tb_certs (pt_db p) @ cs \<and> granted E did i cs)
    | Inl e \<Rightarrow> tb_certs (pt_db p') = tb_certs (pt_db p))"
proof -
  have recorded [simp]: "tb_invitations (recordEvent now et pl pb tt ti d) = tb_invitations d" for now et pl pb tt ti d
    by (simp add: recordEvent_def audit_create_def)
  show ?thesis
    using assms
    by (cases r) (auto simp: redeem_end_def port_run act_run granted_def set_db_fields dest!: profile_run grant_run)
qed

lemma redeem_run:
  assumes "redeemInvitation lib E did key i p = (r, p')"
    and "row_find i_tokenHash (i_tokenHash i) (tb_invitations (pt_db p)) \<noteq> None"
  shows "case r of
      Inr True \<Rightarrow> tb_invitations (pt_db p') = marked E did i (pt_db p)
        \<and> (\<exists>cs. tb_certs (pt_db p') = tb_certs (pt_db p) @ cs \<and> granted E did i cs)
    | Inr False \<Rightarrow> p' = p
    | Inl e \<Rightarrow> tb_invitations (pt_db p') = marked E did i (pt_db p) \<and> tb_certs (pt_db p') = tb_certs (pt_db p)"
proof -
  obtain r1 c1 where made: "user_ensureExists (le_now E) did (i_name i) (i_email i) (Some key) (pt_console p) = (r1, c1)"
    by fastforce
  show ?thesis
  proof (cases r1)
    case (Inl e)
    with ensure_run [OF made] have "c1 = pt_console p" "e = Refused (EmailTaken (text_of (i_email i)))" by auto
    with made Inl assms(1) show ?thesis
      by (auto simp: redeemInvitation_def andThen_def catching_def onConsole_def give_def Let_def)
  next
    case (Inr u)
    let ?p1 = "p\<lparr>pt_console := c1\<rparr>"
    have c1: "tb_certs (co_db c1) = tb_certs (pt_db p)" "tb_invitations (co_db c1) = tb_invitations (pt_db p)"
      using ensure_run [OF made] by auto
    obtain c2 where c2: "dao_unit (invitation_markRedeemed (le_now E) (i_tokenHash i) did) c1 = (Inr (), c2)"
      "tb_invitations (co_db c2) = marked E did i (pt_db p)" "tb_certs (co_db c2) = tb_certs (pt_db p)"
      using mark_run [of i c1 "le_now E" did] assms(2) c1 by (auto simp: marked_def)
    show ?thesis
    proof -
      let ?p2 = "p\<lparr>pt_console := c2\<rparr>"
      let ?bind = "case i_ssoIdentityId i of None \<Rightarrow> give ()
        | Some s \<Rightarrow> if s = [] then give () else andThen (bindSsoIdentity s did) (\<lambda>_. give ())"
      obtain rb p3 where b: "?bind ?p2 = (rb, p3)" by fastforce
      have p3: "pt_console p3 = c2"
        using b by (auto simp: give_def andThen_def split: option.splits if_splits prod.splits sum.splits dest!: bind_run)
      have rest: "(case rb of Inl e \<Rightarrow> (Inl e, p3) | Inr _ \<Rightarrow>
          redeem_end lib E did i (actor_findByDid did (co_db c1)) p3) = (r, p')"
      proof -
        have first: "andThen (catching (andThen (onConsole (user_ensureExists (le_now E) did (i_name i) (i_email i) (Some key))) (\<lambda>_. give True))
              (\<lambda>e. case e of ConsoleError (Refused (EmailTaken _)) \<Rightarrow> give False | _ \<Rightarrow> throw e)) g p
            = g True (p\<lparr>pt_console := c1\<rparr>)" for g :: "_ \<Rightarrow> ('a, 'b, 'c, bool) port"
          using made Inr by (simp add: catching_def andThen_def onConsole_def give_def)
        have second: "andThen (reading (\<lambda>p. actor_findByDid did (pt_db p))) g (p\<lparr>pt_console := c1\<rparr>)
            = g (actor_findByDid did (co_db c1)) (p\<lparr>pt_console := c1\<rparr>)" for g :: "_ \<Rightarrow> ('a, 'b, 'c, bool) port"
          by (simp add: andThen_def reading_def)
        have third: "andThen (onConsole (dao_unit (invitation_markRedeemed (le_now E) (i_tokenHash i) did))) g (p\<lparr>pt_console := c1\<rparr>)
            = g () ?p2" for g :: "_ \<Rightarrow> ('a, 'b, 'c, bool) port"
          using c2(1) by (simp add: andThen_def onConsole_def)
        from assms(1) show ?thesis
          by (simp add: redeemInvitation_def Let_def first second third andThen_at [of ?bind ?p2 rb p3, OF b] redeem_end_def split: sum.splits split del: if_split)
      qed
      show ?thesis
      proof (cases rb)
        case (Inl e)
        with rest p3 c2(2,3) show ?thesis by auto
      next
        case (Inr u)
        with rest have "redeem_end lib E did i (actor_findByDid did (co_db c1)) p3 = (r, p')" by simp
        from redeem_end_run [OF this] p3 c2(2,3) show ?thesis by (cases r) auto
      qed
    qed
  qed
qed

section \<open>Redemption\<close>

text \<open>C26 (error). A redemption of an invitation has one of three ends. It succeeds: the invitation was unexpired
  and unused, is now redeemed by the DID, and the only certificate written is an active grant to that DID of exactly the
  invitation's capabilities in its workspace, for a year. It is refused, and nothing at all has changed. Or it
  throws, and then the invitation is spent although nothing was granted.\<close>

theorem redemption_ends:
  "case registerHumanFromInvitation lib E did key token p of
     (Inr True, p') \<Rightarrow> (\<exists>i. invitation_findValidByToken (ae_hashToken (le_admin E)) (le_now E) token (pt_db p) = Some i
        \<and> tb_invitations (pt_db p') = marked E did i (pt_db p)
        \<and> (\<exists>cs. tb_certs (pt_db p') = tb_certs (pt_db p) @ cs \<and> granted E did i cs))
   | (Inr False, p') \<Rightarrow> p' = p
   | (Inl e, p') \<Rightarrow> (\<exists>i. invitation_findValidByToken (ae_hashToken (le_admin E)) (le_now E) token (pt_db p) = Some i
        \<and> tb_invitations (pt_db p') = marked E did i (pt_db p) \<and> tb_certs (pt_db p') = tb_certs (pt_db p))"
proof (cases "invitation_findValidByToken (ae_hashToken (le_admin E)) (le_now E) token (pt_db p)")
  case None
  then show ?thesis by (simp add: registerHumanFromInvitation_def andThen_def reading_def give_def)
next
  case (Some i)
  then have hit: "row_find i_tokenHash (ae_hashToken (le_admin E) token) (tb_invitations (pt_db p)) = Some i"
    by (auto simp: invitation_findValidByToken_def split: option.splits if_splits)
  with row_find_Some_D [OF hit] have "row_find i_tokenHash (i_tokenHash i) (tb_invitations (pt_db p)) \<noteq> None"
    by simp
  with redeem_run [of lib E did key i p] Some show ?thesis
    by (auto simp: registerHumanFromInvitation_def andThen_def reading_def give_def split: prod.splits sum.splits bool.splits)
qed

text \<open>Nothing asks again whether the invitation is still unused: of two redemptions past the check both are served.\<close>

lemma overlapping_redemptions:
  assumes "redeemInvitation lib E did key i p = (Inr True, p1)" and "redeemInvitation lib E did' key' i p1 = (Inr True, p2)"
    and "row_find i_tokenHash (i_tokenHash i) (tb_invitations (pt_db p)) \<noteq> None"
  shows "\<exists>cs cs'. tb_certs (pt_db p2) = tb_certs (pt_db p) @ cs @ cs' \<and> granted E did i cs \<and> granted E did' i cs'"
proof -
  from redeem_run [OF assms(1,3)] obtain cs where
    1: "tb_invitations (pt_db p1) = marked E did i (pt_db p)" "tb_certs (pt_db p1) = tb_certs (pt_db p) @ cs" "granted E did i cs"
    by auto
  have "row_find i_tokenHash (i_tokenHash i) (tb_invitations (pt_db p1)) \<noteq> None"
    unfolding 1(1) marked_def using assms(3) by (simp add: row_find_map)
  from redeem_run [OF assms(2) this] 1 show ?thesis by auto
qed

text \<open>A human who is bound at one provider and signs in at another: the invitation is spent, and the second identity is never bound.\<close>

definition demo_identity :: "string \<Rightarrow> string \<Rightarrow> string option \<Rightarrow> sso_identity_row" where
  "demo_identity i con did = \<lparr>si_id = i, si_connectionId = con, si_subject = ''sub'', si_issuer = ''i'', si_email = None,
     si_name = None, si_did = did, si_lastLoginAt = None\<rparr>"

definition demo_second :: "(string, byte list, unit) portal" where
  "demo_second = (portal_start (set_db (desk_db\<lparr>tb_invitations := [\<lparr>i_tokenHash = ''t'', i_name = ''N'', i_email = None,
       i_capabilities = [''portal_access''], i_workspaceId = None, i_createdBy = ''system:sso:d'', i_createdAt = 0,
       i_expiresAt = 5000, i_redeemedAt = None, i_redeemedDid = None, i_ssoIdentityId = Some ''second''\<rparr>]\<rparr>) desk))
     \<lparr>pt_identities := [demo_identity ''first'' ''c'' (Some ''did:h''), demo_identity ''second'' ''d'' None]\<rparr>"

lemma second_provider_never_binds:
  "fst (registerHumanFromInvitation demo_lib demo_login_env ''did:h'' [] ''t'' demo_second) = Inl (ConsoleError (DbFailed UniqueViolation))
   \<and> map i_redeemedDid (tb_invitations (pt_db (snd (registerHumanFromInvitation demo_lib demo_login_env ''did:h'' [] ''t'' demo_second))))
       = [Some ''did:h'']"
  by code_simp

section \<open>Signing in at a provider\<close>

lemma find_row_map:
  assumes "\<And>r. P r \<Longrightarrow> P (f r)"
  shows "find P (row_map P f rows) = map_option f (find P rows)"
  using assms by (induction rows) (auto simp: row_map_def)

lemma find_last: "find P (rows @ [r]) = (case find P rows of None \<Rightarrow> if P r then Some r else None | Some q \<Rightarrow> Some q)"
  by (induction rows) auto

lemma upsert_found:
  assumes "upsert_identity E con cl p = (Inr r, p')"
  shows "identity_findBySubject con (sl_subject cl) (pt_identities p') = Some r
    \<and> si_did r = Option.bind (identity_findBySubject con (sl_subject cl) (pt_identities p)) si_did"
proof (cases "identity_findBySubject con (sl_subject cl) (pt_identities p)")
  case None
  with assms show ?thesis
    by (auto simp: upsert_identity_def identity_upsertFromClaims_def Let_def identity_findBySubject_def find_last
        split: sum.splits if_splits)
next
  case (Some q)
  with assms show ?thesis
    by (auto simp: upsert_identity_def identity_upsertFromClaims_def Let_def identity_findBySubject_def find_row_map
        split: sum.splits)
qed

text \<open>A login of a provider's user that returns has found or made the one row of that user, with the
  binding it had. A bound user is signed in as the bound DID, and no row of the console changes. An unbound
  one gets exactly one pending invitation, which gives only portal access and ends in an hour, and no
  certificate. A login that throws opens nothing.\<close>

theorem provider_login_ends:
  "case resolveSsoLogin E con cl p of
     (Inr out, p') \<Rightarrow> (\<exists>r. identity_findBySubject con (sl_subject cl) (pt_identities p') = Some r
        \<and> si_did r = Option.bind (identity_findBySubject con (sl_subject cl) (pt_identities p)) si_did
        \<and> (if truthy (si_did r) then out = SignIn (text_of (si_did r)) \<and> pt_console p' = pt_console p
           else (\<exists>i. filter (\<lambda>x. i_ssoIdentityId x = Some (si_id r) \<and> i_redeemedAt x = None) (tb_invitations (pt_db p')) = [i]
              \<and> out = Bind (''/invite/'' @ ae_rawToken (le_admin E) @ ''?sso=1'')
              \<and> i_tokenHash i = ae_hashToken (le_admin E) (ae_rawToken (le_admin E))
              \<and> i_capabilities i = [''portal_access''] \<and> i_expiresAt i = le_now E + BINDING_TTL_MS
              \<and> tb_certs (pt_db p') = tb_certs (pt_db p))))
   | (Inl e, p') \<Rightarrow> pt_sessions p' = pt_sessions p \<and> tb_certs (pt_db p') = tb_certs (pt_db p)"
proof -
  obtain u p1 where up: "upsert_identity E con cl p = (u, p1)" by fastforce
  have same: "pt_console p1 = pt_console p" "pt_sessions p1 = pt_sessions p"
    using up by (auto simp: upsert_identity_def split: sum.splits)
  show ?thesis
  proof (cases u)
    case (Inl e)
    with up same show ?thesis by (simp add: resolveSsoLogin_def andThen_def)
  next
    case (Inr r)
    have r: "identity_findBySubject con (sl_subject cl) (pt_identities p1) = Some r"
      "si_did r = Option.bind (identity_findBySubject con (sl_subject cl) (pt_identities p)) si_did"
      using upsert_found [of E con cl p r p1] up Inr by auto
    show ?thesis
    proof (cases "truthy (si_did r)")
      case True
      with up Inr r same show ?thesis by (simp add: resolveSsoLogin_def andThen_def give_def)
    next
      case False
      with up Inr r same show ?thesis
        by (auto simp: resolveSsoLogin_def andThen_def give_def onConsole_def dao_def invitation_create_def
            invitation_deletePendingForSsoIdentity_def row_insert_def Let_def set_db_def BINDING_CAPABILITIES_def filter_empty_conv
            split: sum.splits if_splits)
    qed
  qed
qed

end
