(* ===== verification/ConfigSafety.thy ===== *)
theory ConfigSafety
  imports AdminSafety
begin

text \<open>
  What the panels of interception points leave in the database: every configuration they store reads back, and a
  rule that is added is there, last, with every other setting as it was.
\<close>

section \<open>What is read back\<close>

definition config_reads :: "int \<Rightarrow> actor_row \<Rightarrow> bool" where
  "config_reads now a =
     (let raw = Some (JObj (a_kindConfig a)) in
      if a_kind a = ''proxy'' then \<not> isl (parseProxyKindConfig now raw)
      else if a_kind a = ''harness'' then \<not> isl (parseHarnessKindConfig now raw) else True)"

definition merged :: "string \<Rightarrow> actor_row \<Rightarrow> (string \<times> json) list \<Rightarrow> actor_row list \<Rightarrow> actor_row list" where
  "merged did a fs = row_map (\<lambda>r. a_did r = did) (\<lambda>r. r\<lparr>a_kindConfig := js_spread (a_kindConfig a) fs\<rparr>)"

lemma run_config [act_run]:
  "config_or_throw r c = (Inr x, c') \<longleftrightarrow> r = Inr x \<and> c' = c"
  by (auto simp: config_or_throw_def lift_result_def throw_def give_def split: sum.splits)

lemma push_db [simp]: "co_db (snd (push_config lib E did c)) = co_db c"
proof -
  have "ws_db (snd (pushActorConfig lib ev did st)) = ws_db st" for ev st
    by (simp add: pushActorConfig_def split: option.split)
  then show ?thesis by (simp add: push_config_def andThen_def onServer_def give_def case_prod_unfold Let_def)
qed

lemma run_push: "push_config lib E did c = (Inr (), c') \<Longrightarrow> co_db c' = co_db c"
  using push_db [of lib E did c] by simp

lemma actors_of_find: "actor_findByDid did (co_db c) = Some a \<Longrightarrow> row_find a_did did (tb_actors (co_db c)) = Some a"
  by (simp add: actor_findByDid_def)

lemma merge_run:
  assumes "row_find a_did did (tb_actors d) = Some a"
  shows "actor_mergeKindConfig did fs d = Inr (d\<lparr>tb_actors := merged did a fs (tb_actors d)\<rparr>)"
  using assms by (simp add: actor_mergeKindConfig_def merged_def row_update_def)

text \<open>Saving: the stored object is merged, or nothing is stored.\<close>

lemma saved_rows:
  fixes c :: "('vid, 'ch, 'cfg) console"
  assumes a: "row_find a_did did (tb_actors (co_db c)) = Some a"
  shows "tb_actors (co_db (snd (saveProxyConfig lib E did pc by' c))) \<in>
      {tb_actors (co_db c), merged did a (proxy_fields pc) (tb_actors (co_db c))}"
    and "tb_actors (co_db (snd (saveHarnessConfig lib E did hc by' c))) \<in>
      {tb_actors (co_db c), merged did a (harness_fields hc) (tb_actors (co_db c))}"
proof -
  have before: "snd (before_of parse (Some a) c) = c" for parse :: "json option \<Rightarrow> (config_error, 'x) result"
    by (simp add: before_of_def config_or_throw_def lift_result_def andThen_def throw_def give_def split: sum.split)
  have tail: "tb_actors (co_db (snd (andThen (config_event E ev pl did by') (\<lambda>_. push_config lib E did) c1))) = tb_actors (co_db c1)" for ev pl c1
    by (simp add: config_event_def andThen_def record_event_def Let_def set_db_def)
  have rest: "tb_actors (co_db (snd (andThen (dao_unit (actor_mergeKindConfig did fs))
      (\<lambda>_. andThen (config_event E ev pl did by') (\<lambda>_. push_config lib E did)) c))) = merged did a fs (tb_actors (co_db c))" for fs ev pl
  proof -
    have "dao_unit (actor_mergeKindConfig did fs) c = (Inr (), set_db ((co_db c)\<lparr>tb_actors := merged did a fs (tb_actors (co_db c))\<rparr>) c)"
      by (simp add: run_dao merge_run [OF a])
    then show ?thesis
      using tail [of ev pl "set_db ((co_db c)\<lparr>tb_actors := merged did a fs (tb_actors (co_db c))\<rparr>) c"]
      by (simp add: andThen_def [of "dao_unit h" for h])
  qed
  have whole: "tb_actors (co_db (snd (andThen (before_of parse (Some a)) (\<lambda>b. andThen (dao_unit (actor_mergeKindConfig did fs))
      (\<lambda>_. andThen (config_event E ev (pl b) did by') (\<lambda>_. push_config lib E did))) c)))
      \<in> {tb_actors (co_db c), merged did a fs (tb_actors (co_db c))}"
    for parse :: "json option \<Rightarrow> (config_error, 'x) result" and fs ev pl
    using before [of parse] rest [of fs ev]
    by (cases "before_of parse (Some a) c") (auto simp: andThen_def [of "before_of p q" for p q] split: sum.split)
  show "tb_actors (co_db (snd (saveProxyConfig lib E did pc by' c))) \<in>
      {tb_actors (co_db c), merged did a (proxy_fields pc) (tb_actors (co_db c))}"
    "tb_actors (co_db (snd (saveHarnessConfig lib E did hc by' c))) \<in>
      {tb_actors (co_db c), merged did a (harness_fields hc) (tb_actors (co_db c))}"
    using a whole
    by (simp_all add: saveProxyConfig_def saveHarnessConfig_def andThen_def [of "reading h" for h] reading_def actor_findByDid_def)
qed


section \<open>Every panel action\<close>

text \<open>An action that leaves every row as it was, or with a configuration that reads back.\<close>

definition safe_store :: "int \<Rightarrow> ('vid, 'ch, 'cfg) console \<Rightarrow> ('vid, 'ch, 'cfg, 'a) act \<Rightarrow> bool" where
  "safe_store now c m \<longleftrightarrow>
     list_all (\<lambda>r. r \<in> set (tb_actors (co_db c)) \<or> config_reads now r) (tb_actors (co_db (snd (m c))))"

lemma safe_pure: "snd (m c) = c \<Longrightarrow> safe_store now c m"
  by (simp add: safe_store_def list_all_iff)

lemma safe_bind:
  assumes "snd (m c) = c" and "\<And>x. m c = (Inr x, c) \<Longrightarrow> safe_store now c (g x)"
  shows "safe_store now c (andThen m g)"
proof (cases "m c")
  case (Pair r c1)
  with assms show ?thesis by (cases r) (auto simp: safe_store_def andThen_def list_all_iff)
qed

lemma safe_caught: "safe_store now c m \<Longrightarrow> safe_store now c (caught m)"
  by (auto simp: safe_store_def caught_def split: prod.splits sum.splits)

lemma safe_forget: "safe_store now c m \<Longrightarrow> safe_store now c (forget m)"
  by (auto simp: safe_store_def forget_def andThen_def give_def split: prod.splits sum.splits)

lemma safe_refuse: "safe_store now c m \<Longrightarrow> safe_store now c (refuse_when b r m)"
  by (simp add: refuse_when_def throw_def safe_pure)

lemma still [simp]:
  "snd (requireAdmin E c) = c" "snd (config_or_throw r c) = c" "snd (require x e c) = c"
  "snd (loadProxyConfig E did c) = c" "snd (loadHarnessConfig E did c) = c"
  by (simp_all add: requireAdmin_def loadProxyConfig_def loadHarnessConfig_def reading_def require_def refuse_when_def
      config_or_throw_def lift_result_def throw_def give_def andThen_def split: option.split sum.split)

lemma loaded:
  "loadProxyConfig E did c = (Inr pc, c') \<Longrightarrow> \<exists>a. row_find a_did did (tb_actors (co_db c)) = Some a \<and> a_kind a = ''proxy''
     \<and> parseProxyKindConfig (ae_now E) (Some (JObj (a_kindConfig a))) = Inr pc"
  "loadHarnessConfig E did c = (Inr hc, c') \<Longrightarrow> \<exists>a. row_find a_did did (tb_actors (co_db c)) = Some a \<and> a_kind a = ''harness''
     \<and> parseHarnessKindConfig (ae_now E) (Some (JObj (a_kindConfig a))) = Inr hc"
  by (auto simp: loadProxyConfig_def loadHarnessConfig_def actor_findByDid_def act_run)

lemma merged_rows:
  assumes "unique_keys a_did rows" and "row_find a_did did rows = Some a"
  shows "r \<in> set (merged did a fs rows) \<Longrightarrow> r \<in> set rows \<or> r = a\<lparr>a_kindConfig := js_spread (a_kindConfig a) fs\<rparr>"
  using assms row_find_unique [OF assms(1)] by (auto simp: merged_def row_map_def split: if_splits)

lemma safe_merge:
  assumes "unique_keys a_did (tb_actors (co_db c))" and "row_find a_did did (tb_actors (co_db c)) = Some a"
    and "tb_actors (co_db (snd (m c))) \<in> {tb_actors (co_db c), merged did a fs (tb_actors (co_db c))}"
    and "config_reads now (a\<lparr>a_kindConfig := js_spread (a_kindConfig a) fs\<rparr>)"
  shows "safe_store now c m"
proof -
  have "r \<in> set (tb_actors (co_db c)) \<or> config_reads now r" if "r \<in> set (tb_actors (co_db (snd (m c))))" for r
    using that assms(3) merged_rows [OF assms(1,2), of r fs] assms(4) by auto
  then show ?thesis by (simp add: safe_store_def list_all_iff)
qed

lemma safe_proxy:
  assumes u: "unique_keys a_did (tb_actors (co_db c))"
    and g: "\<And>pc. host_rules_valid (px_rules pc) \<Longrightarrow>
      (\<And>qc by'. host_rules_valid (px_rules qc) \<Longrightarrow> safe_store now c (saveProxyConfig lib E did qc by')) \<Longrightarrow> safe_store now c (g pc)"
  shows "safe_store now c (andThen (loadProxyConfig E did) g)"
proof (rule safe_bind)
  fix pc assume "loadProxyConfig E did c = (Inr pc, c)"
  from loaded(1) [OF this] obtain a where a: "row_find a_did did (tb_actors (co_db c)) = Some a" "a_kind a = ''proxy''"
    "parseProxyKindConfig (ae_now E) (Some (JObj (a_kindConfig a))) = Inr pc" by blast
  have "safe_store now c (saveProxyConfig lib E did qc by')" if v: "host_rules_valid (px_rules qc)" for qc by'
    by (rule safe_merge [where did = did and a = a and fs = "proxy_fields qc"])
       (simp_all only: u a(1) saved_rows(1) [OF a(1)], simp add: config_reads_def a(2) stored_proxy [OF v])
  with parsed_proxy_valid [OF a(3)] show "safe_store now c (g pc)" by (rule g)
qed simp

lemma safe_harness:
  assumes u: "unique_keys a_did (tb_actors (co_db c))"
    and g: "\<And>hc. resource_rules_valid (hx_resourceRules hc) \<Longrightarrow>
      (\<And>qc by'. resource_rules_valid (hx_resourceRules qc) \<Longrightarrow> safe_store now c (saveHarnessConfig lib E did qc by')) \<Longrightarrow> safe_store now c (g hc)"
  shows "safe_store now c (andThen (loadHarnessConfig E did) g)"
proof (rule safe_bind)
  fix hc assume "loadHarnessConfig E did c = (Inr hc, c)"
  from loaded(2) [OF this] obtain a where a: "row_find a_did did (tb_actors (co_db c)) = Some a" "a_kind a = ''harness''"
    "parseHarnessKindConfig (ae_now E) (Some (JObj (a_kindConfig a))) = Inr hc" by blast
  have "safe_store now c (saveHarnessConfig lib E did qc by')" if v: "resource_rules_valid (hx_resourceRules qc)" for qc by'
    by (rule safe_merge [where did = did and a = a and fs = "harness_fields qc"])
       (simp_all only: u a(1) saved_rows(2) [OF a(1)], simp add: config_reads_def a(2) stored_harness [OF v])
  with parsed_harness_valid [OF a(3)] show "safe_store now c (g hc)" by (rule g)
qed simp

lemma valid_rules_filter:
  "host_rules_valid rs \<Longrightarrow> host_rules_valid (filter P rs)"
  "resource_rules_valid rs \<Longrightarrow> resource_rules_valid (filter P rs)"
  by (auto simp: host_rules_valid_def resource_rules_valid_def list_all_iff distinct_map inj_on_def)

lemmas panel_defs =
  updateProxySettingsAction_def addProxyRuleAction_def deleteProxyRuleAction_def updateHarnessSettingsAction_def
  addHarnessResourceRuleAction_def deleteHarnessResourceRuleAction_def

definition panel_actions :: "admin_action list" where
  "panel_actions = [UpdateProxySettings, AddProxyRule, DeleteProxyRule, UpdateHarnessSettings, AddHarnessRule, DeleteHarnessRule]"

text \<open>C31 (invariant). A panel of an interception point never stores a configuration that does not load again: whatever
  the form holds, and whether or not the action ends well, every Actor row afterwards is one that was there
  before, or one whose configuration parses under its kind, at any later time.\<close>

theorem panels_store_what_loads:
  assumes "a \<in> set panel_actions" and u: "unique_keys a_did (tb_actors (co_db c))"
  shows "\<forall>r \<in> set (tb_actors (co_db (snd (run_action lib E a f c)))). r \<in> set (tb_actors (co_db c)) \<or> config_reads later r"
proof -
  note start = safe_bind [of "requireAdmin E" for E, OF still(1)]
    and check = safe_bind [of "config_or_throw r" for r, OF still(2)] and need = safe_bind [of "require x e" for x e, OF still(3)]
  note proxies = safe_proxy [OF u, of later lib E] and harnesses = safe_harness [OF u, of later lib E]
  have "safe_store later c (updateProxySettingsAction lib E f)"
    unfolding updateProxySettingsAction_def Let_def by (intro start safe_caught proxies check need) simp
  moreover have "safe_store later c (addProxyRuleAction lib E f)"
    unfolding addProxyRuleAction_def Let_def
    by (intro start safe_caught proxies safe_refuse check) (auto simp: run_config dest: parsed_proxy_valid)
  moreover have "safe_store later c (deleteProxyRuleAction lib E f)"
    unfolding deleteProxyRuleAction_def Let_def by (intro start proxies) (simp add: valid_rules_filter)
  moreover have "safe_store later c (updateHarnessSettingsAction lib E f)"
    unfolding updateHarnessSettingsAction_def Let_def by (intro start safe_caught harnesses check need) simp
  moreover have "safe_store later c (addHarnessResourceRuleAction lib E f)"
    unfolding addHarnessResourceRuleAction_def Let_def
    by (intro start safe_caught harnesses check) (auto simp: run_config dest: parsed_harness_valid)
  moreover have "safe_store later c (deleteHarnessResourceRuleAction lib E f)"
    unfolding deleteHarnessResourceRuleAction_def Let_def by (intro start harnesses) (simp add: valid_rules_filter)
  ultimately have "safe_store later c (run_action lib E a f)"
    using assms(1) by (auto simp: panel_actions_def intro: safe_forget)
  then show ?thesis by (simp add: safe_store_def list_all_iff)
qed

section \<open>A rule that is added\<close>

lemma filter_row_map: "filter (\<lambda>r. a_did r \<noteq> did) (row_map (\<lambda>r. a_did r = did) (\<lambda>r. r\<lparr>a_kindConfig := kc\<rparr>) rows) =
    filter (\<lambda>r. a_did r \<noteq> did) rows"
  by (induction rows) (auto simp: row_map_def)

lemma load_kept: "loadProxyConfig E did c = (r, c1) \<Longrightarrow> c1 = c"
  using still(4) [of E did c] by (metis snd_conv)

lemma saved_run:
  assumes "row_find a_did did (tb_actors (co_db c)) = Some a" and "saveProxyConfig lib E did pc by' c = (Inr (), c')"
  shows "tb_actors (co_db c') = merged did a (proxy_fields pc) (tb_actors (co_db c))"
  using assms
  by (auto simp: saveProxyConfig_def run_pieces run_dao merge_run config_event_def run_event actor_findByDid_def before_of_def
      run_config dest!: run_push split: option.splits)

lemma parsed_listen: "parseProxyKindConfig now (Some (JObj fs)) = Inr pc \<Longrightarrow> px_listenAddr pc = listen_of (map_of fs ''listenAddr'')"
  by (auto simp: parseProxyKindConfig_def DEFAULT_PROXY_KIND_CONFIG_def listen_of_def split: if_splits)

lemma dropWhile_hd: "dropWhile P xs = xs \<longleftrightarrow> xs = [] \<or> \<not> P (hd xs)"
proof (cases xs)
  case (Cons x ys)
  have "length (dropWhile P ys) < length (x # ys)" using length_dropWhile_le [of P ys] by simp
  then have "dropWhile P ys \<noteq> x # ys" by (metis less_irrefl)
  with Cons show ?thesis by simp
qed simp

lemma dropWhile_back: "\<not> P (hd xs) \<Longrightarrow> xs \<noteq> [] \<Longrightarrow> rev (dropWhile P (rev xs)) \<noteq> [] \<and> hd (rev (dropWhile P (rev xs))) = hd xs"
  by (cases xs) (auto simp: dropWhile_append)

lemma js_trim_idem: "js_trim (js_trim s) = js_trim s"
proof (cases "dropWhile is_js_space s = []")
  case False
  let ?t = "rev (dropWhile is_js_space (rev (dropWhile is_js_space s)))"
  from hd_dropWhile [OF False] dropWhile_back [OF _ False] have "\<not> is_js_space (hd ?t)" by simp
  then have "dropWhile is_js_space ?t = ?t" by (simp add: dropWhile_hd)
  then show ?thesis by (simp add: js_trim_def)
next
  case True
  then have "js_trim s = []" unfolding js_trim_def by (metis dropWhile.simps(1) rev.simps(1))
  then show ?thesis by (simp only:) (simp add: js_trim_def)
qed

lemma listen_again: "listen_of v = Some y \<Longrightarrow> listen_of (Some (JStr y)) = Some y"
  by (auto simp: listen_of_def js_trim_idem split: option.splits json.splits if_splits)

lemma reparsed:
  assumes "parseProxyKindConfig now (Some (JObj (proxy_fields (pc\<lparr>px_rules := rs\<rparr>)))) = Inr q"
    and "parseProxyKindConfig now' (Some (JObj fs)) = Inr pc"
  shows "q = pc\<lparr>px_rules := rs\<rparr> \<and> host_rules_valid rs"
proof -
  have l: "(case px_listenAddr pc of None \<Rightarrow> None | Some a \<Rightarrow> listen_of (Some (JStr a))) = px_listenAddr pc"
    using parsed_listen [OF assms(2)] listen_again [of "map_of fs ''listenAddr''"] by (simp split: option.split)
  have "q = \<lparr>px_mode = px_mode pc, px_listenAddr = px_listenAddr pc, px_rules = rs, px_maxStatusAgeSeconds = px_maxStatusAgeSeconds pc\<rparr>"
    using assms(1) l
    by (auto simp: parseProxyKindConfig_def proxy_fields_def age_of_def rules_of_def given_def listen_of_def
        split: option.splits if_splits)
  moreover have "host_rules_valid rs" using parsed_proxy_valid [OF assms(1)] calculation by simp
  ultimately show ?thesis by simp
qed

definition proxy_config_of :: "int \<Rightarrow> string \<Rightarrow> db \<Rightarrow> proxy_kind_config option" where
  "proxy_config_of now did d =
     (case actor_findByDid did d of
        None \<Rightarrow> None
      | Some a \<Rightarrow> if a_kind a \<noteq> ''proxy'' then None
                  else (case parseProxyKindConfig now (Some (JObj (a_kindConfig a))) of Inl _ \<Rightarrow> None | Inr pc \<Rightarrow> Some pc))"

lemma saved_proxy_config:
  assumes a: "row_find a_did did (tb_actors (co_db c)) = Some a" "a_kind a = ''proxy''"
    and pc: "parseProxyKindConfig now (Some (JObj (a_kindConfig a))) = Inr pc" and v: "host_rules_valid rs"
    and db: "tb_actors d' = merged did a (proxy_fields (pc\<lparr>px_rules := rs\<rparr>)) (tb_actors (co_db c))"
  shows "proxy_config_of later did d' = Some (pc\<lparr>px_rules := rs\<rparr>)"
proof -
  let ?a' = "a\<lparr>a_kindConfig := js_spread (a_kindConfig a) (proxy_fields (pc\<lparr>px_rules := rs\<rparr>))\<rparr>"
  have f: "row_find a_did did (tb_actors d') = Some ?a'"
    using a(1) row_find_Some_D [OF a(1)] by (simp add: db merged_def row_find_map)
  have l: "listen_of (case px_listenAddr pc of None \<Rightarrow> map_of (a_kindConfig a) ''listenAddr'' | Some x \<Rightarrow> Some (JStr x)) = px_listenAddr pc"
    using parsed_listen [OF pc] listen_again [of "map_of (a_kindConfig a) ''listenAddr''"] by (simp split: option.split)
  have "parseProxyKindConfig later (Some (JObj (a_kindConfig ?a'))) = Inr (pc\<lparr>px_rules := rs\<rparr>)"
    using stored_proxy [of "pc\<lparr>px_rules := rs\<rparr>" later "a_kindConfig a"] v l by simp
  with f a(2) show ?thesis by (simp add: proxy_config_of_def actor_findByDid_def)
qed

definition added_rule :: "form \<Rightarrow> json" where
  "added_rule f = form_rule f (splitList (form_get f ''hosts'')) (map the (map js_integer (splitList (form_get f ''ports''))))"

lemma add_rule_run:
  assumes "addProxyRuleAction lib E f c = (Inr None, c')"
  shows "\<exists>by' pc q. loadProxyConfig E (text_of (form_get f ''did'')) c = (Inr pc, c)
    \<and> parseProxyKindConfig (ae_now E) (Some (JObj (proxy_fields (pc\<lparr>px_rules := px_rules pc @ [added_rule f]\<rparr>)))) = Inr q
    \<and> saveProxyConfig lib E (text_of (form_get f ''did'')) q by' c = (Inr (), c')"
proof -
  from assms obtain by' pc q c1 where l: "loadProxyConfig E (text_of (form_get f ''did'')) c = (Inr pc, c1)"
    and q: "parseProxyKindConfig (ae_now E) (Some (JObj (proxy_fields (pc\<lparr>px_rules := px_rules pc @ [added_rule f]\<rparr>)))) = Inr q"
    and s: "saveProxyConfig lib E (text_of (form_get f ''did'')) q by' c1 = (Inr (), c')"
    unfolding addProxyRuleAction_def Let_def run_pieces run_caught run_require run_config added_rule_def [symmetric] by blast
  from l q s load_kept [OF l] show ?thesis by blast
qed

text \<open>When the form that adds a proxy rule ends well, the stored configuration is the one that was
  read, with that rule last and every other setting as it was; the rule is a well-formed one, its id new; its
  subject, effect and hosts are those of the form; and no other Actor's row changes.\<close>

theorem added_rule_is_stored:
  assumes "addProxyRuleAction lib E f c = (Inr None, c')" and "did = text_of (form_get f ''did'')"
  shows "\<exists>pc rule. proxy_config_of (ae_now E) did (co_db c) = Some pc
    \<and> proxy_config_of later did (co_db c') = Some (pc\<lparr>px_rules := px_rules pc @ [rule]\<rparr>)
    \<and> host_rule_ok rule \<and> rule_id rule \<notin> rule_id ` set (px_rules pc)
    \<and> js_field ''subject'' rule = Some (jopt (form_get f ''subject''))
    \<and> js_field ''effect'' rule = Some (jopt (form_get f ''effect''))
    \<and> js_field ''hosts'' rule = Some (jstrs (splitList (form_get f ''hosts'')))
    \<and> filter (\<lambda>r. a_did r \<noteq> did) (tb_actors (co_db c')) = filter (\<lambda>r. a_did r \<noteq> did) (tb_actors (co_db c))"
proof -
  let ?hosts = "splitList (form_get f ''hosts'')" and ?rule = "added_rule f"
  from add_rule_run [OF assms(1)] obtain by' pc q where
    load: "loadProxyConfig E did c = (Inr pc, c)" and
    q: "parseProxyKindConfig (ae_now E) (Some (JObj (proxy_fields (pc\<lparr>px_rules := px_rules pc @ [?rule]\<rparr>)))) = Inr q" and
    save: "saveProxyConfig lib E did q by' c = (Inr (), c')"
    unfolding assms(2) by (elim exE conjE)
  from loaded(1) [OF load] obtain a where a: "row_find a_did did (tb_actors (co_db c)) = Some a" "a_kind a = ''proxy''"
    "parseProxyKindConfig (ae_now E) (Some (JObj (a_kindConfig a))) = Inr pc" by blast
  from reparsed [OF q a(3)] have q': "q = pc\<lparr>px_rules := px_rules pc @ [?rule]\<rparr>"
    and v: "host_rules_valid (px_rules pc @ [?rule])" by simp_all
  have m: "tb_actors (co_db c') = merged did a (proxy_fields (pc\<lparr>px_rules := px_rules pc @ [?rule]\<rparr>)) (tb_actors (co_db c))"
    using saved_run [OF a(1) save] q' by simp
  have others: "filter (\<lambda>r. a_did r \<noteq> did) (tb_actors (co_db c')) = filter (\<lambda>r. a_did r \<noteq> did) (tb_actors (co_db c))"
    unfolding m merged_def by (rule filter_row_map)
  have "proxy_config_of (ae_now E) did (co_db c) = Some pc"
    using a by (simp add: proxy_config_of_def actor_findByDid_def)
  moreover note saved_proxy_config [OF a v m]
  moreover have "host_rule_ok ?rule" "rule_id ?rule \<notin> rule_id ` set (px_rules pc)"
    using v by (auto simp: host_rules_valid_def)
  moreover have "js_field ''subject'' ?rule = Some (jopt (form_get f ''subject''))"
    "js_field ''effect'' ?rule = Some (jopt (form_get f ''effect''))" "js_field ''hosts'' ?rule = Some (jstrs ?hosts)"
    by (simp_all add: added_rule_def form_rule_def split: option.split)
  ultimately show ?thesis using others by blast
qed

text \<open>The desk with a proxy Actor, for evaluation.\<close>

definition proxy_desk :: "(string, byte list, unit) console" where
  "proxy_desk = set_db (desk_db\<lparr>tb_actors := [desk_actor ''did:h'' ''H'' ''human'' None, desk_actor ''did:x'' ''X'' ''proxy'' None]\<rparr>) desk"

definition rule_form :: form where
  "rule_form = [(''did'', ''did:x''), (''id'', ''r1''), (''subject'', ''any''), (''hosts'', ''.openai.com, api.x.ai''),
     (''effect'', ''deny'')]"

lemma proxy_desk_rows:
  "tb_actors (co_db proxy_desk) = [desk_actor ''did:h'' ''H'' ''human'' None, desk_actor ''did:x'' ''X'' ''proxy'' None]"
  by (simp add: proxy_desk_def)

lemma proxy_desk_run: "fst (addProxyRuleAction demo_lib desk_env rule_form proxy_desk) = Inr None"
  by code_simp

theorem added_rule_is_stored_witness:
  "\<exists>c' pc rule. addProxyRuleAction demo_lib desk_env rule_form proxy_desk = (Inr None, c')
     \<and> proxy_config_of 9 ''did:x'' (co_db c') = Some pc \<and> px_rules pc = [rule] \<and> host_rule_ok rule
     \<and> js_field ''effect'' rule = Some (JStr ''deny'')"
proof -
  obtain c' where r: "addProxyRuleAction demo_lib desk_env rule_form proxy_desk = (Inr None, c')"
    using proxy_desk_run by (metis fst_conv surj_pair)
  have f: "''did:x'' = text_of (form_get rule_form ''did'')" "jopt (form_get rule_form ''effect'') = JStr ''deny''"
    by (simp_all add: rule_form_def text_of_def form_get_def jopt_def)
  have before: "proxy_config_of (ae_now desk_env) ''did:x'' (co_db proxy_desk) = Some DEFAULT_PROXY_KIND_CONFIG"
    by (simp add: proxy_config_of_def actor_findByDid_def proxy_desk_rows row_find_def desk_actor_def parseProxyKindConfig_def)
  from added_rule_is_stored [OF r f(1), of 9] obtain pc rule where
    "proxy_config_of (ae_now desk_env) ''did:x'' (co_db proxy_desk) = Some pc"
    "proxy_config_of 9 ''did:x'' (co_db c') = Some (pc\<lparr>px_rules := px_rules pc @ [rule]\<rparr>)" "host_rule_ok rule"
    "js_field ''effect'' rule = Some (JStr ''deny'')"
    unfolding f(2) by blast
  with before r show ?thesis by (auto simp: DEFAULT_PROXY_KIND_CONFIG_def)
qed

theorem panels_store_what_loads_witness:
  "list_all (\<lambda>r. r \<in> set (tb_actors (co_db proxy_desk)) \<or> config_reads 9 r)
     (tb_actors (co_db (snd (run_action demo_lib desk_env AddProxyRule rule_form proxy_desk))))"
proof -
  have "AddProxyRule \<in> set panel_actions" by (simp add: panel_actions_def)
  moreover have "unique_keys a_did (tb_actors (co_db proxy_desk))"
    by (simp add: proxy_desk_rows unique_keys_def desk_actor_def)
  ultimately show ?thesis unfolding list_all_iff by (rule panels_store_what_loads)
qed

text \<open>A blank age field is the strictest setting, not the default: \<open>Number("")\<close> is 0.\<close>

lemma blank_age_is_strictest:
  "js_integer [] = Some 0" "proxyKindConfigWarnings (DEFAULT_PROXY_KIND_CONFIG\<lparr>px_maxStatusAgeSeconds := 0\<rparr>) = [StrictStatus]"
  by (simp_all add: js_integer_def js_trim_def proxyKindConfigWarnings_def DEFAULT_PROXY_KIND_CONFIG_def)

end
