(* ===== verification/Integrations.thy ===== *)
theory Integrations
  imports LoginState
begin

text \<open>
  The integrations of the console: subscriptions, channels and models with their tables
  (\<open>packages/controlplane/db/webhook.dao.ts\<close>, \<open>notification-channel.dao.ts\<close>, \<open>model.dao.ts\<close>), the services they talk to
  (\<open>lib/apprise.ts\<close>, \<open>lib/litellm.ts\<close>, \<open>lib/model-providers.ts\<close>), and the state an integration's action works on.

  A service answers a request as the environment says; the requests made so far are history. The vault
  (\<open>lib/vault.ts\<close>) is the server identity's encryption, a parameter.
\<close>

section \<open>Rows\<close>

record webhook_sub =
  wb_id :: string
  wb_name :: string
  wb_description :: "string option"
  wb_url :: string
  wb_secret :: string
  wb_events :: "string list"
  wb_isActive :: bool
  wb_createdBy :: string
  wb_createdAt :: int

record channel_sub =
  nc_id :: string
  nc_name :: string
  nc_description :: "string option"
  nc_appriseKey :: string
  nc_serviceUrls :: string
  nc_serviceTypes :: "string list"
  nc_events :: "string list"
  nc_isActive :: bool
  nc_createdBy :: string
  nc_createdAt :: int

text \<open>
  The row of a model and what the pages are given share their columns; only the row has the key's
  ciphertext. The metadata column is never written.
\<close>

record model_core =
  md_id :: string
  md_name :: string
  md_description :: "string option"
  md_provider :: string
  md_modelId :: string
  md_baseUrl :: string
  md_litellmModelName :: "string option"
  md_isActive :: bool
  md_createdBy :: "string option"
  md_createdAt :: int

record model_row = model_core +
  md_apiKeyEnc :: "string option"

record safe_model = model_core +
  sm_hasApiKey :: bool
  sm_workspaceAccess :: "string list"

section \<open>External services\<close>

datatype http_body = NoBody | JsonBody json | FormBody "(string \<times> string) list"

record http_request =
  rq_post :: bool
  rq_url :: string
  rq_auth :: "string option"
  rq_body :: http_body

text \<open>No answer is a rejected \<open>fetch\<close>; the body is what \<open>res.json()\<close> gives, \<open>None\<close> where that rejects.\<close>

datatype http_answer = NoAnswer | Answer int "json option"

fun res_ok :: "http_answer \<Rightarrow> bool" where
  "res_ok NoAnswer = False"
| "res_ok (Answer status _) = (200 \<le> status \<and> status < 300)"

record vault =
  vt_encrypt :: "string \<Rightarrow> string"
  vt_decrypt :: "string \<Rightarrow> string option"

record hub_env =
  he_admin :: admin_env
  he_id :: string
  he_random :: string
  he_vault :: vault
  he_http :: "nat \<Rightarrow> http_request \<Rightarrow> http_answer"
  he_appriseUrl :: "string option"
  he_litellmUrl :: "string option"
  he_litellmKey :: "string option"

abbreviation he_now :: "hub_env \<Rightarrow> int" where
  "he_now E \<equiv> ev_now (ae_ev (he_admin E))"

section \<open>State\<close>

record ('vid, 'ch, 'cfg) hub =
  hb_portal :: "('vid, 'ch, 'cfg) portal"
  hb_webhooks :: "webhook_sub list"
  hb_channels :: "channel_sub list"
  hb_models :: "model_row list"
  hb_access :: "(string \<times> string) list"
  hb_calls :: "http_request list"

abbreviation hb_db :: "('vid, 'ch, 'cfg) hub \<Rightarrow> db" where
  "hb_db h \<equiv> pt_db (hb_portal h)"

datatype service_error = Unconfigured | NoServiceUrls | Unreachable | Refusal | ReportedError

datatype bad_form =
    NeedsNameAndUrl | NeedsHttps | NeedsNameAndService | NeedsName | NeedsNameAndModel | UnknownProvider
  | NeedsBaseUrl | NeedsModelAndWorkspace | NoSuchRow | UnknownKind | NeedsCredentials | NeedsTenant | NeedsIssuer
  | NeedsNameAndClient

datatype hub_error =
    FromConsole admin_error | BadForm bad_form | ServiceFailed service_error | VaultFailed
  | IdpUnverified | ClientRejected

type_synonym ('vid, 'ch, 'cfg, 'a) hact = "(('vid, 'ch, 'cfg) hub, hub_error, 'a) run"

definition onAdmin :: "('vid, 'ch, 'cfg, 'a) act \<Rightarrow> ('vid, 'ch, 'cfg, 'a) hact" where
  "onAdmin m h =
     (case m (pt_console (hb_portal h)) of
        (r, c) \<Rightarrow> (case r of Inl e \<Rightarrow> Inl (FromConsole e) | Inr x \<Rightarrow> Inr x,
                   h\<lparr>hb_portal := (hb_portal h)\<lparr>pt_console := c\<rparr>\<rparr>))"

definition refuse :: "bool \<Rightarrow> bad_form \<Rightarrow> ('vid, 'ch, 'cfg, 'a) hact \<Rightarrow> ('vid, 'ch, 'cfg, 'a) hact" where
  "refuse b e m = (if b then throw (BadForm e) else m)"

text \<open>A write of one table: what it returns and the rows, or its error.\<close>

definition onRows ::
  "(('vid, 'ch, 'cfg) hub \<Rightarrow> 'r) \<Rightarrow> ('r \<Rightarrow> ('vid, 'ch, 'cfg) hub \<Rightarrow> ('vid, 'ch, 'cfg) hub)
     \<Rightarrow> ('r \<Rightarrow> (db_error, 'a \<times> 'r) result) \<Rightarrow> ('vid, 'ch, 'cfg, 'a) hact" where
  "onRows get put f h =
     (case f (get h) of Inl e \<Rightarrow> (Inl (FromConsole (DbFailed e)), h) | Inr (x, rows) \<Rightarrow> (Inr x, put rows h))"

definition onWebhooks :: "(webhook_sub list \<Rightarrow> (db_error, 'a \<times> webhook_sub list) result) \<Rightarrow> ('vid, 'ch, 'cfg, 'a) hact" where
  "onWebhooks = onRows hb_webhooks (\<lambda>rows h. h\<lparr>hb_webhooks := rows\<rparr>)"

definition onChannels :: "(channel_sub list \<Rightarrow> (db_error, 'a \<times> channel_sub list) result) \<Rightarrow> ('vid, 'ch, 'cfg, 'a) hact" where
  "onChannels = onRows hb_channels (\<lambda>rows h. h\<lparr>hb_channels := rows\<rparr>)"

definition onModels :: "(model_row list \<Rightarrow> (db_error, 'a \<times> model_row list) result) \<Rightarrow> ('vid, 'ch, 'cfg, 'a) hact" where
  "onModels = onRows hb_models (\<lambda>rows h. h\<lparr>hb_models := rows\<rparr>)"

definition onConnections ::
  "(sso_connection_row list \<Rightarrow> (db_error, 'a \<times> sso_connection_row list) result) \<Rightarrow> ('vid, 'ch, 'cfg, 'a) hact" where
  "onConnections = onRows (\<lambda>h. pt_connections (hb_portal h))
     (\<lambda>rows h. h\<lparr>hb_portal := (hb_portal h)\<lparr>pt_connections := rows\<rparr>\<rparr>)"

definition fetch :: "hub_env \<Rightarrow> http_request \<Rightarrow> ('vid, 'ch, 'cfg, http_answer) hact" where
  "fetch E rq h = (Inr (he_http E (length (hb_calls h)) rq), h\<lparr>hb_calls := hb_calls h @ [rq]\<rparr>)"

definition hub_event ::
  "hub_env \<Rightarrow> string \<Rightarrow> (string \<times> json) list \<Rightarrow> performer \<Rightarrow> string \<Rightarrow> string \<Rightarrow> ('vid, 'ch, 'cfg, unit) hact" where
  "hub_event E eventType payload by targetType targetId =
     onAdmin (record_event (he_admin E) eventType payload (Some by) (Some targetType) (Some targetId))"

section \<open>Subscriptions (webhook.dao.ts, notification-channel.dao.ts)\<close>

definition webhook_create :: "webhook_sub \<Rightarrow> webhook_sub list \<Rightarrow> (db_error, webhook_sub \<times> webhook_sub list) result" where
  "webhook_create r rows = (if row_find wb_id (wb_id r) rows \<noteq> None then Inl UniqueViolation else Inr (r, rows @ [r]))"

definition webhook_findById :: "string \<Rightarrow> webhook_sub list \<Rightarrow> webhook_sub option" where
  "webhook_findById i rows = row_find wb_id i rows"

definition webhook_list :: "webhook_sub list \<Rightarrow> webhook_sub list" where
  "webhook_list rows = sort_key (\<lambda>r. - wb_createdAt r) rows"

definition webhook_findActive :: "webhook_sub list \<Rightarrow> webhook_sub list" where
  "webhook_findActive rows = filter wb_isActive rows"

definition webhook_update ::
  "string \<Rightarrow> (webhook_sub \<Rightarrow> webhook_sub) \<Rightarrow> webhook_sub list \<Rightarrow> (db_error, webhook_sub \<times> webhook_sub list) result" where
  "webhook_update i f rows = row_update wb_id i f rows"

definition webhook_delete :: "string \<Rightarrow> webhook_sub list \<Rightarrow> (db_error, unit \<times> webhook_sub list) result" where
  "webhook_delete i rows = bind_result (row_delete wb_id i rows) (\<lambda>rest. Inr ((), rest))"

definition channel_create :: "channel_sub \<Rightarrow> channel_sub list \<Rightarrow> (db_error, channel_sub \<times> channel_sub list) result" where
  "channel_create r rows =
     (if list_ex (\<lambda>x. nc_id x = nc_id r \<or> nc_appriseKey x = nc_appriseKey r) rows then Inl UniqueViolation
      else Inr (r, rows @ [r]))"

definition channel_findById :: "string \<Rightarrow> channel_sub list \<Rightarrow> channel_sub option" where
  "channel_findById i rows = row_find nc_id i rows"

definition channel_list :: "channel_sub list \<Rightarrow> channel_sub list" where
  "channel_list rows = sort_key (\<lambda>r. - nc_createdAt r) rows"

definition channel_update ::
  "string \<Rightarrow> (channel_sub \<Rightarrow> channel_sub) \<Rightarrow> channel_sub list \<Rightarrow> (db_error, channel_sub \<times> channel_sub list) result" where
  "channel_update i f rows = row_update nc_id i f rows"

definition channel_delete :: "string \<Rightarrow> channel_sub list \<Rightarrow> (db_error, unit \<times> channel_sub list) result" where
  "channel_delete i rows = bind_result (row_delete nc_id i rows) (\<lambda>rest. Inr ((), rest))"

section \<open>Models (model.dao.ts)\<close>

definition toSafe :: "(string \<times> string) list \<Rightarrow> model_row \<Rightarrow> safe_model" where
  "toSafe access r =
     \<lparr>md_id = md_id r, md_name = md_name r, md_description = md_description r, md_provider = md_provider r,
      md_modelId = md_modelId r, md_baseUrl = md_baseUrl r, md_litellmModelName = md_litellmModelName r,
      md_isActive = md_isActive r, md_createdBy = md_createdBy r, md_createdAt = md_createdAt r,
      sm_hasApiKey = truthy (md_apiKeyEnc r),
      sm_workspaceAccess = map snd (filter (\<lambda>(m, w). m = md_id r) access)\<rparr>"

definition model_create :: "model_row \<Rightarrow> model_row list \<Rightarrow> (db_error, model_row \<times> model_row list) result" where
  "model_create r rows = (if row_find md_id (md_id r) rows \<noteq> None then Inl UniqueViolation else Inr (r, rows @ [r]))"

definition model_list :: "('vid, 'ch, 'cfg) hub \<Rightarrow> safe_model list" where
  "model_list h = map (toSafe (hb_access h)) (sort_key (\<lambda>r. - md_createdAt r) (hb_models h))"

definition model_findById :: "string \<Rightarrow> ('vid, 'ch, 'cfg) hub \<Rightarrow> safe_model option" where
  "model_findById i h = map_option (toSafe (hb_access h)) (row_find md_id i (hb_models h))"

definition model_findByIdWithSecret :: "string \<Rightarrow> ('vid, 'ch, 'cfg) hub \<Rightarrow> model_row option" where
  "model_findByIdWithSecret i h = row_find md_id i (hb_models h)"

definition model_update ::
  "string \<Rightarrow> (model_row \<Rightarrow> model_row) \<Rightarrow> model_row list \<Rightarrow> (db_error, model_row \<times> model_row list) result" where
  "model_update i f rows = row_update md_id i f rows"

text \<open>Deleting a model takes its grants with it.\<close>

definition model_delete :: "string \<Rightarrow> ('vid, 'ch, 'cfg, unit) hact" where
  "model_delete i =
     andThen (onModels (\<lambda>rows. bind_result (row_delete md_id i rows) (\<lambda>rest. Inr ((), rest)))) (\<lambda>_ h.
     (Inr (), h\<lparr>hb_access := filter (\<lambda>(m, w). m \<noteq> i) (hb_access h)\<rparr>))"

definition grantWorkspaceAccess :: "string \<Rightarrow> string \<Rightarrow> ('vid, 'ch, 'cfg, unit) hact" where
  "grantWorkspaceAccess m w h =
     (if (m, w) \<in> set (hb_access h) then (Inr (), h)
      else if row_find md_id m (hb_models h) = None \<or> workspace_findById w (hb_db h) = None
      then (Inl (FromConsole (DbFailed ForeignKeyViolation)), h)
      else (Inr (), h\<lparr>hb_access := hb_access h @ [(m, w)]\<rparr>))"

definition revokeWorkspaceAccess :: "string \<Rightarrow> string \<Rightarrow> ('vid, 'ch, 'cfg, unit) hact" where
  "revokeWorkspaceAccess m w h = (Inr (), h\<lparr>hb_access := filter (\<lambda>p. p \<noteq> (m, w)) (hb_access h)\<rparr>)"

section \<open>Providers (model-providers.ts)\<close>

record provider_meta =
  pm_label :: string
  pm_defaultBaseUrl :: string
  pm_exampleModelId :: string
  pm_needsApiKey :: bool

definition PROVIDERS :: "(string \<times> provider_meta) list" where
  "PROVIDERS = [
     (''openai'', \<lparr>pm_label = ''OpenAI'', pm_defaultBaseUrl = ''https://api.openai.com/v1'', pm_exampleModelId = ''gpt-4o'', pm_needsApiKey = True\<rparr>),
     (''anthropic'', \<lparr>pm_label = ''Anthropic'', pm_defaultBaseUrl = ''https://api.anthropic.com/v1'', pm_exampleModelId = ''claude-sonnet-4-5'', pm_needsApiKey = True\<rparr>),
     (''google'', \<lparr>pm_label = ''Google'', pm_defaultBaseUrl = ''https://generativelanguage.googleapis.com/v1beta'', pm_exampleModelId = ''gemini-2.0-flash'', pm_needsApiKey = True\<rparr>),
     (''ollama'', \<lparr>pm_label = ''Ollama (local)'', pm_defaultBaseUrl = ''http://localhost:11434/v1'', pm_exampleModelId = ''llama3.2'', pm_needsApiKey = False\<rparr>),
     (''openai-compatible'', \<lparr>pm_label = ''OpenAI-compatible'', pm_defaultBaseUrl = ''http://localhost:1234/v1'', pm_exampleModelId = ''local-model'', pm_needsApiKey = False\<rparr>),
     (''claude-agent-sdk'', \<lparr>pm_label = ''Claude Agent SDK'', pm_defaultBaseUrl = '''', pm_exampleModelId = ''claude-sonnet-4-5'', pm_needsApiKey = True\<rparr>),
     (''cursor-agent-sdk'', \<lparr>pm_label = ''Cursor Agent SDK'', pm_defaultBaseUrl = '''', pm_exampleModelId = ''cursor-fast'', pm_needsApiKey = True\<rparr>),
     (''openai-agent-sdk'', \<lparr>pm_label = ''OpenAI Agent SDK'', pm_defaultBaseUrl = '''', pm_exampleModelId = ''gpt-4o'', pm_needsApiKey = True\<rparr>)]"

definition PROVIDER_IDS :: "string list" where
  "PROVIDER_IDS = map fst PROVIDERS"

definition SDK_AGENT_PROVIDERS :: "string list" where
  "SDK_AGENT_PROVIDERS = [''claude-agent-sdk'', ''cursor-agent-sdk'', ''openai-agent-sdk'']"

text \<open>\<open>value in PROVIDERS\<close> also finds the properties every object inherits; a missing value is the text \<open>undefined\<close>.\<close>

definition OBJECT_PROTOTYPE :: "string list" where
  "OBJECT_PROTOTYPE = [''constructor'', ''__defineGetter__'', ''__defineSetter__'', ''hasOwnProperty'',
     ''__lookupGetter__'', ''__lookupSetter__'', ''isPrototypeOf'', ''propertyIsEnumerable'', ''toString'', ''valueOf'',
     ''__proto__'', ''toLocaleString'']"

definition isKnownProvider :: "string option \<Rightarrow> bool" where
  "isKnownProvider v = (case v of None \<Rightarrow> False | Some p \<Rightarrow> p \<in> set PROVIDER_IDS \<or> p \<in> set OBJECT_PROTOTYPE)"

definition isSdkAgentProvider :: "string \<Rightarrow> bool" where
  "isSdkAgentProvider p = (p \<in> set SDK_AGENT_PROVIDERS)"

definition isRoutableThroughLiteLLM :: "string \<Rightarrow> bool" where
  "isRoutableThroughLiteLLM p = (isKnownProvider (Some p) \<and> \<not> isSdkAgentProvider p)"

section \<open>Apprise (apprise.ts)\<close>

definition strip_slashes :: "string \<Rightarrow> string" where
  "strip_slashes s = rev (dropWhile (\<lambda>c. c = CHR ''/'') (rev s))"

definition appriseApiUrl :: "hub_env \<Rightarrow> string option" where
  "appriseApiUrl E = (if truthy (he_appriseUrl E) then map_option strip_slashes (he_appriseUrl E) else None)"

definition splitServiceUrls :: "string \<Rightarrow> string list" where
  "splitServiceUrls s = filter (\<lambda>u. u \<noteq> []) (map js_trim (pieces (\<lambda>c. c = CHR 0x0A) [] s))"

text \<open>\<open>/^([a-zA-Z0-9+.-]+):\/\//\<close>.\<close>

definition scheme_char :: "char \<Rightarrow> bool" where
  "scheme_char c = (is_lower_alnum c \<or> (65 \<le> code_unit c \<and> code_unit c \<le> 90) \<or> c \<in> {CHR ''+'', CHR ''.'', CHR ''-''})"

definition scheme_of :: "string \<Rightarrow> string option" where
  "scheme_of u =
     (let s = takeWhile scheme_char u in
      if s \<noteq> [] \<and> starts_with (dropWhile scheme_char u) ''://'' then Some (js_lower s) else None)"

definition extractServiceTypes :: "string \<Rightarrow> string list" where
  "extractServiceTypes s = distinct_in_order (List.map_filter scheme_of (splitServiceUrls s))"

text \<open>The keys are hexadecimal with a prefix, which \<open>encodeURIComponent\<close> leaves alone.\<close>

definition join_comma :: "string list \<Rightarrow> string" where
  "join_comma xs = join_with '','' xs"

definition pushAppriseConfig :: "hub_env \<Rightarrow> string \<Rightarrow> string \<Rightarrow> ('vid, 'ch, 'cfg, unit) hact" where
  "pushAppriseConfig E key serviceUrls =
     (case appriseApiUrl E of
        None \<Rightarrow> throw (ServiceFailed Unconfigured)
      | Some base \<Rightarrow>
          let urls = splitServiceUrls serviceUrls in
          if urls = [] then throw (ServiceFailed NoServiceUrls)
          else
            andThen (fetch E \<lparr>rq_post = True, rq_url = base @ ''/add/'' @ key, rq_auth = None,
              rq_body = JsonBody (JObj [(''urls'', JStr (join_comma urls))])\<rparr>) (\<lambda>res.
            case res of
              NoAnswer \<Rightarrow> throw (ServiceFailed Unreachable)
            | Answer status body \<Rightarrow>
                if \<not> res_ok res then throw (ServiceFailed Refusal)
                else case Option.bind body (js_field ''error'') of
                       None \<Rightarrow> give ()
                     | Some e \<Rightarrow> if js_truthy e then throw (ServiceFailed ReportedError) else give ()))"

definition deleteAppriseConfig :: "hub_env \<Rightarrow> string \<Rightarrow> ('vid, 'ch, 'cfg, unit) hact" where
  "deleteAppriseConfig E key =
     (case appriseApiUrl E of
        None \<Rightarrow> throw (ServiceFailed Unconfigured)
      | Some base \<Rightarrow>
          andThen (fetch E \<lparr>rq_post = True, rq_url = base @ ''/del/'' @ key, rq_auth = None, rq_body = NoBody\<rparr>) (\<lambda>res.
          case res of
            NoAnswer \<Rightarrow> throw (ServiceFailed Unreachable)
          | Answer status body \<Rightarrow> if \<not> res_ok res then throw (ServiceFailed Refusal) else give ()))"

section \<open>The model proxy (litellm.ts)\<close>

definition SETTING_litellmBaseUrl :: string where
  "SETTING_litellmBaseUrl = ''litellm.baseUrl''"

definition SETTING_litellmMasterKeyEnc :: string where
  "SETTING_litellmMasterKeyEnc = ''litellm.masterKeyEnc''"

text \<open>\<open>x || y\<close> of texts, \<open>undefined\<close> being falsy.\<close>

definition or_else :: "string option \<Rightarrow> string option \<Rightarrow> string" where
  "or_else x y = (if truthy x then text_of x else text_of y)"

definition getLiteLLMConfig :: "hub_env \<Rightarrow> ('vid, 'ch, 'cfg) hub \<Rightarrow> (string \<times> string) option" where
  "getLiteLLMConfig E h =
     (let baseUrl = or_else (setting_get SETTING_litellmBaseUrl (hb_db h)) (he_litellmUrl E);
          enc = setting_get SETTING_litellmMasterKeyEnc (hb_db h);
          opened = (if truthy enc then vt_decrypt (he_vault E) (text_of enc) else None);
          masterKey = or_else opened (he_litellmKey E)
      in if baseUrl = [] \<or> masterKey = [] then None else Some (strip_slashes baseUrl, masterKey))"

definition isLiteLLMConfigured :: "hub_env \<Rightarrow> ('vid, 'ch, 'cfg) hub \<Rightarrow> bool" where
  "isLiteLLMConfigured E h = (getLiteLLMConfig E h \<noteq> None)"

definition getLiteLLMBaseUrl :: "hub_env \<Rightarrow> ('vid, 'ch, 'cfg) hub \<Rightarrow> string option" where
  "getLiteLLMBaseUrl E h =
     or_null (Some (strip_slashes (or_else (setting_get SETTING_litellmBaseUrl (hb_db h)) (he_litellmUrl E))))"

definition litellmFetch :: "hub_env \<Rightarrow> string \<Rightarrow> json \<Rightarrow> ('vid, 'ch, 'cfg, http_answer) hact" where
  "litellmFetch E path body =
     andThen (reading (getLiteLLMConfig E)) (\<lambda>config.
     case config of
       None \<Rightarrow> throw (ServiceFailed Unconfigured)
     | Some (base, key) \<Rightarrow>
         andThen (fetch E \<lparr>rq_post = True, rq_url = base @ path, rq_auth = Some (''Bearer '' @ key), rq_body = JsonBody body\<rparr>)
           (\<lambda>res. if res = NoAnswer then throw (ServiceFailed Unreachable) else give res))"

record register_params =
  rp_modelName :: string
  rp_litellmModel :: string
  rp_apiBase :: string
  rp_apiKey :: "string option"

definition register_body :: "register_params \<Rightarrow> json" where
  "register_body p =
     JObj [(''model_name'', JStr (rp_modelName p)),
           (''litellm_params'', JObj ([(''model'', JStr (rp_litellmModel p)), (''api_base'', JStr (rp_apiBase p))] @
              (if truthy (rp_apiKey p) then [(''api_key'', JStr (text_of (rp_apiKey p)))] else [])))]"

definition registerModel :: "hub_env \<Rightarrow> register_params \<Rightarrow> ('vid, 'ch, 'cfg, unit) hact" where
  "registerModel E p =
     andThen (litellmFetch E ''/model/new'' (register_body p)) (\<lambda>res.
     if \<not> res_ok res then throw (ServiceFailed Refusal) else give ())"

definition removeModel :: "hub_env \<Rightarrow> string \<Rightarrow> ('vid, 'ch, 'cfg, unit) hact" where
  "removeModel E modelName =
     andThen (litellmFetch E ''/model/delete'' (JObj [(''model_name'', JStr modelName)])) (\<lambda>res.
     case res of
       NoAnswer \<Rightarrow> give ()
     | Answer status body \<Rightarrow> if \<not> res_ok res \<and> status \<noteq> 404 then throw (ServiceFailed Refusal) else give ())"

definition litellmModelNameFor :: "string \<Rightarrow> string \<Rightarrow> string" where
  "litellmModelNameFor provider nm =
     (let no_dash = dropWhile (\<lambda>c. c = CHR ''-''); slug = rev (no_dash (rev (no_dash (dashed False (js_lower nm)))))
      in provider @ ''/'' @ (if slug = [] then ''model'' else slug))"

text \<open>\<open>(v ?? []).map(m => m.k).filter(x => !!x)\<close>: \<open>None\<close> is the TypeError of what is no array, or of a null element.\<close>

definition field_values :: "string \<Rightarrow> json option \<Rightarrow> json list option" where
  "field_values k v =
     (case v of
        None \<Rightarrow> Some []
      | Some JNull \<Rightarrow> Some []
      | Some (JArr vs) \<Rightarrow> if JNull \<in> set vs then None else Some (filter js_truthy (List.map_filter (js_field k) vs))
      | Some _ \<Rightarrow> None)"

definition probed_models :: "json \<Rightarrow> json list option" where
  "probed_models d =
     (if d = JNull then None
      else case (field_values ''id'' (js_field ''data'' d), field_values ''name'' (js_field ''models'' d)) of
             (Some models, Some ollama) \<Rightarrow> Some (if models \<noteq> [] then models else ollama)
           | _ \<Rightarrow> None)"

definition probeProviderModels :: "hub_env \<Rightarrow> string \<Rightarrow> string option \<Rightarrow> ('vid, 'ch, 'cfg, json list option) hact" where
  "probeProviderModels E baseUrl apiKey =
     andThen (fetch E \<lparr>rq_post = False, rq_url = strip_slashes baseUrl @ ''/models'',
       rq_auth = (if truthy apiKey then Some (''Bearer '' @ text_of apiKey) else None), rq_body = NoBody\<rparr>) (\<lambda>res.
     case res of
       NoAnswer \<Rightarrow> give None
     | Answer status body \<Rightarrow> if \<not> res_ok res then give None else give (Option.bind body probed_models))"

end
