(* ===== verification/IntegrationActions.thy ===== *)
theory IntegrationActions
  imports Integrations
begin

text \<open>
  The server actions on webhooks, notification channels and the model registry
  (\<open>packages/controlplane/app/admin/integrations/actions.ts\<close>), one definition each. \<open>revalidatePath\<close>, \<open>redirect\<close> and the
  log lines of the caught errors are left out; what an action returns to its form is kept.
\<close>

section \<open>Webhooks\<close>

definition generateWebhookSecret :: "hub_env \<Rightarrow> string" where
  "generateWebhookSecret E = ''whsec_'' @ he_random E"

definition url_allowed :: "string \<Rightarrow> bool" where
  "url_allowed url = (starts_with url ''https://'' \<or> starts_with url ''http://localhost'' \<or> starts_with url ''http://127.0.0.1'')"

definition createWebhookAction :: "hub_env \<Rightarrow> form \<Rightarrow> ('vid, 'ch, 'cfg, string \<times> string) hact" where
  "createWebhookAction E f =
     andThen (onAdmin (requireAdmin (he_admin E))) (\<lambda>by.
     let nm = form_trim f ''name''; url = form_trim f ''url''; secret = generateWebhookSecret E in
     refuse (\<not> truthy nm \<or> \<not> truthy url) NeedsNameAndUrl (
     refuse (\<not> url_allowed (text_of url)) NeedsHttps (
     andThen (onWebhooks (webhook_create
       \<lparr>wb_id = he_id E, wb_name = text_of nm, wb_description = or_null (form_trim f ''description''), wb_url = text_of url,
        wb_secret = secret, wb_events = form_all f ''events'', wb_isActive = True, wb_createdBy = pb_did by,
        wb_createdAt = he_now E\<rparr>)) (\<lambda>w.
     give (wb_id w, secret)))))"

definition updateWebhookAction :: "hub_env \<Rightarrow> form \<Rightarrow> ('vid, 'ch, 'cfg, unit) hact" where
  "updateWebhookAction E f =
     andThen (onAdmin (requireAdmin (he_admin E))) (\<lambda>_.
     let i = form_get f ''id''; nm = form_trim f ''name''; url = form_trim f ''url'' in
     refuse (\<not> truthy i \<or> \<not> truthy nm \<or> \<not> truthy url) NeedsNameAndUrl (
     andThen (onWebhooks (webhook_update (text_of i)
       (\<lambda>w. w\<lparr>wb_name := text_of nm, wb_description := or_null (form_trim f ''description''), wb_url := text_of url,
              wb_events := form_all f ''events''\<rparr>))) (\<lambda>_. give ())))"

definition toggleWebhookActiveAction :: "hub_env \<Rightarrow> form \<Rightarrow> ('vid, 'ch, 'cfg, unit) hact" where
  "toggleWebhookActiveAction E f =
     andThen (onAdmin (requireAdmin (he_admin E))) (\<lambda>_.
     andThen (onWebhooks (webhook_update (text_of (form_get f ''id''))
       (\<lambda>w. w\<lparr>wb_isActive := (form_get f ''isActive'' = Some ''true'')\<rparr>))) (\<lambda>_. give ()))"

definition deleteWebhookAction :: "hub_env \<Rightarrow> form \<Rightarrow> ('vid, 'ch, 'cfg, unit) hact" where
  "deleteWebhookAction E f =
     andThen (onAdmin (requireAdmin (he_admin E))) (\<lambda>_. onWebhooks (webhook_delete (text_of (form_get f ''id''))))"

definition regenerateWebhookSecretAction :: "hub_env \<Rightarrow> string \<Rightarrow> ('vid, 'ch, 'cfg, string) hact" where
  "regenerateWebhookSecretAction E i =
     andThen (onAdmin (requireAdmin (he_admin E))) (\<lambda>_.
     let secret = generateWebhookSecret E in
     andThen (onWebhooks (webhook_update i (\<lambda>w. w\<lparr>wb_secret := secret\<rparr>))) (\<lambda>_. give secret))"

section \<open>Notification channels\<close>

definition generateAppriseKey :: "hub_env \<Rightarrow> string" where
  "generateAppriseKey E = ''ch_'' @ he_random E"

definition createChannelAction :: "hub_env \<Rightarrow> form \<Rightarrow> ('vid, 'ch, 'cfg, unit) hact" where
  "createChannelAction E f =
     andThen (onAdmin (requireAdmin (he_admin E))) (\<lambda>by.
     let nm = form_trim f ''name''; serviceUrls = form_trim f ''serviceUrls''; key = generateAppriseKey E in
     refuse (\<not> truthy nm \<or> \<not> truthy serviceUrls) NeedsNameAndService (
     andThen (pushAppriseConfig E key (text_of serviceUrls)) (\<lambda>_.
     andThen (onChannels (channel_create
       \<lparr>nc_id = he_id E, nc_name = text_of nm, nc_description = or_null (form_trim f ''description''), nc_appriseKey = key,
        nc_serviceUrls = vt_encrypt (he_vault E) (text_of serviceUrls),
        nc_serviceTypes = extractServiceTypes (text_of serviceUrls), nc_events = form_all f ''events'',
        nc_isActive = True, nc_createdBy = pb_did by, nc_createdAt = he_now E\<rparr>)) (\<lambda>_. give ()))))"

definition updateChannelAction :: "hub_env \<Rightarrow> form \<Rightarrow> ('vid, 'ch, 'cfg, unit) hact" where
  "updateChannelAction E f =
     andThen (onAdmin (requireAdmin (he_admin E))) (\<lambda>_.
     let i = form_get f ''id''; nm = form_trim f ''name''; serviceUrls = form_trim f ''serviceUrls'' in
     refuse (\<not> truthy i \<or> \<not> truthy nm) NeedsName (
     andThen (reading (\<lambda>h. channel_findById (text_of i) (hb_channels h))) (\<lambda>found.
     case found of
       None \<Rightarrow> throw (BadForm NoSuchRow)
     | Some channel \<Rightarrow>
         andThen (if truthy serviceUrls then pushAppriseConfig E (nc_appriseKey channel) (text_of serviceUrls) else give ()) (\<lambda>_.
         andThen (onChannels (channel_update (text_of i)
           (\<lambda>c. c\<lparr>nc_name := text_of nm, nc_description := or_null (form_trim f ''description''), nc_events := form_all f ''events'',
              nc_serviceUrls := (if truthy serviceUrls then vt_encrypt (he_vault E) (text_of serviceUrls) else nc_serviceUrls c),
              nc_serviceTypes := (if truthy serviceUrls then extractServiceTypes (text_of serviceUrls) else nc_serviceTypes c)\<rparr>)))
           (\<lambda>_. give ())))))"

definition toggleChannelActiveAction :: "hub_env \<Rightarrow> form \<Rightarrow> ('vid, 'ch, 'cfg, unit) hact" where
  "toggleChannelActiveAction E f =
     andThen (onAdmin (requireAdmin (he_admin E))) (\<lambda>_.
     andThen (onChannels (channel_update (text_of (form_get f ''id''))
       (\<lambda>c. c\<lparr>nc_isActive := (form_get f ''isActive'' = Some ''true'')\<rparr>))) (\<lambda>_. give ()))"

text \<open>\<open>try ... catch\<close> around a call whose failure is only logged.\<close>

definition besteffort :: "('s, 'e, unit) run \<Rightarrow> ('s, 'e, unit) run" where
  "besteffort m = catching m (\<lambda>_. give ())"

definition deleteChannelAction :: "hub_env \<Rightarrow> form \<Rightarrow> ('vid, 'ch, 'cfg, unit) hact" where
  "deleteChannelAction E f =
     andThen (onAdmin (requireAdmin (he_admin E))) (\<lambda>_.
     let i = text_of (form_get f ''id'') in
     andThen (reading (\<lambda>h. channel_findById i (hb_channels h))) (\<lambda>found.
     case found of
       None \<Rightarrow> give ()
     | Some channel \<Rightarrow>
         andThen (besteffort (deleteAppriseConfig E (nc_appriseKey channel))) (\<lambda>_. onChannels (channel_delete i))))"

section \<open>The model registry\<close>

definition syncToLiteLLM ::
  "hub_env \<Rightarrow> string \<Rightarrow> string \<Rightarrow> string \<Rightarrow> string option \<Rightarrow> string option \<Rightarrow> ('vid, 'ch, 'cfg, bool) hact" where
  "syncToLiteLLM E provider modelId baseUrl litellmModelName apiKeyPlain =
     (if \<not> truthy litellmModelName \<or> \<not> isRoutableThroughLiteLLM provider then give False
      else andThen (reading (isLiteLLMConfigured E)) (\<lambda>configured.
        if \<not> configured then give False
        else catching (andThen (registerModel E
               \<lparr>rp_modelName = text_of litellmModelName, rp_litellmModel = ''openai/'' @ modelId, rp_apiBase = baseUrl,
                rp_apiKey = apiKeyPlain\<rparr>) (\<lambda>_. give True)) (\<lambda>_. give False)))"

definition modelAdminUrl :: "payload_env \<Rightarrow> string \<Rightarrow> string option" where
  "modelAdminUrl P i = buildAdminUrl P (''/admin/integrations/models/'' @ i)"

definition modelPayload :: "payload_env \<Rightarrow> safe_model \<Rightarrow> (string \<times> json) list" where
  "modelPayload P m =
     [(''id'', JStr (md_id m)), (''name'', JStr (md_name m)), (''description'', jopt (md_description m)),
      (''provider'', JStr (md_provider m)), (''modelId'', JStr (md_modelId m)), (''baseUrl'', JStr (md_baseUrl m)),
      (''litellmModelName'', jopt (md_litellmModelName m)), (''isActive'', JBool (md_isActive m)),
      (''hasProviderKey'', JBool (sm_hasApiKey m)),
      (''workspaceIds'', jstrs (filter (\<lambda>w. w \<noteq> []) (sm_workspaceAccess m))),
      (''createdBy'', jopt (md_createdBy m)), (''createdAt'', jdate P (Some (md_createdAt m)))]"

definition model_event ::
  "hub_env \<Rightarrow> string \<Rightarrow> safe_model \<Rightarrow> (string \<times> json) list \<Rightarrow> performer \<Rightarrow> string \<Rightarrow> ('vid, 'ch, 'cfg, unit) hact" where
  "model_event E eventType m extra by i =
     hub_event E eventType
       (modelPayload (ae_payload (he_admin E)) m @ extra @
        [(''performedBy'', jperformer by), (''adminUrl'', jopt (modelAdminUrl (ae_payload (he_admin E)) i))]) by ''model'' i"

definition model_fields :: "'a model_core_scheme \<Rightarrow> (string \<times> json) list" where
  "model_fields m =
     [(''name'', JStr (md_name m)), (''description'', jopt (md_description m)), (''modelId'', JStr (md_modelId m)),
      (''baseUrl'', JStr (md_baseUrl m)), (''litellmModelName'', jopt (md_litellmModelName m)),
      (''isActive'', JBool (md_isActive m))]"

definition key_text :: "hub_env \<Rightarrow> string option \<Rightarrow> string option" where
  "key_text E apiKey = (if truthy apiKey then Some (vt_encrypt (he_vault E) (text_of apiKey)) else None)"

definition createModelAction :: "hub_env \<Rightarrow> form \<Rightarrow> ('vid, 'ch, 'cfg, unit) hact" where
  "createModelAction E f =
     andThen (onAdmin (requireAdmin (he_admin E))) (\<lambda>by.
     let nm = form_trim f ''name''; provider = form_trim f ''provider''; modelId = form_trim f ''modelId'';
         baseUrl = text_of (form_trim f ''baseUrl''); apiKey = form_trim f ''apiKey'';
         p = text_of provider; routable = isRoutableThroughLiteLLM p
     in refuse (\<not> truthy nm \<or> \<not> truthy modelId) NeedsNameAndModel (
        refuse (\<not> isKnownProvider provider) UnknownProvider (
        refuse (baseUrl = [] \<and> routable) NeedsBaseUrl (
        let litellm = (if routable then Some (litellmModelNameFor p (text_of nm)) else None) in
        andThen (onModels (model_create
          \<lparr>md_id = he_id E, md_name = text_of nm, md_description = or_null (form_trim f ''description''), md_provider = p,
           md_modelId = text_of modelId, md_baseUrl = baseUrl, md_litellmModelName = litellm, md_isActive = True,
           md_createdBy = Some (pb_did by), md_createdAt = he_now E, md_apiKeyEnc = key_text E apiKey\<rparr>)) (\<lambda>m.
        andThen (syncToLiteLLM E p (text_of modelId) baseUrl litellm apiKey) (\<lambda>_.
        model_event E ''model.created'' (toSafe [] (m\<lparr>md_apiKeyEnc := apiKey\<rparr>)) [] by (md_id m)))))))"

text \<open>The credential a re-push carries: the one just given, or the stored one where it still opens.\<close>

definition stored_key :: "hub_env \<Rightarrow> string \<Rightarrow> ('vid, 'ch, 'cfg) hub \<Rightarrow> string option" where
  "stored_key E i h =
     (case model_findByIdWithSecret i h of
        None \<Rightarrow> None
      | Some m \<Rightarrow> if truthy (md_apiKeyEnc m) then vt_decrypt (he_vault E) (text_of (md_apiKeyEnc m)) else None)"

definition changed_routing :: "safe_model \<Rightarrow> model_row \<Rightarrow> form \<Rightarrow> bool" where
  "changed_routing before updated f =
     (md_baseUrl before \<noteq> text_of (form_trim f ''baseUrl'') \<or> Some (md_modelId before) \<noteq> form_trim f ''modelId''
      \<or> md_litellmModelName before \<noteq> md_litellmModelName updated \<or> truthy (form_trim f ''apiKey''))"

definition repushModel :: "hub_env \<Rightarrow> safe_model \<Rightarrow> model_row \<Rightarrow> string option \<Rightarrow> ('vid, 'ch, 'cfg, bool) hact" where
  "repushModel E before updated apiKey =
     andThen (reading (stored_key E (md_id before))) (\<lambda>stored.
     let plain = (if truthy apiKey then apiKey else stored) in
     andThen (if truthy (md_litellmModelName before) \<and> md_litellmModelName before \<noteq> md_litellmModelName updated
              then besteffort (removeModel E (text_of (md_litellmModelName before))) else give ()) (\<lambda>_.
     syncToLiteLLM E (md_provider updated) (md_modelId updated) (md_baseUrl updated) (md_litellmModelName updated) plain))"

definition updateModelAction :: "hub_env \<Rightarrow> form \<Rightarrow> ('vid, 'ch, 'cfg, unit) hact" where
  "updateModelAction E f =
     andThen (onAdmin (requireAdmin (he_admin E))) (\<lambda>by.
     let i = text_of (form_get f ''id''); nm = form_trim f ''name''; modelId = form_trim f ''modelId'';
         baseUrl = text_of (form_trim f ''baseUrl''); apiKey = form_trim f ''apiKey''
     in refuse (i = [] \<or> \<not> truthy nm \<or> \<not> truthy modelId) NeedsNameAndModel (
        andThen (reading (model_findById i)) (\<lambda>found.
        case found of
          None \<Rightarrow> throw (BadForm NoSuchRow)
        | Some before \<Rightarrow>
            andThen (onModels (model_update i
              (\<lambda>m. m\<lparr>md_name := text_of nm, md_description := or_null (form_trim f ''description''), md_modelId := text_of modelId,
                 md_baseUrl := baseUrl, md_apiKeyEnc := (if truthy apiKey then key_text E apiKey else md_apiKeyEnc m),
                 md_litellmModelName := (if truthy (md_litellmModelName before)
                    then Some (litellmModelNameFor (md_provider before) (text_of nm)) else md_litellmModelName m)\<rparr>))) (\<lambda>updated.
            andThen (if changed_routing before updated f then repushModel E before updated apiKey else give False) (\<lambda>_.
            andThen (reading (model_findById i)) (\<lambda>after.
            let seen = (case after of None \<Rightarrow> toSafe [] (updated\<lparr>md_apiKeyEnc := Some ''k''\<rparr>) | Some a \<Rightarrow> a);
                changes = diffFields (model_fields before) (model_fields seen)
                  [''name'', ''description'', ''modelId'', ''baseUrl'', ''litellmModelName'', ''isActive''] @
                  (if truthy apiKey then [JObj [(''field'', JStr ''apiKey''), (''from'', JStr ''***''), (''to'', JStr ''***'')]] else [])
            in model_event E ''model.updated'' seen [(''changes'', JArr changes)] by i))))))"

definition toggleModelActiveAction :: "hub_env \<Rightarrow> form \<Rightarrow> ('vid, 'ch, 'cfg, unit) hact" where
  "toggleModelActiveAction E f =
     andThen (onAdmin (requireAdmin (he_admin E))) (\<lambda>by.
     let i = text_of (form_get f ''id''); active = (form_get f ''isActive'' = Some ''true'') in
     andThen (reading (model_findById i)) (\<lambda>found.
     case found of
       None \<Rightarrow> throw (BadForm NoSuchRow)
     | Some before \<Rightarrow>
         andThen (onModels (model_update i (\<lambda>m. m\<lparr>md_isActive := active\<rparr>))) (\<lambda>_.
         andThen (reading (model_findById i)) (\<lambda>after.
         model_event E ''model.updated'' (case after of None \<Rightarrow> before | Some a \<Rightarrow> a)
           [(''changes'', JArr [JObj [(''field'', JStr ''isActive''), (''from'', JBool (md_isActive before)), (''to'', JBool active)]])]
           by i))))"

definition deleteModelAction :: "hub_env \<Rightarrow> form \<Rightarrow> ('vid, 'ch, 'cfg, unit) hact" where
  "deleteModelAction E f =
     andThen (onAdmin (requireAdmin (he_admin E))) (\<lambda>by.
     let i = text_of (form_get f ''id'') in
     andThen (reading (model_findById i)) (\<lambda>found.
     case found of
       None \<Rightarrow> give ()
     | Some m \<Rightarrow>
         andThen (if truthy (md_litellmModelName m) then besteffort (removeModel E (text_of (md_litellmModelName m))) else give ()) (\<lambda>_.
         andThen (model_delete i) (\<lambda>_.
         hub_event E ''model.deleted'' [(''id'', JStr (md_id m)), (''name'', JStr (md_name m)), (''provider'', JStr (md_provider m)),
           (''litellmModelName'', jopt (md_litellmModelName m)), (''performedBy'', jperformer by)] by ''model'' i))))"

definition setModelWorkspaceAccessAction :: "hub_env \<Rightarrow> form \<Rightarrow> ('vid, 'ch, 'cfg, unit) hact" where
  "setModelWorkspaceAccessAction E f =
     andThen (onAdmin (requireAdmin (he_admin E))) (\<lambda>by.
     let i = text_of (form_get f ''id''); w = text_of (form_get f ''workspaceId'') in
     refuse (i = [] \<or> w = []) NeedsModelAndWorkspace (
     andThen (reading (model_findById i)) (\<lambda>found.
     case found of
       None \<Rightarrow> throw (BadForm NoSuchRow)
     | Some before \<Rightarrow>
         andThen (if form_get f ''grant'' = Some ''true'' then grantWorkspaceAccess i w else revokeWorkspaceAccess i w) (\<lambda>_.
         andThen (reading (model_findById i)) (\<lambda>after.
         let seen = (case after of None \<Rightarrow> before | Some a \<Rightarrow> a) in
         model_event E ''model.updated'' seen
           [(''changes'', JArr [JObj [(''field'', JStr ''workspaceAccess''), (''from'', jstrs (sm_workspaceAccess before)),
              (''to'', jstrs (sm_workspaceAccess seen))]])] by i)))))"

definition probeModelEndpointAction :: "hub_env \<Rightarrow> string \<Rightarrow> string option \<Rightarrow> ('vid, 'ch, 'cfg, json list option) hact" where
  "probeModelEndpointAction E baseUrl apiKey =
     andThen (onAdmin (requireAdmin (he_admin E))) (\<lambda>_.
     if baseUrl = [] then give None else probeProviderModels E baseUrl (or_null apiKey))"

definition saveLiteLLMConfigAction :: "hub_env \<Rightarrow> form \<Rightarrow> ('vid, 'ch, 'cfg, unit) hact" where
  "saveLiteLLMConfigAction E f =
     andThen (onAdmin (requireAdmin (he_admin E))) (\<lambda>_.
     let masterKey = form_trim f ''masterKey'' in
     andThen (onAdmin (save_setting SETTING_litellmBaseUrl (text_of (form_trim f ''baseUrl'')))) (\<lambda>_.
     if truthy masterKey
     then onAdmin (save_setting SETTING_litellmMasterKeyEnc (vt_encrypt (he_vault E) (text_of masterKey))) else give ()))"

definition clearLiteLLMConfigAction :: "hub_env \<Rightarrow> ('vid, 'ch, 'cfg, unit) hact" where
  "clearLiteLLMConfigAction E =
     andThen (onAdmin (requireAdmin (he_admin E))) (\<lambda>_.
     andThen (onAdmin (save_setting SETTING_litellmBaseUrl [])) (\<lambda>_.
     onAdmin (save_setting SETTING_litellmMasterKeyEnc [])))"

text \<open>One model of the resync; \<open>None\<close> is skipped, else whether the proxy took it.\<close>

definition resyncModel :: "hub_env \<Rightarrow> safe_model \<Rightarrow> ('vid, 'ch, 'cfg, bool option) hact" where
  "resyncModel E m =
     (if \<not> md_isActive m \<or> \<not> isRoutableThroughLiteLLM (md_provider m) then give None
      else
        let litellm = (case md_litellmModelName m of None \<Rightarrow> litellmModelNameFor (md_provider m) (md_name m) | Some n \<Rightarrow> n) in
        andThen (if truthy (md_litellmModelName m) then give ()
                 else andThen (onModels (model_update (md_id m) (\<lambda>r. r\<lparr>md_litellmModelName := Some litellm\<rparr>))) (\<lambda>_. give ())) (\<lambda>_.
        andThen (reading (\<lambda>h. if sm_hasApiKey m then stored_key E (md_id m) h else None)) (\<lambda>plain.
        andThen (syncToLiteLLM E (md_provider m) (md_modelId m) (md_baseUrl m) (Some litellm) plain) (\<lambda>ok. give (Some ok)))))"

fun resync_all :: "hub_env \<Rightarrow> safe_model list \<Rightarrow> nat \<times> nat \<Rightarrow> ('vid, 'ch, 'cfg, nat \<times> nat) hact" where
  "resync_all E [] counts = give counts"
| "resync_all E (m # ms) (pushed, failed) =
     andThen (resyncModel E m) (\<lambda>r.
     resync_all E ms (case r of None \<Rightarrow> (pushed, failed) | Some True \<Rightarrow> (Suc pushed, failed) | Some False \<Rightarrow> (pushed, Suc failed)))"

definition resyncLiteLLMAction :: "hub_env \<Rightarrow> ('vid, 'ch, 'cfg, nat \<times> nat) hact" where
  "resyncLiteLLMAction E =
     andThen (onAdmin (requireAdmin (he_admin E))) (\<lambda>_.
     andThen (reading (isLiteLLMConfigured E)) (\<lambda>configured.
     if \<not> configured then give (0, 0)
     else andThen (reading model_list) (\<lambda>models. resync_all E models (0, 0))))"

end
