(* ===== verification/IdentityActions.thy ===== *)
theory IdentityActions
  imports IntegrationActions
begin

text \<open>
  Identity providers: the checks of an issuer and of a client's credentials (\<open>packages/controlplane/lib/sso-config.ts\<close>)
  and the server actions on connections (\<open>app/admin/integrations/identity/actions.ts\<close>).
\<close>

section \<open>Issuers (sso-config.ts)\<close>

definition isSsoKind :: "string \<Rightarrow> bool" where
  "isSsoKind k = (k = ''oidc'' \<or> k = ''entra'')"

definition entraIssuer :: "string \<Rightarrow> string" where
  "entraIssuer tenantId = ''https://login.microsoftonline.com/'' @ js_trim tenantId @ ''/v2.0''"

definition WELL_KNOWN :: string where
  "WELL_KNOWN = ''/.well-known/openid-configuration''"

definition normalizeIssuer :: "string \<Rightarrow> string" where
  "normalizeIssuer raw =
     (let s = strip_slashes (js_trim raw) in
      if ends_with s WELL_KNOWN then take (length s - length WELL_KNOWN) s else s)"

definition discoveryUrl :: "string \<Rightarrow> string" where
  "discoveryUrl issuer = normalizeIssuer issuer @ WELL_KNOWN"

text \<open>The issuer a document claims is read where it is a text.\<close>

definition issuerMismatch :: "string \<Rightarrow> string option \<Rightarrow> bool" where
  "issuerMismatch configured doc = (truthy doc \<and> normalizeIssuer configured \<noteq> normalizeIssuer (text_of doc))"

definition truthy_at :: "string \<Rightarrow> json \<Rightarrow> bool" where
  "truthy_at k d = (case js_field k d of None \<Rightarrow> False | Some v \<Rightarrow> js_truthy v)"

text \<open>A document that serves the code flow has its three endpoints.\<close>

definition usable_document :: "json \<Rightarrow> bool" where
  "usable_document d = list_all (\<lambda>k. truthy_at k d) [''authorization_endpoint'', ''token_endpoint'', ''jwks_uri'']"

definition discovery_request :: "string \<Rightarrow> http_request" where
  "discovery_request issuer = \<lparr>rq_post = False, rq_url = discoveryUrl issuer, rq_auth = None, rq_body = NoBody\<rparr>"

text \<open>\<open>None\<close> is \<open>ok: false\<close>; else the issuer the document claims.\<close>

definition testDiscovery :: "hub_env \<Rightarrow> string \<Rightarrow> ('vid, 'ch, 'cfg, string option option) hact" where
  "testDiscovery E issuer =
     andThen (fetch E (discovery_request issuer)) (\<lambda>res.
     case res of
       NoAnswer \<Rightarrow> give None
     | Answer status body \<Rightarrow>
         if \<not> res_ok res then give None
         else case body of
                None \<Rightarrow> give None
              | Some d \<Rightarrow> if \<not> usable_document d then give None
                          else give (Some (Option.bind (js_field ''issuer'' d) rule_text)))"

section \<open>Client credentials\<close>

definition secretLooksLikeUrl :: "string \<Rightarrow> bool" where
  "secretLooksLikeUrl s =
     (let t = js_lower (take 8 (js_trim s)) in starts_with t ''http://'' \<or> starts_with t ''https://'')"

datatype client_verdict = Accepted | Rejected | Inconclusive

definition unreserved :: "char \<Rightarrow> bool" where
  "unreserved c = (is_lower_alnum c \<or> (65 \<le> code_unit c \<and> code_unit c \<le> 90) \<or> c \<in> set ''-_.!~*()'' \<or> code_unit c = 39)"

definition hex_digit :: "nat \<Rightarrow> char" where
  "hex_digit n = (if n < 10 then char_of (48 + n) else char_of (55 + n))"

definition encodeURIComponent :: "string \<Rightarrow> string" where
  "encodeURIComponent s =
     concat (map (\<lambda>c. if unreserved c then [c]
       else concat (map (\<lambda>b. [CHR ''%'', hex_digit (unat b div 16), hex_digit (unat b mod 16)]) (utf8 [c]))) s)"

definition check_params :: "hub_env \<Rightarrow> (string \<times> string) list" where
  "check_params E =
     (let P = ae_payload (he_admin E);
          base = (if truthy (pe_appUrl P) then text_of (pe_appUrl P)
                  else if truthy (pe_nextauthUrl P) then text_of (pe_nextauthUrl P) else ''http://localhost'')
      in [(''grant_type'', ''authorization_code''), (''code'', ''credential-check-'' @ dec_string (he_now E)),
          (''redirect_uri'', strip_slashes base @ ''/api/auth/callback/credential-check'')])"

definition basic_attempt :: "hub_env \<Rightarrow> string \<Rightarrow> string \<Rightarrow> string \<Rightarrow> http_request" where
  "basic_attempt E endpoint clientId secret =
     \<lparr>rq_post = True, rq_url = endpoint,
      rq_auth = Some (''Basic '' @ toBase64 (utf8 (encodeURIComponent clientId @ '':'' @ encodeURIComponent secret))),
      rq_body = FormBody (check_params E)\<rparr>"

definition post_attempt :: "hub_env \<Rightarrow> string \<Rightarrow> string \<Rightarrow> string \<Rightarrow> http_request" where
  "post_attempt E endpoint clientId secret =
     \<lparr>rq_post = True, rq_url = endpoint, rq_auth = None,
      rq_body = FormBody (check_params E @ [(''client_id'', clientId), (''client_secret'', secret)])\<rparr>"

text \<open>What an answer says of the credentials; \<open>None\<close> is \<open>invalid_client\<close>, and the next attempt decides.\<close>

definition attempt_verdict :: "http_answer \<Rightarrow> client_verdict option" where
  "attempt_verdict res =
     (case res of
        NoAnswer \<Rightarrow> Some Inconclusive
      | Answer _ body \<Rightarrow>
          (case Option.bind body (js_field ''error'') of
             None \<Rightarrow> Some Inconclusive
           | Some e \<Rightarrow> if \<not> js_truthy e then Some Inconclusive
                       else if e \<noteq> JStr ''invalid_client'' then Some Accepted else None))"

fun try_attempts :: "hub_env \<Rightarrow> http_request list \<Rightarrow> ('vid, 'ch, 'cfg, client_verdict) hact" where
  "try_attempts E [] = give Rejected"
| "try_attempts E (rq # rqs) =
     andThen (fetch E rq) (\<lambda>res. case attempt_verdict res of Some v \<Rightarrow> give v | None \<Rightarrow> try_attempts E rqs)"

definition token_endpoint :: "http_answer \<Rightarrow> string option" where
  "token_endpoint res =
     (case res of
        NoAnswer \<Rightarrow> None
      | Answer _ body \<Rightarrow>
          if \<not> res_ok res then None
          else Option.bind (Option.bind body (js_field ''token_endpoint'')) (\<lambda>v. if js_truthy v then Some (js_String v) else None))"

definition testClientCredentials :: "hub_env \<Rightarrow> string \<Rightarrow> string \<Rightarrow> string \<Rightarrow> ('vid, 'ch, 'cfg, client_verdict) hact" where
  "testClientCredentials E issuer clientId secret =
     (if secretLooksLikeUrl secret then give Rejected
      else andThen (fetch E (discovery_request issuer)) (\<lambda>res.
        case token_endpoint res of
          None \<Rightarrow> give Inconclusive
        | Some endpoint \<Rightarrow>
            try_attempts E [basic_attempt E endpoint clientId secret, post_attempt E endpoint clientId secret]))"

definition callbackUrlFor :: "payload_env \<Rightarrow> sso_connection_row \<Rightarrow> string" where
  "callbackUrlFor P con =
     strip_slashes (or_else (pe_appUrl P) (pe_nextauthUrl P)) @ ''/api/auth/callback/sso-'' @ sn_id con"

section \<open>Actions\<close>

definition resolveIssuer :: "string \<Rightarrow> form \<Rightarrow> (hub_error, string) result" where
  "resolveIssuer kind f =
     (if kind = ''entra'' then
        (let tenant = form_trim f ''tenantId'' in
         throw_when (\<not> truthy tenant) (BadForm NeedsTenant) (Inr (entraIssuer (text_of tenant))))
      else
        (let issuer = form_trim f ''issuer'' in
         throw_when (\<not> truthy issuer) (BadForm NeedsIssuer) (Inr (normalizeIssuer (text_of issuer)))))"

definition connectionPayload :: "sso_connection_row \<Rightarrow> json" where
  "connectionPayload c =
     JObj [(''id'', JStr (sn_id c)), (''kind'', JStr (sn_kind c)), (''name'', JStr (sn_name c)), (''issuer'', JStr (sn_issuer c)),
       (''clientId'', JStr (sn_clientId c)), (''tenantId'', jopt (sn_tenantId c)), (''isActive'', JBool (sn_isActive c))]"

definition connection_event ::
  "hub_env \<Rightarrow> sso_connection_row \<Rightarrow> string \<Rightarrow> (string \<times> json) list \<Rightarrow> performer \<Rightarrow> ('vid, 'ch, 'cfg, unit) hact" where
  "connection_event E c action extra by =
     hub_event E ''actor.updated''
       ([(''ssoConnection'', connectionPayload c), (''action'', JStr action)] @ extra @
        [(''performedBy'', jperformer by),
         (''adminUrl'', jopt (buildAdminUrl (ae_payload (he_admin E)) ''/admin/integrations?tab=identity''))])
       by ''sso_connection'' (sn_id c)"

text \<open>Discovery, then the credentials: only a conclusive failure of either stops a save.\<close>

definition require_discovery :: "hub_env \<Rightarrow> string \<Rightarrow> ('vid, 'ch, 'cfg, unit) hact" where
  "require_discovery E issuer =
     andThen (testDiscovery E issuer) (\<lambda>d. if d = None then throw IdpUnverified else give ())"

definition require_client :: "hub_env \<Rightarrow> string \<Rightarrow> string \<Rightarrow> string \<Rightarrow> ('vid, 'ch, 'cfg, unit) hact" where
  "require_client E issuer clientId secret =
     andThen (testClientCredentials E issuer clientId secret) (\<lambda>v. if v = Rejected then throw ClientRejected else give ())"

definition createSsoConnectionAction :: "hub_env \<Rightarrow> form \<Rightarrow> ('vid, 'ch, 'cfg, unit) hact" where
  "createSsoConnectionAction E f =
     andThen (onAdmin (requireAdmin (he_admin E))) (\<lambda>by.
     let kind = text_of (form_trim f ''kind''); nm = form_trim f ''name''; clientId = form_trim f ''clientId'';
         secret = form_trim f ''clientSecret''; tenantId = or_null (form_trim f ''tenantId'')
     in refuse (\<not> isSsoKind kind) UnknownKind (
        refuse (\<not> truthy nm \<or> \<not> truthy clientId \<or> \<not> truthy secret) NeedsCredentials (
        andThen (lift_result (resolveIssuer kind f)) (\<lambda>issuer.
        andThen (require_discovery E issuer) (\<lambda>_.
        andThen (require_client E issuer (text_of clientId) (text_of secret)) (\<lambda>_.
        let row = \<lparr>sn_id = he_id E, sn_kind = kind, sn_name = text_of nm, sn_issuer = issuer, sn_clientId = text_of clientId,
             sn_clientSecretEnc = vt_encrypt (he_vault E) (text_of secret),
             sn_tenantId = (if kind = ''entra'' then tenantId else None), sn_isActive = True, sn_createdBy = pb_did by,
             sn_createdAt = he_now E\<rparr> in
        andThen (onConnections (\<lambda>rows. bind_result (connection_create row rows) (\<lambda>rows'. Inr ((), rows')))) (\<lambda>_.
        connection_event E row ''sso_connection_created'' [] by)))))))"

definition connection_fields :: "sso_connection_row \<Rightarrow> (string \<times> json) list" where
  "connection_fields c =
     [(''name'', JStr (sn_name c)), (''issuer'', JStr (sn_issuer c)), (''clientId'', JStr (sn_clientId c)),
      (''tenantId'', jopt (sn_tenantId c)), (''isActive'', JBool (sn_isActive c))]"

definition effective_secret :: "hub_env \<Rightarrow> string option \<Rightarrow> sso_connection_row \<Rightarrow> (hub_error, string) result" where
  "effective_secret E secret before =
     (if truthy secret then Inr (text_of secret)
      else case vt_decrypt (he_vault E) (sn_clientSecretEnc before) of None \<Rightarrow> Inl VaultFailed | Some s \<Rightarrow> Inr s)"

definition updateSsoConnectionAction :: "hub_env \<Rightarrow> form \<Rightarrow> ('vid, 'ch, 'cfg, unit) hact" where
  "updateSsoConnectionAction E f =
     andThen (onAdmin (requireAdmin (he_admin E))) (\<lambda>by.
     let i = text_of (form_get f ''id''); nm = form_trim f ''name''; clientId = form_trim f ''clientId'';
         secret = form_trim f ''clientSecret''; tenantId = or_null (form_trim f ''tenantId'')
     in andThen (reading (\<lambda>h. connection_findById i (pt_connections (hb_portal h)))) (\<lambda>found.
        case found of
          None \<Rightarrow> throw (BadForm NoSuchRow)
        | Some before \<Rightarrow>
            refuse (\<not> truthy nm \<or> \<not> truthy clientId) NeedsNameAndClient (
            andThen (lift_result (resolveIssuer (sn_kind before) f)) (\<lambda>issuer.
            andThen (if issuer \<noteq> sn_issuer before then require_discovery E issuer else give ()) (\<lambda>_.
            andThen
              (if truthy secret \<or> text_of clientId \<noteq> sn_clientId before \<or> issuer \<noteq> sn_issuer before
               then andThen (lift_result (effective_secret E secret before)) (\<lambda>s. require_client E issuer (text_of clientId) s)
               else give ()) (\<lambda>_.
            andThen (onConnections (connection_update i (\<lambda>c. c\<lparr>sn_name := text_of nm, sn_issuer := issuer,
                sn_clientId := text_of clientId, sn_tenantId := (if sn_kind before = ''entra'' then tenantId else None),
                sn_clientSecretEnc := (if truthy secret then vt_encrypt (he_vault E) (text_of secret) else sn_clientSecretEnc c)\<rparr>)))
              (\<lambda>updated.
            let changes = diffFields (connection_fields before) (connection_fields updated)
                  [''name'', ''issuer'', ''clientId'', ''tenantId'', ''isActive''] @
                  (if truthy secret then [JObj [(''field'', JStr ''clientSecret''), (''from'', JStr ''***''), (''to'', JStr ''***'')]] else [])
            in connection_event E updated ''sso_connection_updated'' [(''changes'', JArr changes)] by)))))))"

definition toggleSsoConnectionAction :: "hub_env \<Rightarrow> form \<Rightarrow> ('vid, 'ch, 'cfg, unit) hact" where
  "toggleSsoConnectionAction E f =
     andThen (onAdmin (requireAdmin (he_admin E))) (\<lambda>by.
     let i = text_of (form_get f ''id''); active = (form_get f ''isActive'' = Some ''true'') in
     andThen (reading (\<lambda>h. connection_findById i (pt_connections (hb_portal h)))) (\<lambda>found.
     case found of
       None \<Rightarrow> throw (BadForm NoSuchRow)
     | Some before \<Rightarrow>
         andThen (onConnections (connection_update i (\<lambda>c. c\<lparr>sn_isActive := active\<rparr>))) (\<lambda>updated.
         connection_event E updated (if active then ''sso_connection_enabled'' else ''sso_connection_disabled'') [] by)))"

text \<open>The bound identities go with their connection; Actors and certificates stay.\<close>

definition connection_remove :: "string \<Rightarrow> ('vid, 'ch, 'cfg, unit) hact" where
  "connection_remove i =
     andThen (onConnections (\<lambda>rows. bind_result (connection_delete i rows) (\<lambda>rest. Inr ((), rest)))) (\<lambda>_ h.
     (Inr (), h\<lparr>hb_portal := (hb_portal h)\<lparr>pt_identities := filter (\<lambda>r. si_connectionId r \<noteq> i) (pt_identities (hb_portal h))\<rparr>\<rparr>))"

definition deleteSsoConnectionAction :: "hub_env \<Rightarrow> form \<Rightarrow> ('vid, 'ch, 'cfg, unit) hact" where
  "deleteSsoConnectionAction E f =
     andThen (onAdmin (requireAdmin (he_admin E))) (\<lambda>by.
     let i = text_of (form_get f ''id'') in
     andThen (reading (\<lambda>h. connection_findById i (pt_connections (hb_portal h)))) (\<lambda>found.
     case found of
       None \<Rightarrow> give ()
     | Some connection \<Rightarrow>
         andThen (reading (\<lambda>h. boundIdentityCount i (pt_identities (hb_portal h)))) (\<lambda>bound.
         andThen (connection_remove i) (\<lambda>_.
         connection_event E connection ''sso_connection_deleted''
           [(''unboundIdentities'', JNum (int bound)),
            (''note'', JStr ''Actors keep their DIDs and certificates; only this sign-in route was removed.'')] by))))"

record sso_test =
  st_ok :: bool
  st_issuer :: string
  st_documentIssuer :: "string option"
  st_client :: "client_verdict option"

definition testSsoConnectionAction ::
  "hub_env \<Rightarrow> string \<Rightarrow> string \<Rightarrow> string option \<Rightarrow> string option \<Rightarrow> string option \<Rightarrow> ('vid, 'ch, 'cfg, sso_test) hact" where
  "testSsoConnectionAction E kind issuerOrTenant clientId clientSecret connectionId =
     andThen (onAdmin (requireAdmin (he_admin E))) (\<lambda>_.
     if js_trim issuerOrTenant = [] then give \<lparr>st_ok = False, st_issuer = [], st_documentIssuer = None, st_client = None\<rparr>
     else
       let issuer = (if kind = ''entra'' then entraIssuer issuerOrTenant else normalizeIssuer issuerOrTenant) in
       andThen (testDiscovery E issuer) (\<lambda>d.
       case d of
         None \<Rightarrow> give \<lparr>st_ok = False, st_issuer = issuer, st_documentIssuer = None, st_client = None\<rparr>
       | Some claimed \<Rightarrow>
           let base = \<lparr>st_ok = True, st_issuer = issuer,
                 st_documentIssuer = (if issuerMismatch issuer claimed then claimed else None), st_client = None\<rparr>;
               typed = map_option js_trim clientSecret in
           andThen (reading (\<lambda>h. if \<not> truthy typed \<and> truthy connectionId
               then connection_findById (text_of connectionId) (pt_connections (hb_portal h)) else None)) (\<lambda>existing.
           let stored = map_option (\<lambda>c. vt_decrypt (he_vault E) (sn_clientSecretEnc c)) existing in
           if stored = Some None then give (base\<lparr>st_client := Some Inconclusive\<rparr>)
           else
             let secret = (case stored of Some (Some s) \<Rightarrow> Some s | _ \<Rightarrow> typed) in
             if \<not> truthy (map_option js_trim clientId) \<or> \<not> truthy secret then give base
             else andThen (testClientCredentials E issuer (js_trim (text_of clientId)) (text_of secret)) (\<lambda>v.
                    give (base\<lparr>st_client := Some v\<rparr>)))))"

section \<open>One action\<close>

datatype hub_action =
    CreateWebhook form | UpdateWebhook form | ToggleWebhook form | DeleteWebhook form | RegenerateSecret string
  | CreateChannel form | UpdateChannel form | ToggleChannel form | DeleteChannel form
  | CreateModel form | UpdateModel form | ToggleModel form | DeleteModel form | SetModelAccess form
  | ProbeModel string "string option" | SaveLiteLLM form | ClearLiteLLM | ResyncLiteLLM
  | CreateConnection form | UpdateConnection form | ToggleConnection form | DeleteConnection form
  | TestConnection string string "string option" "string option" "string option"

fun run_hub :: "hub_env \<Rightarrow> hub_action \<Rightarrow> ('vid, 'ch, 'cfg, unit) hact" where
  "run_hub E (CreateWebhook f) = forget (createWebhookAction E f)"
| "run_hub E (UpdateWebhook f) = updateWebhookAction E f"
| "run_hub E (ToggleWebhook f) = toggleWebhookActiveAction E f"
| "run_hub E (DeleteWebhook f) = deleteWebhookAction E f"
| "run_hub E (RegenerateSecret i) = forget (regenerateWebhookSecretAction E i)"
| "run_hub E (CreateChannel f) = createChannelAction E f"
| "run_hub E (UpdateChannel f) = updateChannelAction E f"
| "run_hub E (ToggleChannel f) = toggleChannelActiveAction E f"
| "run_hub E (DeleteChannel f) = deleteChannelAction E f"
| "run_hub E (CreateModel f) = createModelAction E f"
| "run_hub E (UpdateModel f) = updateModelAction E f"
| "run_hub E (ToggleModel f) = toggleModelActiveAction E f"
| "run_hub E (DeleteModel f) = deleteModelAction E f"
| "run_hub E (SetModelAccess f) = setModelWorkspaceAccessAction E f"
| "run_hub E (ProbeModel url key) = forget (probeModelEndpointAction E url key)"
| "run_hub E (SaveLiteLLM f) = saveLiteLLMConfigAction E f"
| "run_hub E ClearLiteLLM = clearLiteLLMConfigAction E"
| "run_hub E ResyncLiteLLM = forget (resyncLiteLLMAction E)"
| "run_hub E (CreateConnection f) = createSsoConnectionAction E f"
| "run_hub E (UpdateConnection f) = updateSsoConnectionAction E f"
| "run_hub E (ToggleConnection f) = toggleSsoConnectionAction E f"
| "run_hub E (DeleteConnection f) = deleteSsoConnectionAction E f"
| "run_hub E (TestConnection k i c s n) = forget (testSsoConnectionAction E k i c s n)"

end
