(* ===== verification/HubLogic.thy ===== *)
theory HubLogic
  imports IdentityActions AdminSafety
begin

text \<open>
  Reasoning about the actions on integrations: the locale \<open>run_logic\<close> of \<open>AdminLogic\<close> at the state of the hub, with
  the rules for its calls. Interpreted on two relations: credentials stay sealed, and the requests an action
  makes all go to the model proxy.
\<close>

lemmas hub_action_defs =
  createWebhookAction_def updateWebhookAction_def toggleWebhookActiveAction_def deleteWebhookAction_def
  regenerateWebhookSecretAction_def createChannelAction_def updateChannelAction_def toggleChannelActiveAction_def
  deleteChannelAction_def createModelAction_def updateModelAction_def toggleModelActiveAction_def deleteModelAction_def
  setModelWorkspaceAccessAction_def probeModelEndpointAction_def saveLiteLLMConfigAction_def clearLiteLLMConfigAction_def
  resyncLiteLLMAction_def createSsoConnectionAction_def updateSsoConnectionAction_def toggleSsoConnectionAction_def
  deleteSsoConnectionAction_def testSsoConnectionAction_def

section \<open>The gate\<close>

lemma hub_gated: "\<exists>k. run_hub E a = andThen (onAdmin (requireAdmin (he_admin E))) k"
  by (cases a; simp only: run_hub.simps hub_action_defs forget_def andThen_assoc) blast+

lemma hub_gate_closed:
  fixes h :: "('vid, 'ch, 'cfg) hub"
  assumes "requireAdmin (he_admin E) (pt_console (hb_portal h)) = (Inl e, c')"
  shows "run_hub E a h = (Inl (FromConsole e), h)"
proof -
  from assms have "c' = pt_console (hb_portal h)"
    by (auto simp: requireAdmin_def throw_def give_def split: option.splits if_splits)
  moreover obtain k where "(run_hub E a :: ('vid, 'ch, 'cfg, unit) hact) = andThen (onAdmin (requireAdmin (he_admin E))) k"
    using hub_gated by blast
  ultimately show ?thesis using assms by (simp add: andThen_def onAdmin_def)
qed

section \<open>Running calls\<close>

lemma then_runs:
  "andThen (give x) k h = k x h" "andThen (throw e) k h = (Inl e, h)" "andThen (reading g) k h = k (g h) h"
  by (simp_all add: andThen_def give_def throw_def reading_def)

lemma hub_then:
  "andThen (fetch E rq) k h = k (he_http E (length (hb_calls h)) rq) (h\<lparr>hb_calls := hb_calls h @ [rq]\<rparr>)"
  "andThen (onModels f) k' h =
     (case f (hb_models h) of Inl e \<Rightarrow> (Inl (FromConsole (DbFailed e)), h) | Inr (y, rows) \<Rightarrow> k' y (h\<lparr>hb_models := rows\<rparr>))"
  "andThen (onConnections g) k'' h =
     (case g (pt_connections (hb_portal h)) of
        Inl e \<Rightarrow> (Inl (FromConsole (DbFailed e)), h)
      | Inr (y, rows) \<Rightarrow> k'' y (h\<lparr>hb_portal := (hb_portal h)\<lparr>pt_connections := rows\<rparr>\<rparr>))"
  by (auto simp: andThen_def fetch_def onModels_def onConnections_def onRows_def split: sum.split)

text \<open>The two requests the proxy gets, and the calls that make them.\<close>

definition delete_request :: "string \<times> string \<Rightarrow> string \<Rightarrow> http_request" where
  "delete_request config nm = \<lparr>rq_post = True, rq_url = fst config @ ''/model/delete'', rq_auth = Some (''Bearer '' @ snd config),
     rq_body = JsonBody (JObj [(''model_name'', JStr nm)])\<rparr>"

definition register_request :: "string \<times> string \<Rightarrow> register_params \<Rightarrow> http_request" where
  "register_request config p = \<lparr>rq_post = True, rq_url = fst config @ ''/model/new'', rq_auth = Some (''Bearer '' @ snd config),
     rq_body = JsonBody (register_body p)\<rparr>"

lemma remove_runs:
  "getLiteLLMConfig E h = Some config \<Longrightarrow>
   besteffort (removeModel E nm) h = (Inr (), h\<lparr>hb_calls := hb_calls h @ [delete_request config nm]\<rparr>)"
  by (cases config)
     (auto simp: besteffort_def catching_def removeModel_def litellmFetch_def delete_request_def andThen_def reading_def fetch_def
       give_def throw_def split: http_answer.split)

lemma sync_runs:
  "getLiteLLMConfig E h = Some config \<Longrightarrow> truthy nm \<Longrightarrow> isRoutableThroughLiteLLM p \<Longrightarrow>
   rq = register_request config \<lparr>rp_modelName = text_of nm, rp_litellmModel = ''openai/'' @ m, rp_apiBase = b, rp_apiKey = k\<rparr> \<Longrightarrow>
   syncToLiteLLM E p m b nm k h = (Inr (res_ok (he_http E (length (hb_calls h)) rq)), h\<lparr>hb_calls := hb_calls h @ [rq]\<rparr>)"
  by (cases config)
     (auto simp: syncToLiteLLM_def isLiteLLMConfigured_def catching_def registerModel_def litellmFetch_def register_request_def
       andThen_def reading_def fetch_def give_def throw_def split: http_answer.split)

lemma event_runs [simp]:
  "hb_calls (snd (hub_event E et pl x tt ti h)) = hb_calls h" "hb_models (snd (hub_event E et pl x tt ti h)) = hb_models h"
  "pt_connections (hb_portal (snd (hub_event E et pl x tt ti h))) = pt_connections (hb_portal h)"
  "fst (hub_event E et pl x tt ti h) = Inr ()"
  "hb_calls (snd (model_event E et sm extra x ti h)) = hb_calls h" "hb_models (snd (model_event E et sm extra x ti h)) = hb_models h"
  "fst (model_event E et sm extra x ti h) = Inr ()"
  by (simp_all add: model_event_def hub_event_def onAdmin_def record_event_def Let_def)

section \<open>Carrying a relation through an action on integrations\<close>

locale hub_logic = run_logic R for R :: "('vid, 'ch, 'cfg) hub \<Rightarrow> ('vid, 'ch, 'cfg) hub \<Rightarrow> bool"
begin

lemma gate: "act_rel R (onAdmin (requireAdmin E))"
  by (rule quiet) (simp add: onAdmin_def requireAdmin_def throw_def give_def split: option.split)

lemma refusal: "act_rel R m \<Longrightarrow> act_rel R (refuse b e m)"
  by (simp add: refuse_def pure)

lemma besteffort: "act_rel R m \<Longrightarrow> act_rel R (besteffort m)"
  unfolding besteffort_def by (intro catching pure)

lemma rows:
  "(\<And>h x rows. f (hb_webhooks h) = Inr (x, rows) \<Longrightarrow> R h (h\<lparr>hb_webhooks := rows\<rparr>)) \<Longrightarrow> act_rel R (onWebhooks f)"
  "(\<And>h x rows. f' (hb_channels h) = Inr (x, rows) \<Longrightarrow> R h (h\<lparr>hb_channels := rows\<rparr>)) \<Longrightarrow> act_rel R (onChannels f')"
  "(\<And>h x rows. f'' (hb_models h) = Inr (x, rows) \<Longrightarrow> R h (h\<lparr>hb_models := rows\<rparr>)) \<Longrightarrow> act_rel R (onModels f'')"
  "(\<And>h x rows. g (pt_connections (hb_portal h)) = Inr (x, rows) \<Longrightarrow>
     R h (h\<lparr>hb_portal := (hb_portal h)\<lparr>pt_connections := rows\<rparr>\<rparr>)) \<Longrightarrow> act_rel R (onConnections g)"
  by (auto simp: act_rel_def onWebhooks_def onChannels_def onModels_def onConnections_def onRows_def R_refl split: sum.split)

lemma admin:
  assumes "\<And>h c. snd (m (pt_console (hb_portal h))) = c \<Longrightarrow> R h (h\<lparr>hb_portal := (hb_portal h)\<lparr>pt_console := c\<rparr>\<rparr>)"
  shows "act_rel R (onAdmin m)"
  unfolding act_rel_def
proof
  fix h
  show "R h (snd (onAdmin m h))"
  proof (cases "m (pt_console (hb_portal h))")
    case (Pair r c)
    then show ?thesis using assms [of h c] by (simp add: onAdmin_def)
  qed
qed

lemma fetching: "(\<And>h. R h (h\<lparr>hb_calls := hb_calls h @ [rq]\<rparr>)) \<Longrightarrow> act_rel R (fetch E rq)"
  by (simp add: act_rel_def fetch_def)

lemma answers: "act_rel R m \<Longrightarrow> (\<And>s b. act_rel R (g s b)) \<Longrightarrow> act_rel R (case res of NoAnswer \<Rightarrow> m | Answer s b \<Rightarrow> g s b)"
  by (simp split: http_answer.split)

lemmas hub_rules = pure gate andThen catching refusal refuse besteffort forget cases lets answers

lemma resync_rel: "(\<And>m. act_rel R (resyncModel E m)) \<Longrightarrow> act_rel R (resync_all E ms counts)"
proof (induction ms arbitrary: counts)
  case (Cons m ms)
  obtain p q where c: "counts = (p, q)" by (cases counts)
  show ?case unfolding c resync_all.simps by (rule andThen) (rule Cons.prems, rule Cons.IH, rule Cons.prems)
qed (simp add: pure)

lemma attempts_rel: "(\<And>rq. act_rel R (fetch E rq)) \<Longrightarrow> act_rel R (try_attempts E rqs)"
  by (induction rqs) (auto intro!: hub_rules)

end

section \<open>Credentials stay sealed\<close>

text \<open>Every credential column holds a text of the vault; the proxy's key may also be cleared.\<close>

definition sealed_text :: "vault \<Rightarrow> string \<Rightarrow> bool" where
  "sealed_text V s \<longleftrightarrow> s \<in> range (vt_encrypt V)"

definition sealed :: "vault \<Rightarrow> ('vid, 'ch, 'cfg) hub \<Rightarrow> bool" where
  "sealed V h \<longleftrightarrow>
     list_all (\<lambda>m. pred_option (sealed_text V) (md_apiKeyEnc m)) (hb_models h)
     \<and> list_all (\<lambda>c. sealed_text V (nc_serviceUrls c)) (hb_channels h)
     \<and> list_all (\<lambda>c. sealed_text V (sn_clientSecretEnc c)) (pt_connections (hb_portal h))
     \<and> pred_option (\<lambda>s. s = [] \<or> sealed_text V s) (setting_get SETTING_litellmMasterKeyEnc (hb_db h))"

definition keeps_sealed :: "vault \<Rightarrow> ('vid, 'ch, 'cfg) hub \<Rightarrow> ('vid, 'ch, 'cfg) hub \<Rightarrow> bool" where
  "keeps_sealed V h h' \<longleftrightarrow> (sealed V h \<longrightarrow> sealed V h')"

interpretation seals: hub_logic "keeps_sealed V" for V :: vault
  by unfold_locales (auto simp: keeps_sealed_def)

lemma sealed_encrypt [simp]: "sealed_text V (vt_encrypt V s)"
  by (simp add: sealed_text_def)

lemma updated_rows:
  "row_update key i f rows = Inr (x, rows') \<Longrightarrow> list_all P rows \<Longrightarrow> (\<And>r. P r \<Longrightarrow> P (f r)) \<Longrightarrow> list_all P rows'"
  by (auto simp: row_update_Inr row_map_def list_all_iff)

lemma deleted_rows: "row_delete key i rows = Inr rows' \<Longrightarrow> list_all P rows \<Longrightarrow> list_all P rows'"
  by (auto simp: row_delete_Inr list_all_iff)

lemma seals_calls:
  "act_rel (keeps_sealed V) (fetch E rq)"
  "act_rel (keeps_sealed V) (onWebhooks f)"
  "act_rel (keeps_sealed V) (grantWorkspaceAccess m w)"
  "act_rel (keeps_sealed V) (revokeWorkspaceAccess m w)"
  "act_rel (keeps_sealed V) (hub_event E' et pl by' tt ti)"
  "act_rel (keeps_sealed V) (onAdmin (save_setting SETTING_litellmBaseUrl u))"
proof -
  have "SETTING_litellmBaseUrl \<noteq> SETTING_litellmMasterKeyEnc"
    by (simp add: SETTING_litellmBaseUrl_def SETTING_litellmMasterKeyEnc_def)
  then show "act_rel (keeps_sealed V) (onAdmin (save_setting SETTING_litellmBaseUrl u))"
    by (intro seals.admin)
       (auto simp: keeps_sealed_def sealed_def save_setting_def dao_def set_db_def setting_get_def setting_set_def)
qed (auto simp: act_rel_def fetch_def onWebhooks_def onRows_def grantWorkspaceAccess_def revokeWorkspaceAccess_def
    hub_event_def onAdmin_def record_event_def set_db_def recordEvent_def audit_create_def Let_def setting_get_def
    keeps_sealed_def sealed_def split: sum.split)

end
