(* ===== verification/HubDemo.thy ===== *)
theory HubDemo
  imports HubLogic
begin

text \<open>
  A small hub for evaluation: the console of \<open>AdminSafety\<close> with its one administrator, a vault that marks what it
  seals, a configured model proxy, and services that all give one answer, which is a discovery document and a refused
  grant at once.
\<close>

definition demo_vault :: vault where
  "demo_vault = \<lparr>vt_encrypt = (\<lambda>s. CHR ''#'' # s), vt_decrypt = (\<lambda>t. case t of [] \<Rightarrow> None | c # s \<Rightarrow> if c = CHR ''#'' then Some s else None)\<rparr>"

definition demo_document :: json where
  "demo_document = JObj [(''authorization_endpoint'', JStr ''https://idp/a''), (''token_endpoint'', JStr ''https://idp/t''),
     (''jwks_uri'', JStr ''https://idp/k''), (''error'', JStr ''invalid_grant'')]"

definition hub_demo_env :: hub_env where
  "hub_demo_env = \<lparr>he_admin = desk_env, he_id = ''n'', he_random = ''r'', he_vault = demo_vault,
     he_http = (\<lambda>_ _. Answer 200 (Some demo_document)), he_appriseUrl = None, he_litellmUrl = Some ''http://p/'',
     he_litellmKey = Some ''mk''\<rparr>"

definition hub_start :: "(string, byte list, unit) hub" where
  "hub_start = \<lparr>hb_portal = \<lparr>pt_console = desk, pt_logins = [], pt_connections = [], pt_identities = [], pt_lastSweepAt = 0,
       pt_p2p = [], pt_tasks = [], pt_sessions = [], pt_proven = []\<rparr>,
     hb_webhooks = [], hb_channels = [], hb_models = [], hb_access = [], hb_calls = []\<rparr>"

text \<open>The same with one model, registered with the proxy under its name.\<close>

definition demo_model :: model_row where
  "demo_model = \<lparr>md_id = ''m'', md_name = ''G'', md_description = None, md_provider = ''openai'', md_modelId = ''g'',
     md_baseUrl = ''u'', md_litellmModelName = Some ''openai/g'', md_isActive = True, md_createdBy = None, md_createdAt = 0,
     md_apiKeyEnc = Some ''#k''\<rparr>"

definition hub_with_model :: "(string, byte list, unit) hub" where
  "hub_with_model = hub_start\<lparr>hb_models := [demo_model]\<rparr>"

lemma demo_admin [simp]: "he_admin hub_demo_env = desk_env" "he_id hub_demo_env = ''n''" "he_vault hub_demo_env = demo_vault"
    "he_http hub_demo_env n rq = Answer 200 (Some demo_document)"
  by (simp_all add: hub_demo_env_def)

lemma demo_console [simp]: "pt_console (hb_portal hub_start) = desk" "pt_console (hb_portal hub_with_model) = desk"
  by (simp_all add: hub_start_def hub_with_model_def)

abbreviation demo_by :: performer where
  "demo_by \<equiv> \<lparr>pb_did = ''did:h'', pb_name = Some ''Unnamed''\<rparr>"

lemma hub_gate_open:
  assumes "requireAdmin (he_admin E) (pt_console (hb_portal h)) = (Inr by', pt_console (hb_portal h))"
  shows "andThen (onAdmin (requireAdmin (he_admin E))) k h = k by' h"
  using assms by (simp add: andThen_def onAdmin_def)

lemmas demo_gate [simp] = hub_gate_open [where E = hub_demo_env and h = hub_start and by' = demo_by, simplified demo_admin demo_console, OF desk_run]
  hub_gate_open [where E = hub_demo_env and h = hub_with_model and by' = demo_by, simplified demo_admin demo_console, OF desk_run]

lemma demo_gate_any: "pt_console (hb_portal h) = desk \<Longrightarrow> andThen (onAdmin (requireAdmin desk_env)) k h = k demo_by h"
  using hub_gate_open [of hub_demo_env h demo_by k] by (simp add: desk_run)

lemma demo_provider_openai [simp]:
  "isRoutableThroughLiteLLM ''openai''" "isKnownProvider (Some ''openai'')"
  by (simp_all add: isRoutableThroughLiteLLM_def isKnownProvider_def isSdkAgentProvider_def PROVIDER_IDS_def PROVIDERS_def
      SDK_AGENT_PROVIDERS_def)

lemma demo_config [simp]: "tb_settings (hb_db h) = [] \<Longrightarrow> getLiteLLMConfig hub_demo_env h = Some (''http://p'', ''mk'')"
  by (simp add: getLiteLLMConfig_def setting_get_def hub_demo_env_def or_else_def truthy_def text_of_def strip_slashes_def)

lemma demo_settings [simp]: "tb_settings (co_db desk) = []"
  by (simp add: desk_def desk_db_def empty_db_def)

text \<open>Evaluation: the text of a form's field, where it is short.\<close>

lemmas form_eval = form_trim_def form_get_def form_all_def js_trim_def is_js_space_def code_unit_def truthy_def or_null_def
  text_of_def

definition demo_model_form :: form where
  "demo_model_form = [(''id'', ''m''), (''name'', ''G''), (''provider'', ''openai''), (''modelId'', ''g''), (''baseUrl'', ''u''),
     (''apiKey'', ''k'')]"

lemma demo_model_fields [simp]:
  "form_trim demo_model_form ''name'' = Some ''G''" "form_trim demo_model_form ''provider'' = Some ''openai''"
  "form_trim demo_model_form ''modelId'' = Some ''g''" "form_trim demo_model_form ''baseUrl'' = Some ''u''"
  "form_trim demo_model_form ''apiKey'' = Some ''k''" "form_trim demo_model_form ''description'' = None"
  "form_get demo_model_form ''id'' = Some ''m''"
  by (simp_all add: demo_model_form_def form_eval)

lemma text_eval [simp]: "text_of (Some s) = s" "truthy (Some s) \<longleftrightarrow> s \<noteq> []" "\<not> truthy None" "or_null None = None"
  by (simp_all add: text_of_def truthy_def or_null_def)

end
