(* ===== verification/HubSafety.thy ===== *)
theory HubSafety
  imports HubDemo
begin

text \<open>
  What the actions on integrations keep: credentials stay sealed in every reachable state, only administrators
  make the server call out, the keys of models go to the configured proxy alone, and the proxy's answers
  never change what is stored.
\<close>

section \<open>Sealed credentials\<close>

lemmas service_defs =
  pushAppriseConfig_def deleteAppriseConfig_def litellmFetch_def registerModel_def removeModel_def probeProviderModels_def
  syncToLiteLLM_def testDiscovery_def testClientCredentials_def require_discovery_def require_client_def

lemma seals_services:
  "act_rel (keeps_sealed V) (pushAppriseConfig E key u)"
  "act_rel (keeps_sealed V) (deleteAppriseConfig E key)"
  "act_rel (keeps_sealed V) (removeModel E nm)"
  "act_rel (keeps_sealed V) (probeProviderModels E url k)"
  "act_rel (keeps_sealed V) (syncToLiteLLM E p m b n a)"
  "act_rel (keeps_sealed V) (testDiscovery E i)"
  "act_rel (keeps_sealed V) (testClientCredentials E i c sec)"
  "act_rel (keeps_sealed V) (require_discovery E i)"
  "act_rel (keeps_sealed V) (require_client E i c sec)"
  unfolding service_defs Let_def by (intro seals.hub_rules seals_calls seals.attempts_rel)+

text \<open>A write of a table keeps the seals when its rows keep theirs.\<close>

definition keeps_rows :: "('r \<Rightarrow> bool) \<Rightarrow> ('r list \<Rightarrow> (db_error, 'a \<times> 'r list) result) \<Rightarrow> bool" where
  "keeps_rows P f \<longleftrightarrow> (\<forall>rows x rows'. f rows = Inr (x, rows') \<longrightarrow> list_all P rows \<longrightarrow> list_all P rows')"

lemma seals_rows:
  "keeps_rows (\<lambda>m. pred_option (sealed_text V) (md_apiKeyEnc m)) fm \<Longrightarrow> act_rel (keeps_sealed V) (onModels fm)"
  "keeps_rows (\<lambda>c. sealed_text V (nc_serviceUrls c)) fc \<Longrightarrow> act_rel (keeps_sealed V) (onChannels fc)"
  "keeps_rows (\<lambda>c. sealed_text V (sn_clientSecretEnc c)) fs \<Longrightarrow> act_rel (keeps_sealed V) (onConnections fs)"
  by (intro seals.rows, auto simp: keeps_rows_def keeps_sealed_def sealed_def)+

lemma keeps_rows_update: "(\<And>r. P r \<Longrightarrow> P (f r)) \<Longrightarrow> keeps_rows P (row_update key i f)"
  by (auto simp: keeps_rows_def intro: updated_rows)

lemma keeps_rows_delete: "keeps_rows P (\<lambda>rows. bind_result (row_delete key i rows) (\<lambda>rest. Inr ((), rest)))"
  by (auto simp: keeps_rows_def intro: deleted_rows)

lemma row_writes:
  "(\<And>m. pred_option (sealed_text V) (md_apiKeyEnc m) \<Longrightarrow> pred_option (sealed_text V) (md_apiKeyEnc (fm m))) \<Longrightarrow>
     act_rel (keeps_sealed V) (onModels (model_update i fm))"
  "pred_option (sealed_text V) (md_apiKeyEnc m) \<Longrightarrow> act_rel (keeps_sealed V) (onModels (model_create m))"
  "(\<And>c. sealed_text V (nc_serviceUrls c) \<Longrightarrow> sealed_text V (nc_serviceUrls (fc c))) \<Longrightarrow>
     act_rel (keeps_sealed V) (onChannels (channel_update i fc))"
  "sealed_text V (nc_serviceUrls ch) \<Longrightarrow> act_rel (keeps_sealed V) (onChannels (channel_create ch))"
  "act_rel (keeps_sealed V) (onChannels (channel_delete i))"
  "(\<And>c. sealed_text V (sn_clientSecretEnc c) \<Longrightarrow> sealed_text V (sn_clientSecretEnc (fs c))) \<Longrightarrow>
     act_rel (keeps_sealed V) (onConnections (connection_update i fs))"
  "sealed_text V (sn_clientSecretEnc con) \<Longrightarrow>
     act_rel (keeps_sealed V) (onConnections (\<lambda>rows. bind_result (connection_create con rows) (\<lambda>rows'. Inr ((), rows'))))"
proof -
  let ?m = "\<lambda>m. pred_option (sealed_text V) (md_apiKeyEnc (m :: model_row))" and ?c = "\<lambda>c. sealed_text V (nc_serviceUrls c)"
    and ?s = "\<lambda>c. sealed_text V (sn_clientSecretEnc c)"
  show "(\<And>m. ?m m \<Longrightarrow> ?m (fm m)) \<Longrightarrow> act_rel (keeps_sealed V) (onModels (model_update i fm))"
    unfolding model_update_def by (intro seals_rows keeps_rows_update)
  show "(\<And>c. ?c c \<Longrightarrow> ?c (fc c)) \<Longrightarrow> act_rel (keeps_sealed V) (onChannels (channel_update i fc))"
    unfolding channel_update_def by (intro seals_rows keeps_rows_update)
  show "act_rel (keeps_sealed V) (onChannels (channel_delete i))"
    unfolding channel_delete_def by (intro seals_rows keeps_rows_delete)
  show "act_rel (keeps_sealed V) (onModels (model_create m))" if "?m m"
    by (rule seals_rows) (use that in \<open>auto simp: keeps_rows_def model_create_def split: if_splits\<close>)
  show "act_rel (keeps_sealed V) (onChannels (channel_create ch))" if "?c ch"
    by (rule seals_rows) (use that in \<open>auto simp: keeps_rows_def channel_create_def split: if_splits\<close>)
  show "act_rel (keeps_sealed V) (onConnections (\<lambda>rows. bind_result (connection_create con rows) (\<lambda>rows'. Inr ((), rows'))))"
    if "?s con"
    by (rule seals_rows) (use that in \<open>auto simp: keeps_rows_def connection_create_def split: if_splits\<close>)
  show "act_rel (keeps_sealed V) (onConnections (connection_update i fs))" if "\<And>c. ?s c \<Longrightarrow> ?s (fs c)"
    by (rule seals_rows)
       (use that in \<open>auto simp: keeps_rows_def connection_update_def row_map_def list_all_iff split: if_splits option.splits\<close>)
qed

lemma other_writes:
  "act_rel (keeps_sealed V) (model_delete i)"
  "act_rel (keeps_sealed V) (connection_remove i)"
  "v = [] \<or> sealed_text V v \<Longrightarrow> act_rel (keeps_sealed V) (onAdmin (save_setting SETTING_litellmMasterKeyEnc v))"
proof -
  show "act_rel (keeps_sealed V) (model_delete i)"
    unfolding model_delete_def
    by (intro seals.andThen seals_rows keeps_rows_delete) (auto simp: act_rel_def keeps_sealed_def sealed_def)
  show "act_rel (keeps_sealed V) (connection_remove i)"
    unfolding connection_remove_def connection_delete_def
    by (intro seals.andThen seals_rows keeps_rows_delete) (auto simp: act_rel_def keeps_sealed_def sealed_def)
  assume "v = [] \<or> sealed_text V v"
  then show "act_rel (keeps_sealed V) (onAdmin (save_setting SETTING_litellmMasterKeyEnc v))"
    by (intro seals.admin)
       (auto simp: keeps_sealed_def sealed_def save_setting_def dao_def set_db_def setting_get_def setting_set_def)
qed

text \<open>Every action, with the vault of its environment.\<close>

lemma key_text_sealed: "pred_option (sealed_text (he_vault E)) (key_text E k)"
  by (simp add: key_text_def)

lemma resync_seals: "act_rel (keeps_sealed (he_vault E)) (resyncModel E m)"
  unfolding resyncModel_def Let_def by (intro seals.hub_rules seals_services row_writes; simp)

lemma action_seals: "act_rel (keeps_sealed (he_vault E)) (run_hub E a)"
proof -
  note calls = seals_calls seals_services other_writes row_writes resync_seals seals.resync_rel
  show ?thesis
    by (cases a; simp only: run_hub.simps hub_action_defs Let_def model_event_def connection_event_def repushModel_def;
        intro seals.hub_rules calls; simp add: key_text_sealed)
qed

text \<open>
  What else runs beside these actions: whatever it does, it leaves their tables and the proxy's settings alone,
  since nothing else writes them.
\<close>

definition hub_rest :: "('vid, 'ch, 'cfg) hub \<Rightarrow> ('vid, 'ch, 'cfg) hub \<Rightarrow> bool" where
  "hub_rest h h' \<longleftrightarrow> hb_webhooks h' = hb_webhooks h \<and> hb_channels h' = hb_channels h \<and> hb_models h' = hb_models h
     \<and> pt_connections (hb_portal h') = pt_connections (hb_portal h) \<and> hb_calls h' = hb_calls h
     \<and> (\<forall>k \<in> {SETTING_litellmBaseUrl, SETTING_litellmMasterKeyEnc}. setting_get k (hb_db h') = setting_get k (hb_db h))"

inductive hub_reach :: "vault \<Rightarrow> ('vid, 'ch, 'cfg) hub \<Rightarrow> bool" for V where
  Start: "\<lbrakk>hb_channels h = []; hb_models h = []; pt_connections (hb_portal h) = [];
           setting_get SETTING_litellmMasterKeyEnc (hb_db h) = None\<rbrakk> \<Longrightarrow> hub_reach V h"
| Act: "\<lbrakk>hub_reach V h; he_vault E = V\<rbrakk> \<Longrightarrow> hub_reach V (snd (run_hub E a h))"
| Rest: "\<lbrakk>hub_reach V h; hub_rest h h'\<rbrakk> \<Longrightarrow> hub_reach V h'"

lemma hub_reach_sealed:
  fixes h :: "('vid, 'ch, 'cfg) hub"
  shows "hub_reach V h \<Longrightarrow> sealed V h"
proof (induction rule: hub_reach.induct)
  case (Act h E a)
  have "act_rel (keeps_sealed V) (run_hub E a :: ('vid, 'ch, 'cfg, unit) hact)" using action_seals [of E a] Act by simp
  with Act show ?case by (simp add: act_rel_def keeps_sealed_def)
qed (auto simp: sealed_def hub_rest_def)

text \<open>C32 (invariant). Credentials are never stored in the clear: in every reachable state the keys of models, the
  service addresses of channels and the secrets of identity providers are all texts of the vault, and so is the
  proxy's master key unless it was cleared.\<close>

theorem credentials_sealed:
  assumes "hub_reach V h"
  shows "\<Union> (set_option ` md_apiKeyEnc ` set (hb_models h)) \<subseteq> range (vt_encrypt V)
    \<and> nc_serviceUrls ` set (hb_channels h) \<subseteq> range (vt_encrypt V)
    \<and> sn_clientSecretEnc ` set (pt_connections (hb_portal h)) \<subseteq> range (vt_encrypt V)
    \<and> set_option (setting_get SETTING_litellmMasterKeyEnc (hb_db h)) \<subseteq> insert [] (range (vt_encrypt V))"
  using hub_reach_sealed [OF assms] by (auto simp: sealed_def sealed_text_def list_all_iff option.pred_set)

definition demo_created :: "(string, byte list, unit) hub" where
  "demo_created = snd (run_hub hub_demo_env (CreateModel demo_model_form) hub_start)"

interpretation still: hub_logic "\<lambda>h h'. hb_models h' = hb_models h"
  by unfold_locales auto

lemma still_models:
  fixes h :: "('vid, 'ch, 'cfg) hub"
  shows "hb_models (snd (andThen (syncToLiteLLM E p m b n k) (\<lambda>_. model_event E et sm extra x i) h)) = hb_models h"
proof -
  have "act_rel (\<lambda>h h'. hb_models h' = hb_models h)
     (andThen (syncToLiteLLM E p m b n k) (\<lambda>_. model_event E et sm extra x i) :: ('vid, 'ch, 'cfg, unit) hact)"
    unfolding syncToLiteLLM_def registerModel_def litellmFetch_def Let_def model_event_def hub_event_def record_event_def
    by (intro still.hub_rules still.fetching still.admin; simp add: Let_def)
  then show ?thesis by (simp add: act_rel_def)
qed

lemma demo_created_models: "map md_apiKeyEnc (hb_models demo_created) = [Some ''#k'']"
proof -
  have "hb_models demo_created = [\<lparr>md_id = ''n'', md_name = ''G'', md_description = None,
      md_provider = ''openai'', md_modelId = ''g'', md_baseUrl = ''u'',
      md_litellmModelName = Some (litellmModelNameFor ''openai'' ''G''), md_isActive = True, md_createdBy = Some ''did:h'',
      md_createdAt = he_now hub_demo_env, md_apiKeyEnc = key_text hub_demo_env (Some ''k'')\<rparr>]"
    unfolding demo_created_def run_hub.simps createModelAction_def Let_def demo_admin(1) demo_gate
    by (simp add: refuse_def hub_then model_create_def row_find_def still_models)
       (simp add: hub_start_def)
  then show ?thesis by (simp add: key_text_def demo_vault_def)
qed

theorem credentials_sealed_witness:
  "hub_reach demo_vault demo_created \<and> map md_apiKeyEnc (hb_models demo_created) = [Some ''#k'']
   \<and> \<Union> (set_option ` md_apiKeyEnc ` set (hb_models demo_created)) \<subseteq> range (vt_encrypt demo_vault)"
proof (intro conjI)
  have "hub_reach demo_vault hub_start"
    by (rule hub_reach.Start) (simp_all add: setting_get_def hub_start_def)
  then show "hub_reach demo_vault demo_created"
    unfolding demo_created_def by (rule hub_reach.Act) simp
  then show "\<Union> (set_option ` md_apiKeyEnc ` set (hb_models demo_created)) \<subseteq> range (vt_encrypt demo_vault)"
    by (rule conjunct1 [OF credentials_sealed])
qed (rule demo_created_models)

section \<open>The gate\<close>

text \<open>No integration is touched, and no request leaves the server for one, except for a session whose DID
  holds in the ledger, at that moment, an active and unexpired certificate for the whole console.\<close>

theorem only_admins_integrate:
  assumes "run_hub E a h = (r, h')" and "h' \<noteq> h \<or> r = Inr ()"
  shows "\<exists>did nm row. ae_session (he_admin E) = Some (did, nm) \<and> row \<in> set (tb_certs (hb_db h)) \<and> c_agentDid row = did
    \<and> c_status row = Active \<and> ''admin_console_access'' \<in> set (c_capabilities row)
    \<and> (case c_expiresAt row of None \<Rightarrow> True | Some e \<Rightarrow> he_now E < e)"
proof (cases "requireAdmin (he_admin E) (pt_console (hb_portal h))")
  case (Pair g c1)
  show ?thesis
  proof (cases g)
    case (Inl e)
    with Pair hub_gate_closed [of E h e c1 a] assms show ?thesis by auto
  next
    case (Inr by')
    with Pair have "requireAdmin (he_admin E) (pt_console (hb_portal h)) = (Inr by', c1)" by simp
    then obtain did nm row where s: "ae_session (he_admin E) = Some (did, nm)" "row \<in> set (tb_certs (hb_db h))"
        "c_agentDid row = did"
      and g: "grants \<lparr>ra_capability = ''admin_console_access'', ra_resource = None\<rparr> (he_now E) (toLite row)"
      by (rule gate_open)
    from g have "c_status row = Active \<and> ''admin_console_access'' \<in> set (c_capabilities row)
      \<and> (case c_expiresAt row of None \<Rightarrow> True | Some e \<Rightarrow> he_now E < e)"
      by (auto simp: grants_def isUsable_def toLite_def split: option.splits if_splits)
    with s show ?thesis by blast
  qed
qed

theorem only_admins_integrate_witness:
  "fst (run_hub hub_demo_env ClearLiteLLM hub_start) = Inr ()
   \<and> (\<exists>did nm row. ae_session desk_env = Some (did, nm) \<and> row \<in> set (tb_certs (hb_db hub_start)) \<and> c_agentDid row = did
     \<and> c_status row = Active \<and> ''admin_console_access'' \<in> set (c_capabilities row))"
proof
  show r: "fst (run_hub hub_demo_env ClearLiteLLM hub_start) = Inr ()"
    unfolding run_hub.simps clearLiteLLMConfigAction_def demo_admin(1) demo_gate
    by (simp add: andThen_def onAdmin_def save_setting_def dao_def)
  show "\<exists>did nm row. ae_session desk_env = Some (did, nm) \<and> row \<in> set (tb_certs (hb_db hub_start)) \<and> c_agentDid row = did
     \<and> c_status row = Active \<and> ''admin_console_access'' \<in> set (c_capabilities row)"
    using only_admins_integrate [OF surjective_pairing disjI2, OF r] unfolding demo_admin(1) by metis
qed

section \<open>The model proxy\<close>

definition model_actions :: "hub_action \<Rightarrow> bool" where
  "model_actions a = (case a of
     CreateModel f \<Rightarrow> True | UpdateModel f \<Rightarrow> True | ToggleModel f \<Rightarrow> True | DeleteModel f \<Rightarrow> True | SetModelAccess f \<Rightarrow> True
   | ResyncLiteLLM \<Rightarrow> True | _ \<Rightarrow> False)"

definition to_proxy :: "(string \<times> string) option \<Rightarrow> http_request \<Rightarrow> bool" where
  "to_proxy config rq \<longleftrightarrow>
     (case config of None \<Rightarrow> False
      | Some (base, key) \<Rightarrow> rq_url rq \<in> {base @ ''/model/new'', base @ ''/model/delete''} \<and> rq_auth rq = Some (''Bearer '' @ key))"

definition proxied :: "hub_env \<Rightarrow> ('vid, 'ch, 'cfg) hub \<Rightarrow> ('vid, 'ch, 'cfg) hub \<Rightarrow> bool" where
  "proxied E h h' \<longleftrightarrow> getLiteLLMConfig E h' = getLiteLLMConfig E h
     \<and> (\<exists>new. hb_calls h' = hb_calls h @ new \<and> list_all (to_proxy (getLiteLLMConfig E h)) new)"

interpretation prox: hub_logic "proxied E" for E :: hub_env
proof
  fix h :: "('a, 'b, 'c) hub"
  show "proxied E h h" unfolding proxied_def by (intro conjI refl exI [of _ "[]"]) simp_all
next
  fix h h' h'' :: "('a, 'b, 'c) hub"
  assume "proxied E h h'" "proxied E h' h''"
  then obtain l l' where "getLiteLLMConfig E h' = getLiteLLMConfig E h" "hb_calls h' = hb_calls h @ l"
    "list_all (to_proxy (getLiteLLMConfig E h)) l" "getLiteLLMConfig E h'' = getLiteLLMConfig E h'"
    "hb_calls h'' = hb_calls h' @ l'" "list_all (to_proxy (getLiteLLMConfig E h')) l'"
    by (auto simp: proxied_def)
  then show "proxied E h h''" unfolding proxied_def by (intro conjI exI [of _ "l @ l'"]) simp_all
qed

lemma proxied_same:
  "hb_calls h' = hb_calls h \<Longrightarrow> tb_settings (hb_db h') = tb_settings (hb_db h) \<Longrightarrow> proxied E h h'"
  unfolding proxied_def getLiteLLMConfig_def Let_def setting_get_def by (intro conjI exI [of _ "[]"]) simp_all

lemma prox_fetch:
  assumes "path \<in> {''/model/new'', ''/model/delete''}"
  shows "act_rel (proxied E) (litellmFetch E path body)"
  unfolding act_rel_def
proof
  fix h :: "('vid, 'ch, 'cfg) hub"
  show "proxied E h (snd (litellmFetch E path body h))"
  proof (cases "getLiteLLMConfig E h")
    case None
    then show ?thesis by (simp add: litellmFetch_def andThen_def reading_def throw_def prox.R_refl)
  next
    case (Some c)
    obtain base key where c: "c = (base, key)" by (cases c)
    let ?rq = "\<lparr>rq_post = True, rq_url = base @ path, rq_auth = Some (''Bearer '' @ key), rq_body = JsonBody body\<rparr>"
    have "snd (litellmFetch E path body h) = h\<lparr>hb_calls := hb_calls h @ [?rq]\<rparr>"
      using Some by (simp add: c litellmFetch_def andThen_def reading_def throw_def give_def fetch_def)
    moreover have "proxied E h (h\<lparr>hb_calls := hb_calls h @ [?rq]\<rparr>)"
      unfolding proxied_def using Some assms
      by (intro conjI exI [of _ "[?rq]"]) (auto simp: c to_proxy_def getLiteLLMConfig_def Let_def)
    ultimately show ?thesis by simp
  qed
qed

lemma prox_calls:
  "act_rel (proxied E) (onModels fm)"
  "act_rel (proxied E) (model_delete i)"
  "act_rel (proxied E) (grantWorkspaceAccess m w)"
  "act_rel (proxied E) (revokeWorkspaceAccess m w)"
  "act_rel (proxied E) (hub_event E' et pl by' tt ti)"
  by (auto simp: act_rel_def onModels_def onRows_def model_delete_def andThen_def grantWorkspaceAccess_def revokeWorkspaceAccess_def
      hub_event_def onAdmin_def record_event_def set_db_def recordEvent_def audit_create_def Let_def
      intro!: proxied_same split: sum.split)

lemma prox_services:
  "act_rel (proxied E) (removeModel E nm)"
  "act_rel (proxied E) (syncToLiteLLM E p m b n a)"
  "act_rel (proxied E) (resyncModel E sm)"
  unfolding removeModel_def syncToLiteLLM_def registerModel_def resyncModel_def Let_def
  by (intro prox.hub_rules prox_fetch prox_calls; simp)+

lemma model_actions_proxied: "model_actions a \<Longrightarrow> act_rel (proxied E) (run_hub E a)"
  by (cases a; simp only: model_actions_def hub_action.case run_hub.simps hub_action_defs Let_def model_event_def repushModel_def;
      intro prox.hub_rules prox_calls prox_services prox.resync_rel; simp)

text \<open>The registry's credentials leave the server for one place: every request an action on models makes goes
  to one of the two management routes of the proxy that is configured at that time, under its master key, whatever
  the rows hold and whatever the proxy answers; without a proxy nothing is sent at all.\<close>

theorem model_keys_go_to_proxy:
  assumes "model_actions a" and "run_hub E a h = (r, h')"
  shows "\<exists>new. hb_calls h' = hb_calls h @ new
    \<and> (case getLiteLLMConfig E h of
         None \<Rightarrow> new = []
       | Some (base, key) \<Rightarrow> rq_url ` set new \<subseteq> {base @ ''/model/new'', base @ ''/model/delete''}
           \<and> rq_auth ` set new \<subseteq> {Some (''Bearer '' @ key)})"
proof -
  have "proxied E h h'" using model_actions_proxied [OF assms(1), of E] assms(2) by (auto simp: act_rel_def dest: spec [of _ h])
  then obtain new where n: "hb_calls h' = hb_calls h @ new" "list_all (to_proxy (getLiteLLMConfig E h)) new"
    by (auto simp: proxied_def)
  show ?thesis
  proof (cases "getLiteLLMConfig E h")
    case None
    with n show ?thesis by (cases new) (auto simp: to_proxy_def)
  next
    case (Some c)
    obtain base key where c: "c = (base, key)" by (cases c)
    from n(2) have "list_all (\<lambda>rq. rq_url rq \<in> {base @ ''/model/new'', base @ ''/model/delete''} \<and> rq_auth rq = Some (''Bearer '' @ key)) new"
      unfolding Some c to_proxy_def by simp
    then show ?thesis using n(1) unfolding Some c by (intro exI [of _ new]) (auto simp: list_all_iff)
  qed
qed

theorem model_keys_go_to_proxy_witness:
  "map rq_url (hb_calls (snd (run_hub hub_demo_env (DeleteModel demo_model_form) hub_with_model))) = [''http://p/model/delete'']
   \<and> (\<exists>new. hb_calls (snd (run_hub hub_demo_env (DeleteModel demo_model_form) hub_with_model)) = hb_calls hub_with_model @ new
        \<and> rq_auth ` set new \<subseteq> {Some ''Bearer mk''})"
proof
  let ?h = "snd (run_hub hub_demo_env (DeleteModel demo_model_form) hub_with_model)"
  have config: "getLiteLLMConfig hub_demo_env hub_with_model = Some (''http://p'', ''mk'')" by simp
  show "map rq_url (hb_calls ?h) = [''http://p/model/delete'']"
    unfolding run_hub.simps deleteModelAction_def Let_def demo_admin(1) demo_gate
    by (simp add: reading_def andThen_def remove_runs model_delete_def onModels_def onRows_def model_findById_def row_find_def
        hub_with_model_def demo_model_def toSafe_def row_delete_def delete_request_def hub_start_def)
  show "\<exists>new. hb_calls ?h = hb_calls hub_with_model @ new \<and> rq_auth ` set new \<subseteq> {Some ''Bearer mk''}"
    using model_keys_go_to_proxy [of "DeleteModel demo_model_form" hub_demo_env hub_with_model, OF _ surjective_pairing]
    unfolding config by (auto simp: model_actions_def)
qed

end
