(* ===== verification/HubEffects.thy ===== *)
theory HubEffects
  imports HubSafety
begin

text \<open>
  What single actions on integrations do: the proxy's answers decide nothing that is stored, an edit of a model
  pushes exactly the requests it should, and an identity provider is stored only when nothing conclusive
  speaks against it.
\<close>

section \<open>Runs that differ in the requests only\<close>

text \<open>Two calls that end alike, up to a relation of their results, and leave alike states but for the history.\<close>

definition sim ::
  "('a \<Rightarrow> 'b \<Rightarrow> bool) \<Rightarrow> ('vid, 'ch, 'cfg, 'a) hact \<Rightarrow> ('vid, 'ch, 'cfg, 'b) hact \<Rightarrow> bool" where
  "sim P m m' \<longleftrightarrow> (\<forall>h cs. rel_sum (=) P (fst (m h)) (fst (m' (h\<lparr>hb_calls := cs\<rparr>)))
     \<and> (\<exists>cs'. snd (m' (h\<lparr>hb_calls := cs\<rparr>)) = (snd (m h))\<lparr>hb_calls := cs'\<rparr>))"

lemma sim_pure:
  "P x y \<Longrightarrow> sim P (give x) (give y)"
  "sim P (throw e) (throw e)"
  "(\<And>h cs. Q (g h) (g' (h\<lparr>hb_calls := cs\<rparr>))) \<Longrightarrow> sim Q (reading g) (reading g')"
  by (auto simp: sim_def give_def throw_def reading_def)

lemma sim_andThen:
  assumes "sim P m m'" and "\<And>x y. P x y \<Longrightarrow> sim Q (k x) (k' y)"
  shows "sim Q (andThen m k) (andThen m' k')"
  unfolding sim_def
proof (intro allI)
  fix h cs
  obtain r s where m: "m h = (r, s)" by (cases "m h")
  obtain r' s' where m': "m' (h\<lparr>hb_calls := cs\<rparr>) = (r', s')" by (cases "m' (h\<lparr>hb_calls := cs\<rparr>)")
  from assms(1) m m' obtain cs' where r: "rel_sum (=) P r r'" and s: "s' = s\<lparr>hb_calls := cs'\<rparr>"
    unfolding sim_def by (metis fst_conv snd_conv)
  from r show "rel_sum (=) Q (fst (andThen m k h)) (fst (andThen m' k' (h\<lparr>hb_calls := cs\<rparr>)))
     \<and> (\<exists>cs'. snd (andThen m' k' (h\<lparr>hb_calls := cs\<rparr>)) = (snd (andThen m k h))\<lparr>hb_calls := cs'\<rparr>)"
  proof cases
    case (1 e e')
    then show ?thesis using m m' s by (auto simp: andThen_def)
  next
    case (2 x y)
    with assms(2) [of x y] have "sim Q (k x) (k' y)" by simp
    then show ?thesis using 2 m m' s by (simp add: andThen_def sim_def)
  qed
qed

lemma sim_cases:
  "sim P m m' \<Longrightarrow> sim P (refuse b e m) (refuse b e m')"
  "sim P m1 m1' \<Longrightarrow> sim P m2 m2' \<Longrightarrow> sim P (if b then m1 else m2) (if b then m1' else m2')"
  "sim P m m' \<Longrightarrow> (\<And>x. sim P (g x) (g' x)) \<Longrightarrow> sim P (case ov of None \<Rightarrow> m | Some x \<Rightarrow> g x) (case ov of None \<Rightarrow> m' | Some x \<Rightarrow> g' x)"
  "(\<And>x. sim P (g x) (g' x)) \<Longrightarrow> sim P (let x = v in g x) (let x = v in g' x)"
  by (simp_all add: refuse_def sim_pure split: option.split)

lemma sim_same: "(\<And>h cs. m (h\<lparr>hb_calls := cs\<rparr>) = (fst (m h), (snd (m h))\<lparr>hb_calls := cs\<rparr>)) \<Longrightarrow> sim (=) m m"
  unfolding sim_def by (auto intro: sum.rel_refl)

lemma sim_calls:
  "sim (=) (onAdmin ma) (onAdmin ma)"
  "sim (=) (onModels fm) (onModels fm)"
  "sim (=) (model_delete i) (model_delete i)"
  "sim (=) (grantWorkspaceAccess m w) (grantWorkspaceAccess m w)"
  "sim (=) (revokeWorkspaceAccess m w) (revokeWorkspaceAccess m w)"
  by (rule sim_same; simp add: onAdmin_def onModels_def onRows_def model_delete_def andThen_def grantWorkspaceAccess_def
      revokeWorkspaceAccess_def split: prod.split sum.split)+

text \<open>What only makes requests, and always returns.\<close>

definition requests_only :: "('vid, 'ch, 'cfg) hub \<Rightarrow> ('vid, 'ch, 'cfg) hub \<Rightarrow> bool" where
  "requests_only h h' \<longleftrightarrow> (\<exists>cs. h' = h\<lparr>hb_calls := cs\<rparr>)"

interpretation reqs: hub_logic requests_only
proof
  show "requests_only h h" for h :: "('a, 'b, 'c) hub"
    unfolding requests_only_def by (rule exI [of _ "hb_calls h"]) simp
qed (auto simp: requests_only_def)

lemma reqs_fetch: "act_rel requests_only (fetch E rq)"
  by (rule reqs.fetching) (auto simp: requests_only_def)

lemma reqs_services:
  "act_rel requests_only (besteffort (removeModel E nm))"
  "act_rel requests_only (syncToLiteLLM E p m b n k)"
  unfolding removeModel_def syncToLiteLLM_def registerModel_def litellmFetch_def
  by (intro reqs.hub_rules reqs_fetch)+

lemma returns:
  "\<exists>x. fst (besteffort m h) = Inr x"
  "\<exists>x. fst (syncToLiteLLM E p mo b n k h) = Inr x"
  by (auto simp: besteffort_def syncToLiteLLM_def catching_def give_def andThen_def reading_def split: prod.split sum.split)

lemma sim_silent:
  assumes "act_rel requests_only m" "act_rel requests_only m'" "\<And>h. \<exists>x. fst (m h) = Inr x" "\<And>h. \<exists>x. fst (m' h) = Inr x"
  shows "sim (\<lambda>_ _. True) m m'"
  unfolding sim_def
proof (intro allI)
  fix h cs
  from assms(1) obtain a where "snd (m h) = h\<lparr>hb_calls := a\<rparr>" by (auto simp: act_rel_def requests_only_def)
  moreover from assms(2) obtain b where "snd (m' (h\<lparr>hb_calls := cs\<rparr>)) = h\<lparr>hb_calls := cs\<rparr>\<lparr>hb_calls := b\<rparr>"
    unfolding act_rel_def requests_only_def by blast
  moreover from assms(3,4) obtain x y where "fst (m h) = Inr x" "fst (m' (h\<lparr>hb_calls := cs\<rparr>)) = Inr y" by blast
  ultimately show "rel_sum (=) (\<lambda>_ _. True) (fst (m h)) (fst (m' (h\<lparr>hb_calls := cs\<rparr>)))
     \<and> (\<exists>cs'. snd (m' (h\<lparr>hb_calls := cs\<rparr>)) = (snd (m h))\<lparr>hb_calls := cs'\<rparr>)"
    by (auto intro: exI [of _ b])
qed

lemmas sim_services = sim_silent [OF reqs_services(1) reqs_services(1) returns(1) returns(1)]
  sim_silent [OF reqs_services(2) reqs_services(2) returns(2) returns(2)]

lemma other_answers [simp]:
  "getLiteLLMConfig (E\<lparr>he_http := g\<rparr>) = getLiteLLMConfig E" "stored_key (E\<lparr>he_http := g\<rparr>) = stored_key E"
  "key_text (E\<lparr>he_http := g\<rparr>) = key_text E" "model_event (E\<lparr>he_http := g\<rparr>) = model_event E"
  "hub_event (E\<lparr>he_http := g\<rparr>) = hub_event E" "isLiteLLMConfigured (E\<lparr>he_http := g\<rparr>) = isLiteLLMConfigured E"
  by (intro ext; simp add: getLiteLLMConfig_def stored_key_def key_text_def model_event_def hub_event_def isLiteLLMConfigured_def
      cong: if_cong option.case_cong)+

lemma blind_reads [simp]:
  "model_findById i (h\<lparr>hb_calls := cs\<rparr>) = model_findById i h" "stored_key E i (h\<lparr>hb_calls := cs\<rparr>) = stored_key E i h"
  "model_list (h\<lparr>hb_calls := cs\<rparr>) = model_list h" "isLiteLLMConfigured E (h\<lparr>hb_calls := cs\<rparr>) = isLiteLLMConfigured E h"
  by (simp_all add: model_findById_def stored_key_def model_findByIdWithSecret_def model_list_def isLiteLLMConfigured_def
      getLiteLLMConfig_def)

lemma sim_reading: "(\<And>h cs. g' (h\<lparr>hb_calls := cs\<rparr>) = g h) \<Longrightarrow> sim (=) (reading g) (reading g')"
  by (rule sim_pure) simp

lemma sim_event:
  "sim (=) (hub_event E et pl by' tt i) (hub_event E et pl by' tt i)"
  "sim (=) (model_event E et m x by' i) (model_event E et m x by' i)"
  unfolding model_event_def hub_event_def by (rule sim_calls)+

lemma sim_eq_then: "sim (=) m m' \<Longrightarrow> (\<And>x. sim Q (k x) (k' x)) \<Longrightarrow> sim Q (andThen m k) (andThen m' k')"
  by (erule sim_andThen) simp

lemma sim_any_then: "sim (\<lambda>_ _. True) m m' \<Longrightarrow> (\<And>x y. sim Q (k x) (k' y)) \<Longrightarrow> sim Q (andThen m k) (andThen m' k')"
  by (erule sim_andThen)

lemma sim_done: "sim (=) (give x) (give x)" "sim (=) (throw e) (throw e)" "sim (\<lambda>_ _. True) (give y) (give z)"
  by (simp_all add: sim_pure)

lemmas sim_rules = sim_done sim_reading sim_event sim_calls sim_cases sim_services

lemma sim_repush: "sim (\<lambda>_ _. True) (repushModel E b u k) (repushModel (E\<lparr>he_http := g\<rparr>) b u k)"
  unfolding repushModel_def Let_def
  by (rule sim_eq_then, rule sim_reading, simp, rule sim_any_then) (intro sim_rules)+

lemma sim_resync: "sim (\<lambda>_ _. True) (resyncModel E m) (resyncModel (E\<lparr>he_http := g\<rparr>) m)"
  unfolding resyncModel_def Let_def
  by (intro sim_rules) (rule sim_eq_then, (intro sim_rules sim_eq_then)[1], rule sim_eq_then, rule sim_reading, simp,
      rule sim_any_then, (intro sim_rules)+)


lemma sim_resync_all: "sim (\<lambda>_ _. True) (resync_all E ms c) (resync_all (E\<lparr>he_http := g\<rparr>) ms d)"
proof (induction ms arbitrary: c d)
  case (Cons m ms)
  obtain p q p' q' where cd: "c = (p, q)" "d = (p', q')" by (cases c; cases d) auto
  show ?case unfolding cd resync_all.simps by (rule sim_any_then [OF sim_resync Cons.IH])
qed (simp add: sim_pure)

text \<open>The calls of an action, those whose result is dropped first.\<close>

lemma sim_remove: "sim (=) (besteffort (removeModel E nm)) (besteffort (removeModel E' nm))"
proof -
  have "(\<lambda>_ _. True) = ((=) :: unit \<Rightarrow> unit \<Rightarrow> bool)" by (intro ext) simp
  with sim_services(1) [of E nm E' nm] show ?thesis by simp
qed

lemmas sim_steps =
  sim_any_then [OF sim_services(2)] sim_any_then [OF sim_cases(2) [OF sim_repush sim_done(3)]]
  sim_any_then [OF sim_resync_all] sim_eq_then sim_remove sim_rules

lemma http_only [simp]:
  "he_admin (E\<lparr>he_http := g\<rparr>) = he_admin E" "he_id (E\<lparr>he_http := g\<rparr>) = he_id E"
  by simp_all

lemma sim_forget: "sim (\<lambda>_ _. True) m m' \<Longrightarrow> sim (=) (forget m) (forget m')"
  unfolding forget_def by (erule sim_any_then) (rule sim_done)

lemma sim_resync_action: "sim (\<lambda>_ _. True) (resyncLiteLLMAction E) (resyncLiteLLMAction (E\<lparr>he_http := g\<rparr>))"
  unfolding resyncLiteLLMAction_def http_only other_answers by (intro sim_steps; simp add: sim_resync_all)

lemma sim_actions: "model_actions a \<Longrightarrow> sim (=) (run_hub E a) (run_hub (E\<lparr>he_http := g\<rparr>) a)"
  by (cases a; simp only: model_actions_def hub_action.case run_hub.simps hub_action_defs(10-14) Let_def
      http_only other_answers; (intro sim_steps sim_forget sim_resync_action)?; simp?)


section \<open>The proxy decides nothing that is stored\<close>

text \<open>C34 (equivalence). The database is the source of truth: for every action on models the outcome and all that it stores
  are the same whatever the proxy answers, or fails to answer, to any of its requests; only the list of
  requests made can differ.\<close>

theorem proxy_failure_harmless:
  assumes "model_actions a"
  shows "fst (run_hub (E\<lparr>he_http := g\<rparr>) a h) = fst (run_hub E a h)
    \<and> (snd (run_hub (E\<lparr>he_http := g\<rparr>) a h))\<lparr>hb_calls := []\<rparr> = (snd (run_hub E a h))\<lparr>hb_calls := []\<rparr>"
proof -
  have "h\<lparr>hb_calls := hb_calls h\<rparr> = h" by simp
  with sim_actions [OF assms, of E g] show ?thesis
    unfolding sim_def sum.rel_eq by (metis hub.update_convs(6) hub.surjective)
qed

theorem proxy_failure_harmless_witness:
  "fst (run_hub (hub_demo_env\<lparr>he_http := \<lambda>_ _. NoAnswer\<rparr>) (DeleteModel demo_model_form) hub_with_model)
     = fst (run_hub hub_demo_env (DeleteModel demo_model_form) hub_with_model)
   \<and> hb_models (snd (run_hub (hub_demo_env\<lparr>he_http := \<lambda>_ _. NoAnswer\<rparr>) (DeleteModel demo_model_form) hub_with_model)) = []"
proof -
  let ?run = "\<lambda>E. run_hub E (DeleteModel demo_model_form) hub_with_model"
  have "hb_models (snd (?run hub_demo_env)) = []"
    unfolding run_hub.simps deleteModelAction_def Let_def demo_admin(1) demo_gate
    by (simp add: reading_def andThen_def remove_runs model_delete_def onModels_def onRows_def model_findById_def row_find_def
        hub_with_model_def demo_model_def toSafe_def row_delete_def hub_start_def)
  moreover note proxy_failure_harmless [where a = "DeleteModel demo_model_form" and E = hub_demo_env and g = "\<lambda>_ _. NoAnswer" and h = hub_with_model]
  ultimately show ?thesis by (simp add: model_actions_def) (metis hub.update_convs(6) hub.surjective hub.select_convs(4))
qed

section \<open>An edit of a model\<close>

lemma repush_runs:
  fixes h :: "('vid, 'ch, 'cfg) hub"
  assumes "getLiteLLMConfig E h = Some config" and "isRoutableThroughLiteLLM (md_provider updated)"
    and "md_litellmModelName before = Some old" "old \<noteq> []" "md_litellmModelName updated = Some new" "new \<noteq> []"
  shows "\<exists>ok. repushModel E before updated apiKey h = (Inr ok, h\<lparr>hb_calls := hb_calls h @
     (if new = old then [] else [delete_request config old]) @
     [register_request config \<lparr>rp_modelName = new, rp_litellmModel = ''openai/'' @ md_modelId updated,
        rp_apiBase = md_baseUrl updated, rp_apiKey = (if truthy apiKey then apiKey else stored_key E (md_id before) h)\<rparr>]\<rparr>)"
proof -
  have c: "getLiteLLMConfig E (h\<lparr>hb_calls := cs\<rparr>) = Some config" for cs
    using assms(1) by (simp add: getLiteLLMConfig_def)
  have push: "syncToLiteLLM E (md_provider updated) mo b (Some new) k hh =
      (Inr (res_ok (he_http E (length (hb_calls hh)) rq)), hh\<lparr>hb_calls := hb_calls hh @ [rq]\<rparr>)"
    if "getLiteLLMConfig E hh = Some config"
      "rq = register_request config \<lparr>rp_modelName = new, rp_litellmModel = ''openai/'' @ mo, rp_apiBase = b, rp_apiKey = k\<rparr>"
    for hh :: "('vid, 'ch, 'cfg) hub" and mo b k rq
    using that assms by (intro sync_runs) (simp_all add: truthy_def text_of_def)
  show ?thesis
    using assms(3-6)
    by (simp add: repushModel_def then_runs Let_def andThen_def [of "besteffort _"] remove_runs [OF assms(1)] push [OF assms(1) refl]
        push [OF c refl] truthy_def text_of_def)
qed

text \<open>An edit is the write, the push where one is due, and the event, which calls nobody and writes no row.\<close>

definition edited :: "hub_env \<Rightarrow> form \<Rightarrow> safe_model \<Rightarrow> model_row \<Rightarrow> model_row" where
  "edited E f before m =
     m\<lparr>md_name := text_of (form_trim f ''name''), md_description := or_null (form_trim f ''description''),
       md_modelId := text_of (form_trim f ''modelId''), md_baseUrl := text_of (form_trim f ''baseUrl''),
       md_apiKeyEnc := (if truthy (form_trim f ''apiKey'') then key_text E (form_trim f ''apiKey'') else md_apiKeyEnc m),
       md_litellmModelName := (if truthy (md_litellmModelName before)
         then Some (litellmModelNameFor (md_provider before) (text_of (form_trim f ''name''))) else md_litellmModelName m)\<rparr>"

lemma edit_runs:
  fixes h :: "('vid, 'ch, 'cfg) hub"
  assumes gate: "requireAdmin (he_admin E) (pt_console (hb_portal h)) = (Inr by', pt_console (hb_portal h))"
    and row: "row_find md_id (text_of (form_get f ''id'')) (hb_models h) = Some m"
    and filled: "text_of (form_get f ''id'') \<noteq> []" "truthy (form_trim f ''name'')" "truthy (form_trim f ''modelId'')"
  defines "before \<equiv> toSafe (hb_access h) m"
  shows "\<exists>k. run_hub E (UpdateModel f) h = andThen
      (if changed_routing before (edited E f before m) f
       then repushModel E before (edited E f before m) (form_trim f ''apiKey'') else give False) k
      (h\<lparr>hb_models := row_map (\<lambda>r. md_id r = text_of (form_get f ''id'')) (edited E f before) (hb_models h)\<rparr>)
    \<and> (\<forall>x h. fst (k x h) = Inr () \<and> hb_calls (snd (k x h)) = hb_calls h \<and> hb_models (snd (k x h)) = hb_models h)"
proof -
  have found: "model_findById (text_of (form_get f ''id'')) h = Some before"
    using row by (simp add: model_findById_def before_def)
  have upd: "model_update (text_of (form_get f ''id'')) (edited E f before) (hb_models h) =
      Inr (edited E f before m, row_map (\<lambda>r. md_id r = text_of (form_get f ''id'')) (edited E f before) (hb_models h))"
    using row by (simp add: model_update_def row_update_def)
  show ?thesis
    unfolding run_hub.simps updateModelAction_def Let_def hub_gate_open [OF gate] edited_def [symmetric]
    unfolding refuse_def using filled
    by (simp only: simp_thms if_False then_runs found option.case edited_def [symmetric] hub_then upd sum.case prod.case)
       (rule exI, rule conjI, rule refl, simp add: then_runs)
qed

text \<open>C35 (functional). Editing a model that the proxy knows makes exactly the calls the edit needs. Where neither the
  endpoint, the model id, the name nor the key changes, there is none. Otherwise the new registration is pushed, after the
  registration under the previous name is removed when the name moved; it carries the key just typed, or the stored
  one where the field was left blank, in the clear. A blank field keeps the stored key, and the row always ends with the
  name derived from the new one.\<close>

theorem model_edit_pushes:
  fixes h :: "('vid, 'ch, 'cfg) hub"
  assumes gate: "requireAdmin (he_admin E) (pt_console (hb_portal h)) = (Inr by', pt_console (hb_portal h))"
    and row: "row_find md_id (text_of (form_get f ''id'')) (hb_models h) = Some m"
    and filled: "text_of (form_get f ''id'') \<noteq> []" "truthy (form_trim f ''name'')" "truthy (form_trim f ''modelId'')"
    and routed: "md_litellmModelName m = Some old" "old \<noteq> []" "isRoutableThroughLiteLLM (md_provider m)"
    and config: "getLiteLLMConfig E h = Some config"
  defines "new \<equiv> litellmModelNameFor (md_provider m) (text_of (form_trim f ''name''))"
    and "key \<equiv> form_trim f ''apiKey''"
    and "h' \<equiv> snd (run_hub E (UpdateModel f) h)"
  shows "fst (run_hub E (UpdateModel f) h) = Inr ()
    \<and> hb_calls h' = hb_calls h @
       (if new = old \<and> text_of (form_trim f ''baseUrl'') = md_baseUrl m \<and> form_trim f ''modelId'' = Some (md_modelId m) \<and> \<not> truthy key
        then []
        else (if new = old then [] else [delete_request config old]) @
          [register_request config \<lparr>rp_modelName = new, rp_litellmModel = ''openai/'' @ text_of (form_trim f ''modelId''),
             rp_apiBase = text_of (form_trim f ''baseUrl''),
             rp_apiKey = (if truthy key then key else Option.bind (or_null (md_apiKeyEnc m)) (vt_decrypt (he_vault E)))\<rparr>])
    \<and> map_option (\<lambda>r. (md_apiKeyEnc r, md_litellmModelName r)) (row_find md_id (text_of (form_get f ''id'')) (hb_models h'))
       = Some (if truthy key then Some (vt_encrypt (he_vault E) (text_of key)) else md_apiKeyEnc m, Some new)"
proof -
  let ?before = "toSafe (hb_access h) m"
  let ?m = "edited E f ?before m" and ?i = "text_of (form_get f ''id'')"
  let ?h = "h\<lparr>hb_models := row_map (\<lambda>r. md_id r = ?i) (edited E f ?before) (hb_models h)\<rparr>"
  obtain k where run: "run_hub E (UpdateModel f) h = andThen (if changed_routing ?before ?m f
       then repushModel E ?before ?m (form_trim f ''apiKey'') else give False) k ?h"
    and k: "\<And>x h. fst (k x h) = Inr ()" "\<And>x h. hb_calls (snd (k x h)) = hb_calls h" "\<And>x h. hb_models (snd (k x h)) = hb_models h"
    using edit_runs [OF gate row filled] by blast
  have stays: "row_find md_id ?i (hb_models ?h) = Some ?m" and mi: "md_id m = ?i"
    using row row_find_Some_D [OF row] by (simp_all add: row_find_map edited_def)
  have cols: "md_litellmModelName ?m = Some new" "md_provider ?m = md_provider m" "md_modelId ?m = text_of (form_trim f ''modelId'')"
      "md_baseUrl ?m = text_of (form_trim f ''baseUrl'')"
      "md_apiKeyEnc ?m = (if truthy key then Some (vt_encrypt (he_vault E) (text_of key)) else md_apiKeyEnc m)"
      "md_litellmModelName ?before = Some old" "new \<noteq> []"
    using routed by (simp_all add: edited_def toSafe_def new_def key_def truthy_def text_of_def key_text_def litellmModelNameFor_def Let_def)
  have sto: "stored_key E (md_id ?before) ?h = Option.bind (or_null (md_apiKeyEnc ?m)) (vt_decrypt (he_vault E))"
    using stays mi by (simp add: stored_key_def model_findByIdWithSecret_def toSafe_def or_null_def truthy_def text_of_def
      split: option.split)
  have conf: "getLiteLLMConfig E ?h = Some config" using config by (simp add: getLiteLLMConfig_def)
  obtain ok where push: "repushModel E ?before ?m (form_trim f ''apiKey'') ?h = (Inr ok, ?h\<lparr>hb_calls := hb_calls ?h @
     (if new = old then [] else [delete_request config old]) @
     [register_request config \<lparr>rp_modelName = new, rp_litellmModel = ''openai/'' @ md_modelId ?m,
        rp_apiBase = md_baseUrl ?m, rp_apiKey = (if truthy key then key else stored_key E (md_id ?before) ?h)\<rparr>]\<rparr>)"
    using repush_runs [OF conf _ cols(6) routed(2) cols(1,7)] routed(3) cols(2) unfolding key_def by metis
  have changed: "changed_routing ?before ?m f \<longleftrightarrow>
     \<not> (new = old \<and> text_of (form_trim f ''baseUrl'') = md_baseUrl m \<and> form_trim f ''modelId'' = Some (md_modelId m) \<and> \<not> truthy key)"
    using cols(1,6) routed(1) by (auto simp: changed_routing_def toSafe_def key_def)
  show ?thesis
  proof (cases "changed_routing ?before ?m f")
    case True
    then have "run_hub E (UpdateModel f) h = k ok (?h\<lparr>hb_calls := hb_calls ?h @
       (if new = old then [] else [delete_request config old]) @
       [register_request config \<lparr>rp_modelName = new, rp_litellmModel = ''openai/'' @ md_modelId ?m,
          rp_apiBase = md_baseUrl ?m, rp_apiKey = (if truthy key then key else stored_key E (md_id ?before) ?h)\<rparr>]\<rparr>)"
      unfolding run by (simp only: if_True andThen_def [of "repushModel _ _ _ _"] push prod.case sum.case)
    then show ?thesis unfolding h'_def using True k stays cols sto by (simp add: changed)
  next
    case False
    then have "run_hub E (UpdateModel f) h = k False ?h" unfolding run by (simp add: then_runs)
    then show ?thesis unfolding h'_def using False k stays cols by (simp add: changed)
  qed
qed

definition demo_edit_form :: form where
  "demo_edit_form = [(''id'', ''m''), (''name'', ''H''), (''modelId'', ''g''), (''baseUrl'', ''u'')]"

theorem model_edit_pushes_witness:
  "map rq_url (hb_calls (snd (run_hub hub_demo_env (UpdateModel demo_edit_form) hub_with_model)))
     = [''http://p/model/delete'', ''http://p/model/new'']
   \<and> map_option md_apiKeyEnc (row_find md_id ''m'' (hb_models (snd (run_hub hub_demo_env (UpdateModel demo_edit_form) hub_with_model))))
     = Some (Some ''#k'')"
proof -
  have form: "form_trim demo_edit_form ''name'' = Some ''H''" "form_trim demo_edit_form ''modelId'' = Some ''g''"
    "form_trim demo_edit_form ''baseUrl'' = Some ''u''" "form_trim demo_edit_form ''apiKey'' = None" "form_get demo_edit_form ''id'' = Some ''m''"
    by (simp_all add: demo_edit_form_def form_eval)
  have row: "row_find md_id (text_of (form_get demo_edit_form ''id'')) (hb_models hub_with_model) = Some demo_model"
    by (simp add: form hub_with_model_def demo_model_def row_find_def)
  have cols: "md_litellmModelName demo_model = Some ''openai/g''" "''openai/g'' \<noteq> []" "isRoutableThroughLiteLLM (md_provider demo_model)"
    "md_apiKeyEnc demo_model = Some ''#k''"
    by (simp_all add: demo_model_def)
  have config: "getLiteLLMConfig hub_demo_env hub_with_model = Some (''http://p'', ''mk'')" by (simp add: hub_with_model_def hub_start_def)
  have new: "litellmModelNameFor (md_provider demo_model) ''H'' \<noteq> ''openai/g''"
    unfolding demo_model_def by code_simp
  have "requireAdmin (he_admin hub_demo_env) (pt_console (hb_portal hub_with_model)) = (Inr demo_by, pt_console (hb_portal hub_with_model))"
    by (simp add: desk_run)
  note edit = model_edit_pushes [OF this row _ _ _ cols(1-3) config]
  have calls: "hb_calls hub_with_model = []" by (simp add: hub_with_model_def hub_start_def)
  from edit new calls show ?thesis
    by (auto simp: form cols delete_request_def register_request_def)
qed

section \<open>Where the code departs from what it says\<close>

text \<open>Only creation insists on a secure address.\<close>

lemma plain_address_by_edit:
  "fst (createWebhookAction hub_demo_env [(''name'', ''n''), (''url'', ''http://e'')] hub_start) = Inl (BadForm NeedsHttps)"
  "wb_id w = ''w'' \<Longrightarrow>
     map wb_url (hb_webhooks (snd (updateWebhookAction hub_demo_env [(''id'', ''w''), (''name'', ''n''), (''url'', ''http://e'')]
        (hub_start\<lparr>hb_webhooks := [w]\<rparr>)))) = [''http://e'']"
  by (simp_all add: createWebhookAction_def updateWebhookAction_def Let_def demo_gate_any form_eval url_allowed_def starts_with_def refuse_def throw_def)
     (simp add: andThen_def onWebhooks_def onRows_def webhook_update_def row_update_def row_find_def row_map_def give_def)

text \<open>The properties every object inherits pass for providers.\<close>

lemma inherited_provider: "isKnownProvider (Some ''constructor'') \<and> isRoutableThroughLiteLLM ''constructor''"
  by (simp add: isRoutableThroughLiteLLM_def isKnownProvider_def isSdkAgentProvider_def SDK_AGENT_PROVIDERS_def
      OBJECT_PROTOTYPE_def)

text \<open>Two models can have one name at the proxy, where removing one removes the other.\<close>

lemma proxy_name_shared: "litellmModelNameFor ''openai'' ''g 4'' = litellmModelNameFor ''openai'' ''g-4''"
  by code_simp

text \<open>A model that is switched off stays registered: the toggle calls nobody.\<close>

interpretation quiet: hub_logic "\<lambda>h h'. hb_calls h' = hb_calls h"
  by unfold_locales auto

lemma toggle_calls_nobody:
  fixes h :: "('vid, 'ch, 'cfg) hub"
  shows "hb_calls (snd (run_hub E (ToggleModel f) h)) = hb_calls h"
proof -
  have "act_rel (\<lambda>h h' :: ('vid, 'ch, 'cfg) hub. hb_calls h' = hb_calls h) (run_hub E (ToggleModel f))"
    unfolding run_hub.simps toggleModelActiveAction_def Let_def
    by (intro quiet.hub_rules quiet.rows; simp add: act_rel_def)
  then show ?thesis by (simp add: act_rel_def)
qed

text \<open>Without a proxy, where nothing is pushed, a model still gets the name that is to say it was.\<close>

definition no_proxy_env :: hub_env where
  "no_proxy_env = hub_demo_env\<lparr>he_litellmUrl := None\<rparr>"

lemma name_without_proxy:
  "map md_litellmModelName (hb_models (snd (run_hub no_proxy_env (CreateModel demo_model_form) hub_start)))
     = [Some (litellmModelNameFor ''openai'' ''G'')]
   \<and> getLiteLLMConfig no_proxy_env hub_start = None"
proof
  have env: "he_admin no_proxy_env = desk_env" by (simp add: no_proxy_env_def)
  show "map md_litellmModelName (hb_models (snd (run_hub no_proxy_env (CreateModel demo_model_form) hub_start)))
     = [Some (litellmModelNameFor ''openai'' ''G'')]"
    unfolding run_hub.simps createModelAction_def Let_def env demo_gate
    by (simp add: refuse_def hub_then model_create_def row_find_def still_models) (simp add: hub_start_def)
  show "getLiteLLMConfig no_proxy_env hub_start = None"
    by (simp add: getLiteLLMConfig_def or_else_def truthy_def text_of_def no_proxy_env_def hub_demo_env_def setting_get_def Let_def)
qed

text \<open>A key that does not open is left out of the push, which then counts as done.\<close>

definition lost_model :: model_row where
  "lost_model = demo_model\<lparr>md_apiKeyEnc := Some ''sealed elsewhere''\<rparr>"

lemma keyless_push:
  "resyncModel hub_demo_env (toSafe [] lost_model) (hub_start\<lparr>hb_models := [lost_model]\<rparr>) =
     (Inr (Some True), hub_start\<lparr>hb_models := [lost_model], hb_calls := [register_request (''http://p'', ''mk'')
        \<lparr>rp_modelName = ''openai/g'', rp_litellmModel = ''openai/g'', rp_apiBase = ''u'', rp_apiKey = None\<rparr>]\<rparr>)"
proof -
  have "stored_key hub_demo_env ''m'' (hub_start\<lparr>hb_models := [lost_model]\<rparr>) = None"
    by (simp add: stored_key_def model_findByIdWithSecret_def row_find_def lost_model_def demo_model_def demo_vault_def)
  moreover have "syncToLiteLLM hub_demo_env ''openai'' ''g'' ''u'' (Some ''openai/g'') None (hub_start\<lparr>hb_models := [lost_model]\<rparr>)
      = (Inr True, hub_start\<lparr>hb_models := [lost_model], hb_calls := [register_request (''http://p'', ''mk'')
        \<lparr>rp_modelName = ''openai/g'', rp_litellmModel = ''openai/g'', rp_apiBase = ''u'', rp_apiKey = None\<rparr>]\<rparr>)"
    by (subst sync_runs [where config = "(''http://p'', ''mk'')", OF _ _ _ refl]) (simp_all add: hub_start_def)
  ultimately show ?thesis
    by (simp add: resyncModel_def toSafe_def lost_model_def demo_model_def Let_def then_runs andThen_def [of "syncToLiteLLM _ _ _ _ _ _"] give_def)
qed

text \<open>A second look at an issuer can shorten it again.\<close>

lemma issuer_not_settled:
  "normalizeIssuer ''i//.well-known/openid-configuration'' = ''i/'' \<and> normalizeIssuer ''i/'' = ''i''"
  by code_simp

text \<open>The secret of a stored connection, which the forms only write, goes to the token endpoint of whatever issuer a test names.\<close>

definition known_connection :: sso_connection_row where
  "known_connection = \<lparr>sn_id = ''x'', sn_kind = ''oidc'', sn_name = ''N'', sn_issuer = ''idp'', sn_clientId = ''c'',
     sn_clientSecretEnc = ''#s'', sn_tenantId = None, sn_isActive = True, sn_createdBy = ''did:h'', sn_createdAt = 0\<rparr>"

lemma test_sends_stored_secret:
  "hb_calls (snd (testSsoConnectionAction hub_demo_env ''oidc'' ''other'' (Some ''c'') None (Some ''x'')
       (hub_start\<lparr>hb_portal := (hb_portal hub_start)\<lparr>pt_connections := [known_connection]\<rparr>\<rparr>)))
   = [discovery_request ''other'', discovery_request ''other'', basic_attempt hub_demo_env ''https://idp/t'' ''c'' ''s'']"
proof -
  have n: "normalizeIssuer ''other'' = ''other''" and s: "\<not> secretLooksLikeUrl ''s''" and t: "js_trim ''other'' = ''other''" "js_trim ''c'' = ''c''"
    by code_simp+
  show ?thesis
    by (simp add: testSsoConnectionAction_def demo_gate_any n s t testDiscovery_def andThen_assoc hub_then then_runs demo_document_def
        usable_document_def truthy_at_def connection_findById_def row_find_def known_connection_def demo_vault_def
        testClientCredentials_def token_endpoint_def attempt_verdict_def give_def hub_start_def Let_def)
qed

end
