(* ===== verification/HubConnections.thy ===== *)
theory HubConnections
  imports HubDemo
begin

text \<open>
  Identity providers are stored only when nothing conclusive speaks against them: what the check of a client's
  credentials says, and that whatever action runs, an issuer it stores served a usable discovery document
  and the credentials it stores were not refused.
\<close>

section \<open>The check of a client\<close>

definition verdict_at :: "hub_env \<Rightarrow> nat \<Rightarrow> string \<Rightarrow> string \<Rightarrow> string \<Rightarrow> client_verdict" where
  "verdict_at E n issuer clientId secret =
     (if secretLooksLikeUrl secret then Rejected
      else case token_endpoint (he_http E n (discovery_request issuer)) of
        None \<Rightarrow> Inconclusive
      | Some ep \<Rightarrow>
          (case attempt_verdict (he_http E (n + 1) (basic_attempt E ep clientId secret)) of
             Some v \<Rightarrow> v
           | None \<Rightarrow> (case attempt_verdict (he_http E (n + 2) (post_attempt E ep clientId secret)) of Some v \<Rightarrow> v | None \<Rightarrow> Rejected)))"

lemma client_runs:
  "\<exists>cs. testClientCredentials E i c s h = (Inr (verdict_at E (length (hb_calls h)) i c s), h\<lparr>hb_calls := cs\<rparr>)"
proof -
  have "h\<lparr>hb_calls := hb_calls h\<rparr> = h" by simp
  then show ?thesis
    by (auto simp: testClientCredentials_def verdict_at_def then_runs hub_then give_def split: option.split
        intro: exI [of _ "hb_calls h"])
qed

definition invalid_client :: "http_answer \<Rightarrow> bool" where
  "invalid_client ans \<longleftrightarrow> (\<exists>status d. ans = Answer status (Some d) \<and> js_field ''error'' d = Some (JStr ''invalid_client''))"

lemma attempt_None: "attempt_verdict ans = None \<longleftrightarrow> invalid_client ans"
  by (auto simp: attempt_verdict_def invalid_client_def bind_eq_Some_conv split: http_answer.split option.split if_splits)

lemma attempt_not_rejected: "attempt_verdict ans \<noteq> Some Rejected"
  by (auto simp: attempt_verdict_def split: http_answer.split option.split)

lemma verdict_rejected:
  "verdict_at E n i c s = Rejected \<longleftrightarrow>
     secretLooksLikeUrl s \<or>
     (\<exists>ep. token_endpoint (he_http E n (discovery_request i)) = Some ep
        \<and> invalid_client (he_http E (n + 1) (basic_attempt E ep c s)) \<and> invalid_client (he_http E (n + 2) (post_attempt E ep c s)))"
  using attempt_not_rejected by (auto simp: verdict_at_def simp flip: attempt_None split: option.split)

text \<open>The check of a client's credentials always returns, and stores nothing. It rejects exactly a secret
  that is a web address, or credentials the token endpoint of the discovery document refused as \<open>invalid_client\<close> in both
  ways of presenting them; silence, unreadable answers and every other answer leave the verdict open or in
  favour.\<close>

theorem client_verdict_spec:
  "\<exists>v cs. testClientCredentials E i c s h = (Inr v, h\<lparr>hb_calls := cs\<rparr>)
    \<and> (v = Rejected \<longleftrightarrow>
         secretLooksLikeUrl s
         \<or> (\<exists>ep. token_endpoint (he_http E (length (hb_calls h)) (discovery_request i)) = Some ep
             \<and> invalid_client (he_http E (length (hb_calls h) + 1) (basic_attempt E ep c s))
             \<and> invalid_client (he_http E (length (hb_calls h) + 2) (post_attempt E ep c s))))"
  using client_runs [of E i c s h] verdict_rejected [of E "length (hb_calls h)" i c s] by metis


section \<open>What is stored was checked\<close>

definition discovered :: "hub_env \<Rightarrow> string \<Rightarrow> bool" where
  "discovered E issuer \<longleftrightarrow> (\<exists>n status d. he_http E n (discovery_request issuer) = Answer status (Some d)
     \<and> 200 \<le> status \<and> status < 300 \<and> usable_document d)"

definition not_refused :: "hub_env \<Rightarrow> sso_connection_row \<Rightarrow> bool" where
  "not_refused E con \<longleftrightarrow> (\<exists>s n. (sn_clientSecretEnc con = vt_encrypt (he_vault E) s \<or> vt_decrypt (he_vault E) (sn_clientSecretEnc con) = Some s)
     \<and> verdict_at E n (sn_issuer con) (sn_clientId con) s \<noteq> Rejected)"

text \<open>A row and the one under its id before: the issuer is the same or discovered, the credentials are the same or were checked.\<close>

definition vouched :: "hub_env \<Rightarrow> sso_connection_row option \<Rightarrow> sso_connection_row \<Rightarrow> bool" where
  "vouched E old con \<longleftrightarrow>
     (map_option sn_issuer old = Some (sn_issuer con) \<or> discovered E (sn_issuer con))
     \<and> (map_option (\<lambda>c. (sn_issuer c, sn_clientId c, sn_clientSecretEnc c)) old
          = Some (sn_issuer con, sn_clientId con, sn_clientSecretEnc con) \<or> not_refused E con)"

definition vouches :: "hub_env \<Rightarrow> ('vid, 'ch, 'cfg) hub \<Rightarrow> ('vid, 'ch, 'cfg) hub \<Rightarrow> bool" where
  "vouches E h h' \<longleftrightarrow> (\<forall>i con. row_find sn_id i (pt_connections (hb_portal h')) = Some con \<longrightarrow>
     vouched E (row_find sn_id i (pt_connections (hb_portal h))) con)"

lemma not_refused_cong:
  "sn_issuer c = sn_issuer c' \<Longrightarrow> sn_clientId c = sn_clientId c' \<Longrightarrow> sn_clientSecretEnc c = sn_clientSecretEnc c' \<Longrightarrow>
     not_refused E c = not_refused E c'"
  by (simp add: not_refused_def)

lemma vouched_trans: "vouched E old mid \<Longrightarrow> vouched E (Some mid) con \<Longrightarrow> vouched E old con"
  using not_refused_cong [of mid con E] by (auto simp: vouched_def)

lemma vouched_same: "vouched E (Some con) con"
  by (simp add: vouched_def)

interpretation vouch: hub_logic "vouches E" for E :: hub_env
proof
  fix h h' h'' :: "('a, 'b, 'c) hub"
  show "vouches E h h" by (simp add: vouches_def vouched_same)
  assume a: "vouches E h h'" "vouches E h' h''"
  show "vouches E h h''"
    unfolding vouches_def
  proof (intro allI impI)
    fix i con
    assume c: "row_find sn_id i (pt_connections (hb_portal h'')) = Some con"
    with a(2) have v: "vouched E (row_find sn_id i (pt_connections (hb_portal h'))) con" by (auto simp: vouches_def)
    show "vouched E (row_find sn_id i (pt_connections (hb_portal h))) con"
    proof (cases "row_find sn_id i (pt_connections (hb_portal h'))")
      case None
      with v show ?thesis by (auto simp: vouched_def)
    next
      case (Some mid)
      with a(1) have "vouched E (row_find sn_id i (pt_connections (hb_portal h))) mid" by (auto simp: vouches_def)
      with v Some vouched_trans show ?thesis by metis
    qed
  qed
qed

lemma same_connections: "pt_connections (hb_portal h') = pt_connections (hb_portal h) \<Longrightarrow> vouches E h h'"
  by (simp add: vouches_def vouched_same)

text \<open>What every other action does leaves the connections alone, or takes one away.\<close>

lemma vouch_calls:
  "act_rel (vouches E) (fetch E' rq)"
  "act_rel (vouches E) (onWebhooks fw)" "act_rel (vouches E) (onChannels fc)" "act_rel (vouches E) (onModels fm)"
  "act_rel (vouches E) (grantWorkspaceAccess m w)" "act_rel (vouches E) (revokeWorkspaceAccess m w)"
  "act_rel (vouches E) (onAdmin ma)"
  by (auto simp: act_rel_def fetch_def onWebhooks_def onChannels_def onModels_def onRows_def grantWorkspaceAccess_def
      revokeWorkspaceAccess_def onAdmin_def split: sum.split prod.split intro!: same_connections)

lemma vouch_rows:
  "act_rel (vouches E) (model_delete i)"
  "act_rel (vouches E) (connection_remove j)"
  "act_rel (vouches E) (onConnections (connection_update k (\<lambda>c. c\<lparr>sn_isActive := active\<rparr>)))"
proof -
  show "act_rel (vouches E) (model_delete i)"
    unfolding model_delete_def by (intro vouch.andThen vouch_calls) (simp add: act_rel_def same_connections)
  have "act_rel (vouches E) (onConnections (\<lambda>rows. bind_result (connection_delete j rows) (\<lambda>rest. Inr ((), rest))))"
    by (rule vouch.rows) (auto simp: connection_delete_def row_delete_Inr vouches_def row_find_filter vouched_same split: if_splits)
  then show "act_rel (vouches E) (connection_remove j)"
    unfolding connection_remove_def by (rule vouch.andThen) (simp add: act_rel_def same_connections)
  show "act_rel (vouches E) (onConnections (connection_update k (\<lambda>c. c\<lparr>sn_isActive := active\<rparr>)))"
    by (rule vouch.rows)
       (auto simp: connection_update_def vouches_def row_find_map vouched_def split: option.splits if_splits)
qed

lemma vouch_services:
  "act_rel (vouches E) (pushAppriseConfig E' key u)"
  "act_rel (vouches E) (deleteAppriseConfig E' key)"
  "act_rel (vouches E) (removeModel E' nm)"
  "act_rel (vouches E) (probeProviderModels E' url k)"
  "act_rel (vouches E) (syncToLiteLLM E' p m b n a)"
  "act_rel (vouches E) (resyncModel E' sm)"
  "act_rel (vouches E) (testDiscovery E' i)"
  "act_rel (vouches E) (testClientCredentials E' i c sec)"
  unfolding pushAppriseConfig_def deleteAppriseConfig_def removeModel_def probeProviderModels_def syncToLiteLLM_def
    registerModel_def litellmFetch_def resyncModel_def testDiscovery_def testClientCredentials_def Let_def
  by (intro vouch.hub_rules vouch_calls vouch.attempts_rel)+

section \<open>Running the checks from one state\<close>

text \<open>Between reading a row and writing it an action only makes requests.\<close>

definition vouches_from :: "hub_env \<Rightarrow> ('vid, 'ch, 'cfg) hub \<Rightarrow> ('vid, 'ch, 'cfg, 'a) hact \<Rightarrow> bool" where
  "vouches_from E h m \<longleftrightarrow> (\<forall>cs. vouches E h (snd (m (h\<lparr>hb_calls := cs\<rparr>))))"

lemma from_pure: "vouches_from E h (give x)" "vouches_from E h (throw e)"
  by (simp_all add: vouches_from_def give_def throw_def same_connections)

lemma from_refuse: "(\<not> b \<Longrightarrow> vouches_from E h m) \<Longrightarrow> vouches_from E h (refuse b e m)"
  by (simp add: refuse_def from_pure)

lemma from_lift: "(\<And>x. r = Inr x \<Longrightarrow> vouches_from E h (k x)) \<Longrightarrow> vouches_from E h (andThen (lift_result r) k)"
  by (cases r) (simp_all add: vouches_from_def lift_result_def then_runs same_connections)

lemma discovery_runs:
  "\<exists>cs. require_discovery E i h = (Inl IdpUnverified, h\<lparr>hb_calls := cs\<rparr>)
      \<or> require_discovery E i h = (Inr (), h\<lparr>hb_calls := cs\<rparr>) \<and> discovered E i"
  by (auto simp: require_discovery_def testDiscovery_def andThen_assoc hub_then then_runs discovered_def give_def throw_def
      andThen_def fetch_def split: http_answer.split option.split intro!: exI)

lemma require_client_runs:
  "\<exists>cs. require_client E i c s h = (Inl ClientRejected, h\<lparr>hb_calls := cs\<rparr>)
      \<or> require_client E i c s h = (Inr (), h\<lparr>hb_calls := cs\<rparr>) \<and> verdict_at E (length (hb_calls h)) i c s \<noteq> Rejected"
  using client_runs [of E i c s h] by (auto simp: require_client_def andThen_def give_def throw_def)

lemma from_discovery:
  assumes "discovered E i \<Longrightarrow> vouches_from E h k"
  shows "vouches_from E h (andThen (require_discovery E i) (\<lambda>_. k))"
  unfolding vouches_from_def
proof
  fix cs
  from discovery_runs [of E i "h\<lparr>hb_calls := cs\<rparr>"] assms
  show "vouches E h (snd (andThen (require_discovery E i) (\<lambda>_. k) (h\<lparr>hb_calls := cs\<rparr>)))"
    by (auto simp: andThen_def vouches_from_def same_connections)
qed

lemma from_client:
  assumes "\<And>n. verdict_at E n i c s \<noteq> Rejected \<Longrightarrow> vouches_from E h k"
  shows "vouches_from E h (andThen (require_client E i c s) (\<lambda>_. k))"
  unfolding vouches_from_def
proof
  fix cs
  from require_client_runs [of E i c s "h\<lparr>hb_calls := cs\<rparr>"] assms
  show "vouches E h (snd (andThen (require_client E i c s) (\<lambda>_. k) (h\<lparr>hb_calls := cs\<rparr>)))"
    by (auto simp: andThen_def vouches_from_def same_connections)
qed

lemma from_write:
  assumes "\<And>x rows. f (pt_connections (hb_portal h)) = Inr (x, rows) \<Longrightarrow>
      vouches E h (h\<lparr>hb_portal := (hb_portal h)\<lparr>pt_connections := rows\<rparr>\<rparr>)"
    and "\<And>x. act_rel (vouches E) (k x)"
  shows "vouches_from E h (andThen (onConnections f) k)"
  unfolding vouches_from_def
proof
  fix cs
  let ?h = "\<lambda>rows. h\<lparr>hb_calls := cs, hb_portal := (hb_portal h)\<lparr>pt_connections := rows\<rparr>\<rparr>"
  show "vouches E h (snd (andThen (onConnections f) k (h\<lparr>hb_calls := cs\<rparr>)))"
  proof (cases "f (pt_connections (hb_portal h))")
    case (Inl e)
    then show ?thesis by (simp add: hub_then same_connections)
  next
    case (Inr r)
    obtain x rows where r: "r = (x, rows)" by (cases r)
    with assms(1) Inr have "vouches E h (?h rows)" by (auto simp: vouches_def)
    moreover have "vouches E (?h rows) (snd (k x (?h rows)))" using assms(2) by (simp add: act_rel_def)
    ultimately show ?thesis using Inr r vouch.R_trans by (simp add: hub_then) blast
  qed
qed

lemma from_run: "vouches_from E h m \<Longrightarrow> vouches E h (snd (m h))"
  unfolding vouches_from_def by (drule spec [of _ "hb_calls h"]) simp

lemma from_gate: "(\<And>x. vouches_from E h (k x)) \<Longrightarrow> vouches_from E h (andThen (onAdmin (requireAdmin A)) k)"
  by (auto simp: vouches_from_def andThen_def onAdmin_def requireAdmin_def throw_def give_def same_connections split: option.split)

lemma from_reading:
  "vouches_from E h (k (g (pt_connections (hb_portal h)))) \<Longrightarrow>
   vouches_from E h (andThen (reading (\<lambda>h. g (pt_connections (hb_portal h)))) k)"
  by (simp add: vouches_from_def then_runs)

lemma from_if: "(b \<Longrightarrow> vouches_from E h (andThen m k)) \<Longrightarrow> (\<not> b \<Longrightarrow> vouches_from E h (k ())) \<Longrightarrow>
    vouches_from E h (andThen (if b then m else give ()) k)"
  by (simp add: vouches_from_def then_runs)

lemma vouch_event: "act_rel (vouches E) (connection_event E' c a x by')"
  unfolding connection_event_def hub_event_def by (rule vouch_calls)

lemma not_refusedI:
  "sn_clientSecretEnc con = vt_encrypt (he_vault E) s \<or> vt_decrypt (he_vault E) (sn_clientSecretEnc con) = Some s \<Longrightarrow>
   verdict_at E n (sn_issuer con) (sn_clientId con) s \<noteq> Rejected \<Longrightarrow> not_refused E con"
  unfolding not_refused_def by (intro exI conjI)

lemma create_vouches: "vouches_from E h (createSsoConnectionAction E f)"
  unfolding createSsoConnectionAction_def Let_def
proof (intro from_gate from_refuse from_lift from_discovery from_client from_write vouch_event)
  fix by' issuer n x rows
  assume "discovered E issuer" and v: "verdict_at E n issuer (text_of (form_trim f ''clientId'')) (text_of (form_trim f ''clientSecret'')) \<noteq> Rejected"
    and "bind_result (connection_create \<lparr>sn_id = he_id E, sn_kind = text_of (form_trim f ''kind''), sn_name = text_of (form_trim f ''name''),
       sn_issuer = issuer, sn_clientId = text_of (form_trim f ''clientId''),
       sn_clientSecretEnc = vt_encrypt (he_vault E) (text_of (form_trim f ''clientSecret'')),
       sn_tenantId = (if text_of (form_trim f ''kind'') = ''entra'' then or_null (form_trim f ''tenantId'') else None),
       sn_isActive = True, sn_createdBy = pb_did by', sn_createdAt = he_now E\<rparr> (pt_connections (hb_portal h)))
      (\<lambda>rows'. Inr ((), rows')) = Inr (x, rows)"
  moreover from v have "not_refused E con" if "sn_issuer con = issuer" "sn_clientId con = text_of (form_trim f ''clientId'')"
    "sn_clientSecretEnc con = vt_encrypt (he_vault E) (text_of (form_trim f ''clientSecret''))" for con
    using that by (intro not_refusedI [of _ _ "text_of (form_trim f ''clientSecret'')"]) simp_all
  ultimately show "vouches E h (h\<lparr>hb_portal := (hb_portal h)\<lparr>pt_connections := rows\<rparr>\<rparr>)"
    by (auto simp: connection_create_def vouches_def row_find_append vouched_same vouched_def split: if_splits option.splits)
qed

text \<open>The row an edit writes.\<close>

definition reconnected ::
  "hub_env \<Rightarrow> form \<Rightarrow> string \<Rightarrow> sso_connection_row \<Rightarrow> sso_connection_row \<Rightarrow> sso_connection_row" where
  "reconnected E f issuer before c =
     c\<lparr>sn_name := text_of (form_trim f ''name''), sn_issuer := issuer, sn_clientId := text_of (form_trim f ''clientId''),
       sn_tenantId := (if sn_kind before = ''entra'' then or_null (form_trim f ''tenantId'') else None),
       sn_clientSecretEnc := (if truthy (form_trim f ''clientSecret'') then vt_encrypt (he_vault E) (text_of (form_trim f ''clientSecret''))
         else sn_clientSecretEnc c)\<rparr>"

lemma reconnected_vouched:
  assumes "issuer \<noteq> sn_issuer before \<Longrightarrow> discovered E issuer"
    and "truthy (form_trim f ''clientSecret'') \<or> text_of (form_trim f ''clientId'') \<noteq> sn_clientId before \<or> issuer \<noteq> sn_issuer before
      \<Longrightarrow> \<exists>s n. effective_secret E (form_trim f ''clientSecret'') before = Inr s
            \<and> verdict_at E n issuer (text_of (form_trim f ''clientId'')) s \<noteq> Rejected"
  shows "vouched E (Some before) (reconnected E f issuer before before)"
proof (cases "truthy (form_trim f ''clientSecret'') \<or> text_of (form_trim f ''clientId'') \<noteq> sn_clientId before \<or> issuer \<noteq> sn_issuer before")
  case True
  with assms(2) obtain s n where s: "effective_secret E (form_trim f ''clientSecret'') before = Inr s"
    "verdict_at E n issuer (text_of (form_trim f ''clientId'')) s \<noteq> Rejected" by blast
  then have "not_refused E (reconnected E f issuer before before)"
    by (intro not_refusedI [of _ _ s n]) (auto simp: effective_secret_def reconnected_def split: if_splits option.splits)
  with assms(1) show ?thesis by (auto simp: vouched_def reconnected_def)
qed (auto simp: vouched_def reconnected_def)

lemma update_writes:
  assumes found: "connection_findById i (pt_connections (hb_portal h)) = Some before"
    and ok: "vouched E (Some before) (reconnected E f issuer before before)"
  shows "vouches_from E h (andThen (onConnections (connection_update i (reconnected E f issuer before)))
      (\<lambda>updated. connection_event E updated et (g updated) x))"
proof (intro from_write vouch_event)
  fix y rows
  have one: "z = before" if "row_find sn_id j (pt_connections (hb_portal h)) = Some z" "sn_id z = i" for j z
    using that found row_find_Some_D [OF that(1)] by (auto simp: connection_findById_def)
  have id: "sn_id (reconnected E f issuer before c) = sn_id c" for c by (simp add: reconnected_def)
  assume "connection_update i (reconnected E f issuer before) (pt_connections (hb_portal h)) = Inr (y, rows)"
  then have "rows = row_map (\<lambda>c. sn_id c = i) (reconnected E f issuer before) (pt_connections (hb_portal h))"
    by (auto simp: connection_update_def split: option.splits if_splits)
  then show "vouches E h (h\<lparr>hb_portal := (hb_portal h)\<lparr>pt_connections := rows\<rparr>\<rparr>)"
    using ok one by (auto simp: vouches_def row_find_map id vouched_same)
qed

lemma from_assoc: "vouches_from E h (andThen m (\<lambda>x. andThen (g x) k)) \<Longrightarrow> vouches_from E h (andThen (andThen m g) k)"
  by (simp add: andThen_assoc)

lemma from_found: "(\<And>x. ov = Some x \<Longrightarrow> vouches_from E h (g x)) \<Longrightarrow> vouches_from E h (case ov of None \<Rightarrow> throw e | Some x \<Rightarrow> g x)"
  by (simp add: from_pure split: option.split)

lemma update_vouches: "vouches_from E h (updateSsoConnectionAction E f)"
  unfolding updateSsoConnectionAction_def Let_def reconnected_def [symmetric]
  by (intro from_gate from_reading from_found from_refuse from_lift from_if from_assoc from_discovery from_client update_writes
      reconnected_vouched) auto

text \<open>C33 (safety). A sign-in route is stored only after it was checked, whichever action ran. Where a connection's
  issuer is not the one its row had, that issuer served a usable discovery document; where its issuer, client or
  secret is not what the row had, the credentials (the secret that was just sealed, or the one the sealed text opens to) were
  presented and not refused.\<close>

theorem saved_connections_checked:
  fixes h :: "('vid, 'ch, 'cfg) hub"
  assumes "run_hub E a h = (r, h')" and "connection_findById i (pt_connections (hb_portal h')) = Some con"
  shows "(map_option sn_issuer (connection_findById i (pt_connections (hb_portal h))) = Some (sn_issuer con)
      \<or> (\<exists>n status d. he_http E n (discovery_request (sn_issuer con)) = Answer status (Some d)
           \<and> 200 \<le> status \<and> status < 300 \<and> usable_document d))
    \<and> (map_option (\<lambda>c. (sn_issuer c, sn_clientId c, sn_clientSecretEnc c)) (connection_findById i (pt_connections (hb_portal h)))
         = Some (sn_issuer con, sn_clientId con, sn_clientSecretEnc con)
      \<or> (\<exists>s n. (sn_clientSecretEnc con = vt_encrypt (he_vault E) s \<or> vt_decrypt (he_vault E) (sn_clientSecretEnc con) = Some s)
           \<and> verdict_at E n (sn_issuer con) (sn_clientId con) s \<noteq> Rejected))"
proof -
  have "vouches E h (snd (run_hub E a h))"
  proof (cases "(\<exists>f. a = CreateConnection f) \<or> (\<exists>f. a = UpdateConnection f)")
    case True
    then show ?thesis using create_vouches update_vouches by (auto intro!: from_run)
  next
    case False
    then have "act_rel (vouches E) (run_hub E a :: ('vid, 'ch, 'cfg, unit) hact)"
      by (cases a; simp only: run_hub.simps hub_action_defs Let_def model_event_def connection_event_def hub_event_def repushModel_def
          ; intro vouch.hub_rules vouch_calls vouch_services vouch_rows vouch.resync_rel; simp)
    then show ?thesis by (simp add: act_rel_def)
  qed
  with assms show ?thesis
    unfolding vouches_def vouched_def discovered_def not_refused_def connection_findById_def by simp
qed

definition demo_connection_form :: form where
  "demo_connection_form = [(''kind'', ''oidc''), (''name'', ''N''), (''issuer'', ''i''), (''clientId'', ''c''), (''clientSecret'', ''s'')]"

definition demo_connected :: "(string, byte list, unit) hub" where
  "demo_connected = snd (run_hub hub_demo_env (CreateConnection demo_connection_form) hub_start)"

lemma demo_checks:
  "require_discovery hub_demo_env i h = (Inr (), h\<lparr>hb_calls := hb_calls h @ [discovery_request i]\<rparr>)"
  "\<not> secretLooksLikeUrl s \<Longrightarrow> \<exists>cs. require_client hub_demo_env i c s h = (Inr (), h\<lparr>hb_calls := cs\<rparr>)"
proof -
  show "require_discovery hub_demo_env i h = (Inr (), h\<lparr>hb_calls := hb_calls h @ [discovery_request i]\<rparr>)"
    by (simp add: require_discovery_def testDiscovery_def andThen_assoc hub_then then_runs usable_document_def truthy_at_def
        demo_document_def give_def)
  assume "\<not> secretLooksLikeUrl s"
  then have "verdict_at hub_demo_env n i c s = Accepted" for n
    by (simp add: verdict_at_def token_endpoint_def attempt_verdict_def demo_document_def)
  then show "\<exists>cs. require_client hub_demo_env i c s h = (Inr (), h\<lparr>hb_calls := cs\<rparr>)"
    using client_runs [of hub_demo_env i c s h] by (auto simp: require_client_def andThen_def give_def)
qed

lemma demo_connected_row:
  "\<exists>con. pt_connections (hb_portal demo_connected) = [con] \<and> sn_id con = ''n'' \<and> sn_issuer con = ''i''"
proof -
  have form: "form_trim demo_connection_form ''kind'' = Some ''oidc''" "form_trim demo_connection_form ''name'' = Some ''N''"
    "form_trim demo_connection_form ''issuer'' = Some ''i''" "form_trim demo_connection_form ''clientId'' = Some ''c''"
    "form_trim demo_connection_form ''clientSecret'' = Some ''s''" "form_trim demo_connection_form ''tenantId'' = None"
    by (simp_all add: demo_connection_form_def form_eval)
  have issuer: "resolveIssuer ''oidc'' demo_connection_form = Inr ''i''"
    by (simp add: resolveIssuer_def form throw_when_def) code_simp
  have secret: "\<not> secretLooksLikeUrl ''s''" by code_simp
  obtain cs where client: "require_client hub_demo_env ''i'' ''c'' ''s'' (hub_start\<lparr>hb_calls := [discovery_request ''i'']\<rparr>)
      = (Inr (), hub_start\<lparr>hb_calls := cs\<rparr>)"
    using demo_checks(2) [OF secret, of "''i''" "''c''" "hub_start\<lparr>hb_calls := [discovery_request ''i'']\<rparr>"] by auto
  have start: "hb_calls hub_start = []" "pt_connections (hb_portal hub_start) = []" by (simp_all add: hub_start_def)
  show ?thesis
    unfolding demo_connected_def run_hub.simps createSsoConnectionAction_def Let_def demo_admin(1) demo_gate
    by (simp add: form issuer refuse_def isSsoKind_def lift_result_def then_runs andThen_def [of "require_discovery _ _"]
        andThen_def [of "require_client _ _ _ _"] demo_checks(1) start client hub_then connection_create_def connection_event_def)
qed

theorem saved_connections_checked_witness:
  "map sn_issuer (pt_connections (hb_portal demo_connected)) = [''i'']
   \<and> (\<exists>n status d. he_http hub_demo_env n (discovery_request ''i'') = Answer status (Some d) \<and> usable_document d)"
proof -
  obtain con where con: "pt_connections (hb_portal demo_connected) = [con]" "sn_id con = ''n''" "sn_issuer con = ''i''"
    using demo_connected_row by blast
  then have "connection_findById ''n'' (pt_connections (hb_portal (snd (run_hub hub_demo_env (CreateConnection demo_connection_form) hub_start))))
      = Some con"
    by (simp add: connection_findById_def row_find_def demo_connected_def)
  from conjunct1 [OF saved_connections_checked [OF surjective_pairing this]] con show ?thesis
    by (auto simp: hub_start_def connection_findById_def row_find_def)
qed

end
