(* ===== verification/ActorGraph.thy ===== *)
theory ActorGraph
  imports AdminConsole
begin

text \<open>
  The relationship graph: its view model, the neighbourhood of one node and the filters
  (\<open>packages/controlplane/components/graph/actor-graph/types.ts\<close>, \<open>ego.ts\<close>, \<open>filters.ts\<close>) and how it is assembled
  from the tables (\<open>lib/actor-graph.ts\<close>).

  A JavaScript set of ids is the list of its insertions; a cap of \<open>Infinity\<close> is \<open>None\<close>. An actor owned by the empty
  DID counts as not owned, as in the code.
\<close>

section \<open>View model (types.ts)\<close>

datatype node_kind = ActorNode | WorkspaceNode

record graph_node =
  gn_id :: string
  gn_nodeKind :: node_kind
  gn_label :: string
  gn_kind :: string
  gn_workspaceId :: "string option"
  gn_workspaceColor :: "string option"
  gn_online :: "bool option"
  gn_degree :: nat

definition WORKSPACE_NODE_PREFIX :: string where
  "WORKSPACE_NODE_PREFIX = ''ws:''"

definition workspaceNodeId :: "string \<Rightarrow> string" where
  "workspaceNodeId w = WORKSPACE_NODE_PREFIX @ w"

datatype edge_kind = Ownership | Relationship | Membership

record graph_link =
  gl_id :: string
  gl_source :: string
  gl_target :: string
  gl_edgeKind :: edge_kind
  gl_label :: "string option"

record graph_data =
  gd_nodes :: "graph_node list"
  gd_links :: "graph_link list"
  gd_totalActors :: nat
  gd_truncated :: bool

definition EMPTY_GRAPH :: graph_data where
  "EMPTY_GRAPH = \<lparr>gd_nodes = [], gd_links = [], gd_totalActors = 0, gd_truncated = False\<rparr>"

definition ESTATE_NODE_CAP :: nat where
  "ESTATE_NODE_CAP = 1500"

definition EGO_NODE_CAP :: nat where
  "EGO_NODE_CAP = 300"

section \<open>The neighbourhood of a node (ego.ts)\<close>

definition count_link :: "graph_link \<Rightarrow> (string \<Rightarrow> nat) \<Rightarrow> string \<Rightarrow> nat" where
  "count_link l counts =
     (let c = counts(gl_source l := counts (gl_source l) + 1) in c(gl_target l := c (gl_target l) + 1))"

definition withDegrees :: "graph_node list \<Rightarrow> graph_link list \<Rightarrow> graph_node list" where
  "withDegrees nodes links =
     (let counts = fold count_link links (\<lambda>_. 0) in map (\<lambda>n. n\<lparr>gn_degree := counts (gn_id n)\<rparr>) nodes)"

text \<open>The last node of an id is the one the map has.\<close>

definition node_of :: "graph_data \<Rightarrow> string \<Rightarrow> graph_node option" where
  "node_of d i = find (\<lambda>n. gn_id n = i) (rev (gd_nodes d))"

definition adjacency :: "graph_data \<Rightarrow> string \<Rightarrow> string list" where
  "adjacency d i =
     concat (map (\<lambda>l. (if gl_source l = i then [gl_target l] else []) @ (if gl_target l = i then [gl_source l] else []))
       (filter (\<lambda>l. node_of d (gl_source l) \<noteq> None \<and> node_of d (gl_target l) \<noteq> None) (gd_links d)))"

definition is_hub :: "graph_data \<Rightarrow> string \<Rightarrow> bool" where
  "is_hub d i = (map_option gn_nodeKind (node_of d i) = Some WorkspaceNode)"

text \<open>A crawl: what was reached, what the next hop starts from, whether the cap dropped anything.\<close>

type_synonym crawl = "string list \<times> string list \<times> bool"

definition at_cap :: "nat option \<Rightarrow> nat \<Rightarrow> bool" where
  "at_cap cap n = (case cap of None \<Rightarrow> False | Some c \<Rightarrow> c \<le> n)"

definition reach_one :: "nat option \<Rightarrow> string \<Rightarrow> crawl \<Rightarrow> crawl" where
  "reach_one cap i s =
     (case s of (kept, next, truncated) \<Rightarrow>
        if i \<in> set kept then s
        else if at_cap cap (length kept) then (kept, next, True)
        else (kept @ [i], next @ [i], truncated))"

definition leave_node :: "graph_data \<Rightarrow> nat option \<Rightarrow> string \<Rightarrow> crawl \<Rightarrow> crawl" where
  "leave_node d cap i s = (if is_hub d i then s else fold (reach_one cap) (adjacency d i) s)"

primrec ego_hops :: "graph_data \<Rightarrow> nat option \<Rightarrow> nat \<Rightarrow> crawl \<Rightarrow> crawl" where
  "ego_hops d cap 0 s = s"
| "ego_hops d cap (Suc n) s =
     (case s of (kept, frontier, truncated) \<Rightarrow>
        if frontier = [] then s
        else ego_hops d cap n (fold (leave_node d cap) frontier (kept, [], truncated)))"

definition egoSubgraph :: "graph_data \<Rightarrow> string \<Rightarrow> nat \<Rightarrow> nat option \<Rightarrow> graph_data" where
  "egoSubgraph d focus depth cap =
     (if node_of d focus = None
      then \<lparr>gd_nodes = [], gd_links = [], gd_totalActors = gd_totalActors d, gd_truncated = False\<rparr>
      else case ego_hops d cap depth ([focus], [focus], False) of (kept, _, truncated) \<Rightarrow>
        let links = filter (\<lambda>l. gl_source l \<in> set kept \<and> gl_target l \<in> set kept) (gd_links d) in
        \<lparr>gd_nodes = withDegrees (filter (\<lambda>n. gn_id n \<in> set kept) (gd_nodes d)) links, gd_links = links,
         gd_totalActors = gd_totalActors d, gd_truncated = truncated \<or> gd_truncated d\<rparr>)"

section \<open>Filters (filters.ts)\<close>

record graph_filters =
  gf_kinds :: "string list"
  gf_edgeKinds :: "edge_kind list"
  gf_connectedOnly :: bool
  gf_workspaceNodes :: bool

definition DEFAULT_FILTERS :: graph_filters where
  "DEFAULT_FILTERS = \<lparr>gf_kinds = [], gf_edgeKinds = [Ownership, Relationship, Membership], gf_connectedOnly = True,
     gf_workspaceNodes = True\<rparr>"

definition node_visible :: "graph_filters \<Rightarrow> graph_node \<Rightarrow> bool" where
  "node_visible f n =
     (if gn_nodeKind n = WorkspaceNode then gf_workspaceNodes f \<and> Membership \<in> set (gf_edgeKinds f)
      else gf_kinds f = [] \<or> gn_kind n \<in> set (gf_kinds f))"

definition applyGraphFilters :: "graph_data \<Rightarrow> graph_filters \<Rightarrow> graph_data" where
  "applyGraphFilters d f =
     (let visible = map gn_id (filter (node_visible f) (gd_nodes d));
          links = filter (\<lambda>l. gl_edgeKind l \<in> set (gf_edgeKinds f) \<and> gl_source l \<in> set visible \<and> gl_target l \<in> set visible)
            (gd_links d);
          nodes = withDegrees (filter (\<lambda>n. gn_id n \<in> set visible) (gd_nodes d)) links;
          kept = map gn_id (filter (\<lambda>n. 0 < gn_degree n) nodes);
          links' = filter (\<lambda>l. gl_source l \<in> set kept \<and> gl_target l \<in> set kept) links
      in if gf_connectedOnly f
         then \<lparr>gd_nodes = withDegrees (filter (\<lambda>n. gn_id n \<in> set kept) nodes) links', gd_links = links',
               gd_totalActors = gd_totalActors d, gd_truncated = gd_truncated d\<rparr>
         else \<lparr>gd_nodes = nodes, gd_links = links, gd_totalActors = gd_totalActors d, gd_truncated = gd_truncated d\<rparr>)"

section \<open>Assembly (actor-graph.ts)\<close>

record graph_actor =
  ga_did :: string
  ga_name :: string
  ga_kind :: string
  ga_workspaceId :: "string option"
  ga_ownerDid :: "string option"
  ga_registeredAt :: int

text \<open>The link and workspace rows have what the assembly reads of them.\<close>

record assemble_options =
  ao_workspaceNodes :: bool
  ao_nodeCap :: "nat option"
  ao_isOnline :: "(string \<Rightarrow> bool) option"
  ao_pinned :: "string list"

definition owner_of :: "graph_actor \<Rightarrow> string option" where
  "owner_of a = or_null (ga_ownerDid a)"

definition connected_dids :: "graph_actor list \<Rightarrow> link_row list \<Rightarrow> string list" where
  "connected_dids actors links =
     (let present = set (map ga_did actors) in
      concat (map (\<lambda>a. case owner_of a of None \<Rightarrow> [] | Some o' \<Rightarrow> if o' \<in> present then [ga_did a, o'] else []) actors)
      @ concat (map (\<lambda>l. if ln_fromDid l \<in> present \<and> ln_toDid l \<in> present then [ln_fromDid l, ln_toDid l] else []) links))"

definition cap_rank :: "string list \<Rightarrow> string list \<Rightarrow> graph_actor \<Rightarrow> nat" where
  "cap_rank linked pinned a = (if ga_did a \<in> set pinned then 0 else if ga_did a \<in> set linked then 1 else 2)"

text \<open>Sorting by rank a list sorted by date orders by both, since the sort is stable.\<close>

definition selectWithinCap :: "graph_actor list \<Rightarrow> nat option \<Rightarrow> string list \<Rightarrow> string list \<Rightarrow> graph_actor list" where
  "selectWithinCap actors cap linked pinned =
     (case cap of
        None \<Rightarrow> actors
      | Some c \<Rightarrow>
          if length actors \<le> c then actors
          else take c (sort_key (cap_rank linked pinned) (sort_key (\<lambda>a. - ga_registeredAt a) actors)))"

definition workspaceById :: "workspace_row list \<Rightarrow> string \<Rightarrow> workspace_row option" where
  "workspaceById workspaces w = row_find w_id w (rev workspaces)"

definition actor_node :: "workspace_row list \<Rightarrow> (string \<Rightarrow> bool) option \<Rightarrow> graph_actor \<Rightarrow> graph_node" where
  "actor_node workspaces online a =
     \<lparr>gn_id = ga_did a, gn_nodeKind = ActorNode, gn_label = ga_name a, gn_kind = ga_kind a, gn_workspaceId = ga_workspaceId a,
      gn_workspaceColor = Option.bind (or_null (ga_workspaceId a)) (\<lambda>w. map_option w_color (workspaceById workspaces w)),
      gn_online = map_option (\<lambda>f. f (ga_did a)) online, gn_degree = 0\<rparr>"

definition ownership_links :: "graph_actor list \<Rightarrow> graph_link list" where
  "ownership_links kept =
     concat (map (\<lambda>a. case owner_of a of
         None \<Rightarrow> []
       | Some o' \<Rightarrow> if o' \<in> set (map ga_did kept)
           then [\<lparr>gl_id = ''own:'' @ ga_did a, gl_source = o', gl_target = ga_did a, gl_edgeKind = Ownership, gl_label = None\<rparr>]
           else []) kept)"

definition relationship_links :: "graph_actor list \<Rightarrow> link_row list \<Rightarrow> graph_link list" where
  "relationship_links kept links =
     map (\<lambda>l. \<lparr>gl_id = ln_id l, gl_source = ln_fromDid l, gl_target = ln_toDid l, gl_edgeKind = Relationship,
               gl_label = Some (ln_label l)\<rparr>)
       (filter (\<lambda>l. ln_fromDid l \<in> set (map ga_did kept) \<and> ln_toDid l \<in> set (map ga_did kept)) links)"

definition add_member :: "workspace_row list \<Rightarrow> graph_actor \<Rightarrow> (string \<times> string list) list \<Rightarrow> (string \<times> string list) list" where
  "add_member workspaces a m =
     (case or_null (ga_workspaceId a) of
        None \<Rightarrow> m
      | Some w \<Rightarrow> if workspaceById workspaces w = None then m
                  else map_set w ((case map_of m w of None \<Rightarrow> [] | Some dids \<Rightarrow> dids) @ [ga_did a]) m)"

definition workspace_node :: "workspace_row list \<Rightarrow> string \<Rightarrow> graph_node list" where
  "workspace_node workspaces w =
     (case workspaceById workspaces w of
        None \<Rightarrow> []
      | Some r \<Rightarrow> [\<lparr>gn_id = workspaceNodeId w, gn_nodeKind = WorkspaceNode, gn_label = w_name r, gn_kind = [],
          gn_workspaceId = Some w, gn_workspaceColor = Some (w_color r), gn_online = None, gn_degree = 0\<rparr>])"

definition membership_links :: "string \<Rightarrow> string list \<Rightarrow> graph_link list" where
  "membership_links w members =
     map (\<lambda>did. \<lparr>gl_id = ''ws:'' @ w @ '':'' @ did, gl_source = workspaceNodeId w, gl_target = did, gl_edgeKind = Membership,
                 gl_label = None\<rparr>) members"

definition assembleActorGraph ::
  "graph_actor list \<Rightarrow> link_row list \<Rightarrow> workspace_row list \<Rightarrow> assemble_options \<Rightarrow> graph_data" where
  "assembleActorGraph actors links workspaces opts =
     (let kept = selectWithinCap actors (ao_nodeCap opts) (connected_dids actors links) (ao_pinned opts);
          members = (if ao_workspaceNodes opts then fold (add_member workspaces) kept [] else []);
          nodes = map (actor_node workspaces (ao_isOnline opts)) kept @ concat (map (\<lambda>(w, _). workspace_node workspaces w) members);
          graphLinks = ownership_links kept @ relationship_links kept links
            @ concat (map (\<lambda>(w, dids). membership_links w dids) members)
      in \<lparr>gd_nodes = withDegrees nodes graphLinks, gd_links = graphLinks, gd_totalActors = length actors,
          gd_truncated = (length kept < length actors)\<rparr>)"

section \<open>The two views\<close>

definition isConnected :: "string \<Rightarrow> ('vid, 'ch, 'cfg) ws_state \<Rightarrow> bool" where
  "isConnected did st = (map_of (ws_connected st) did \<noteq> None)"

definition graph_actor_of :: "actor_row \<Rightarrow> graph_actor" where
  "graph_actor_of r = \<lparr>ga_did = a_did r, ga_name = a_name r, ga_kind = a_kind r, ga_workspaceId = a_workspaceId r,
     ga_ownerDid = a_ownerDid r, ga_registeredAt = a_registeredAt r\<rparr>"

text \<open>Links are kept in the order they were made; the queries give the newest first.\<close>

definition link_list :: "('vid, 'ch, 'cfg) console \<Rightarrow> link_row list" where
  "link_list c = rev (co_links c)"

definition link_listForActors :: "string list \<Rightarrow> ('vid, 'ch, 'cfg) console \<Rightarrow> link_row list" where
  "link_listForActors dids c = rev (filter (\<lambda>l. ln_fromDid l \<in> set dids \<or> ln_toDid l \<in> set dids) (co_links c))"

definition buildEstateGraph :: "string option \<Rightarrow> nat option \<Rightarrow> ('vid, 'ch, 'cfg) console \<Rightarrow> graph_data" where
  "buildEstateGraph workspaceId nodeCap c =
     assembleActorGraph (map graph_actor_of (actor_list None (or_null workspaceId) (co_db c))) (link_list c) (workspace_list (co_db c))
       \<lparr>ao_workspaceNodes = True, ao_nodeCap = Some (case nodeCap of None \<Rightarrow> ESTATE_NODE_CAP | Some n \<Rightarrow> n),
        ao_isOnline = Some (\<lambda>did. isConnected did (co_ws c)), ao_pinned = []\<rparr>"

record ego_crawl =
  ec_actors :: "graph_actor list"
  ec_links :: "link_row list"
  ec_frontier :: "string list"
  ec_truncated :: bool

definition has_actor :: "string \<Rightarrow> graph_actor list \<Rightarrow> bool" where
  "has_actor did actors = (did \<in> set (map ga_did actors))"

text \<open>A link row comes with the rows of its two ends.\<close>

definition link_ends :: "('vid, 'ch, 'cfg) console \<Rightarrow> link_row \<Rightarrow> graph_actor list" where
  "link_ends c l = map graph_actor_of (List.map_filter (\<lambda>did. actor_findByDid did (co_db c)) [ln_fromDid l, ln_toDid l])"

text \<open>\<open>map.set(link.id, link)\<close>, on the values of the map.\<close>

definition set_link :: "link_row \<Rightarrow> link_row list \<Rightarrow> link_row list" where
  "set_link l links =
     (if ln_id l \<in> set (map ln_id links) then map (\<lambda>x. if ln_id x = ln_id l then l else x) links else links @ [l])"

definition discover ::
  "nat \<Rightarrow> graph_actor \<Rightarrow> graph_actor list \<times> string list \<times> bool \<Rightarrow> graph_actor list \<times> string list \<times> bool" where
  "discover cap a s =
     (case s of (actors, next, truncated) \<Rightarrow>
        if has_actor (ga_did a) actors then s
        else if cap \<le> length actors then (actors, next, True)
        else (actors @ [a], next @ [ga_did a], truncated))"

definition fetch_hop :: "('vid, 'ch, 'cfg) console \<Rightarrow> nat \<Rightarrow> ego_crawl \<Rightarrow> ego_crawl" where
  "fetch_hop c cap s =
     (let owners = filter (\<lambda>o'. \<not> has_actor o' (ec_actors s))
            (List.map_filter (\<lambda>f. Option.bind (find (\<lambda>a. ga_did a = f) (ec_actors s)) owner_of) (ec_frontier s));
          linkRows = link_listForActors (ec_frontier s) c;
          found = map graph_actor_of (actor_listByOwnerDids (ec_frontier s) (co_db c))
            @ map graph_actor_of (actor_findManyByDid owners (co_db c)) @ concat (map (link_ends c) linkRows)
      in case fold (discover cap) found (ec_actors s, [], ec_truncated s) of
           (actors, next, truncated) \<Rightarrow>
             \<lparr>ec_actors = actors, ec_links = fold set_link linkRows (ec_links s), ec_frontier = next, ec_truncated = truncated\<rparr>)"

primrec fetch_hops :: "('vid, 'ch, 'cfg) console \<Rightarrow> nat \<Rightarrow> nat \<Rightarrow> ego_crawl \<Rightarrow> ego_crawl" where
  "fetch_hops c cap 0 s = s"
| "fetch_hops c cap (Suc n) s = (if ec_frontier s = [] then s else fetch_hops c cap n (fetch_hop c cap s))"

definition ego_depth :: "nat option \<Rightarrow> nat" where
  "ego_depth depth = max 1 (min 2 (case depth of None \<Rightarrow> 1 | Some n \<Rightarrow> n))"

definition buildEgoGraph :: "string \<Rightarrow> nat option \<Rightarrow> nat option \<Rightarrow> ('vid, 'ch, 'cfg) console \<Rightarrow> graph_data" where
  "buildEgoGraph did depth nodeCap c =
     (let cap = (case nodeCap of None \<Rightarrow> EGO_NODE_CAP | Some n \<Rightarrow> n) in
      case actor_findByDid did (co_db c) of
        None \<Rightarrow> EMPTY_GRAPH
      | Some row \<Rightarrow>
          let s = fetch_hops c cap (ego_depth depth)
                \<lparr>ec_actors = [graph_actor_of row], ec_links = [], ec_frontier = [did], ec_truncated = False\<rparr>;
              workspaces = (if list_ex (\<lambda>a. truthy (ga_workspaceId a)) (ec_actors s) then workspace_list (co_db c) else []);
              assembled = assembleActorGraph (ec_actors s) (ec_links s) workspaces
                \<lparr>ao_workspaceNodes = False, ao_nodeCap = None, ao_isOnline = Some (\<lambda>d. isConnected d (co_ws c)), ao_pinned = [did]\<rparr>;
              trimmed = egoSubgraph assembled did (ego_depth depth) (Some cap)
          in trimmed\<lparr>gd_truncated := (gd_truncated trimmed \<or> ec_truncated s)\<rparr>)"

end
