(* ===== verification/GraphSafety.thy ===== *)
theory GraphSafety
  imports ActorGraph
begin

text \<open>
  What the graph shows. A crawl that goes outwards hop by hop reaches exactly what a number of steps reaches, as
  long as no cap cut it: a locale, interpreted on the trimming of a graph and on the queries of the ego view. So
  the view built from one query per hop shows the nodes that trimming the whole estate would.
\<close>

section \<open>Crawling outwards\<close>

primrec ball :: "('a \<Rightarrow> 'a \<Rightarrow> bool) \<Rightarrow> 'a \<Rightarrow> nat \<Rightarrow> 'a set" where
  "ball adj i 0 = {i}"
| "ball adj i (Suc n) = ball adj i n \<union> {b. \<exists>a \<in> ball adj i n. adj a b}"

lemma ball_mono: "(\<And>a b. adj a b \<Longrightarrow> adj' a b) \<Longrightarrow> ball adj i n \<subseteq> ball adj' i n"
  by (induction n) auto

lemma ball_start: "i \<in> ball adj i n"
  by (induction n) auto

text \<open>What was reached before the frontier has all its neighbours.\<close>

definition settled :: "('a \<Rightarrow> 'a \<Rightarrow> bool) \<Rightarrow> 'a set \<Rightarrow> 'a set \<Rightarrow> bool" where
  "settled adj I F \<longleftrightarrow> F \<subseteq> I \<and> (\<forall>a b. a \<in> I \<longrightarrow> a \<notin> F \<longrightarrow> adj a b \<longrightarrow> b \<in> I)"

text \<open>A hop keeps what was reached, adds neighbours of the frontier only, and all of them unless it is cut.\<close>

locale hop_crawl =
  fixes adj :: "'a \<Rightarrow> 'a \<Rightarrow> bool" and hop :: "'s \<Rightarrow> 's" and ids front :: "'s \<Rightarrow> 'a set" and cut ok :: "'s \<Rightarrow> bool"
  assumes keeps: "ids s \<subseteq> ids (hop s)"
    and stays_ok: "ok s \<Longrightarrow> ok (hop s)"
    and covers: "ok s \<Longrightarrow> \<not> cut (hop s) \<Longrightarrow> a \<in> front s \<Longrightarrow> a \<in> ids s \<Longrightarrow> adj a b \<Longrightarrow> b \<in> ids (hop s)"
    and moves: "front (hop s) = ids (hop s) - ids s"
    and stays_cut: "cut s \<Longrightarrow> cut (hop s)"
begin

lemma hops_cut: "cut s \<Longrightarrow> cut ((hop ^^ n) s)"
  by (induction n) (auto intro: stays_cut)

lemma settled_hop:
  assumes "ok s" and "settled adj (ids s) (front s)" and "\<not> cut (hop s)"
  shows "ok (hop s)" and "settled adj (ids (hop s)) (front (hop s))"
proof -
  have "b \<in> ids (hop s)" if "a \<in> ids (hop s)" "a \<notin> front (hop s)" "adj a b" for a b
    using that assms keeps [of s] covers [of s a b] moves [of s] unfolding settled_def by blast
  with moves [of s] show "settled adj (ids (hop s)) (front (hop s))" unfolding settled_def by blast
qed (rule stays_ok [OF assms(1)])

lemma hops_settled:
  assumes "ok s" and "settled adj (ids s) (front s)"
  shows "\<not> cut ((hop ^^ n) s) \<Longrightarrow> ok ((hop ^^ n) s) \<and> settled adj (ids ((hop ^^ n) s)) (front ((hop ^^ n) s))"
  by (induction n) (use assms settled_hop stays_cut in auto)

lemma hops_keep: "m \<le> n \<Longrightarrow> ids ((hop ^^ m) s) \<subseteq> ids ((hop ^^ n) s)"
  by (induction n) (use keeps in \<open>auto simp: le_Suc_eq\<close>)

lemma hops_left: "m < n \<Longrightarrow> a \<in> ids ((hop ^^ m) s) \<Longrightarrow> a \<notin> front ((hop ^^ n) s)"
  using hops_keep [of m "n - 1" s] moves [of "(hop ^^ (n - 1)) s"] by (cases n) auto

lemma hops_cover:
  assumes "ok s" and "settled adj (ids s) (front s)" and "i \<in> ids s"
  shows "\<not> cut ((hop ^^ n) s) \<Longrightarrow> ball adj i n \<subseteq> ids ((hop ^^ n) s)"
proof (induction n)
  case (Suc n)
  let ?s = "(hop ^^ n) s"
  from Suc.prems have open': "\<not> cut ?s" "\<not> cut (hop ?s)" by (auto intro: stays_cut)
  then have b: "ball adj i n \<subseteq> ids ?s" and s: "ok ?s" "settled adj (ids ?s) (front ?s)" using Suc.IH hops_settled [OF assms(1,2)] by blast+
  have "b \<in> ids (hop ?s)" if "a \<in> ball adj i n" "adj a b" for a b
    using that b s open' keeps [of ?s] covers [of ?s a b] unfolding settled_def by blast
  with b keeps [of ?s] show ?case by auto
qed (use assms in simp)

end

text \<open>With neighbours only, nothing else is reached.\<close>

locale sound_crawl = hop_crawl +
  assumes only: "b \<in> ids (hop s) \<Longrightarrow> b \<in> ids s \<or> (\<exists>a \<in> front s. adj a b)"
begin

lemma hops_sound:
  assumes "ids s = {i}" "front s \<subseteq> {i}"
  shows "ids ((hop ^^ n) s) \<subseteq> ball adj i n \<and> front ((hop ^^ n) s) \<subseteq> ball adj i n"
proof (induction n)
  case (Suc n)
  let ?s = "(hop ^^ n) s"
  have "ids (hop ?s) \<subseteq> ball adj i (Suc n)"
    unfolding ball.simps using only [of _ ?s] Suc by blast
  then show ?case using moves [of ?s] by auto
qed (use assms in simp)

lemma hops_exact:
  assumes "ok s" "ids s = {i}" "front s = {i}" and "\<not> cut ((hop ^^ n) s)"
  shows "ids ((hop ^^ n) s) = ball adj i n"
proof -
  have "settled adj (ids s) (front s)" using assms by (simp add: settled_def)
  with hops_cover [of s i n] hops_sound [of s i n] assms show ?thesis by auto
qed

end

section \<open>Trimming a graph\<close>

definition ego_hop :: "graph_data \<Rightarrow> nat option \<Rightarrow> crawl \<Rightarrow> crawl" where
  "ego_hop d cap s = (case s of (kept, frontier, truncated) \<Rightarrow> fold (leave_node d cap) frontier (kept, [], truncated))"


text \<open>A neighbour through an edge between two nodes, from a node that is no hub.\<close>

definition drawn :: "graph_data \<Rightarrow> string \<Rightarrow> string \<Rightarrow> bool" where
  "drawn d a b \<longleftrightarrow> \<not> is_hub d a \<and> b \<in> set (adjacency d a)"

text \<open>What a run of \<open>reach_one\<close> does to the crawl.\<close>

definition crawl_grows :: "string set \<Rightarrow> crawl \<Rightarrow> crawl \<Rightarrow> bool" where
  "crawl_grows found s s' \<longleftrightarrow> (case (s, s') of ((k, n, t), (k', n', t')) \<Rightarrow>
     \<exists>new. k' = k @ new \<and> n' = n @ new \<and> distinct new \<and> set new \<inter> set k = {} \<and> set new \<subseteq> found \<and> (t \<longrightarrow> t')
       \<and> (\<not> t' \<longrightarrow> found \<subseteq> set k'))"

lemma grows_refl: "crawl_grows {} s s"
  by (cases s) (auto simp: crawl_grows_def)

lemma grows_trans: "crawl_grows A s s' \<Longrightarrow> crawl_grows B s' s'' \<Longrightarrow> crawl_grows (A \<union> B) s s''"
  by (cases s; cases s'; cases s'') (fastforce simp: crawl_grows_def)

lemma reach_one_grows: "crawl_grows {i} s (reach_one cap i s)"
  by (cases s) (auto simp: crawl_grows_def reach_one_def)

lemma reach_grows: "crawl_grows (set is) s (fold (reach_one cap) is s)"
proof (induction "is" arbitrary: s)
  case (Cons i "is")
  show ?case using grows_trans [OF reach_one_grows [of i s cap] Cons.IH] by simp
qed (simp add: grows_refl)

lemma leave_grows: "crawl_grows {b. drawn d i b} s (leave_node d cap i s)"
  using reach_grows [of "adjacency d i" s cap] grows_refl [of s] by (auto simp: leave_node_def drawn_def)

lemma frontier_grows: "crawl_grows {b. \<exists>a \<in> set as. drawn d a b} s (fold (leave_node d cap) as s)"
proof (induction as arbitrary: s)
  case (Cons a as)
  have "{b. \<exists>x \<in> set (a # as). drawn d x b} = {b. drawn d a b} \<union> {b. \<exists>x \<in> set as. drawn d x b}" by auto
  then show ?case using grows_trans [OF leave_grows [of d a s cap] Cons.IH] by simp
qed (simp add: grows_refl)

lemma ego_hop_grows:
  "ego_hop d cap (k, f, t) = (k', f', t') \<Longrightarrow>
     k' = k @ f' \<and> distinct f' \<and> set f' \<inter> set k = {} \<and> set f' \<subseteq> {b. \<exists>a \<in> set f. drawn d a b} \<and> (t \<longrightarrow> t')
     \<and> (\<not> t' \<longrightarrow> {b. \<exists>a \<in> set f. drawn d a b} \<subseteq> set k')"
  using frontier_grows [of f d "(k, [], t)" cap] by (auto simp: ego_hop_def crawl_grows_def)

abbreviation crawl_kept :: "crawl \<Rightarrow> string list" where "crawl_kept s \<equiv> fst s"
abbreviation crawl_front :: "crawl \<Rightarrow> string list" where "crawl_front s \<equiv> fst (snd s)"
abbreviation crawl_cut :: "crawl \<Rightarrow> bool" where "crawl_cut s \<equiv> snd (snd s)"

interpretation ego: sound_crawl "drawn d" "ego_hop d cap" "\<lambda>s. set (crawl_kept s)" "\<lambda>s. set (crawl_front s)" crawl_cut "\<lambda>_. True"
  for d cap
proof
  fix s :: crawl and a b
  obtain k f t k' f' t' where s: "s = (k, f, t)" "ego_hop d cap s = (k', f', t')" by (cases s; cases "ego_hop d cap s")
  note g = ego_hop_grows [OF s(2) [unfolded s(1)]]
  show "set (crawl_kept s) \<subseteq> set (crawl_kept (ego_hop d cap s))" using g s by simp
  show "b \<in> set (crawl_kept (ego_hop d cap s))"
    if "\<not> crawl_cut (ego_hop d cap s)" "a \<in> set (crawl_front s)" "a \<in> set (crawl_kept s)" "drawn d a b" using g s that by auto
  show "set (crawl_front (ego_hop d cap s)) = set (crawl_kept (ego_hop d cap s)) - set (crawl_kept s)" using g s by auto
  show True ..
  show "crawl_cut s \<Longrightarrow> crawl_cut (ego_hop d cap s)" using g s by simp
  show "b \<in> set (crawl_kept (ego_hop d cap s)) \<Longrightarrow> b \<in> set (crawl_kept s) \<or> (\<exists>a \<in> set (crawl_front s). drawn d a b)"
    using g s by auto
qed

lemma ego_hop_empty: "ego_hop d cap (k, [], t) = (k, [], t)"
  by (simp add: ego_hop_def)

lemma ego_hops_Suc:
  "ego_hops d cap (Suc n) s = (if crawl_front s = [] then s else ego_hops d cap n (ego_hop d cap s))"
  by (simp add: ego_hop_def split: prod.split)

lemma ego_hops_eq: "ego_hops d cap n s = (ego_hop d cap ^^ n) s"
proof (induction n arbitrary: s)
  case (Suc n)
  obtain k f t where s: "s = (k, f, t)" by (cases s)
  have idle: "(ego_hop d cap ^^ m) (k, [], t) = (k, [], t)" for m by (induction m) (simp_all add: ego_hop_empty)
  show ?case using idle [of "Suc n"] Suc.IH [of "ego_hop d cap s"]
    by (simp add: s ego_hops_Suc funpow_Suc_right del: funpow.simps ego_hops.simps)
qed simp

lemma withDegrees_ids [simp]: "map gn_id (withDegrees nodes links) = map gn_id nodes"
  by (simp add: withDegrees_def Let_def comp_def)

lemma withDegrees_id_set [simp]: "gn_id ` set (withDegrees nodes links) = gn_id ` set nodes"
  using withDegrees_ids [of nodes links] by (metis list.set_map)

lemma node_of_iff: "node_of d i \<noteq> None \<longleftrightarrow> i \<in> gn_id ` set (gd_nodes d)"
  by (auto simp: node_of_def find_None_iff image_iff)

lemma drawn_node: "drawn d a b \<Longrightarrow> b \<in> gn_id ` set (gd_nodes d)"
  by (auto simp: drawn_def adjacency_def simp flip: node_of_iff split: if_splits)

lemma ball_nodes: "i \<in> gn_id ` set (gd_nodes d) \<Longrightarrow> ball (drawn d) i n \<subseteq> gn_id ` set (gd_nodes d)"
  by (induction n) (auto dest: drawn_node)

lemma ego_ids:
  assumes "i \<in> gn_id ` set (gd_nodes d)" and "\<not> gd_truncated (egoSubgraph d i n cap)"
  shows "gn_id ` set (gd_nodes (egoSubgraph d i n cap)) = ball (drawn d) i n"
proof -
  obtain k f t where r: "ego_hops d cap n ([i], [i], False) = (k, f, t)" by (cases "ego_hops d cap n ([i], [i], False)")
  have node: "node_of d i \<noteq> None" using assms(1) node_of_iff by blast
  from r node assms(2) have "\<not> t" by (auto simp: egoSubgraph_def Let_def split: if_splits)
  with r ego.hops_exact [of "([i], [i], False)" i n d cap] have "set k = ball (drawn d) i n" by (simp add: ego_hops_eq)
  moreover from this have "set k \<subseteq> gn_id ` set (gd_nodes d)" using ball_nodes [OF assms(1)] by simp
  ultimately show ?thesis using node r by (auto simp: egoSubgraph_def Let_def)
qed

lemma uncapped: "\<not> t \<Longrightarrow> \<not> crawl_cut (ego_hops d None n (k, f, t))"
proof -
  have one: "\<not> crawl_cut s \<Longrightarrow> \<not> crawl_cut (reach_one None i s)" for i s
    by (auto simp: reach_one_def at_cap_def split: prod.split)
  have many: "\<not> crawl_cut s \<Longrightarrow> \<not> crawl_cut (fold (reach_one None) is s)" for "is" s
    by (induction "is" arbitrary: s) (simp_all add: one)
  have leave: "\<not> crawl_cut s \<Longrightarrow> \<not> crawl_cut (fold (leave_node d None) as s)" for as s
    by (induction as arbitrary: s) (simp_all add: leave_node_def many)
  have hop: "\<not> crawl_cut s \<Longrightarrow> \<not> crawl_cut (ego_hop d None s)" for s
    using leave by (cases s) (auto simp: ego_hop_def)
  have "\<not> crawl_cut s \<Longrightarrow> \<not> crawl_cut ((ego_hop d None ^^ n) s)" for s by (induction n) (simp_all add: hop)
  then show "\<not> t \<Longrightarrow> ?thesis" by (simp add: ego_hops_eq)
qed

lemma uncapped_view: "\<not> gd_truncated d \<Longrightarrow> \<not> gd_truncated (egoSubgraph d i n None)"
  using uncapped [of False d n "[i]" "[i]"] by (auto simp: egoSubgraph_def Let_def split: prod.split)

section \<open>What is drawn has its ends\<close>

text \<open>The drawing library makes up a node for an end it does not know; so no graph has such an end.\<close>

definition closed_graph :: "graph_data \<Rightarrow> bool" where
  "closed_graph d \<longleftrightarrow> (\<forall>l \<in> set (gd_links d). gl_source l \<in> gn_id ` set (gd_nodes d) \<and> gl_target l \<in> gn_id ` set (gd_nodes d))"

lemma closed_EMPTY: "closed_graph EMPTY_GRAPH"
  by (simp add: closed_graph_def EMPTY_GRAPH_def)

lemma closed_ego: "closed_graph d \<Longrightarrow> closed_graph (egoSubgraph d i n cap)"
  by (auto simp: closed_graph_def egoSubgraph_def Let_def split: prod.split)

definition members_ok :: "workspace_row list \<Rightarrow> graph_actor list \<Rightarrow> (string \<times> string list) list \<Rightarrow> bool" where
  "members_ok ws kept m \<longleftrightarrow> (\<forall>w dids. (w, dids) \<in> set m \<longrightarrow> set dids \<subseteq> ga_did ` set kept \<and> workspaceById ws w \<noteq> None)"

lemma add_member_ok:
  assumes "members_ok ws kept m" and "a \<in> set kept"
  shows "members_ok ws kept (add_member ws a m)"
  unfolding members_ok_def
proof (intro allI impI)
  fix w dids
  assume x: "(w, dids) \<in> set (add_member ws a m)"
  have old: "set (case map_of m v of None \<Rightarrow> [] | Some ds \<Rightarrow> ds) \<subseteq> ga_did ` set kept" for v
    using assms(1) map_of_SomeD [of m v] by (cases "map_of m v") (auto simp: members_ok_def)
  from x consider "(w, dids) \<in> set m" | "workspaceById ws w \<noteq> None"
      "dids = (case map_of m w of None \<Rightarrow> [] | Some ds \<Rightarrow> ds) @ [ga_did a]"
    unfolding add_member_def by (force split: option.splits if_splits dest!: set_map_set)
  then show "set dids \<subseteq> ga_did ` set kept \<and> workspaceById ws w \<noteq> None"
    using assms old [of w] by cases (simp_all add: members_ok_def)
qed

lemma add_member_dids:
  assumes "did \<in> set dids" and "(w, dids) \<in> set (fold (add_member ws) kept [])"
  shows "did \<in> ga_did ` set kept \<and> workspaceById ws w \<noteq> None"
proof -
  have "members_ok ws kept (fold (add_member ws) as m)" if "members_ok ws kept m" "set as \<subseteq> set kept" for as m
    using that by (induction as arbitrary: m) (simp_all add: add_member_ok)
  from this [of "[]" kept] have "members_ok ws kept (fold (add_member ws) kept [])" by (simp add: members_ok_def)
  with assms show ?thesis unfolding members_ok_def by blast
qed

lemma closed_assembled: "closed_graph (assembleActorGraph actors links ws opts)"
proof -
  define kept where "kept = selectWithinCap actors (ao_nodeCap opts) (connected_dids actors links) (ao_pinned opts)"
  define members where "members = (if ao_workspaceNodes opts then fold (add_member ws) kept [] else [])"
  let ?hubs = "concat (map (\<lambda>(w, _). workspace_node ws w) members)"
  let ?ids = "ga_did ` set kept \<union> gn_id ` set ?hubs"
  have ids: "gn_id ` set (gd_nodes (assembleActorGraph actors links ws opts)) = ?ids"
    by (simp add: assembleActorGraph_def Let_def kept_def members_def image_Un image_image actor_node_def del: set_concat)
  have "gl_source l \<in> ?ids \<and> gl_target l \<in> ?ids" if l: "l \<in> set (membership_links w dids)" "(w, dids) \<in> set members" for l w dids
  proof -
    from l(1) obtain did where did: "did \<in> set dids" "gl_source l = workspaceNodeId w" "gl_target l = did" by (auto simp: membership_links_def)
    with l(2) add_member_dids [of did dids w ws kept] have "did \<in> ga_did ` set kept" "workspaceById ws w \<noteq> None"
      by (auto simp: members_def split: if_splits)
    moreover from this(2) have "workspaceNodeId w \<in> gn_id ` set (workspace_node ws w)" by (auto simp: workspace_node_def)
    moreover have "set (workspace_node ws w) \<subseteq> set ?hubs" using l(2) by force
    ultimately have "workspaceNodeId w \<in> gn_id ` set ?hubs" "did \<in> ga_did ` set kept" by blast+
    then show ?thesis unfolding did(2,3) by blast
  qed
  moreover have "gl_source l \<in> ?ids \<and> gl_target l \<in> ?ids" if "l \<in> set (ownership_links kept)" for l
    using that by (auto simp: ownership_links_def split: option.splits if_splits)
  moreover have "gl_source l \<in> ?ids \<and> gl_target l \<in> ?ids" if "l \<in> set (relationship_links kept links)" for l
    using that by (auto simp: relationship_links_def)
  moreover have "set (gd_links (assembleActorGraph actors links ws opts)) = set (ownership_links kept) \<union> set (relationship_links kept links)
      \<union> (\<Union>(w, dids) \<in> set members. set (membership_links w dids))"
    by (auto simp: assembleActorGraph_def Let_def kept_def members_def)
  ultimately show ?thesis unfolding closed_graph_def ids by blast
qed

text \<open>The cap drops isolated Actors before connected ones, and these before a pinned one.\<close>

theorem cap_drops_isolated_first:
  assumes "x \<in> set (selectWithinCap actors cap linked pinned)" and "y \<in> set actors"
    and "y \<notin> set (selectWithinCap actors cap linked pinned)"
  shows "cap_rank linked pinned x \<le> cap_rank linked pinned y"
proof -
  let ?s = "sort_key (cap_rank linked pinned) (sort_key (\<lambda>a. - ga_registeredAt a) actors)"
  from assms(2,3) obtain c where c: "selectWithinCap actors cap linked pinned = take c ?s"
    by (auto simp: selectWithinCap_def split: option.splits if_splits)
  have "sorted (map (cap_rank linked pinned) (take c ?s @ drop c ?s))"
    unfolding append_take_drop_id by (rule sorted_sort_key)
  then have le: "\<forall>x \<in> set (take c ?s). \<forall>y \<in> set (drop c ?s). cap_rank linked pinned x \<le> cap_rank linked pinned y"
    unfolding map_append sorted_append by auto
  have "y \<in> set (take c ?s @ drop c ?s)" unfolding append_take_drop_id using assms(2) by simp
  with assms(3) have "y \<in> set (drop c ?s)" unfolding c set_append by blast
  with le assms(1) show ?thesis unfolding c by blast
qed

text \<open>Both views are closed; with \<open>connectedOnly\<close> every node shown has an edge shown.\<close>

theorem views_closed: "closed_graph (buildEstateGraph w cap c)" "closed_graph (buildEgoGraph did depth cap c)"
proof -
  show "closed_graph (buildEstateGraph w cap c)" by (simp add: buildEstateGraph_def closed_assembled)
  have "closed_graph (d\<lparr>gd_truncated := t\<rparr>) = closed_graph d" for d t by (simp add: closed_graph_def)
  then show "closed_graph (buildEgoGraph did depth cap c)"
    by (simp add: buildEgoGraph_def Let_def closed_EMPTY closed_ego closed_assembled split: option.split)
qed

lemma degree_counts:
  "fold count_link links counts i = counts i + length (filter (\<lambda>l. gl_source l = i) links) + length (filter (\<lambda>l. gl_target l = i) links)"
  by (induction links arbitrary: counts) (auto simp: count_link_def Let_def)

lemma degree_pos:
  "n \<in> set (withDegrees nodes links) \<Longrightarrow> 0 < gn_degree n \<longleftrightarrow> (\<exists>l \<in> set links. gl_source l = gn_id n \<or> gl_target l = gn_id n)"
  by (auto simp: withDegrees_def degree_counts Let_def filter_empty_conv)

text \<open>What the filters show: visible nodes, and the links between two of them.\<close>

definition shown_ids :: "graph_filters \<Rightarrow> graph_data \<Rightarrow> string set" where
  "shown_ids f d = gn_id ` {n \<in> set (gd_nodes d). node_visible f n}"

definition shown_links :: "graph_filters \<Rightarrow> graph_data \<Rightarrow> graph_link list" where
  "shown_links f d =
     filter (\<lambda>l. gl_edgeKind l \<in> set (gf_edgeKinds f) \<and> gl_source l \<in> shown_ids f d \<and> gl_target l \<in> shown_ids f d) (gd_links d)"

definition linked_ids :: "graph_filters \<Rightarrow> graph_data \<Rightarrow> string set" where
  "linked_ids f d = {i. \<exists>l \<in> set (shown_links f d). gl_source l = i \<or> gl_target l = i}"

lemma filters_show:
  "gd_links (applyGraphFilters d f) = shown_links f d"
  "gn_id ` set (gd_nodes (applyGraphFilters d f)) = (if gf_connectedOnly f then linked_ids f d else shown_ids f d)"
proof -
  define nodes where "nodes = withDegrees (filter (\<lambda>n. gn_id n \<in> shown_ids f d) (gd_nodes d)) (shown_links f d)"
  define kept where "kept = map gn_id (filter (\<lambda>n. 0 < gn_degree n) nodes)"
  have visible: "set (map gn_id (filter (node_visible f) (gd_nodes d))) = shown_ids f d" by (auto simp: shown_ids_def)
  have ids: "gn_id ` set nodes = shown_ids f d" by (auto simp: nodes_def shown_ids_def)
  have pos: "0 < gn_degree n \<longleftrightarrow> gn_id n \<in> linked_ids f d" if "n \<in> set nodes" for n
    using that unfolding nodes_def by (simp add: degree_pos linked_ids_def)
  have sub: "linked_ids f d \<subseteq> shown_ids f d" by (auto simp: linked_ids_def shown_links_def)
  have kept: "set kept = linked_ids f d"
    unfolding kept_def using pos sub by (auto simp: ids [symmetric])
  have all: "filter (\<lambda>l. gl_source l \<in> set kept \<and> gl_target l \<in> set kept) (shown_links f d) = shown_links f d"
    unfolding kept by (rule filter_True) (auto simp: linked_ids_def)
  have view: "applyGraphFilters d f = (if gf_connectedOnly f
      then \<lparr>gd_nodes = withDegrees (filter (\<lambda>n. gn_id n \<in> set kept) nodes) (shown_links f d), gd_links = shown_links f d,
            gd_totalActors = gd_totalActors d, gd_truncated = gd_truncated d\<rparr>
      else \<lparr>gd_nodes = nodes, gd_links = shown_links f d, gd_totalActors = gd_totalActors d, gd_truncated = gd_truncated d\<rparr>)"
    unfolding applyGraphFilters_def Let_def visible shown_links_def [symmetric] nodes_def [symmetric] kept_def [symmetric] all
    by (rule refl)
  show "gd_links (applyGraphFilters d f) = shown_links f d" by (simp add: view)
  show "gn_id ` set (gd_nodes (applyGraphFilters d f)) = (if gf_connectedOnly f then linked_ids f d else shown_ids f d)"
    using sub ids by (auto simp: view kept)
qed

lemma closed_filters: "closed_graph (applyGraphFilters d f)"
  unfolding closed_graph_def filters_show by (auto simp: linked_ids_def shown_links_def)

theorem no_isolated_node:
  "gf_connectedOnly f \<Longrightarrow> n \<in> set (gd_nodes (applyGraphFilters d f)) \<Longrightarrow>
     \<exists>l \<in> set (gd_links (applyGraphFilters d f)). gl_source l = gn_id n \<or> gl_target l = gn_id n"
  using filters_show(2) [of d f] unfolding filters_show(1) by (auto simp: linked_ids_def set_eq_iff)

section \<open>Related Actors\<close>

definition related :: "graph_actor list \<Rightarrow> link_row list \<Rightarrow> string \<Rightarrow> string \<Rightarrow> bool" where
  "related actors links a b \<longleftrightarrow> a \<in> ga_did ` set actors \<and> b \<in> ga_did ` set actors \<and>
     ((\<exists>x \<in> set actors. owner_of x = Some a \<and> ga_did x = b) \<or> (\<exists>x \<in> set actors. owner_of x = Some b \<and> ga_did x = a)
      \<or> (\<exists>l \<in> set links. ln_fromDid l = a \<and> ln_toDid l = b \<or> ln_fromDid l = b \<and> ln_toDid l = a))"

text \<open>Without hubs and cap, the drawn edges are the relations.\<close>

definition plain_options :: "assemble_options \<Rightarrow> bool" where
  "plain_options opts \<longleftrightarrow> \<not> ao_workspaceNodes opts \<and> ao_nodeCap opts = None"

lemma plain_graph:
  assumes "plain_options opts"
  shows "gn_id ` set (gd_nodes (assembleActorGraph actors links ws opts)) = ga_did ` set actors"
    and "gd_links (assembleActorGraph actors links ws opts) = ownership_links actors @ relationship_links actors links"
    and "\<not> gd_truncated (assembleActorGraph actors links ws opts)"
    and "\<not> is_hub (assembleActorGraph actors links ws opts) i"
proof -
  show "gn_id ` set (gd_nodes (assembleActorGraph actors links ws opts)) = ga_did ` set actors"
    using assms by (simp add: assembleActorGraph_def plain_options_def selectWithinCap_def Let_def actor_node_def image_image)
  show "gd_links (assembleActorGraph actors links ws opts) = ownership_links actors @ relationship_links actors links"
    "\<not> gd_truncated (assembleActorGraph actors links ws opts)"
    using assms by (simp_all add: assembleActorGraph_def plain_options_def selectWithinCap_def Let_def)
  have "gn_nodeKind n = ActorNode" if "n \<in> set (gd_nodes (assembleActorGraph actors links ws opts))" for n
    using that assms
    by (auto simp: assembleActorGraph_def plain_options_def selectWithinCap_def Let_def withDegrees_def actor_node_def)
  then show "\<not> is_hub (assembleActorGraph actors links ws opts) i"
    by (auto simp: is_hub_def node_of_def dest: find_Some_D)
qed

lemma bex_links:
  "(\<exists>l \<in> set (ownership_links actors). P (gl_source l) (gl_target l)) \<longleftrightarrow>
     (\<exists>x \<in> set actors. \<exists>o'. owner_of x = Some o' \<and> o' \<in> ga_did ` set actors \<and> P o' (ga_did x))"
  "(\<exists>l \<in> set (relationship_links actors links). P (gl_source l) (gl_target l)) \<longleftrightarrow>
     (\<exists>x \<in> set links. ln_fromDid x \<in> ga_did ` set actors \<and> ln_toDid x \<in> ga_did ` set actors \<and> P (ln_fromDid x) (ln_toDid x))"
proof -
  let ?own = "\<lambda>a. case owner_of a of None \<Rightarrow> [] | Some o' \<Rightarrow> if o' \<in> set (map ga_did actors)
      then [\<lparr>gl_id = ''own:'' @ ga_did a, gl_source = o', gl_target = ga_did a, gl_edgeKind = Ownership, gl_label = None\<rparr>] else []"
  have "(\<exists>l \<in> set (?own x). P (gl_source l) (gl_target l)) \<longleftrightarrow>
      (\<exists>o'. owner_of x = Some o' \<and> o' \<in> ga_did ` set actors \<and> P o' (ga_did x))" for x
    by (cases "owner_of x") auto
  then show "(\<exists>l \<in> set (ownership_links actors). P (gl_source l) (gl_target l)) \<longleftrightarrow>
     (\<exists>x \<in> set actors. \<exists>o'. owner_of x = Some o' \<and> o' \<in> ga_did ` set actors \<and> P o' (ga_did x))"
    unfolding ownership_links_def set_concat set_map by blast
qed (auto simp: relationship_links_def)

lemma adjacency_iff:
  "b \<in> set (adjacency d a) \<longleftrightarrow> (\<exists>l \<in> set (gd_links d). gl_source l \<in> gn_id ` set (gd_nodes d) \<and> gl_target l \<in> gn_id ` set (gd_nodes d)
     \<and> (gl_source l = a \<and> gl_target l = b \<or> gl_source l = b \<and> gl_target l = a))"
  unfolding adjacency_def node_of_iff by (auto split: if_splits)

lemma drawn_related:
  assumes "plain_options opts"
  shows "drawn (assembleActorGraph actors links ws opts) a b = related actors links a b"
proof -
  let ?D = "ga_did ` set actors"
  let ?P = "\<lambda>s t. s \<in> ?D \<and> t \<in> ?D \<and> (s = a \<and> t = b \<or> s = b \<and> t = a)"
  have "drawn (assembleActorGraph actors links ws opts) a b \<longleftrightarrow>
      (\<exists>l \<in> set (ownership_links actors). ?P (gl_source l) (gl_target l))
      \<or> (\<exists>l \<in> set (relationship_links actors links). ?P (gl_source l) (gl_target l))"
    unfolding drawn_def adjacency_iff plain_graph(1,2) [OF assms] using plain_graph(4) [OF assms] by (simp add: bex_Un)
  moreover have "x \<in> set actors \<Longrightarrow> ga_did x \<in> ?D" for x by simp
  ultimately show ?thesis unfolding bex_links [where P = ?P] related_def by blast
qed

lemma drawn_is_related: "plain_options opts \<Longrightarrow> drawn (assembleActorGraph actors links ws opts) = related actors links"
  by (intro ext) (rule drawn_related)

section \<open>The queries of the ego view\<close>

definition all_actors :: "('vid, 'ch, 'cfg) console \<Rightarrow> graph_actor list" where
  "all_actors c = map graph_actor_of (tb_actors (co_db c))"

text \<open>What a run of \<open>discover\<close> does.\<close>

lemma discover_grows:
  "fold (discover cap) found (as, next, t) = (as', next', t') \<Longrightarrow>
     \<exists>new. as' = as @ new \<and> next' = next @ map ga_did new \<and> set new \<subseteq> set found \<and> (t \<longrightarrow> t')
       \<and> (\<not> t' \<longrightarrow> ga_did ` set found \<subseteq> ga_did ` set as') \<and> (distinct (map ga_did as) \<longrightarrow> distinct (map ga_did as'))
       \<and> ga_did ` set new \<inter> ga_did ` set as = {} \<and> (length as \<le> max 1 cap \<longrightarrow> length as' \<le> max 1 cap)"
proof (induction found arbitrary: as "next" t)
  case (Cons a found)
  obtain as1 n1 t1 where one: "discover cap a (as, next, t) = (as1, n1, t1)" by (cases "discover cap a (as, next, t)")
  with Cons.prems have "fold (discover cap) found (as1, n1, t1) = (as', next', t')" by simp
  from Cons.IH [OF this] obtain new where new: "as' = as1 @ new" "next' = n1 @ map ga_did new" "set new \<subseteq> set found" "t1 \<longrightarrow> t'"
    "\<not> t' \<longrightarrow> ga_did ` set found \<subseteq> ga_did ` set as'" "distinct (map ga_did as1) \<longrightarrow> distinct (map ga_did as')"
    "ga_did ` set new \<inter> ga_did ` set as1 = {}" "length as1 \<le> max 1 cap \<longrightarrow> length as' \<le> max 1 cap" by blast
  from one consider (old) "as1 = as" "n1 = next" "t1 = t" "ga_did a \<in> ga_did ` set as" | (cut) "as1 = as" "n1 = next" t1
    | (fresh) "as1 = as @ [a]" "n1 = next @ [ga_did a]" "t1 = t" "ga_did a \<notin> ga_did ` set as" "\<not> cap \<le> length as"
    by (auto simp: discover_def has_actor_def split: if_splits)
  then show ?case
  proof cases
    case fresh
    with new show ?thesis by (intro exI [of _ "a # new"]) auto
  qed (use new in auto)
qed auto

definition fetched :: "('vid, 'ch, 'cfg) console \<Rightarrow> ego_crawl \<Rightarrow> graph_actor list" where
  "fetched c s =
     map graph_actor_of (actor_listByOwnerDids (ec_frontier s) (co_db c))
     @ map graph_actor_of (actor_findManyByDid (filter (\<lambda>o'. \<not> has_actor o' (ec_actors s))
         (List.map_filter (\<lambda>f. Option.bind (find (\<lambda>a. ga_did a = f) (ec_actors s)) owner_of) (ec_frontier s))) (co_db c))
     @ concat (map (link_ends c) (link_listForActors (ec_frontier s) c))"

lemma fetch_hop_grows:
  "\<exists>new. ec_actors (fetch_hop c cap s) = ec_actors s @ new \<and> ec_frontier (fetch_hop c cap s) = map ga_did new
     \<and> set new \<subseteq> set (fetched c s) \<and> (ec_truncated s \<longrightarrow> ec_truncated (fetch_hop c cap s))
     \<and> (\<not> ec_truncated (fetch_hop c cap s) \<longrightarrow> ga_did ` set (fetched c s) \<subseteq> ga_did ` set (ec_actors (fetch_hop c cap s)))
     \<and> (distinct (map ga_did (ec_actors s)) \<longrightarrow> distinct (map ga_did (ec_actors (fetch_hop c cap s))))
     \<and> ga_did ` set new \<inter> ga_did ` set (ec_actors s) = {}
     \<and> (length (ec_actors s) \<le> max 1 cap \<longrightarrow> length (ec_actors (fetch_hop c cap s)) \<le> max 1 cap)"
proof -
  obtain as' n' t' where f: "fold (discover cap) (fetched c s) (ec_actors s, [], ec_truncated s) = (as', n', t')"
    by (cases "fold (discover cap) (fetched c s) (ec_actors s, [], ec_truncated s)")
  then have "fetch_hop c cap s = \<lparr>ec_actors = as', ec_links = fold set_link (link_listForActors (ec_frontier s) c) (ec_links s),
      ec_frontier = n', ec_truncated = t'\<rparr>"
    unfolding fetch_hop_def fetched_def Let_def by simp
  with discover_grows [OF f] show ?thesis by simp
qed

lemma fetch_hop_links: "ec_links (fetch_hop c cap s) = fold set_link (link_listForActors (ec_frontier s) c) (ec_links s)"
  by (simp add: fetch_hop_def Let_def split: prod.split)

lemma set_map_filter_iff: "y \<in> set (List.map_filter f xs) \<longleftrightarrow> (\<exists>x \<in> set xs. f x = Some y)"
  by (induction xs) (auto split: option.split)

lemma link_ends_set: "set (link_ends c l) = graph_actor_of ` {r. \<exists>did \<in> {ln_fromDid l, ln_toDid l}. actor_findByDid did (co_db c) = Some r}"
  by (auto simp: link_ends_def split: option.splits)

lemma fetched_known: "set (fetched c s) \<subseteq> set (all_actors c)"
  by (auto simp: fetched_def all_actors_def actor_listByOwnerDids_def actor_findManyByDid_def link_ends_set
      actor_findByDid_def dest: row_find_Some_D)

lemma set_links:
  assumes "unique_keys ln_id rows" and "set new \<subseteq> set rows" and "set links \<subseteq> set rows"
  shows "set (fold set_link new links) = set new \<union> set links"
  using assms(2,3)
proof (induction new arbitrary: links)
  case (Cons l new)
  have "x = l" if "x \<in> set links" "ln_id x = ln_id l" for x
    using row_find_unique [OF assms(1), of x] row_find_unique [OF assms(1), of l] that Cons.prems by auto
  then have "set (set_link l links) = insert l (set links)"
    by (auto simp: set_link_def image_iff)
  with Cons show ?case by auto
qed simp

definition crawl_ok :: "('vid, 'ch, 'cfg) console \<Rightarrow> ego_crawl \<Rightarrow> bool" where
  "crawl_ok c s \<longleftrightarrow> unique_keys a_did (tb_actors (co_db c)) \<and> unique_keys ln_id (co_links c)
     \<and> set (ec_actors s) \<subseteq> set (all_actors c) \<and> set (ec_links s) \<subseteq> set (co_links c)
     \<and> set (ec_frontier s) \<subseteq> ga_did ` set (ec_actors s) \<and> distinct (map ga_did (ec_actors s))
     \<and> (\<forall>a \<in> ga_did ` set (ec_actors s) - set (ec_frontier s). \<forall>l \<in> set (co_links c).
          ln_fromDid l = a \<or> ln_toDid l = a \<longrightarrow> l \<in> set (ec_links s))"

lemma known_actor:
  assumes "unique_keys a_did (tb_actors (co_db c))" and "x \<in> set (all_actors c)" "y \<in> set (all_actors c)" "ga_did x = ga_did y"
  shows "x = y"
proof -
  from assms(2-4) obtain r q where rq: "r \<in> set (tb_actors (co_db c))" "q \<in> set (tb_actors (co_db c))" "x = graph_actor_of r"
    "y = graph_actor_of q" "a_did r = a_did q"
    by (auto simp: all_actors_def graph_actor_of_def)
  with row_find_unique [OF assms(1)] have "Some r = Some q" by metis
  with rq show ?thesis by simp
qed

lemma fetched_covers:
  assumes ok: "crawl_ok c s" and a: "a \<in> set (ec_frontier s)" and rel: "related (all_actors c) (link_list c) a b"
    and b: "b \<notin> ga_did ` set (ec_actors s)"
  shows "b \<in> ga_did ` set (fetched c s)"
proof -
  have u: "unique_keys a_did (tb_actors (co_db c))" using ok by (simp add: crawl_ok_def)
  from rel consider (owned) x where "x \<in> set (all_actors c)" "owner_of x = Some a" "ga_did x = b"
    | (owner) x where "x \<in> set (all_actors c)" "owner_of x = Some b" "ga_did x = a"
    | (link) l where "l \<in> set (co_links c)" "ln_fromDid l = a \<and> ln_toDid l = b \<or> ln_fromDid l = b \<and> ln_toDid l = a"
    by (auto simp: related_def link_list_def)
  then show ?thesis
  proof cases
    case owned
    then obtain r where "r \<in> set (tb_actors (co_db c))" "a_ownerDid r = Some a" "x = graph_actor_of r"
      by (auto simp: all_actors_def owner_of_def graph_actor_of_def or_null_def split: if_splits)
    with a have "x \<in> set (fetched c s)" by (auto simp: fetched_def actor_listByOwnerDids_def)
    with owned show ?thesis by auto
  next
    case owner
    from ok a have "a \<in> ga_did ` set (ec_actors s)" by (auto simp: crawl_ok_def)
    then have "find (\<lambda>y. ga_did y = a) (ec_actors s) \<noteq> None" by (auto simp: find_None_iff)
    then obtain y where f: "find (\<lambda>y. ga_did y = a) (ec_actors s) = Some y" by blast
    then have "y \<in> set (ec_actors s)" "ga_did y = a" by (auto dest: find_Some_D)
    with ok owner have "y = x" using known_actor [OF u, of y x] by (auto simp: crawl_ok_def)
    with f owner a have "b \<in> set (List.map_filter (\<lambda>f. Option.bind (find (\<lambda>a. ga_did a = f) (ec_actors s)) owner_of) (ec_frontier s))"
      unfolding set_map_filter_iff by (intro bexI [of _ a]) simp_all
    moreover from rel obtain r where "r \<in> set (tb_actors (co_db c))" "a_did r = b"
      by (auto simp: related_def all_actors_def graph_actor_of_def)
    ultimately have "graph_actor_of r \<in> set (fetched c s)"
      using b unfolding fetched_def by (simp add: actor_findManyByDid_def has_actor_def)
    then show ?thesis using \<open>a_did r = b\<close> by (force simp: graph_actor_of_def)
  next
    case link
    from rel obtain r where r: "r \<in> set (tb_actors (co_db c))" "a_did r = b"
      by (auto simp: related_def all_actors_def graph_actor_of_def)
    then have "actor_findByDid b (co_db c) = Some r" using row_find_unique [OF u r(1)] by (simp add: actor_findByDid_def)
    with link have "graph_actor_of r \<in> set (link_ends c l)" by (auto simp: link_ends_set)
    moreover from link a have "l \<in> set (link_listForActors (ec_frontier s) c)" by (auto simp: link_listForActors_def)
    ultimately have "graph_actor_of r \<in> set (fetched c s)" by (auto simp: fetched_def)
    then show ?thesis using r by (force simp: graph_actor_of_def)
  qed
qed

lemma crawl_ok_hop:
  assumes ok: "crawl_ok c s"
  shows "crawl_ok c (fetch_hop c cap s)"
proof -
  obtain new where new: "ec_actors (fetch_hop c cap s) = ec_actors s @ new" "ec_frontier (fetch_hop c cap s) = map ga_did new"
    "set new \<subseteq> set (fetched c s)" "distinct (map ga_did (ec_actors s)) \<longrightarrow> distinct (map ga_did (ec_actors (fetch_hop c cap s)))"
    "ga_did ` set new \<inter> ga_did ` set (ec_actors s) = {}"
    using fetch_hop_grows [of c cap s] by blast
  have "set (link_listForActors (ec_frontier s) c) \<subseteq> set (co_links c)" by (auto simp: link_listForActors_def)
  then have links: "set (ec_links (fetch_hop c cap s)) = set (link_listForActors (ec_frontier s) c) \<union> set (ec_links s)"
    unfolding fetch_hop_links using ok by (intro set_links) (auto simp: crawl_ok_def)
  have touched: "l \<in> set (ec_links (fetch_hop c cap s))"
    if "a \<in> ga_did ` set (ec_actors s)" "l \<in> set (co_links c)" "ln_fromDid l = a \<or> ln_toDid l = a" for a l
  proof (cases "a \<in> set (ec_frontier s)")
    case True
    with that show ?thesis by (auto simp: links link_listForActors_def)
  next
    case False
    with that ok show ?thesis by (auto simp: links crawl_ok_def)
  qed
  have front: "ga_did ` set (ec_actors (fetch_hop c cap s)) - set (ec_frontier (fetch_hop c cap s)) = ga_did ` set (ec_actors s)"
    "set (ec_frontier (fetch_hop c cap s)) \<subseteq> ga_did ` set (ec_actors (fetch_hop c cap s))"
    using new(5) by (auto simp: new(1,2))
  have actors: "set (ec_actors (fetch_hop c cap s)) \<subseteq> set (all_actors c)"
    using ok new(3) fetched_known [of c s] by (simp add: new(1) crawl_ok_def)
  have rows: "set (ec_links (fetch_hop c cap s)) \<subseteq> set (co_links c)"
    using ok by (simp add: links crawl_ok_def) (simp add: link_listForActors_def)
  have dist: "distinct (map ga_did (ec_actors (fetch_hop c cap s)))" using ok new(4) by (simp add: crawl_ok_def)
  have keys: "unique_keys a_did (tb_actors (co_db c))" "unique_keys ln_id (co_links c)" using ok by (simp_all add: crawl_ok_def)
  show ?thesis
    unfolding crawl_ok_def front(1) using keys actors rows front(2) dist touched by blast
qed

interpretation fetch: hop_crawl "related (all_actors c) (link_list c)" "fetch_hop c cap" "\<lambda>s. ga_did ` set (ec_actors s)"
    "\<lambda>s. set (ec_frontier s)" ec_truncated "crawl_ok c"
  for c :: "('vid, 'ch, 'cfg) console" and cap
proof
  fix s a b
  obtain new where new: "ec_actors (fetch_hop c cap s) = ec_actors s @ new" "ec_frontier (fetch_hop c cap s) = map ga_did new"
    "set new \<subseteq> set (fetched c s)" "ec_truncated s \<longrightarrow> ec_truncated (fetch_hop c cap s)"
    "\<not> ec_truncated (fetch_hop c cap s) \<longrightarrow> ga_did ` set (fetched c s) \<subseteq> ga_did ` set (ec_actors (fetch_hop c cap s))"
    "ga_did ` set new \<inter> ga_did ` set (ec_actors s) = {}"
    using fetch_hop_grows [of c cap s] by blast
  show "ga_did ` set (ec_actors s) \<subseteq> ga_did ` set (ec_actors (fetch_hop c cap s))" using new by auto
  show "crawl_ok c s \<Longrightarrow> crawl_ok c (fetch_hop c cap s)" by (rule crawl_ok_hop)
  show "b \<in> ga_did ` set (ec_actors (fetch_hop c cap s))"
    if "crawl_ok c s" "\<not> ec_truncated (fetch_hop c cap s)" "a \<in> set (ec_frontier s)" "a \<in> ga_did ` set (ec_actors s)"
      "related (all_actors c) (link_list c) a b"
    using fetched_covers [OF that(1,3,5)] that(2) new by auto
  show "set (ec_frontier (fetch_hop c cap s)) = ga_did ` set (ec_actors (fetch_hop c cap s)) - ga_did ` set (ec_actors s)"
    using new by auto
  show "ec_truncated s \<Longrightarrow> ec_truncated (fetch_hop c cap s)" using new by simp
qed

lemma fetch_hops_eq: "fetch_hops c cap n s = (fetch_hop c cap ^^ n) s"
proof (induction n arbitrary: s)
  case (Suc n)
  have idle: "(fetch_hop c cap ^^ m) s = s" if "ec_frontier s = []" for m
  proof (induction m)
    case (Suc m)
    have "fetch_hop c cap s = s"
      using that by (simp add: fetch_hop_def Let_def actor_listByOwnerDids_def actor_findManyByDid_def link_listForActors_def
          cong: option.case_cong split: option.split)
    with Suc show ?case by simp
  qed simp
  show ?case using idle [of "Suc n"] Suc.IH [of "fetch_hop c cap s"] by (simp add: funpow_Suc_right del: funpow.simps)
qed simp

section \<open>The ego view\<close>

lemma crawl_start_ok:
  assumes "unique_keys a_did (tb_actors (co_db c))" "unique_keys ln_id (co_links c)" "actor_findByDid did (co_db c) = Some r"
  defines "s \<equiv> \<lparr>ec_actors = [graph_actor_of r], ec_links = [], ec_frontier = [did], ec_truncated = False\<rparr>"
  shows "crawl_ok c s" and "ga_did ` set (ec_actors s) = {did}" and "settled adj (ga_did ` set (ec_actors s)) (set (ec_frontier s))"
proof -
  from assms(3) have r: "r \<in> set (tb_actors (co_db c))" "a_did r = did" by (auto simp: actor_findByDid_def dest: row_find_Some_D)
  then show ids: "ga_did ` set (ec_actors s) = {did}" by (simp add: graph_actor_of_def s_def)
  then show "settled adj (ga_did ` set (ec_actors s)) (set (ec_frontier s))" by (simp add: settled_def s_def)
  from assms(1,2) r ids show "crawl_ok c s" by (auto simp: crawl_ok_def all_actors_def s_def)
qed

lemma subgraph_reaches:
  fixes c :: "('vid, 'ch, 'cfg) console"
  assumes start: "crawl_ok c s0" "settled (related (all_actors c) (link_list c)) (ga_did ` set (ec_actors s0)) (set (ec_frontier s0))"
      "did \<in> ga_did ` set (ec_actors s0)" and uncut: "\<not> ec_truncated ((fetch_hop c cap ^^ n) s0)"
  defines "s \<equiv> (fetch_hop c cap ^^ n) s0"
  shows "m \<le> n \<Longrightarrow> ball (related (all_actors c) (link_list c)) did m \<subseteq> ball (related (ec_actors s) (ec_links s)) did m"
proof (induction m)
  case (Suc m)
  let ?full = "related (all_actors c) (link_list c)" and ?sub = "related (ec_actors s) (ec_links s)"
  let ?at = "\<lambda>k. (fetch_hop c cap ^^ k) s0"
  have ok: "crawl_ok c s" using fetch.hops_settled [OF start(1,2) uncut] unfolding s_def by blast
  have uncut_at: "\<not> ec_truncated (?at k)" if "k \<le> n" for k
  proof
    assume "ec_truncated (?at k)"
    then have "ec_truncated ((fetch_hop c cap ^^ (n - k)) (?at k))" by (rule fetch.hops_cut)
    moreover have "(fetch_hop c cap ^^ (n - k)) (?at k) = ?at (n - k + k)" by (simp add: funpow_add)
    ultimately show False using uncut that by simp
  qed
  have there: "ball ?full did k \<subseteq> ga_did ` set (ec_actors (?at k))" if "k \<le> n" for k
    using fetch.hops_cover [OF start] uncut_at [OF that] .
  have final: "ball ?full did k \<subseteq> ga_did ` set (ec_actors s)" if "k \<le> n" for k
    using there [OF that] fetch.hops_keep [OF that, where s = s0] unfolding s_def by blast
  have "?sub a b" if ab: "a \<in> ball ?full did m" "?full a b" for a b
  proof -
    have b: "b \<in> ball ?full did (Suc m)" using ab by auto
    have ids: "a \<in> ga_did ` set (ec_actors s)" "b \<in> ga_did ` set (ec_actors s)"
      using ab(1) b final [of m] final [of "Suc m"] Suc.prems by auto
    have "a \<notin> set (ec_frontier s)"
      unfolding s_def by (rule fetch.hops_left [of m n]) (use there [of m] ab(1) Suc.prems in auto)
    with ok ids have links: "l \<in> set (ec_links s)" if "l \<in> set (co_links c)" "ln_fromDid l = a \<or> ln_toDid l = a" for l
      using that unfolding crawl_ok_def by blast
    have rows: "x \<in> set (ec_actors s)" if "x \<in> set (all_actors c)" "ga_did x \<in> {a, b}" for x
      using that ids known_actor [of c x] ok unfolding crawl_ok_def by blast
    from ab(2) ids links rows show ?thesis unfolding related_def link_list_def set_rev by blast
  qed
  with Suc show ?case by auto
qed simp

lemma related_mono:
  "set actors \<subseteq> set actors' \<Longrightarrow> set links \<subseteq> set links' \<Longrightarrow> related actors links a b \<Longrightarrow> related actors' links' a b"
  unfolding related_def by blast

text \<open>C36 (equivalence). The view of one Actor is built with a few queries per hop, and never reads the whole estate. While no
  cap cuts it, it shows exactly the Actors that trimming the graph of the whole estate to the same depth would: those
  within that many ownerships and links of the Actor.\<close>

theorem ego_view_complete:
  fixes c :: "('vid, 'ch, 'cfg) console"
  assumes "unique_keys a_did (tb_actors (co_db c))" "unique_keys ln_id (co_links c)"
    and "\<not> gd_truncated (buildEgoGraph did depth cap c)"
    and "\<not> ao_workspaceNodes opts" "ao_nodeCap opts = None"
  shows "gn_id ` set (gd_nodes (buildEgoGraph did depth cap c)) =
    gn_id ` set (gd_nodes (egoSubgraph
      (assembleActorGraph (map graph_actor_of (actor_list None None (co_db c))) (link_list c) (workspace_list (co_db c)) opts)
      did (ego_depth depth) None))"
proof -
  have plain: "plain_options opts" using assms(4,5) by (simp add: plain_options_def)
  let ?all = "map graph_actor_of (actor_list None None (co_db c))"
  let ?estate = "assembleActorGraph ?all (link_list c) (workspace_list (co_db c)) opts"
  have all: "set ?all = set (all_actors c)" by (simp add: actor_list_def all_actors_def)
  have rel: "related ?all = related (all_actors c)" unfolding related_def all by simp
  note estate = plain_graph [OF plain, of ?all "link_list c" "workspace_list (co_db c)"]
  show ?thesis
  proof (cases "actor_findByDid did (co_db c)")
    case None
    then have "did \<notin> ga_did ` set ?all"
      unfolding all by (auto simp: actor_findByDid_def row_find_None_iff all_actors_def graph_actor_of_def)
    with estate(1) have "node_of ?estate did = None" using node_of_iff by metis
    then show ?thesis using None by (simp add: buildEgoGraph_def EMPTY_GRAPH_def egoSubgraph_def)
  next
    case (Some r)
    define n where "n = ego_depth depth"
    define cp where "cp = (case cap of None \<Rightarrow> EGO_NODE_CAP | Some m \<Rightarrow> m)"
    define s0 where "s0 = \<lparr>ec_actors = [graph_actor_of r], ec_links = [], ec_frontier = [did], ec_truncated = False\<rparr>"
    define s where "s = (fetch_hop c cp ^^ n) s0"
    note start = crawl_start_ok [OF assms(1,2) Some, folded s0_def]
    obtain ws os where view: "buildEgoGraph did depth cap c =
        (let t = egoSubgraph (assembleActorGraph (ec_actors s) (ec_links s) ws os) did n (Some cp)
         in t\<lparr>gd_truncated := (gd_truncated t \<or> ec_truncated s)\<rparr>)" and os: "plain_options os"
      unfolding buildEgoGraph_def Let_def Some option.case fetch_hops_eq
      by (simp add: plain_options_def s_def s0_def n_def cp_def)
    let ?sub = "assembleActorGraph (ec_actors s) (ec_links s) ws os"
    from assms(3) have uncut: "\<not> ec_truncated s" "\<not> gd_truncated (egoSubgraph ?sub did n (Some cp))"
      unfolding view by (auto simp: Let_def)
    have did: "did \<in> ga_did ` set (ec_actors s0)" using start(2) by blast
    have in_s: "did \<in> ga_did ` set (ec_actors s)" unfolding s_def by (rule subsetD [OF fetch.hops_keep [of 0 n]]) (use did in simp_all)
    have ok: "crawl_ok c s" unfolding s_def using fetch.hops_settled [OF start(1,3)] uncut(1) s_def by blast
    have "ball (related (ec_actors s) (ec_links s)) did n = ball (related (all_actors c) (link_list c)) did n"
    proof
      show "ball (related (all_actors c) (link_list c)) did n \<subseteq> ball (related (ec_actors s) (ec_links s)) did n"
        unfolding s_def by (rule subgraph_reaches [OF start(1,3) did uncut(1) [unfolded s_def] order_refl])
      have "set (ec_actors s) \<subseteq> set (all_actors c)" "set (ec_links s) \<subseteq> set (link_list c)"
        using ok by (simp_all add: crawl_ok_def link_list_def)
      then show "ball (related (ec_actors s) (ec_links s)) did n \<subseteq> ball (related (all_actors c) (link_list c)) did n"
        by (intro ball_mono) (rule related_mono)
    qed
    moreover have "gn_id ` set (gd_nodes (egoSubgraph ?sub did n (Some cp))) = ball (related (ec_actors s) (ec_links s)) did n"
      using ego_ids [OF _ uncut(2)] in_s plain_graph(1) [OF os, of "ec_actors s" "ec_links s" ws] drawn_is_related [OF os] by simp
    moreover have "gn_id ` set (gd_nodes (egoSubgraph ?estate did n None)) = ball (related (all_actors c) (link_list c)) did n"
    proof -
      have "did \<in> ga_did ` set (all_actors c)" using Some row_find_Some_D by (force simp: actor_findByDid_def all_actors_def graph_actor_of_def)
      then have "did \<in> gn_id ` set (gd_nodes ?estate)" unfolding estate(1) all [symmetric] by simp
      with ego_ids [OF _ uncapped_view [OF estate(3)]] show ?thesis by (simp add: drawn_is_related [OF plain] rel)
    qed
    ultimately show ?thesis unfolding view n_def [symmetric] by (simp add: Let_def)
  qed
qed

definition graph_desk :: "(string, byte list, unit) console" where
  "graph_desk = \<lparr>co_ws = ws_start (empty_db\<lparr>tb_actors := map (\<lambda>did. \<lparr>a_did = did, a_name = did, a_kind = ''openclaw'',
       a_publicKey = None, a_workspaceId = None, a_declaredCapabilities = None, a_kindConfig = [], a_registeredAt = 0,
       a_lastSeen = 0, a_ownerDid = None\<rparr>) [''a'', ''b'', ''c'', ''d'']\<rparr>),
     co_users = [],
     co_links = [\<lparr>ln_id = ''1'', ln_fromDid = ''a'', ln_toDid = ''b'', ln_label = ''x''\<rparr>,
       \<lparr>ln_id = ''2'', ln_fromDid = ''c'', ln_toDid = ''a'', ln_label = ''x''\<rparr>,
       \<lparr>ln_id = ''3'', ln_fromDid = ''b'', ln_toDid = ''c'', ln_label = ''x''\<rparr>],
     co_jobs = []\<rparr>"

definition bare_options :: assemble_options where
  "bare_options = \<lparr>ao_workspaceNodes = False, ao_nodeCap = None, ao_isOnline = None, ao_pinned = []\<rparr>"

definition estate_view :: "string \<Rightarrow> nat \<Rightarrow> graph_data" where
  "estate_view did n = egoSubgraph (assembleActorGraph (map graph_actor_of (actor_list None None (co_db graph_desk)))
     (link_list graph_desk) (workspace_list (co_db graph_desk)) bare_options) did n None"

lemma graph_desk_view:
  "map gn_id (gd_nodes (buildEgoGraph ''a'' None None graph_desk)) = [''a'', ''c'', ''b'']"
  "map gl_id (gd_links (buildEgoGraph ''a'' None None graph_desk)) = [''2'', ''1'']"
  "\<not> gd_truncated (buildEgoGraph ''a'' None None graph_desk)"
  by code_simp+

theorem ego_view_complete_witness:
  "\<not> gd_truncated (buildEgoGraph ''a'' None None graph_desk) \<and> gn_id ` set (gd_nodes (estate_view ''a'' 1)) = {''a'', ''b'', ''c''}"
proof -
  have d: "ego_depth None = 1" by (simp add: ego_depth_def)
  have "gn_id ` set (gd_nodes (buildEgoGraph ''a'' None None graph_desk)) = {''a'', ''b'', ''c''}"
    using arg_cong [OF graph_desk_view(1), of set] by auto
  moreover have "unique_keys a_did (tb_actors (co_db graph_desk))" "unique_keys ln_id (co_links graph_desk)"
    by (simp_all add: unique_keys_def graph_desk_def ws_start_def empty_db_def)
  ultimately show ?thesis
    using ego_view_complete [of graph_desk "''a''" None None bare_options] graph_desk_view(3)
    by (simp add: bare_options_def estate_view_def d)
qed

text \<open>The links between two Actors of the last hop are not fetched, and missing from the view.\<close>

lemma outermost_links_missing:
  "map gl_id (gd_links (estate_view ''a'' 1)) = [''3'', ''2'', ''1'']
   \<and> map gl_id (gd_links (buildEgoGraph ''a'' None None graph_desk)) = [''2'', ''1'']"
  by code_simp

end
