(* ===== verification/SrtTemplates.thy ===== *)
theory SrtTemplates
  imports AdminEdits
begin

text \<open>
  Confinement templates: the settings an administrator keeps for reuse and attaches to workspaces
  (\<open>packages/controlplane/db/srt-template.dao.ts\<close>, \<open>app/admin/certificates/templates/actions.ts\<close>), and the merge behind
  the settings builder (\<open>lib/srt-block.ts\<close>).

  The settings are opaque JSON. Where the builder submits the text of an object the model has the object, and
  \<open>None\<close> for the empty text.
\<close>

section \<open>Rows\<close>

record template_row =
  tp_id :: string
  tp_name :: string
  tp_description :: "string option"
  tp_settings :: "(string \<times> json) list"
  tp_allowedDomains :: "string list"
  tp_createdBy :: "string option"
  tp_createdAt :: int
  tp_updatedAt :: int

record attachment =
  at_workspaceId :: string
  at_templateId :: string
  at_isDefault :: bool
  at_assignedAt :: int

record ('vid, 'ch, 'cfg) desk =
  ds_console :: "('vid, 'ch, 'cfg) console"
  ds_templates :: "template_row list"
  ds_attached :: "attachment list"

type_synonym ('vid, 'ch, 'cfg, 'a) desk_act = "(('vid, 'ch, 'cfg) desk, admin_error, 'a) run"

definition onConsole :: "('vid, 'ch, 'cfg, 'a) act \<Rightarrow> ('vid, 'ch, 'cfg, 'a) desk_act" where
  "onConsole m s = (case m (ds_console s) of (r, c) \<Rightarrow> (r, s\<lparr>ds_console := c\<rparr>))"

definition at_pair :: "attachment \<Rightarrow> string \<times> string" where
  "at_pair a = (at_workspaceId a, at_templateId a)"

section \<open>Templates (srt-template.dao.ts)\<close>

record template_edit =
  te_name :: string
  te_description :: "string option"
  te_settings :: "(string \<times> json) list"
  te_allowedDomains :: "string list"

definition template_findById :: "string \<Rightarrow> ('vid, 'ch, 'cfg) desk \<Rightarrow> template_row option" where
  "template_findById i s = row_find tp_id i (ds_templates s)"

definition template_create :: "admin_env \<Rightarrow> template_edit \<Rightarrow> string option \<Rightarrow> ('vid, 'ch, 'cfg, unit) desk_act" where
  "template_create E t by s =
     (let i = ev_uuid (ae_ev E); now = ev_now (ae_ev E) in
      if template_findById i s \<noteq> None \<or> row_find tp_name (te_name t) (ds_templates s) \<noteq> None
      then (Inl (DbFailed UniqueViolation), s)
      else (Inr (), s\<lparr>ds_templates := ds_templates s @
        [\<lparr>tp_id = i, tp_name = te_name t, tp_description = te_description t, tp_settings = te_settings t,
          tp_allowedDomains = te_allowedDomains t, tp_createdBy = by, tp_createdAt = now, tp_updatedAt = now\<rparr>]\<rparr>))"

definition template_update :: "int \<Rightarrow> string \<Rightarrow> template_edit \<Rightarrow> ('vid, 'ch, 'cfg, unit) desk_act" where
  "template_update now i t s =
     (if template_findById i s = None then (Inl (DbFailed RecordNotFound), s)
      else if list_ex (\<lambda>r. tp_name r = te_name t \<and> tp_id r \<noteq> i) (ds_templates s) then (Inl (DbFailed UniqueViolation), s)
      else (Inr (), s\<lparr>ds_templates := row_map (\<lambda>r. tp_id r = i)
        (\<lambda>r. r\<lparr>tp_name := te_name t, tp_description := te_description t, tp_settings := te_settings t,
               tp_allowedDomains := te_allowedDomains t, tp_updatedAt := now\<rparr>) (ds_templates s)\<rparr>))"

text \<open>The attachments of a deleted template go with it.\<close>

definition template_delete :: "string \<Rightarrow> ('vid, 'ch, 'cfg, unit) desk_act" where
  "template_delete i s =
     (if template_findById i s = None then (Inl (DbFailed RecordNotFound), s)
      else (Inr (), s\<lparr>ds_templates := filter (\<lambda>r. tp_id r \<noteq> i) (ds_templates s),
                     ds_attached := filter (\<lambda>a. at_templateId a \<noteq> i) (ds_attached s)\<rparr>))"

section \<open>Attachments\<close>

definition assignments :: "('vid, 'ch, 'cfg) desk \<Rightarrow> (string \<times> string) list" where
  "assignments s = fold (\<lambda>a m. map_set (at_workspaceId a) (at_templateId a) m) (filter at_isDefault (ds_attached s)) []"

definition workspaceAttachments :: "('vid, 'ch, 'cfg) desk \<Rightarrow> (string \<times> (string \<times> bool) list) list" where
  "workspaceAttachments s =
     fold (\<lambda>a m. map_set (at_workspaceId a)
             ((case map_of m (at_workspaceId a) of None \<Rightarrow> [] | Some l \<Rightarrow> l) @ [(at_templateId a, at_isDefault a)]) m)
       (ds_attached s) []"

definition forWorkspace :: "string option \<Rightarrow> ('vid, 'ch, 'cfg) desk \<Rightarrow> template_row option" where
  "forWorkspace w s =
     Option.bind (or_null w) (\<lambda>w.
     Option.bind (find (\<lambda>a. at_workspaceId a = w \<and> at_isDefault a) (ds_attached s)) (\<lambda>a. template_findById (at_templateId a) s))"

text \<open>A new attachment needs its two ends.\<close>

definition attach_new :: "int \<Rightarrow> string \<Rightarrow> string \<Rightarrow> bool \<Rightarrow> ('vid, 'ch, 'cfg, unit) desk_act" where
  "attach_new now w t dflt s =
     (if workspace_findById w (co_db (ds_console s)) = None \<or> template_findById t s = None
      then (Inl (DbFailed ForeignKeyViolation), s)
      else (Inr (), s\<lparr>ds_attached := ds_attached s @
        [\<lparr>at_workspaceId = w, at_templateId = t, at_isDefault = dflt, at_assignedAt = now\<rparr>]\<rparr>))"

definition attach :: "int \<Rightarrow> string \<Rightarrow> string \<Rightarrow> ('vid, 'ch, 'cfg, unit) desk_act" where
  "attach now w t s = (if row_find at_pair (w, t) (ds_attached s) \<noteq> None then (Inr (), s) else attach_new now w t False s)"

definition detach :: "string \<Rightarrow> string \<Rightarrow> ('vid, 'ch, 'cfg, unit) desk_act" where
  "detach w t s = (Inr (), s\<lparr>ds_attached := filter (\<lambda>a. at_pair a \<noteq> (w, t)) (ds_attached s)\<rparr>)"

text \<open>One transaction: when the second write fails the first is undone.\<close>

definition clear_default :: "string \<Rightarrow> attachment list \<Rightarrow> attachment list" where
  "clear_default w = row_map (\<lambda>a. at_workspaceId a = w \<and> at_isDefault a) (\<lambda>a. a\<lparr>at_isDefault := False\<rparr>)"

definition setDefault :: "int \<Rightarrow> string \<Rightarrow> string option \<Rightarrow> ('vid, 'ch, 'cfg, unit) desk_act" where
  "setDefault now w tpl s =
     (let s1 = s\<lparr>ds_attached := clear_default w (ds_attached s)\<rparr> in
      case tpl of
        None \<Rightarrow> (Inr (), s1)
      | Some t \<Rightarrow>
          if row_find at_pair (w, t) (ds_attached s1) \<noteq> None
          then (Inr (), s1\<lparr>ds_attached := row_map (\<lambda>a. at_pair a = (w, t)) (\<lambda>a. a\<lparr>at_isDefault := True\<rparr>) (ds_attached s1)\<rparr>)
          else case attach_new now w t True s1 of (Inl e, _) \<Rightarrow> (Inl e, s) | (Inr _, s2) \<Rightarrow> (Inr (), s2))"

section \<open>Actions (templates/actions.ts)\<close>

definition template_settings :: "admin_env \<Rightarrow> string \<Rightarrow> (admin_error, (string \<times> json) list) result" where
  "template_settings E raw =
     bind_result (parseSrtSettings E raw) (\<lambda>text. Inr (case text of None \<Rightarrow> [] | Some t \<Rightarrow>
       (case ae_json E t of Some v \<Rightarrow> js_object_fields v | None \<Rightarrow> [])))"

definition readForm :: "admin_env \<Rightarrow> form \<Rightarrow> (admin_error, template_edit) result" where
  "readForm E f =
     (let nm = js_trim (text_of (form_get f ''name'')) in
      throw_when (nm = []) (Refused MissingField) (
      bind_result (template_settings E (text_of (form_get f ''srt''))) (\<lambda>settings.
      Inr \<lparr>te_name = nm, te_description = or_null (form_trim f ''description''), te_settings = settings,
           te_allowedDomains = splitDomains (text_of (form_get f ''allowedDomains''))\<rparr>)))"

definition createTemplateAction :: "admin_env \<Rightarrow> form \<Rightarrow> ('vid, 'ch, 'cfg, unit) desk_act" where
  "createTemplateAction E f =
     andThen (onConsole (requireAdmin E)) (\<lambda>by.
     andThen (lift_result (readForm E f)) (\<lambda>t.
     template_create E t (Some (pb_did by))))"

definition updateTemplateAction :: "admin_env \<Rightarrow> form \<Rightarrow> ('vid, 'ch, 'cfg, unit) desk_act" where
  "updateTemplateAction E f =
     andThen (onConsole (requireAdmin E)) (\<lambda>_.
     let i = text_of (form_get f ''id'') in
     refuse_when (i = []) MissingField (
     andThen (lift_result (readForm E f)) (\<lambda>t.
     template_update (ev_now (ae_ev E)) i t)))"

definition deleteTemplateAction :: "admin_env \<Rightarrow> form \<Rightarrow> ('vid, 'ch, 'cfg, unit) desk_act" where
  "deleteTemplateAction E f =
     andThen (onConsole (requireAdmin E)) (\<lambda>_.
     let i = text_of (form_get f ''id'') in
     refuse_when (i = []) MissingField (template_delete i))"

definition readPair :: "form \<Rightarrow> (admin_error, string \<times> string) result" where
  "readPair f =
     (let w = js_trim (text_of (form_get f ''workspaceId'')); t = js_trim (text_of (form_get f ''templateId'')) in
      throw_when (w = []) (Refused MissingField) (Inr (w, t)))"

definition attachTemplateAction :: "admin_env \<Rightarrow> form \<Rightarrow> ('vid, 'ch, 'cfg, unit) desk_act" where
  "attachTemplateAction E f =
     andThen (onConsole (requireAdmin E)) (\<lambda>_.
     andThen (lift_result (readPair f)) (\<lambda>(w, t).
     if t = [] then give () else attach (ev_now (ae_ev E)) w t))"

definition detachTemplateAction :: "admin_env \<Rightarrow> form \<Rightarrow> ('vid, 'ch, 'cfg, unit) desk_act" where
  "detachTemplateAction E f =
     andThen (onConsole (requireAdmin E)) (\<lambda>_.
     andThen (lift_result (readPair f)) (\<lambda>(w, t).
     refuse_when (t = []) MissingField (detach w t)))"

definition setDefaultTemplateAction :: "admin_env \<Rightarrow> form \<Rightarrow> ('vid, 'ch, 'cfg, unit) desk_act" where
  "setDefaultTemplateAction E f =
     andThen (onConsole (requireAdmin E)) (\<lambda>_.
     andThen (lift_result (readPair f)) (\<lambda>(w, t).
     setDefault (ev_now (ae_ev E)) w (if t = [] then None else Some t)))"

datatype template_action =
  CreateTemplate | UpdateTemplate | DeleteTemplate | AttachTemplate | DetachTemplate | SetDefaultTemplate

fun run_template :: "admin_env \<Rightarrow> template_action \<Rightarrow> form \<Rightarrow> ('vid, 'ch, 'cfg, unit) desk_act" where
  "run_template E CreateTemplate f = createTemplateAction E f"
| "run_template E UpdateTemplate f = updateTemplateAction E f"
| "run_template E DeleteTemplate f = deleteTemplateAction E f"
| "run_template E AttachTemplate f = attachTemplateAction E f"
| "run_template E DetachTemplate f = detachTemplateAction E f"
| "run_template E SetDefaultTemplate f = setDefaultTemplateAction E f"

text \<open>Anything else leaves the console anew; a deleted workspace takes its attachments with it.\<close>

definition cascade :: "('vid, 'ch, 'cfg) desk \<Rightarrow> ('vid, 'ch, 'cfg) desk" where
  "cascade s = s\<lparr>ds_attached :=
     filter (\<lambda>a. workspace_findById (at_workspaceId a) (co_db (ds_console s)) \<noteq> None) (ds_attached s)\<rparr>"

inductive desk_step :: "('vid, 'ch, 'cfg) desk \<Rightarrow> ('vid, 'ch, 'cfg) desk \<Rightarrow> bool" where
  template: "desk_step s (snd (run_template E a f s))"
| elsewhere: "desk_step s (cascade (s\<lparr>ds_console := c\<rparr>))"

section \<open>The builder (srt-block.ts)\<close>

record managed_lists =
  ml_denyRead :: "string list"
  ml_allowRead :: "string list"
  ml_allowWrite :: "string list"
  ml_denyWrite :: "string list"
  ml_deniedDomains :: "string list"

record split_block =
  sb_lists :: managed_lists
  sb_extras :: "(string \<times> json) list"
  sb_fsExtras :: "(string \<times> json) list"
  sb_netExtras :: "(string \<times> json) list"

fun as_string :: "json \<Rightarrow> string option" where
  "as_string (JStr s) = Some s"
| "as_string _ = None"

fun asStringArray :: "json option \<Rightarrow> string list" where
  "asStringArray (Some (JArr vs)) = List.map_filter as_string vs"
| "asStringArray _ = []"

definition asObject :: "json option \<Rightarrow> (string \<times> json) list" where
  "asObject v = (case v of None \<Rightarrow> [] | Some w \<Rightarrow> js_object_fields w)"

definition without :: "string list \<Rightarrow> (string \<times> json) list \<Rightarrow> (string \<times> json) list" where
  "without ks obj = filter (\<lambda>(k, _). k \<notin> set ks) obj"

definition splitSrtBlock :: "(string \<times> json) list \<Rightarrow> split_block" where
  "splitSrtBlock block =
     (let fs = asObject (map_of block ''filesystem''); net = asObject (map_of block ''network'') in
      \<lparr>sb_lists = \<lparr>ml_denyRead = asStringArray (map_of fs ''denyRead''), ml_allowRead = asStringArray (map_of fs ''allowRead''),
                  ml_allowWrite = asStringArray (map_of fs ''allowWrite''), ml_denyWrite = asStringArray (map_of fs ''denyWrite''),
                  ml_deniedDomains = asStringArray (map_of net ''deniedDomains'')\<rparr>,
       sb_extras = without [''filesystem'', ''network''] block,
       sb_fsExtras = without [''denyRead'', ''allowRead'', ''allowWrite'', ''denyWrite''] fs,
       sb_netExtras = without [''deniedDomains''] net\<rparr>)"

definition string_array :: "string list \<Rightarrow> json" where
  "string_array l = JArr (map JStr l)"

definition no_lists :: "managed_lists \<Rightarrow> bool" where
  "no_lists l \<longleftrightarrow> ml_denyRead l = [] \<and> ml_allowRead l = [] \<and> ml_allowWrite l = [] \<and> ml_denyWrite l = [] \<and> ml_deniedDomains l = []"

definition serializeSrtBlock :: "split_block \<Rightarrow> (string \<times> json) list option" where
  "serializeSrtBlock p =
     (let l = sb_lists p;
          filesystem = js_spread (sb_fsExtras p)
            [(''denyRead'', string_array (ml_denyRead l)), (''allowRead'', string_array (ml_allowRead l)),
             (''allowWrite'', string_array (ml_allowWrite l)), (''denyWrite'', string_array (ml_denyWrite l))];
          network = js_spread (sb_netExtras p) [(''deniedDomains'', string_array (ml_deniedDomains l))]
      in if no_lists l \<and> sb_extras p = [] \<and> sb_fsExtras p = [] \<and> sb_netExtras p = [] then None
         else Some (js_spread (sb_extras p) [(''filesystem'', JObj filesystem), (''network'', JObj network)]))"

end
