(* ===== verification/TemplateSafety.thy ===== *)
theory TemplateSafety
  imports SrtTemplates AdminSafety
begin

text \<open>
  What holds of confinement templates: no action on them touches the console, a workspace has one default at most,
  one of its own templates, and the settings builder loses no setting it does not know.
\<close>

section \<open>Templates grant nothing\<close>

lemma onConsole_gate: "snd (onConsole (requireAdmin E) s) = s"
  by (auto simp: onConsole_def requireAdmin_def throw_def give_def split: option.splits)

text \<open>The gate opens every action; the rest leaves the console alone.\<close>

definition same_console :: "('vid, 'ch, 'cfg) desk \<Rightarrow> ('vid, 'ch, 'cfg) desk \<Rightarrow> bool" where
  "same_console s s' \<longleftrightarrow> ds_console s' = ds_console s"

definition desk_ok :: "('vid, 'ch, 'cfg) desk \<Rightarrow> bool" where
  "desk_ok s \<longleftrightarrow> unique_keys tp_id (ds_templates s) \<and> unique_keys tp_name (ds_templates s) \<and> unique_keys at_pair (ds_attached s)
     \<and> unique_keys at_workspaceId (filter at_isDefault (ds_attached s))
     \<and> (\<forall>a \<in> set (ds_attached s). workspace_findById (at_workspaceId a) (co_db (ds_console s)) \<noteq> None
          \<and> template_findById (at_templateId a) s \<noteq> None)"

definition desk_keeps :: "('vid, 'ch, 'cfg) desk \<Rightarrow> ('vid, 'ch, 'cfg) desk \<Rightarrow> bool" where
  "desk_keeps s s' \<longleftrightarrow> same_console s s' \<and> (desk_ok s \<longrightarrow> desk_ok s')"

interpretation desk: run_logic desk_keeps
  by unfold_locales (auto simp: desk_keeps_def same_console_def)

lemma keep_gate: "act_rel desk_keeps (onConsole (requireAdmin E))"
  by (rule desk.quiet) (rule onConsole_gate)

lemma keep_create: "act_rel desk_keeps (template_create E t by)"
  by (auto simp: act_rel_def desk_keeps_def same_console_def desk_ok_def template_create_def Let_def template_findById_def
      unique_keys_def row_find_append row_find_None_iff split: option.split)

lemma renamed_unique:
  fixes g :: "template_row \<Rightarrow> template_row"
  assumes "\<And>r. tp_name (g r) = nm"
  shows "unique_keys tp_id rows \<Longrightarrow> unique_keys tp_name rows \<Longrightarrow> \<not> list_ex (\<lambda>r. tp_name r = nm \<and> tp_id r \<noteq> i) rows \<Longrightarrow>
    unique_keys tp_name (row_map (\<lambda>r. tp_id r = i) g rows)"
proof (induction rows)
  case (Cons r rows)
  define f where "f = (\<lambda>q :: template_row. if tp_id q = i then nm else tp_name q)"
  have names: "map tp_name (row_map (\<lambda>r. tp_id r = i) g qs) = map f qs" for qs
    by (induction qs) (simp_all add: row_map_def f_def assms)
  have "f q \<noteq> f r" if q: "q \<in> set rows" for q
  proof -
    have "tp_id q \<noteq> tp_id r" "tp_name q \<noteq> tp_name r" using imageI [OF q, of tp_id] imageI [OF q, of tp_name] Cons.prems(1,2)
      by (auto simp: unique_keys_def)
    moreover have "tp_name q \<noteq> nm \<or> tp_id q = i" "tp_name r \<noteq> nm \<or> tp_id r = i" using q Cons.prems(3) by (auto simp: list_ex_iff)
    ultimately show ?thesis by (auto simp: f_def)
  qed
  then have "f r \<notin> f ` set rows" by force
  moreover have "distinct (map f rows)" using Cons unfolding unique_keys_def names by simp
  ultimately show ?case unfolding unique_keys_def names by simp
qed (simp add: unique_keys_def row_map_def)

lemma keep_update: "act_rel desk_keeps (template_update now i t)"
  unfolding act_rel_def desk_keeps_def same_console_def
proof
  fix s :: "('vid, 'ch, 'cfg) desk"
  let ?g = "\<lambda>r. r\<lparr>tp_name := te_name t, tp_description := te_description t, tp_settings := te_settings t,
               tp_allowedDomains := te_allowedDomains t, tp_updatedAt := now\<rparr>"
  have "desk_ok (s\<lparr>ds_templates := row_map (\<lambda>r. tp_id r = i) ?g (ds_templates s)\<rparr>)"
    if s: "desk_ok s" "\<not> list_ex (\<lambda>r. tp_name r = te_name t \<and> tp_id r \<noteq> i) (ds_templates s)"
  proof -
    have "unique_keys tp_name (row_map (\<lambda>r. tp_id r = i) ?g (ds_templates s))"
      using s by (intro renamed_unique [where nm = "te_name t"]) (simp_all add: desk_ok_def)
    with s(1) show ?thesis by (auto simp: desk_ok_def template_findById_def row_find_map intro!: unique_row_map)
  qed
  then show "ds_console (snd (template_update now i t s)) = ds_console s \<and> (desk_ok s \<longrightarrow> desk_ok (snd (template_update now i t s)))"
    by (simp add: template_update_def)
qed

lemma unique_filter_conj: "unique_keys k (filter Q l) \<Longrightarrow> unique_keys k (filter (\<lambda>x. P x \<and> Q x) l)"
  using unique_filter [of k "filter Q l" P] by (simp add: conj_commute)

lemma keep_delete: "act_rel desk_keeps (template_delete i)"
  by (auto simp: act_rel_def desk_keeps_def same_console_def desk_ok_def template_delete_def template_findById_def row_find_filter
      intro: unique_filter unique_filter_conj)

lemma keep_detach: "act_rel desk_keeps (detach w t)"
  by (auto simp: act_rel_def desk_keeps_def same_console_def desk_ok_def detach_def template_findById_def
      intro: unique_filter unique_filter_conj)

lemma attach_new_ok:
  assumes "desk_ok s" and "row_find at_pair (w, t) (ds_attached s) = None"
    and "dflt \<longrightarrow> w \<notin> at_workspaceId ` set (filter at_isDefault (ds_attached s))"
  shows "desk_ok (snd (attach_new now w t dflt s))"
  using assms
  by (auto simp: desk_ok_def attach_new_def template_findById_def unique_keys_def at_pair_def row_find_None_iff)

lemma attach_new_console: "ds_console (snd (attach_new now w t dflt s)) = ds_console s"
  by (simp add: attach_new_def)

lemma keep_attach: "act_rel desk_keeps (attach now w t)"
  by (auto simp: act_rel_def desk_keeps_def same_console_def attach_def attach_new_console intro: attach_new_ok)

text \<open>With its default cleared a workspace has none.\<close>

lemma cleared:
  "map at_pair (clear_default w l) = map at_pair l"
  "filter at_isDefault (clear_default w l) = filter (\<lambda>a. at_workspaceId a \<noteq> w) (filter at_isDefault l)"
  by (induction l) (auto simp: clear_default_def row_map_def at_pair_def)

lemma cleared_ok:
  assumes "desk_ok s"
  shows "desk_ok (s\<lparr>ds_attached := clear_default w (ds_attached s)\<rparr>)"
proof -
  have "unique_keys at_pair (clear_default w (ds_attached s))" using assms by (simp add: unique_keys_def cleared desk_ok_def)
  moreover have "unique_keys at_workspaceId (filter at_isDefault (clear_default w (ds_attached s)))"
    unfolding cleared by (rule unique_filter) (use assms in \<open>simp add: desk_ok_def\<close>)
  moreover have "workspace_findById (at_workspaceId a) (co_db (ds_console s)) \<noteq> None \<and> template_findById (at_templateId a) s \<noteq> None"
    if "a \<in> set (clear_default w (ds_attached s))" for a
  proof -
    have "at_pair a \<in> at_pair ` set (clear_default w (ds_attached s))" using that by simp
    then have "at_pair a \<in> at_pair ` set (ds_attached s)" unfolding set_map [symmetric] cleared .
    then obtain b where "b \<in> set (ds_attached s)" "at_workspaceId b = at_workspaceId a" "at_templateId b = at_templateId a"
      by (auto simp: at_pair_def)
    with assms show ?thesis by (metis desk_ok_def)
  qed
  ultimately show ?thesis using assms by (simp add: desk_ok_def template_findById_def)
qed

lemma marked_unique:
  "unique_keys at_pair l \<Longrightarrow> unique_keys at_workspaceId (filter at_isDefault l) \<Longrightarrow> w \<notin> at_workspaceId ` set (filter at_isDefault l) \<Longrightarrow>
     unique_keys at_workspaceId (filter at_isDefault (row_map (\<lambda>a. at_pair a = (w, t)) (\<lambda>a. a\<lparr>at_isDefault := True\<rparr>) l))"
proof (induction l)
  case (Cons a l)
  let ?m = "row_map (\<lambda>a. at_pair a = (w, t)) (\<lambda>a. a\<lparr>at_isDefault := True\<rparr>)"
  show ?case
  proof (cases "at_pair a = (w, t)")
    case True
    with Cons.prems(1) have "?m l = l" unfolding row_map_def unique_keys_def by (intro map_idI) force
    with True Cons.prems(2,3) show ?thesis by (auto simp: row_map_def unique_keys_def at_pair_def split: if_splits)
  next
    case False
    have "at_workspaceId a \<notin> at_workspaceId ` set (filter at_isDefault (?m l))" if a: "at_isDefault a"
    proof
      assume "at_workspaceId a \<in> at_workspaceId ` set (filter at_isDefault (?m l))"
      then obtain b where b: "b \<in> set l" "at_workspaceId b = at_workspaceId a" "at_pair b = (w, t) \<or> at_isDefault b"
        by (auto simp: set_row_map split: if_splits)
      from a Cons.prems(3) have "at_workspaceId a \<noteq> w" by auto
      with b have "at_isDefault b" by (auto simp: at_pair_def)
      with b(1) have "at_workspaceId b \<in> at_workspaceId ` set (filter at_isDefault l)" by simp
      with a b(2) Cons.prems(2) show False by (simp add: unique_keys_def)
    qed
    moreover have "unique_keys at_workspaceId (filter at_isDefault (?m l))"
      using Cons.prems by (intro Cons.IH) (auto simp: unique_keys_def split: if_splits)
    ultimately show ?thesis using False by (simp add: row_map_def unique_keys_def)
  qed
qed (simp add: row_map_def unique_keys_def)

lemma mark_default_ok:
  assumes "desk_ok s" and "w \<notin> at_workspaceId ` set (filter at_isDefault (ds_attached s))"
  shows "desk_ok (s\<lparr>ds_attached := row_map (\<lambda>a. at_pair a = (w, t)) (\<lambda>a. a\<lparr>at_isDefault := True\<rparr>) (ds_attached s)\<rparr>)"
proof -
  let ?m = "row_map (\<lambda>a. at_pair a = (w, t)) (\<lambda>a. a\<lparr>at_isDefault := True\<rparr>)"
  have "unique_keys at_workspaceId (filter at_isDefault (?m (ds_attached s)))"
    using assms by (intro marked_unique) (simp_all add: desk_ok_def)
  moreover have "unique_keys at_pair (?m (ds_attached s))"
    using assms(1) by (intro unique_row_map) (simp_all add: desk_ok_def at_pair_def)
  moreover have "workspace_findById (at_workspaceId a) (co_db (ds_console s)) \<noteq> None \<and> template_findById (at_templateId a) s \<noteq> None"
    if "a \<in> set (?m (ds_attached s))" for a
    using that assms(1) by (auto simp: desk_ok_def set_row_map)
  ultimately show ?thesis using assms(1) by (simp add: desk_ok_def template_findById_def)
qed

lemma setDefault_ok:
  assumes ok: "desk_ok s"
  shows "desk_ok (snd (setDefault now w tpl s))"
proof -
  let ?s = "s\<lparr>ds_attached := clear_default w (ds_attached s)\<rparr>"
  have ok': "desk_ok ?s" by (rule cleared_ok [OF ok])
  have none: "w \<notin> at_workspaceId ` set (filter at_isDefault (ds_attached ?s))" by (auto simp: cleared)
  show ?thesis
  proof (cases tpl)
    case (Some t)
    show ?thesis
    proof (cases "row_find at_pair (w, t) (ds_attached ?s)")
      case None
      with Some ok show ?thesis using attach_new_ok [OF ok' None, of True now] none
        by (cases "attach_new now w t True ?s") (auto simp: setDefault_def Let_def split: sum.splits)
    next
      case (Some a)
      with \<open>tpl = _\<close> mark_default_ok [OF ok' none, of t] show ?thesis by (simp add: setDefault_def Let_def)
    qed
  qed (use ok' in \<open>simp add: setDefault_def Let_def\<close>)
qed

lemma keep_setDefault: "act_rel desk_keeps (setDefault now w tpl)"
  unfolding act_rel_def desk_keeps_def same_console_def
  by (intro allI conjI impI setDefault_ok) (auto simp: setDefault_def attach_new_def Let_def split: option.split)

lemma keepsD: "act_rel desk_keeps m \<Longrightarrow> ds_console (snd (m s)) = ds_console s" "act_rel desk_keeps m \<Longrightarrow> desk_ok s \<Longrightarrow> desk_ok (snd (m s))"
  by (simp_all add: act_rel_def desk_keeps_def same_console_def)

lemma template_action_keeps: "act_rel desk_keeps (run_template E a f)"
  by (cases a)
     (auto simp: createTemplateAction_def updateTemplateAction_def deleteTemplateAction_def attachTemplateAction_def
       detachTemplateAction_def setDefaultTemplateAction_def Let_def intro!: desk.andThen desk.pure desk.refuse keep_gate keep_create
       keep_update keep_delete keep_attach keep_detach keep_setDefault split: prod.split)

text \<open>No action on templates changes anything of the console: no row, no certificate, no audit entry, no message.\<close>

theorem templates_grant_nothing: "ds_console (snd (run_template E a f s)) = ds_console s"
  by (rule keepsD(1) [OF template_action_keeps])

text \<open>Only administrators change them.\<close>

theorem only_admins_confine:
  assumes "requireAdmin E (ds_console s) = (Inl e, c)"
  shows "run_template E a f s = (Inl e, s)"
proof -
  have "c = ds_console s" using assms by (auto simp: requireAdmin_def throw_def give_def split: option.splits if_splits)
  then show ?thesis using assms
    by (cases a) (simp_all add: createTemplateAction_def updateTemplateAction_def deleteTemplateAction_def attachTemplateAction_def
        detachTemplateAction_def setDefaultTemplateAction_def andThen_def onConsole_def)
qed

section \<open>One default\<close>

lemma desk_steps_ok: "desk_step\<^sup>*\<^sup>* s s' \<Longrightarrow> desk_ok s \<Longrightarrow> desk_ok s'"
proof (induction rule: rtranclp_induct)
  case (step y z)
  from step.hyps(2) step.IH [OF step.prems] show ?case
  proof cases
    case (template E a f)
    show ?thesis unfolding template by (rule keepsD(2) [OF template_action_keeps step.IH [OF step.prems]])
  next
    case (elsewhere c)
    with step.IH [OF step.prems] show ?thesis
      by (auto simp: desk_ok_def cascade_def template_findById_def intro: unique_filter unique_filter_conj)
  qed
qed

lemma find_filter_conj: "find (\<lambda>x. P x \<and> Q x) l = find P (filter Q l)"
  by (induction l) auto

text \<open>From empty tables on, the default of a workspace is one, exists, and is one of its own.\<close>

theorem workspace_default_unique:
  assumes "desk_step\<^sup>*\<^sup>* s s'" and "ds_templates s = []" "ds_attached s = []"
    and "a \<in> set (ds_attached s')" "at_isDefault a" "at_workspaceId a \<noteq> []"
  shows "forWorkspace (Some (at_workspaceId a)) s' = template_findById (at_templateId a) s'"
    and "template_findById (at_templateId a) s' \<noteq> None" and "workspace_findById (at_workspaceId a) (co_db (ds_console s')) \<noteq> None"
proof -
  have ok: "desk_ok s'" using desk_steps_ok [OF assms(1)] assms(2,3) by (simp add: desk_ok_def unique_keys_def)
  with assms(4) show "template_findById (at_templateId a) s' \<noteq> None" "workspace_findById (at_workspaceId a) (co_db (ds_console s')) \<noteq> None"
    by (auto simp: desk_ok_def)
  have u: "unique_keys at_workspaceId (filter at_isDefault (ds_attached s'))" using ok by (simp add: desk_ok_def)
  have "find (\<lambda>x. at_workspaceId x = at_workspaceId a \<and> at_isDefault x) (ds_attached s') = row_find at_workspaceId (at_workspaceId a) (filter at_isDefault (ds_attached s'))"
    unfolding row_find_def by (rule find_filter_conj)
  with row_find_unique [OF u, of a] assms(4-6) show "forWorkspace (Some (at_workspaceId a)) s' = template_findById (at_templateId a) s'"
    by (simp add: forWorkspace_def or_null_def truthy_def)
qed

section \<open>The builder\<close>

lemma spread_new:
  "distinct (map fst patch) \<Longrightarrow> fst ` set patch \<inter> fst ` set current = {} \<Longrightarrow> js_spread current patch = current @ patch"
proof (induction patch arbitrary: current)
  case (Cons e patch)
  obtain k v where e: "e = (k, v)" by (cases e)
  have "map_set k v current = current @ [(k, v)]" using Cons.prems(2) unfolding e by (induction current) auto
  with Cons.IH [of "current @ [(k, v)]"] Cons.prems show ?case by (auto simp: js_spread_def e)
qed (simp add: js_spread_def)

lemma without_keys: "fst ` set (without ks l) \<inter> set ks = {}"
  by (auto simp: without_def)

lemma without_append: "without ks (without ks l @ m) = without ks l @ without ks m"
  by (auto simp: without_def)

lemma without_misses: "k \<in> set ks \<Longrightarrow> map_of (without ks l @ m) k = map_of m k"
  by (induction l) (auto simp: without_def)

lemma strings_back: "List.map_filter as_string (map JStr l) = l"
  by (induction l) simp_all

text \<open>Splitting what was serialized gives the parts back: no unknown setting is lost, at any of the three layers.\<close>

theorem builder_roundtrip:
  "case serializeSrtBlock (splitSrtBlock block) of
     Some block' \<Rightarrow> splitSrtBlock block' = splitSrtBlock block
   | None \<Rightarrow> splitSrtBlock block = splitSrtBlock []"
proof -
  define fs where "fs = asObject (map_of block ''filesystem'')"
  define net where "net = asObject (map_of block ''network'')"
  define p where "p = splitSrtBlock block"
  let ?F = "[''denyRead'', ''allowRead'', ''allowWrite'', ''denyWrite'']"
  have parts: "sb_extras p = without [''filesystem'', ''network''] block" "sb_fsExtras p = without ?F fs"
    "sb_netExtras p = without [''deniedDomains''] net"
    by (simp_all add: p_def splitSrtBlock_def fs_def net_def Let_def)
  show ?thesis
  proof (cases "no_lists (sb_lists p) \<and> sb_extras p = [] \<and> sb_fsExtras p = [] \<and> sb_netExtras p = []")
    case True
    then have "p = splitSrtBlock []"
      by (cases p; cases "sb_lists p") (auto simp: no_lists_def splitSrtBlock_def asObject_def without_def Let_def)
    with True show ?thesis by (simp add: serializeSrtBlock_def p_def Let_def)
  next
    case False
    define fs' where "fs' = sb_fsExtras p @ [(''denyRead'', string_array (ml_denyRead (sb_lists p))), (''allowRead'', string_array (ml_allowRead (sb_lists p))),
             (''allowWrite'', string_array (ml_allowWrite (sb_lists p))), (''denyWrite'', string_array (ml_denyWrite (sb_lists p)))]"
    define net' where "net' = sb_netExtras p @ [(''deniedDomains'', string_array (ml_deniedDomains (sb_lists p)))]"
    define block' where "block' = sb_extras p @ [(''filesystem'', JObj fs'), (''network'', JObj net')]"
    have ser: "serializeSrtBlock p = Some block'"
      using False without_keys [of ?F fs] without_keys [of "[''deniedDomains'']" net] without_keys [of "[''filesystem'', ''network'']" block]
      by (simp add: serializeSrtBlock_def Let_def spread_new parts block'_def fs'_def net'_def)
    have at: "map_of block' ''filesystem'' = Some (JObj fs')" "map_of block' ''network'' = Some (JObj net')"
      unfolding block'_def parts by (simp_all add: without_misses del: map_of_append)
    have lists: "map_of fs' ''denyRead'' = Some (string_array (ml_denyRead (sb_lists p)))"
      "map_of fs' ''allowRead'' = Some (string_array (ml_allowRead (sb_lists p)))"
      "map_of fs' ''allowWrite'' = Some (string_array (ml_allowWrite (sb_lists p)))"
      "map_of fs' ''denyWrite'' = Some (string_array (ml_denyWrite (sb_lists p)))"
      "map_of net' ''deniedDomains'' = Some (string_array (ml_deniedDomains (sb_lists p)))"
      unfolding fs'_def net'_def parts by (simp_all add: without_misses del: map_of_append)
    have rest: "without [''filesystem'', ''network''] block' = sb_extras p" "without ?F fs' = sb_fsExtras p"
      "without [''deniedDomains''] net' = sb_netExtras p"
      unfolding block'_def fs'_def net'_def parts without_append by (simp_all add: without_def)
    have "splitSrtBlock block' = p"
      unfolding splitSrtBlock_def at Let_def
      by (cases p; cases "sb_lists p") (use lists rest in \<open>simp add: asObject_def string_array_def strings_back\<close>)
    with ser show ?thesis by (simp add: p_def)
  qed
qed

end
