(* ===== verification/Spec2Isabelle.thy ===== *)
theory Spec2Isabelle
  imports Enforcer TrustPolicy Sessions Deliveries SdkLiveness SdkServer AdminEffects DispatcherSafety LoginEffects LoginRedeem ConfigSafety HubEffects HubConnections GraphSafety TemplateSafety
begin

text \<open>
  VaultysClaw governs software agents by certificates. A \<^bold>\<open>control plane\<close> (\<open>packages/controlplane\<close>)
  keeps a ledger of Actors and of the capability certificates they hold, seats each Actor on a
  WebSocket after a mutual proof of identity, issues and revokes certificates, and answers signed
  status requests. Administrators work on the ledger through the server actions of a web console, and
  can arm kill switches. The events of the ledger go to a \<^bold>\<open>webhook dispatcher\<close>
  (\<open>packages/webhook-dispatcher\<close>). An Actor runs the \<^bold>\<open>SDK\<close> (\<open>packages/sdk\<close>), which holds its
  certificates and decides locally, with \<open>packages/trust\<close>, what it may do. The formats they share are
  in \<open>packages/policy\<close> and \<open>packages/shared\<close>.

  \<^bold>\<open>Theories.\<close>

  Shared: \<open>Prelude\<close> (JavaScript strings, insertion-ordered maps, results), \<open>Table\<close> (tables with a primary
  key), \<open>JsDate\<close> (date texts), \<open>TtlCache\<close> (a cached query with a time to live, as a locale).

  \<open>packages/policy\<close> and \<open>packages/trust\<close>: \<open>Capabilities\<close> (\<open>types.ts\<close>: names and their grammar), \<open>Codec\<close> and
  \<open>Certs\<close> (\<open>certs/*.ts\<close>: envelope and the five kinds of certificate), \<open>Enforcer\<close>
  (\<open>enforcement/enforcer.ts\<close>), \<open>Trust\<close> (\<open>resolve-permission.ts\<close>).

  The ledger: \<open>Store\<close> (rows of \<open>prisma/schema.prisma\<close>), \<open>LedgerDao\<close> and \<open>AdminDao\<close> (one definition per
  method of \<open>db/*.dao.ts\<close>), \<open>Schema\<close> (the declared constraints as the invariant \<open>db_wf\<close>, kept by every write).

  Decisions of the control plane: \<open>KillSwitch\<close> (\<open>lib/kill-switch.ts\<close>), \<open>ActorKinds\<close> (\<open>lib/actor-kinds.ts\<close>,
  \<open>lib/capabilities.ts\<close>, \<open>lib/access-control.ts\<close>), \<open>TrustPolicy\<close> (\<open>lib/trust-policy.ts\<close>, the trust keys of
  \<open>lib/org-settings.ts\<close>), \<open>Certificates\<close> (\<open>lib/certificates.ts\<close>), \<open>ProxyRules\<close> and \<open>ProxyKinds\<close> (\<open>lib/proxy-rules.ts\<close>,
  \<open>lib/proxy-kind.ts\<close>, \<open>lib/harness-kind.ts\<close>: rule sets of interception points and the configurations that hold them),
  \<open>ActorConfig\<close> (\<open>lib/actor-config.ts\<close>: the signed configuration an Actor is sent).

  The connection server (\<open>lib/ws-server.ts\<close>): \<open>WsState\<close> is its class state (connections, sockets, pending
  handshakes, exchanges, buffers) with the database beside it; \<open>WsHandlers\<close> has one definition per
  method, \<open>WsSystem\<close> the transitions the event loop can make, \<open>Attribution\<close> the invariant,
  \<open>ConnectionServer\<close> the reachable states, \<open>Sessions\<close> and \<open>Deliveries\<close> the theorems on single operations.

  The SDK (\<open>src/actor-runtime.ts\<close>, \<open>identity-store.ts\<close>, \<open>manifest.ts\<close> and their neighbours): \<open>SdkState\<close>,
  \<open>SdkRuntime\<close> and \<open>SdkHandlers\<close> are the methods of \<open>ActorRuntime\<close> over one record of its fields, with what it
  sends, emits and answers as history; \<open>SdkSystem\<close> the transitions; \<open>SdkAuthority\<close> and \<open>SdkLiveness\<close> the
  theorems; \<open>SdkServer\<close> composes it with the connection server.

  The console: \<open>WebhookPayloads\<close> (\<open>lib/webhook-payloads.ts\<close>, \<open>lib/webhook-queue.ts\<close>), \<open>AdminConsole\<close> (state, the
  gate \<open>requireAdmin\<close>, forms), \<open>AdminActions\<close> and \<open>AdminEdits\<close> (the actions of
  \<open>app/admin/*/actions.ts\<close>), \<open>AdminLogic\<close> (two interpretations of one locale: an action is a run of
  the server's steps, and the journal is the queue), \<open>AdminSafety\<close> and \<open>AdminEffects\<close> the theorems.
  \<open>AdminConfig\<close> has the actions of the proxy and harness panels, \<open>ConfigSafety\<close> what they leave stored.

  Signing in: \<open>LoginState\<close> and \<open>Login\<close> (\<open>lib/user-login-channel.ts\<close>, \<open>lib/auth-config.ts\<close>, \<open>lib/sso.ts\<close>, the routes under
  \<open>app/api/public\<close>, \<open>app/welcome/actions.ts\<close>): the handshake rows, one definition per call, and a wallet session as a
  value between its messages. \<open>LoginSystem\<close> lets calls interleave at the waits where another can get in;
  \<open>LoginDemo\<close> runs one login. \<open>LoginSafety\<close>: a session needs a proof of its DID; \<open>LoginBindings\<close>: external identities
  stay bound; \<open>LoginEffects\<close>: keys and wallet sessions end; \<open>LoginRedeem\<close>: invitations and provider logins.

  Integrations: \<open>Integrations\<close> (the tables of webhooks, channels and models, \<open>lib/apprise.ts\<close>, \<open>lib/litellm.ts\<close>,
  \<open>lib/model-providers.ts\<close>), \<open>IntegrationActions\<close> (\<open>app/admin/integrations/actions.ts\<close>) and \<open>IdentityActions\<close>
  (\<open>lib/sso-config.ts\<close>, \<open>app/admin/integrations/identity/actions.ts\<close>) work on one record, the hub: the portal, their
  tables, and the requests made so far. \<open>HubLogic\<close> extends the locale of \<open>AdminLogic\<close> to it, interpreted on one relation per
  theorem; \<open>HubSafety\<close>: credentials stay sealed and go to the proxy alone; \<open>HubEffects\<close>: the proxy's answers store
  nothing, an edit pushes what it should; \<open>HubConnections\<close>: a sign-in route is stored only after it was checked;
  \<open>HubDemo\<close> is the hub the examples run on.

  The relationship graph: \<open>ActorGraph\<close> (\<open>lib/actor-graph.ts\<close> and \<open>ego.ts\<close>, \<open>filters.ts\<close> of
  \<open>components/graph/actor-graph\<close>) assembles the estate or crawls outwards from one Actor. \<open>GraphSafety\<close>: a locale of
  crawls that go hop by hop, interpreted on the trimming of a graph and on the queries of the ego view, shows that
  the two reach the same Actors; nothing drawn lacks its ends.

  Confinement templates: \<open>SrtTemplates\<close> (\<open>db/srt-template.dao.ts\<close>, \<open>app/admin/certificates/templates/actions.ts\<close>,
  \<open>lib/srt-block.ts\<close>). \<open>TemplateSafety\<close>: they touch nothing of the console, a workspace has one default at most, and
  the settings builder loses no setting it does not know.

  The dispatcher: \<open>Notifications\<close> (\<open>packages/shared/src/webhooks.ts\<close>, \<open>src/render.ts\<close>), \<open>Dispatcher\<close> (\<open>src/delivery.ts\<close>,
  \<open>src/index.ts\<close>), \<open>DispatcherSafety\<close>.

  \<^bold>\<open>How the code is modelled.\<close> A class is a record of its fields and its methods are functions from
  record to record; an error is \<open>Inl\<close>. A handler is cut at an \<open>await\<close> only where something else can
  reach the maps it uses: the rest of it is then a task of the state, and the transition system runs
  tasks, frames, timers, closes and other writers of the database in any order. What is written before
  a throw stays written. Ids, clocks, cached values and the answers of services are arguments of a
  call. The identity library (keys, signatures, the challenger), the message packing, HTTP, and the queue are
  parameters; \<open>lawful_certlib\<close> names what is asked of the certificate library (a signature an identity makes verifies
  under it, and unpacking inverts packing), and an instance of it evaluates the examples.
  A character is a code unit below 256 and a number is an integer, except where a rational is written.

  \<^bold>\<open>What is proved.\<close> Lists of properties by part: names and envelopes are inverses of their parsers, and a
  signature never opens as another kind of certificate; permission is sound and complete over the
  certificates held; every write keeps the schema; a connection belongs to the DID its socket proved,
  and a frame writes only rows of such DIDs, in every reachable state; a signed status is the ledger row
  under the armed switches, and the SDK holds exactly that after the reply; a kill switch denies
  everything until something restores it; waiting checks are answered after finitely many time-outs; an
  action acts only for an administrator, is a run of the server and journals what it queues; a delivery
  job settles, reaches everybody before completing, and repeats nobody; a session is opened only for a
  DID whose handshake completed, a key opens one at most and an external identity never changes hands; what an
  Actor is sent verifies as what is stored, and what the panels store always loads; integration credentials are stored
  sealed, and no answer of the model proxy changes what is stored. Each theory also has theorems on
  the places where the code falls short of what it means to do, stated as the code behaves: they are
  not in the list of properties but in that of the findings.

  \<^bold>\<open>Bounds and fuel.\<close> No definition takes fuel. Recursion is structural or has a measure: the refresh of
  the SDK on the certificates still to ask, the sweep on at most a hundred rows, a queue job on the five
  attempts the program gives it. The one-connection lemmas need no bound on the number of steps.

  \<^bold>\<open>Not modelled.\<close> Pages and components (rendering); maps and the drawing of graphs; the simulator, the videos and the
  documentation site; the Go client and sensor, which are another language; the scripts and conformance
  generators; of the control plane, the presets and role mapping of identity providers, the location
  actions, and the reads that only pages make. Logging, message ids, cache revalidation and redirects are left
  out of the modelled functions.
\<close>

end
